(* ===== verification/Prelude.thy ===== *)
theory Prelude
  imports Main "HOL-Library.Multiset"
begin

text \<open>
  Generic vocabulary of the development: the result-and-state type of the service
  operations with its combinators, list helpers for the Rust iterator adaptors the
  code uses, stable sorting by a comparison, decimal text of machine integers, ASCII
  lower-casing.
\<close>

named_theorems prog_simps "unfolding of the program combinators"
named_theorems keeps_intros "introduction rules for preservation of an invariant"
named_theorems enum_simps "membership tests of the enum predicates"

section \<open>Programs with state and errors\<close>

text \<open>
  An asynchronous service method that returns a \<open>Result\<close> and mutates the store is a
  function from the store to the result and the new store. An error does not undo the
  writes made before it: exactly what a sequence of awaited statements without a
  transaction does.
\<close>

type_synonym ('s, 'e, 'a) prog = "'s \<Rightarrow> ('e + 'a) \<times> 's"

definition sret :: "'a \<Rightarrow> ('s, 'e, 'a) prog" where
  "sret a s = (Inr a, s)"

definition sfail :: "'e \<Rightarrow> ('s, 'e, 'a) prog" where
  "sfail e s = (Inl e, s)"

definition sget :: "('s \<Rightarrow> 'a) \<Rightarrow> ('s, 'e, 'a) prog" where
  "sget f s = (Inr (f s), s)"

definition smodify :: "('s \<Rightarrow> 's) \<Rightarrow> ('s, 'e, unit) prog" where
  "smodify f s = (Inr (), f s)"

definition sbind :: "('s, 'e, 'a) prog \<Rightarrow> ('a \<Rightarrow> ('s, 'e, 'b) prog) \<Rightarrow> ('s, 'e, 'b) prog" where
  "sbind m f s = (case m s of (Inl e, t) \<Rightarrow> (Inl e, t) | (Inr a, t) \<Rightarrow> f a t)"

text \<open>\<open>ok_or_else(..)?\<close> on an optional value, and the lifting of a pure result.\<close>

definition sneed :: "'e \<Rightarrow> 'a option \<Rightarrow> ('s, 'e, 'a) prog" where
  "sneed e x = (case x of None \<Rightarrow> sfail e | Some a \<Rightarrow> sret a)"

definition slift :: "'e + 'a \<Rightarrow> ('s, 'e, 'a) prog" where
  "slift r s = (r, s)"

text \<open>The result of a program as a value: \<open>match op.await { Ok(..) => .., Err(..) => .. }\<close>.\<close>

definition sattempt :: "('s, 'e, 'a) prog \<Rightarrow> ('s, 'e, 'e + 'a) prog" where
  "sattempt m s = (Inr (fst (m s)), snd (m s))"

text \<open>A \<open>for\<close> loop whose body may fail, and one that collects the results.\<close>

fun sfor :: "('x \<Rightarrow> ('s, 'e, unit) prog) \<Rightarrow> 'x list \<Rightarrow> ('s, 'e, unit) prog" where
  "sfor f [] = sret ()"
| "sfor f (x # xs) = sbind (f x) (\<lambda>_. sfor f xs)"

fun smap :: "('x \<Rightarrow> ('s, 'e, 'a) prog) \<Rightarrow> 'x list \<Rightarrow> ('s, 'e, 'a list) prog" where
  "smap f [] = sret []"
| "smap f (x # xs) = sbind (f x) (\<lambda>a. sbind (smap f xs) (\<lambda>as. sret (a # as)))"

lemma sret_run [simp, prog_simps]: "sret a s = (Inr a, s)" by (simp add: sret_def)
lemma sfail_run [simp, prog_simps]: "sfail e s = (Inl e, s)" by (simp add: sfail_def)
lemma sget_run [simp, prog_simps]: "sget f s = (Inr (f s), s)" by (simp add: sget_def)
lemma smodify_run [simp, prog_simps]: "smodify f s = (Inr (), f s)" by (simp add: smodify_def)
lemma slift_run [simp, prog_simps]: "slift r s = (r, s)" by (simp add: slift_def)

lemma sattempt_run [simp, prog_simps]: "sattempt m s = (Inr (fst (m s)), snd (m s))" by (simp add: sattempt_def)

lemma sneed_simps [simp, prog_simps]:
  "sneed e None = sfail e" "sneed e (Some a) = sret a"
  by (simp_all add: sneed_def)

lemma sbind_err [simp, prog_simps]: "m s = (Inl e, t) \<Longrightarrow> sbind m f s = (Inl e, t)"
  by (simp add: sbind_def)

lemma sbind_ok [simp, prog_simps]: "m s = (Inr a, t) \<Longrightarrow> sbind m f s = f a t"
  by (simp add: sbind_def)

lemma sbind_sfail [simp]: "sbind (sfail e) f = sfail e"
  by (rule ext) simp

lemma sbind_sret [simp]: "sbind (sret a) f = f a"
  by (rule ext) simp

lemma sbind_assoc: "sbind (sbind m f) g = sbind m (\<lambda>x. sbind (f x) g)"
  by (rule ext) (simp add: sbind_def split: prod.splits sum.splits)

lemma sbind_okE:
  assumes "sbind m f s = (Inr b, u)"
  obtains a t where "m s = (Inr a, t)" and "f a t = (Inr b, u)"
  using assms by (auto simp: sbind_def split: prod.splits sum.splits)

lemma sbind_errE:
  assumes "sbind m f s = (Inl e, u)"
  obtains (left) "m s = (Inl e, u)"
    | (right) a t where "m s = (Inr a, t)" and "f a t = (Inl e, u)"
  using assms by (auto simp: sbind_def split: prod.splits sum.splits)

text \<open>
  \<open>keeps I m\<close>: the program preserves \<open>I\<close> on every path, the failing ones included.
\<close>

definition keeps :: "('s \<Rightarrow> bool) \<Rightarrow> ('s, 'e, 'a) prog \<Rightarrow> bool" where
  "keeps I m \<longleftrightarrow> (\<forall>s. I s \<longrightarrow> I (snd (m s)))"

lemma keepsI [intro?]: "(\<And>s. I s \<Longrightarrow> I (snd (m s))) \<Longrightarrow> keeps I m"
  by (simp add: keeps_def)

lemma keepsD: "keeps I m \<Longrightarrow> I s \<Longrightarrow> m s = (r, t) \<Longrightarrow> I t"
  by (auto simp: keeps_def dest: spec[of _ s])

lemma keeps_sret [keeps_intros]: "keeps I (sret a)" by (simp add: keeps_def)
lemma keeps_sfail [keeps_intros]: "keeps I (sfail e)" by (simp add: keeps_def)
lemma keeps_sattempt [keeps_intros]: "keeps I m \<Longrightarrow> keeps I (sattempt m)" by (simp add: keeps_def)
lemma keeps_sget [keeps_intros]: "keeps I (sget f)" by (simp add: keeps_def)
lemma keeps_slift [keeps_intros]: "keeps I (slift r)" by (simp add: keeps_def)

lemma keeps_sneed [keeps_intros]: "keeps I (sneed e x)"
  by (cases x) (simp_all add: keeps_def)

lemma keeps_sbind [keeps_intros]:
  assumes "keeps I m" and "\<And>a. keeps I (f a)"
  shows "keeps I (sbind m f)"
proof
  fix s assume s: "I s"
  show "I (snd (sbind m f s))"
  proof (cases "m s")
    case (Pair r t)
    with assms(1) s have t: "I t" by (blast dest: keepsD)
    with Pair assms(2) show ?thesis
      by (cases r) (auto simp: keeps_def)
  qed
qed

lemma keeps_if [keeps_intros]:
  "(b \<Longrightarrow> keeps I m) \<Longrightarrow> (\<not> b \<Longrightarrow> keeps I n) \<Longrightarrow> keeps I (if b then m else n)"
  by simp

lemma keeps_option [keeps_intros]:
  "(x = None \<Longrightarrow> keeps I m) \<Longrightarrow> (\<And>a. x = Some a \<Longrightarrow> keeps I (f a)) \<Longrightarrow>
   keeps I (case x of None \<Rightarrow> m | Some a \<Rightarrow> f a)"
  by (cases x) simp_all

lemma keeps_sfor: "(\<And>x. x \<in> set xs \<Longrightarrow> keeps I (f x)) \<Longrightarrow> keeps I (sfor f xs)"
  by (induction xs) (auto intro!: keeps_intros)

lemma keeps_smap: "(\<And>x. x \<in> set xs \<Longrightarrow> keeps I (f x)) \<Longrightarrow> keeps I (smap f xs)"
  by (induction xs) (auto intro!: keeps_intros)

text \<open>
  \<open>triple P m Q E\<close>: from a state with \<open>P\<close> the program ends in \<open>Q\<close> of its result, or fails in \<open>E\<close>.
\<close>

definition triple :: "('s \<Rightarrow> bool) \<Rightarrow> ('s, 'e, 'a) prog \<Rightarrow> ('a \<Rightarrow> 's \<Rightarrow> bool) \<Rightarrow> ('s \<Rightarrow> bool) \<Rightarrow> bool" where
  "triple P m Q E \<longleftrightarrow> (\<forall>s. P s \<longrightarrow> (case m s of (Inl e, t) \<Rightarrow> E t | (Inr a, t) \<Rightarrow> Q a t))"

lemma tripleI:
  assumes "\<And>s e t. P s \<Longrightarrow> m s = (Inl e, t) \<Longrightarrow> E t" and "\<And>s a t. P s \<Longrightarrow> m s = (Inr a, t) \<Longrightarrow> Q a t"
  shows "triple P m Q E"
  using assms by (auto simp: triple_def split: prod.splits sum.splits)

lemma triple_ok: "triple P m Q E \<Longrightarrow> P s \<Longrightarrow> m s = (Inr a, t) \<Longrightarrow> Q a t"
  by (auto simp: triple_def dest: spec [of _ s])

lemma triple_err: "triple P m Q E \<Longrightarrow> P s \<Longrightarrow> m s = (Inl e, t) \<Longrightarrow> E t"
  by (auto simp: triple_def dest: spec [of _ s])

lemma triple_conseq:
  assumes "triple P m Q E" and "\<And>s. P' s \<Longrightarrow> P s" and "\<And>a s. Q a s \<Longrightarrow> Q' a s" and "\<And>s. E s \<Longrightarrow> E' s"
  shows "triple P' m Q' E'"
  using assms by (intro tripleI) (blast dest: triple_ok triple_err)+

lemma triple_sbind:
  assumes "triple P m R E" and "\<And>a. triple (R a) (f a) Q E"
  shows "triple P (sbind m f) Q E"
proof (rule tripleI)
  show "E t" if "P s" "sbind m f s = (Inl e, t)" for s e t
    using that(2) by (rule sbind_errE) (use assms that(1) in \<open>blast dest: triple_ok triple_err\<close>)+
  show "Q b t" if "P s" "sbind m f s = (Inr b, t)" for s b t
    using that(2) by (rule sbind_okE) (use assms that(1) in \<open>blast dest: triple_ok\<close>)
qed

lemma triple_sret: "(\<And>s. P s \<Longrightarrow> Q a s) \<Longrightarrow> triple P (sret a) Q E"
  by (simp add: triple_def)

lemma triple_sfail: "(\<And>s. P s \<Longrightarrow> E s) \<Longrightarrow> triple P (sfail e) Q E"
  by (simp add: triple_def)

lemma triple_sget: "(\<And>s. P s \<Longrightarrow> Q (f s) s) \<Longrightarrow> triple P (sget f) Q E"
  by (simp add: triple_def)

lemma triple_sneed:
  assumes "\<And>s. P s \<Longrightarrow> x = None \<Longrightarrow> E s" and "\<And>s a. P s \<Longrightarrow> x = Some a \<Longrightarrow> Q a s"
  shows "triple P (sneed e x) Q E"
  using assms by (cases x) (simp_all add: triple_def)

lemma triple_slift:
  assumes "\<And>s e. P s \<Longrightarrow> r = Inl e \<Longrightarrow> E s" and "\<And>s a. P s \<Longrightarrow> r = Inr a \<Longrightarrow> Q a s"
  shows "triple P (slift r) Q E"
  using assms by (cases r) (simp_all add: triple_def)

lemma triple_if:
  assumes "b \<Longrightarrow> triple P m Q E" and "\<not> b \<Longrightarrow> triple P n Q E"
  shows "triple P (if b then m else n) Q E"
  using assms by simp

lemma triple_pre: "(\<And>s. P s \<Longrightarrow> triple (\<lambda>t. t = s) m Q E) \<Longrightarrow> triple P m Q E"
  by (auto simp: triple_def)

lemma triple_conj:
  assumes "triple P m Q E" and "triple P' m Q' E'"
  shows "triple (\<lambda>s. P s \<and> P' s) m (\<lambda>a s. Q a s \<and> Q' a s) (\<lambda>s. E s \<and> E' s)"
  using assms by (intro tripleI) (blast dest: triple_ok triple_err)+

lemma triple_frame:
  assumes "triple P m Q E" and "keeps F m"
  shows "triple (\<lambda>s. P s \<and> F s) m (\<lambda>a s. Q a s \<and> F s) E"
  using assms unfolding keeps_def by (intro tripleI) (metis snd_conv triple_ok triple_err)+

lemma triple_keeps: "keeps I m \<longleftrightarrow> triple I m (\<lambda>_. I) I"
  by (simp add: keeps_def triple_def split_def sum.case_eq_if)

section \<open>Lists\<close>

text \<open>\<open>slice.chunks(2)\<close>: consecutive pairs, the last one possibly shorter.\<close>

fun chunks2 :: "'a list \<Rightarrow> 'a list list" where
  "chunks2 [] = []"
| "chunks2 [x] = [[x]]"
| "chunks2 (x # y # zs) = [x, y] # chunks2 zs"

lemma concat_chunks2: "concat (chunks2 xs) = xs"
  by (induction xs rule: chunks2.induct) auto

lemma length_chunks2: "length (chunks2 xs) = (length xs + 1) div 2"
  by (induction xs rule: chunks2.induct) auto

lemma chunks2_even: "even (length xs) \<Longrightarrow> c \<in> set (chunks2 xs) \<Longrightarrow> length c = 2"
  by (induction xs rule: chunks2.induct) auto

lemma chunks2_nth:
  "even (length xs) \<Longrightarrow> i < length xs div 2 \<Longrightarrow> chunks2 xs ! i = [xs ! (2 * i), xs ! (2 * i + 1)]"
proof (induction xs arbitrary: i rule: chunks2.induct)
  case (3 x y zs)
  then show ?case by (cases i) auto
qed auto

lemma enumerate_snd_mem: "(i, x) \<in> set (enumerate n xs) \<Longrightarrow> x \<in> set xs"
  by (auto simp: in_set_enumerate_eq)

lemma enumerate_ex_mem: "x \<in> set xs \<Longrightarrow> \<exists>i. (i, x) \<in> set (enumerate n xs)"
proof -
  assume "x \<in> set xs"
  then obtain j where "j < length xs" "xs ! j = x" by (auto simp: in_set_conv_nth)
  then have "(n + j, x) \<in> set (enumerate n xs)" by (simp add: in_set_enumerate_eq)
  then show ?thesis by blast
qed

text \<open>\<open>slice.get(i)\<close>: the element, or nothing past the end.\<close>

definition list_get :: "'a list \<Rightarrow> nat \<Rightarrow> 'a option" where
  "list_get xs i = (if i < length xs then Some (xs ! i) else None)"

lemma list_get_simps [simp]:
  "list_get xs i = None \<longleftrightarrow> length xs \<le> i"
  "i < length xs \<Longrightarrow> list_get xs i = Some (xs ! i)"
  "list_get xs i = Some x \<longleftrightarrow> i < length xs \<and> x = xs ! i"
  by (auto simp: list_get_def)

text \<open>
  Stable sorting by a comparison \<open>le a b\<close> (\<open>sort_by\<close> with \<open>cmp a b\<close> other than
  \<open>Greater\<close>): equal elements keep their order.
\<close>

fun insert_by :: "('a \<Rightarrow> 'a \<Rightarrow> bool) \<Rightarrow> 'a \<Rightarrow> 'a list \<Rightarrow> 'a list" where
  "insert_by le x [] = [x]"
| "insert_by le x (y # ys) = (if le x y then x # y # ys else y # insert_by le x ys)"

definition sort_by :: "('a \<Rightarrow> 'a \<Rightarrow> bool) \<Rightarrow> 'a list \<Rightarrow> 'a list" where
  "sort_by le xs = foldr (insert_by le) xs []"

lemma mset_insert_by [simp]: "mset (insert_by le x xs) = add_mset x (mset xs)"
  by (induction xs) auto

lemma sort_by_Nil [simp]: "sort_by le [] = []" by (simp add: sort_by_def)

lemma sort_by_Cons: "sort_by le (x # xs) = insert_by le x (sort_by le xs)"
  by (simp add: sort_by_def)

lemma mset_sort_by [simp]: "mset (sort_by le xs) = mset xs"
  by (induction xs) (simp_all add: sort_by_Cons)

lemma set_sort_by [simp]: "set (sort_by le xs) = set xs"
  by (metis mset_sort_by set_mset_mset)

lemma length_sort_by [simp]: "length (sort_by le xs) = length xs"
  by (metis mset_sort_by size_mset)

lemma distinct_map_sort_by [simp]: "distinct (map f (sort_by le xs)) = distinct (map f xs)"
  by (metis mset_map mset_sort_by mset_eq_imp_distinct_iff)

lemma set_insert_by [simp]: "set (insert_by le x xs) = insert x (set xs)"
  by (induction xs) auto

lemma sorted_insert_by:
  assumes "\<And>x y. le x y \<or> le y x" and "\<And>x y z. le x y \<Longrightarrow> le y z \<Longrightarrow> le x z"
  shows "sorted_wrt le xs \<Longrightarrow> sorted_wrt le (insert_by le x xs)"
proof (induction xs)
  case (Cons y ys)
  show ?case
  proof (cases "le x y")
    case True
    with Cons.prems show ?thesis by (auto intro: assms(2))
  next
    case False
    with assms(1) have "le y x" by blast
    with False Cons show ?thesis by auto
  qed
qed simp

lemma sorted_sort_by:
  assumes "\<And>x y. le x y \<or> le y x" and "\<And>x y z. le x y \<Longrightarrow> le y z \<Longrightarrow> le x z"
  shows "sorted_wrt le (sort_by le xs)"
proof (induction xs)
  case (Cons x xs)
  then show ?case by (simp add: sort_by_Cons sorted_insert_by [OF assms])
qed simp

section \<open>Text\<close>

text \<open>
  \<open>str::to_lowercase\<close> on ASCII text, which is what the stored enum texts are.
\<close>

definition lower_char :: "char \<Rightarrow> char" where
  "lower_char c =
     (if 65 \<le> (of_char c :: nat) \<and> (of_char c :: nat) \<le> 90 then char_of ((of_char c :: nat) + 32) else c)"

definition to_lowercase :: "string \<Rightarrow> string" where
  "to_lowercase s = map lower_char s"

text \<open>Decimal text of unsigned and signed integers, and the parser of \<open>i32\<close>.\<close>

definition digit_char :: "nat \<Rightarrow> char" where
  "digit_char d = char_of (48 + d)"

fun show_nat :: "nat \<Rightarrow> string" where
  "show_nat n = (if n < 10 then [digit_char n] else show_nat (n div 10) @ [digit_char (n mod 10)])"

declare show_nat.simps [simp del]

definition show_int :: "int \<Rightarrow> string" where
  "show_int i = (if i < 0 then CHR ''-'' # show_nat (nat (- i)) else show_nat (nat i))"

definition digit_value :: "char \<Rightarrow> nat option" where
  "digit_value c = (let n = (of_char c :: nat) in if 48 \<le> n \<and> n \<le> 57 then Some (n - 48) else None)"

fun digits_value :: "nat \<Rightarrow> string \<Rightarrow> nat option" where
  "digits_value a [] = Some a"
| "digits_value a (c # cs) =
     (case digit_value c of None \<Rightarrow> None | Some d \<Rightarrow> digits_value (10 * a + d) cs)"

definition parse_nat :: "string \<Rightarrow> nat option" where
  "parse_nat s = (if s = [] then None else digits_value 0 s)"

definition i32_range :: "int \<Rightarrow> bool" where
  "i32_range i \<longleftrightarrow> - (2 ^ 31) \<le> i \<and> i < 2 ^ 31"

definition parse_i32 :: "string \<Rightarrow> int option" where
  "parse_i32 s =
     (let v = (case s of
                 [] \<Rightarrow> None
               | c # cs \<Rightarrow>
                   if c = CHR ''-'' then map_option (\<lambda>n. - int n) (parse_nat cs)
                   else if c = CHR ''+'' then map_option int (parse_nat cs)
                   else map_option int (parse_nat s))
      in case v of None \<Rightarrow> None | Some i \<Rightarrow> if i32_range i then Some i else None)"

section \<open>Decimal text is unambiguous\<close>

definition is_digit :: "char \<Rightarrow> bool" where
  "is_digit c \<longleftrightarrow> digit_value c \<noteq> None"

lemma digit_value_digit_char [simp]: "d < 10 \<Longrightarrow> digit_value (digit_char d) = Some d"
  by (simp add: digit_value_def digit_char_def)

lemma is_digit_digit_char [simp]: "d < 10 \<Longrightarrow> is_digit (digit_char d)"
  by (simp add: is_digit_def)

lemma digits_value_append:
  "digits_value a (xs @ ys) = (case digits_value a xs of None \<Rightarrow> None | Some b \<Rightarrow> digits_value b ys)"
  by (induction xs arbitrary: a) (auto split: option.splits)

lemma digits_value_show_nat: "digits_value 0 (show_nat n) = Some n"
proof (induction n rule: show_nat.induct)
  case (1 n)
  then show ?case
    by (subst show_nat.simps) (auto simp: digits_value_append)
qed

lemma show_nat_not_Nil [simp]: "show_nat n \<noteq> []"
  by (subst show_nat.simps) simp

lemma parse_nat_show_nat [simp]: "parse_nat (show_nat n) = Some n"
  by (simp add: parse_nat_def digits_value_show_nat)

lemma show_nat_inject [simp]: "show_nat m = show_nat n \<longleftrightarrow> m = n"
  by (metis option.inject parse_nat_show_nat)

lemma show_nat_digits: "c \<in> set (show_nat n) \<Longrightarrow> is_digit c"
proof (induction n arbitrary: c rule: show_nat.induct)
  case (1 n)
  from "1.prems" show ?case
    by (subst (asm) show_nat.simps) (auto split: if_splits dest: "1.IH")
qed

text \<open>Text after a number is determined as soon as it does not start with a digit.\<close>

lemma show_nat_append_inject:
  assumes "\<not> is_digit c" and "\<not> is_digit d"
  shows "show_nat m @ c # xs = show_nat n @ d # ys \<longleftrightarrow> m = n \<and> c = d \<and> xs = ys"
proof
  assume eq: "show_nat m @ c # xs = show_nat n @ d # ys"
  have t: "takeWhile is_digit (show_nat k @ e # zs) = show_nat k" if "\<not> is_digit e" for k e zs
    using that by (subst takeWhile_append2) (auto dest: show_nat_digits)
  have "show_nat m = show_nat n"
    using eq t assms by metis
  with eq show "m = n \<and> c = d \<and> xs = ys" by simp
qed simp

lemma show_nat_head:
  obtains c cs where "show_nat n = c # cs" and "is_digit c"
  by (metis list.exhaust list.set_intros(1) show_nat_digits show_nat_not_Nil)

lemma not_digit_letters [simp]:
  "\<not> is_digit (CHR ''M'')" "\<not> is_digit (CHR ''R'')" "\<not> is_digit (CHR ''-'')" "\<not> is_digit (CHR ''+'')"
  "\<not> is_digit (CHR ''_'')"
  by (simp_all add: is_digit_def digit_value_def)

lemma parse_i32_show_int: "i32_range i \<Longrightarrow> parse_i32 (show_int i) = Some i"
proof (cases "i < 0")
  case False
  assume "i32_range i"
  obtain c cs where c: "show_nat (nat i) = c # cs" "is_digit c"
    by (rule show_nat_head)
  then have "c \<noteq> CHR ''-''" "c \<noteq> CHR ''+''" by auto
  then have "parse_i32 (c # cs) = (if i32_range (int (nat i)) then Some (int (nat i)) else None)"
    using c(1) parse_nat_show_nat[of "nat i"] by (simp add: parse_i32_def Let_def)
  with False \<open>i32_range i\<close> c(1) show ?thesis by (simp add: show_int_def)
qed (simp add: show_int_def parse_i32_def Let_def)

lemma show_int_inject [simp]: "show_int i = show_int j \<longleftrightarrow> i = j"
proof
  assume eq: "show_int i = show_int j"
  have "hd (show_nat n) \<noteq> CHR ''-''" for n
    by (metis list.sel(1) not_digit_letters(3) show_nat_head)
  then have neq: "show_nat n \<noteq> CHR ''-'' # show_nat m" for m n
    by (metis list.sel(1))
  from eq neq neq[symmetric] show "i = j"
    by (auto simp: show_int_def split: if_splits)
qed simp

section \<open>Splitting text\<close>

text \<open>\<open>str::split(c)\<close>: the pieces between the separators, always at least one.\<close>

fun split_on :: "char \<Rightarrow> string \<Rightarrow> string list" where
  "split_on c [] = [[]]"
| "split_on c (x # xs) =
     (if x = c then [] # split_on c xs
      else case split_on c xs of [] \<Rightarrow> [[x]] | p # ps \<Rightarrow> (x # p) # ps)"

text \<open>\<open>str::strip_prefix\<close>.\<close>

fun strip_prefix :: "string \<Rightarrow> string \<Rightarrow> string option" where
  "strip_prefix [] s = Some s"
| "strip_prefix (p # ps) [] = None"
| "strip_prefix (p # ps) (c # cs) = (if p = c then strip_prefix ps cs else None)"

end
