(* ===== verification/Codec.thy ===== *)
theory Codec
  imports Prelude
begin

text \<open>
  The two interfaces of the status and format enums. A codec ties the text an enum is
  stored as (\<open>Display\<close>, the SQL column and the JSON tag) to its parser (\<open>FromStr\<close>): every
  row written can be read back. A strict codec also says what the parser accepts: the
  stored text in any letter case, and nothing else. A status machine is an enum with a
  list of successors and a test for the final statuses; a ranked one cannot cycle.
\<close>

lemma lower_char_id [simp]:
  "90 < (of_char c :: nat) \<or> (of_char c :: nat) < 65 \<Longrightarrow> lower_char c = c"
  by (auto simp: lower_char_def)

lemma to_lowercase_Nil [simp]: "to_lowercase [] = []"
  by (simp add: to_lowercase_def)

lemma to_lowercase_Cons [simp]: "to_lowercase (c # s) = lower_char c # to_lowercase s"
  by (simp add: to_lowercase_def)

lemma to_lowercase_append: "to_lowercase (s @ t) = to_lowercase s @ to_lowercase t"
  by (simp add: to_lowercase_def)

lemma lower_char_idem [simp]: "lower_char (lower_char c) = lower_char c"
  by (auto simp: lower_char_def)

lemma to_lowercase_idem [simp]: "to_lowercase (to_lowercase s) = to_lowercase s"
  by (induction s) auto

section \<open>Codecs\<close>

locale text_codec =
  fixes render :: "'a \<Rightarrow> string" and parse :: "string \<Rightarrow> string + 'a"
  assumes parse_render: "parse (render x) = Inr x"
begin

lemma render_inj: "render x = render y \<longleftrightarrow> x = y"
  by (metis parse_render sum.inject(2))

lemma map_parse_render: "map parse (map render xs) = map Inr xs"
  by (simp add: parse_render)

end

locale strict_codec = text_codec +
  assumes parse_iff: "parse s = Inr x \<longleftrightarrow> to_lowercase s = render x"
begin

lemma render_lower: "to_lowercase (render x) = render x"
  using parse_render parse_iff by blast

lemma parse_lower: "parse (to_lowercase s) = Inr x \<longleftrightarrow> parse s = Inr x"
  by (simp add: parse_iff)

lemma parse_rejects: "(\<forall>x. parse s \<noteq> Inr x) \<longleftrightarrow> to_lowercase s \<notin> range render"
  by (auto simp: parse_iff)

end

lemma strict_codecI:
  assumes "\<And>x. to_lowercase (render x) = render x"
    and "\<And>x s. parse s = Inr x \<longleftrightarrow> to_lowercase s = render x"
  shows "strict_codec render parse"
  by unfold_locales (simp_all add: assms)

text \<open>An exact codec: the parser accepts the stored texts as they are and nothing else.\<close>

locale exact_codec = text_codec +
  assumes parse_exact: "parse s = Inr x \<longleftrightarrow> s = render x"
begin

lemma parse_rejects: "(\<forall>x. parse s \<noteq> Inr x) \<longleftrightarrow> s \<notin> range render"
  by (auto simp: parse_exact)

end

lemma exact_codecI: "(\<And>x s. parse s = Inr x \<longleftrightarrow> s = render x) \<Longrightarrow> exact_codec render parse"
  by unfold_locales simp_all

section \<open>Status machines\<close>

text \<open>\<open>chain nxt s ss\<close>: the statuses \<open>ss\<close> are visited one after the other from \<open>s\<close>.\<close>

fun chain :: "('s \<Rightarrow> 's list) \<Rightarrow> 's \<Rightarrow> 's list \<Rightarrow> bool" where
  "chain nxt s [] \<longleftrightarrow> True"
| "chain nxt s (t # ts) \<longleftrightarrow> t \<in> set (nxt s) \<and> chain nxt t ts"

lemma chain_append: "chain nxt s (ts @ us) \<longleftrightarrow> chain nxt s ts \<and> chain nxt (last (s # ts)) us"
  by (induction ts arbitrary: s) auto

locale status_machine =
  fixes nxt :: "'s \<Rightarrow> 's list" and final :: "'s \<Rightarrow> bool"
  assumes final_iff: "final s \<longleftrightarrow> nxt s = []"
begin

lemma final_chain: "final s \<Longrightarrow> chain nxt s ts \<longleftrightarrow> ts = []"
  by (cases ts) (auto simp: final_iff)

lemma chain_final_last: "chain nxt s (ts @ t # us) \<Longrightarrow> final t \<Longrightarrow> us = []"
  by (auto simp: chain_append final_chain)

end

locale ranked_machine = status_machine +
  fixes rank :: "'s \<Rightarrow> nat"
  assumes rank_dec: "t \<in> set (nxt s) \<Longrightarrow> rank t < rank s"
begin

lemma chain_rank: "chain nxt s ts \<Longrightarrow> t \<in> set ts \<Longrightarrow> rank t < rank s"
  by (induction ts arbitrary: s) (auto dest: rank_dec less_trans)

lemma chain_length: "chain nxt s ts \<Longrightarrow> length ts \<le> rank s"
proof (induction ts arbitrary: s)
  case (Cons t ts)
  then have "rank t < rank s" and "length ts \<le> rank t" by (auto dest: rank_dec)
  then show ?case by simp
qed simp

lemma chain_distinct: "chain nxt s ts \<Longrightarrow> distinct (s # ts)"
proof (induction ts arbitrary: s)
  case (Cons t ts)
  then have "s \<notin> set (t # ts)" using chain_rank by blast
  with Cons show ?case by auto
qed simp

end

end
