(* ===== verification/CoreTypes.thy ===== *)
theory CoreTypes
  imports Codec
begin

text \<open>
  The enums of \<open>portal-core/src/types/tournament.rs\<close> (and the tournament status of
  \<open>status.rs\<close>): constructors, stored text (\<open>Display\<close>), parser (\<open>FromStr\<close>), the status
  predicates the services guard on and the transition tables. Every enum with a text form
  is an instance of the strict codec; the match status, the tournament status and the
  proposal status are status machines.
\<close>

section \<open>Enums\<close>

datatype TournamentFormat = SingleElimination | DoubleElimination | RoundRobin | Swiss | GroupsAndPlayoffs

fun TournamentFormat_to_string :: "TournamentFormat \<Rightarrow> string" where
  "TournamentFormat_to_string TournamentFormat.SingleElimination = ''single_elimination''"
| "TournamentFormat_to_string TournamentFormat.DoubleElimination = ''double_elimination''"
| "TournamentFormat_to_string TournamentFormat.RoundRobin = ''round_robin''"
| "TournamentFormat_to_string TournamentFormat.Swiss = ''swiss''"
| "TournamentFormat_to_string TournamentFormat.GroupsAndPlayoffs = ''groups_and_playoffs''"

definition TournamentFormat_from_str :: "string \<Rightarrow> string + TournamentFormat" where
  "TournamentFormat_from_str s = (let l = to_lowercase s in
     if l = ''single_elimination'' then Inr TournamentFormat.SingleElimination
     else if l = ''double_elimination'' then Inr TournamentFormat.DoubleElimination
     else if l = ''round_robin'' then Inr TournamentFormat.RoundRobin
     else if l = ''swiss'' then Inr TournamentFormat.Swiss
     else if l = ''groups_and_playoffs'' then Inr TournamentFormat.GroupsAndPlayoffs
     else Inl (''invalid tournament format: '' @ s))"

definition TournamentFormat_has_losers_bracket :: "TournamentFormat \<Rightarrow> bool" where
  "TournamentFormat_has_losers_bracket s \<longleftrightarrow> s \<in> {TournamentFormat.DoubleElimination}"

definition TournamentFormat_uses_standings :: "TournamentFormat \<Rightarrow> bool" where
  "TournamentFormat_uses_standings s \<longleftrightarrow> s \<in> {TournamentFormat.RoundRobin, TournamentFormat.Swiss, TournamentFormat.GroupsAndPlayoffs}"

definition TournamentFormat_supports_byes :: "TournamentFormat \<Rightarrow> bool" where
  "TournamentFormat_supports_byes s \<longleftrightarrow> s \<in> {TournamentFormat.SingleElimination, TournamentFormat.DoubleElimination}"

datatype TournamentParticipantType = Team | Individual | AdHoc

fun TournamentParticipantType_to_string :: "TournamentParticipantType \<Rightarrow> string" where
  "TournamentParticipantType_to_string TournamentParticipantType.Team = ''team''"
| "TournamentParticipantType_to_string TournamentParticipantType.Individual = ''individual''"
| "TournamentParticipantType_to_string TournamentParticipantType.AdHoc = ''adhoc''"

definition TournamentParticipantType_from_str :: "string \<Rightarrow> string + TournamentParticipantType" where
  "TournamentParticipantType_from_str s = (let l = to_lowercase s in
     if l = ''team'' then Inr TournamentParticipantType.Team
     else if l = ''individual'' then Inr TournamentParticipantType.Individual
     else if l = ''adhoc'' then Inr TournamentParticipantType.AdHoc
     else Inl (''invalid participant type: '' @ s))"

definition TournamentParticipantType_requires_team_size :: "TournamentParticipantType \<Rightarrow> bool" where
  "TournamentParticipantType_requires_team_size s \<longleftrightarrow> s \<in> {TournamentParticipantType.Team, TournamentParticipantType.AdHoc}"

datatype TournamentKind = Standard | Pug

fun TournamentKind_to_string :: "TournamentKind \<Rightarrow> string" where
  "TournamentKind_to_string TournamentKind.Standard = ''standard''"
| "TournamentKind_to_string TournamentKind.Pug = ''pug''"

definition TournamentKind_from_str :: "string \<Rightarrow> string + TournamentKind" where
  "TournamentKind_from_str s = (let l = to_lowercase s in
     if l = ''standard'' then Inr TournamentKind.Standard
     else if l = ''pug'' then Inr TournamentKind.Pug
     else Inl (''invalid tournament kind: '' @ s))"

datatype RegistrationType = Open | InviteOnly | Qualification | Approval

fun RegistrationType_to_string :: "RegistrationType \<Rightarrow> string" where
  "RegistrationType_to_string RegistrationType.Open = ''open''"
| "RegistrationType_to_string RegistrationType.InviteOnly = ''invite_only''"
| "RegistrationType_to_string RegistrationType.Qualification = ''qualification''"
| "RegistrationType_to_string RegistrationType.Approval = ''approval''"

definition RegistrationType_from_str :: "string \<Rightarrow> string + RegistrationType" where
  "RegistrationType_from_str s = (let l = to_lowercase s in
     if l = ''open'' then Inr RegistrationType.Open
     else if l = ''invite_only'' then Inr RegistrationType.InviteOnly
     else if l = ''qualification'' then Inr RegistrationType.Qualification
     else if l = ''approval'' then Inr RegistrationType.Approval
     else Inl (''invalid registration type: '' @ s))"

definition RegistrationType_requires_approval :: "RegistrationType \<Rightarrow> bool" where
  "RegistrationType_requires_approval s \<longleftrightarrow> s \<in> {RegistrationType.InviteOnly, RegistrationType.Qualification, RegistrationType.Approval}"

definition RegistrationType_requires_invitation :: "RegistrationType \<Rightarrow> bool" where
  "RegistrationType_requires_invitation s \<longleftrightarrow> s \<in> {RegistrationType.InviteOnly}"

datatype TournamentInvitationStatus = Pending | Accepted | Revoked

fun TournamentInvitationStatus_to_string :: "TournamentInvitationStatus \<Rightarrow> string" where
  "TournamentInvitationStatus_to_string TournamentInvitationStatus.Pending = ''pending''"
| "TournamentInvitationStatus_to_string TournamentInvitationStatus.Accepted = ''accepted''"
| "TournamentInvitationStatus_to_string TournamentInvitationStatus.Revoked = ''revoked''"

definition TournamentInvitationStatus_from_str :: "string \<Rightarrow> string + TournamentInvitationStatus" where
  "TournamentInvitationStatus_from_str s = (let l = to_lowercase s in
     if l = ''pending'' then Inr TournamentInvitationStatus.Pending
     else if l = ''accepted'' then Inr TournamentInvitationStatus.Accepted
     else if l = ''revoked'' then Inr TournamentInvitationStatus.Revoked
     else Inl (''invalid tournament invitation status: '' @ s))"

definition TournamentInvitationStatus_permits_registration :: "TournamentInvitationStatus \<Rightarrow> bool" where
  "TournamentInvitationStatus_permits_registration s \<longleftrightarrow> s \<in> {TournamentInvitationStatus.Pending, TournamentInvitationStatus.Accepted}"

datatype SchedulingMode = Live | SelfScheduled | Hybrid

fun SchedulingMode_to_string :: "SchedulingMode \<Rightarrow> string" where
  "SchedulingMode_to_string SchedulingMode.Live = ''live''"
| "SchedulingMode_to_string SchedulingMode.SelfScheduled = ''self_scheduled''"
| "SchedulingMode_to_string SchedulingMode.Hybrid = ''hybrid''"

definition SchedulingMode_from_str :: "string \<Rightarrow> string + SchedulingMode" where
  "SchedulingMode_from_str s = (let l = to_lowercase s in
     if l = ''live'' then Inr SchedulingMode.Live
     else if l = ''self_scheduled'' then Inr SchedulingMode.SelfScheduled
     else if l = ''hybrid'' then Inr SchedulingMode.Hybrid
     else Inl (''invalid scheduling mode: '' @ s))"

datatype TournamentMatchStatus = Pending | Ready | Scheduled | CheckingIn | PickBan | InProgress | AwaitingResult | Completed | Cancelled | Forfeit | Disputed

fun TournamentMatchStatus_to_string :: "TournamentMatchStatus \<Rightarrow> string" where
  "TournamentMatchStatus_to_string TournamentMatchStatus.Pending = ''pending''"
| "TournamentMatchStatus_to_string TournamentMatchStatus.Ready = ''ready''"
| "TournamentMatchStatus_to_string TournamentMatchStatus.Scheduled = ''scheduled''"
| "TournamentMatchStatus_to_string TournamentMatchStatus.CheckingIn = ''checking_in''"
| "TournamentMatchStatus_to_string TournamentMatchStatus.PickBan = ''pick_ban''"
| "TournamentMatchStatus_to_string TournamentMatchStatus.InProgress = ''in_progress''"
| "TournamentMatchStatus_to_string TournamentMatchStatus.AwaitingResult = ''awaiting_result''"
| "TournamentMatchStatus_to_string TournamentMatchStatus.Completed = ''completed''"
| "TournamentMatchStatus_to_string TournamentMatchStatus.Cancelled = ''cancelled''"
| "TournamentMatchStatus_to_string TournamentMatchStatus.Forfeit = ''forfeit''"
| "TournamentMatchStatus_to_string TournamentMatchStatus.Disputed = ''disputed''"

definition TournamentMatchStatus_from_str :: "string \<Rightarrow> string + TournamentMatchStatus" where
  "TournamentMatchStatus_from_str s = (let l = to_lowercase s in
     if l = ''pending'' then Inr TournamentMatchStatus.Pending
     else if l = ''ready'' then Inr TournamentMatchStatus.Ready
     else if l = ''scheduled'' then Inr TournamentMatchStatus.Scheduled
     else if l = ''checking_in'' then Inr TournamentMatchStatus.CheckingIn
     else if l = ''pick_ban'' then Inr TournamentMatchStatus.PickBan
     else if l = ''in_progress'' then Inr TournamentMatchStatus.InProgress
     else if l = ''awaiting_result'' then Inr TournamentMatchStatus.AwaitingResult
     else if l = ''completed'' then Inr TournamentMatchStatus.Completed
     else if l = ''cancelled'' then Inr TournamentMatchStatus.Cancelled
     else if l = ''forfeit'' then Inr TournamentMatchStatus.Forfeit
     else if l = ''disputed'' then Inr TournamentMatchStatus.Disputed
     else Inl (''invalid tournament match status: '' @ s))"

definition TournamentMatchStatus_is_terminal :: "TournamentMatchStatus \<Rightarrow> bool" where
  "TournamentMatchStatus_is_terminal s \<longleftrightarrow> s \<in> {TournamentMatchStatus.Completed, TournamentMatchStatus.Cancelled, TournamentMatchStatus.Forfeit}"

definition TournamentMatchStatus_can_start :: "TournamentMatchStatus \<Rightarrow> bool" where
  "TournamentMatchStatus_can_start s \<longleftrightarrow> s \<in> {TournamentMatchStatus.Ready, TournamentMatchStatus.Scheduled, TournamentMatchStatus.CheckingIn}"

definition TournamentMatchStatus_is_active :: "TournamentMatchStatus \<Rightarrow> bool" where
  "TournamentMatchStatus_is_active s \<longleftrightarrow> s \<in> {TournamentMatchStatus.CheckingIn, TournamentMatchStatus.PickBan, TournamentMatchStatus.InProgress, TournamentMatchStatus.AwaitingResult}"

definition TournamentMatchStatus_can_submit_result :: "TournamentMatchStatus \<Rightarrow> bool" where
  "TournamentMatchStatus_can_submit_result s \<longleftrightarrow> s \<in> {TournamentMatchStatus.InProgress, TournamentMatchStatus.AwaitingResult}"

definition TournamentMatchStatus_can_schedule :: "TournamentMatchStatus \<Rightarrow> bool" where
  "TournamentMatchStatus_can_schedule s \<longleftrightarrow> s \<in> {TournamentMatchStatus.Ready}"

definition TournamentMatchStatus_can_forfeit :: "TournamentMatchStatus \<Rightarrow> bool" where
  "TournamentMatchStatus_can_forfeit s \<longleftrightarrow> s \<in> {TournamentMatchStatus.Scheduled, TournamentMatchStatus.CheckingIn, TournamentMatchStatus.PickBan, TournamentMatchStatus.InProgress, TournamentMatchStatus.AwaitingResult}"

definition TournamentMatchStatus_can_dispute :: "TournamentMatchStatus \<Rightarrow> bool" where
  "TournamentMatchStatus_can_dispute s \<longleftrightarrow> s \<in> {TournamentMatchStatus.AwaitingResult}"

fun TournamentMatchStatus_allowed_transitions :: "TournamentMatchStatus \<Rightarrow> TournamentMatchStatus list" where
  "TournamentMatchStatus_allowed_transitions TournamentMatchStatus.Pending = [TournamentMatchStatus.Ready, TournamentMatchStatus.Cancelled]"
| "TournamentMatchStatus_allowed_transitions TournamentMatchStatus.Ready = [TournamentMatchStatus.Scheduled, TournamentMatchStatus.Cancelled]"
| "TournamentMatchStatus_allowed_transitions TournamentMatchStatus.Scheduled = [TournamentMatchStatus.CheckingIn, TournamentMatchStatus.PickBan, TournamentMatchStatus.InProgress, TournamentMatchStatus.Forfeit, TournamentMatchStatus.Cancelled]"
| "TournamentMatchStatus_allowed_transitions TournamentMatchStatus.CheckingIn = [TournamentMatchStatus.PickBan, TournamentMatchStatus.InProgress, TournamentMatchStatus.Forfeit, TournamentMatchStatus.Cancelled]"
| "TournamentMatchStatus_allowed_transitions TournamentMatchStatus.PickBan = [TournamentMatchStatus.InProgress, TournamentMatchStatus.Forfeit, TournamentMatchStatus.Cancelled]"
| "TournamentMatchStatus_allowed_transitions TournamentMatchStatus.InProgress = [TournamentMatchStatus.AwaitingResult, TournamentMatchStatus.Forfeit]"
| "TournamentMatchStatus_allowed_transitions TournamentMatchStatus.AwaitingResult = [TournamentMatchStatus.Completed, TournamentMatchStatus.Disputed, TournamentMatchStatus.Forfeit]"
| "TournamentMatchStatus_allowed_transitions TournamentMatchStatus.Disputed = [TournamentMatchStatus.Completed]"
| "TournamentMatchStatus_allowed_transitions TournamentMatchStatus.Completed = []"
| "TournamentMatchStatus_allowed_transitions TournamentMatchStatus.Forfeit = []"
| "TournamentMatchStatus_allowed_transitions TournamentMatchStatus.Cancelled = []"

definition TournamentMatchStatus_can_transition_to :: "TournamentMatchStatus \<Rightarrow> TournamentMatchStatus \<Rightarrow> bool" where
  "TournamentMatchStatus_can_transition_to s target \<longleftrightarrow> target \<in> set (TournamentMatchStatus_allowed_transitions s)"

datatype TournamentRegistrationStatus = Pending | Approved | CheckedIn | Active | Eliminated | Disqualified | Withdrawn | NoShow

fun TournamentRegistrationStatus_to_string :: "TournamentRegistrationStatus \<Rightarrow> string" where
  "TournamentRegistrationStatus_to_string TournamentRegistrationStatus.Pending = ''pending''"
| "TournamentRegistrationStatus_to_string TournamentRegistrationStatus.Approved = ''approved''"
| "TournamentRegistrationStatus_to_string TournamentRegistrationStatus.CheckedIn = ''checked_in''"
| "TournamentRegistrationStatus_to_string TournamentRegistrationStatus.Active = ''active''"
| "TournamentRegistrationStatus_to_string TournamentRegistrationStatus.Eliminated = ''eliminated''"
| "TournamentRegistrationStatus_to_string TournamentRegistrationStatus.Disqualified = ''disqualified''"
| "TournamentRegistrationStatus_to_string TournamentRegistrationStatus.Withdrawn = ''withdrawn''"
| "TournamentRegistrationStatus_to_string TournamentRegistrationStatus.NoShow = ''no_show''"

definition TournamentRegistrationStatus_from_str :: "string \<Rightarrow> string + TournamentRegistrationStatus" where
  "TournamentRegistrationStatus_from_str s = (let l = to_lowercase s in
     if l = ''pending'' then Inr TournamentRegistrationStatus.Pending
     else if l = ''approved'' then Inr TournamentRegistrationStatus.Approved
     else if l = ''checked_in'' then Inr TournamentRegistrationStatus.CheckedIn
     else if l = ''active'' then Inr TournamentRegistrationStatus.Active
     else if l = ''eliminated'' then Inr TournamentRegistrationStatus.Eliminated
     else if l = ''disqualified'' then Inr TournamentRegistrationStatus.Disqualified
     else if l = ''withdrawn'' then Inr TournamentRegistrationStatus.Withdrawn
     else if l = ''no_show'' then Inr TournamentRegistrationStatus.NoShow
     else Inl (''invalid registration status: '' @ s))"

definition TournamentRegistrationStatus_is_terminal :: "TournamentRegistrationStatus \<Rightarrow> bool" where
  "TournamentRegistrationStatus_is_terminal s \<longleftrightarrow> s \<in> {TournamentRegistrationStatus.Eliminated, TournamentRegistrationStatus.Disqualified, TournamentRegistrationStatus.Withdrawn, TournamentRegistrationStatus.NoShow}"

definition TournamentRegistrationStatus_can_compete :: "TournamentRegistrationStatus \<Rightarrow> bool" where
  "TournamentRegistrationStatus_can_compete s \<longleftrightarrow> s \<in> {TournamentRegistrationStatus.CheckedIn, TournamentRegistrationStatus.Active}"

definition TournamentRegistrationStatus_can_check_in :: "TournamentRegistrationStatus \<Rightarrow> bool" where
  "TournamentRegistrationStatus_can_check_in s \<longleftrightarrow> s \<in> {TournamentRegistrationStatus.Approved}"

definition TournamentRegistrationStatus_can_withdraw :: "TournamentRegistrationStatus \<Rightarrow> bool" where
  "TournamentRegistrationStatus_can_withdraw s \<longleftrightarrow> s \<in> {TournamentRegistrationStatus.Pending, TournamentRegistrationStatus.Approved, TournamentRegistrationStatus.CheckedIn, TournamentRegistrationStatus.Active}"

datatype WithdrawalPolicy = Forfeit | Reseeding | WaitlistPromotion | AdminDecision

fun WithdrawalPolicy_to_string :: "WithdrawalPolicy \<Rightarrow> string" where
  "WithdrawalPolicy_to_string WithdrawalPolicy.Forfeit = ''forfeit''"
| "WithdrawalPolicy_to_string WithdrawalPolicy.Reseeding = ''reseeding''"
| "WithdrawalPolicy_to_string WithdrawalPolicy.WaitlistPromotion = ''waitlist_promotion''"
| "WithdrawalPolicy_to_string WithdrawalPolicy.AdminDecision = ''admin_decision''"

definition WithdrawalPolicy_from_str :: "string \<Rightarrow> string + WithdrawalPolicy" where
  "WithdrawalPolicy_from_str s = (let l = to_lowercase s in
     if l = ''forfeit'' then Inr WithdrawalPolicy.Forfeit
     else if l = ''reseeding'' then Inr WithdrawalPolicy.Reseeding
     else if l = ''waitlist_promotion'' then Inr WithdrawalPolicy.WaitlistPromotion
     else if l = ''admin_decision'' then Inr WithdrawalPolicy.AdminDecision
     else Inl (''invalid withdrawal policy: '' @ s))"

datatype StageFormat = SingleElimination | DoubleElimination | RoundRobin | Swiss | GroupStage

fun StageFormat_to_string :: "StageFormat \<Rightarrow> string" where
  "StageFormat_to_string StageFormat.SingleElimination = ''single_elimination''"
| "StageFormat_to_string StageFormat.DoubleElimination = ''double_elimination''"
| "StageFormat_to_string StageFormat.RoundRobin = ''round_robin''"
| "StageFormat_to_string StageFormat.Swiss = ''swiss''"
| "StageFormat_to_string StageFormat.GroupStage = ''group_stage''"

definition StageFormat_from_str :: "string \<Rightarrow> string + StageFormat" where
  "StageFormat_from_str s = (let l = to_lowercase s in
     if l = ''single_elimination'' then Inr StageFormat.SingleElimination
     else if l = ''double_elimination'' then Inr StageFormat.DoubleElimination
     else if l = ''round_robin'' then Inr StageFormat.RoundRobin
     else if l = ''swiss'' then Inr StageFormat.Swiss
     else if l = ''group_stage'' then Inr StageFormat.GroupStage
     else Inl (''invalid stage format: '' @ s))"

datatype BracketType = Winners | Losers | SingleElim | RoundRobin | Swiss | GrandFinal

fun BracketType_to_string :: "BracketType \<Rightarrow> string" where
  "BracketType_to_string BracketType.Winners = ''winners''"
| "BracketType_to_string BracketType.Losers = ''losers''"
| "BracketType_to_string BracketType.SingleElim = ''single_elim''"
| "BracketType_to_string BracketType.RoundRobin = ''round_robin''"
| "BracketType_to_string BracketType.Swiss = ''swiss''"
| "BracketType_to_string BracketType.GrandFinal = ''grand_final''"

definition BracketType_from_str :: "string \<Rightarrow> string + BracketType" where
  "BracketType_from_str s = (let l = to_lowercase s in
     if l = ''winners'' then Inr BracketType.Winners
     else if l = ''losers'' then Inr BracketType.Losers
     else if l = ''single_elim'' then Inr BracketType.SingleElim
     else if l = ''round_robin'' then Inr BracketType.RoundRobin
     else if l = ''swiss'' then Inr BracketType.Swiss
     else if l = ''grand_final'' then Inr BracketType.GrandFinal
     else Inl (''invalid bracket type: '' @ s))"

datatype StageStatus = Pending | Active | Completed | Cancelled

fun StageStatus_to_string :: "StageStatus \<Rightarrow> string" where
  "StageStatus_to_string StageStatus.Pending = ''pending''"
| "StageStatus_to_string StageStatus.Active = ''active''"
| "StageStatus_to_string StageStatus.Completed = ''completed''"
| "StageStatus_to_string StageStatus.Cancelled = ''cancelled''"

definition StageStatus_from_str :: "string \<Rightarrow> string + StageStatus" where
  "StageStatus_from_str s = (let l = to_lowercase s in
     if l = ''pending'' then Inr StageStatus.Pending
     else if l = ''active'' then Inr StageStatus.Active
     else if l = ''completed'' then Inr StageStatus.Completed
     else if l = ''cancelled'' then Inr StageStatus.Cancelled
     else Inl (''invalid stage status: '' @ s))"

definition StageStatus_is_terminal :: "StageStatus \<Rightarrow> bool" where
  "StageStatus_is_terminal s \<longleftrightarrow> s \<in> {StageStatus.Completed, StageStatus.Cancelled}"

datatype BracketStatus = Pending | Active | Completed | Cancelled

fun BracketStatus_to_string :: "BracketStatus \<Rightarrow> string" where
  "BracketStatus_to_string BracketStatus.Pending = ''pending''"
| "BracketStatus_to_string BracketStatus.Active = ''active''"
| "BracketStatus_to_string BracketStatus.Completed = ''completed''"
| "BracketStatus_to_string BracketStatus.Cancelled = ''cancelled''"

definition BracketStatus_from_str :: "string \<Rightarrow> string + BracketStatus" where
  "BracketStatus_from_str s = (let l = to_lowercase s in
     if l = ''pending'' then Inr BracketStatus.Pending
     else if l = ''active'' then Inr BracketStatus.Active
     else if l = ''completed'' then Inr BracketStatus.Completed
     else if l = ''cancelled'' then Inr BracketStatus.Cancelled
     else Inl (''invalid bracket status: '' @ s))"

definition BracketStatus_is_terminal :: "BracketStatus \<Rightarrow> bool" where
  "BracketStatus_is_terminal s \<longleftrightarrow> s \<in> {BracketStatus.Completed, BracketStatus.Cancelled}"

datatype AdvancementRule = TopN | TopNPerGroup | Manual

fun AdvancementRule_to_string :: "AdvancementRule \<Rightarrow> string" where
  "AdvancementRule_to_string AdvancementRule.TopN = ''top_n''"
| "AdvancementRule_to_string AdvancementRule.TopNPerGroup = ''top_n_per_group''"
| "AdvancementRule_to_string AdvancementRule.Manual = ''manual''"

definition AdvancementRule_from_str :: "string \<Rightarrow> string + AdvancementRule" where
  "AdvancementRule_from_str s = (let l = to_lowercase s in
     if l = ''top_n'' then Inr AdvancementRule.TopN
     else if l = ''top_n_per_group'' then Inr AdvancementRule.TopNPerGroup
     else if l = ''manual'' then Inr AdvancementRule.Manual
     else Inl (''invalid advancement rule: '' @ s))"

datatype MatchFormat = Bo1 | Bo3 | Bo5 | Bo7

fun MatchFormat_to_string :: "MatchFormat \<Rightarrow> string" where
  "MatchFormat_to_string MatchFormat.Bo1 = ''bo1''"
| "MatchFormat_to_string MatchFormat.Bo3 = ''bo3''"
| "MatchFormat_to_string MatchFormat.Bo5 = ''bo5''"
| "MatchFormat_to_string MatchFormat.Bo7 = ''bo7''"

definition MatchFormat_from_str :: "string \<Rightarrow> string + MatchFormat" where
  "MatchFormat_from_str s = (let l = to_lowercase s in
     if l = ''bo1'' then Inr MatchFormat.Bo1
     else if l = ''bo3'' then Inr MatchFormat.Bo3
     else if l = ''bo5'' then Inr MatchFormat.Bo5
     else if l = ''bo7'' then Inr MatchFormat.Bo7
     else Inl (''invalid match format: '' @ s))"

datatype SeedingAlgorithm = Random | Rating | SeasonRank | Manual

fun SeedingAlgorithm_to_string :: "SeedingAlgorithm \<Rightarrow> string" where
  "SeedingAlgorithm_to_string SeedingAlgorithm.Random = ''random''"
| "SeedingAlgorithm_to_string SeedingAlgorithm.Rating = ''rating''"
| "SeedingAlgorithm_to_string SeedingAlgorithm.SeasonRank = ''season_rank''"
| "SeedingAlgorithm_to_string SeedingAlgorithm.Manual = ''manual''"

definition SeedingAlgorithm_from_str :: "string \<Rightarrow> string + SeedingAlgorithm" where
  "SeedingAlgorithm_from_str s = (let l = to_lowercase s in
     if l = ''random'' then Inr SeedingAlgorithm.Random
     else if l = ''rating'' then Inr SeedingAlgorithm.Rating
     else if l = ''season_rank'' then Inr SeedingAlgorithm.SeasonRank
     else if l = ''manual'' then Inr SeedingAlgorithm.Manual
     else Inl (''invalid seeding algorithm: '' @ s))"

datatype ProposalStatus = Pending | Accepted | Rejected | CounterProposed | Expired | Cancelled

fun ProposalStatus_to_string :: "ProposalStatus \<Rightarrow> string" where
  "ProposalStatus_to_string ProposalStatus.Pending = ''pending''"
| "ProposalStatus_to_string ProposalStatus.Accepted = ''accepted''"
| "ProposalStatus_to_string ProposalStatus.Rejected = ''rejected''"
| "ProposalStatus_to_string ProposalStatus.CounterProposed = ''counter_proposed''"
| "ProposalStatus_to_string ProposalStatus.Expired = ''expired''"
| "ProposalStatus_to_string ProposalStatus.Cancelled = ''cancelled''"

definition ProposalStatus_from_str :: "string \<Rightarrow> string + ProposalStatus" where
  "ProposalStatus_from_str s = (let l = to_lowercase s in
     if l = ''pending'' then Inr ProposalStatus.Pending
     else if l = ''accepted'' then Inr ProposalStatus.Accepted
     else if l = ''rejected'' then Inr ProposalStatus.Rejected
     else if l = ''counter_proposed'' then Inr ProposalStatus.CounterProposed
     else if l = ''expired'' then Inr ProposalStatus.Expired
     else if l = ''cancelled'' then Inr ProposalStatus.Cancelled
     else Inl (''invalid proposal status: '' @ s))"

definition ProposalStatus_is_terminal :: "ProposalStatus \<Rightarrow> bool" where
  "ProposalStatus_is_terminal s \<longleftrightarrow> s \<in> {ProposalStatus.Accepted, ProposalStatus.Rejected, ProposalStatus.Expired, ProposalStatus.Cancelled}"

definition ProposalStatus_can_respond :: "ProposalStatus \<Rightarrow> bool" where
  "ProposalStatus_can_respond s \<longleftrightarrow> s \<in> {ProposalStatus.Pending}"

datatype ExceptionType = Blocked | Override

fun ExceptionType_to_string :: "ExceptionType \<Rightarrow> string" where
  "ExceptionType_to_string ExceptionType.Blocked = ''blocked''"
| "ExceptionType_to_string ExceptionType.Override = ''override''"

definition ExceptionType_from_str :: "string \<Rightarrow> string + ExceptionType" where
  "ExceptionType_from_str s = (let l = to_lowercase s in
     if l = ''blocked'' then Inr ExceptionType.Blocked
     else if l = ''override'' then Inr ExceptionType.Override
     else Inl (''invalid exception type: '' @ s))"

definition TournamentMatchStatus_can_cancel :: "TournamentMatchStatus \<Rightarrow> bool" where
  "TournamentMatchStatus_can_cancel s \<longleftrightarrow> s \<in> {TournamentMatchStatus.Pending, TournamentMatchStatus.Ready, TournamentMatchStatus.Scheduled, TournamentMatchStatus.CheckingIn, TournamentMatchStatus.PickBan}"

definition TournamentMatchStatus_valid_transitions :: "TournamentMatchStatus \<Rightarrow> TournamentMatchStatus list" where
  "TournamentMatchStatus_valid_transitions s = TournamentMatchStatus_allowed_transitions s"

fun MatchFormat_game_count :: "MatchFormat \<Rightarrow> int" where
  "MatchFormat_game_count MatchFormat.Bo1 = 1"
| "MatchFormat_game_count MatchFormat.Bo3 = 3"
| "MatchFormat_game_count MatchFormat.Bo5 = 5"
| "MatchFormat_game_count MatchFormat.Bo7 = 7"

definition MatchFormat_wins_required :: "MatchFormat \<Rightarrow> int" where
  "MatchFormat_wins_required f = MatchFormat_game_count f div 2 + 1"

datatype MatchParticipantSource = Seed int | WinnerOf string | LoserOf string | Bye

fun MatchParticipantSource_to_string :: "MatchParticipantSource \<Rightarrow> string" where
  "MatchParticipantSource_to_string (Seed n) = ''seed_'' @ show_int n"
| "MatchParticipantSource_to_string (WinnerOf pos) = ''winner_of_'' @ pos"
| "MatchParticipantSource_to_string (LoserOf pos) = ''loser_of_'' @ pos"
| "MatchParticipantSource_to_string Bye = ''bye''"

fun ProposalStatus_as_str :: "ProposalStatus \<Rightarrow> string" where
  "ProposalStatus_as_str ProposalStatus.Pending = ''pending''"
| "ProposalStatus_as_str ProposalStatus.Accepted = ''accepted''"
| "ProposalStatus_as_str ProposalStatus.Rejected = ''rejected''"
| "ProposalStatus_as_str ProposalStatus.CounterProposed = ''counter_proposed''"
| "ProposalStatus_as_str ProposalStatus.Expired = ''expired''"
| "ProposalStatus_as_str ProposalStatus.Cancelled = ''cancelled''"

definition ProposalStatus_can_transition_to :: "ProposalStatus \<Rightarrow> ProposalStatus \<Rightarrow> bool" where
  "ProposalStatus_can_transition_to s target \<longleftrightarrow>
     s = ProposalStatus.Pending \<and>
     target \<in> {ProposalStatus.Accepted, ProposalStatus.Rejected, ProposalStatus.CounterProposed,
               ProposalStatus.Expired, ProposalStatus.Cancelled}"

datatype TournamentStatus = Draft | Published | Registration | Scheduled | InProgress | Completed | Finalized | Cancelled

fun TournamentStatus_to_string :: "TournamentStatus \<Rightarrow> string" where
  "TournamentStatus_to_string TournamentStatus.Draft = ''draft''"
| "TournamentStatus_to_string TournamentStatus.Published = ''published''"
| "TournamentStatus_to_string TournamentStatus.Registration = ''registration''"
| "TournamentStatus_to_string TournamentStatus.Scheduled = ''scheduled''"
| "TournamentStatus_to_string TournamentStatus.InProgress = ''in_progress''"
| "TournamentStatus_to_string TournamentStatus.Completed = ''completed''"
| "TournamentStatus_to_string TournamentStatus.Finalized = ''finalized''"
| "TournamentStatus_to_string TournamentStatus.Cancelled = ''cancelled''"

definition TournamentStatus_from_str :: "string \<Rightarrow> string + TournamentStatus" where
  "TournamentStatus_from_str s = (let l = to_lowercase s in
     if l = ''draft'' then Inr TournamentStatus.Draft
     else if l = ''published'' then Inr TournamentStatus.Published
     else if l = ''registration'' then Inr TournamentStatus.Registration
     else if l = ''scheduled'' then Inr TournamentStatus.Scheduled
     else if l = ''in_progress'' then Inr TournamentStatus.InProgress
     else if l = ''completed'' then Inr TournamentStatus.Completed
     else if l = ''finalized'' then Inr TournamentStatus.Finalized
     else if l = ''cancelled'' then Inr TournamentStatus.Cancelled
     else Inl (''invalid tournament status: '' @ s))"

definition TournamentStatus_is_registration_open :: "TournamentStatus \<Rightarrow> bool" where
  "TournamentStatus_is_registration_open s \<longleftrightarrow> s \<in> {TournamentStatus.Registration}"

definition TournamentStatus_is_active :: "TournamentStatus \<Rightarrow> bool" where
  "TournamentStatus_is_active s \<longleftrightarrow> s \<in> {TournamentStatus.Draft, TournamentStatus.Published, TournamentStatus.Registration, TournamentStatus.Scheduled, TournamentStatus.InProgress}"

definition TournamentStatus_is_terminal :: "TournamentStatus \<Rightarrow> bool" where
  "TournamentStatus_is_terminal s \<longleftrightarrow> s \<in> {TournamentStatus.Finalized, TournamentStatus.Cancelled}"

fun TournamentStatus_valid_transitions :: "TournamentStatus \<Rightarrow> TournamentStatus list" where
  "TournamentStatus_valid_transitions TournamentStatus.Draft = [TournamentStatus.Published, TournamentStatus.Cancelled]"
| "TournamentStatus_valid_transitions TournamentStatus.Published = [TournamentStatus.Registration, TournamentStatus.Cancelled]"
| "TournamentStatus_valid_transitions TournamentStatus.Registration = [TournamentStatus.Scheduled, TournamentStatus.InProgress, TournamentStatus.Cancelled]"
| "TournamentStatus_valid_transitions TournamentStatus.Scheduled = [TournamentStatus.Registration, TournamentStatus.InProgress, TournamentStatus.Cancelled]"
| "TournamentStatus_valid_transitions TournamentStatus.InProgress = [TournamentStatus.Completed, TournamentStatus.Cancelled]"
| "TournamentStatus_valid_transitions TournamentStatus.Completed = [TournamentStatus.Finalized]"
| "TournamentStatus_valid_transitions TournamentStatus.Finalized = []"
| "TournamentStatus_valid_transitions TournamentStatus.Cancelled = []"

definition TournamentStatus_can_transition_to :: "TournamentStatus \<Rightarrow> TournamentStatus \<Rightarrow> bool" where
  "TournamentStatus_can_transition_to s target \<longleftrightarrow> target \<in> set (TournamentStatus_valid_transitions s)"

section \<open>Codecs of the enums\<close>

interpretation tournament_format: strict_codec TournamentFormat_to_string TournamentFormat_from_str
proof (rule strict_codecI)
  fix x s
  show "to_lowercase (TournamentFormat_to_string x) = TournamentFormat_to_string x" by (cases x) simp_all
  show "TournamentFormat_from_str s = Inr x \<longleftrightarrow> to_lowercase s = TournamentFormat_to_string x"
    by (cases x) (auto simp: TournamentFormat_from_str_def Let_def)
qed

interpretation tournament_participant_type: strict_codec TournamentParticipantType_to_string TournamentParticipantType_from_str
proof (rule strict_codecI)
  fix x s
  show "to_lowercase (TournamentParticipantType_to_string x) = TournamentParticipantType_to_string x" by (cases x) simp_all
  show "TournamentParticipantType_from_str s = Inr x \<longleftrightarrow> to_lowercase s = TournamentParticipantType_to_string x"
    by (cases x) (auto simp: TournamentParticipantType_from_str_def Let_def)
qed

interpretation tournament_kind: strict_codec TournamentKind_to_string TournamentKind_from_str
proof (rule strict_codecI)
  fix x s
  show "to_lowercase (TournamentKind_to_string x) = TournamentKind_to_string x" by (cases x) simp_all
  show "TournamentKind_from_str s = Inr x \<longleftrightarrow> to_lowercase s = TournamentKind_to_string x"
    by (cases x) (auto simp: TournamentKind_from_str_def Let_def)
qed

interpretation registration_type: strict_codec RegistrationType_to_string RegistrationType_from_str
proof (rule strict_codecI)
  fix x s
  show "to_lowercase (RegistrationType_to_string x) = RegistrationType_to_string x" by (cases x) simp_all
  show "RegistrationType_from_str s = Inr x \<longleftrightarrow> to_lowercase s = RegistrationType_to_string x"
    by (cases x) (auto simp: RegistrationType_from_str_def Let_def)
qed

interpretation tournament_invitation_status: strict_codec TournamentInvitationStatus_to_string TournamentInvitationStatus_from_str
proof (rule strict_codecI)
  fix x s
  show "to_lowercase (TournamentInvitationStatus_to_string x) = TournamentInvitationStatus_to_string x" by (cases x) simp_all
  show "TournamentInvitationStatus_from_str s = Inr x \<longleftrightarrow> to_lowercase s = TournamentInvitationStatus_to_string x"
    by (cases x) (auto simp: TournamentInvitationStatus_from_str_def Let_def)
qed

interpretation scheduling_mode: strict_codec SchedulingMode_to_string SchedulingMode_from_str
proof (rule strict_codecI)
  fix x s
  show "to_lowercase (SchedulingMode_to_string x) = SchedulingMode_to_string x" by (cases x) simp_all
  show "SchedulingMode_from_str s = Inr x \<longleftrightarrow> to_lowercase s = SchedulingMode_to_string x"
    by (cases x) (auto simp: SchedulingMode_from_str_def Let_def)
qed

interpretation tournament_match_status: strict_codec TournamentMatchStatus_to_string TournamentMatchStatus_from_str
proof (rule strict_codecI)
  fix x s
  show "to_lowercase (TournamentMatchStatus_to_string x) = TournamentMatchStatus_to_string x" by (cases x) simp_all
  show "TournamentMatchStatus_from_str s = Inr x \<longleftrightarrow> to_lowercase s = TournamentMatchStatus_to_string x"
    by (cases x) (auto simp: TournamentMatchStatus_from_str_def Let_def)
qed

interpretation tournament_registration_status: strict_codec TournamentRegistrationStatus_to_string TournamentRegistrationStatus_from_str
proof (rule strict_codecI)
  fix x s
  show "to_lowercase (TournamentRegistrationStatus_to_string x) = TournamentRegistrationStatus_to_string x" by (cases x) simp_all
  show "TournamentRegistrationStatus_from_str s = Inr x \<longleftrightarrow> to_lowercase s = TournamentRegistrationStatus_to_string x"
    by (cases x) (auto simp: TournamentRegistrationStatus_from_str_def Let_def)
qed

interpretation withdrawal_policy: strict_codec WithdrawalPolicy_to_string WithdrawalPolicy_from_str
proof (rule strict_codecI)
  fix x s
  show "to_lowercase (WithdrawalPolicy_to_string x) = WithdrawalPolicy_to_string x" by (cases x) simp_all
  show "WithdrawalPolicy_from_str s = Inr x \<longleftrightarrow> to_lowercase s = WithdrawalPolicy_to_string x"
    by (cases x) (auto simp: WithdrawalPolicy_from_str_def Let_def)
qed

interpretation stage_format: strict_codec StageFormat_to_string StageFormat_from_str
proof (rule strict_codecI)
  fix x s
  show "to_lowercase (StageFormat_to_string x) = StageFormat_to_string x" by (cases x) simp_all
  show "StageFormat_from_str s = Inr x \<longleftrightarrow> to_lowercase s = StageFormat_to_string x"
    by (cases x) (auto simp: StageFormat_from_str_def Let_def)
qed

interpretation bracket_type: strict_codec BracketType_to_string BracketType_from_str
proof (rule strict_codecI)
  fix x s
  show "to_lowercase (BracketType_to_string x) = BracketType_to_string x" by (cases x) simp_all
  show "BracketType_from_str s = Inr x \<longleftrightarrow> to_lowercase s = BracketType_to_string x"
    by (cases x) (auto simp: BracketType_from_str_def Let_def)
qed

interpretation stage_status: strict_codec StageStatus_to_string StageStatus_from_str
proof (rule strict_codecI)
  fix x s
  show "to_lowercase (StageStatus_to_string x) = StageStatus_to_string x" by (cases x) simp_all
  show "StageStatus_from_str s = Inr x \<longleftrightarrow> to_lowercase s = StageStatus_to_string x"
    by (cases x) (auto simp: StageStatus_from_str_def Let_def)
qed

interpretation bracket_status: strict_codec BracketStatus_to_string BracketStatus_from_str
proof (rule strict_codecI)
  fix x s
  show "to_lowercase (BracketStatus_to_string x) = BracketStatus_to_string x" by (cases x) simp_all
  show "BracketStatus_from_str s = Inr x \<longleftrightarrow> to_lowercase s = BracketStatus_to_string x"
    by (cases x) (auto simp: BracketStatus_from_str_def Let_def)
qed

interpretation advancement_rule: strict_codec AdvancementRule_to_string AdvancementRule_from_str
proof (rule strict_codecI)
  fix x s
  show "to_lowercase (AdvancementRule_to_string x) = AdvancementRule_to_string x" by (cases x) simp_all
  show "AdvancementRule_from_str s = Inr x \<longleftrightarrow> to_lowercase s = AdvancementRule_to_string x"
    by (cases x) (auto simp: AdvancementRule_from_str_def Let_def)
qed

interpretation match_format: strict_codec MatchFormat_to_string MatchFormat_from_str
proof (rule strict_codecI)
  fix x s
  show "to_lowercase (MatchFormat_to_string x) = MatchFormat_to_string x" by (cases x) simp_all
  show "MatchFormat_from_str s = Inr x \<longleftrightarrow> to_lowercase s = MatchFormat_to_string x"
    by (cases x) (auto simp: MatchFormat_from_str_def Let_def)
qed

interpretation seeding_algorithm: strict_codec SeedingAlgorithm_to_string SeedingAlgorithm_from_str
proof (rule strict_codecI)
  fix x s
  show "to_lowercase (SeedingAlgorithm_to_string x) = SeedingAlgorithm_to_string x" by (cases x) simp_all
  show "SeedingAlgorithm_from_str s = Inr x \<longleftrightarrow> to_lowercase s = SeedingAlgorithm_to_string x"
    by (cases x) (auto simp: SeedingAlgorithm_from_str_def Let_def)
qed

interpretation proposal_status: strict_codec ProposalStatus_to_string ProposalStatus_from_str
proof (rule strict_codecI)
  fix x s
  show "to_lowercase (ProposalStatus_to_string x) = ProposalStatus_to_string x" by (cases x) simp_all
  show "ProposalStatus_from_str s = Inr x \<longleftrightarrow> to_lowercase s = ProposalStatus_to_string x"
    by (cases x) (auto simp: ProposalStatus_from_str_def Let_def)
qed

interpretation exception_type: strict_codec ExceptionType_to_string ExceptionType_from_str
proof (rule strict_codecI)
  fix x s
  show "to_lowercase (ExceptionType_to_string x) = ExceptionType_to_string x" by (cases x) simp_all
  show "ExceptionType_from_str s = Inr x \<longleftrightarrow> to_lowercase s = ExceptionType_to_string x"
    by (cases x) (auto simp: ExceptionType_from_str_def Let_def)
qed

interpretation tournament_status: strict_codec TournamentStatus_to_string TournamentStatus_from_str
proof (rule strict_codecI)
  fix x s
  show "to_lowercase (TournamentStatus_to_string x) = TournamentStatus_to_string x" by (cases x) simp_all
  show "TournamentStatus_from_str s = Inr x \<longleftrightarrow> to_lowercase s = TournamentStatus_to_string x"
    by (cases x) (auto simp: TournamentStatus_from_str_def Let_def)
qed

section \<open>Status machines\<close>

lemmas match_status_defs [enum_simps] =
  TournamentMatchStatus_is_terminal_def TournamentMatchStatus_can_start_def
  TournamentMatchStatus_is_active_def TournamentMatchStatus_can_submit_result_def
  TournamentMatchStatus_can_schedule_def TournamentMatchStatus_can_forfeit_def
  TournamentMatchStatus_can_dispute_def TournamentMatchStatus_can_cancel_def
  TournamentMatchStatus_can_transition_to_def TournamentMatchStatus_valid_transitions_def

lemmas tournament_status_defs [enum_simps] =
  TournamentStatus_is_registration_open_def TournamentStatus_is_active_def
  TournamentStatus_is_terminal_def TournamentStatus_can_transition_to_def

lemmas registration_status_defs [enum_simps] =
  TournamentRegistrationStatus_is_terminal_def TournamentRegistrationStatus_can_compete_def
  TournamentRegistrationStatus_can_check_in_def TournamentRegistrationStatus_can_withdraw_def

lemmas proposal_status_defs [enum_simps] =
  ProposalStatus_is_terminal_def ProposalStatus_can_respond_def ProposalStatus_can_transition_to_def

text \<open>How many more transitions a match can make at most from each status.\<close>

fun match_status_rank :: "TournamentMatchStatus \<Rightarrow> nat" where
  "match_status_rank TournamentMatchStatus.Pending = 8"
| "match_status_rank TournamentMatchStatus.Ready = 7"
| "match_status_rank TournamentMatchStatus.Scheduled = 6"
| "match_status_rank TournamentMatchStatus.CheckingIn = 5"
| "match_status_rank TournamentMatchStatus.PickBan = 4"
| "match_status_rank TournamentMatchStatus.InProgress = 3"
| "match_status_rank TournamentMatchStatus.AwaitingResult = 2"
| "match_status_rank TournamentMatchStatus.Disputed = 1"
| "match_status_rank TournamentMatchStatus.Completed = 0"
| "match_status_rank TournamentMatchStatus.Cancelled = 0"
| "match_status_rank TournamentMatchStatus.Forfeit = 0"

interpretation match_machine: ranked_machine
  TournamentMatchStatus_allowed_transitions TournamentMatchStatus_is_terminal match_status_rank
proof
  fix s t
  show "TournamentMatchStatus_is_terminal s \<longleftrightarrow> TournamentMatchStatus_allowed_transitions s = []"
    by (cases s) (simp_all add: enum_simps)
  show "t \<in> set (TournamentMatchStatus_allowed_transitions s) \<Longrightarrow> match_status_rank t < match_status_rank s"
    by (cases s) auto
qed

interpretation tournament_machine: status_machine
  TournamentStatus_valid_transitions TournamentStatus_is_terminal
proof
  fix s
  show "TournamentStatus_is_terminal s \<longleftrightarrow> TournamentStatus_valid_transitions s = []"
    by (cases s) (simp_all add: enum_simps)
qed

instantiation TournamentMatchStatus :: enum
begin

definition enum_TournamentMatchStatus :: "TournamentMatchStatus list" where
  "enum_TournamentMatchStatus =
     [TournamentMatchStatus.Pending, TournamentMatchStatus.Ready, TournamentMatchStatus.Scheduled,
      TournamentMatchStatus.CheckingIn, TournamentMatchStatus.PickBan, TournamentMatchStatus.InProgress,
      TournamentMatchStatus.AwaitingResult, TournamentMatchStatus.Completed,
      TournamentMatchStatus.Cancelled, TournamentMatchStatus.Forfeit, TournamentMatchStatus.Disputed]"

definition enum_all_TournamentMatchStatus :: "(TournamentMatchStatus \<Rightarrow> bool) \<Rightarrow> bool" where
  "enum_all_TournamentMatchStatus P \<longleftrightarrow> list_all P enum_class.enum"

definition enum_ex_TournamentMatchStatus :: "(TournamentMatchStatus \<Rightarrow> bool) \<Rightarrow> bool" where
  "enum_ex_TournamentMatchStatus P \<longleftrightarrow> list_ex P enum_class.enum"

instance
proof
  have all: "x \<in> set enum_class.enum" for x :: TournamentMatchStatus
    by (cases x) (simp_all add: enum_TournamentMatchStatus_def)
  show "UNIV = set (enum_class.enum :: TournamentMatchStatus list)"
    using all by blast
  show "distinct (enum_class.enum :: TournamentMatchStatus list)"
    by (simp add: enum_TournamentMatchStatus_def)
  show "enum_class.enum_all P \<longleftrightarrow> Ball UNIV P" for P :: "TournamentMatchStatus \<Rightarrow> bool"
    using all by (auto simp: enum_all_TournamentMatchStatus_def list_all_iff)
  show "enum_class.enum_ex P \<longleftrightarrow> Bex UNIV P" for P :: "TournamentMatchStatus \<Rightarrow> bool"
    using all by (auto simp: enum_ex_TournamentMatchStatus_def list_ex_iff)
qed

end

lemma enum_all_match_status [simp]: "x \<in> set (enum_class.enum :: TournamentMatchStatus list)"
  using UNIV_enum by blast

end
