(* ===== verification/Entities.thy ===== *)
theory Entities
  imports CoreTypes
begin

text \<open>
  The rows the services work on (\<open>entities/tournament.rs\<close>, \<open>repositories/tournament.rs\<close>):
  brackets, registrations, matches, the seeded participants given to the bracket
  generators and the data for creating a match. Field names carry a prefix per record
  (\<open>m_\<close> match, \<open>c_\<close> match to create, \<open>r_\<close> registration, \<open>b_\<close> bracket, \<open>sp_\<close> seeded
  participant), since several records share names. An id is its canonical text; a time is
  a number of seconds.
\<close>

type_synonym uuid = string
type_synonym datetime = int

record TournamentBracket =
  b_id :: uuid
  b_stage_id :: uuid
  b_tournament_id :: uuid
  b_name :: string
  b_bracket_type :: BracketType
  b_total_rounds :: int
  b_current_round :: int
  b_group_number :: "int option"
  b_status :: BracketStatus
  b_created_at :: datetime
  b_updated_at :: datetime

record TournamentRegistration =
  r_id :: uuid
  r_tournament_id :: uuid
  r_team_season_id :: "uuid option"
  r_player_id :: "uuid option"
  r_adhoc_team_id :: "uuid option"
  r_participant_name :: string
  r_participant_logo_url :: "string option"
  r_registered_by :: uuid
  r_registered_at :: datetime
  r_checked_in :: bool
  r_checked_in_at :: "datetime option"
  r_checked_in_by :: "uuid option"
  r_seed :: "int option"
  r_seed_rating :: "int option"
  r_status :: TournamentRegistrationStatus
  r_admin_notes :: "string option"
  r_created_at :: datetime
  r_updated_at :: datetime
  r_withdrawn_at :: "datetime option"

record TournamentMatch =
  m_id :: uuid
  m_bracket_id :: uuid
  m_stage_id :: uuid
  m_tournament_id :: uuid
  m_round :: int
  m_match_number :: int
  m_bracket_position :: string
  m_participant1_registration_id :: "uuid option"
  m_participant2_registration_id :: "uuid option"
  m_participant1_name :: "string option"
  m_participant1_logo_url :: "string option"
  m_participant1_seed :: "int option"
  m_participant2_name :: "string option"
  m_participant2_logo_url :: "string option"
  m_participant2_seed :: "int option"
  m_participant1_source :: "MatchParticipantSource option"
  m_participant2_source :: "MatchParticipantSource option"
  m_match_format :: MatchFormat
  m_maps_required :: int
  m_scheduled_at :: "datetime option"
  m_schedule_deadline :: "datetime option"
  m_started_at :: "datetime option"
  m_completed_at :: "datetime option"
  m_participant1_score :: int
  m_participant2_score :: int
  m_winner_registration_id :: "uuid option"
  m_loser_registration_id :: "uuid option"
  m_winner_progresses_to :: "uuid option"
  m_loser_progresses_to :: "uuid option"
  m_status :: TournamentMatchStatus
  m_disputed :: bool
  m_dispute_reason :: "string option"
  m_dispute_resolved_by :: "uuid option"
  m_dispute_resolution :: "string option"
  m_dispute_resolved_at :: "datetime option"
  m_stream_url :: "string option"
  m_vod_url :: "string option"
  m_check_in_opens_at :: "datetime option"
  m_check_in_deadline :: "datetime option"
  m_participant1_checked_in_at :: "datetime option"
  m_participant2_checked_in_at :: "datetime option"
  m_participant1_checked_in_by :: "uuid option"
  m_participant2_checked_in_by :: "uuid option"
  m_veto_required :: bool
  m_check_in_required :: bool
  m_created_at :: datetime
  m_updated_at :: datetime

record SeededParticipant =
  sp_registration_id :: uuid
  sp_seed :: int
  sp_participant_name :: string
  sp_participant_logo_url :: "string option"

record CreateTournamentMatch =
  c_bracket_id :: uuid
  c_stage_id :: uuid
  c_tournament_id :: uuid
  c_round :: int
  c_match_number :: int
  c_bracket_position :: string
  c_participant1_registration_id :: "uuid option"
  c_participant2_registration_id :: "uuid option"
  c_participant1_name :: "string option"
  c_participant1_logo_url :: "string option"
  c_participant1_seed :: "int option"
  c_participant2_name :: "string option"
  c_participant2_logo_url :: "string option"
  c_participant2_seed :: "int option"
  c_participant1_source :: "MatchParticipantSource option"
  c_participant2_source :: "MatchParticipantSource option"
  c_match_format :: MatchFormat
  c_maps_required :: int
  c_winner_progresses_to :: "uuid option"
  c_loser_progresses_to :: "uuid option"

text \<open>Methods of a registration.\<close>

definition TournamentRegistration_is_pending :: "TournamentRegistration \<Rightarrow> bool" where
  "TournamentRegistration_is_pending r \<longleftrightarrow> r_status r = TournamentRegistrationStatus.Pending"

definition TournamentRegistration_can_compete :: "TournamentRegistration \<Rightarrow> bool" where
  "TournamentRegistration_can_compete r = TournamentRegistrationStatus_can_compete (r_status r)"

definition TournamentRegistration_can_check_in :: "TournamentRegistration \<Rightarrow> bool" where
  "TournamentRegistration_can_check_in r = TournamentRegistrationStatus_can_check_in (r_status r)"

definition TournamentRegistration_is_terminal :: "TournamentRegistration \<Rightarrow> bool" where
  "TournamentRegistration_is_terminal r = TournamentRegistrationStatus_is_terminal (r_status r)"

definition TournamentRegistration_can_withdraw :: "TournamentRegistration \<Rightarrow> bool" where
  "TournamentRegistration_can_withdraw r = TournamentRegistrationStatus_can_withdraw (r_status r)"

text \<open>Methods of a bracket.\<close>

definition TournamentBracket_is_terminal :: "TournamentBracket \<Rightarrow> bool" where
  "TournamentBracket_is_terminal b = BracketStatus_is_terminal (b_status b)"

definition TournamentBracket_is_group :: "TournamentBracket \<Rightarrow> bool" where
  "TournamentBracket_is_group b \<longleftrightarrow> b_bracket_type b = BracketType.RoundRobin \<and> b_group_number b \<noteq> None"

text \<open>Methods of a match.\<close>

definition TournamentMatch_both_checked_in :: "TournamentMatch \<Rightarrow> bool" where
  "TournamentMatch_both_checked_in m \<longleftrightarrow>
     m_participant1_checked_in_at m \<noteq> None \<and> m_participant2_checked_in_at m \<noteq> None"

definition TournamentMatch_can_start :: "TournamentMatch \<Rightarrow> bool" where
  "TournamentMatch_can_start m = TournamentMatchStatus_can_start (m_status m)"

definition TournamentMatch_is_complete :: "TournamentMatch \<Rightarrow> bool" where
  "TournamentMatch_is_complete m \<longleftrightarrow> m_status m = TournamentMatchStatus.Completed"

definition TournamentMatch_is_terminal :: "TournamentMatch \<Rightarrow> bool" where
  "TournamentMatch_is_terminal m = TournamentMatchStatus_is_terminal (m_status m)"

definition TournamentMatch_can_submit_result :: "TournamentMatch \<Rightarrow> bool" where
  "TournamentMatch_can_submit_result m = TournamentMatchStatus_can_submit_result (m_status m)"

definition TournamentMatch_has_both_participants :: "TournamentMatch \<Rightarrow> bool" where
  "TournamentMatch_has_both_participants m \<longleftrightarrow>
     m_participant1_registration_id m \<noteq> None \<and> m_participant2_registration_id m \<noteq> None"

definition TournamentMatch_has_winner :: "TournamentMatch \<Rightarrow> bool" where
  "TournamentMatch_has_winner m \<longleftrightarrow> m_winner_registration_id m \<noteq> None"

definition TournamentMatch_is_bye :: "TournamentMatch \<Rightarrow> bool" where
  "TournamentMatch_is_bye m \<longleftrightarrow>
     (m_participant1_registration_id m \<noteq> None \<and> m_participant2_registration_id m = None) \<or>
     (m_participant1_registration_id m = None \<and> m_participant2_registration_id m \<noteq> None)"

definition TournamentMatch_wins_required :: "TournamentMatch \<Rightarrow> int" where
  "TournamentMatch_wins_required m = MatchFormat_wins_required (m_match_format m)"

definition TournamentMatch_check_winner :: "TournamentMatch \<Rightarrow> uuid option" where
  "TournamentMatch_check_winner m = (let wins_needed = TournamentMatch_wins_required m in
     if m_participant1_score m \<ge> wins_needed then m_participant1_registration_id m
     else if m_participant2_score m \<ge> wins_needed then m_participant2_registration_id m
     else None)"

lemmas match_methods [enum_simps] =
  TournamentMatch_both_checked_in_def TournamentMatch_can_start_def TournamentMatch_is_complete_def
  TournamentMatch_is_terminal_def TournamentMatch_can_submit_result_def
  TournamentMatch_has_both_participants_def TournamentMatch_has_winner_def TournamentMatch_is_bye_def
  TournamentMatch_wins_required_def TournamentMatch_check_winner_def

lemmas registration_methods [enum_simps] =
  TournamentRegistration_is_pending_def TournamentRegistration_can_compete_def
  TournamentRegistration_can_check_in_def TournamentRegistration_is_terminal_def
  TournamentRegistration_can_withdraw_def

end
