(* ===== verification/FormatPlan.thy ===== *)
theory FormatPlan
  imports CoreTypes "HOL-Library.AList"
begin

text \<open>
  The per-round match format plan of \<open>portal-core/src/types/tournament.rs\<close>: the record,
  the lookups with their precedence, and the parser of the settings column. The ordered
  map of round overrides is an association list without duplicate keys. The JSON library
  is not part of the repository: a JSON value is a type parameter, and the three
  accessors the parser calls are the fields of \<open>json_api\<close>.
\<close>

record MatchFormatPlan =
  plan_default :: MatchFormat
  round_formats :: "(int \<times> MatchFormat) list"
  final_format :: "MatchFormat option"
  grand_final_format :: "MatchFormat option"

definition MatchFormatPlan_uniform :: "MatchFormat \<Rightarrow> MatchFormatPlan" where
  "MatchFormatPlan_uniform d =
     \<lparr>plan_default = d, round_formats = [], final_format = None, grand_final_format = None\<rparr>"

definition MatchFormatPlan_is_uniform :: "MatchFormatPlan \<Rightarrow> bool" where
  "MatchFormatPlan_is_uniform p \<longleftrightarrow>
     round_formats p = [] \<and> final_format p = None \<and> grand_final_format p = None"

definition MatchFormatPlan_format_for :: "MatchFormatPlan \<Rightarrow> int \<Rightarrow> int \<Rightarrow> MatchFormat" where
  "MatchFormatPlan_format_for p round total_rounds =
     (let by_round = (case map_of (round_formats p) round of Some f \<Rightarrow> f | None \<Rightarrow> plan_default p)
      in if total_rounds > 0 \<and> round = total_rounds
         then (case final_format p of Some f \<Rightarrow> f | None \<Rightarrow> by_round)
         else by_round)"

definition MatchFormatPlan_grand_final :: "MatchFormatPlan \<Rightarrow> MatchFormat" where
  "MatchFormatPlan_grand_final p =
     (case grand_final_format p of
        Some f \<Rightarrow> f
      | None \<Rightarrow> (case final_format p of Some f \<Rightarrow> f | None \<Rightarrow> plan_default p))"

section \<open>The settings column\<close>

record 'j json_api =
  as_object :: "'j \<Rightarrow> (string \<times> 'j) list option"
  as_str :: "'j \<Rightarrow> string option"
  is_null :: "'j \<Rightarrow> bool"

text \<open>One entry of \<open>round_formats\<close>: the key is an \<open>i32\<close> of at least 1, the value a format.\<close>

definition parse_round_entry :: "'j json_api \<Rightarrow> string \<Rightarrow> 'j \<Rightarrow> string + (int \<times> MatchFormat)" where
  "parse_round_entry J key v =
     (case parse_i32 key of
        None \<Rightarrow> Inl (''round_formats key is not a round number: '' @ key)
      | Some round \<Rightarrow>
          if round < 1 then Inl (''round_formats round must be >= 1, got '' @ show_int round)
          else (case as_str J v of
                  None \<Rightarrow> Inl (''round_formats['' @ key @ ''] must be a string'')
                | Some t \<Rightarrow> (case MatchFormat_from_str t of
                      Inl e \<Rightarrow> Inl (''round_formats['' @ key @ '']: '' @ e)
                    | Inr f \<Rightarrow> Inr (round, f))))"

fun parse_round_entries :: "'j json_api \<Rightarrow> (string \<times> 'j) list \<Rightarrow> (int \<times> MatchFormat) list \<Rightarrow>
    string + (int \<times> MatchFormat) list" where
  "parse_round_entries J [] acc = Inr acc"
| "parse_round_entries J ((key, v) # rest) acc =
     (case parse_round_entry J key v of
        Inl e \<Rightarrow> Inl e
      | Inr (round, f) \<Rightarrow> parse_round_entries J rest (AList.update round f acc))"

text \<open>One of the two scalar keys; an absent or null value leaves the slot empty.\<close>

definition parse_scalar_format :: "'j json_api \<Rightarrow> (string \<times> 'j) list \<Rightarrow> string \<Rightarrow>
    string + MatchFormat option" where
  "parse_scalar_format J obj key =
     (case map_of obj key of
        None \<Rightarrow> Inr None
      | Some v \<Rightarrow>
          if is_null J v then Inr None
          else (case as_str J v of
                  None \<Rightarrow> Inl (key @ '' must be a string'')
                | Some t \<Rightarrow> (case MatchFormat_from_str t of
                      Inl e \<Rightarrow> Inl (key @ '': '' @ e)
                    | Inr f \<Rightarrow> Inr (Some f))))"

definition MatchFormatPlan_from_settings ::
    "'j json_api \<Rightarrow> MatchFormat \<Rightarrow> 'j option \<Rightarrow> string + MatchFormatPlan" where
  "MatchFormatPlan_from_settings J d settings =
     (case Option.bind settings (as_object J) of
        None \<Rightarrow> Inr (MatchFormatPlan_uniform d)
      | Some obj \<Rightarrow>
          (case (case map_of obj ''round_formats'' of
                   None \<Rightarrow> Inr []
                 | Some v \<Rightarrow> (case as_object J v of
                       None \<Rightarrow> Inl ''round_formats must be an object''
                     | Some rounds \<Rightarrow> parse_round_entries J rounds [])) of
             Inl e \<Rightarrow> Inl e
           | Inr rf \<Rightarrow>
               (case parse_scalar_format J obj ''final_format'' of
                  Inl e \<Rightarrow> Inl e
                | Inr ff \<Rightarrow>
                    (case parse_scalar_format J obj ''grand_final_format'' of
                       Inl e \<Rightarrow> Inl e
                     | Inr gf \<Rightarrow> Inr \<lparr>plan_default = d, round_formats = rf, final_format = ff,
                                     grand_final_format = gf\<rparr>))))"

section \<open>Precedence and validity\<close>

lemma format_for_uniform [simp]:
  "MatchFormatPlan_format_for (MatchFormatPlan_uniform d) r n = d"
  by (simp add: MatchFormatPlan_format_for_def MatchFormatPlan_uniform_def)

lemma grand_final_uniform [simp]: "MatchFormatPlan_grand_final (MatchFormatPlan_uniform d) = d"
  by (simp add: MatchFormatPlan_grand_final_def MatchFormatPlan_uniform_def)

lemma is_uniform_iff:
  "MatchFormatPlan_is_uniform p \<longleftrightarrow> p = MatchFormatPlan_uniform (plan_default p)"
  by (cases p) (auto simp: MatchFormatPlan_is_uniform_def MatchFormatPlan_uniform_def)

lemma parse_round_entry_ok:
  "parse_round_entry J key v = Inr (round, f) \<Longrightarrow> 1 \<le> round \<and> i32_range round"
  by (auto simp: parse_round_entry_def parse_i32_def Let_def split: option.splits if_splits sum.splits)

lemma parse_round_entries_keys:
  assumes "parse_round_entries J kvs acc = Inr rf"
    and "\<forall>(r, f) \<in> set acc. 1 \<le> r \<and> i32_range r" and "distinct (map fst acc)"
  shows "(\<forall>(r, f) \<in> set rf. 1 \<le> r \<and> i32_range r) \<and> distinct (map fst rf)"
  using assms
proof (induction J kvs acc rule: parse_round_entries.induct)
  case (2 J key v rest acc)
  then obtain round f where e: "parse_round_entry J key v = Inr (round, f)"
    and rest: "parse_round_entries J rest (AList.update round f acc) = Inr rf"
    by (auto split: sum.splits)
  have "fst ` set (AList.update round f acc) = {round} \<union> fst ` set acc"
    by (rule dom_update)
  then have "\<forall>r \<in> fst ` set (AList.update round f acc). 1 \<le> r \<and> i32_range r"
    using "2.prems"(2) parse_round_entry_ok [OF e] by auto
  then have "\<forall>(r, g) \<in> set (AList.update round f acc). 1 \<le> r \<and> i32_range r"
    by (force simp: case_prod_unfold)
  moreover have "distinct (map fst (AList.update round f acc))"
    by (rule distinct_update) (rule "2.prems"(3))
  ultimately show ?case
    using "2.IH" [OF e refl _ _ ] rest by simp
qed simp

end
