(* ===== verification/BracketGen.thy ===== *)
theory BracketGen
  imports Entities FormatPlan
begin

text \<open>
  The common types of the bracket generators (\<open>bracket_generator/mod.rs\<close>), the seeding of
  registrations, and the contract every generator of a single bracket keeps, stated as a
  locale: matches are numbered in creation order, at positions of their own.
\<close>

record InitialAssignment =
  ia_bracket_position :: string
  ia_participant :: SeededParticipant
  ia_slot :: nat

record ByeInfo =
  bi_participant :: SeededParticipant
  bi_advances_to_position :: string
  bi_slot :: nat

record GeneratedBracket =
  gb_total_rounds :: int
  gb_matches :: "CreateTournamentMatch list"
  gb_initial_assignments :: "InitialAssignment list"
  gb_byes :: "ByeInfo list"

section \<open>Seeded participants\<close>

definition seeded_participant :: "nat \<Rightarrow> TournamentRegistration \<Rightarrow> SeededParticipant" where
  "seeded_participant idx reg =
     \<lparr>sp_registration_id = r_id reg,
      sp_seed = (case r_seed reg of Some s \<Rightarrow> s | None \<Rightarrow> int (idx + 1)),
      sp_participant_name = r_participant_name reg,
      sp_participant_logo_url = r_participant_logo_url reg\<rparr>"

definition prepare_participants :: "TournamentRegistration list \<Rightarrow> SeededParticipant list" where
  "prepare_participants registrations =
     (let participants = map (\<lambda>(idx, reg). seeded_participant idx reg) (enumerate 0 registrations);
          sorted = sort_by (\<lambda>a b. sp_seed a \<le> sp_seed b) participants
      in map (\<lambda>(idx, p). p\<lparr>sp_seed := int (idx + 1)\<rparr>) (enumerate 0 sorted))"

section \<open>Creating matches\<close>

text \<open>The ids every generator copies into the matches it creates.\<close>

record bracket_ctx =
  ctx_tournament_id :: uuid
  ctx_stage_id :: uuid
  ctx_bracket_id :: uuid

text \<open>
  The struct literal the generators share: no participant is assigned and no link is set
  yet; the number of maps follows from the format.
\<close>

definition new_match :: "bracket_ctx \<Rightarrow> int \<Rightarrow> int \<Rightarrow> string \<Rightarrow>
    MatchParticipantSource option \<Rightarrow> MatchParticipantSource option \<Rightarrow> MatchFormat \<Rightarrow>
    CreateTournamentMatch" where
  "new_match ctx round match_number position source1 source2 fmt =
     \<lparr>c_bracket_id = ctx_bracket_id ctx, c_stage_id = ctx_stage_id ctx,
      c_tournament_id = ctx_tournament_id ctx, c_round = round, c_match_number = match_number,
      c_bracket_position = position,
      c_participant1_registration_id = None, c_participant2_registration_id = None,
      c_participant1_name = None, c_participant1_logo_url = None, c_participant1_seed = None,
      c_participant2_name = None, c_participant2_logo_url = None, c_participant2_seed = None,
      c_participant1_source = source1, c_participant2_source = source2,
      c_match_format = fmt, c_maps_required = MatchFormat_game_count fmt,
      c_winner_progresses_to = None, c_loser_progresses_to = None\<rparr>"

lemma new_match_simps [simp]:
  "c_round (new_match ctx r n p s1 s2 f) = r"
  "c_match_number (new_match ctx r n p s1 s2 f) = n"
  "c_bracket_position (new_match ctx r n p s1 s2 f) = p"
  "c_participant1_source (new_match ctx r n p s1 s2 f) = s1"
  "c_participant2_source (new_match ctx r n p s1 s2 f) = s2"
  "c_match_format (new_match ctx r n p s1 s2 f) = f"
  "c_maps_required (new_match ctx r n p s1 s2 f) = MatchFormat_game_count f"
  "c_bracket_id (new_match ctx r n p s1 s2 f) = ctx_bracket_id ctx"
  "c_stage_id (new_match ctx r n p s1 s2 f) = ctx_stage_id ctx"
  "c_tournament_id (new_match ctx r n p s1 s2 f) = ctx_tournament_id ctx"
  "c_participant1_registration_id (new_match ctx r n p s1 s2 f) = None"
  "c_participant2_registration_id (new_match ctx r n p s1 s2 f) = None"
  "c_winner_progresses_to (new_match ctx r n p s1 s2 f) = None"
  "c_loser_progresses_to (new_match ctx r n p s1 s2 f) = None"
  by (simp_all add: new_match_def)

text \<open>\<open>format!("R{round}M{number}")\<close> and its prefixed variants (\<open>WR\<close>, \<open>LR\<close>, \<open>RR\<close>, \<open>S\<close>).\<close>

definition position_text :: "string \<Rightarrow> nat \<Rightarrow> nat \<Rightarrow> string" where
  "position_text prefix round number = prefix @ show_nat round @ ''M'' @ show_nat number"

lemma position_text_inject [simp]:
  "position_text p r n = position_text p r' n' \<longleftrightarrow> r = r' \<and> n = n'"
  by (auto simp: position_text_def show_nat_append_inject)

section \<open>Properties of seeding\<close>

lemma length_prepare_participants [simp]: "length (prepare_participants rs) = length rs"
  by (simp add: prepare_participants_def Let_def)

lemma prepare_participants_seed:
  "i < length rs \<Longrightarrow> sp_seed (prepare_participants rs ! i) = int i + 1"
  by (simp add: prepare_participants_def Let_def case_prod_unfold nth_enumerate_eq)

lemma prepare_participants_ids:
  "mset (map sp_registration_id (prepare_participants rs)) = mset (map r_id rs)"
proof -
  let ?ps = "map (\<lambda>(idx, reg). seeded_participant idx reg) (enumerate 0 rs)"
  have "map sp_registration_id (prepare_participants rs) =
      map (sp_registration_id \<circ> snd) (enumerate 0 (sort_by (\<lambda>a b. sp_seed a \<le> sp_seed b) ?ps))"
    by (simp add: prepare_participants_def Let_def case_prod_unfold)
  also have "\<dots> = map sp_registration_id (sort_by (\<lambda>a b. sp_seed a \<le> sp_seed b) ?ps)"
    by (metis map_map map_snd_enumerate)
  also have "mset \<dots> = mset (map sp_registration_id ?ps)"
    by (simp add: image_mset.compositionality)
  also have "map sp_registration_id ?ps = map (r_id \<circ> snd) (enumerate 0 rs)"
    by (simp add: seeded_participant_def case_prod_unfold)
  also have "\<dots> = map r_id rs" by (metis map_map map_snd_enumerate)
  finally show ?thesis .
qed

text \<open>A participant assigned to a slot of a match, by the match's position.\<close>

definition plays_in :: "GeneratedBracket \<Rightarrow> CreateTournamentMatch \<Rightarrow> SeededParticipant \<Rightarrow> bool" where
  "plays_in g m p \<longleftrightarrow> (\<exists>a \<in> set (gb_initial_assignments g).
     ia_bracket_position a = c_bracket_position m \<and> ia_participant a = p)"

section \<open>The contract of a generator\<close>

definition numbered_from_one :: "CreateTournamentMatch list \<Rightarrow> bool" where
  "numbered_from_one ms \<longleftrightarrow> map c_match_number ms = map int [1..<length ms + 1]"

lemma numbered_from_one_iff:
  "numbered_from_one ms \<longleftrightarrow> (\<forall>i < length ms. c_match_number (ms ! i) = int i + 1)"
  unfolding numbered_from_one_def list_eq_iff_nth_eq by (simp add: add.commute del: upt_Suc)

locale generator =
  fixes gen :: "SeededParticipant list \<Rightarrow> 'e + GeneratedBracket"
  assumes numbered: "gen ps = Inr g \<Longrightarrow> numbered_from_one (gb_matches g)"
    and positions: "gen ps = Inr g \<Longrightarrow> distinct (map c_bracket_position (gb_matches g))"
    and rounds: "gen ps = Inr g \<Longrightarrow> m \<in> set (gb_matches g) \<Longrightarrow>
      1 \<le> c_round m \<and> c_round m \<le> gb_total_rounds g"
    and unassigned: "gen ps = Inr g \<Longrightarrow> m \<in> set (gb_matches g) \<Longrightarrow>
      c_participant1_registration_id m = None \<and> c_participant2_registration_id m = None \<and>
      c_winner_progresses_to m = None \<and> c_loser_progresses_to m = None"
    and maps: "gen ps = Inr g \<Longrightarrow> m \<in> set (gb_matches g) \<Longrightarrow>
      c_maps_required m = MatchFormat_game_count (c_match_format m)"
begin

lemma number_at: "gen ps = Inr g \<Longrightarrow> i < length (gb_matches g) \<Longrightarrow> c_match_number (gb_matches g ! i) = int i + 1"
  using numbered [of ps g] by (simp add: numbered_from_one_iff)

lemma position_unique:
  "gen ps = Inr g \<Longrightarrow> m \<in> set (gb_matches g) \<Longrightarrow> n \<in> set (gb_matches g) \<Longrightarrow>
   c_bracket_position m = c_bracket_position n \<Longrightarrow> m = n"
  using positions [of ps g] by (auto simp: distinct_map inj_on_def)

end

section \<open>Example inputs for the witnesses\<close>

definition example_participant :: "nat \<Rightarrow> SeededParticipant" where
  "example_participant i =
     \<lparr>sp_registration_id = show_nat i, sp_seed = int i, sp_participant_name = ''team '' @ show_nat i,
      sp_participant_logo_url = None\<rparr>"

definition example_ctx :: bracket_ctx where
  "example_ctx = \<lparr>ctx_tournament_id = ''t'', ctx_stage_id = ''s'', ctx_bracket_id = ''b''\<rparr>"

definition example_plan :: MatchFormatPlan where
  "example_plan = \<lparr>plan_default = Bo1, round_formats = [(2, Bo3)], final_format = Some Bo5,
     grand_final_format = None\<rparr>"

lemma example_participant_inject [simp]: "example_participant i = example_participant j \<longleftrightarrow> i = j"
  by (auto simp: example_participant_def)

lemma distinct_example_participants [simp]: "distinct (map example_participant xs) = distinct xs"
  by (simp add: distinct_map inj_on_def)

end
