(* ===== verification/SeedingOrder.thy ===== *)
theory SeedingOrder
  imports Prelude "HOL-Library.While_Combinator"
begin

text \<open>
  The seeding order of elimination brackets (the free functions of
  \<open>bracket_generator/single_elimination.rs\<close>): the next power of two, the standard order
  of the favourites and the slot order it induces. A call that would not return (the
  recursion at 0) or would index out of range has the value \<open>None\<close>; the theorems show
  that the callers only reach \<open>Some\<close>.
\<close>

section \<open>Definitions\<close>

definition next_power_of_two :: "nat \<Rightarrow> nat" where
  "next_power_of_two n = (if n \<le> 1 then 2 else while (\<lambda>power. power < n) (\<lambda>power. power * 2) 1)"

partial_function (option) standard_bracket_order :: "nat \<Rightarrow> nat list option" where
  "standard_bracket_order num_matches =
     (if num_matches = 1 then Some [0]
      else Option.bind (standard_bracket_order (num_matches div 2))
        (\<lambda>prev. Some (concat (map (\<lambda>seed. [seed, num_matches - 1 - seed]) prev))))"

definition get_standard_seeding_pair :: "nat \<Rightarrow> nat \<Rightarrow> (nat \<times> nat) option" where
  "get_standard_seeding_pair match_idx total_matches =
     (let bracket_size = total_matches * 2
      in Option.bind (standard_bracket_order total_matches) (\<lambda>order.
         Option.bind (list_get order match_idx) (\<lambda>high_seed.
         Some (high_seed, bracket_size - 1 - high_seed))))"

fun seeding_loop :: "nat \<Rightarrow> nat list \<Rightarrow> nat list \<Rightarrow> nat list option" where
  "seeding_loop half [] result = Some result"
| "seeding_loop half (i # is) result =
     Option.bind (get_standard_seeding_pair i half) (\<lambda>(seed1, seed2).
       seeding_loop half is (result[i * 2 := seed1, i * 2 + 1 := seed2]))"

definition generate_seeding_order :: "nat \<Rightarrow> nat list option" where
  "generate_seeding_order bracket_size =
     (if bracket_size = 2 then Some [0, 1]
      else let half = bracket_size div 2
           in seeding_loop half [0..<half] (replicate bracket_size 0))"

section \<open>The least power of two\<close>

lemma while_doubling:
  fixes n p :: nat
  assumes "0 < p" and "p < 2 * n"
  shows "\<exists>j. while (\<lambda>power. power < n) (\<lambda>power. power * 2) p = p * 2 ^ j \<and>
             n \<le> p * 2 ^ j \<and> p * 2 ^ j < 2 * n"
  using assms
proof (induction "n - p" arbitrary: p rule: less_induct)
  case less
  show ?case
  proof (cases "p < n")
    case False
    then have "while (\<lambda>power. power < n) (\<lambda>power. power * 2) p = p * 2 ^ 0"
      by (subst while_unfold) simp
    with False less.prems show ?thesis by (intro exI [of _ 0]) simp
  next
    case True
    with less.prems have "n - p * 2 < n - p" and "0 < p * 2" and "p * 2 < 2 * n" by auto
    from less.hyps [OF this] obtain j where
      "while (\<lambda>power. power < n) (\<lambda>power. power * 2) (p * 2) = p * 2 * 2 ^ j \<and>
       n \<le> p * 2 * 2 ^ j \<and> p * 2 * 2 ^ j < 2 * n" by blast
    with True show ?thesis
      by (subst while_unfold) (intro exI [of _ "Suc j"], simp add: mult.assoc)
  qed
qed

lemma next_power_of_two_pow:
  obtains k where "1 \<le> k" and "next_power_of_two n = 2 ^ k" and "n \<le> 2 ^ k"
    and "2 \<le> n \<longrightarrow> 2 ^ k < 2 * n"
proof (cases "n \<le> 1")
  case True
  then show ?thesis by (intro that [of 1]) (auto simp: next_power_of_two_def)
next
  case False
  then obtain j where j: "while (\<lambda>power. power < n) (\<lambda>power. power * 2) 1 = 1 * 2 ^ j"
    "n \<le> 1 * 2 ^ j" "1 * 2 ^ j < 2 * n"
    using while_doubling [of 1 n] by auto
  moreover have "1 \<le> j" using j(2) False by (cases j) auto
  ultimately show ?thesis using False by (intro that [of j]) (auto simp: next_power_of_two_def)
qed

section \<open>The order as a recursion on the exponent\<close>

fun seed_order :: "nat \<Rightarrow> nat list" where
  "seed_order 0 = [0]"
| "seed_order (Suc k) = concat (map (\<lambda>s. [s, 2 ^ Suc k - 1 - s]) (seed_order k))"

lemma concat_pairs_nth:
  assumes "i < length xs"
  shows "concat (map (\<lambda>x. [f x, g x]) xs) ! (2 * i) = f (xs ! i)"
    and "concat (map (\<lambda>x. [f x, g x]) xs) ! (2 * i + 1) = g (xs ! i)"
  using assms
proof (induction xs arbitrary: i)
  case (Cons x xs)
  { case 1 with Cons show ?case by (cases i) auto }
  { case 2 with Cons show ?case by (cases i) auto }
qed auto

lemma length_concat_pairs [simp]: "length (concat (map (\<lambda>x. [f x, g x]) xs)) = 2 * length xs"
  by (induction xs) auto

lemma length_seed_order [simp]: "length (seed_order k) = 2 ^ k"
  by (induction k) simp_all

lemma seed_order_bound: "s \<in> set (seed_order k) \<Longrightarrow> s < 2 ^ k"
proof (induction k arbitrary: s)
  case (Suc k)
  then obtain t where "t \<in> set (seed_order k)" "s = t \<or> s = 2 ^ Suc k - 1 - t" by auto
  with Suc.IH [of t] show ?case by auto
qed simp

lemma set_seed_order: "set (seed_order k) = {..<2 ^ k}"
proof (induction k)
  case (Suc k)
  have "s \<in> set (seed_order (Suc k))" if s: "s < 2 ^ Suc k" for s
  proof (cases "s < 2 ^ k")
    case True
    then have "s \<in> set (seed_order k)" by (simp add: Suc)
    then show ?thesis by auto
  next
    case False
    with s have "2 ^ Suc k - 1 - s \<in> set (seed_order k)" and "2 ^ Suc k - 1 - (2 ^ Suc k - 1 - s) = s"
      by (simp_all add: Suc)
    then show ?thesis by (auto simp del: power_Suc intro!: bexI [of _ "2 ^ Suc k - 1 - s"])
  qed
  then show ?case using seed_order_bound by blast
qed auto

lemma distinct_seed_order: "distinct (seed_order k)"
  by (rule card_distinct) (simp add: set_seed_order)

lemma standard_bracket_order_pow: "standard_bracket_order (2 ^ k) = Some (seed_order k)"
proof (induction k)
  case (Suc k)
  have "(2::nat) ^ Suc k div 2 = 2 ^ k" by simp
  with Suc show ?case by (subst standard_bracket_order.simps) simp
qed (simp add: standard_bracket_order.simps)

lemma seed_pair:
  "i < 2 ^ k \<Longrightarrow>
   get_standard_seeding_pair i (2 ^ k) = Some (seed_order k ! i, 2 ^ Suc k - 1 - seed_order k ! i)"
  by (simp add: get_standard_seeding_pair_def standard_bracket_order_pow mult.commute)

lemma seeding_loop_pow:
  assumes "i \<le> 2 ^ k" and "length r = 2 ^ Suc k"
    and "take (2 * i) r = take (2 * i) (seed_order (Suc k))"
  shows "seeding_loop (2 ^ k) [i..<2 ^ k] r = Some (seed_order (Suc k))"
  using assms
proof (induction "2 ^ k - i" arbitrary: i r)
  case 0
  then show ?case by simp
next
  case (Suc n)
  then have i: "i < 2 ^ k" and n: "n = 2 ^ k - Suc i" by auto
  let ?r = "r[i * 2 := seed_order k ! i, i * 2 + 1 := 2 ^ Suc k - 1 - seed_order k ! i]"
  have at: "seed_order (Suc k) ! (2 * i) = seed_order k ! i"
    "seed_order (Suc k) ! (2 * i + 1) = 2 ^ Suc k - 1 - seed_order k ! i"
    using concat_pairs_nth [of i "seed_order k" id] i by simp_all
  have step: "take (2 * Suc i) ?r = take (2 * Suc i) (seed_order (Suc k))"
  proof (rule nth_equalityI)
    fix j assume "j < length (take (2 * Suc i) ?r)"
    then have j: "j < 2 * i \<or> j = 2 * i \<or> j = 2 * i + 1" by auto
    have "r ! j = seed_order (Suc k) ! j" if "j < 2 * i"
      using Suc.prems(3) that by (metis nth_take)
    with j at i Suc.prems(2) show "take (2 * Suc i) ?r ! j = take (2 * Suc i) (seed_order (Suc k)) ! j"
      by (auto simp del: seed_order.simps simp: mult.commute)
  qed (use Suc.prems(2) in simp)
  show ?case
    using Suc.hyps(1) [of "Suc i" ?r] i n step Suc.prems(2)
    by (simp add: upt_conv_Cons seed_pair del: seed_order.simps)
qed

lemma generate_seeding_order_pow:
  assumes "1 \<le> k"
  shows "generate_seeding_order (2 ^ k) = Some (seed_order k)"
proof (cases "k = 1")
  case False
  with assms obtain j where k: "k = Suc j" "j \<noteq> 0" by (cases k) auto
  then have "(2::nat) ^ k \<noteq> 2" by (cases j) auto
  with k show ?thesis
    using seeding_loop_pow [of 0 j "replicate (2 ^ Suc j) 0"]
    by (simp add: generate_seeding_order_def Let_def del: seed_order.simps)
qed (simp add: generate_seeding_order_def)

lemma mset_seed_order: "mset (seed_order k) = mset [0..<2 ^ k]"
  by (rule set_eq_iff_mset_eq_distinct [THEN iffD1])
     (simp_all add: distinct_seed_order set_seed_order lessThan_atLeast0)

section \<open>Favourites\<close>

text \<open>One round in which the better seed of every pair wins.\<close>

fun favourites_win :: "nat list \<Rightarrow> nat list" where
  "favourites_win (s # t # rest) = min s t # favourites_win rest"
| "favourites_win rest = rest"

lemma favourites_win_pairs:
  "(\<And>x. x \<in> set xs \<Longrightarrow> f x \<le> g x) \<Longrightarrow> favourites_win (concat (map (\<lambda>x. [f x, g x]) xs)) = map f xs"
  by (induction xs) (auto simp: min_def)

lemma favourites_win_seed_order: "favourites_win (seed_order (Suc k)) = seed_order k"
proof -
  have "s \<le> 2 ^ Suc k - 1 - s" if "s \<in> set (seed_order k)" for s
    using seed_order_bound [OF that] by simp
  then show ?thesis using favourites_win_pairs [of "seed_order k" id] by simp
qed

lemma favourites_win_rounds: "(favourites_win ^^ j) (seed_order (j + k)) = seed_order k"
  by (induction j) (simp_all add: funpow_swap1 favourites_win_seed_order del: seed_order.simps)

lemma seed_order_pair_sum:
  assumes "i < 2 ^ k"
  shows "seed_order (Suc k) ! (2 * i) + seed_order (Suc k) ! (2 * i + 1) = 2 ^ Suc k - 1"
proof -
  have "seed_order k ! i < 2 ^ k" using assms by (intro seed_order_bound nth_mem) simp
  then show ?thesis using concat_pairs_nth [of i "seed_order k" id] assms by simp
qed

section \<open>Properties\<close>

text \<open>
  C2. For any number of participants the seeding order of their bracket is computed (no
  index out of range, no endless recursion), lists every seed of the bracket once, and
  pairs the seeds of each first-round match so that they sum to the bracket size minus
  one: the best with the worst, the second best with the second worst, and so on.
\<close>

theorem seeding_order_complete:
  "\<exists>order. generate_seeding_order (next_power_of_two n) = Some order \<and>
     mset order = mset [0..<next_power_of_two n] \<and>
     (\<forall>i < next_power_of_two n div 2. order ! (2 * i) + order ! (2 * i + 1) = next_power_of_two n - 1)"
proof -
  obtain k where k: "1 \<le> k" "next_power_of_two n = 2 ^ k" by (rule next_power_of_two_pow)
  then obtain j where j: "k = Suc j" by (cases k) auto
  then show ?thesis
    using mset_seed_order [of k] k generate_seeding_order_pow [OF k(1)] seed_order_pair_sum [of _ j] unfolding j by auto
qed

theorem seeding_order_complete_witness:
  "\<exists>order. generate_seeding_order (next_power_of_two 13) = Some order \<and>
     mset order = mset [0..<next_power_of_two 13]"
  using seeding_order_complete [of 13] by blast

text \<open>
  C30. Favourites meet as late as possible: if the better seed wins every match, the seeds
  left after any number of rounds are exactly the best ones, so that seeds 1 and 2 can only
  meet in the final, seeds 1 to 4 only from the semi-finals on, and so on.
\<close>

theorem seeding_order_protects_favourites:
  assumes "1 \<le> k" and "j \<le> k"
  shows "\<exists>order. generate_seeding_order (2 ^ k) = Some order \<and>
    mset ((favourites_win ^^ j) order) = mset [0..<2 ^ (k - j)]"
proof -
  have "(favourites_win ^^ j) (seed_order k) = seed_order (k - j)"
    using favourites_win_rounds [of j "k - j"] assms(2) by simp
  then show ?thesis
    using generate_seeding_order_pow [OF assms(1)] mset_seed_order [of "k - j"] by simp
qed

theorem seeding_order_protects_favourites_witness:
  "\<exists>order. generate_seeding_order (2 ^ 4) = Some order \<and>
    mset ((favourites_win ^^ 2) order) = mset [0..<2 ^ (4 - 2)]"
  by (rule seeding_order_protects_favourites) simp_all

text \<open>
  C6. The bracket size is the least power of two, at least 2, that holds all participants;
  on the 64-bit target it does not overflow for any count up to \<open>2 ^ 63\<close>.
\<close>

theorem bracket_size_least:
  "(\<exists>k \<ge> 1. next_power_of_two n = 2 ^ k \<and> n \<le> 2 ^ k \<and> (\<forall>j \<ge> 1. n \<le> 2 ^ j \<longrightarrow> k \<le> j))
   \<and> (n \<le> 2 ^ 63 \<longrightarrow> next_power_of_two n < 2 ^ 64)"
proof -
  obtain k where k: "1 \<le> k" "next_power_of_two n = 2 ^ k" "n \<le> 2 ^ k" "2 \<le> n \<longrightarrow> 2 ^ k < 2 * n"
    by (rule next_power_of_two_pow)
  have least: "k \<le> j" if "1 \<le> j" "n \<le> 2 ^ j" for j
  proof (cases "2 \<le> n")
    case True
    with k(4) that have "(2::nat) ^ k < 2 ^ Suc j" by simp
    then have "k < Suc j" by (rule power_less_imp_less_exp [rotated]) simp
    then show ?thesis by simp
  next
    case False
    then have "next_power_of_two n = 2 ^ 1" by (simp add: next_power_of_two_def)
    with k(2) have "k = 1" by (metis power_inject_exp one_less_numeral_iff semiring_norm(76))
    with that show ?thesis by simp
  qed
  show ?thesis
  proof (intro conjI impI)
    show "\<exists>k \<ge> 1. next_power_of_two n = 2 ^ k \<and> n \<le> 2 ^ k \<and> (\<forall>j \<ge> 1. n \<le> 2 ^ j \<longrightarrow> k \<le> j)"
      using k(1-3) least by blast
    assume "n \<le> 2 ^ 63"
    then have "k \<le> 63" by (intro least) simp_all
    then have "k < 64" by simp
    then show "next_power_of_two n < 2 ^ 64"
      unfolding k(2) by (rule power_strict_increasing) simp
  qed
qed

theorem bracket_size_least_witness:
  "next_power_of_two 5 < 2 ^ 64 \<and> (\<exists>k \<ge> 1. next_power_of_two 5 = 2 ^ k \<and> 5 \<le> (2::nat) ^ k)"
proof
  show "next_power_of_two 5 < 2 ^ 64"
    by (rule bracket_size_least [of 5, THEN conjunct2, THEN mp]) simp
  show "\<exists>k \<ge> 1. next_power_of_two 5 = 2 ^ k \<and> 5 \<le> (2::nat) ^ k"
    using bracket_size_least [of 5, THEN conjunct1] by blast
qed

end
