(* ===== verification/Errors.thy ===== *)
theory Errors
  imports Entities
begin

text \<open>
  The error values of the services (\<open>portal-core/src/errors.rs\<close>): field errors and their
  accumulation, the domain errors that the tournament services return (the enum has
  constructors for other domains, which no modelled operation builds) with their messages (\<open>Display\<close>) and classification, and
  the HTTP problem each one becomes (\<open>portal-api/src/error.rs\<close>).
\<close>

section \<open>Validation errors\<close>

record FieldError =
  fe_field :: string
  fe_message :: string
  fe_code :: string

definition FieldError_required :: "string \<Rightarrow> FieldError" where
  "FieldError_required field = \<lparr>fe_field = field, fe_message = field @ '' is required'', fe_code = ''required''\<rparr>"

definition FieldError_length :: "string \<Rightarrow> nat \<Rightarrow> nat \<Rightarrow> FieldError" where
  "FieldError_length field lo hi =
     \<lparr>fe_field = field,
      fe_message = field @ '' must be between '' @ show_nat lo @ '' and '' @ show_nat hi @ '' characters'',
      fe_code = ''length''\<rparr>"

definition FieldError_format :: "string \<Rightarrow> string \<Rightarrow> FieldError" where
  "FieldError_format field expected =
     \<lparr>fe_field = field, fe_message = field @ '' must be '' @ expected, fe_code = ''format''\<rparr>"

record ValidationError =
  ve_errors :: "FieldError list"

definition ValidationError_new :: ValidationError where
  "ValidationError_new = \<lparr>ve_errors = []\<rparr>"

definition ValidationError_field :: "FieldError \<Rightarrow> ValidationError" where
  "ValidationError_field e = \<lparr>ve_errors = [e]\<rparr>"

definition ValidationError_add :: "ValidationError \<Rightarrow> FieldError \<Rightarrow> ValidationError" where
  "ValidationError_add v e = v\<lparr>ve_errors := ve_errors v @ [e]\<rparr>"

definition ValidationError_has_errors :: "ValidationError \<Rightarrow> bool" where
  "ValidationError_has_errors v \<longleftrightarrow> ve_errors v \<noteq> []"

definition ValidationError_into_result :: "ValidationError \<Rightarrow> 'a \<Rightarrow> ValidationError + 'a" where
  "ValidationError_into_result v x = (if ValidationError_has_errors v then Inl v else Inr x)"

definition ValidationError_to_string :: "ValidationError \<Rightarrow> string" where
  "ValidationError_to_string v =
     (if ve_errors v = [] then ''validation error (no details)''
      else if length (ve_errors v) = 1 then fe_message (ve_errors v ! 0)
      else show_nat (length (ve_errors v)) @ '' validation errors'')"

section \<open>Domain errors\<close>

datatype DomainError =
    TournamentNotFound uuid
  | TournamentStageNotFound uuid
  | TournamentBracketNotFound uuid
  | TournamentMatchNotFound uuid
  | TournamentRegistrationNotFound uuid
  | TournamentInvitationNotFound uuid
  | DisputeNotFound uuid
  | ForfeitRecordNotFound uuid
  | ResultClaimNotFound uuid
  | VetoSessionNotFound uuid
  | DemoMatchLinkNotFound uuid
  | DemoNotLinkedToMatch string string
  | ResultReviewNotFound uuid
  | LookupFailed string string
  | InvalidReviewState string string
  | ReviewAlreadyAcknowledged int
  | TournamentNotOpen
  | TournamentRegistrationClosed
  | TournamentAlreadyStarted
  | TournamentFull
  | TournamentInviteOnly
  | EligibilityViolation string
  | AlreadyRegisteredForTournament
  | NotRegisteredForTournament
  | TournamentRegistrationPending
  | NotCheckedIn
  | MatchNotReady
  | MatchAlreadyCompleted
  | InvalidMatchResult string
  | BracketGenerationFailed string
  | InsufficientParticipants
  | InvalidTournamentTransition string string
  | NotAuthorized string
  | Forbidden string
  | SagaPaused string
  | ResultRejectedByReview string
  | Conflict string
  | InvalidState string
  | Validation ValidationError
  | Internal string

definition single_quote :: char where
  "single_quote = char_of (39 :: nat)"

definition DomainError_to_string :: "DomainError \<Rightarrow> string" where
  "DomainError_to_string e = (case e of
     TournamentNotFound x \<Rightarrow> ''tournament not found: '' @ x
   | TournamentStageNotFound x \<Rightarrow> ''tournament stage not found: '' @ x
   | TournamentBracketNotFound x \<Rightarrow> ''tournament bracket not found: '' @ x
   | TournamentMatchNotFound x \<Rightarrow> ''tournament match not found: '' @ x
   | TournamentRegistrationNotFound x \<Rightarrow> ''tournament registration not found: '' @ x
   | TournamentInvitationNotFound x \<Rightarrow> ''tournament invitation not found: '' @ x
   | DisputeNotFound x \<Rightarrow> ''dispute not found: '' @ x
   | ForfeitRecordNotFound x \<Rightarrow> ''forfeit record not found: '' @ x
   | ResultClaimNotFound x \<Rightarrow> ''result claim not found: '' @ x
   | VetoSessionNotFound x \<Rightarrow> ''veto session not found: '' @ x
   | DemoMatchLinkNotFound x \<Rightarrow> ''demo-match link not found: '' @ x
   | DemoNotLinkedToMatch x y \<Rightarrow> ''demo link '' @ x @ '' is not linked to match '' @ y
   | ResultReviewNotFound x \<Rightarrow> ''result review not found: '' @ x
   | LookupFailed resource query \<Rightarrow> resource @ '' not found: '' @ query
   | InvalidReviewState x y \<Rightarrow> ''invalid review state '' @ [single_quote] @ x @ [single_quote] @ '': '' @ y
   | ReviewAlreadyAcknowledged x \<Rightarrow> ''review already acknowledged by captain '' @ show_int x
   | TournamentNotOpen \<Rightarrow> ''tournament is not open for registration''
   | TournamentRegistrationClosed \<Rightarrow> ''tournament registration has closed''
   | TournamentAlreadyStarted \<Rightarrow> ''tournament has already started''
   | TournamentFull \<Rightarrow> ''tournament is at maximum capacity''
   | TournamentInviteOnly \<Rightarrow> ''tournament is invite-only''
   | EligibilityViolation x \<Rightarrow> ''eligibility violation: '' @ x
   | AlreadyRegisteredForTournament \<Rightarrow> ''already registered for this tournament''
   | NotRegisteredForTournament \<Rightarrow> ''not registered for this tournament''
   | TournamentRegistrationPending \<Rightarrow> ''tournament registration is pending approval''
   | NotCheckedIn \<Rightarrow> ''participant has not checked in''
   | MatchNotReady \<Rightarrow> ''match is not ready''
   | MatchAlreadyCompleted \<Rightarrow> ''match has already been completed''
   | InvalidMatchResult x \<Rightarrow> ''invalid match result: '' @ x
   | BracketGenerationFailed x \<Rightarrow> ''bracket generation failed: '' @ x
   | InsufficientParticipants \<Rightarrow> ''insufficient participants for tournament''
   | InvalidTournamentTransition frm target \<Rightarrow> ''invalid tournament state transition: '' @ frm @ '' -> '' @ target
   | NotAuthorized x \<Rightarrow> ''not authorized: '' @ x
   | Forbidden x \<Rightarrow> ''forbidden: '' @ x
   | SagaPaused x \<Rightarrow> ''saga paused: '' @ x
   | ResultRejectedByReview x \<Rightarrow> ''result rejected by review: '' @ x
   | Conflict x \<Rightarrow> ''conflict: '' @ x
   | InvalidState x \<Rightarrow> ''invalid state: '' @ x
   | Validation x \<Rightarrow> ''validation failed''
   | Internal x \<Rightarrow> ''internal error: '' @ x)"

definition DomainError_is_not_found :: "DomainError \<Rightarrow> bool" where
  "DomainError_is_not_found e = (case e of
     TournamentNotFound _ \<Rightarrow> True
   | TournamentStageNotFound _ \<Rightarrow> True
   | TournamentBracketNotFound _ \<Rightarrow> True
   | TournamentMatchNotFound _ \<Rightarrow> True
   | TournamentRegistrationNotFound _ \<Rightarrow> True
   | TournamentInvitationNotFound _ \<Rightarrow> True
   | DisputeNotFound _ \<Rightarrow> True
   | ForfeitRecordNotFound _ \<Rightarrow> True
   | ResultClaimNotFound _ \<Rightarrow> True
   | VetoSessionNotFound _ \<Rightarrow> True
   | DemoMatchLinkNotFound _ \<Rightarrow> True
   | ResultReviewNotFound _ \<Rightarrow> True
   | LookupFailed _ _ \<Rightarrow> True
   | _ \<Rightarrow> False)"

definition DomainError_is_auth_error :: "DomainError \<Rightarrow> bool" where
  "DomainError_is_auth_error e = (case e of NotAuthorized _ \<Rightarrow> True | Forbidden _ \<Rightarrow> True | _ \<Rightarrow> False)"

section \<open>HTTP problems\<close>

record FieldErrorDto =
  fd_field :: string
  fd_message :: string
  fd_code :: string

record ApiError =
  ae_error_type :: string
  ae_title :: string
  ae_status :: nat
  ae_detail :: string
  ae_instance :: "string option"
  ae_errors :: "FieldErrorDto list option"

text \<open>The status codes are the numbers of the \<open>http\<close> crate's named constants.\<close>

definition ApiError_new :: "nat \<Rightarrow> string \<Rightarrow> string \<Rightarrow> ApiError" where
  "ApiError_new status title detail =
     \<lparr>ae_error_type = ''https://api.gaming-portal.com/problems/'' @
        map (\<lambda>c. if c = CHR '' '' then CHR ''-'' else c) (to_lowercase title),
      ae_title = title, ae_status = status, ae_detail = detail, ae_instance = None, ae_errors = None\<rparr>"

definition ApiError_not_found :: "string \<Rightarrow> ApiError" where
  "ApiError_not_found detail = ApiError_new 404 ''Not Found'' detail"

definition ApiError_unauthorized :: "string \<Rightarrow> ApiError" where
  "ApiError_unauthorized detail = ApiError_new 401 ''Unauthorized'' detail"

definition ApiError_forbidden :: "string \<Rightarrow> ApiError" where
  "ApiError_forbidden detail = ApiError_new 403 ''Forbidden'' detail"

definition ApiError_bad_request :: "string \<Rightarrow> ApiError" where
  "ApiError_bad_request detail = ApiError_new 400 ''Bad Request'' detail"

definition ApiError_conflict :: "string \<Rightarrow> ApiError" where
  "ApiError_conflict detail = ApiError_new 409 ''Conflict'' detail"

definition ApiError_internal :: "string \<Rightarrow> ApiError" where
  "ApiError_internal detail = ApiError_new 500 ''Internal Server Error'' detail"

definition ApiError_service_unavailable :: "string \<Rightarrow> ApiError" where
  "ApiError_service_unavailable detail = ApiError_new 503 ''Service Unavailable'' detail"

definition ApiError_not_implemented :: "string \<Rightarrow> ApiError" where
  "ApiError_not_implemented detail = ApiError_new 501 ''Not Implemented'' detail"

definition ApiError_validation :: "FieldErrorDto list \<Rightarrow> ApiError" where
  "ApiError_validation errors =
     \<lparr>ae_error_type = ''https://api.gaming-portal.com/problems/validation-error'',
      ae_title = ''Validation Failed'', ae_status = 400,
      ae_detail = ''One or more fields failed validation'', ae_instance = None, ae_errors = Some errors\<rparr>"

definition FieldErrorDto_of :: "FieldError \<Rightarrow> FieldErrorDto" where
  "FieldErrorDto_of e = \<lparr>fd_field = fe_field e, fd_message = fe_message e, fd_code = fe_code e\<rparr>"

definition ApiError_from_domain :: "DomainError \<Rightarrow> ApiError" where
  "ApiError_from_domain e = (case e of
     TournamentNotFound i \<Rightarrow> ApiError_not_found (''Tournament not found: '' @ i)
   | TournamentStageNotFound i \<Rightarrow> ApiError_not_found (''Tournament stage not found: '' @ i)
   | TournamentBracketNotFound i \<Rightarrow> ApiError_not_found (''Tournament bracket not found: '' @ i)
   | TournamentMatchNotFound i \<Rightarrow> ApiError_not_found (''Tournament match not found: '' @ i)
   | TournamentRegistrationNotFound i \<Rightarrow> ApiError_not_found (''Tournament registration not found: '' @ i)
   | TournamentInvitationNotFound i \<Rightarrow> ApiError_not_found (''Tournament invitation not found: '' @ i)
   | DisputeNotFound i \<Rightarrow> ApiError_not_found (''Dispute not found: '' @ i)
   | ForfeitRecordNotFound i \<Rightarrow> ApiError_not_found (''Forfeit record not found: '' @ i)
   | ResultClaimNotFound i \<Rightarrow> ApiError_not_found (''Result claim not found: '' @ i)
   | VetoSessionNotFound i \<Rightarrow> ApiError_not_found (''Veto session not found: '' @ i)
   | DemoMatchLinkNotFound i \<Rightarrow> ApiError_not_found (''Demo-match link not found: '' @ i)
   | DemoNotLinkedToMatch link_id match_id \<Rightarrow> ApiError_bad_request (''Demo link '' @ link_id @ '' is not linked to match '' @ match_id)
   | ResultReviewNotFound i \<Rightarrow> ApiError_not_found (''Result review not found: '' @ i)
   | LookupFailed resource query \<Rightarrow> ApiError_not_found (resource @ '' not found: '' @ query)
   | InvalidReviewState status msg \<Rightarrow> ApiError_conflict (''Invalid review state '' @ [single_quote] @ status @ [single_quote] @ '': '' @ msg)
   | ReviewAlreadyAcknowledged captain \<Rightarrow> ApiError_conflict (''Review already acknowledged by captain '' @ show_int captain)
   | NotAuthorized msg \<Rightarrow> ApiError_forbidden (msg)
   | Forbidden msg \<Rightarrow> ApiError_forbidden (msg)
   | AlreadyRegisteredForTournament \<Rightarrow> ApiError_conflict (''Already registered for this tournament'')
   | Conflict msg \<Rightarrow> ApiError_conflict (msg)
   | InvalidState msg \<Rightarrow> ApiError_bad_request (''Invalid state: '' @ msg)
   | TournamentNotOpen \<Rightarrow> ApiError_bad_request (''Tournament is not open for registration'')
   | TournamentRegistrationClosed \<Rightarrow> ApiError_bad_request (''Tournament registration has closed'')
   | TournamentAlreadyStarted \<Rightarrow> ApiError_bad_request (''Tournament has already started'')
   | TournamentFull \<Rightarrow> ApiError_bad_request (''Tournament is at maximum capacity'')
   | TournamentInviteOnly \<Rightarrow> ApiError_forbidden (''Tournament is invite-only and you have no invitation'')
   | EligibilityViolation msg \<Rightarrow> ApiError_bad_request (msg)
   | NotRegisteredForTournament \<Rightarrow> ApiError_bad_request (''Not registered for this tournament'')
   | TournamentRegistrationPending \<Rightarrow> ApiError_bad_request (''Tournament registration is pending approval'')
   | NotCheckedIn \<Rightarrow> ApiError_bad_request (''Participant has not checked in'')
   | MatchNotReady \<Rightarrow> ApiError_bad_request (''Match is not ready to start'')
   | MatchAlreadyCompleted \<Rightarrow> ApiError_bad_request (''Match has already been completed'')
   | InvalidMatchResult msg \<Rightarrow> ApiError_bad_request (''Invalid match result: '' @ msg)
   | InsufficientParticipants \<Rightarrow> ApiError_bad_request (''Insufficient participants for tournament'')
   | InvalidTournamentTransition frm target \<Rightarrow> ApiError_bad_request (''Invalid tournament state transition: '' @ frm @ '' -> '' @ target)
   | BracketGenerationFailed msg \<Rightarrow> ApiError_internal (''Bracket generation failed: '' @ msg)
   | SagaPaused msg \<Rightarrow> ApiError_conflict (''Operation paused: '' @ msg)
   | ResultRejectedByReview msg \<Rightarrow> ApiError_conflict (''Result rejected by review: '' @ msg)
   | Internal msg \<Rightarrow> ApiError_internal (msg)
   | Validation validation_err \<Rightarrow> ApiError_validation (map FieldErrorDto_of (ve_errors validation_err)))"

lemmas api_error_defs = ApiError_new_def ApiError_validation_def
  ApiError_not_found_def ApiError_unauthorized_def ApiError_forbidden_def ApiError_bad_request_def ApiError_conflict_def ApiError_internal_def ApiError_service_unavailable_def ApiError_not_implemented_def

end
