(* ===== verification/SingleElim.thy ===== *)
theory SingleElim
  imports BracketGen SeedingOrder Errors
begin

text \<open>
  Single elimination (\<open>bracket_generator/single_elimination.rs\<close>): the matches of every round
  with the sources of their participants, the first-round assignments and the byes, in the
  order the code creates them, and the shape of the result.
\<close>

section \<open>Definitions\<close>

text \<open>\<open>(n as f64).log2() as i32\<close>, which is exact on the powers of two it is called with.\<close>

fun log2_floor :: "nat \<Rightarrow> nat" where
  "log2_floor n = (if n \<le> 1 then 0 else Suc (log2_floor (n div 2)))"

declare log2_floor.simps [simp del]

text \<open>The pairs of a round and a match index in creation order.\<close>

definition se_slots :: "nat \<Rightarrow> nat \<Rightarrow> (nat \<times> nat) list" where
  "se_slots bracket_size total_rounds =
     concat (map (\<lambda>round. map (Pair round) [0..<bracket_size div 2 ^ round]) [1..<total_rounds + 1])"

definition se_sources :: "string \<Rightarrow> nat list \<Rightarrow> nat \<Rightarrow> nat \<Rightarrow>
    MatchParticipantSource option \<times> MatchParticipantSource option" where
  "se_sources pre seeding_order round match_idx =
     (if round = 1
      then (Some (Seed (int (seeding_order ! (match_idx * 2)) + 1)),
            Some (Seed (int (seeding_order ! (match_idx * 2 + 1)) + 1)))
      else (Some (WinnerOf (position_text pre (round - 1) (match_idx * 2 + 1))),
            Some (WinnerOf (position_text pre (round - 1) (match_idx * 2 + 2)))))"

definition se_match :: "string \<Rightarrow> bracket_ctx \<Rightarrow> MatchFormatPlan \<Rightarrow> nat list \<Rightarrow> nat \<Rightarrow>
    nat \<times> nat \<times> nat \<Rightarrow> CreateTournamentMatch" where
  "se_match pre ctx plan seeding_order total_rounds = (\<lambda>(match_number, round, match_idx).
     (let (source1, source2) = se_sources pre seeding_order round match_idx
      in new_match ctx (int round) (int match_number) (position_text pre round (match_idx + 1))
           source1 source2 (MatchFormatPlan_format_for plan (int round) (int total_rounds))))"

text \<open>One pair of first-round seeds: two assignments, or the bye of the one present.\<close>

definition se_bye :: "string \<Rightarrow> nat \<Rightarrow> SeededParticipant \<Rightarrow> ByeInfo" where
  "se_bye pre match_idx p =
     \<lparr>bi_participant = p, bi_advances_to_position = position_text pre 2 (match_idx div 2 + 1),
      bi_slot = (if match_idx mod 2 = 0 then 1 else 2)\<rparr>"

definition se_pair :: "string \<Rightarrow> SeededParticipant list \<Rightarrow> nat \<times> nat list \<Rightarrow> InitialAssignment list \<times> ByeInfo list" where
  "se_pair pre participants = (\<lambda>(match_idx, seeding_pair).
     (let position = position_text pre 1 (match_idx + 1)
      in case (list_get participants (seeding_pair ! 0), list_get participants (seeding_pair ! 1)) of
           (Some p1, Some p2) \<Rightarrow>
             ([\<lparr>ia_bracket_position = position, ia_participant = p1, ia_slot = 1\<rparr>,
               \<lparr>ia_bracket_position = position, ia_participant = p2, ia_slot = 2\<rparr>], [])
         | (Some p, None) \<Rightarrow> ([], [se_bye pre match_idx p])
         | (None, Some p) \<Rightarrow> ([], [se_bye pre match_idx p])
         | (None, None) \<Rightarrow> ([], [])))"

text \<open>
  The knockout bracket of both elimination formats: single elimination numbers its positions
  \<open>R\<close> and treats the last round as the final, the winners bracket of double elimination
  numbers them \<open>WR\<close> and has no final (it passes 0 for the number of rounds).
\<close>

definition knockout :: "string \<Rightarrow> bool \<Rightarrow> bracket_ctx \<Rightarrow> MatchFormatPlan \<Rightarrow> SeededParticipant list \<Rightarrow>
    DomainError + GeneratedBracket" where
  "knockout pre has_final ctx plan participants =
     (let participant_count = length participants
      in if participant_count < 2 then Inl InsufficientParticipants
         else let bracket_size = next_power_of_two participant_count;
                  total_rounds = log2_floor bracket_size;
                  seeding_order = the (generate_seeding_order bracket_size);
                  pairs = map (se_pair pre participants) (enumerate 0 (chunks2 seeding_order))
              in Inr \<lparr>gb_total_rounds = int total_rounds,
                      gb_matches = map (se_match pre ctx plan seeding_order (if has_final then total_rounds else 0))
                        (enumerate 1 (se_slots bracket_size total_rounds)),
                      gb_initial_assignments = concat (map fst pairs),
                      gb_byes = concat (map snd pairs)\<rparr>)"

definition single_elimination :: "bracket_ctx \<Rightarrow> MatchFormatPlan \<Rightarrow> SeededParticipant list \<Rightarrow>
    DomainError + GeneratedBracket" where
  "single_elimination ctx plan participants = knockout ''R'' True ctx plan participants"

section \<open>The slots\<close>

lemma log2_floor_pow [simp]: "log2_floor (2 ^ k) = k"
proof (induction k)
  case (Suc k)
  have "\<not> (2::nat) ^ Suc k \<le> 1" using one_less_power [of "2::nat" "Suc k"] by linarith
  with Suc show ?case by (subst log2_floor.simps) simp
qed (simp add: log2_floor.simps)

lemma se_slots_mem:
  "(r, i) \<in> set (se_slots (2 ^ k) k) \<longleftrightarrow> 1 \<le> r \<and> r \<le> k \<and> i < 2 ^ (k - r)"
  by (auto simp: se_slots_def power_diff)

lemma distinct_round_slots:
  "distinct rounds \<Longrightarrow> distinct (concat (map (\<lambda>r. map (Pair r) [0..<f r]) rounds))"
  by (induction rounds) (auto simp: distinct_map inj_on_def)

lemma distinct_se_slots: "distinct (se_slots n k)"
  unfolding se_slots_def by (rule distinct_round_slots) simp

lemma length_se_slots: "length (se_slots (2 ^ k) k) = 2 ^ k - 1"
proof -
  have "sum_list (map (\<lambda>r. (2::nat) ^ k div 2 ^ r) [1..<j + 1]) = 2 ^ k - 2 ^ (k - j)" if "j \<le> k" for j
    using that
  proof (induction j)
    case (Suc j)
    have "(2::nat) ^ (k - j) = 2 * 2 ^ (k - Suc j)"
      using Suc.prems by (metis Suc_diff_Suc Suc_le_eq power_Suc)
    moreover have "(2::nat) ^ (k - j) \<le> 2 ^ k" by simp
    moreover have "(2::nat) ^ k div 2 ^ Suc j = 2 ^ (k - Suc j)"
      using Suc.prems by (subst power_diff) auto
    ultimately show ?case using Suc by (simp add: power_diff)
  qed simp
  from this [of k] show ?thesis by (simp add: se_slots_def length_concat comp_def del: upt_Suc)
qed

lemma chunks2_pairs [simp]: "chunks2 (concat (map (\<lambda>x. [f x, g x]) xs)) = map (\<lambda>x. [f x, g x]) xs"
  by (induction xs) auto

lemma se_match_simps [simp]:
  "c_round (se_match pre ctx plan order n (num, r, i)) = int r"
  "c_match_number (se_match pre ctx plan order n (num, r, i)) = int num"
  "c_bracket_position (se_match pre ctx plan order n (num, r, i)) = position_text pre r (i + 1)"
  "c_participant1_source (se_match pre ctx plan order n (num, r, i)) = fst (se_sources pre order r i)"
  "c_participant2_source (se_match pre ctx plan order n (num, r, i)) = snd (se_sources pre order r i)"
  "c_match_format (se_match pre ctx plan order n (num, r, i)) =
     MatchFormatPlan_format_for plan (int r) (int n)"
  "c_maps_required (se_match pre ctx plan order n (num, r, i)) =
     MatchFormat_game_count (MatchFormatPlan_format_for plan (int r) (int n))"
  "c_participant1_registration_id (se_match pre ctx plan order n (num, r, i)) = None"
  "c_participant2_registration_id (se_match pre ctx plan order n (num, r, i)) = None"
  "c_winner_progresses_to (se_match pre ctx plan order n (num, r, i)) = None"
  "c_loser_progresses_to (se_match pre ctx plan order n (num, r, i)) = None"
  by (simp_all add: se_match_def Let_def case_prod_unfold)

text \<open>The result, with the bracket size as a power of two and the pairs by favourite.\<close>

lemma knockout_shape:
  assumes "knockout pre fin ctx plan ps = Inr g"
  obtains k where "2 \<le> length ps" and "length ps \<le> 2 ^ Suc k" and "2 ^ Suc k < 2 * length ps"
    and "next_power_of_two (length ps) = 2 ^ Suc k"
    and "gb_total_rounds g = int (Suc k)"
    and "gb_matches g = map (se_match pre ctx plan (seed_order (Suc k)) (if fin then Suc k else 0))
           (enumerate 1 (se_slots (2 ^ Suc k) (Suc k)))"
    and "gb_initial_assignments g = concat (map (\<lambda>(i, s). fst (se_pair pre ps (i, [s, 2 ^ Suc k - 1 - s])))
           (enumerate 0 (seed_order k)))"
    and "gb_byes g = concat (map (\<lambda>(i, s). snd (se_pair pre ps (i, [s, 2 ^ Suc k - 1 - s])))
           (enumerate 0 (seed_order k)))"
proof -
  have n: "2 \<le> length ps"
    using assms by (auto simp: knockout_def Let_def split: if_splits)
  obtain k' where k': "1 \<le> k'" "next_power_of_two (length ps) = 2 ^ k'" "length ps \<le> 2 ^ k'"
    "2 ^ k' < 2 * length ps"
    using next_power_of_two_pow [of "length ps"] n by metis
  then obtain k where k: "k' = Suc k" by (cases k') auto
  have en: "enumerate 0 (map f xs) = map (\<lambda>(i, x). (i, f x)) (enumerate 0 xs)"
    for f :: "nat \<Rightarrow> nat list" and xs
    by (simp add: enumerate_map_upt list_eq_iff_nth_eq nth_enumerate_eq)
  have "chunks2 (seed_order (Suc k)) = map (\<lambda>s. [s, 2 ^ Suc k - 1 - s]) (seed_order k)"
    by simp
  then have e: "enumerate 0 (chunks2 (seed_order (Suc k))) =
      map (\<lambda>(i, s). (i, [s, 2 ^ Suc k - 1 - s])) (enumerate 0 (seed_order k))"
    by (simp only: en)
  have "knockout pre fin ctx plan ps = Inr \<lparr>gb_total_rounds = int (Suc k),
      gb_matches = map (se_match pre ctx plan (seed_order (Suc k)) (if fin then Suc k else 0))
        (enumerate 1 (se_slots (2 ^ Suc k) (Suc k))),
      gb_initial_assignments = concat (map fst (map (se_pair pre ps) (enumerate 0 (chunks2 (seed_order (Suc k)))))),
      gb_byes = concat (map snd (map (se_pair pre ps) (enumerate 0 (chunks2 (seed_order (Suc k))))))\<rparr>"
    unfolding knockout_def Let_def using n k' k generate_seeding_order_pow [of k'] log2_floor_pow [of k']
    by (simp del: power_Suc seed_order.simps)
  then show ?thesis
    using that [of k] k k' n assms unfolding e
    by (simp add: comp_def case_prod_unfold del: power_Suc seed_order.simps)
qed

section \<open>The contract of a generator\<close>

lemma se_match_in:
  assumes "m \<in> set (map (se_match pre ctx plan order n) (enumerate 1 (se_slots (2 ^ k) k)))"
  obtains num r i where "1 \<le> r" and "r \<le> k" and "i < 2 ^ (k - r)"
    and "m = se_match pre ctx plan order n (num, r, i)"
proof -
  obtain num r i where "(num, r, i) \<in> set (enumerate 1 (se_slots (2 ^ k) k))"
    and "m = se_match pre ctx plan order n (num, r, i)" using assms by auto
  then show ?thesis by (intro that [of r i num]) (auto simp: se_slots_mem dest: enumerate_snd_mem)
qed

lemma se_slot_match:
  assumes "1 \<le> r" and "r \<le> k" and "i < 2 ^ (k - r)"
  shows "\<exists>num. se_match pre ctx plan order n (num, r, i) \<in>
    set (map (se_match pre ctx plan order n) (enumerate 1 (se_slots (2 ^ k) k)))"
proof -
  have "(r, i) \<in> set (se_slots (2 ^ k) k)" using assms by (simp add: se_slots_mem)
  then obtain num where "(num, r, i) \<in> set (enumerate 1 (se_slots (2 ^ k) k))"
    using enumerate_ex_mem [of "(r, i)" "se_slots (2 ^ k) k" 1] by blast
  then show ?thesis by (intro exI [of _ num]) (simp only: set_map, rule imageI)
qed

lemma se_positions:
  "map c_bracket_position (map (se_match pre ctx plan order n) (enumerate 1 xs)) =
   map (\<lambda>(r, i). position_text pre r (i + 1)) xs"
  by (rule nth_equalityI) (simp_all add: nth_enumerate_eq case_prod_unfold se_match_def Let_def)

interpretation ko_gen: generator "knockout pre fin ctx plan" for pre fin ctx plan
proof
  fix ps g assume g: "knockout pre fin ctx plan ps = Inr g"
  then obtain k where m: "gb_matches g = map (se_match pre ctx plan (seed_order (Suc k)) (if fin then Suc k else 0))
      (enumerate 1 (se_slots (2 ^ Suc k) (Suc k)))" and t: "gb_total_rounds g = int (Suc k)"
    by (rule knockout_shape) blast
  show "numbered_from_one (gb_matches g)"
    by (simp add: m numbered_from_one_iff nth_enumerate_eq case_prod_unfold se_match_def Let_def
        del: power_Suc)
  have "inj_on (\<lambda>(r, i). position_text pre r (i + 1)) (set (se_slots (2 ^ Suc k) (Suc k)))"
    by (auto simp: inj_on_def)
  then show "distinct (map c_bracket_position (gb_matches g))"
    unfolding m se_positions by (simp add: distinct_map distinct_se_slots del: power_Suc)
  fix m assume "m \<in> set (gb_matches g)"
  then obtain num r i where "1 \<le> r" "r \<le> Suc k" "m = se_match pre ctx plan (seed_order (Suc k)) (if fin then Suc k else 0) (num, r, i)"
    unfolding m by (rule se_match_in)
  then show "1 \<le> c_round m \<and> c_round m \<le> gb_total_rounds g"
    and "c_participant1_registration_id m = None \<and> c_participant2_registration_id m = None \<and>
      c_winner_progresses_to m = None \<and> c_loser_progresses_to m = None"
    and "c_maps_required m = MatchFormat_game_count (c_match_format m)"
    by (simp_all add: t)
qed

section \<open>Who plays in the first round\<close>

lemma se_pair_full:
  assumes "s < length ps" and "u < length ps"
  shows "se_pair pre ps (i, [s, u]) =
    ([\<lparr>ia_bracket_position = position_text pre 1 (i + 1), ia_participant = ps ! s, ia_slot = 1\<rparr>,
      \<lparr>ia_bracket_position = position_text pre 1 (i + 1), ia_participant = ps ! u, ia_slot = 2\<rparr>], [])"
  using assms by (simp add: se_pair_def Let_def)

lemma se_pair_bye:
  assumes "s < length ps" and "length ps \<le> u"
  shows "se_pair pre ps (i, [s, u]) = ([], [se_bye pre i (ps ! s)])"
  using assms by (simp add: se_pair_def Let_def list_get_def)

lemma se_assigned_seeds:
  assumes "\<And>s. s \<in> set xs \<Longrightarrow> s < length ps" and "\<And>s. s \<in> set xs \<Longrightarrow> length ps \<le> f s \<or> f s < length ps"
  shows "mset (map ia_participant (concat (map (\<lambda>(i, s). fst (se_pair pre ps (i, [s, f s]))) (enumerate n xs)))) =
    image_mset ((!) ps) (mset (filter (\<lambda>s. f s < length ps) xs) + mset (map f (filter (\<lambda>s. f s < length ps) xs)))"
  using assms
proof (induction xs arbitrary: n)
  case (Cons s xs)
  then show ?case
    by (cases "f s < length ps") (simp_all add: se_pair_full se_pair_bye not_less)
qed simp

lemma se_bye_seeds:
  assumes "\<And>s. s \<in> set xs \<Longrightarrow> s < length ps"
  shows "map bi_participant (concat (map (\<lambda>(i, s). snd (se_pair pre ps (i, [s, f s]))) (enumerate n xs))) =
    map ((!) ps) (filter (\<lambda>s. \<not> f s < length ps) xs)"
  using assms
proof (induction xs arbitrary: n)
  case (Cons s xs)
  then show ?case
    by (cases "f s < length ps") (simp_all add: se_pair_full se_pair_bye not_less se_bye_def)
qed simp

lemma mset_filter_seed_order:
  assumes "b \<le> 2 ^ k"
  shows "mset (filter (\<lambda>s. s < b) (seed_order k)) = mset [0..<b]"
  by (rule set_eq_iff_mset_eq_distinct [THEN iffD1])
     (use assms in \<open>auto simp: distinct_seed_order set_seed_order\<close>)

text \<open>
  The byes go to the best seeds, as many as the bracket has slots left over.
\<close>

lemma knockout_byes:
  assumes "knockout pre fin ctx plan ps = Inr g"
  shows "mset (map bi_participant (gb_byes g)) =
    mset (take (next_power_of_two (length ps) - length ps) ps)"
proof -
  obtain k where k: "length ps \<le> 2 ^ Suc k" "2 ^ Suc k < 2 * length ps"
    "next_power_of_two (length ps) = 2 ^ Suc k"
    and byes: "gb_byes g = concat (map (\<lambda>(i, s). snd (se_pair pre ps (i, [s, 2 ^ Suc k - 1 - s])))
           (enumerate 0 (seed_order k)))"
    using assms by (rule knockout_shape) blast
  let ?b = "2 ^ Suc k - length ps"
  have lt: "s < length ps" if "s \<in> set (seed_order k)" for s
    using seed_order_bound [OF that] k(2) by simp
  have f: "filter (\<lambda>s. \<not> 2 ^ Suc k - 1 - s < length ps) (seed_order k) = filter (\<lambda>s. s < ?b) (seed_order k)"
    by (rule filter_cong [OF refl]) (use k(1) seed_order_bound in fastforce)
  have "map bi_participant (gb_byes g) = map ((!) ps) (filter (\<lambda>s. s < ?b) (seed_order k))"
    unfolding byes f [symmetric] by (rule se_bye_seeds) (rule lt)
  then have "mset (map bi_participant (gb_byes g)) = image_mset ((!) ps) (mset [0..<?b])"
    using mset_filter_seed_order [of ?b k] k(2) by simp
  also have "\<dots> = mset (map ((!) ps) [0..<?b])" by simp
  also have "map ((!) ps) [0..<?b] = take ?b ps"
    by (rule nth_equalityI) (use k in auto)
  finally show ?thesis using k(3) by simp
qed

lemma mset_filter_parts: "mset (filter P xs @ filter (\<lambda>x. \<not> P x) xs) = mset xs"
  by (induction xs) auto

text \<open>Every participant is placed exactly once: in a first-round match or by a bye.\<close>

lemma knockout_placement:
  assumes "knockout pre fin ctx plan ps = Inr g"
  shows "mset (map ia_participant (gb_initial_assignments g)) + mset (map bi_participant (gb_byes g)) = mset ps"
proof -
  obtain k where k: "length ps \<le> 2 ^ Suc k" "2 ^ Suc k < 2 * length ps"
    and asg: "gb_initial_assignments g = concat (map (\<lambda>(i, s). fst (se_pair pre ps (i, [s, 2 ^ Suc k - 1 - s])))
           (enumerate 0 (seed_order k)))"
    and byes: "gb_byes g = concat (map (\<lambda>(i, s). snd (se_pair pre ps (i, [s, 2 ^ Suc k - 1 - s])))
           (enumerate 0 (seed_order k)))"
    using assms by (rule knockout_shape) blast
  let ?f = "\<lambda>s. 2 ^ Suc k - 1 - s" and ?n = "length ps"
  let ?in = "filter (\<lambda>s. ?f s < ?n) (seed_order k)"
  have lt: "s < ?n" if "s \<in> set (seed_order k)" for s
    using seed_order_bound [OF that] k(2) by simp
  have sp: "mset (?in @ filter (\<lambda>s. \<not> ?f s < ?n) (seed_order k)) = mset [0..<2 ^ k]"
    by (simp only: mset_filter_parts mset_seed_order)
  have "mset (map ?f ?in) = mset [2 ^ k..<?n]"
  proof (rule set_eq_iff_mset_eq_distinct [THEN iffD1])
    have "inj_on ?f (set ?in)"
    proof (rule inj_onI)
      fix x y assume "x \<in> set ?in" "y \<in> set ?in" and eq: "?f x = ?f y"
      then have "x < 2 ^ k" "y < 2 ^ k" using seed_order_bound by auto
      with eq show "x = y" by simp
    qed
    then show "distinct (map ?f ?in)" by (simp add: distinct_map distinct_seed_order)
    have "x \<in> ?f ` set ?in" if "2 ^ k \<le> x" "x < ?n" for x
      using that k by (intro image_eqI [of _ _ "?f x"]) (auto simp: set_seed_order)
    then show "set (map ?f ?in) = set [2 ^ k..<?n]"
      by (auto simp: set_seed_order)
  qed simp
  then have "mset (?in @ filter (\<lambda>s. \<not> ?f s < ?n) (seed_order k)) + mset (map ?f ?in) = mset ([0..<2 ^ k] @ [2 ^ k..<?n])"
    unfolding sp by (simp only: mset_append)
  also have "[0..<2 ^ k] @ [2 ^ k..<?n] = [0..<?n]"
    using k(2) by (metis le_add_diff_inverse less_imp_le_nat mult_less_cancel1 power_Suc upt_add_eq_append zero_le)
  finally have "image_mset ((!) ps) (mset (?in @ filter (\<lambda>s. \<not> ?f s < ?n) (seed_order k)) + mset (map ?f ?in)) =
      mset (map ((!) ps) [0..<?n])" by simp
  then have main: "image_mset ((!) ps) (mset (?in @ filter (\<lambda>s. \<not> ?f s < ?n) (seed_order k)) + mset (map ?f ?in)) = mset ps"
    by (simp only: map_nth)
  have a: "mset (map ia_participant (gb_initial_assignments g)) = image_mset ((!) ps) (mset ?in + mset (map ?f ?in))"
    unfolding asg by (rule se_assigned_seeds) (auto dest: lt)
  have b: "mset (map bi_participant (gb_byes g)) = image_mset ((!) ps) (mset (filter (\<lambda>s. \<not> ?f s < ?n) (seed_order k)))"
    unfolding byes by (simp only: se_bye_seeds [OF lt] mset_map)
  show ?thesis
    unfolding a b using main by (simp only: mset_append image_mset_union ac_simps)
qed

section \<open>The matches form a tree\<close>

definition match_source :: "CreateTournamentMatch \<Rightarrow> nat \<Rightarrow> MatchParticipantSource option" where
  "match_source m slot =
     (if slot = 1 then c_participant1_source m else if slot = 2 then c_participant2_source m else None)"

text \<open>\<open>x\<close> receives the winner of \<open>m\<close> in \<open>slot\<close>.\<close>

definition receives_winner :: "CreateTournamentMatch \<Rightarrow> nat \<Rightarrow> CreateTournamentMatch \<Rightarrow> bool" where
  "receives_winner x slot m \<longleftrightarrow> match_source x slot = Some (WinnerOf (c_bracket_position m))"

lemma receives_winner_se:
  "receives_winner (se_match pre ctx plan order n (num, r, i)) slot (se_match pre ctx plan order n (num', r', i')) \<longleftrightarrow>
   r \<noteq> 1 \<and> r' = r - 1 \<and> (slot = 1 \<and> i' = 2 * i \<or> slot = 2 \<and> i' = 2 * i + 1)"
  by (auto simp: receives_winner_def match_source_def se_sources_def)

lemma knockout_feeders:
  assumes g: "knockout pre fin ctx plan ps = Inr g" and m: "m \<in> set (gb_matches g)" and "1 < c_round m"
  shows "\<exists>a \<in> set (gb_matches g). \<exists>b \<in> set (gb_matches g). a \<noteq> b \<and>
    c_round a = c_round m - 1 \<and> c_round b = c_round m - 1 \<and> receives_winner m 1 a \<and> receives_winner m 2 b"
proof -
  obtain k where ms: "gb_matches g = map (se_match pre ctx plan (seed_order (Suc k)) (if fin then Suc k else 0))
      (enumerate 1 (se_slots (2 ^ Suc k) (Suc k)))"
    using g by (rule knockout_shape) blast
  let ?M = "se_match pre ctx plan (seed_order (Suc k)) (if fin then Suc k else 0)"
  obtain num r i where r: "r \<le> Suc k" "i < 2 ^ (Suc k - r)" and m_eq: "m = ?M (num, r, i)"
    using m unfolding ms by (rule se_match_in)
  then have "1 < r" using assms(3) by simp
  then have "Suc k - (r - 1) = Suc (Suc k - r)" using r(1) by simp
  then have lt: "2 * i < 2 ^ (Suc k - (r - 1))" "2 * i + 1 < 2 ^ (Suc k - (r - 1))" using r(2) by auto
  have prev: "1 \<le> r - 1" "r - 1 \<le> Suc k" using \<open>1 < r\<close> r(1) by auto
  obtain na nb where
    a: "?M (na, r - 1, 2 * i) \<in> set (gb_matches g)" and b: "?M (nb, r - 1, 2 * i + 1) \<in> set (gb_matches g)"
    using se_slot_match [OF prev lt(1)] se_slot_match [OF prev lt(2)] unfolding ms by blast
  have "c_bracket_position (?M (na, r - 1, 2 * i)) \<noteq> c_bracket_position (?M (nb, r - 1, 2 * i + 1))" by simp
  then have "?M (na, r - 1, 2 * i) \<noteq> ?M (nb, r - 1, 2 * i + 1)" by metis
  moreover have "receives_winner m 1 (?M (na, r - 1, 2 * i))" "receives_winner m 2 (?M (nb, r - 1, 2 * i + 1))"
    unfolding m_eq receives_winner_se using \<open>1 < r\<close> by auto
  moreover have "c_round (?M (na, r - 1, 2 * i)) = c_round m - 1" "c_round (?M (nb, r - 1, 2 * i + 1)) = c_round m - 1"
    using \<open>1 < r\<close> m_eq by auto
  ultimately show ?thesis using a b by blast
qed

lemma knockout_successor:
  assumes g: "knockout pre fin ctx plan ps = Inr g" and m: "m \<in> set (gb_matches g)"
    and "c_round m < gb_total_rounds g"
  shows "\<exists>!(x, slot). x \<in> set (gb_matches g) \<and> receives_winner x slot m"
proof -
  obtain k where ms: "gb_matches g = map (se_match pre ctx plan (seed_order (Suc k)) (if fin then Suc k else 0))
      (enumerate 1 (se_slots (2 ^ Suc k) (Suc k)))" and t: "gb_total_rounds g = int (Suc k)"
    using g by (rule knockout_shape) blast
  let ?M = "se_match pre ctx plan (seed_order (Suc k)) (if fin then Suc k else 0)"
  obtain num r i where r: "1 \<le> r" "i < 2 ^ (Suc k - r)" and m_eq: "m = ?M (num, r, i)"
    using m unfolding ms by (rule se_match_in)
  with assms(3) t have "r < Suc k" by simp
  then have "Suc k - r = Suc (Suc k - Suc r)" by simp
  with r have "i div 2 < 2 ^ (Suc k - Suc r)" by (simp add: less_mult_imp_div_less mult.commute)
  moreover have "1 \<le> Suc r" "Suc r \<le> Suc k" using \<open>r < Suc k\<close> by auto
  ultimately have "\<exists>n. ?M (n, Suc r, i div 2) \<in> set (gb_matches g)"
    unfolding ms by (intro se_slot_match)
  then obtain n where x: "?M (n, Suc r, i div 2) \<in> set (gb_matches g)" by blast
  have uniq: "y = ?M (n, Suc r, i div 2) \<and> slot = (if even i then 1 else 2)"
    if y: "y \<in> set (gb_matches g)" and rw: "receives_winner y slot m" for y slot
  proof -
    obtain num' r' j where y_eq: "y = ?M (num', r', j)"
      using y unfolding ms by (rule se_match_in)
    have j: "r' = Suc r" "j = i div 2" "slot = (if even i then 1 else 2)"
      using rw r(1) unfolding m_eq y_eq receives_winner_se by auto
    then have "c_bracket_position y = c_bracket_position (?M (n, Suc r, i div 2))"
      by (simp add: y_eq)
    with y x g have "y = ?M (n, Suc r, i div 2)" by (blast intro: ko_gen.position_unique)
    with j show ?thesis by simp
  qed
  have "receives_winner (?M (n, Suc r, i div 2)) (if even i then 1 else 2) m"
    unfolding m_eq receives_winner_se using r(1) by auto
  with x have ok: "case (?M (n, Suc r, i div 2), if even i then 1 else 2) of (x, slot) \<Rightarrow>
      x \<in> set (gb_matches g) \<and> receives_winner x slot m" by (simp only: prod.case)
  show ?thesis
  proof (rule ex1I, rule ok)
    fix p assume "case p of (x, slot) \<Rightarrow> x \<in> set (gb_matches g) \<and> receives_winner x slot m"
    then show "p = (?M (n, Suc r, i div 2), if even i then 1 else 2)"
      using uniq by (cases p) (simp only: prod.case prod.inject, blast)
  qed
qed

section \<open>Properties\<close>

text \<open>
  C1. A generated single elimination bracket places every participant exactly once, in a
  first-round match or by a bye into the second round; the byes are as many as the bracket
  has spare slots and go to the best seeds; there is one match less than the bracket has
  slots, numbered from 1 at positions of their own.
\<close>

theorem single_elimination_places_everyone:
  assumes "single_elimination ctx plan ps = Inr g"
  shows "mset (map ia_participant (gb_initial_assignments g)) + mset (map bi_participant (gb_byes g)) = mset ps
    \<and> mset (map bi_participant (gb_byes g)) = mset (take (next_power_of_two (length ps) - length ps) ps)
    \<and> length (gb_matches g) = next_power_of_two (length ps) - 1
    \<and> numbered_from_one (gb_matches g) \<and> distinct (map c_bracket_position (gb_matches g))"
proof -
  note g = assms [unfolded single_elimination_def]
  obtain k where "next_power_of_two (length ps) = 2 ^ Suc k"
    and "gb_matches g = map (se_match ''R'' ctx plan (seed_order (Suc k)) (if True then Suc k else 0))
      (enumerate 1 (se_slots (2 ^ Suc k) (Suc k)))"
    using g by (rule knockout_shape) blast
  then have "length (gb_matches g) = next_power_of_two (length ps) - 1"
    using length_se_slots [of "Suc k"] by (simp del: power_Suc)
  then show ?thesis
    using knockout_placement [OF g] knockout_byes [OF g] ko_gen.numbered [OF g] ko_gen.positions [OF g] by blast
qed

text \<open>
  C17. The matches form a tree: a match after the first round names as its two sources two
  different matches of the round before it, and the winner of every match but those of the
  last round is expected in exactly one slot of exactly one match.
\<close>

theorem single_elimination_is_a_tree:
  assumes "single_elimination ctx plan ps = Inr g" and "m \<in> set (gb_matches g)"
  shows "(c_round m > 1 \<longrightarrow> (\<exists>a \<in> set (gb_matches g). \<exists>b \<in> set (gb_matches g). a \<noteq> b \<and>
        c_round a = c_round m - 1 \<and> c_round b = c_round m - 1 \<and>
        receives_winner m 1 a \<and> receives_winner m 2 b))
    \<and> (c_round m < gb_total_rounds g \<longrightarrow>
        (\<exists>!(x, slot). x \<in> set (gb_matches g) \<and> receives_winner x slot m))"
  using knockout_feeders [OF assms [unfolded single_elimination_def]]
    knockout_successor [OF assms [unfolded single_elimination_def]] by blast

text \<open>
  The generator fails exactly on fewer than two participants, and then with the error
  for it; every match has the format its plan gives for its round, with the last round
  treated as the final, and as many maps as that format has games.
\<close>

theorem single_elimination_error_and_formats:
  "case single_elimination ctx plan ps of
     Inl e \<Rightarrow> length ps < 2 \<and> e = InsufficientParticipants
   | Inr g \<Rightarrow> 2 \<le> length ps \<and> (\<forall>m \<in> set (gb_matches g).
       c_match_format m = MatchFormatPlan_format_for plan (c_round m) (gb_total_rounds g) \<and>
       c_maps_required m = MatchFormat_game_count (c_match_format m))"
proof (cases "single_elimination ctx plan ps")
  case (Inl e)
  then show ?thesis by (auto simp: single_elimination_def knockout_def Let_def split: if_splits)
next
  case (Inr g)
  from Inr [unfolded single_elimination_def] obtain k where n: "2 \<le> length ps" and t: "gb_total_rounds g = int (Suc k)"
    and ms: "gb_matches g = map (se_match ''R'' ctx plan (seed_order (Suc k)) (if True then Suc k else 0))
      (enumerate 1 (se_slots (2 ^ Suc k) (Suc k)))"
    by (rule knockout_shape) blast
  have "c_match_format m = MatchFormatPlan_format_for plan (c_round m) (gb_total_rounds g) \<and>
      c_maps_required m = MatchFormat_game_count (c_match_format m)" if m: "m \<in> set (gb_matches g)" for m
    using m t unfolding ms by (elim se_match_in) simp
  with Inr n show ?thesis by simp
qed

section \<open>Witnesses\<close>

lemma single_elimination_ok:
  assumes "2 \<le> length ps"
  obtains g where "single_elimination ctx plan ps = Inr g"
  using assms by (simp add: single_elimination_def knockout_def Let_def)

theorem single_elimination_places_everyone_witness:
  "\<exists>g. single_elimination example_ctx example_plan (map example_participant [1..<6]) = Inr g \<and>
    length (gb_matches g) = next_power_of_two 5 - 1 \<and>
    mset (map bi_participant (gb_byes g)) = mset (take (next_power_of_two 5 - 5) (map example_participant [1..<6]))"
proof -
  let ?ps = "map example_participant [1..<6]"
  have n: "length ?ps = 5" by simp
  then obtain g where g: "single_elimination example_ctx example_plan ?ps = Inr g"
    using single_elimination_ok [of ?ps] by auto
  show ?thesis
    using g single_elimination_places_everyone [OF g] unfolding n by blast
qed

theorem single_elimination_is_a_tree_witness:
  "\<exists>g m. single_elimination example_ctx example_plan (map example_participant [1..<6]) = Inr g \<and>
    m \<in> set (gb_matches g) \<and> c_round m = 1 \<and>
    (\<exists>!(x, slot). x \<in> set (gb_matches g) \<and> receives_winner x slot m)"
proof -
  let ?ps = "map example_participant [1..<6]"
  obtain g where g: "single_elimination example_ctx example_plan ?ps = Inr g"
    using single_elimination_ok [of ?ps] by auto
  from g [unfolded single_elimination_def] obtain k where k: "5 \<le> (2::nat) ^ Suc k" and t: "gb_total_rounds g = int (Suc k)"
    and ms: "gb_matches g = map (se_match ''R'' example_ctx example_plan (seed_order (Suc k)) (if True then Suc k else 0))
      (enumerate 1 (se_slots (2 ^ Suc k) (Suc k)))"
    by (rule knockout_shape) simp
  have "\<exists>n. se_match ''R'' example_ctx example_plan (seed_order (Suc k)) (if True then Suc k else 0) (n, 1, 0) \<in> set (gb_matches g)"
    unfolding ms by (rule se_slot_match) simp_all
  then obtain m where m: "m \<in> set (gb_matches g)" "c_round m = 1" by force
  moreover have "k \<noteq> 0" using k by (intro notI) simp
  ultimately show ?thesis using single_elimination_is_a_tree [OF g m(1)] g t by auto
qed

theorem single_elimination_error_and_formats_witness:
  "single_elimination example_ctx example_plan [example_participant 1] = Inl InsufficientParticipants \<and>
   (\<exists>g. single_elimination example_ctx example_plan (map example_participant [1..<6]) = Inr g \<and>
     (\<forall>m \<in> set (gb_matches g). c_maps_required m = MatchFormat_game_count (c_match_format m)))"
  using single_elimination_error_and_formats [of "[example_participant 1]" example_plan example_ctx]
    single_elimination_error_and_formats [of "map example_participant [1..<6]" example_plan example_ctx]
  by (auto split: sum.splits)

end
