(* ===== verification/RoundRobin.thy ===== *)
theory RoundRobin
  imports BracketGen Errors
begin

text \<open>
  Round robin (\<open>bracket_generator/round_robin.rs\<close>): the circle method with its rotation and
  bye sentinel, as the code runs it, and the proof that every two participants meet in
  exactly one match and nobody plays twice in a round.
\<close>

section \<open>Definitions\<close>

text \<open>Keep \<open>circle[0]\<close>, shift the rest by one place; the last becomes the second.\<close>

definition rr_rotate :: "nat list \<Rightarrow> nat list" where
  "rr_rotate circle =
     (let circle_size = length circle;
          last = circle ! (circle_size - 1);
          shifted = foldl (\<lambda>c i. c[i := c ! (i - 1)]) circle (rev [2..<circle_size])
      in shifted[1 := last])"

text \<open>The pairings of a round, without those against the bye sentinel.\<close>

definition rr_pairs :: "nat \<Rightarrow> nat list \<Rightarrow> (nat \<times> nat) list" where
  "rr_pairs n circle =
     (let is_odd = n mod 2 \<noteq> 0; circle_size = length circle
      in filter (\<lambda>(a, b). \<not> (is_odd \<and> (a = n \<or> b = n)))
           (map (\<lambda>i. (circle ! i, circle ! (circle_size - 1 - i))) [0..<circle_size div 2]))"

text \<open>The loop over the rounds: round, number within the round and the two indices.\<close>

fun rr_schedule :: "nat \<Rightarrow> nat list \<Rightarrow> nat list \<Rightarrow> (nat \<times> nat \<times> nat \<times> nat) list" where
  "rr_schedule n circle [] = []"
| "rr_schedule n circle (round # rounds) =
     map (\<lambda>(round_match, a, b). (round, round_match, a, b)) (enumerate 1 (rr_pairs n circle))
     @ rr_schedule n (rr_rotate circle) rounds"

definition rr_match :: "bracket_ctx \<Rightarrow> MatchFormatPlan \<Rightarrow> SeededParticipant list \<Rightarrow>
    nat \<times> nat \<times> nat \<times> nat \<times> nat \<Rightarrow> CreateTournamentMatch" where
  "rr_match ctx plan ps = (\<lambda>(match_number, round, round_match, a, b).
     new_match ctx (int round) (int match_number) (position_text ''RR'' round round_match)
       (Some (Seed (sp_seed (ps ! a)))) (Some (Seed (sp_seed (ps ! b))))
       (MatchFormatPlan_format_for plan (int round) 0))"

definition rr_assignments :: "SeededParticipant list \<Rightarrow> nat \<times> nat \<times> nat \<times> nat \<Rightarrow> InitialAssignment list" where
  "rr_assignments ps = (\<lambda>(round, round_match, a, b).
     [\<lparr>ia_bracket_position = position_text ''RR'' round round_match, ia_participant = ps ! a, ia_slot = 1\<rparr>,
      \<lparr>ia_bracket_position = position_text ''RR'' round round_match, ia_participant = ps ! b, ia_slot = 2\<rparr>])"

definition round_robin :: "bracket_ctx \<Rightarrow> MatchFormatPlan \<Rightarrow> SeededParticipant list \<Rightarrow>
    DomainError + GeneratedBracket" where
  "round_robin ctx plan participants =
     (let n = length participants
      in if n < 2 then Inl InsufficientParticipants
         else let circle_size = (if n mod 2 \<noteq> 0 then n + 1 else n);
                  total_rounds = circle_size - 1;
                  schedule = rr_schedule n [0..<circle_size] [1..<total_rounds + 1]
              in Inr \<lparr>gb_total_rounds = int total_rounds,
                      gb_matches = map (rr_match ctx plan participants) (enumerate 1 schedule),
                      gb_initial_assignments = concat (map (rr_assignments participants) schedule),
                      gb_byes = []\<rparr>)"

section \<open>The rotation\<close>

lemma shift_loop:
  assumes "1 \<le> j" and "k \<le> length c"
  shows "length (foldl (\<lambda>c i. c[i := c ! (i - 1)]) c (rev [j..<k])) = length c \<and>
    (\<forall>p < length c. foldl (\<lambda>c i. c[i := c ! (i - 1)]) c (rev [j..<k]) ! p =
      (if j \<le> p \<and> p < k then c ! (p - 1) else c ! p))"
  using assms(2)
proof (induction k arbitrary: c)
  case (Suc k)
  show ?case
  proof (cases "j \<le> k")
    case True
    let ?c = "c[k := c ! (k - 1)]"
    have "length ?c = length c" and "k \<le> length ?c" using Suc.prems by auto
    with Suc.IH [of ?c] True assms(1) Suc.prems show ?thesis
      by (auto simp: nth_list_update less_Suc_eq)
  qed auto
qed simp

lemma rr_rotate_nth:
  assumes "2 \<le> length c"
  shows "length (rr_rotate c) = length c"
    and "p < length c \<Longrightarrow> rr_rotate c ! p =
      (if p = 0 then c ! 0 else if p = 1 then c ! (length c - 1) else c ! (p - 1))"
  using shift_loop [of 2 "length c" c] assms
  by (auto simp: rr_rotate_def Let_def nth_list_update)

text \<open>
  The circle before round \<open>t + 1\<close>, for a circle of \<open>m + 1\<close> places: 0 stays, the others have
  moved on by \<open>t\<close> places.
\<close>

definition rr_circle :: "nat \<Rightarrow> nat \<Rightarrow> nat list" where
  "rr_circle m t = 0 # map (\<lambda>q. Suc ((q + (m - t)) mod m)) [0..<m]"

lemma length_rr_circle [simp]: "length (rr_circle m t) = Suc m"
  by (simp add: rr_circle_def)

lemma rr_circle_nth:
  "rr_circle m t ! 0 = 0"
  "q < m \<Longrightarrow> rr_circle m t ! Suc q = Suc ((q + (m - t)) mod m)"
  by (simp_all add: rr_circle_def)

lemma rr_circle_0: "rr_circle m 0 = [0..<Suc m]"
proof (rule nth_equalityI)
  fix i assume "i < length (rr_circle m 0)"
  then show "rr_circle m 0 ! i = [0..<Suc m] ! i"
    by (cases i) (simp_all add: rr_circle_nth del: upt_Suc)
qed simp

lemma rr_rotate_circle:
  assumes "1 \<le> m" and "t < m"
  shows "rr_rotate (rr_circle m t) = rr_circle m (Suc t)"
proof (rule nth_equalityI)
  show "length (rr_rotate (rr_circle m t)) = length (rr_circle m (Suc t))"
    using assms by (simp add: rr_rotate_nth)
  fix p assume "p < length (rr_rotate (rr_circle m t))"
  then have p: "p < Suc m" using assms by (simp add: rr_rotate_nth)
  have wrap: "(m - 1 + (m - t)) mod m = m - Suc t"
  proof -
    have "m - 1 + (m - t) = (m - Suc t) + m" using assms by simp
    then show ?thesis using assms by (simp only: mod_add_self2) simp
  qed
  show "rr_rotate (rr_circle m t) ! p = rr_circle m (Suc t) ! p"
  proof (cases "p \<le> 1")
    case True
    with p assms wrap rr_circle_nth(2) [of "m - 1" m t] rr_circle_nth(2) [of 0 m "Suc t"] show ?thesis
      by (cases p) (simp_all add: rr_rotate_nth rr_circle_nth)
  next
    case False
    then obtain q where q: "p = Suc (Suc q)" by (metis One_nat_def Suc_leI le_Suc_eq not_less_eq_eq old.nat.exhaust)
    have "q + (m - t) = Suc q + (m - Suc t)" using assms by simp
    with q p assms show ?thesis by (simp add: rr_rotate_nth rr_circle_nth)
  qed
qed

lemma mod_shift_inject:
  fixes x y d m :: nat
  assumes "x < m" and "y < m" and "(x + d) mod m = (y + d) mod m"
  shows "x = y"
proof -
  have "x' = y'" if "x' \<le> y'" "y' < m" "(x' + d) mod m = (y' + d) mod m" for x' y'
  proof -
    have "m dvd (y' + d) - (x' + d)" using that by (metis add_le_mono1 mod_eq_dvd_iff_nat)
    then have "m dvd y' - x'" by simp
    with that show ?thesis by (auto dest: dvd_imp_le)
  qed
  from this [of x y] this [of y x] assms show ?thesis by (cases "x \<le> y") auto
qed

lemma distinct_rr_circle: "distinct (rr_circle m t)"
  by (auto simp: rr_circle_def distinct_map inj_on_def dest: mod_shift_inject)

section \<open>Every pair in exactly one round\<close>

definition rr_pair :: "nat \<Rightarrow> nat \<Rightarrow> nat \<Rightarrow> nat \<times> nat" where
  "rr_pair m t i = (rr_circle m t ! i, rr_circle m t ! (m - i))"

text \<open>The sum of a pair tells the round, modulo the odd number of rounds.\<close>

definition rr_sum :: "nat \<Rightarrow> nat \<Rightarrow> nat" where
  "rr_sum a b = (if a = 0 then 2 * (b - 1) else if b = 0 then 2 * (a - 1) else (a - 1) + (b - 1))"

lemma rr_sum_commute: "rr_sum a b = rr_sum b a"
  by (simp add: rr_sum_def add.commute)

lemma dvd_mod_sum:
  fixes m x y c :: nat
  assumes "m dvd x + y + c"
  shows "m dvd x mod m + y mod m + c"
proof -
  have "(x mod m + y mod m + c) mod m = (x + y + c) mod m"
    by (metis mod_add_eq mod_add_left_eq)
  with assms show ?thesis by (simp only: dvd_eq_mod_eq_0)
qed

lemma rr_pair_sum:
  assumes "t < m" and "i < Suc m div 2"
  shows "m dvd rr_sum (fst (rr_pair m t i)) (snd (rr_pair m t i)) + 2 + 2 * t"
proof (cases i)
  case 0
  have b: "rr_circle m t ! m = Suc ((m - 1 + (m - t)) mod m)"
    using rr_circle_nth(2) [of "m - 1" m t] assms by simp
  have "m - 1 + (m - t) + (m - 1 + (m - t)) + (2 + 2 * t) = m * 4" using assms by simp
  then have "m dvd (m - 1 + (m - t)) mod m + (m - 1 + (m - t)) mod m + (2 + 2 * t)"
    by (intro dvd_mod_sum) (simp only: dvd_triv_left)
  moreover have "rr_sum (fst (rr_pair m t i)) (snd (rr_pair m t i)) =
      (m - 1 + (m - t)) mod m + (m - 1 + (m - t)) mod m"
    using 0 b by (simp add: rr_pair_def rr_sum_def rr_circle_nth mult_2)
  ultimately show ?thesis by (simp only: add.assoc)
next
  case (Suc k)
  then have k: "Suc k < m" using assms by auto
  have a: "rr_circle m t ! Suc k = Suc ((k + (m - t)) mod m)"
    using k by (simp add: rr_circle_nth)
  have "m - Suc k = Suc (m - Suc k - 1)" using k by simp
  then have b: "rr_circle m t ! (m - Suc k) = Suc ((m - Suc k - 1 + (m - t)) mod m)"
    using rr_circle_nth(2) [of "m - Suc k - 1" m t] k by simp
  have "k + (m - t) + (m - Suc k - 1 + (m - t)) + (2 + 2 * t) = m * 3" using assms k by simp
  then have "m dvd (k + (m - t)) mod m + (m - Suc k - 1 + (m - t)) mod m + (2 + 2 * t)"
    by (intro dvd_mod_sum) (simp only: dvd_triv_left)
  moreover have "rr_sum (fst (rr_pair m t i)) (snd (rr_pair m t i)) =
      (k + (m - t)) mod m + (m - Suc k - 1 + (m - t)) mod m"
    using Suc a b by (simp add: rr_pair_def rr_sum_def)
  ultimately show ?thesis by (simp only: add.assoc)
qed

lemma odd_dvd_double_diff:
  fixes m x t u :: nat
  assumes "odd m" and "m dvd x + 2 * t" and "m dvd x + 2 * u" and "t < m" and "u < m"
  shows "t = u"
proof -
  have "t' = u'" if "t' \<le> u'" "u' < m" "m dvd x + 2 * t'" "m dvd x + 2 * u'" for t' u'
  proof -
    have "m dvd (x + 2 * u') - (x + 2 * t')" by (rule dvd_diff_nat) (use that in simp_all)
    also have "(x + 2 * u') - (x + 2 * t') = 2 * (u' - t')" using that by simp
    finally have "m dvd u' - t'"
      using assms(1) by (simp add: coprime_dvd_mult_right_iff)
    with that show ?thesis by (auto dest: dvd_imp_le)
  qed
  from this [of t u] this [of u t] assms show ?thesis by (cases "t \<le> u") auto
qed

definition unordered :: "nat \<times> nat \<Rightarrow> nat set" where
  "unordered p = {fst p, snd p}"

lemma rr_pair_inject:
  assumes "odd m" and "t < m" and "u < m" and "i < Suc m div 2" and "j < Suc m div 2"
    and eq: "unordered (rr_pair m t i) = unordered (rr_pair m u j)"
  shows "t = u \<and> i = j"
proof
  let ?s = "\<lambda>t i. rr_sum (fst (rr_pair m t i)) (snd (rr_pair m t i))"
  have "?s t i = ?s u j"
    using eq rr_sum_commute by (metis doubleton_eq_iff unordered_def)
  then have "m dvd ?s t i + 2 + 2 * u"
    using rr_pair_sum [OF assms(3,5)] by (simp only:)
  with rr_pair_sum [OF assms(2,4)] show tu: "t = u"
    by (rule odd_dvd_double_diff [OF assms(1) _ _ assms(2,3)])
  have i: "i < Suc m" "m - i < Suc m" "j < Suc m" "m - j < Suc m" using assms(4,5) by linarith+
  obtain k where "m = 2 * k + 1" using assms(1) by (rule oddE)
  with assms(4,5) have ne: "i \<noteq> m - j" by simp
  from eq tu have "rr_circle m t ! i = rr_circle m t ! j \<or> rr_circle m t ! i = rr_circle m t ! (m - j)"
    by (auto simp: unordered_def rr_pair_def doubleton_eq_iff)
  then show "i = j"
    using i ne distinct_rr_circle [of m t] by (simp add: nth_eq_iff_index_eq)
qed

lemma rr_circle_bound: "p \<le> m \<Longrightarrow> 0 < m \<Longrightarrow> rr_circle m t ! p \<le> m"
  by (cases p) (auto simp: rr_circle_nth Suc_le_eq)

lemma rr_pair_two:
  assumes "odd m" and "t < m" and "i < Suc m div 2"
  shows "unordered (rr_pair m t i) \<subseteq> {0..<Suc m} \<and> card (unordered (rr_pair m t i)) = 2"
proof -
  obtain k where "m = 2 * k + 1" using assms(1) by (rule oddE)
  with assms(3) have "i \<noteq> m - i" by simp
  moreover have "i < Suc m" "m - i < Suc m" using assms by auto
  ultimately have "rr_circle m t ! i \<noteq> rr_circle m t ! (m - i)"
    using distinct_rr_circle [of m t] by (simp add: nth_eq_iff_index_eq)
  then show ?thesis
    using assms rr_circle_bound [of i m t] rr_circle_bound [of "m - i" m t]
    by (auto simp: unordered_def rr_pair_def less_Suc_eq_le)
qed

lemma rr_pairs_complete:
  assumes "odd m"
  shows "inj_on (\<lambda>(t, i). unordered (rr_pair m t i)) ({0..<m} \<times> {0..<Suc m div 2})"
    and "(\<lambda>(t, i). unordered (rr_pair m t i)) ` ({0..<m} \<times> {0..<Suc m div 2}) =
      {e. e \<subseteq> {0..<Suc m} \<and> card e = 2}"
proof -
  let ?f = "\<lambda>(t, i). unordered (rr_pair m t i)" and ?D = "{0..<m} \<times> {0..<Suc m div 2}"
  show inj: "inj_on ?f ?D"
  proof (rule inj_onI)
    fix p q assume "p \<in> ?D" "q \<in> ?D" "?f p = ?f q"
    then show "p = q"
      using rr_pair_inject [OF assms, of "fst p" "fst q" "snd p" "snd q"] by (cases p, cases q) simp
  qed
  show "?f ` ?D = {e. e \<subseteq> {0..<Suc m} \<and> card e = 2}"
  proof (rule card_subset_eq)
    show "finite {e. e \<subseteq> {0..<Suc m} \<and> card e = 2}" by simp
    show "?f ` ?D \<subseteq> {e. e \<subseteq> {0..<Suc m} \<and> card e = 2}"
      by (rule image_subsetI) (use rr_pair_two [OF assms] in \<open>simp add: case_prod_unfold mem_Times_iff\<close>)
    have "card (?f ` ?D) = m * (Suc m div 2)"
      using inj by (simp add: card_image)
    also have "\<dots> = Suc m choose 2"
    proof -
      obtain k where k: "m = 2 * k + 1" using assms by (rule oddE)
      have "Suc m choose 2 = 2 * ((k + 1) * (2 * k + 1)) div 2" by (simp add: choose_two k)
      then show ?thesis by (simp add: k mult.commute)
    qed
    also have "\<dots> = card {e. e \<subseteq> {0..<Suc m} \<and> card e = 2}"
      by (simp add: n_subsets)
    finally show "card (?f ` ?D) = card {e. e \<subseteq> {0..<Suc m} \<and> card e = 2}" .
  qed
qed

section \<open>The schedule\<close>

lemma rr_pairs_circle:
  "rr_pairs n (rr_circle m t) =
   filter (\<lambda>p. \<not> (odd n \<and> n \<in> unordered p)) (map (rr_pair m t) [0..<Suc m div 2])"
  unfolding rr_pairs_def Let_def
  by (rule arg_cong2 [where f = filter]) (auto simp: rr_pair_def unordered_def odd_iff_mod_2_eq_one fun_eq_iff)

lemma rr_schedule_mem:
  assumes "1 \<le> m" and "s + length rounds \<le> m"
  shows "(r, k, a, b) \<in> set (rr_schedule n (rr_circle m s) rounds) \<Longrightarrow>
    \<exists>j < length rounds. r = rounds ! j \<and> (a, b) \<in> set (rr_pairs n (rr_circle m (s + j)))"
  using assms(2)
proof (induction rounds arbitrary: s)
  case (Cons x rounds)
  from Cons.prems(1) consider "r = x" "(a, b) \<in> set (rr_pairs n (rr_circle m s))"
    | "(r, k, a, b) \<in> set (rr_schedule n (rr_circle m (Suc s)) rounds)"
    using Cons.prems(2) assms(1) by (auto simp: rr_rotate_circle dest: enumerate_snd_mem)
  then show ?case
  proof cases
    case 1
    then show ?thesis by (intro exI [of _ 0]) simp
  next
    case 2
    with Cons.IH [of "Suc s"] Cons.prems(2) show ?thesis by fastforce
  qed
qed simp

definition rr_indices :: "nat \<times> nat \<times> nat \<times> nat \<Rightarrow> nat \<times> nat" where
  "rr_indices e = snd (snd e)"

definition rr_slot :: "nat \<times> nat \<times> nat \<times> nat \<Rightarrow> nat \<times> nat" where
  "rr_slot e = (fst e, fst (snd e))"

lemma rr_entry_simps [simp]:
  "rr_indices (r, k, a, b) = (a, b)" "rr_slot (r, k, a, b) = (r, k)"
  by (simp_all add: rr_indices_def rr_slot_def)

lemma rr_round_entries:
  "map rr_indices (map (\<lambda>(k, a, b). (x, k, a, b)) (enumerate 1 ps)) = ps"
  "map rr_slot (map (\<lambda>(k, a, b). (x, k, a, b)) (enumerate 1 ps)) = map (Pair x) [1..<1 + length ps]"
  by (rule nth_equalityI; simp add: nth_enumerate_eq case_prod_unfold rr_indices_def rr_slot_def del: upt_Suc)+

lemma rr_schedule_pairs:
  assumes "1 \<le> m" and "s + length rounds \<le> m"
  shows "map rr_indices (rr_schedule n (rr_circle m s) rounds) =
    concat (map (\<lambda>t. rr_pairs n (rr_circle m t)) [s..<s + length rounds])"
  using assms(2)
proof (induction rounds arbitrary: s)
  case (Cons x rounds)
  have "[s..<s + length (x # rounds)] = s # [Suc s..<Suc s + length rounds]"
    by (simp add: upt_conv_Cons del: upt_Suc)
  with Cons assms(1) show ?case
    by (simp only: rr_schedule.simps map_append rr_round_entries) (simp add: rr_rotate_circle del: upt_Suc)
qed simp

lemma rr_schedule_slots:
  "map rr_slot (rr_schedule n c rounds) =
   concat (map (\<lambda>(r, ps). map (Pair r) [1..<1 + length ps])
     (zip rounds (map (rr_pairs n) (map (\<lambda>j. (rr_rotate ^^ j) c) [0..<length rounds]))))"
proof (induction rounds arbitrary: c)
  case (Cons x rounds)
  have "map (\<lambda>j. (rr_rotate ^^ j) c) [0..<Suc (length rounds)] =
      c # map (\<lambda>j. (rr_rotate ^^ j) (rr_rotate c)) [0..<length rounds]"
    by (simp add: upt_conv_Cons map_Suc_upt [symmetric] comp_def funpow_swap1 del: upt_Suc)
  with Cons show ?case
    by (simp only: rr_schedule.simps map_append rr_round_entries list.size add_0_right add_Suc_right
        list.map zip_Cons_Cons concat.simps prod.case)
qed simp

lemma distinct_slots:
  "distinct rounds \<Longrightarrow> distinct (concat (map (\<lambda>(r, ps). map (Pair r) [1..<1 + length ps]) (zip rounds pss)))"
proof (induction rounds arbitrary: pss)
  case (Cons x rounds)
  then show ?case
    by (cases pss) (auto simp: distinct_map inj_on_def dest: set_zip_leftD simp del: upt_Suc)
qed simp

text \<open>The schedule of a bracket with \<open>n\<close> participants on a circle of \<open>m + 1\<close> places.\<close>

definition rr_full :: "nat \<Rightarrow> nat \<Rightarrow> (nat \<times> nat \<times> nat \<times> nat) list" where
  "rr_full n m = rr_schedule n [0..<Suc m] [1..<Suc m]"

definition rr_ends :: "nat \<times> nat \<times> nat \<times> nat \<Rightarrow> nat set" where
  "rr_ends = (\<lambda>(r, k, a, b). unordered (a, b))"

lemma rr_full_mem:
  assumes "1 \<le> m" and "(r, k, a, b) \<in> set (rr_full n m)"
  shows "1 \<le> r \<and> r \<le> m \<and> \<not> (odd n \<and> n \<in> unordered (a, b)) \<and>
    (\<exists>i < Suc m div 2. (a, b) = rr_pair m (r - 1) i)"
proof -
  obtain j where "j < m" "r = [1..<Suc m] ! j" "(a, b) \<in> set (rr_pairs n (rr_circle m (0 + j)))"
    using rr_schedule_mem [of m 0 "[1..<Suc m]" r k a b n] assms
    by (auto simp: rr_full_def rr_circle_0 simp del: upt_Suc)
  then show ?thesis by (auto simp: rr_pairs_circle simp del: upt_Suc)
qed

lemma rr_full_pairs:
  assumes "odd m" and n: "n = (if even n then Suc m else m)"
  shows "distinct (map rr_ends (rr_full n m))"
    and "rr_ends ` set (rr_full n m) = {e. e \<subseteq> {0..<n} \<and> card e = 2}"
proof -
  let ?P = "\<lambda>p. \<not> (odd n \<and> n \<in> unordered p)" and ?h = "Suc m div 2"
  let ?all = "map (\<lambda>(t, i). rr_pair m t i) (List.product [0..<m] [0..<?h])"
  have "1 \<le> m" using assms(1) by (cases m) auto
  then have "map rr_indices (rr_full n m) = concat (map (\<lambda>t. rr_pairs n (rr_circle m t)) [0..<m])"
    using rr_schedule_pairs [of m 0 "[1..<Suc m]" n] by (simp add: rr_full_def rr_circle_0 del: upt_Suc)
  also have "\<dots> = filter ?P ?all"
    by (simp add: rr_pairs_circle product_concat_map map_concat filter_concat comp_def)
  finally have pairs: "map rr_indices (rr_full n m) = filter ?P ?all" .
  have ends: "map rr_ends xs = map unordered (map rr_indices xs)" for xs
    by (simp add: rr_ends_def rr_indices_def case_prod_unfold)
  have all: "distinct (map unordered ?all)" "unordered ` set ?all = {e. e \<subseteq> {0..<Suc m} \<and> card e = 2}"
    using rr_pairs_complete [OF assms(1)] by (simp_all add: distinct_map distinct_product comp_def case_prod_unfold image_image)
  show "distinct (map rr_ends (rr_full n m))"
    unfolding ends pairs by (rule distinct_map_filter) (rule all(1))
  have "rr_ends ` set (rr_full n m) = unordered ` set (filter ?P ?all)"
    using ends [of "rr_full n m"] unfolding pairs by (metis set_map)
  also have "\<dots> = {e \<in> unordered ` set ?all. \<not> (odd n \<and> n \<in> e)}"
    unfolding set_filter by blast
  also have "\<dots> = {e. e \<subseteq> {0..<n} \<and> card e = 2}"
    unfolding all(2) using n by (auto split: if_splits simp: less_Suc_eq)
  finally show "rr_ends ` set (rr_full n m) = {e. e \<subseteq> {0..<n} \<and> card e = 2}" .
qed

lemma rr_full_bound:
  assumes "odd m" and "n = (if even n then Suc m else m)" and "(r, k, a, b) \<in> set (rr_full n m)"
  shows "a < n \<and> b < n"
proof -
  have "rr_ends (r, k, a, b) \<in> {e. e \<subseteq> {0..<n} \<and> card e = 2}"
    using rr_full_pairs(2) [OF assms(1,2)] assms(3) by blast
  then show ?thesis by (auto simp: rr_ends_def unordered_def)
qed

section \<open>The generated bracket\<close>

lemma round_robin_shape:
  assumes "round_robin ctx plan ps = Inr g"
  obtains m where "2 \<le> length ps" and "odd m" and "length ps = (if even (length ps) then Suc m else m)"
    and "gb_total_rounds g = int m"
    and "gb_matches g = map (rr_match ctx plan ps) (enumerate 1 (rr_full (length ps) m))"
    and "gb_initial_assignments g = concat (map (rr_assignments ps) (rr_full (length ps) m))"
proof -
  let ?n = "length ps" and ?m = "(if odd (length ps) then length ps + 1 else length ps) - 1"
  have n: "2 \<le> ?n"
    using assms by (auto simp: round_robin_def Let_def split: if_splits)
  then have sz: "(if ?n mod 2 \<noteq> 0 then ?n + 1 else ?n) = Suc ?m"
    by (auto simp: odd_iff_mod_2_eq_one)
  show ?thesis
  proof (rule that [of ?m])
    show "odd ?m" using n by auto
    show "gb_matches g = map (rr_match ctx plan ps) (enumerate 1 (rr_full ?n ?m))"
      and "gb_initial_assignments g = concat (map (rr_assignments ps) (rr_full ?n ?m))"
      and "gb_total_rounds g = int ?m"
      using assms n unfolding round_robin_def Let_def sz
      by (auto simp: rr_full_def simp del: upt_Suc)
  qed (use n in auto)
qed

lemma rr_match_simps [simp]:
  "c_round (rr_match ctx plan ps (num, r, k, a, b)) = int r"
  "c_match_number (rr_match ctx plan ps (num, r, k, a, b)) = int num"
  "c_bracket_position (rr_match ctx plan ps (num, r, k, a, b)) = position_text ''RR'' r k"
  by (simp_all add: rr_match_def)

lemma rr_full_slots: "distinct (map rr_slot (rr_full n m))"
  unfolding rr_full_def rr_schedule_slots by (rule distinct_slots) simp

lemma rr_match_in:
  assumes "x \<in> set (map (rr_match ctx plan ps) (enumerate 1 es))"
  obtains num r k a b where "(r, k, a, b) \<in> set es" and "x = rr_match ctx plan ps (num, r, k, a, b)"
  using assms by (auto dest: enumerate_snd_mem)

lemma rr_positions:
  "map c_bracket_position (map (rr_match ctx plan ps) (enumerate 1 es)) =
   map (\<lambda>(r, k). position_text ''RR'' r k) (map rr_slot es)"
  by (rule nth_equalityI) (simp_all add: nth_enumerate_eq case_prod_unfold rr_match_def rr_slot_def)

interpretation rr_gen: generator "round_robin ctx plan" for ctx plan
proof
  fix ps g assume "round_robin ctx plan ps = Inr g"
  then obtain m where "2 \<le> length ps" and odd: "odd m" and t: "gb_total_rounds g = int m"
    and ms: "gb_matches g = map (rr_match ctx plan ps) (enumerate 1 (rr_full (length ps) m))"
    by (rule round_robin_shape)
  then have m: "1 \<le> m" by (cases m) auto
  show "numbered_from_one (gb_matches g)"
    by (simp add: ms numbered_from_one_iff nth_enumerate_eq case_prod_unfold rr_match_def)
  have "inj_on (\<lambda>(r, k). position_text ''RR'' r k) S" for S
    by (auto simp: inj_on_def)
  then show "distinct (map c_bracket_position (gb_matches g))"
    unfolding ms rr_positions by (subst distinct_map) (simp add: rr_full_slots)
  fix x assume "x \<in> set (gb_matches g)"
  then obtain num r k a b where e: "(r, k, a, b) \<in> set (rr_full (length ps) m)"
    and x: "x = rr_match ctx plan ps (num, r, k, a, b)"
    unfolding ms by (rule rr_match_in)
  from rr_full_mem [OF m e] show "1 \<le> c_round x \<and> c_round x \<le> gb_total_rounds g"
    by (simp add: x t)
  show "c_participant1_registration_id x = None \<and> c_participant2_registration_id x = None \<and>
      c_winner_progresses_to x = None \<and> c_loser_progresses_to x = None"
    and "c_maps_required x = MatchFormat_game_count (c_match_format x)"
    by (simp_all add: x rr_match_def)
qed

lemma rr_assignments_mem:
  "(\<exists>x \<in> set (rr_assignments ps e). ia_bracket_position x = position_text ''RR'' r k \<and> ia_participant x = p) \<longleftrightarrow>
   rr_slot e = (r, k) \<and> (p = ps ! fst (rr_indices e) \<or> p = ps ! snd (rr_indices e))"
  by (cases e) (auto simp: rr_assignments_def)

lemma rr_plays_in:
  assumes "gb_initial_assignments g = concat (map (rr_assignments ps) es)"
    and "distinct (map rr_slot es)" and "(r, k, a, b) \<in> set es"
  shows "plays_in g (rr_match ctx plan ps (num, r, k, a, b)) p \<longleftrightarrow> p = ps ! a \<or> p = ps ! b"
proof -
  have "plays_in g (rr_match ctx plan ps (num, r, k, a, b)) p \<longleftrightarrow>
      (\<exists>e \<in> set es. rr_slot e = (r, k) \<and> (p = ps ! fst (rr_indices e) \<or> p = ps ! snd (rr_indices e)))"
    by (simp only: plays_in_def assms(1) set_concat set_map bex_UN bex_simps(7) rr_match_simps rr_assignments_mem)
  moreover have "e = (r, k, a, b)" if "e \<in> set es" "rr_slot e = (r, k)" for e
    using that assms(2,3) by (metis distinct_map inj_onD rr_entry_simps(2))
  ultimately show ?thesis using assms(3) by (metis fst_conv rr_entry_simps snd_conv)
qed

lemma rr_meeting_exists:
  assumes g: "round_robin ctx plan ps = Inr g" and "x < length ps" and "y < length ps" and "x \<noteq> y"
  shows "\<exists>z \<in> set (gb_matches g). plays_in g z (ps ! x) \<and> plays_in g z (ps ! y)"
proof -
  obtain m where odd: "odd m" and n: "length ps = (if even (length ps) then Suc m else m)"
    and ms: "gb_matches g = map (rr_match ctx plan ps) (enumerate 1 (rr_full (length ps) m))"
    and ia: "gb_initial_assignments g = concat (map (rr_assignments ps) (rr_full (length ps) m))"
    using g by (rule round_robin_shape)
  have "{x, y} \<in> rr_ends ` set (rr_full (length ps) m)"
    unfolding rr_full_pairs(2) [OF odd n] using assms(2-4) by simp
  then obtain r k a b where e: "(r, k, a, b) \<in> set (rr_full (length ps) m)" "{a, b} = {x, y}"
    by (auto simp: rr_ends_def unordered_def)
  obtain num where "(num, r, k, a, b) \<in> set (enumerate 1 (rr_full (length ps) m))"
    using enumerate_ex_mem [OF e(1)] by blast
  then have "rr_match ctx plan ps (num, r, k, a, b) \<in> set (gb_matches g)"
    unfolding ms set_map by (rule imageI)
  moreover have "plays_in g (rr_match ctx plan ps (num, r, k, a, b)) p \<longleftrightarrow> p = ps ! a \<or> p = ps ! b" for p
    by (rule rr_plays_in [OF ia rr_full_slots e(1)])
  ultimately show ?thesis using e(2) by (metis doubleton_eq_iff)
qed

section \<open>Properties\<close>

text \<open>
  C11. In a generated round robin, every two participants (without duplicates in the list)
  face each other in exactly one match.
\<close>

theorem round_robin_everyone_meets_once:
  assumes g: "round_robin ctx plan ps = Inr g" and d: "distinct ps"
    and p: "p \<in> set ps" and q: "q \<in> set ps" and "p \<noteq> q"
  shows "\<exists>!x. x \<in> set (gb_matches g) \<and> plays_in g x p \<and> plays_in g x q"
proof -
  obtain m where odd: "odd m" and n: "length ps = (if even (length ps) then Suc m else m)"
    and ms: "gb_matches g = map (rr_match ctx plan ps) (enumerate 1 (rr_full (length ps) m))"
    and ia: "gb_initial_assignments g = concat (map (rr_assignments ps) (rr_full (length ps) m))"
    using g by (rule round_robin_shape)
  let ?es = "rr_full (length ps) m"
  note plays = rr_plays_in [OF ia rr_full_slots]
  obtain x y where xy: "x < length ps" "y < length ps" "p = ps ! x" "q = ps ! y" "x \<noteq> y"
    using p q \<open>p \<noteq> q\<close> by (metis in_set_conv_nth)
  then obtain w where w: "w \<in> set (gb_matches g)" "plays_in g w p" "plays_in g w q"
    using rr_meeting_exists [OF g] by blast
  have entry: "\<exists>num e. e \<in> set ?es \<and> rr_ends e = {x, y} \<and> z = rr_match ctx plan ps (num, e)"
    if z: "z \<in> set (gb_matches g)" "plays_in g z p" "plays_in g z q" for z
  proof -
    obtain num r k a b where e: "(r, k, a, b) \<in> set ?es" and z_eq: "z = rr_match ctx plan ps (num, r, k, a, b)"
      using z(1) unfolding ms by (rule rr_match_in)
    have "a < length ps" "b < length ps" using rr_full_bound [OF odd n e] by auto
    moreover have "p = ps ! a \<or> p = ps ! b" "q = ps ! a \<or> q = ps ! b"
      using z(2,3) unfolding z_eq plays [OF e] by auto
    ultimately have "{a, b} = {x, y}"
      using xy \<open>p \<noteq> q\<close> d by (auto simp: nth_eq_iff_index_eq)
    then have "rr_ends (r, k, a, b) = {x, y}" by (simp add: rr_ends_def unordered_def)
    with e z_eq show ?thesis by blast
  qed
  have "z = w" if z: "z \<in> set (gb_matches g)" "plays_in g z p" "plays_in g z q" for z
  proof -
    obtain n1 e1 where 1: "e1 \<in> set ?es" "rr_ends e1 = {x, y}" "z = rr_match ctx plan ps (n1, e1)"
      using entry [OF z] by blast
    obtain n2 e2 where 2: "e2 \<in> set ?es" "rr_ends e2 = {x, y}" "w = rr_match ctx plan ps (n2, e2)"
      using entry [OF w] by blast
    have "e1 = e2"
      using rr_full_pairs(1) [OF odd n] 1(1,2) 2(1,2) by (metis distinct_map inj_onD)
    then have "c_bracket_position z = c_bracket_position w"
      unfolding 1(3) 2(3) by (cases e2) simp
    with z(1) w(1) g show ?thesis by (blast intro: rr_gen.position_unique)
  qed
  with w show ?thesis by blast
qed

theorem round_robin_everyone_meets_once_witness:
  "\<exists>g. round_robin example_ctx example_plan (map example_participant [1..<6]) = Inr g \<and>
    (\<exists>!x. x \<in> set (gb_matches g) \<and> plays_in g x (example_participant 2) \<and> plays_in g x (example_participant 4))"
proof -
  let ?ps = "map example_participant [1..<6]"
  obtain g where g: "round_robin example_ctx example_plan ?ps = Inr g"
    by (simp add: round_robin_def Let_def)
  have "distinct ?ps" "example_participant 2 \<in> set ?ps" "example_participant 4 \<in> set ?ps"
    "example_participant 2 \<noteq> example_participant 4" by auto
  with g show ?thesis using round_robin_everyone_meets_once [OF g] by blast
qed

text \<open>
  C7. Nobody plays twice in a round of a round robin; with \<open>n\<close> participants there are
  \<open>n (n - 1) / 2\<close> matches in \<open>n - 1\<close> rounds (\<open>n\<close> rounds when \<open>n\<close> is odd).
\<close>

theorem round_robin_rounds:
  assumes g: "round_robin ctx plan ps = Inr g" and d: "distinct ps"
    and x: "x \<in> set (gb_matches g)" and y: "y \<in> set (gb_matches g)" and "c_round x = c_round y"
    and "plays_in g x p" and "plays_in g y p"
  shows "x = y \<and> length (gb_matches g) = length ps * (length ps - 1) div 2
    \<and> gb_total_rounds g = (if even (length ps) then int (length ps) - 1 else int (length ps))"
proof -
  let ?n = "length ps"
  obtain m where odd: "odd m" and n: "?n = (if even ?n then Suc m else m)"
    and t: "gb_total_rounds g = int m"
    and ms: "gb_matches g = map (rr_match ctx plan ps) (enumerate 1 (rr_full ?n m))"
    and ia: "gb_initial_assignments g = concat (map (rr_assignments ps) (rr_full ?n m))"
    using g by (rule round_robin_shape)
  have m: "1 \<le> m" using odd by (cases m) auto
  let ?es = "rr_full ?n m"
  note plays = rr_plays_in [OF ia rr_full_slots]
  obtain n1 r k a b where e: "(r, k, a, b) \<in> set ?es" and x_eq: "x = rr_match ctx plan ps (n1, r, k, a, b)"
    using x unfolding ms by (rule rr_match_in)
  obtain n2 r2 k2 a2 b2 where e2: "(r2, k2, a2, b2) \<in> set ?es" and y_eq: "y = rr_match ctx plan ps (n2, r2, k2, a2, b2)"
    using y unfolding ms by (rule rr_match_in)
  have r: "r2 = r" using assms(5) by (simp add: x_eq y_eq)
  obtain i where i: "i < Suc m div 2" "a = rr_circle m (r - 1) ! i" "b = rr_circle m (r - 1) ! (m - i)"
    using rr_full_mem [OF m e] by (auto simp: rr_pair_def)
  obtain j where j: "j < Suc m div 2" "a2 = rr_circle m (r - 1) ! j" "b2 = rr_circle m (r - 1) ! (m - j)"
    using rr_full_mem [OF m e2] r by (auto simp: rr_pair_def)
  have bounds: "a < ?n" "b < ?n" "a2 < ?n" "b2 < ?n"
    using rr_full_bound [OF odd n e] rr_full_bound [OF odd n e2] by auto
  have "p = ps ! a \<or> p = ps ! b" "p = ps ! a2 \<or> p = ps ! b2"
    using assms(6,7) unfolding x_eq y_eq plays [OF e] plays [OF e2] by auto
  then have "{a, b} \<inter> {a2, b2} \<noteq> {}"
    using bounds d by (auto simp: nth_eq_iff_index_eq)
  then have "i = j"
  proof -
    have lt: "i < Suc m" "m - i < Suc m" "j < Suc m" "m - j < Suc m" using i(1) j(1) by linarith+
    obtain k where "m = 2 * k + 1" using odd by (rule oddE)
    with i(1) j(1) have "i \<noteq> m - j" "m - i \<noteq> j" by simp_all
    moreover from \<open>{a, b} \<inter> {a2, b2} \<noteq> {}\<close> have "i = j \<or> i = m - j \<or> m - i = j \<or> m - i = m - j"
      using lt distinct_rr_circle [of m "r - 1"] unfolding i(2,3) j(2,3) by (auto simp: nth_eq_iff_index_eq)
    ultimately show "i = j" using lt by auto
  qed
  then have "rr_ends (r, k, a, b) = rr_ends (r2, k2, a2, b2)" using i j by (simp add: rr_ends_def)
  then have "(r, k, a, b) = (r2, k2, a2, b2)"
    using rr_full_pairs(1) [OF odd n] e e2 by (meson distinct_map inj_onD)
  then have "c_bracket_position x = c_bracket_position y" by (simp add: x_eq y_eq)
  then have "x = y" using x y g by (blast intro: rr_gen.position_unique)
  moreover have "length (gb_matches g) = ?n choose 2"
  proof -
    have "length (gb_matches g) = card (rr_ends ` set ?es)"
      using rr_full_pairs(1) [OF odd n] by (simp add: ms distinct_map card_image distinct_card)
    then show ?thesis unfolding rr_full_pairs(2) [OF odd n] by (simp add: n_subsets)
  qed
  moreover have "gb_total_rounds g = (if even ?n then int ?n - 1 else int ?n)"
    using n t by (auto split: if_splits)
  ultimately show ?thesis by (simp add: choose_two)
qed

theorem round_robin_rounds_witness:
  "\<exists>g. round_robin example_ctx example_plan (map example_participant [1..<6]) = Inr g \<and>
    length (gb_matches g) = 5 * (5 - 1) div 2 \<and> gb_total_rounds g = 5"
proof -
  let ?ps = "map example_participant [1..<6]"
  obtain g where g: "round_robin example_ctx example_plan ?ps = Inr g"
    by (simp add: round_robin_def Let_def)
  have d: "distinct ?ps" by simp
  have "\<exists>z \<in> set (gb_matches g). plays_in g z (?ps ! 0) \<and> plays_in g z (?ps ! 1)"
    by (rule rr_meeting_exists [OF g]) simp_all
  then obtain x where x: "x \<in> set (gb_matches g)" "plays_in g x (?ps ! 0)" by blast
  from round_robin_rounds [OF g d x(1) x(1) refl x(2) x(2)] g show ?thesis by simp
qed

end
