(* ===== verification/Swiss.thy ===== *)
theory Swiss
  imports BracketGen Errors
begin

text \<open>
  The Swiss system (\<open>bracket_generator/swiss.rs\<close>): the seeded first round, and the later
  rounds with the ranking, the choice of the bye, the greedy pairing without rematches and
  the pairing of whoever is left. A Buchholz score (\<open>f64\<close> in the code, never NaN) is a
  value of any linear order.
\<close>

record 'f SwissParticipantStanding =
  ss_registration_id :: uuid
  ss_participant_name :: string
  ss_participant_logo_url :: "string option"
  ss_seed :: int
  ss_points :: int
  ss_buchholz_score :: 'f
  ss_had_bye :: bool

section \<open>Definitions\<close>

definition sw_position :: "int \<Rightarrow> nat \<Rightarrow> string" where
  "sw_position round n = ''SW'' @ show_int round @ ''M'' @ show_nat n"

text \<open>A match between two seeded participants and its two assignments.\<close>

definition sw_match :: "bracket_ctx \<Rightarrow> MatchFormatPlan \<Rightarrow> int \<Rightarrow>
    nat \<times> SeededParticipant \<times> SeededParticipant \<Rightarrow> CreateTournamentMatch" where
  "sw_match ctx plan round = (\<lambda>(match_number, p1, p2).
     new_match ctx round (int match_number) (sw_position round match_number)
       (Some (Seed (sp_seed p1))) (Some (Seed (sp_seed p2))) (MatchFormatPlan_format_for plan round 0))"

definition sw_assignments :: "int \<Rightarrow> nat \<times> SeededParticipant \<times> SeededParticipant \<Rightarrow> InitialAssignment list" where
  "sw_assignments round = (\<lambda>(match_number, p1, p2).
     [\<lparr>ia_bracket_position = sw_position round match_number, ia_participant = p1, ia_slot = 1\<rparr>,
      \<lparr>ia_bracket_position = sw_position round match_number, ia_participant = p2, ia_slot = 2\<rparr>])"

definition sw_bracket :: "bracket_ctx \<Rightarrow> MatchFormatPlan \<Rightarrow> int \<Rightarrow>
    (SeededParticipant \<times> SeededParticipant) list \<Rightarrow> GeneratedBracket" where
  "sw_bracket ctx plan round pairs =
     \<lparr>gb_total_rounds = round,
      gb_matches = map (sw_match ctx plan round) (enumerate 1 pairs),
      gb_initial_assignments = concat (map (sw_assignments round) (enumerate 1 pairs)),
      gb_byes = []\<rparr>"

definition swiss_initial_round :: "bracket_ctx \<Rightarrow> MatchFormatPlan \<Rightarrow> SeededParticipant list \<Rightarrow>
    DomainError + (GeneratedBracket \<times> uuid option)" where
  "swiss_initial_round ctx plan participants =
     (let n = length participants
      in if n < 2 then Inl InsufficientParticipants
         else let bye_participant = (if n mod 2 \<noteq> 0 then Some (sp_registration_id (participants ! (n - 1))) else None);
                  half = n div 2
              in Inr (sw_bracket ctx plan 1 (map (\<lambda>i. (participants ! i, participants ! (i + half))) [0..<half]),
                      bye_participant))"

text \<open>The comparator of the ranking, as \<open>cmp a b \<noteq> Greater\<close>.\<close>

definition swiss_le :: "('f :: linorder) SwissParticipantStanding \<Rightarrow> 'f SwissParticipantStanding \<Rightarrow> bool" where
  "swiss_le a b \<longleftrightarrow> ss_points a > ss_points b \<or> ss_points a = ss_points b \<and>
     (ss_buchholz_score a > ss_buchholz_score b \<or> ss_buchholz_score a = ss_buchholz_score b \<and>
       ss_seed a \<le> ss_seed b)"

text \<open>The lowest-ranked participant without a bye gets it; if all had one, the last.\<close>

definition remove_at :: "nat \<Rightarrow> 'a list \<Rightarrow> 'a list" where
  "remove_at i xs = take i xs @ drop (Suc i) xs"

definition swiss_bye_index :: "'f SwissParticipantStanding list \<Rightarrow> nat option" where
  "swiss_bye_index remaining =
     (if length remaining mod 2 = 0 then None
      else case find (\<lambda>i. \<not> ss_had_bye (remaining ! i)) (rev [0..<length remaining]) of
             Some i \<Rightarrow> Some i
           | None \<Rightarrow> Some (length remaining - 1))"

text \<open>
  The greedy loop over \<open>i\<close>: skip the paired, take the first later unpaired opponent that is
  no rematch.
\<close>

fun swiss_greedy :: "(nat \<Rightarrow> nat \<Rightarrow> bool) \<Rightarrow> nat list \<Rightarrow> bool list \<Rightarrow> (nat \<times> nat) list \<Rightarrow>
    bool list \<times> (nat \<times> nat) list" where
  "swiss_greedy rematch [] paired pairings = (paired, pairings)"
| "swiss_greedy rematch (i # is) paired pairings =
     (if paired ! i then swiss_greedy rematch is paired pairings
      else case find (\<lambda>j. \<not> paired ! j \<and> \<not> rematch i j) [i + 1..<length paired] of
             None \<Rightarrow> swiss_greedy rematch is paired pairings
           | Some j \<Rightarrow> swiss_greedy rematch is (paired[i := True, j := True]) (pairings @ [(i, j)]))"

text \<open>Whoever is left is paired in ranking order.\<close>

definition swiss_leftover :: "bool list \<Rightarrow> (nat \<times> nat) list" where
  "swiss_leftover paired =
     concat (map (\<lambda>chunk. if length chunk = 2 then [(chunk ! 0, chunk ! 1)] else [])
       (chunks2 (filter (\<lambda>i. \<not> paired ! i) [0..<length paired])))"

definition swiss_pairings :: "(nat \<Rightarrow> nat \<Rightarrow> bool) \<Rightarrow> nat \<Rightarrow> (nat \<times> nat) list" where
  "swiss_pairings rematch n =
     (let (paired, pairings) = swiss_greedy rematch [0..<n] (replicate n False) []
      in pairings @ swiss_leftover paired)"

definition seeded_of_standing :: "'f SwissParticipantStanding \<Rightarrow> SeededParticipant" where
  "seeded_of_standing s =
     \<lparr>sp_registration_id = ss_registration_id s, sp_seed = ss_seed s,
      sp_participant_name = ss_participant_name s, sp_participant_logo_url = ss_participant_logo_url s\<rparr>"

definition swiss_next_round :: "bracket_ctx \<Rightarrow> MatchFormatPlan \<Rightarrow> int \<Rightarrow>
    ('f :: linorder) SwissParticipantStanding list \<Rightarrow> (uuid \<times> uuid) list \<Rightarrow>
    DomainError + (GeneratedBracket \<times> uuid option)" where
  "swiss_next_round ctx plan round_number standings completed_pairings =
     (if length standings < 2 then Inl InsufficientParticipants
      else let ranked = sort_by swiss_le standings;
               bye = swiss_bye_index ranked;
               bye_participant = map_option (\<lambda>i. ss_registration_id (ranked ! i)) bye;
               remaining = (case bye of None \<Rightarrow> ranked | Some i \<Rightarrow> remove_at i ranked);
               rematch = (\<lambda>i j. (ss_registration_id (remaining ! i), ss_registration_id (remaining ! j))
                   \<in> set completed_pairings \<union> set (map prod.swap completed_pairings));
               pairings = swiss_pairings rematch (length remaining)
           in Inr (sw_bracket ctx plan round_number
                     (map (\<lambda>(i, j). (seeded_of_standing (remaining ! i), seeded_of_standing (remaining ! j))) pairings),
                   bye_participant))"

section \<open>The pairing loop\<close>

definition indices_of :: "(nat \<times> nat) list \<Rightarrow> nat list" where
  "indices_of ps = concat (map (\<lambda>(i, j). [i, j]) ps)"

lemma indices_of_simps [simp]:
  "indices_of [] = []" "indices_of ((i, j) # ps) = i # j # indices_of ps"
  "indices_of (ps @ qs) = indices_of ps @ indices_of qs"
  by (simp_all add: indices_of_def)

text \<open>The paired marks are exactly the indices of the pairings made so far, each once.\<close>

definition greedy_inv :: "(nat \<Rightarrow> nat \<Rightarrow> bool) \<Rightarrow> bool list \<Rightarrow> (nat \<times> nat) list \<Rightarrow> bool" where
  "greedy_inv rematch paired pairings \<longleftrightarrow>
     distinct (indices_of pairings) \<and>
     set (indices_of pairings) = {i. i < length paired \<and> paired ! i} \<and>
     (\<forall>(i, j) \<in> set pairings. i < j \<and> \<not> rematch i j)"

lemma greedy_inv_step:
  assumes inv: "greedy_inv rematch paired pairings" and i: "i < length paired" "\<not> paired ! i"
    and f: "find (\<lambda>j. \<not> paired ! j \<and> \<not> rematch i j) [i + 1..<length paired] = Some j"
  shows "greedy_inv rematch (paired[i := True, j := True]) (pairings @ [(i, j)])"
proof -
  have j: "i < j" "j < length paired" "\<not> paired ! j" "\<not> rematch i j"
    using f by (auto simp: find_Some_iff simp del: upt_Suc)
  then show ?thesis
    using inv i unfolding greedy_inv_def by (auto simp: nth_list_update)
qed

lemma marked_stays:
  "paired ! k \<Longrightarrow> k < length paired \<Longrightarrow> paired[i := True, j := True] ! k"
  by (cases "k = j"; cases "k = i") auto

lemma swiss_greedy_inv:
  assumes "greedy_inv rematch paired pairings" and "set is \<subseteq> {..<length paired}"
    and "swiss_greedy rematch is paired pairings = (paired', pairings')"
  shows "greedy_inv rematch paired' pairings' \<and> length paired' = length paired \<and>
    (\<forall>k < length paired. paired ! k \<longrightarrow> paired' ! k) \<and>
    (\<forall>i \<in> set is. \<forall>k. i < k \<longrightarrow> k < length paired \<longrightarrow> \<not> paired' ! i \<longrightarrow> \<not> paired' ! k \<longrightarrow> rematch i k)"
  using assms
proof (induction rematch "is" paired pairings rule: swiss_greedy.induct)
  case (2 rematch i "is" paired pairings)
  have i: "i < length paired" and sub: "set is \<subseteq> {..<length paired}" using "2.prems"(2) by auto
  show ?case
  proof (cases "paired ! i")
    case True
    from "2.IH"(1) [OF True "2.prems"(1) sub] "2.prems"(3) True i show ?thesis by simp
  next
    case False
    show ?thesis
    proof (cases "find (\<lambda>j. \<not> paired ! j \<and> \<not> rematch i j) [i + 1..<length paired]")
      case None
      then have now: "\<forall>k. i < k \<longrightarrow> k < length paired \<longrightarrow> \<not> paired ! k \<longrightarrow> rematch i k"
        by (auto simp: find_None_iff simp del: upt_Suc)
      from "2.IH"(2) [OF False None "2.prems"(1) sub] "2.prems"(3) False None
      have ih: "greedy_inv rematch paired' pairings'" "length paired' = length paired"
        "\<forall>k < length paired. paired ! k \<longrightarrow> paired' ! k"
        "\<forall>i \<in> set is. \<forall>k. i < k \<longrightarrow> k < length paired \<longrightarrow> \<not> paired' ! i \<longrightarrow> \<not> paired' ! k \<longrightarrow> rematch i k"
        by simp_all
      from ih(3) now have "\<forall>k. i < k \<longrightarrow> k < length paired \<longrightarrow> \<not> paired' ! k \<longrightarrow> rematch i k" by blast
      with ih show ?thesis by simp
    next
      case (Some j)
      let ?p = "paired[i := True, j := True]"
      have inv: "greedy_inv rematch ?p (pairings @ [(i, j)])"
        using "2.prems" False Some by (intro greedy_inv_step) auto
      have sub': "set is \<subseteq> {..<length ?p}" using sub by simp
      from "2.IH"(3) [OF False Some inv sub'] "2.prems"(3) False Some
      have ih: "greedy_inv rematch paired' pairings'" "length paired' = length paired"
        "\<forall>k < length paired. ?p ! k \<longrightarrow> paired' ! k"
        "\<forall>i \<in> set is. \<forall>k. i < k \<longrightarrow> k < length paired \<longrightarrow> \<not> paired' ! i \<longrightarrow> \<not> paired' ! k \<longrightarrow> rematch i k"
        by simp_all
      have "?p ! i" using i by (cases "i = j") auto
      with ih(3) i have "paired' ! i" by blast
      moreover have "\<forall>k < length paired. paired ! k \<longrightarrow> paired' ! k"
        using ih(3) marked_stays [of paired] by blast
      ultimately show ?thesis using ih by simp
    qed
  qed
qed simp

lemma swiss_leftover_indices:
  assumes "even (length (filter (\<lambda>i. \<not> paired ! i) [0..<length paired]))"
  shows "indices_of (swiss_leftover paired) = filter (\<lambda>i. \<not> paired ! i) [0..<length paired]"
proof -
  have "indices_of (concat (map (\<lambda>c. if length c = 2 then [(c ! 0, c ! 1)] else []) (chunks2 xs))) = xs"
    if "even (length xs)" for xs :: "nat list"
    using that by (induction xs rule: chunks2.induct) auto
  with assms show ?thesis by (simp add: swiss_leftover_def)
qed

lemma length_indices_of: "length (indices_of ps) = 2 * length ps"
  by (induction ps) auto

text \<open>
  An even number of participants is paired completely; a rematch is made only between
  participants who were left over, and any two of those have met before.
\<close>

lemma swiss_pairings_complete:
  assumes "even n"
  shows "mset (indices_of (swiss_pairings rematch n)) = mset [0..<n]"
    and "k < l \<Longrightarrow> l < n \<Longrightarrow>
      {k, l} \<inter> set (indices_of (filter (\<lambda>(a, b). \<not> rematch a b) (swiss_pairings rematch n))) = {} \<Longrightarrow> rematch k l"
proof -
  obtain paired pairings where g: "swiss_greedy rematch [0..<n] (replicate n False) [] = (paired, pairings)"
    by fastforce
  have init: "greedy_inv rematch (replicate n False) []" "set [0..<n] \<subseteq> {..<length (replicate n False)}"
    by (auto simp: greedy_inv_def)
  from swiss_greedy_inv [OF init g]
  have inv: "greedy_inv rematch paired pairings" and len: "length paired = n"
    and left: "\<forall>i < n. \<forall>k < n. i < k \<longrightarrow> \<not> paired ! i \<longrightarrow> \<not> paired ! k \<longrightarrow> rematch i k"
    by auto
  let ?rest = "filter (\<lambda>i. \<not> paired ! i) [0..<n]" and ?done = "filter (\<lambda>i. paired ! i) [0..<n]"
  have marks: "mset (indices_of pairings) = mset ?done"
    by (rule set_eq_iff_mset_eq_distinct [THEN iffD1])
       (use inv len in \<open>auto simp: greedy_inv_def\<close>)
  have "length ?done + length ?rest = n" using sum_length_filter_compl [of "\<lambda>i. paired ! i" "[0..<n]"] by simp
  moreover have "length ?done = 2 * length pairings"
    using marks by (metis length_indices_of size_mset)
  ultimately have ev: "even (length ?rest)" using assms by presburger
  have ind: "indices_of (swiss_leftover paired) = ?rest"
    using swiss_leftover_indices [of paired] ev len by simp
  have eq: "swiss_pairings rematch n = pairings @ swiss_leftover paired"
    by (simp add: swiss_pairings_def g)
  have "mset (?done @ ?rest) = mset [0..<n]"
    by (induction n) auto
  then show "mset (indices_of (swiss_pairings rematch n)) = mset [0..<n]"
    unfolding eq using marks ind by simp
  have fresh: "filter (\<lambda>(a, b). \<not> rematch a b) pairings = pairings"
    using inv by (auto simp: greedy_inv_def filter_id_conv)
  have "paired ! k \<Longrightarrow> k < n \<Longrightarrow> k \<in> set (indices_of (filter (\<lambda>(a, b). \<not> rematch a b) (swiss_pairings rematch n)))" for k
    unfolding eq using fresh inv len by (auto simp: greedy_inv_def)
  then show "k < l \<Longrightarrow> l < n \<Longrightarrow>
      {k, l} \<inter> set (indices_of (filter (\<lambda>(a, b). \<not> rematch a b) (swiss_pairings rematch n))) = {} \<Longrightarrow> rematch k l"
    using left by (metis Int_insert_left insert_not_empty less_trans)
qed

lemma indices_mem: "(c, d) \<in> set ps \<Longrightarrow> c \<in> set (indices_of ps) \<and> d \<in> set (indices_of ps)"
  by (induction ps) auto

lemma indices_unique:
  assumes "distinct (indices_of ps)" and "(i, j) \<in> set ps" and "(a, b) \<in> set ps" and "{i, j} \<inter> {a, b} \<noteq> {}"
  shows "(a, b) = (i, j)"
  using assms
proof (induction ps)
  case (Cons p ps)
  obtain x y where p: "p = (x, y)" by (cases p)
  then have xy: "x \<notin> set (indices_of ps)" "y \<notin> set (indices_of ps)" and d: "distinct (indices_of ps)"
    using Cons.prems(1) by auto
  consider "(i, j) = p" "(a, b) = p" | "(i, j) = p" "(a, b) \<in> set ps"
    | "(i, j) \<in> set ps" "(a, b) = p" | "(i, j) \<in> set ps" "(a, b) \<in> set ps"
    using Cons.prems(2,3) by auto
  then show ?case
  proof cases
    case 2
    with indices_mem [of a b ps] xy Cons.prems(4) p show ?thesis by auto
  next
    case 3
    with indices_mem [of i j ps] xy Cons.prems(4) p show ?thesis by auto
  next
    case 4
    with Cons.IH [OF d] Cons.prems(4) show ?thesis by blast
  qed simp
qed simp

section \<open>The generated round\<close>

lemma sw_match_simps [simp]:
  "c_round (sw_match ctx plan r (num, p1, p2)) = r"
  "c_match_number (sw_match ctx plan r (num, p1, p2)) = int num"
  "c_bracket_position (sw_match ctx plan r (num, p1, p2)) = sw_position r num"
  by (simp_all add: sw_match_def)

lemma sw_position_inject [simp]: "sw_position r m = sw_position r n \<longleftrightarrow> m = n"
  by (simp add: sw_position_def)

lemma sw_bracket_simps [simp]:
  "gb_total_rounds (sw_bracket ctx plan r ps) = r"
  "gb_matches (sw_bracket ctx plan r ps) = map (sw_match ctx plan r) (enumerate 1 ps)"
  "gb_initial_assignments (sw_bracket ctx plan r ps) = concat (map (sw_assignments r) (enumerate 1 ps))"
  "gb_byes (sw_bracket ctx plan r ps) = []"
  by (simp_all add: sw_bracket_def)

lemma sw_bracket_participants:
  "map ia_participant (gb_initial_assignments (sw_bracket ctx plan r ps)) = concat (map (\<lambda>(p, q). [p, q]) ps)"
proof -
  have "map ia_participant (concat (map (sw_assignments r) (enumerate n ps))) = concat (map (\<lambda>(p, q). [p, q]) ps)" for n
    by (induction ps arbitrary: n) (auto simp: sw_assignments_def)
  then show ?thesis by simp
qed

lemma sw_plays_in:
  assumes "(num, p1, p2) \<in> set (enumerate 1 ps)"
  shows "plays_in (sw_bracket ctx plan r ps) (sw_match ctx plan r (num, p1, p2)) p \<longleftrightarrow> p = p1 \<or> p = p2"
proof -
  have mem: "(\<exists>x \<in> set (sw_assignments r e). ia_bracket_position x = sw_position r num \<and> ia_participant x = p) \<longleftrightarrow>
      fst e = num \<and> (p = fst (snd e) \<or> p = snd (snd e))" for e
    by (cases e) (auto simp: sw_assignments_def)
  have "plays_in (sw_bracket ctx plan r ps) (sw_match ctx plan r (num, p1, p2)) p \<longleftrightarrow>
      (\<exists>e \<in> set (enumerate 1 ps). fst e = num \<and> (p = fst (snd e) \<or> p = snd (snd e)))"
    by (simp only: plays_in_def sw_bracket_simps set_concat set_map bex_UN bex_simps(7) sw_match_simps mem)
  moreover have "e = (num, p1, p2)" if "e \<in> set (enumerate 1 ps)" "fst e = num" for e
    using that assms by (simp add: in_set_enumerate_eq prod_eq_iff)
  ultimately show ?thesis using assms by (metis fst_conv snd_conv)
qed

lemma sw_bracket_contract:
  assumes "1 \<le> r"
  shows "numbered_from_one (gb_matches (sw_bracket ctx plan r ps)) \<and>
    distinct (map c_bracket_position (gb_matches (sw_bracket ctx plan r ps))) \<and>
    (\<forall>x \<in> set (gb_matches (sw_bracket ctx plan r ps)). c_round x = r \<and>
      c_participant1_registration_id x = None \<and> c_participant2_registration_id x = None \<and>
      c_winner_progresses_to x = None \<and> c_loser_progresses_to x = None \<and>
      c_maps_required x = MatchFormat_game_count (c_match_format x))"
proof (intro conjI)
  show "numbered_from_one (gb_matches (sw_bracket ctx plan r ps))"
    by (simp add: numbered_from_one_iff nth_enumerate_eq sw_match_def case_prod_unfold)
  have "map c_bracket_position (gb_matches (sw_bracket ctx plan r ps)) = map (sw_position r) [1..<1 + length ps]"
    by (rule nth_equalityI) (simp_all add: nth_enumerate_eq sw_match_def case_prod_unfold del: upt_Suc)
  then show "distinct (map c_bracket_position (gb_matches (sw_bracket ctx plan r ps)))"
    by (simp add: distinct_map inj_on_def del: upt_Suc)
qed (auto simp: sw_match_def)

text \<open>Both Swiss rounds keep the contract of a generator, whatever the bye.\<close>

interpretation sw_first: generator "\<lambda>ps. map_sum id fst (swiss_initial_round ctx plan ps)" for ctx plan
proof
  fix ps g assume "map_sum id fst (swiss_initial_round ctx plan ps) = Inr g"
  then obtain pairs where g: "g = sw_bracket ctx plan 1 pairs"
    by (auto simp: swiss_initial_round_def Let_def split: if_splits)
  show "numbered_from_one (gb_matches g)" "distinct (map c_bracket_position (gb_matches g))"
    using sw_bracket_contract [of 1] unfolding g by auto
  fix m assume "m \<in> set (gb_matches g)"
  then show "1 \<le> c_round m \<and> c_round m \<le> gb_total_rounds g"
    and "c_participant1_registration_id m = None \<and> c_participant2_registration_id m = None \<and>
      c_winner_progresses_to m = None \<and> c_loser_progresses_to m = None"
    and "c_maps_required m = MatchFormat_game_count (c_match_format m)"
    using sw_bracket_contract [of 1] unfolding g by auto
qed

section \<open>The ranking and the bye\<close>

lemma swiss_le_total: "swiss_le a b \<or> swiss_le b a"
  by (auto simp: swiss_le_def)

lemma swiss_le_trans: "swiss_le a b \<Longrightarrow> swiss_le b c \<Longrightarrow> swiss_le a c"
  by (auto simp: swiss_le_def)

lemma ranked_le:
  "i < j \<Longrightarrow> j < length xs \<Longrightarrow> swiss_le (sort_by swiss_le xs ! i) (sort_by swiss_le xs ! j)"
  using sorted_sort_by [of swiss_le xs, OF swiss_le_total swiss_le_trans]
  by (simp add: sorted_wrt_iff_nth_less)

lemma mset_remove_at: "i < length xs \<Longrightarrow> add_mset (xs ! i) (mset (remove_at i xs)) = mset xs"
  by (metis add_mset_add_single id_take_nth_drop mset.simps(2) mset_append remove_at_def union_mset_add_mset_right)

lemma swiss_bye_index_Some:
  assumes "swiss_bye_index ranked = Some i" and "ranked \<noteq> []"
  shows "i < length ranked \<and> odd (length ranked) \<and>
    (ss_had_bye (ranked ! i) \<longrightarrow> (\<forall>s \<in> set ranked. ss_had_bye s)) \<and>
    (\<forall>j. i < j \<longrightarrow> j < length ranked \<longrightarrow> ss_had_bye (ranked ! j))"
proof (cases "find (\<lambda>i. \<not> ss_had_bye (ranked ! i)) (rev [0..<length ranked])")
  case None
  then have all: "\<forall>j < length ranked. ss_had_bye (ranked ! j)"
    by (auto simp: find_None_iff)
  with None assms show ?thesis
    by (auto simp: swiss_bye_index_def in_set_conv_nth split: if_splits)
next
  case (Some k)
  then have "i = k" "odd (length ranked)"
    using assms(1) by (auto simp: swiss_bye_index_def split: if_splits)
  moreover obtain l where l: "l < length ranked" "k = rev [0..<length ranked] ! l" "\<not> ss_had_bye (ranked ! k)"
    and before: "\<forall>j < l. ss_had_bye (ranked ! (rev [0..<length ranked] ! j))"
    using Some by (auto simp: find_Some_iff)
  moreover have "k = length ranked - Suc l" using l by (simp add: rev_nth)
  moreover have "ss_had_bye (ranked ! j)" if "k < j" "j < length ranked" for j
    using before [rule_format, of "length ranked - Suc j"] that l(1) \<open>k = length ranked - Suc l\<close>
    by (simp add: rev_nth)
  ultimately show ?thesis by auto
qed

lemma swiss_next_round_shape:
  assumes "swiss_next_round ctx plan r standings played = Inr (g, bye)"
  obtains ranked b rest rematch where "2 \<le> length standings" and "ranked = sort_by swiss_le standings"
    and "b = swiss_bye_index ranked" and "bye = map_option (\<lambda>i. ss_registration_id (ranked ! i)) b"
    and "rest = (case b of None \<Rightarrow> ranked | Some i \<Rightarrow> remove_at i ranked)"
    and "rematch = (\<lambda>i j. (ss_registration_id (rest ! i), ss_registration_id (rest ! j))
           \<in> set played \<union> set (map prod.swap played))"
    and "g = sw_bracket ctx plan r
      (map (\<lambda>(i, j). (seeded_of_standing (rest ! i), seeded_of_standing (rest ! j))) (swiss_pairings rematch (length rest)))"
  using assms by (simp add: swiss_next_round_def Let_def split: if_splits)

lemma swiss_rest_even:
  fixes ranked :: "'f SwissParticipantStanding list"
  assumes "ranked \<noteq> []" and "rest = (case swiss_bye_index ranked of None \<Rightarrow> ranked | Some i \<Rightarrow> remove_at i ranked)"
  shows "even (length rest) \<and>
    mset rest + (case swiss_bye_index ranked of None \<Rightarrow> {#} | Some i \<Rightarrow> {# ranked ! i #}) = mset ranked"
proof (cases "swiss_bye_index ranked")
  case None
  then have "even (length ranked)"
    by (auto simp: swiss_bye_index_def split: if_splits option.splits)
  with None assms show ?thesis by simp
next
  case (Some i)
  from swiss_bye_index_Some [OF Some assms(1)] have "i < length ranked" "odd (length ranked)" by auto
  then have "add_mset (ranked ! i) (mset (remove_at i ranked)) = mset ranked" by (simp add: mset_remove_at)
  moreover have "length (remove_at i ranked) = length ranked - 1"
    using \<open>i < length ranked\<close> by (simp add: remove_at_def)
  ultimately show ?thesis using Some assms \<open>odd (length ranked)\<close> by simp
qed

lemma swiss_next_round_ok:
  assumes "2 \<le> length standings"
  obtains g bye where "swiss_next_round ctx plan r standings played = Inr (g, bye)"
    and "bye = None \<longleftrightarrow> even (length standings)"
proof -
  have "swiss_bye_index (sort_by swiss_le standings) = None \<longleftrightarrow> even (length standings)"
    by (auto simp: swiss_bye_index_def split: option.splits)
  moreover obtain g where "swiss_next_round ctx plan r standings played = Inr (g,
      map_option (\<lambda>i. ss_registration_id (sort_by swiss_le standings ! i)) (swiss_bye_index (sort_by swiss_le standings)))"
    using assms by (simp add: swiss_next_round_def Let_def)
  ultimately show ?thesis by (intro that) (assumption, simp only: option.map_disc_iff)
qed

section \<open>Properties\<close>

text \<open>
  C16. A Swiss round places every participant exactly once: in one match of the round, or as
  the holder of the bye, which exists exactly when the number of participants is odd.
\<close>

theorem swiss_next_round_places_everyone:
  assumes "swiss_next_round ctx plan r standings played = Inr (g, bye)"
  shows "mset (map (\<lambda>a. sp_registration_id (ia_participant a)) (gb_initial_assignments g)) +
      (case bye of None \<Rightarrow> {#} | Some i \<Rightarrow> {# i #}) = mset (map ss_registration_id standings)
    \<and> (bye = None \<longleftrightarrow> even (length standings))
    \<and> length (gb_matches g) = length standings div 2"
proof -
  obtain ranked b rest rematch where n: "2 \<le> length standings" and ranked: "ranked = sort_by swiss_le standings"
    and b: "b = swiss_bye_index ranked" and bye: "bye = map_option (\<lambda>i. ss_registration_id (ranked ! i)) b"
    and rest: "rest = (case b of None \<Rightarrow> ranked | Some i \<Rightarrow> remove_at i ranked)"
    and g: "g = sw_bracket ctx plan r (map (\<lambda>(i, j). (seeded_of_standing (rest ! i), seeded_of_standing (rest ! j)))
      (swiss_pairings rematch (length rest)))"
    using assms by (rule swiss_next_round_shape)
  let ?ps = "swiss_pairings rematch (length rest)"
  have "ranked \<noteq> []" using n ranked by (metis length_sort_by list.size(3) not_numeral_le_zero)
  from swiss_rest_even [OF this] have even: "even (length rest)"
    and part: "mset rest + (case b of None \<Rightarrow> {#} | Some i \<Rightarrow> {# ranked ! i #}) = mset ranked"
    using rest b by auto
  have ids: "map (\<lambda>a. sp_registration_id (ia_participant a)) (gb_initial_assignments g) =
      map (\<lambda>i. ss_registration_id (rest ! i)) (indices_of ?ps)"
  proof -
    have "map (\<lambda>a. sp_registration_id (ia_participant a)) (gb_initial_assignments g) =
        map sp_registration_id (map ia_participant (gb_initial_assignments g))" by simp
    then show ?thesis
      unfolding g sw_bracket_participants indices_of_def
      by (simp add: map_concat comp_def case_prod_unfold seeded_of_standing_def)
  qed
  have "mset (map (\<lambda>i. ss_registration_id (rest ! i)) (indices_of ?ps)) =
      image_mset (\<lambda>i. ss_registration_id (rest ! i)) (mset [0..<length rest])"
    unfolding swiss_pairings_complete(1) [OF even, of rematch, symmetric] by simp
  also have "\<dots> = mset (map ss_registration_id (map ((!) rest) [0..<length rest]))"
    by (simp add: image_mset.compositionality comp_def)
  also have "\<dots> = image_mset ss_registration_id (mset rest)" by (simp only: map_nth mset_map)
  finally have "mset (map (\<lambda>i. ss_registration_id (rest ! i)) (indices_of ?ps)) +
      (case bye of None \<Rightarrow> {#} | Some i \<Rightarrow> {# i #}) = image_mset ss_registration_id (mset ranked)"
    unfolding part [symmetric] bye by (cases b) simp_all
  moreover have "bye = None \<longleftrightarrow> even (length standings)"
    unfolding bye b ranked by (auto simp: swiss_bye_index_def split: option.splits)
  moreover have "length rest = 2 * length ?ps"
    using swiss_pairings_complete(1) [OF even, of rematch] by (metis length_indices_of length_upt minus_nat.diff_0 size_mset)
  then have "length (gb_matches g) = length standings div 2"
    using arg_cong [OF part, of size] unfolding g ranked by (cases b) simp_all
  ultimately show ?thesis unfolding ids by (simp add: ranked)
qed

definition example_standing :: "nat \<Rightarrow> int \<Rightarrow> bool \<Rightarrow> int SwissParticipantStanding" where
  "example_standing i points had_bye =
     \<lparr>ss_registration_id = show_nat i, ss_participant_name = ''p'' @ show_nat i,
      ss_participant_logo_url = None, ss_seed = int i, ss_points = points, ss_buchholz_score = 0,
      ss_had_bye = had_bye\<rparr>"

definition example_standings :: "int SwissParticipantStanding list" where
  "example_standings = [example_standing 1 3 False, example_standing 2 0 True, example_standing 3 0 False]"

lemma example_standings_ok:
  obtains g i where "swiss_next_round example_ctx example_plan 2 example_standings [] = Inr (g, Some i)"
  by (rule swiss_next_round_ok [of example_standings example_ctx example_plan 2 "[]"])
     (auto simp: example_standings_def)

theorem swiss_next_round_places_everyone_witness:
  "\<exists>g i. swiss_next_round example_ctx example_plan 2 example_standings [] = Inr (g, Some i) \<and>
    length (gb_matches g) = 1"
proof -
  obtain g i where g: "swiss_next_round example_ctx example_plan 2 example_standings [] = Inr (g, Some i)"
    by (rule example_standings_ok)
  from swiss_next_round_places_everyone [OF g] g show ?thesis by (auto simp: example_standings_def)
qed

text \<open>
  C19. With an odd number of participants the bye goes to somebody who had none yet, if
  there is such a participant, and to the lowest-ranked of those.
\<close>

theorem swiss_bye_is_fair:
  assumes "swiss_next_round ctx plan r standings played = Inr (g, Some i)"
  shows "\<exists>s \<in> set standings. ss_registration_id s = i \<and>
    (ss_had_bye s \<longrightarrow> (\<forall>t \<in> set standings. ss_had_bye t)) \<and>
    (\<forall>t \<in> set standings. \<not> ss_had_bye t \<longrightarrow> t = s \<or> swiss_le t s)"
proof -
  obtain ranked b where n: "2 \<le> length standings" and ranked: "ranked = sort_by swiss_le standings"
    and b: "b = swiss_bye_index ranked" and bye: "Some i = map_option (\<lambda>i. ss_registration_id (ranked ! i)) b"
    using assms by (rule swiss_next_round_shape)
  obtain k where "b = Some k" and i: "i = ss_registration_id (ranked ! k)"
    using bye by (cases b) auto
  then have k: "swiss_bye_index ranked = Some k" "i = ss_registration_id (ranked ! k)" using b by auto
  have ne: "ranked \<noteq> []" using n ranked by (metis length_sort_by list.size(3) not_numeral_le_zero)
  have set: "set ranked = set standings" by (simp add: ranked)
  have "t = ranked ! k \<or> swiss_le t (ranked ! k)" if t: "t \<in> set standings" "\<not> ss_had_bye t" for t
  proof -
    obtain j where j: "j < length ranked" "t = ranked ! j" using t(1) set by (metis in_set_conv_nth)
    with swiss_bye_index_Some [OF k(1) ne] t(2) have "j \<le> k" by (meson leI)
    with swiss_bye_index_Some [OF k(1) ne] j show ?thesis
      using ranked_le [of j k standings] unfolding ranked by (cases "j = k") auto
  qed
  with swiss_bye_index_Some [OF k(1) ne] k(2) set show ?thesis
    by (intro bexI [of _ "ranked ! k"]) auto
qed

theorem swiss_bye_is_fair_witness:
  "\<exists>g i. swiss_next_round example_ctx example_plan 2 example_standings [] = Inr (g, Some i) \<and> i = show_nat 3"
proof -
  obtain g i where g: "swiss_next_round example_ctx example_plan 2 example_standings [] = Inr (g, Some i)"
    by (rule example_standings_ok)
  from swiss_bye_is_fair [OF g] have "i = show_nat 3"
    by (auto simp: example_standings_def example_standing_def swiss_le_def)
  with g show ?thesis by blast
qed

text \<open>
  C20. A Swiss round repeats a pairing only when it must: if two participants meet again,
  they and all others in repeated pairings of the round have met each other before.
\<close>

definition met_before :: "(uuid \<times> uuid) list \<Rightarrow> SeededParticipant \<Rightarrow> SeededParticipant \<Rightarrow> bool" where
  "met_before played p q \<longleftrightarrow> (sp_registration_id p, sp_registration_id q) \<in> set played \<or>
     (sp_registration_id q, sp_registration_id p) \<in> set played"

definition repeats :: "(uuid \<times> uuid) list \<Rightarrow> GeneratedBracket \<Rightarrow> SeededParticipant \<Rightarrow> bool" where
  "repeats played g p \<longleftrightarrow> (\<exists>x \<in> set (gb_matches g). \<exists>q. plays_in g x p \<and> plays_in g x q \<and> p \<noteq> q \<and>
     met_before played p q)"

theorem swiss_rematch_only_if_forced:
  assumes "swiss_next_round ctx plan r standings played = Inr (g, bye)"
    and ids: "distinct (map ss_registration_id standings)"
    and "repeats played g p" and "repeats played g q" and "p \<noteq> q"
  shows "met_before played p q"
proof -
  obtain ranked b rest rematch where n: "2 \<le> length standings" and ranked: "ranked = sort_by swiss_le standings"
    and b: "b = swiss_bye_index ranked"
    and rest: "rest = (case b of None \<Rightarrow> ranked | Some i \<Rightarrow> remove_at i ranked)"
    and rematch: "rematch = (\<lambda>i j. (ss_registration_id (rest ! i), ss_registration_id (rest ! j))
           \<in> set played \<union> set (map prod.swap played))"
    and g: "g = sw_bracket ctx plan r (map (\<lambda>(i, j). (seeded_of_standing (rest ! i), seeded_of_standing (rest ! j)))
      (swiss_pairings rematch (length rest)))"
    using assms(1) by (rule swiss_next_round_shape)
  let ?ps = "swiss_pairings rematch (length rest)" and ?s = "\<lambda>i. seeded_of_standing (rest ! i)"
  have "ranked \<noteq> []" using n ranked by (metis length_sort_by list.size(3) not_numeral_le_zero)
  from swiss_rest_even [OF this] have even: "even (length rest)" using rest b by auto
  note complete = swiss_pairings_complete(1) [OF even, of rematch] swiss_pairings_complete(2) [OF even, where rematch = rematch]
  have d: "distinct (indices_of ?ps)"
    using complete(1) mset_eq_imp_distinct_iff by (metis distinct_upt)
  have met: "met_before played (?s i) (?s j) \<longleftrightarrow> rematch i j" for i j
    by (auto simp: met_before_def rematch seeded_of_standing_def)
  have sym: "rematch i j \<longleftrightarrow> rematch j i" for i j
    unfolding met [symmetric] by (auto simp: met_before_def)
  have idx: "\<exists>i < length rest. p = ?s i \<and> i \<notin> set (indices_of (filter (\<lambda>(a, b). \<not> rematch a b) ?ps))"
    if p: "repeats played g p" for p
  proof -
    obtain x u where x: "x \<in> set (gb_matches g)" "plays_in g x p" "plays_in g x u" "p \<noteq> u" "met_before played p u"
      using p by (auto simp: repeats_def)
    obtain num p1 p2 where num: "(num, p1, p2) \<in> set (enumerate 1 (map (\<lambda>(i, j). (?s i, ?s j)) ?ps))"
      and x_eq: "x = sw_match ctx plan r (num, p1, p2)"
    proof -
      from x(1) obtain e where "e \<in> set (enumerate 1 (map (\<lambda>(i, j). (?s i, ?s j)) ?ps))" "x = sw_match ctx plan r e"
        unfolding g sw_bracket_simps set_map by (rule imageE)
      then show ?thesis by (intro that [of "fst e" "fst (snd e)" "snd (snd e)"]) simp_all
    qed
    then obtain i j where ij: "(i, j) \<in> set ?ps" "p1 = ?s i" "p2 = ?s j"
      by (auto dest!: enumerate_snd_mem)
    note e = num [unfolded ij(2,3)] ij(1) x_eq [unfolded ij(2,3)]
    have "p = ?s i \<and> u = ?s j \<or> p = ?s j \<and> u = ?s i"
      using x(2-4) unfolding g e(3) sw_plays_in [OF e(1)] by blast
    then have rm: "rematch i j" and pij: "p = ?s i \<or> p = ?s j" using x(5) met sym by metis+
    have fresh: "k \<notin> set (indices_of (filter (\<lambda>(a, b). \<not> rematch a b) ?ps))" if "k \<in> {i, j}" for k
    proof
      assume "k \<in> set (indices_of (filter (\<lambda>(a, b). \<not> rematch a b) ?ps))"
      then obtain c d where cd: "(c, d) \<in> set ?ps" "\<not> rematch c d" "k \<in> {c, d}"
        unfolding indices_of_def by auto
      have "{i, j} \<inter> {c, d} \<noteq> {}" using that cd(3) by auto
      then have "(c, d) = (i, j)" by (rule indices_unique [OF d e(2) cd(1)])
      with rm cd(2) show False by (metis prod.inject)
    qed
    have "set (indices_of ?ps) = {0..<length rest}" using complete(1) by (metis mset_eq_setD set_upt)
    with indices_mem [OF e(2)] have "i < length rest" "j < length rest" by auto
    with fresh [of i] fresh [of j] pij show ?thesis by blast
  qed
  obtain i where i: "i < length rest" "p = ?s i" "i \<notin> set (indices_of (filter (\<lambda>(a, b). \<not> rematch a b) ?ps))"
    using idx [OF assms(3)] by blast
  obtain j where j: "j < length rest" "q = ?s j" "j \<notin> set (indices_of (filter (\<lambda>(a, b). \<not> rematch a b) ?ps))"
    using idx [OF assms(4)] by blast
  have "i \<noteq> j" using i(2) j(2) \<open>p \<noteq> q\<close> by blast
  then consider "i < j" | "j < i" by linarith
  then have "rematch i j"
  proof cases
    case 1
    then show ?thesis by (rule complete(2)) (use i j in blast)+
  next
    case 2
    then have "rematch j i" by (rule complete(2)) (use i j in blast)+
    then show ?thesis using sym by blast
  qed
  then show ?thesis using met i j by simp
qed

lemma swiss_pairings_two: "swiss_pairings rematch (Suc (Suc 0)) = [(0, 1)]"
  by (cases "rematch 0 1") (simp_all add: swiss_pairings_def swiss_leftover_def upt_conv_Cons)

theorem swiss_rematch_only_if_forced_witness:
  "\<exists>g. swiss_next_round example_ctx example_plan 2 [example_standing 1 3 False, example_standing 2 0 False]
      [(show_nat 2, show_nat 1)] = Inr (g, None) \<and>
    met_before [(show_nat 2, show_nat 1)] (seeded_of_standing (example_standing 1 3 False))
      (seeded_of_standing (example_standing 2 0 False))"
proof -
  let ?s = "[example_standing 1 3 False, example_standing 2 0 False]" and ?pl = "[(show_nat 2, show_nat 1)]"
  let ?p = "seeded_of_standing (example_standing 1 3 False)" and ?q = "seeded_of_standing (example_standing 2 0 False)"
  let ?g = "sw_bracket example_ctx example_plan 2 [(?p, ?q)]"
  have "sort_by swiss_le ?s = ?s"
    by (simp add: sort_by_def swiss_le_def example_standing_def)
  then have g: "swiss_next_round example_ctx example_plan 2 ?s ?pl = Inr (?g, None)"
    by (simp add: swiss_next_round_def Let_def swiss_bye_index_def swiss_pairings_two)
  have ids: "distinct (map ss_registration_id ?s)" by (simp add: example_standing_def)
  have x: "(1, ?p, ?q) \<in> set (enumerate 1 [(?p, ?q)])" by simp
  have ne: "?p \<noteq> ?q" by (simp add: seeded_of_standing_def example_standing_def)
  have met: "met_before ?pl ?p ?q" "met_before ?pl ?q ?p"
    by (simp_all add: met_before_def seeded_of_standing_def example_standing_def)
  have m: "sw_match example_ctx example_plan 2 (1, ?p, ?q) \<in> set (gb_matches ?g)" by simp
  have "repeats ?pl ?g ?p" "repeats ?pl ?g ?q"
    unfolding repeats_def using m sw_plays_in [OF x] ne met by metis+
  from swiss_rematch_only_if_forced [OF g ids this ne] g show ?thesis by blast
qed

text \<open>
  The pairing goes by rank alone: with everybody on the same points, first plays second and
  third plays fourth, not the top against the bottom half of the score group.
\<close>

lemma swiss_pairs_neighbours: "swiss_pairings (\<lambda>i j. False) 4 = [(0, 1), (2, 3)]"
  by code_simp

text \<open>The greedy choice can force a rematch that another pairing of the four would avoid.\<close>

lemma swiss_greedy_not_optimal:
  "swiss_pairings (\<lambda>i j. {i, j} = {2, 3}) 4 = [(0, 1), (2, 3)]"
  by code_simp

end
