(* ===== verification/GroupStage.thy ===== *)
theory GroupStage
  imports BracketGen Errors
begin

text \<open>
  Groups and playoffs (\<open>bracket_generator/groups.rs\<close>): the configuration read from the
  settings column, the snake draft into groups, the cross seeding of the playoffs and the
  group labels.
\<close>

section \<open>Configuration\<close>

datatype GroupStageFormat = RoundRobin | Swiss

datatype PlayoffFormat = SingleElimination | DoubleElimination

record GroupsConfig =
  gc_group_count :: nat
  gc_advance_per_group :: nat
  gc_group_format :: GroupStageFormat
  gc_playoff_format :: PlayoffFormat
  gc_group_match_format :: "MatchFormat option"
  gc_playoff_match_format :: "MatchFormat option"
  gc_playoff_final_format :: "MatchFormat option"
  gc_playoff_grand_final_format :: "MatchFormat option"

text \<open>Two more accessors of the JSON library: a member of an object, and a \<open>u64\<close>.\<close>

record 'j json_get_api = "'j json_api" +
  json_get :: "'j \<Rightarrow> string \<Rightarrow> 'j option"
  as_u64 :: "'j \<Rightarrow> nat option"

definition parse_group_match_format :: "('j, 'm) json_get_api_scheme \<Rightarrow> 'j \<Rightarrow> string \<Rightarrow>
    DomainError + MatchFormat option" where
  "parse_group_match_format J settings key =
     (case json_get J settings key of
        None \<Rightarrow> Inr None
      | Some v \<Rightarrow>
          if is_null J v then Inr None
          else (case as_str J v of
                  None \<Rightarrow> Inl (InvalidState (key @ '' must be a string''))
                | Some t \<Rightarrow> (case MatchFormat_from_str t of
                      Inl e \<Rightarrow> Inl (InvalidState (key @ '': '' @ e))
                    | Inr f \<Rightarrow> Inr (Some f))))"

definition GroupsConfig_from_format_settings :: "('j, 'm) json_get_api_scheme \<Rightarrow> 'j \<Rightarrow> nat \<Rightarrow>
    DomainError + GroupsConfig" where
  "GroupsConfig_from_format_settings J settings participant_count =
     (let gc = (case Option.bind (json_get J settings ''group_count'') (as_u64 J) of
                  None \<Rightarrow> max (participant_count div 4) 2 | Some v \<Rightarrow> v);
          adv = (case Option.bind (json_get J settings ''advance_per_group'') (as_u64 J) of
                  None \<Rightarrow> 2 | Some v \<Rightarrow> v);
          gf = (case Option.bind (json_get J settings ''group_format'') (as_str J) of
                  None \<Rightarrow> RoundRobin | Some s \<Rightarrow> if s = ''swiss'' then Swiss else RoundRobin);
          pf = (case Option.bind (json_get J settings ''playoff_format'') (as_str J) of
                  None \<Rightarrow> SingleElimination
                | Some s \<Rightarrow> if s = ''double_elimination'' then DoubleElimination else SingleElimination)
      in if gc < 2 then Inl (InvalidState ''Groups + Playoffs requires at least 2 groups'')
         else if adv = 0 then Inl (InvalidState ''advance_per_group must be at least 1'')
         else if gc * adv < 2 then Inl (InvalidState ''Total advancing participants must be at least 2'')
         else case parse_group_match_format J settings ''group_match_format'' of Inl e \<Rightarrow> Inl e | Inr gm \<Rightarrow>
              (case parse_group_match_format J settings ''playoff_match_format'' of Inl e \<Rightarrow> Inl e | Inr pm \<Rightarrow>
              (case parse_group_match_format J settings ''playoff_final_format'' of Inl e \<Rightarrow> Inl e | Inr pff \<Rightarrow>
              (case parse_group_match_format J settings ''playoff_grand_final_format'' of Inl e \<Rightarrow> Inl e | Inr pgf \<Rightarrow>
                Inr \<lparr>gc_group_count = gc, gc_advance_per_group = adv, gc_group_format = gf, gc_playoff_format = pf,
                     gc_group_match_format = gm, gc_playoff_match_format = pm, gc_playoff_final_format = pff,
                     gc_playoff_grand_final_format = pgf\<rparr>))))"

definition GroupsConfig_group_format_plan :: "GroupsConfig \<Rightarrow> MatchFormat \<Rightarrow> MatchFormatPlan" where
  "GroupsConfig_group_format_plan c d =
     MatchFormatPlan_uniform (case gc_group_match_format c of Some f \<Rightarrow> f | None \<Rightarrow> d)"

definition GroupsConfig_playoff_format_plan :: "GroupsConfig \<Rightarrow> MatchFormat \<Rightarrow> MatchFormatPlan" where
  "GroupsConfig_playoff_format_plan c d =
     \<lparr>plan_default = (case gc_playoff_match_format c of Some f \<Rightarrow> f | None \<Rightarrow> d), round_formats = [],
      final_format = gc_playoff_final_format c, grand_final_format = gc_playoff_grand_final_format c\<rparr>"

section \<open>The snake draft\<close>

definition snake_group :: "nat \<Rightarrow> nat \<Rightarrow> nat" where
  "snake_group group_count i =
     (let row = i div group_count; col = i mod group_count
      in if row mod 2 = 0 then col else group_count - 1 - col)"

definition distribute_into_groups :: "SeededParticipant list \<Rightarrow> nat \<Rightarrow> DomainError + SeededParticipant list list" where
  "distribute_into_groups participants group_count =
     (let n = length participants
      in if n < 2 then Inl InsufficientParticipants
         else if group_count < 2 then Inl (InvalidState ''Need at least 2 groups'')
         else if group_count > n
           then Inl (InvalidState (''Cannot create '' @ show_nat group_count @ '' groups from '' @
                  show_nat n @ '' participants''))
         else Inr (foldl (\<lambda>groups (i, p). let g = snake_group group_count i in groups[g := groups ! g @ [p]])
                (replicate group_count []) (enumerate 0 participants)))"

definition cross_seed_for_playoffs :: "SeededParticipant list list \<Rightarrow> nat \<Rightarrow> SeededParticipant list" where
  "cross_seed_for_playoffs group_standings advance =
     (let playoff = concat (map (\<lambda>position. concat (map (\<lambda>group.
            case list_get group position of None \<Rightarrow> [] | Some p \<Rightarrow> [p]) group_standings)) [0..<advance])
      in map (\<lambda>(i, p). p\<lparr>sp_seed := int (i + 1)\<rparr>) (enumerate 0 playoff))"

fun group_label :: "nat \<Rightarrow> string" where
  "group_label index =
     (if index < 26 then [char_of (65 + index)]
      else group_label (index div 26 - 1) @ [char_of (65 + index mod 26)])"

declare group_label.simps [simp del]

section \<open>The draft is balanced\<close>

lemma snake_fold:
  assumes "\<forall>i. snake_group k i < k" and "length gs = k"
  shows "length (foldl (\<lambda>groups (i, p). let g = snake_group k i in groups[g := groups ! g @ [p]]) gs (enumerate n ps)) = k
    \<and> (\<forall>g < k. foldl (\<lambda>groups (i, p). let g = snake_group k i in groups[g := groups ! g @ [p]]) gs (enumerate n ps) ! g =
        gs ! g @ map snd (filter (\<lambda>(i, p). snake_group k i = g) (enumerate n ps)))"
  using assms(2)
proof (induction ps arbitrary: gs n)
  case (Cons p ps)
  then show ?case using assms(1) by (auto simp: Let_def nth_list_update)
qed simp

lemma snake_group_less: "0 < k \<Longrightarrow> snake_group k i < k"
  by (simp add: snake_group_def Let_def)

lemma distribute_shape:
  assumes "distribute_into_groups ps k = Inr gs"
  shows "2 \<le> k \<and> k \<le> length ps \<and> length gs = k \<and>
    (\<forall>g < k. gs ! g = map snd (filter (\<lambda>(i, p). snake_group k i = g) (enumerate 0 ps)))"
proof -
  have k: "2 \<le> k" "k \<le> length ps" and gs: "gs = foldl (\<lambda>groups (i, p). let g = snake_group k i in groups[g := groups ! g @ [p]])
      (replicate k []) (enumerate 0 ps)"
    using assms by (auto simp: distribute_into_groups_def Let_def split: if_splits)
  have "\<forall>i. snake_group k i < k" using k by (simp add: snake_group_less)
  from snake_fold [OF this, of "replicate k []" 0 ps] k show ?thesis unfolding gs by auto
qed

text \<open>Within a row of the draft each group is served exactly once.\<close>

lemma snake_row:
  assumes "0 < k" and "g < k"
  shows "snake_group k i = g \<longleftrightarrow> i mod k = (if (i div k) mod 2 = 0 then g else k - 1 - g)"
proof -
  have "i mod k < k" using assms(1) by simp
  then have "k - 1 - i mod k = g \<longleftrightarrow> i mod k = k - 1 - g" using assms by linarith
  then show ?thesis by (simp add: snake_group_def Let_def)
qed

lemma count_row:
  assumes "0 < k" and "g < k"
  shows "length (filter (\<lambda>i. snake_group k i = g) [k * r..<k * Suc r]) = 1"
proof -
  let ?t = "k * r + (if r mod 2 = 0 then g else k - 1 - g)"
  have t: "k * r \<le> ?t" "?t < k * Suc r" using assms by auto
  have "snake_group k i = g \<longleftrightarrow> i = ?t" if "k * r \<le> i" "i < k * Suc r" for i
  proof -
    define c where "c = i - k * r"
    have c: "i = k * r + c" "c < k" using that by (simp_all add: c_def)
    then have "i div k = r" "i mod k = c" by simp_all
    with c show ?thesis unfolding snake_row [OF assms] by simp
  qed
  then have "filter (\<lambda>i. snake_group k i = g) [k * r..<k * Suc r] = filter (\<lambda>i. i = ?t) [k * r..<k * Suc r]"
    by (intro filter_cong) auto
  moreover have "length (filter (\<lambda>i. i = ?t) xs) = 1" if "distinct xs" "?t \<in> set xs" for xs
    using that by (induction xs) (auto simp: filter_empty_conv)
  ultimately show ?thesis using t by simp
qed

lemma count_partial_row:
  assumes "0 < k" and "g < k" and "j \<le> k"
  shows "length (filter (\<lambda>i. snake_group k i = g) [k * r..<k * r + j]) \<le> 1"
proof -
  have "[k * r..<k * Suc r] = [k * r..<k * r + j] @ [k * r + j..<k * Suc r]"
    using assms(3) upt_add_eq_append [of "k * r" "k * r + j" "k - j"] by (simp add: add.commute)
  then show ?thesis using count_row [OF assms(1,2), of r] by simp
qed

lemma count_snake:
  assumes "0 < k" and "g < k"
  shows "n div k \<le> length (filter (\<lambda>i. snake_group k i = g) [0..<n]) \<and>
    length (filter (\<lambda>i. snake_group k i = g) [0..<n]) \<le> n div k + 1"
proof -
  have full: "length (filter (\<lambda>i. snake_group k i = g) [0..<k * r]) = r" for r
  proof (induction r)
    case (Suc r)
    have "[0..<k * Suc r] = [0..<k * r] @ [k * r..<k * Suc r]"
      using upt_add_eq_append [of 0 "k * r" k] by (simp add: add.commute)
    with Suc count_row [OF assms, of r] show ?case by simp
  qed simp
  have "[0..<n] = [0..<k * (n div k)] @ [k * (n div k)..<k * (n div k) + n mod k]"
    using upt_add_eq_append [of 0 "k * (n div k)" "n mod k"] by simp
  moreover have "n mod k \<le> k" using assms(1) by (simp add: less_imp_le)
  ultimately show ?thesis using full [of "n div k"] count_partial_row [OF assms, of "n mod k" "n div k"] by simp
qed

lemma group_size:
  "length (map snd (filter (\<lambda>(i, p). snake_group k i = g) (enumerate 0 ps))) =
   length (filter (\<lambda>i. snake_group k i = g) [0..<length ps])"
proof -
  have "length (filter (\<lambda>(i, p). snake_group k i = g) (enumerate n ps)) =
      length (filter (\<lambda>i. snake_group k i = g) [n..<n + length ps])" for n
    by (induction ps arbitrary: n) (auto simp: upt_conv_Cons simp del: upt_Suc)
  from this [of 0] show ?thesis by simp
qed

lemma groups_partition:
  assumes "\<forall>x \<in> set xs. f x < k"
  shows "mset (concat (map (\<lambda>g. filter (\<lambda>x. f x = g) xs) [0..<k])) = mset xs"
  using assms
proof (induction xs)
  case (Cons x xs)
  have split: "mset (concat (map (\<lambda>g. filter (\<lambda>y. f y = g) (x # xs)) [0..<j])) =
      mset (concat (map (\<lambda>g. filter (\<lambda>y. f y = g) xs) [0..<j])) + (if f x < j then {# x #} else {#})" for j
    by (induction j) auto
  from Cons split [of k] show ?case by simp
qed (induction k, auto)

section \<open>Cross seeding and labels\<close>

lemma cross_seed_participants:
  "mset (concat (map (\<lambda>position. concat (map (\<lambda>group.
      case list_get group position of None \<Rightarrow> [] | Some p \<Rightarrow> [p]) gs)) [0..<n])) =
   mset (concat (map (take n) gs))"
proof (induction n)
  case (Suc n)
  have row: "mset (concat (map (\<lambda>group. case list_get group n of None \<Rightarrow> [] | Some p \<Rightarrow> [p]) gs)) +
      mset (concat (map (take n) gs)) = mset (concat (map (take (Suc n)) gs))"
    by (induction gs) (auto simp: list_get_def take_Suc_conv_app_nth)
  from Suc row show ?case by (simp add: add.commute)
qed (induction gs, auto)

lemma group_letter_inject: "a < 26 \<Longrightarrow> b < 26 \<Longrightarrow> char_of (65 + a) = char_of (65 + b :: nat) \<longleftrightarrow> a = b"
  by (auto dest!: arg_cong [where f = "of_char :: char \<Rightarrow> nat"])

lemma group_label_not_Nil [simp]: "group_label i \<noteq> []" "[] \<noteq> group_label i"
  by (subst group_label.simps, simp)+

lemma group_label_inject: "group_label i = group_label j \<Longrightarrow> i = j"
proof (induction i arbitrary: j rule: group_label.induct)
  case (1 i)
  show ?case
  proof (cases "i < 26")
    case True
    have "group_label j = [char_of (65 + i)]"
      using "1.prems" True by (subst (asm) group_label.simps) simp
    then show ?thesis
      using True group_label_not_Nil(1)
      by (subst (asm) group_label.simps) (auto simp: group_letter_inject split: if_splits)
  next
    case False
    then have i: "group_label i = group_label (i div 26 - 1) @ [char_of (65 + i mod 26)]"
      by (subst group_label.simps) simp
    have j: "\<not> j < 26"
    proof
      assume "j < 26"
      then have "group_label j = [char_of (65 + j)]" by (subst group_label.simps) simp
      with i "1.prems" show False by simp
    qed
    then have "group_label j = group_label (j div 26 - 1) @ [char_of (65 + j mod 26)]"
      by (subst group_label.simps) simp
    with i "1.prems" have q: "group_label (i div 26 - 1) = group_label (j div 26 - 1)"
      and m: "i mod 26 = j mod 26"
      by (simp_all add: group_letter_inject)
    have "i div 26 - 1 = j div 26 - 1" by (rule "1.IH" [OF False q])
    moreover have "0 < i div 26" "0 < j div 26" using False j by auto
    ultimately have "i div 26 = j div 26" by simp
    with m show ?thesis by (metis div_mult_mod_eq)
  qed
qed

section \<open>Properties\<close>

text \<open>
  C33. The snake draft puts every participant in exactly one group and the group sizes differ
  by at most one; in every full row of the draft each group is served once.
\<close>

theorem groups_are_balanced:
  assumes "distribute_into_groups ps k = Inr gs"
  shows "mset (concat gs) = mset ps \<and> length gs = k \<and>
    (\<forall>g < k. length ps div k \<le> length (gs ! g) \<and> length (gs ! g) \<le> length ps div k + 1) \<and>
    (\<forall>g < k. \<forall>r. length (filter (\<lambda>i. snake_group k i = g) [k * r..<k * Suc r]) = 1)"
proof -
  have k: "0 < k" and len: "length gs = k"
    and nth: "\<forall>g < k. gs ! g = map snd (filter (\<lambda>(i, p). snake_group k i = g) (enumerate 0 ps))"
    using distribute_shape [OF assms] by auto
  then have gs: "gs = map (\<lambda>g. map snd (filter (\<lambda>e. snake_group k (fst e) = g) (enumerate 0 ps))) [0..<k]"
    by (intro nth_equalityI) (auto simp: case_prod_unfold)
  have "mset (concat gs) = image_mset snd (mset (concat (map (\<lambda>g. filter (\<lambda>e. snake_group k (fst e) = g) (enumerate 0 ps)) [0..<k])))"
    unfolding gs by (simp add: map_concat comp_def flip: mset_map)
  also have "\<dots> = image_mset snd (mset (enumerate 0 ps))"
    by (subst groups_partition) (simp_all add: snake_group_less k)
  also have "\<dots> = mset ps" by (simp flip: mset_map)
  finally have "mset (concat gs) = mset ps" .
  moreover have "length ps div k \<le> length (gs ! g) \<and> length (gs ! g) \<le> length ps div k + 1" if g: "g < k" for g
  proof -
    have "length (gs ! g) = length (filter (\<lambda>i. snake_group k i = g) [0..<length ps])"
      using nth g group_size [of k g ps] by simp
    with count_snake [OF k g, of "length ps"] show ?thesis by simp
  qed
  ultimately show ?thesis using len count_row [OF k] by simp
qed

theorem groups_are_balanced_witness:
  "\<exists>gs. distribute_into_groups (map example_participant [1..<8]) 3 = Inr gs \<and>
    mset (concat gs) = mset (map example_participant [1..<8]) \<and> length gs = 3"
proof -
  obtain gs where gs: "distribute_into_groups (map example_participant [1..<8]) 3 = Inr gs"
    by (simp add: distribute_into_groups_def Let_def)
  from groups_are_balanced [OF gs] gs show ?thesis by blast
qed

text \<open>
  C12. The playoff field is the best \<open>advance\<close> of every group, each once, seeded 1, 2, 3 and so
  on; and different groups have different labels.
\<close>

theorem playoff_field:
  "mset (map sp_registration_id (cross_seed_for_playoffs gs advance)) =
     mset (map sp_registration_id (concat (map (take advance) gs)))
   \<and> map sp_seed (cross_seed_for_playoffs gs advance) = map int [1..<length (cross_seed_for_playoffs gs advance) + 1]
   \<and> inj group_label"
proof (intro conjI)
  let ?field = "concat (map (\<lambda>position. concat (map (\<lambda>group.
      case list_get group position of None \<Rightarrow> [] | Some p \<Rightarrow> [p]) gs)) [0..<advance])"
  have eq: "cross_seed_for_playoffs gs advance = map (\<lambda>(i, p). p\<lparr>sp_seed := int (i + 1)\<rparr>) (enumerate 0 ?field)"
    by (simp add: cross_seed_for_playoffs_def Let_def)
  have "map sp_registration_id (cross_seed_for_playoffs gs advance) = map sp_registration_id (map snd (enumerate 0 ?field))"
    unfolding eq by (simp del: map_snd_enumerate add: case_prod_unfold)
  then have "mset (map sp_registration_id (cross_seed_for_playoffs gs advance)) = image_mset sp_registration_id (mset ?field)"
    by (simp only: map_snd_enumerate mset_map)
  then show "mset (map sp_registration_id (cross_seed_for_playoffs gs advance)) =
      mset (map sp_registration_id (concat (map (take advance) gs)))"
    by (simp only: cross_seed_participants mset_map)
  show "map sp_seed (cross_seed_for_playoffs gs advance) = map int [1..<length (cross_seed_for_playoffs gs advance) + 1]"
    unfolding eq by (rule nth_equalityI) (simp_all add: nth_enumerate_eq case_prod_unfold del: upt_Suc)
  show "inj group_label"
    by (rule injI) (rule group_label_inject)
qed

end
