(* ===== verification/DoubleElim.thy ===== *)
theory DoubleElim
  imports SingleElim
begin

text \<open>
  Double elimination (\<open>bracket_generator/double_elimination.rs\<close>): the winners bracket (the
  knockout bracket with \<open>WR\<close> positions), the losers bracket with the sources of its
  participants, the grand final and the links that cross the brackets; and the proof that
  every loser of the winners bracket drops into exactly one slot of the losers bracket.
\<close>

datatype CrossLinkType = LoserDropsTo | WinnerAdvancesTo

record CrossBracketLink =
  cl_source_bracket_position :: string
  cl_target_bracket_position :: string
  cl_link_type :: CrossLinkType

record GeneratedDoubleElimination =
  winners_bracket :: GeneratedBracket
  losers_bracket :: GeneratedBracket
  grand_final_bracket :: GeneratedBracket
  cross_bracket_links :: "CrossBracketLink list"

section \<open>Definitions\<close>

definition lb_matches_in_round :: "nat \<Rightarrow> nat \<Rightarrow> nat" where
  "lb_matches_in_round lb_round wb_rounds =
     (let bracket_size = 2 ^ wb_rounds; wr1_matches = bracket_size div 2
      in if lb_round = 1 then wr1_matches div 2
         else let pair_index = (lb_round - 1) div 2; base = wr1_matches div 2
              in base div 2 ^ pair_index)"

definition lb_participant_sources :: "nat \<Rightarrow> nat \<Rightarrow> nat \<Rightarrow>
    MatchParticipantSource option \<times> MatchParticipantSource option" where
  "lb_participant_sources lb_round match_idx wb_rounds =
     (if lb_round = 1
      then let wr1_matches = 2 ^ wb_rounds div 2
           in (Some (LoserOf (position_text ''WR'' 1 (match_idx + 1))),
               Some (LoserOf (position_text ''WR'' 1 (wr1_matches - 1 - match_idx + 1))))
      else if lb_round mod 2 = 0
      then let prev_lb_round = lb_round - 1;
               wb_source_round = lb_round div 2 + 1;
               wb_matches_in_round = 2 ^ wb_rounds div 2 ^ wb_source_round;
               wb_match_idx = (if wb_matches_in_round = lb_matches_in_round lb_round wb_rounds
                               then wb_matches_in_round - 1 - match_idx else match_idx)
           in (Some (WinnerOf (position_text ''LR'' prev_lb_round (match_idx + 1))),
               Some (LoserOf (position_text ''WR'' wb_source_round (wb_match_idx + 1))))
      else let prev_lb_round = lb_round - 1
           in (Some (WinnerOf (position_text ''LR'' prev_lb_round (match_idx * 2 + 1))),
               Some (WinnerOf (position_text ''LR'' prev_lb_round (match_idx * 2 + 2)))))"

definition cross_seed_wr1_to_lr1 :: "nat \<Rightarrow> nat \<Rightarrow> (nat \<times> nat \<times> nat) list" where
  "cross_seed_wr1_to_lr1 wr1_match_count lr1_match_count =
     concat (map (\<lambda>lr1_idx. [(lr1_idx, lr1_idx, 1), (wr1_match_count - 1 - lr1_idx, lr1_idx, 2)])
       [0..<lr1_match_count])"

definition lb_slots :: "nat \<Rightarrow> (nat \<times> nat) list" where
  "lb_slots wb_rounds =
     concat (map (\<lambda>lb_round. map (Pair lb_round) [0..<lb_matches_in_round lb_round wb_rounds])
       [1..<2 * (wb_rounds - 1) + 1])"

definition lb_match :: "bracket_ctx \<Rightarrow> MatchFormatPlan \<Rightarrow> nat \<Rightarrow> nat \<times> nat \<times> nat \<Rightarrow> CreateTournamentMatch" where
  "lb_match ctx plan wb_rounds = (\<lambda>(match_number, lb_round, match_idx).
     (let (source1, source2) = lb_participant_sources lb_round match_idx wb_rounds
      in new_match ctx (int lb_round) (int match_number) (position_text ''LR'' lb_round (match_idx + 1))
           source1 source2 (MatchFormatPlan_format_for plan (int lb_round) 0)))"

text \<open>The links of the losers: the first round crossed, the later rounds reversed.\<close>

definition drop_link :: "nat \<Rightarrow> nat \<Rightarrow> nat \<Rightarrow> nat \<Rightarrow> CrossBracketLink" where
  "drop_link wb_round wb_idx lb_round lb_idx =
     \<lparr>cl_source_bracket_position = position_text ''WR'' wb_round (wb_idx + 1),
      cl_target_bracket_position = position_text ''LR'' lb_round (lb_idx + 1),
      cl_link_type = LoserDropsTo\<rparr>"

definition first_drop_links :: "nat \<Rightarrow> nat \<Rightarrow> CrossBracketLink list" where
  "first_drop_links bracket_size wb_rounds =
     map (\<lambda>(wr1_idx, lr1_idx, _). drop_link 1 wr1_idx 1 lr1_idx)
       (cross_seed_wr1_to_lr1 (bracket_size div 2) (lb_matches_in_round 1 wb_rounds))"

definition later_drop_links :: "nat \<Rightarrow> nat \<Rightarrow> nat \<Rightarrow> CrossBracketLink list" where
  "later_drop_links bracket_size wb_rounds wb_round =
     (let lb_dropper_round = 2 * (wb_round - 1);
          wb_matches_in_round = bracket_size div 2 ^ wb_round;
          lb_matches_in_dropper = lb_matches_in_round lb_dropper_round wb_rounds
      in map (\<lambda>match_idx. drop_link wb_round match_idx lb_dropper_round
           (if lb_matches_in_dropper = wb_matches_in_round then wb_matches_in_round - 1 - match_idx
            else match_idx)) [0..<wb_matches_in_round])"

definition grand_final_match :: "bracket_ctx \<Rightarrow> MatchFormatPlan \<Rightarrow> nat \<Rightarrow> nat \<Rightarrow> CreateTournamentMatch" where
  "grand_final_match ctx plan wb_rounds lb_rounds =
     new_match ctx 1 1 ''GFM1'' (Some (WinnerOf (position_text ''WR'' wb_rounds 1)))
       (Some (WinnerOf (position_text ''LR'' lb_rounds 1))) (MatchFormatPlan_grand_final plan)"

definition double_elimination :: "uuid \<Rightarrow> uuid \<Rightarrow> uuid \<Rightarrow> uuid \<Rightarrow> uuid \<Rightarrow> MatchFormatPlan \<Rightarrow>
    SeededParticipant list \<Rightarrow> DomainError + GeneratedDoubleElimination" where
  "double_elimination tournament_id stage_id wb_id lb_id gf_id plan participants =
     (let ctx = (\<lambda>b. \<lparr>ctx_tournament_id = tournament_id, ctx_stage_id = stage_id, ctx_bracket_id = b\<rparr>)
      in case knockout ''WR'' False (ctx wb_id) plan participants of
           Inl e \<Rightarrow> Inl e
         | Inr wb \<Rightarrow>
             let bracket_size = next_power_of_two (length participants);
                 wb_rounds = log2_floor bracket_size;
                 lb_rounds = 2 * (wb_rounds - 1)
             in Inr \<lparr>winners_bracket = wb,
                  losers_bracket = \<lparr>gb_total_rounds = int lb_rounds,
                    gb_matches = map (lb_match (ctx lb_id) plan wb_rounds) (enumerate 1 (lb_slots wb_rounds)),
                    gb_initial_assignments = [], gb_byes = []\<rparr>,
                  grand_final_bracket = \<lparr>gb_total_rounds = 1,
                    gb_matches = [grand_final_match (ctx gf_id) plan wb_rounds lb_rounds],
                    gb_initial_assignments = [], gb_byes = []\<rparr>,
                  cross_bracket_links =
                    first_drop_links bracket_size wb_rounds @
                    concat (map (later_drop_links bracket_size wb_rounds) [2..<wb_rounds + 1]) @
                    [\<lparr>cl_source_bracket_position = position_text ''WR'' wb_rounds 1,
                      cl_target_bracket_position = ''GFM1'', cl_link_type = WinnerAdvancesTo\<rparr>,
                     \<lparr>cl_source_bracket_position = position_text ''LR'' lb_rounds 1,
                      cl_target_bracket_position = ''GFM1'', cl_link_type = WinnerAdvancesTo\<rparr>]\<rparr>)"

section \<open>The size of the losers bracket\<close>

lemma lb_matches_pow:
  assumes "1 \<le> r"
  shows "lb_matches_in_round r (Suc (Suc j)) = 2 ^ j div 2 ^ ((r - 1) div 2)"
  using assms by (simp add: lb_matches_in_round_def Let_def)

lemma lb_matches_rounds:
  assumes "p \<le> j"
  shows "lb_matches_in_round (2 * p + 1) (Suc (Suc j)) = 2 ^ (j - p)"
    and "lb_matches_in_round (2 * p + 2) (Suc (Suc j)) = 2 ^ (j - p)"
  using assms by (simp_all add: lb_matches_pow power_diff)

lemma lb_slots_mem:
  "(r, i) \<in> set (lb_slots k) \<longleftrightarrow> 1 \<le> r \<and> r \<le> 2 * (k - 1) \<and> i < lb_matches_in_round r k"
  by (auto simp: lb_slots_def)

lemma distinct_lb_slots: "distinct (lb_slots k)"
  unfolding lb_slots_def by (rule distinct_round_slots) simp

lemma length_lb_slots: "length (lb_slots (Suc (Suc j))) = 2 ^ Suc (Suc j) - 2"
proof -
  have "sum_list (map (\<lambda>r. lb_matches_in_round r (Suc (Suc j))) [1..<2 * p + 1]) = 2 ^ Suc (Suc j) - 2 ^ (Suc (Suc j) - p)"
    if "p \<le> Suc j" for p
    using that
  proof (induction p)
    case (Suc p)
    have "[1..<2 * Suc p + 1] = [1..<2 * p + 1] @ [2 * p + 1, 2 * p + 2]" by (simp add: upt_Suc)
    moreover have "(2::nat) ^ (Suc (Suc j) - p) = 4 * 2 ^ (j - p)" "(2::nat) ^ (Suc (Suc j) - Suc p) = 2 * 2 ^ (j - p)"
      using Suc.prems by (simp_all add: Suc_diff_le)
    moreover have "(2::nat) ^ (Suc (Suc j) - p) \<le> 2 ^ Suc (Suc j)" by (rule power_increasing) simp_all
    ultimately show ?case using Suc lb_matches_rounds [of p j] by (simp del: upt_Suc)
  qed simp
  from this [of "Suc j"] show ?thesis by (simp add: lb_slots_def length_concat comp_def del: upt_Suc)
qed

section \<open>Where the losers go\<close>

definition receives_loser :: "CreateTournamentMatch \<Rightarrow> nat \<Rightarrow> CreateTournamentMatch \<Rightarrow> bool" where
  "receives_loser x slot m \<longleftrightarrow> match_source x slot = Some (LoserOf (c_bracket_position m))"

lemma lb_match_simps [simp]:
  "c_round (lb_match ctx plan k (num, r, i)) = int r"
  "c_bracket_position (lb_match ctx plan k (num, r, i)) = position_text ''LR'' r (i + 1)"
  "c_participant1_source (lb_match ctx plan k (num, r, i)) = fst (lb_participant_sources r i k)"
  "c_participant2_source (lb_match ctx plan k (num, r, i)) = snd (lb_participant_sources r i k)"
  by (simp_all add: lb_match_def Let_def case_prod_unfold)

text \<open>The slot for the loser of the winners match \<open>(r, i)\<close>, for a bracket of \<open>2 ^ (j + 2)\<close> slots.\<close>

definition drop_slot :: "nat \<Rightarrow> nat \<times> nat \<Rightarrow> (nat \<times> nat) \<times> nat" where
  "drop_slot j = (\<lambda>(r, i).
     if r = 1 then (if i < 2 ^ j then ((1, i), 1) else ((1, 2 ^ Suc j - 1 - i), 2))
     else ((2 * (r - 1), 2 ^ (Suc (Suc j) - r) - 1 - i), 2))"

lemma lb_sources_even:
  assumes "1 \<le> p" and "p \<le> Suc j"
  shows "lb_participant_sources (2 * p) i (Suc (Suc j)) =
    (Some (WinnerOf (position_text ''LR'' (2 * p - 1) (i + 1))),
     Some (LoserOf (position_text ''WR'' (p + 1) (2 ^ (Suc j - p) - 1 - i + 1))))"
proof -
  obtain q where q: "p = Suc q" "q \<le> j" using assms by (cases p) auto
  have "lb_matches_in_round (2 * p) (Suc (Suc j)) = 2 ^ (Suc j - p)"
    using lb_matches_rounds(2) [of q j] q by simp
  moreover have "2 ^ Suc (Suc j) div 2 ^ (p + 1) = (2::nat) ^ (Suc j - p)"
    using assms(2) by (simp add: power_diff)
  ultimately show ?thesis using assms(1) by (simp add: lb_participant_sources_def Let_def)
qed

lemma lb_loser_source:
  assumes lb: "(r', i') \<in> set (lb_slots (Suc (Suc j)))" and wb: "1 \<le> r" "r \<le> Suc (Suc j)" "i < 2 ^ (Suc (Suc j) - r)"
  shows "receives_loser (lb_match ctx plan (Suc (Suc j)) (num', r', i')) slot (se_match ''WR'' ctx' plan' order n (num, r, i)) \<longleftrightarrow>
    ((r', i'), slot) = drop_slot j (r, i)"
proof -
  let ?k = "Suc (Suc j)"
  have r': "1 \<le> r'" "r' \<le> 2 * Suc j" "i' < lb_matches_in_round r' ?k" using lb by (auto simp: lb_slots_mem)
  consider "r' = 1" | p where "r' = 2 * p" "1 \<le> p" "p \<le> Suc j" | p where "r' = 2 * p + 1" "1 \<le> p"
  proof (cases "even r'")
    case True
    then obtain p where "r' = 2 * p" by (rule evenE)
    with r' that(2) show ?thesis by auto
  next
    case False
    then obtain p where p: "r' = 2 * p + 1" by (rule oddE)
    show ?thesis
    proof (cases p)
      case 0
      with p show ?thesis by (intro that(1)) simp
    next
      case (Suc q)
      with p show ?thesis by (intro that(3) [of p]) simp_all
    qed
  qed
  then show ?thesis
  proof cases
    case 1
    then have "i' < 2 ^ j" using r'(3) lb_matches_rounds(1) [of 0 j] by simp
    with 1 wb show ?thesis
      by (auto simp: receives_loser_def match_source_def lb_participant_sources_def Let_def drop_slot_def)
  next
    case 2
    then obtain q where q: "p = Suc q" "q \<le> j" by (cases p) auto
    with 2 have "i' < 2 ^ (Suc j - p)" using r'(3) lb_matches_rounds(2) [of q j] by simp
    with 2 wb show ?thesis
      by (auto simp: receives_loser_def match_source_def lb_sources_even drop_slot_def)
  next
    case 3
    then show ?thesis
      by (auto simp: receives_loser_def match_source_def lb_participant_sources_def Let_def drop_slot_def) presburger
  qed
qed

lemma drop_slot_in:
  assumes "1 \<le> r" and "r \<le> Suc (Suc j)" and "i < 2 ^ (Suc (Suc j) - r)"
  shows "fst (drop_slot j (r, i)) \<in> set (lb_slots (Suc (Suc j)))"
proof (cases "r = 1")
  case True
  with assms(3) have "i < 2 ^ Suc j" by simp
  then show ?thesis using True lb_matches_rounds(1) [of 0 j]
    by (cases "i < 2 ^ j") (auto simp: drop_slot_def lb_slots_mem)
next
  case False
  then obtain p where p: "r = Suc (Suc p)" using assms(1) by (metis One_nat_def Suc_le_D not0_implies_Suc)
  then have "p \<le> j" "2 * (r - 1) = 2 * p + 2" using assms(2) by auto
  with p assms(3) lb_matches_rounds(2) [of p j] show ?thesis
    by (simp add: drop_slot_def lb_slots_mem) 
qed

section \<open>Where the winners of the losers bracket go\<close>

definition climb_slot :: "nat \<times> nat \<Rightarrow> (nat \<times> nat) \<times> nat" where
  "climb_slot = (\<lambda>(r, i). if odd r then ((Suc r, i), 1) else ((Suc r, i div 2), i mod 2 + 1))"

lemma lb_winner_source:
  assumes lb: "(r', i') \<in> set (lb_slots (Suc (Suc j)))" and "1 \<le> r"
  shows "receives_winner (lb_match ctx plan (Suc (Suc j)) (num', r', i')) slot (lb_match ctx' plan' k (num, r, i)) \<longleftrightarrow>
    ((r', i'), slot) = climb_slot (r, i)"
proof -
  have r': "1 \<le> r'" "r' \<le> 2 * Suc j" using lb by (auto simp: lb_slots_mem)
  show ?thesis
  proof (cases "even r'")
    case True
    then obtain p where p: "r' = 2 * p" by (rule evenE)
    with r' have "1 \<le> p" "p \<le> Suc j" by auto
    with p assms(2) show ?thesis
      by (auto simp: receives_winner_def match_source_def lb_sources_even climb_slot_def) presburger+
  next
    case False
    then obtain p where p: "r' = 2 * p + 1" by (rule oddE)
    show ?thesis
    proof (cases p)
      case 0
      with p assms(2) show ?thesis
        by (auto simp: receives_winner_def match_source_def lb_participant_sources_def Let_def climb_slot_def)
    next
      case (Suc q)
      with p assms(2) show ?thesis
        by (auto simp: receives_winner_def match_source_def lb_participant_sources_def Let_def climb_slot_def)
           presburger+
    qed
  qed
qed

lemma climb_slot_in:
  assumes "(r, i) \<in> set (lb_slots (Suc (Suc j)))" and "r < 2 * Suc j"
  shows "fst (climb_slot (r, i)) \<in> set (lb_slots (Suc (Suc j)))"
proof (cases "odd r")
  case True
  then obtain p where p: "r = 2 * p + 1" by (rule oddE)
  with assms have "p \<le> j" "i < 2 ^ (j - p)" using lb_matches_rounds(1) [of p j] by (auto simp: lb_slots_mem)
  with p show ?thesis using lb_matches_rounds(2) [of p j] by (simp add: climb_slot_def lb_slots_mem)
next
  case False
  then obtain p where "r = 2 * p" by (auto elim: evenE)
  with assms obtain q where q: "r = 2 * q + 2" "q < j" by (cases p) (auto simp: lb_slots_mem)
  then have "i < 2 ^ (j - q)" using assms(1) lb_matches_rounds(2) [of q j] by (auto simp: lb_slots_mem)
  moreover have "j - q = Suc (j - Suc q)" using q(2) by simp
  ultimately have "i div 2 < 2 ^ (j - Suc q)" by (simp add: less_mult_imp_div_less mult.commute)
  with q show ?thesis using lb_matches_rounds(1) [of "Suc q" j] by (simp add: climb_slot_def lb_slots_mem)
qed

section \<open>The generated brackets\<close>

lemma double_elimination_shape:
  assumes "double_elimination tid sid wid lid gid plan ps = Inr d" and "3 \<le> length ps"
  obtains j wctx lctx where "2 ^ Suc (Suc j) < 2 * length ps" and "next_power_of_two (length ps) = 2 ^ Suc (Suc j)"
    and "knockout ''WR'' False wctx plan ps = Inr (winners_bracket d)"
    and "gb_matches (winners_bracket d) = map (se_match ''WR'' wctx plan (seed_order (Suc (Suc j))) 0)
      (enumerate 1 (se_slots (2 ^ Suc (Suc j)) (Suc (Suc j))))"
    and "gb_matches (losers_bracket d) = map (lb_match lctx plan (Suc (Suc j))) (enumerate 1 (lb_slots (Suc (Suc j))))"
    and "gb_total_rounds (losers_bracket d) = int (2 * Suc j)"
    and "cross_bracket_links d = first_drop_links (2 ^ Suc (Suc j)) (Suc (Suc j)) @
      concat (map (later_drop_links (2 ^ Suc (Suc j)) (Suc (Suc j))) [2..<Suc (Suc j) + 1]) @
      [\<lparr>cl_source_bracket_position = position_text ''WR'' (Suc (Suc j)) 1,
        cl_target_bracket_position = ''GFM1'', cl_link_type = WinnerAdvancesTo\<rparr>,
       \<lparr>cl_source_bracket_position = position_text ''LR'' (2 * Suc j) 1,
        cl_target_bracket_position = ''GFM1'', cl_link_type = WinnerAdvancesTo\<rparr>]"
proof -
  let ?ctx = "\<lambda>b. \<lparr>ctx_tournament_id = tid, ctx_stage_id = sid, ctx_bracket_id = b\<rparr>"
  obtain wb where wb: "knockout ''WR'' False (?ctx wid) plan ps = Inr wb"
    using assms(1) by (auto simp: double_elimination_def split: sum.splits)
  then obtain k where k: "length ps \<le> 2 ^ Suc k" "2 ^ Suc k < 2 * length ps" "next_power_of_two (length ps) = 2 ^ Suc k"
    and ms: "gb_matches wb = map (se_match ''WR'' (?ctx wid) plan (seed_order (Suc k)) (if False then Suc k else 0))
      (enumerate 1 (se_slots (2 ^ Suc k) (Suc k)))"
    by (rule knockout_shape) blast
  have "k \<noteq> 0" using k(1) assms(2) by (intro notI) simp
  then obtain j where j: "k = Suc j" by (cases k) auto
  have log: "log2_floor (next_power_of_two (length ps)) = Suc (Suc j)"
    unfolding k(3) j by (rule log2_floor_pow)
  have d: "d = \<lparr>winners_bracket = wb,
      losers_bracket = \<lparr>gb_total_rounds = int (2 * Suc j),
        gb_matches = map (lb_match (?ctx lid) plan (Suc (Suc j))) (enumerate 1 (lb_slots (Suc (Suc j)))),
        gb_initial_assignments = [], gb_byes = []\<rparr>,
      grand_final_bracket = \<lparr>gb_total_rounds = 1,
        gb_matches = [grand_final_match (?ctx gid) plan (Suc (Suc j)) (2 * Suc j)],
        gb_initial_assignments = [], gb_byes = []\<rparr>,
      cross_bracket_links = first_drop_links (2 ^ Suc (Suc j)) (Suc (Suc j)) @
        concat (map (later_drop_links (2 ^ Suc (Suc j)) (Suc (Suc j))) [2..<Suc (Suc j) + 1]) @
        [\<lparr>cl_source_bracket_position = position_text ''WR'' (Suc (Suc j)) 1,
          cl_target_bracket_position = ''GFM1'', cl_link_type = WinnerAdvancesTo\<rparr>,
         \<lparr>cl_source_bracket_position = position_text ''LR'' (2 * Suc j) 1,
          cl_target_bracket_position = ''GFM1'', cl_link_type = WinnerAdvancesTo\<rparr>]\<rparr>"
    using assms(1) log k(3) wb unfolding double_elimination_def Let_def j
    by (simp del: power_Suc upt_Suc add: eq_commute [of d])
  show ?thesis
    by (rule that [of j "?ctx wid" "?ctx lid"]) (use d k j wb ms in \<open>simp_all del: power_Suc upt_Suc seed_order.simps\<close>)
qed

lemma lb_match_in:
  assumes "x \<in> set (map (lb_match ctx plan k) (enumerate 1 (lb_slots k)))"
  obtains num r i where "(r, i) \<in> set (lb_slots k)" and "x = lb_match ctx plan k (num, r, i)"
  using assms by (auto dest: enumerate_snd_mem)

lemma lb_slot_match:
  assumes "e \<in> set (lb_slots k)"
  shows "\<exists>num. lb_match ctx plan k (num, e) \<in> set (map (lb_match ctx plan k) (enumerate 1 (lb_slots k)))"
proof -
  obtain num where "(num, e) \<in> set (enumerate 1 (lb_slots k))"
    using enumerate_ex_mem [OF assms, of 1] by blast
  then show ?thesis by (intro exI [of _ num]) (simp only: set_map, rule imageI)
qed

lemma lb_positions_distinct:
  "distinct (map c_bracket_position (map (lb_match ctx plan k) (enumerate 1 (lb_slots k))))"
proof -
  have "map c_bracket_position (map (lb_match ctx plan k) (enumerate 1 xs)) =
      map (\<lambda>(r, i). position_text ''LR'' r (i + 1)) xs" for xs
    by (rule nth_equalityI) (simp_all add: nth_enumerate_eq case_prod_unfold lb_match_def Let_def)
  moreover have "inj_on (\<lambda>(r, i). position_text ''LR'' r (i + 1)) A" for A
    by (rule inj_onI) (auto simp: case_prod_unfold prod_eq_iff)
  ultimately show ?thesis by (simp add: distinct_map distinct_lb_slots)
qed

text \<open>A function from the slots of one bracket to those of the losers bracket gives each match one receiver.\<close>

lemma unique_receiver:
  assumes ms: "ms = map (lb_match ctx plan k) (enumerate 1 (lb_slots k))"
    and f: "fst f \<in> set (lb_slots k)"
    and rel: "\<And>num r i slot. (r, i) \<in> set (lb_slots k) \<Longrightarrow> R (lb_match ctx plan k (num, r, i)) slot \<longleftrightarrow> ((r, i), slot) = f"
  shows "\<exists>!(x, slot). x \<in> set ms \<and> R x slot"
proof -
  obtain num where num: "lb_match ctx plan k (num, fst f) \<in> set ms"
    using lb_slot_match [OF f] unfolding ms by blast
  let ?x = "lb_match ctx plan k (num, fst f)"
  have R: "R ?x (snd f)" using rel [of "fst (fst f)" "snd (fst f)" num "snd f"] f by simp
  have uniq: "y = ?x \<and> slot = snd f" if y: "y \<in> set ms" "R y slot" for y slot
  proof -
    obtain num' r i where e: "(r, i) \<in> set (lb_slots k)" "y = lb_match ctx plan k (num', r, i)"
      using y(1) unfolding ms by (rule lb_match_in)
    with rel y(2) have rf: "((r, i), slot) = f" by blast
    then have "c_bracket_position y = c_bracket_position ?x" unfolding e(2) by (auto simp flip: rf)
    with y(1) num lb_positions_distinct [of ctx plan k] have "y = ?x"
      unfolding ms by (metis distinct_map inj_onD)
    with rf show ?thesis by auto
  qed
  have ok: "case (?x, snd f) of (x, slot) \<Rightarrow> x \<in> set ms \<and> R x slot" using num R by (simp only: prod.case)
  show ?thesis
  proof (rule ex1I, rule ok)
    fix p assume "case p of (x, slot) \<Rightarrow> x \<in> set ms \<and> R x slot"
    then show "p = (?x, snd f)" using uniq by (cases p) (simp only: prod.case prod.inject, blast)
  qed
qed

section \<open>Properties\<close>

text \<open>
  C3. With at least three participants, the loser of every match of the winners bracket is
  expected in exactly one slot of the losers bracket, and so is the winner of every match of
  the losers bracket but the last; the brackets have \<open>size - 1\<close>, \<open>size - 2\<close> and one match.
\<close>

theorem double_elimination_second_chance:
  assumes "double_elimination tid sid wid lid gid plan ps = Inr d" and "3 \<le> length ps"
  shows "(\<forall>m \<in> set (gb_matches (winners_bracket d)).
      \<exists>!(x, slot). x \<in> set (gb_matches (losers_bracket d)) \<and> receives_loser x slot m)
    \<and> (\<forall>m \<in> set (gb_matches (losers_bracket d)). c_round m < gb_total_rounds (losers_bracket d) \<longrightarrow>
      (\<exists>!(x, slot). x \<in> set (gb_matches (losers_bracket d)) \<and> receives_winner x slot m))
    \<and> length (gb_matches (winners_bracket d)) = next_power_of_two (length ps) - 1
    \<and> length (gb_matches (losers_bracket d)) = next_power_of_two (length ps) - 2"
proof -
  obtain j wctx lctx where k: "next_power_of_two (length ps) = 2 ^ Suc (Suc j)"
    and ws: "gb_matches (winners_bracket d) = map (se_match ''WR'' wctx plan (seed_order (Suc (Suc j))) 0)
      (enumerate 1 (se_slots (2 ^ Suc (Suc j)) (Suc (Suc j))))"
    and ls: "gb_matches (losers_bracket d) = map (lb_match lctx plan (Suc (Suc j))) (enumerate 1 (lb_slots (Suc (Suc j))))"
    and t: "gb_total_rounds (losers_bracket d) = int (2 * Suc j)"
    using assms by (rule double_elimination_shape)
  have "\<exists>!(x, slot). x \<in> set (gb_matches (losers_bracket d)) \<and> receives_loser x slot m"
    if m: "m \<in> set (gb_matches (winners_bracket d))" for m
  proof -
    obtain num r i where r: "1 \<le> r" "r \<le> Suc (Suc j)" "i < 2 ^ (Suc (Suc j) - r)"
      and m_eq: "m = se_match ''WR'' wctx plan (seed_order (Suc (Suc j))) 0 (num, r, i)"
      using m unfolding ws by (rule se_match_in)
    have rel: "receives_loser (lb_match lctx plan (Suc (Suc j)) (n', r', i')) slot m \<longleftrightarrow> ((r', i'), slot) = drop_slot j (r, i)"
      if "(r', i') \<in> set (lb_slots (Suc (Suc j)))" for n' r' i' slot
      unfolding m_eq by (rule lb_loser_source [OF that r])
    show ?thesis
      by (rule unique_receiver [where R = "\<lambda>x slot. receives_loser x slot m", OF ls drop_slot_in [OF r] rel])
  qed
  moreover have "\<exists>!(x, slot). x \<in> set (gb_matches (losers_bracket d)) \<and> receives_winner x slot m"
    if m: "m \<in> set (gb_matches (losers_bracket d))" and "c_round m < gb_total_rounds (losers_bracket d)" for m
  proof -
    obtain num r i where e: "(r, i) \<in> set (lb_slots (Suc (Suc j)))" and m_eq: "m = lb_match lctx plan (Suc (Suc j)) (num, r, i)"
      using m unfolding ls by (rule lb_match_in)
    have r: "1 \<le> r" "r < 2 * Suc j" using e that(2) t m_eq by (auto simp: lb_slots_mem)
    have rel: "receives_winner (lb_match lctx plan (Suc (Suc j)) (n', r', i')) slot m \<longleftrightarrow> ((r', i'), slot) = climb_slot (r, i)"
      if "(r', i') \<in> set (lb_slots (Suc (Suc j)))" for n' r' i' slot
      unfolding m_eq by (rule lb_winner_source [OF that r(1)])
    show ?thesis
      by (rule unique_receiver [where R = "\<lambda>x slot. receives_winner x slot m", OF ls climb_slot_in [OF e r(2)] rel])
  qed
  moreover have "length (gb_matches (winners_bracket d)) = next_power_of_two (length ps) - 1"
    unfolding k ws using length_se_slots [of "Suc (Suc j)"] by (simp del: power_Suc)
  moreover have "length (gb_matches (losers_bracket d)) = next_power_of_two (length ps) - 2"
    unfolding k ls using length_lb_slots [of j] by (simp del: power_Suc)
  ultimately show ?thesis by (intro conjI ballI impI)
qed

section \<open>The links agree with the sources\<close>

lemma drop_link_inject [simp]:
  "drop_link r i r' i' = drop_link q n q' n' \<longleftrightarrow> r = q \<and> i = n \<and> r' = q' \<and> i' = n'"
  by (auto simp: drop_link_def)

lemma cross_seed_mem:
  "(x, y, z) \<in> set (cross_seed_wr1_to_lr1 a b) \<longleftrightarrow> y < b \<and> (x = y \<and> z = 1 \<or> x = a - 1 - y \<and> z = 2)"
  by (auto simp: cross_seed_wr1_to_lr1_def)

lemma first_drop_links_mem:
  "drop_link r i r' i' \<in> set (first_drop_links (2 ^ Suc (Suc j)) (Suc (Suc j))) \<longleftrightarrow>
     r = 1 \<and> i < 2 ^ Suc j \<and> (r', i') = fst (drop_slot j (1, i))"
proof -
  have "drop_link r i r' i' \<in> set (first_drop_links (2 ^ Suc (Suc j)) (Suc (Suc j))) \<longleftrightarrow>
      r = 1 \<and> r' = 1 \<and> (\<exists>z. (i, i', z) \<in> set (cross_seed_wr1_to_lr1 (2 ^ Suc (Suc j) div 2) (lb_matches_in_round 1 (Suc (Suc j)))))"
    by (force simp: first_drop_links_def)
  also have "\<dots> \<longleftrightarrow> r = 1 \<and> r' = 1 \<and> i' < 2 ^ j \<and> (i = i' \<or> i = 2 * 2 ^ j - 1 - i')"
    using lb_matches_rounds(1) [of 0 j] by (auto simp: cross_seed_mem)
  also have "\<dots> \<longleftrightarrow> r = 1 \<and> i < 2 ^ Suc j \<and> (r', i') = fst (drop_slot j (1, i))"
    by (auto simp: drop_slot_def)
  finally show ?thesis .
qed

lemma later_drop_links_mem:
  assumes "2 \<le> q" and "q \<le> Suc (Suc j)"
  shows "drop_link r i r' i' \<in> set (later_drop_links (2 ^ Suc (Suc j)) (Suc (Suc j)) q) \<longleftrightarrow>
     r = q \<and> i < 2 ^ (Suc (Suc j) - q) \<and> (r', i') = fst (drop_slot j (q, i))"
proof -
  from assms obtain p where p: "q = Suc (Suc p)" "p \<le> j" by (metis Suc_le_D Suc_le_mono numeral_2_eq_2)
  have "2 ^ Suc (Suc j) div 2 ^ q = (2::nat) ^ (Suc (Suc j) - q)" using assms(2) by (simp add: power_diff)
  moreover have "lb_matches_in_round (2 * (q - 1)) (Suc (Suc j)) = 2 ^ (Suc (Suc j) - q)"
    using lb_matches_rounds(2) [of p j] p by simp
  ultimately show ?thesis using assms(1) by (auto simp: later_drop_links_def Let_def drop_slot_def)
qed

definition all_drop_links :: "nat \<Rightarrow> CrossBracketLink list" where
  "all_drop_links k = first_drop_links (2 ^ k) k @ concat (map (later_drop_links (2 ^ k) k) [2..<k + 1])"

lemma all_drop_links_mem:
  "drop_link r i r' i' \<in> set (all_drop_links (Suc (Suc j))) \<longleftrightarrow>
     1 \<le> r \<and> r \<le> Suc (Suc j) \<and> i < 2 ^ (Suc (Suc j) - r) \<and> (r', i') = fst (drop_slot j (r, i))"
proof -
  have "drop_link r i r' i' \<in> set (concat (map (later_drop_links (2 ^ Suc (Suc j)) (Suc (Suc j))) [2..<Suc (Suc j) + 1])) \<longleftrightarrow>
      (\<exists>q. 2 \<le> q \<and> q \<le> Suc (Suc j) \<and> drop_link r i r' i' \<in> set (later_drop_links (2 ^ Suc (Suc j)) (Suc (Suc j)) q))"
    by (auto simp del: power_Suc upt_Suc)
  also have "\<dots> \<longleftrightarrow> (\<exists>q. 2 \<le> q \<and> q \<le> Suc (Suc j) \<and> (r = q \<and> i < 2 ^ (Suc (Suc j) - q) \<and> (r', i') = fst (drop_slot j (q, i))))"
    using later_drop_links_mem by (intro ex_cong1 conj_cong refl)
  finally have later: "drop_link r i r' i' \<in> set (concat (map (later_drop_links (2 ^ Suc (Suc j)) (Suc (Suc j))) [2..<Suc (Suc j) + 1])) \<longleftrightarrow>
      2 \<le> r \<and> r \<le> Suc (Suc j) \<and> i < 2 ^ (Suc (Suc j) - r) \<and> (r', i') = fst (drop_slot j (r, i))" by blast
  show ?thesis
  proof (cases "r = 1")
    case True
    then show ?thesis unfolding all_drop_links_def set_append Un_iff first_drop_links_mem later by auto
  next
    case False
    then have "1 \<le> r \<longleftrightarrow> 2 \<le> r" by auto
    with False show ?thesis unfolding all_drop_links_def set_append Un_iff first_drop_links_mem later by blast
  qed
qed

lemma drop_links_all:
  assumes "l \<in> set (all_drop_links k)"
  obtains r i r' i' where "l = drop_link r i r' i'"
  using assms that by (auto simp: all_drop_links_def first_drop_links_def later_drop_links_def Let_def simp del: upt_Suc)

text \<open>
  C18. With at least three participants the links that carry the losers across are exactly the
  ones the sources of the losers bracket ask for: a winners match and a losers match are linked
  if and only if a slot of the losers match expects the loser of the winners match.
\<close>

theorem double_elimination_links_agree:
  assumes "double_elimination tid sid wid lid gid plan ps = Inr d" and "3 \<le> length ps"
  shows "set (filter (\<lambda>l. cl_link_type l = LoserDropsTo) (cross_bracket_links d)) =
    {\<lparr>cl_source_bracket_position = c_bracket_position m, cl_target_bracket_position = c_bracket_position x,
      cl_link_type = LoserDropsTo\<rparr> | m x slot.
      m \<in> set (gb_matches (winners_bracket d)) \<and> x \<in> set (gb_matches (losers_bracket d)) \<and> receives_loser x slot m}"
    (is "?L = ?R")
proof -
  obtain j wctx lctx where
    ws: "gb_matches (winners_bracket d) = map (se_match ''WR'' wctx plan (seed_order (Suc (Suc j))) 0)
      (enumerate 1 (se_slots (2 ^ Suc (Suc j)) (Suc (Suc j))))"
    and ls: "gb_matches (losers_bracket d) = map (lb_match lctx plan (Suc (Suc j))) (enumerate 1 (lb_slots (Suc (Suc j))))"
    and lk: "cross_bracket_links d = first_drop_links (2 ^ Suc (Suc j)) (Suc (Suc j)) @
      concat (map (later_drop_links (2 ^ Suc (Suc j)) (Suc (Suc j))) [2..<Suc (Suc j) + 1]) @
      [\<lparr>cl_source_bracket_position = position_text ''WR'' (Suc (Suc j)) 1,
        cl_target_bracket_position = ''GFM1'', cl_link_type = WinnerAdvancesTo\<rparr>,
       \<lparr>cl_source_bracket_position = position_text ''LR'' (2 * Suc j) 1,
        cl_target_bracket_position = ''GFM1'', cl_link_type = WinnerAdvancesTo\<rparr>]"
    using assms by (rule double_elimination_shape)
  let ?k = "Suc (Suc j)"
  have type: "cl_link_type l = LoserDropsTo" if "l \<in> set (all_drop_links ?k)" for l
    using that by (rule drop_links_all) (simp add: drop_link_def)
  have "cross_bracket_links d = all_drop_links ?k @ drop (length (all_drop_links ?k)) (cross_bracket_links d)"
    unfolding lk all_drop_links_def by simp
  have L: "?L = set (all_drop_links ?k)"
    unfolding lk append_assoc [symmetric] all_drop_links_def [symmetric]
    using type by (auto simp only: set_append set_filter Un_iff list.set CrossBracketLink.simps CrossLinkType.distinct)
  show ?thesis
  proof (rule set_eqI, rule iffI)
    fix l assume "l \<in> ?L"
    then have l: "l \<in> set (all_drop_links ?k)" unfolding L .
    then obtain r i r' i' where eq: "l = drop_link r i r' i'" by (rule drop_links_all)
    from l have r: "1 \<le> r" "r \<le> ?k" "i < 2 ^ (?k - r)" and drop: "(r', i') = fst (drop_slot j (r, i))"
      unfolding eq all_drop_links_mem by blast+
    have lb: "(r', i') \<in> set (lb_slots ?k)" unfolding drop using r by (rule drop_slot_in)
    obtain n where m: "se_match ''WR'' wctx plan (seed_order ?k) 0 (n, r, i) \<in> set (gb_matches (winners_bracket d))"
      unfolding ws using se_slot_match [OF r] by blast
    obtain n' where x: "lb_match lctx plan ?k (n', r', i') \<in> set (gb_matches (losers_bracket d))"
      unfolding ls using lb_slot_match [OF lb] by blast
    have "receives_loser (lb_match lctx plan ?k (n', r', i')) (snd (drop_slot j (r, i)))
        (se_match ''WR'' wctx plan (seed_order ?k) 0 (n, r, i))"
      unfolding lb_loser_source [OF lb r] by (simp add: drop)
    with m x show "l \<in> ?R" unfolding eq drop_link_def by force
  next
    fix l assume "l \<in> ?R"
    then obtain m x slot where l: "l = \<lparr>cl_source_bracket_position = c_bracket_position m,
        cl_target_bracket_position = c_bracket_position x, cl_link_type = LoserDropsTo\<rparr>"
      and m: "m \<in> set (gb_matches (winners_bracket d))" and x: "x \<in> set (gb_matches (losers_bracket d))"
      and rec: "receives_loser x slot m" by blast
    obtain n r i where r: "1 \<le> r" "r \<le> ?k" "i < 2 ^ (?k - r)" and m_eq: "m = se_match ''WR'' wctx plan (seed_order ?k) 0 (n, r, i)"
      using m unfolding ws by (rule se_match_in)
    obtain n' r' i' where lb: "(r', i') \<in> set (lb_slots ?k)" and x_eq: "x = lb_match lctx plan ?k (n', r', i')"
      using x unfolding ls by (rule lb_match_in)
    have "((r', i'), slot) = drop_slot j (r, i)" using rec unfolding m_eq x_eq lb_loser_source [OF lb r] .
    then have "(r', i') = fst (drop_slot j (r, i))" by (metis fst_conv)
    with r have "drop_link r i r' i' \<in> set (all_drop_links ?k)" unfolding all_drop_links_mem by blast
    then show "l \<in> ?L" unfolding L l m_eq x_eq by (simp add: drop_link_def)
  qed
qed

text \<open>
  C37. With exactly two participants the losers bracket is empty, nobody expects or links the
  loser of the only winners match, and the grand final waits for the winner of \<open>LR0M1\<close>, a
  match that is in none of the generated brackets.
\<close>

theorem double_elimination_two_is_stuck:
  "\<exists>d m. double_elimination tid sid wid lid gid plan [p, q] = Inr d \<and>
     gb_matches (losers_bracket d) = [] \<and> gb_matches (grand_final_bracket d) = [m] \<and>
     c_participant2_source m = Some (WinnerOf ''LR0M1'') \<and>
     ''LR0M1'' \<notin> c_bracket_position ` set (gb_matches (winners_bracket d) @ gb_matches (losers_bracket d) @ gb_matches (grand_final_bracket d)) \<and>
     filter (\<lambda>l. cl_link_type l = LoserDropsTo) (cross_bracket_links d) = []"
proof -
  obtain wb where wb: "knockout ''WR'' False \<lparr>ctx_tournament_id = tid, ctx_stage_id = sid, ctx_bracket_id = wid\<rparr> plan [p, q] = Inr wb"
    by (auto simp: knockout_def Let_def)
  then obtain k where k: "(2::nat) ^ Suc k < 2 * 2" "next_power_of_two 2 = 2 ^ Suc k"
    and ms: "gb_matches wb = map (se_match ''WR'' \<lparr>ctx_tournament_id = tid, ctx_stage_id = sid, ctx_bracket_id = wid\<rparr> plan
      (seed_order (Suc k)) (if False then Suc k else 0)) (enumerate 1 (se_slots (2 ^ Suc k) (Suc k)))"
    by (rule knockout_shape) (simp add: numeral_2_eq_2)
  have "k = 0" using k(1) by (cases k) simp_all
  with k have n: "next_power_of_two (length [p, q]) = 2" and log: "log2_floor 2 = 1"
    using log2_floor_pow [of 1] by (simp_all flip: numeral_2_eq_2)
  have "c_bracket_position ` set (gb_matches wb) = {position_text ''WR'' 1 1}"
    unfolding ms \<open>k = 0\<close> by (simp add: se_slots_def se_match_def Let_def case_prod_unfold)
  then show ?thesis
    unfolding double_elimination_def Let_def wb sum.case n log
    by (simp add: lb_slots_def grand_final_match_def first_drop_links_def cross_seed_wr1_to_lr1_def
      lb_matches_in_round_def position_text_def show_nat.simps digit_char_def char_of_def bit_0)
qed

lemma double_elimination_ok:
  assumes "2 \<le> length ps"
  shows "\<exists>d. double_elimination tid sid wid lid gid plan ps = Inr d"
proof -
  obtain wb where "knockout ''WR'' False \<lparr>ctx_tournament_id = tid, ctx_stage_id = sid, ctx_bracket_id = wid\<rparr> plan ps = Inr wb"
    using assms by (auto simp: knockout_def Let_def)
  then show ?thesis by (simp add: double_elimination_def Let_def)
qed

section \<open>Witnesses\<close>

theorem double_elimination_second_chance_witness:
  "\<exists>d m. double_elimination ''t'' ''s'' ''w'' ''l'' ''g'' example_plan (map example_participant [1..<7]) = Inr d \<and>
     length (gb_matches (losers_bracket d)) = next_power_of_two 6 - 2 \<and>
     m \<in> set (gb_matches (winners_bracket d)) \<and>
     (\<exists>!(x, slot). x \<in> set (gb_matches (losers_bracket d)) \<and> receives_loser x slot m)"
proof -
  let ?ps = "map example_participant [1..<7]"
  have n: "length ?ps = 6" by simp
  then have le: "3 \<le> length ?ps" by simp
  then have "2 \<le> length ?ps" by linarith
  then obtain d where d: "double_elimination ''t'' ''s'' ''w'' ''l'' ''g'' example_plan ?ps = Inr d"
    using double_elimination_ok by blast
  note * = double_elimination_second_chance [OF d le, unfolded n]
  obtain k where "next_power_of_two (length ?ps) = 2 ^ Suc (Suc k)" using d le by (rule double_elimination_shape)
  moreover have "(2::nat) ^ 1 < 2 ^ Suc (Suc k)" by (rule power_strict_increasing) simp_all
  ultimately have "2 < next_power_of_two 6" unfolding n by (simp only: power_one_right)
  then have "0 < length (gb_matches (winners_bracket d))" using * [THEN conjunct2, THEN conjunct2, THEN conjunct1] unfolding n by simp
  then obtain m where m: "m \<in> set (gb_matches (winners_bracket d))" by (cases "gb_matches (winners_bracket d)") auto
  show ?thesis
    by (intro exI [of _ d] exI [of _ m] conjI d m * [THEN conjunct2, THEN conjunct2, THEN conjunct2]
      * [THEN conjunct1, THEN bspec, OF m])
qed

theorem double_elimination_links_agree_witness:
  "\<exists>d m x. double_elimination ''t'' ''s'' ''w'' ''l'' ''g'' example_plan (map example_participant [1..<7]) = Inr d \<and>
     \<lparr>cl_source_bracket_position = c_bracket_position m, cl_target_bracket_position = c_bracket_position x,
       cl_link_type = LoserDropsTo\<rparr> \<in> set (cross_bracket_links d) \<and>
     x \<in> set (gb_matches (losers_bracket d)) \<and> m \<in> set (gb_matches (winners_bracket d))"
proof -
  let ?ps = "map example_participant [1..<7]"
  have le: "3 \<le> length ?ps" by simp
  then have "2 \<le> length ?ps" by linarith
  then obtain d where d: "double_elimination ''t'' ''s'' ''w'' ''l'' ''g'' example_plan ?ps = Inr d"
    using double_elimination_ok by blast
  obtain j wctx lctx where
    ws: "gb_matches (winners_bracket d) = map (se_match ''WR'' wctx example_plan (seed_order (Suc (Suc j))) 0)
      (enumerate 1 (se_slots (2 ^ Suc (Suc j)) (Suc (Suc j))))"
    and ls: "gb_matches (losers_bracket d) = map (lb_match lctx example_plan (Suc (Suc j))) (enumerate 1 (lb_slots (Suc (Suc j))))"
    using d le by (rule double_elimination_shape)
  have r: "1 \<le> (1::nat)" "1 \<le> Suc (Suc j)" "0 < (2::nat) ^ (Suc (Suc j) - 1)" by simp_all
  obtain n where m: "se_match ''WR'' wctx example_plan (seed_order (Suc (Suc j))) 0 (n, 1, 0) \<in> set (gb_matches (winners_bracket d))"
    unfolding ws using se_slot_match [OF r] by blast
  have lb: "(1, 0) \<in> set (lb_slots (Suc (Suc j)))" using drop_slot_in [OF r] by (simp add: drop_slot_def)
  obtain n' where x: "lb_match lctx example_plan (Suc (Suc j)) (n', 1, 0) \<in> set (gb_matches (losers_bracket d))"
    unfolding ls using lb_slot_match [OF lb] by blast
  have "receives_loser (lb_match lctx example_plan (Suc (Suc j)) (n', 1, 0)) 1
      (se_match ''WR'' wctx example_plan (seed_order (Suc (Suc j))) 0 (n, 1, 0))"
    unfolding lb_loser_source [OF lb r] by (simp add: drop_slot_def)
  with m x have "\<lparr>cl_source_bracket_position = c_bracket_position (se_match ''WR'' wctx example_plan (seed_order (Suc (Suc j))) 0 (n, 1, 0)),
      cl_target_bracket_position = c_bracket_position (lb_match lctx example_plan (Suc (Suc j)) (n', 1, 0)),
      cl_link_type = LoserDropsTo\<rparr> \<in> set (filter (\<lambda>l. cl_link_type l = LoserDropsTo) (cross_bracket_links d))"
    unfolding double_elimination_links_agree [OF d le] by blast
  then have "\<lparr>cl_source_bracket_position = c_bracket_position (se_match ''WR'' wctx example_plan (seed_order (Suc (Suc j))) 0 (n, 1, 0)),
      cl_target_bracket_position = c_bracket_position (lb_match lctx example_plan (Suc (Suc j)) (n', 1, 0)),
      cl_link_type = LoserDropsTo\<rparr> \<in> set (cross_bracket_links d)" by (simp only: set_filter mem_Collect_eq)
  with d m x show ?thesis by blast
qed

end
