(* ===== verification/Tables.thy ===== *)
theory Tables
  imports Errors
begin

text \<open>
  Tables of rows with a primary key, as the SQL adapters use them: a row by its key, an
  \<open>UPDATE .. WHERE id = .. RETURNING *\<close>, an \<open>INSERT .. RETURNING *\<close>. The locale
  \<open>row_table\<close> is the interface between a table of the world and the programs that use it;
  every table of the world is an instance of it.
\<close>

section \<open>Rows by key\<close>

definition find_row :: "('r \<Rightarrow> 'k) \<Rightarrow> 'k \<Rightarrow> 'r list \<Rightarrow> 'r option" where
  "find_row key k rows = find (\<lambda>r. key r = k) rows"

definition modify_row :: "('r \<Rightarrow> 'k) \<Rightarrow> 'k \<Rightarrow> ('r \<Rightarrow> 'r) \<Rightarrow> 'r list \<Rightarrow> 'r list" where
  "modify_row key k f rows = map (\<lambda>r. if key r = k then f r else r) rows"

definition update_returning :: "('s \<Rightarrow> 'r list) \<Rightarrow> (('r list \<Rightarrow> 'r list) \<Rightarrow> 's \<Rightarrow> 's) \<Rightarrow> ('r \<Rightarrow> 'k) \<Rightarrow>
    ('s \<Rightarrow> 'e) \<Rightarrow> 'k \<Rightarrow> ('r \<Rightarrow> 'r) \<Rightarrow> ('s, 'e, 'r) prog" where
  "update_returning tab upd key missing k f s =
     (case find_row key k (tab s) of
        None \<Rightarrow> (Inl (missing s), s)
      | Some r \<Rightarrow> (Inr (f r), upd (modify_row key k f) s))"

definition insert_returning :: "(('r list \<Rightarrow> 'r list) \<Rightarrow> 's \<Rightarrow> 's) \<Rightarrow> 'r \<Rightarrow> ('s, 'e, 'r) prog" where
  "insert_returning upd r s = (Inr r, upd (\<lambda>rows. rows @ [r]) s)"

lemma find_row_key: "find_row key k rows = Some r \<Longrightarrow> key r = k"
  by (auto simp: find_row_def find_Some_iff)

lemma find_row_mem: "find_row key k rows = Some r \<Longrightarrow> r \<in> set rows"
  by (auto simp: find_row_def find_Some_iff)

lemma find_row_None_iff: "find_row key k rows = None \<longleftrightarrow> k \<notin> key ` set rows"
  by (auto simp: find_row_def find_None_iff)

lemma find_row_Some_iff:
  assumes "distinct (map key rows)"
  shows "find_row key k rows = Some r \<longleftrightarrow> r \<in> set rows \<and> key r = k"
  using assms unfolding find_row_def
  by (induction rows) (auto simp: image_iff)

lemma modify_row_simps [simp]:
  "modify_row key k f [] = []"
  "modify_row key k f (r # rows) = (if key r = k then f r else r) # modify_row key k f rows"
  by (simp_all add: modify_row_def)

lemma find_modify_row:
  assumes "\<And>r. key (f r) = key r"
  shows "find_row key k (modify_row key j f rows) =
    map_option (\<lambda>r. if key r = j then f r else r) (find_row key k rows)"
  using assms by (induction rows) (auto simp: find_row_def)

lemma map_key_modify_row:
  assumes "\<And>r. key (f r) = key r"
  shows "map key (modify_row key j f rows) = map key rows"
  using assms by (induction rows) auto

lemma length_modify_row [simp]: "length (modify_row key j f rows) = length rows"
  by (simp add: modify_row_def)

lemma find_row_append:
  "find_row key k (rows @ rows') = (case find_row key k rows of None \<Rightarrow> find_row key k rows' | Some r \<Rightarrow> Some r)"
  by (induction rows) (auto simp: find_row_def)

lemma filter_modify_row:
  assumes "\<And>r. P (f r) = P r"
  shows "filter P (modify_row key j f rows) = modify_row key j f (filter P rows)"
  using assms by (induction rows) auto

section \<open>Columns and orders\<close>

text \<open>\<open>COALESCE(new, old)\<close> on a nullable column.\<close>

definition coalesce :: "'a option \<Rightarrow> 'a option \<Rightarrow> 'a option" where
  "coalesce x y = (case x of None \<Rightarrow> y | Some a \<Rightarrow> Some a)"

text \<open>\<open>COALESCE(new, old)\<close> on a column that is never null.\<close>

definition or_old :: "'a option \<Rightarrow> 'a \<Rightarrow> 'a" where
  "or_old new old = (case new of None \<Rightarrow> old | Some a \<Rightarrow> a)"

lemma or_old_simps [simp]: "or_old None x = x" "or_old (Some a) x = a"
  by (simp_all add: or_old_def)

text \<open>\<open>ORDER BY\<close>: one key after the other, a nullable key with its nulls at one end.\<close>

definition lex_by :: "('a \<Rightarrow> 'a \<Rightarrow> bool) \<Rightarrow> ('a \<Rightarrow> 'a \<Rightarrow> bool) \<Rightarrow> 'a \<Rightarrow> 'a \<Rightarrow> bool" where
  "lex_by le1 le2 x y \<longleftrightarrow> le1 x y \<and> (le1 y x \<longrightarrow> le2 x y)"

definition nulls_last :: "('a \<Rightarrow> 'a \<Rightarrow> bool) \<Rightarrow> 'a option \<Rightarrow> 'a option \<Rightarrow> bool" where
  "nulls_last le x y = (case (x, y) of (_, None) \<Rightarrow> True | (None, Some _) \<Rightarrow> False | (Some a, Some b) \<Rightarrow> le a b)"

definition nulls_first :: "('a \<Rightarrow> 'a \<Rightarrow> bool) \<Rightarrow> 'a option \<Rightarrow> 'a option \<Rightarrow> bool" where
  "nulls_first le x y = (case (x, y) of (None, _) \<Rightarrow> True | (Some _, None) \<Rightarrow> False | (Some a, Some b) \<Rightarrow> le a b)"

lemma lex_by_linear:
  assumes "\<And>x y. le1 x y \<or> le1 y x" and "\<And>x y. le2 x y \<or> le2 y x"
  shows "lex_by le1 le2 x y \<or> lex_by le1 le2 y x"
  using assms unfolding lex_by_def by blast

lemma lex_by_trans:
  assumes "\<And>x y z. le1 x y \<Longrightarrow> le1 y z \<Longrightarrow> le1 x z" and "\<And>x y z. le2 x y \<Longrightarrow> le2 y z \<Longrightarrow> le2 x z"
    and "lex_by le1 le2 x y" and "lex_by le1 le2 y z"
  shows "lex_by le1 le2 x z"
  using assms(3,4) unfolding lex_by_def by (blast intro: assms(1,2))

lemma nulls_last_linear:
  assumes "\<And>x y. le x y \<or> le y x"
  shows "nulls_last le x y \<or> nulls_last le y x"
  using assms by (auto simp: nulls_last_def split: option.splits)

lemma nulls_last_trans:
  assumes "\<And>x y z. le x y \<Longrightarrow> le y z \<Longrightarrow> le x z" and "nulls_last le x y" and "nulls_last le y z"
  shows "nulls_last le x z"
  using assms(2,3) by (auto simp: nulls_last_def intro: assms(1) split: option.splits)

text \<open>\<open>LIMIT .. OFFSET ..\<close>, and a page with the count of all rows.\<close>

definition page :: "nat \<Rightarrow> nat \<Rightarrow> 'a list \<Rightarrow> 'a list" where
  "page limit offset rows = take limit (drop offset rows)"

definition paged :: "nat \<Rightarrow> nat \<Rightarrow> ('a \<Rightarrow> 'a \<Rightarrow> bool) \<Rightarrow> 'a list \<Rightarrow> 'a list \<times> nat" where
  "paged limit offset le rows = (page limit offset (sort_by le rows), length rows)"

text \<open>A filter that is absent lets every row through.\<close>

definition wanted :: "'a option \<Rightarrow> 'a \<Rightarrow> bool" where
  "wanted f x \<longleftrightarrow> (case f of None \<Rightarrow> True | Some y \<Rightarrow> x = y)"

section \<open>The interface of a table\<close>

locale row_table =
  fixes tab :: "'s \<Rightarrow> 'r list" and upd :: "('r list \<Rightarrow> 'r list) \<Rightarrow> 's \<Rightarrow> 's" and key :: "'r \<Rightarrow> 'k"
  assumes tab_upd [simp]: "tab (upd g s) = g (tab s)"
begin

lemma update_missing:
  assumes "find_row key k (tab s) = None"
  shows "update_returning tab upd key missing k f s = (Inl (missing s), s)"
  using assms by (simp add: update_returning_def)

lemma update_found:
  assumes "find_row key k (tab s) = Some r"
  shows "update_returning tab upd key missing k f s = (Inr (f r), upd (modify_row key k f) s)"
  using assms by (simp add: update_returning_def)

lemma update_okE:
  assumes "update_returning tab upd key missing k f s = (Inr r', t)"
  obtains r where "find_row key k (tab s) = Some r" and "r' = f r" and "t = upd (modify_row key k f) s"
proof (cases "find_row key k (tab s)")
  case None
  with assms show ?thesis by (simp add: update_missing)
next
  case (Some r)
  with assms show ?thesis by (intro that [of r]) (simp_all add: update_found)
qed

lemma update_errE:
  assumes "update_returning tab upd key missing k f s = (Inl e, t)"
  obtains "find_row key k (tab s) = None" and "e = missing s" and "t = s"
proof (cases "find_row key k (tab s)")
  case None
  with assms have "e = missing s" "t = s" by (auto simp: update_missing)
  with None show ?thesis by (rule that)
next
  case (Some r)
  with assms show ?thesis by (simp add: update_found)
qed

lemma find_after_update:
  assumes "\<And>r. key (f r) = key r"
  shows "find_row key j (tab (snd (update_returning tab upd key missing k f s))) =
    map_option (\<lambda>r. if key r = k then f r else r) (find_row key j (tab s))"
proof (cases "find_row key k (tab s)")
  case None
  have "(if key r = k then f r else r) = r" if "find_row key j (tab s) = Some r" for r
    using find_row_mem [OF that] None by (auto simp: find_row_None_iff)
  then show ?thesis unfolding update_missing [OF None]
    by (cases "find_row key j (tab s)") simp_all
next
  case (Some r)
  show ?thesis unfolding update_found [OF Some] by (simp add: find_modify_row [where key = key and f = f, OF assms])
qed

lemma keys_after_update:
  assumes "\<And>r. key (f r) = key r"
  shows "map key (tab (snd (update_returning tab upd key missing k f s))) = map key (tab s)"
  by (cases "find_row key k (tab s)") (simp_all add: update_returning_def map_key_modify_row [where key = key and f = f, OF assms])

lemma find_after_insert:
  assumes "find_row key (key r) (tab s) = None"
  shows "find_row key j (tab (snd (insert_returning upd r s))) =
    (if j = key r then Some r else find_row key j (tab s))"
proof -
  have "find_row key j [r] = (if j = key r then Some r else None)" by (simp add: find_row_def)
  with assms show ?thesis by (auto simp: insert_returning_def find_row_append split: option.splits)
qed

lemma update_update:
  assumes "\<And>r. key (f r) = key r" and "\<And>g h. upd g (upd h s) = upd (g \<circ> h) s"
    and "update_returning tab upd key missing k f s = (Inr r', t)"
  shows "update_returning tab upd key missing k g t = (Inr (g r'), upd (modify_row key k (g \<circ> f)) s)"
proof -
  from assms(3) obtain r where r: "find_row key k (tab s) = Some r" "r' = f r" "t = upd (modify_row key k f) s"
    by (rule update_okE)
  have "find_row key k (tab t) = Some r'"
    using r assms(1) find_row_key [OF r(1)] by (simp add: find_modify_row)
  moreover have "modify_row key k g \<circ> modify_row key k f = modify_row key k (g \<circ> f)"
    using assms(1) by (auto simp: modify_row_def)
  ultimately show ?thesis using r(3) assms(2) by (simp add: update_found)
qed

end

end
