(* ===== verification/Records.thy ===== *)
theory Records
  imports Entities Complex_Main
begin

text \<open>
  The remaining rows and commands of the tournament domain (\<open>entities/tournament.rs\<close>,
  \<open>repositories/tournament.rs\<close>): tournaments, stages, invitations, map pools, standings with
  their head-to-head records, and the data for creating and updating brackets, stages,
  standings and registrations. A JSON column is a value of the type \<open>json\<close>; a 64-bit float
  column is a rational number (the modelled operations only copy them).
\<close>

section \<open>JSON values\<close>

datatype json =
    JNull
  | JBool bool
  | JNum int
  | JStr string
  | JArr "json list"
  | JObj "(string \<times> json) list"

section \<open>Rows\<close>

record Tournament =
  t_id :: uuid
  t_game_id :: uuid
  t_league_id :: "uuid option"
  t_season_id :: "uuid option"
  t_name :: string
  t_slug :: string
  t_description :: "string option"
  t_logo_url :: "string option"
  t_banner_url :: "string option"
  t_format :: TournamentFormat
  t_format_settings :: json
  t_participant_type :: TournamentParticipantType
  t_kind :: TournamentKind
  t_team_size :: "int option"
  t_min_participants :: int
  t_max_participants :: int
  t_registration_type :: RegistrationType
  t_registration_start :: "datetime option"
  t_registration_end :: "datetime option"
  t_check_in_start :: "datetime option"
  t_check_in_end :: "datetime option"
  t_check_in_required :: bool
  t_scheduling_mode :: SchedulingMode
  t_starts_at :: "datetime option"
  t_ends_at :: "datetime option"
  t_timezone_hint :: "string option"
  t_default_match_format :: MatchFormat
  t_default_map_veto_format :: "string option"
  t_prize_pool :: "json option"
  t_rules_url :: "string option"
  t_settings :: json
  t_withdrawal_policy :: WithdrawalPolicy
  t_status :: TournamentStatus
  t_archived_at :: "datetime option"
  t_archived_by :: "uuid option"
  t_created_by :: uuid
  t_organization_id :: "uuid option"
  t_created_at :: datetime
  t_updated_at :: datetime
  t_published_at :: "datetime option"
  t_started_at :: "datetime option"
  t_completed_at :: "datetime option"

record TournamentStage =
  st_id :: uuid
  st_tournament_id :: uuid
  st_name :: string
  st_stage_order :: int
  st_format :: StageFormat
  st_format_settings :: json
  st_advancement_count :: "int option"
  st_advancement_rule :: AdvancementRule
  st_match_format :: "MatchFormat option"
  st_map_veto_format :: "string option"
  st_status :: StageStatus
  st_starts_at :: "datetime option"
  st_ends_at :: "datetime option"
  st_created_at :: datetime
  st_updated_at :: datetime

record TournamentInvitation =
  inv_id :: uuid
  inv_tournament_id :: uuid
  inv_user_id :: "uuid option"
  inv_team_season_id :: "uuid option"
  inv_status :: TournamentInvitationStatus
  inv_message :: "string option"
  inv_invited_by :: uuid
  inv_accepted_at :: "datetime option"
  inv_revoked_at :: "datetime option"
  inv_created_at :: datetime

record TournamentMapPool =
  mp_id :: uuid
  mp_tournament_id :: uuid
  mp_stage_id :: "uuid option"
  mp_maps :: "string list"
  mp_veto_format_id :: "string option"
  mp_created_at :: datetime
  mp_updated_at :: datetime

record HeadToHeadRecord =
  hr_wins :: int
  hr_losses :: int
  hr_draws :: int

text \<open>The records by opponent, the first entry of an opponent counts.\<close>

record HeadToHead =
  h2h_records :: "(uuid \<times> HeadToHeadRecord) list"

record TournamentStanding =
  s_id :: uuid
  s_bracket_id :: uuid
  s_registration_id :: uuid
  s_participant_name :: "string option"
  s_position :: int
  s_matches_played :: int
  s_matches_won :: int
  s_matches_lost :: int
  s_matches_drawn :: int
  s_game_wins :: int
  s_game_losses :: int
  s_game_differential :: int
  s_buchholz_score :: "rat option"
  s_opponent_match_wins :: "rat option"
  s_head_to_head :: HeadToHead
  s_tiebreaker_score :: rat
  s_is_tied :: bool
  s_points :: int
  s_updated_at :: datetime

section \<open>Commands\<close>

record CreateTournamentBracket =
  cb_stage_id :: uuid
  cb_tournament_id :: uuid
  cb_name :: string
  cb_bracket_type :: BracketType
  cb_total_rounds :: int
  cb_group_number :: "int option"

record UpdateTournamentBracket =
  ub_name :: "string option"
  ub_total_rounds :: "int option"
  ub_current_round :: "int option"

record CreateTournamentStage =
  cs_tournament_id :: uuid
  cs_name :: string
  cs_stage_order :: int
  cs_format :: StageFormat
  cs_format_settings :: json
  cs_advancement_count :: "int option"
  cs_advancement_rule :: AdvancementRule
  cs_match_format :: "MatchFormat option"
  cs_map_veto_format :: "string option"
  cs_starts_at :: "datetime option"
  cs_ends_at :: "datetime option"

record UpdateTournamentStage =
  us_name :: "string option"
  us_format_settings :: "json option"
  us_advancement_count :: "int option"
  us_advancement_rule :: "AdvancementRule option"
  us_match_format :: "MatchFormat option"
  us_map_veto_format :: "string option"
  us_starts_at :: "datetime option"
  us_ends_at :: "datetime option"

record CreateTournamentStanding =
  cst_bracket_id :: uuid
  cst_registration_id :: uuid
  cst_position :: int

record CreateTournamentRegistration =
  cr_tournament_id :: uuid
  cr_team_season_id :: "uuid option"
  cr_player_id :: "uuid option"
  cr_adhoc_team_id :: "uuid option"
  cr_participant_name :: string
  cr_participant_logo_url :: "string option"
  cr_registered_by :: uuid
  cr_seed_rating :: "int option"
  cr_status :: TournamentRegistrationStatus

record UpdateTournamentRegistration =
  ur_participant_name :: "string option"
  ur_participant_logo_url :: "string option"
  ur_seed :: "int option"
  ur_seed_rating :: "int option"
  ur_admin_notes :: "string option"

section \<open>Methods\<close>

definition Tournament_is_registration_open :: "datetime \<Rightarrow> Tournament \<Rightarrow> bool" where
  "Tournament_is_registration_open t x \<longleftrightarrow>
     t_archived_at x = None \<and> TournamentStatus_is_registration_open (t_status x) \<and>
     (case t_registration_start x of None \<Rightarrow> True | Some start \<Rightarrow> \<not> t < start) \<and>
     (case t_registration_end x of None \<Rightarrow> True | Some stop \<Rightarrow> \<not> t > stop)"

definition Tournament_is_check_in_open :: "datetime \<Rightarrow> Tournament \<Rightarrow> bool" where
  "Tournament_is_check_in_open t x \<longleftrightarrow> t_check_in_required x \<and>
     (case (t_check_in_start x, t_check_in_end x) of
        (Some start, Some stop) \<Rightarrow> t \<ge> start \<and> t \<le> stop
      | _ \<Rightarrow> False)"

definition Tournament_is_draft :: "Tournament \<Rightarrow> bool" where
  "Tournament_is_draft x \<longleftrightarrow> t_status x = TournamentStatus.Draft"

definition Tournament_is_active :: "Tournament \<Rightarrow> bool" where
  "Tournament_is_active x = TournamentStatus_is_active (t_status x)"

definition Tournament_is_terminal :: "Tournament \<Rightarrow> bool" where
  "Tournament_is_terminal x = TournamentStatus_is_terminal (t_status x)"

definition Tournament_has_started :: "Tournament \<Rightarrow> bool" where
  "Tournament_has_started x \<longleftrightarrow> t_started_at x \<noteq> None"

definition Tournament_is_team_based :: "Tournament \<Rightarrow> bool" where
  "Tournament_is_team_based x \<longleftrightarrow>
     t_participant_type x \<in> {TournamentParticipantType.Team, TournamentParticipantType.AdHoc}"

definition Tournament_is_individual :: "Tournament \<Rightarrow> bool" where
  "Tournament_is_individual x \<longleftrightarrow> t_participant_type x = TournamentParticipantType.Individual"

definition Tournament_is_league_tournament :: "Tournament \<Rightarrow> bool" where
  "Tournament_is_league_tournament x \<longleftrightarrow> t_league_id x \<noteq> None"

definition TournamentStage_is_pending :: "TournamentStage \<Rightarrow> bool" where
  "TournamentStage_is_pending x \<longleftrightarrow> st_status x = StageStatus.Pending"

definition TournamentStage_is_active :: "TournamentStage \<Rightarrow> bool" where
  "TournamentStage_is_active x \<longleftrightarrow> st_status x = StageStatus.Active"

definition TournamentStage_is_complete :: "TournamentStage \<Rightarrow> bool" where
  "TournamentStage_is_complete x \<longleftrightarrow> st_status x = StageStatus.Completed"

definition TournamentStage_is_terminal :: "TournamentStage \<Rightarrow> bool" where
  "TournamentStage_is_terminal x = StageStatus_is_terminal (st_status x)"

definition TournamentStage_effective_match_format :: "TournamentStage \<Rightarrow> MatchFormat \<Rightarrow> MatchFormat" where
  "TournamentStage_effective_match_format x tournament_default =
     (case st_match_format x of None \<Rightarrow> tournament_default | Some f \<Rightarrow> f)"

section \<open>Head-to-head records\<close>

definition HeadToHead_new :: HeadToHead where
  "HeadToHead_new = \<lparr>h2h_records = []\<rparr>"

definition HeadToHead_get :: "HeadToHead \<Rightarrow> uuid \<Rightarrow> HeadToHeadRecord option" where
  "HeadToHead_get h opponent = map_of (h2h_records h) opponent"

text \<open>\<open>entry(opponent).or_default()\<close> with a change of the entry.\<close>

definition h2h_entry :: "(HeadToHeadRecord \<Rightarrow> HeadToHeadRecord) \<Rightarrow> HeadToHead \<Rightarrow> uuid \<Rightarrow> HeadToHead" where
  "h2h_entry f h opponent =
     \<lparr>h2h_records = (opponent, f (case map_of (h2h_records h) opponent of
          None \<Rightarrow> \<lparr>hr_wins = 0, hr_losses = 0, hr_draws = 0\<rparr> | Some r \<Rightarrow> r))
        # filter (\<lambda>(o', _). o' \<noteq> opponent) (h2h_records h)\<rparr>"

definition HeadToHead_record_win :: "HeadToHead \<Rightarrow> uuid \<Rightarrow> HeadToHead" where
  "HeadToHead_record_win h opponent = h2h_entry (\<lambda>r. r\<lparr>hr_wins := hr_wins r + 1\<rparr>) h opponent"

definition HeadToHead_record_loss :: "HeadToHead \<Rightarrow> uuid \<Rightarrow> HeadToHead" where
  "HeadToHead_record_loss h opponent = h2h_entry (\<lambda>r. r\<lparr>hr_losses := hr_losses r + 1\<rparr>) h opponent"

definition HeadToHead_record_draw :: "HeadToHead \<Rightarrow> uuid \<Rightarrow> HeadToHead" where
  "HeadToHead_record_draw h opponent = h2h_entry (\<lambda>r. r\<lparr>hr_draws := hr_draws r + 1\<rparr>) h opponent"

definition TournamentStanding_win_rate :: "TournamentStanding \<Rightarrow> rat option" where
  "TournamentStanding_win_rate s = (if s_matches_played s = 0 then None
     else Some (of_int (s_matches_won s) / of_int (s_matches_played s)))"

definition TournamentStanding_beats_head_to_head :: "TournamentStanding \<Rightarrow> TournamentStanding \<Rightarrow> bool option" where
  "TournamentStanding_beats_head_to_head s other =
     Option.bind (HeadToHead_get (s_head_to_head s) (s_registration_id other)) (\<lambda>r.
       if hr_wins r > hr_losses r then Some True
       else if hr_wins r < hr_losses r then Some False else None)"

lemma h2h_entry_get:
  "HeadToHead_get (h2h_entry f h a) b = (if b = a
     then Some (f (case HeadToHead_get h a of None \<Rightarrow> \<lparr>hr_wins = 0, hr_losses = 0, hr_draws = 0\<rparr> | Some r \<Rightarrow> r))
     else HeadToHead_get h b)"
proof -
  have "map_of (filter (\<lambda>(o', _). o' \<noteq> a) xs) b = map_of xs b" if "b \<noteq> a" for xs :: "(uuid \<times> HeadToHeadRecord) list"
    using that by (induction xs) auto
  then show ?thesis by (simp add: HeadToHead_get_def h2h_entry_def)
qed

end
