(* ===== verification/VetoTypes.thy ===== *)
theory VetoTypes
  imports Records
begin

text \<open>
  The map veto (\<open>portal-core/src/types/veto.rs\<close>, \<open>entities/veto.rs\<close>): action types, side
  selection modes, veto formats with the built-in table, sessions, actions, and the data for
  creating and updating them. \<open>u32\<close> counters are natural numbers. Texts are UTF-8 bytes.
\<close>

section \<open>Enums\<close>

datatype VetoActionType = Ban | Pick | Decider | Random

fun VetoActionType_to_string :: "VetoActionType \<Rightarrow> string" where
  "VetoActionType_to_string VetoActionType.Ban = ''ban''"
| "VetoActionType_to_string VetoActionType.Pick = ''pick''"
| "VetoActionType_to_string VetoActionType.Decider = ''decider''"
| "VetoActionType_to_string VetoActionType.Random = ''random''"

definition VetoActionType_from_str :: "string \<Rightarrow> string + VetoActionType" where
  "VetoActionType_from_str s = (let l = to_lowercase s in
     if l = ''ban'' then Inr VetoActionType.Ban
     else if l = ''pick'' then Inr VetoActionType.Pick
     else if l = ''decider'' then Inr VetoActionType.Decider
     else if l = ''random'' then Inr VetoActionType.Random
     else Inl (''invalid veto action type: '' @ s))"

datatype SideSelectionMode = PickerChoice | CoinFlip | Knife

fun SideSelectionMode_to_string :: "SideSelectionMode \<Rightarrow> string" where
  "SideSelectionMode_to_string SideSelectionMode.PickerChoice = ''picker_choice''"
| "SideSelectionMode_to_string SideSelectionMode.CoinFlip = ''coin_flip''"
| "SideSelectionMode_to_string SideSelectionMode.Knife = ''knife''"

definition SideSelectionMode_from_str :: "string \<Rightarrow> string + SideSelectionMode" where
  "SideSelectionMode_from_str s = (let l = to_lowercase s in
     if l = ''picker_choice'' then Inr SideSelectionMode.PickerChoice
     else if l = ''coin_flip'' then Inr SideSelectionMode.CoinFlip
     else if l = ''knife'' then Inr SideSelectionMode.Knife
     else Inl (''invalid side selection mode: '' @ s))"

definition SideSelectionMode_display_name :: "SideSelectionMode \<Rightarrow> string" where
  "SideSelectionMode_display_name m = (case m of
     SideSelectionMode.PickerChoice \<Rightarrow> ''Picker Chooses Side''
   | SideSelectionMode.CoinFlip \<Rightarrow> ''Coin Flip for Sides''
   | SideSelectionMode.Knife \<Rightarrow> ''Knife Round (In-Game)'')"

datatype VetoStatus = Pending | CoinFlip | InProgress | Completed | Cancelled

fun VetoStatus_to_string :: "VetoStatus \<Rightarrow> string" where
  "VetoStatus_to_string VetoStatus.Pending = ''pending''"
| "VetoStatus_to_string VetoStatus.CoinFlip = ''coin_flip''"
| "VetoStatus_to_string VetoStatus.InProgress = ''in_progress''"
| "VetoStatus_to_string VetoStatus.Completed = ''completed''"
| "VetoStatus_to_string VetoStatus.Cancelled = ''cancelled''"

definition VetoStatus_from_str :: "string \<Rightarrow> string + VetoStatus" where
  "VetoStatus_from_str s = (let l = to_lowercase s in
     if l = ''pending'' then Inr VetoStatus.Pending
     else if l = ''coin_flip'' then Inr VetoStatus.CoinFlip
     else if l = ''in_progress'' then Inr VetoStatus.InProgress
     else if l = ''completed'' then Inr VetoStatus.Completed
     else if l = ''cancelled'' then Inr VetoStatus.Cancelled
     else Inl (''invalid veto status: '' @ s))"

definition VetoStatus_can_start :: "VetoStatus \<Rightarrow> bool" where
  "VetoStatus_can_start s \<longleftrightarrow> s \<in> {VetoStatus.Pending}"

definition VetoStatus_can_act :: "VetoStatus \<Rightarrow> bool" where
  "VetoStatus_can_act s \<longleftrightarrow> s \<in> {VetoStatus.InProgress}"

definition VetoStatus_can_coin_flip :: "VetoStatus \<Rightarrow> bool" where
  "VetoStatus_can_coin_flip s \<longleftrightarrow> s \<in> {VetoStatus.CoinFlip}"

datatype MapVetoStatus = Available | Banned | Picked | Decider

fun MapVetoStatus_to_string :: "MapVetoStatus \<Rightarrow> string" where
  "MapVetoStatus_to_string MapVetoStatus.Available = ''available''"
| "MapVetoStatus_to_string MapVetoStatus.Banned = ''banned''"
| "MapVetoStatus_to_string MapVetoStatus.Picked = ''picked''"
| "MapVetoStatus_to_string MapVetoStatus.Decider = ''decider''"

interpretation veto_action_type: strict_codec VetoActionType_to_string VetoActionType_from_str
proof (rule strict_codecI)
  fix x s
  show "to_lowercase (VetoActionType_to_string x) = VetoActionType_to_string x" by (cases x) simp_all
  show "VetoActionType_from_str s = Inr x \<longleftrightarrow> to_lowercase s = VetoActionType_to_string x"
    by (cases x) (auto simp: VetoActionType_from_str_def Let_def)
qed

interpretation side_selection_mode: strict_codec SideSelectionMode_to_string SideSelectionMode_from_str
proof (rule strict_codecI)
  fix x s
  show "to_lowercase (SideSelectionMode_to_string x) = SideSelectionMode_to_string x" by (cases x) simp_all
  show "SideSelectionMode_from_str s = Inr x \<longleftrightarrow> to_lowercase s = SideSelectionMode_to_string x"
    by (cases x) (auto simp: SideSelectionMode_from_str_def Let_def)
qed

interpretation veto_status: strict_codec VetoStatus_to_string VetoStatus_from_str
proof (rule strict_codecI)
  fix x s
  show "to_lowercase (VetoStatus_to_string x) = VetoStatus_to_string x" by (cases x) simp_all
  show "VetoStatus_from_str s = Inr x \<longleftrightarrow> to_lowercase s = VetoStatus_to_string x"
    by (cases x) (auto simp: VetoStatus_from_str_def Let_def)
qed

section \<open>Formats\<close>

record VetoFormatActionConfig =
  fa_team :: nat
  fa_action_type :: VetoActionType

record VetoFormatConfig =
  vf_id :: string
  vf_display_name :: string
  vf_description :: string
  vf_sequence :: "VetoFormatActionConfig list"
  vf_min_map_pool :: nat

definition VetoFormatConfig_bo1 :: VetoFormatConfig where
  "VetoFormatConfig_bo1 = \<lparr>vf_id = ''bo1_standard'', vf_display_name = ''Best of 1'',
     vf_description = ''6 bans alternating, 1 decider'',
     vf_sequence =
       [\<lparr>fa_team = 1, fa_action_type = VetoActionType.Ban\<rparr>,
        \<lparr>fa_team = 2, fa_action_type = VetoActionType.Ban\<rparr>,
        \<lparr>fa_team = 1, fa_action_type = VetoActionType.Ban\<rparr>,
        \<lparr>fa_team = 2, fa_action_type = VetoActionType.Ban\<rparr>,
        \<lparr>fa_team = 1, fa_action_type = VetoActionType.Ban\<rparr>,
        \<lparr>fa_team = 2, fa_action_type = VetoActionType.Ban\<rparr>,
        \<lparr>fa_team = 0, fa_action_type = VetoActionType.Decider\<rparr>],
     vf_min_map_pool = 7\<rparr>"

definition VetoFormatConfig_bo3 :: VetoFormatConfig where
  "VetoFormatConfig_bo3 = \<lparr>vf_id = ''bo3_standard'', vf_display_name = ''Best of 3'',
     vf_description = ''Ban-Ban-Pick-Pick-Ban-Ban-Decider'',
     vf_sequence =
       [\<lparr>fa_team = 1, fa_action_type = VetoActionType.Ban\<rparr>,
        \<lparr>fa_team = 2, fa_action_type = VetoActionType.Ban\<rparr>,
        \<lparr>fa_team = 1, fa_action_type = VetoActionType.Pick\<rparr>,
        \<lparr>fa_team = 2, fa_action_type = VetoActionType.Pick\<rparr>,
        \<lparr>fa_team = 1, fa_action_type = VetoActionType.Ban\<rparr>,
        \<lparr>fa_team = 2, fa_action_type = VetoActionType.Ban\<rparr>,
        \<lparr>fa_team = 0, fa_action_type = VetoActionType.Decider\<rparr>],
     vf_min_map_pool = 7\<rparr>"

definition VetoFormatConfig_bo5 :: VetoFormatConfig where
  "VetoFormatConfig_bo5 = \<lparr>vf_id = ''bo5_standard'', vf_display_name = ''Best of 5'',
     vf_description = ''Ban-Ban-Pick-Pick-Pick-Pick-Decider'',
     vf_sequence =
       [\<lparr>fa_team = 1, fa_action_type = VetoActionType.Ban\<rparr>,
        \<lparr>fa_team = 2, fa_action_type = VetoActionType.Ban\<rparr>,
        \<lparr>fa_team = 1, fa_action_type = VetoActionType.Pick\<rparr>,
        \<lparr>fa_team = 2, fa_action_type = VetoActionType.Pick\<rparr>,
        \<lparr>fa_team = 1, fa_action_type = VetoActionType.Pick\<rparr>,
        \<lparr>fa_team = 2, fa_action_type = VetoActionType.Pick\<rparr>,
        \<lparr>fa_team = 0, fa_action_type = VetoActionType.Decider\<rparr>],
     vf_min_map_pool = 7\<rparr>"

text \<open>The em dash of two texts, in UTF-8.\<close>

definition em_dash :: string where
  "em_dash = [CHR 0xE2, CHR 0x80, CHR 0x94]"

definition VetoFormatConfig_bo7 :: VetoFormatConfig where
  "VetoFormatConfig_bo7 = \<lparr>vf_id = ''bo7_standard'', vf_display_name = ''Best of 7'',
     vf_description = ''Six alternating picks, decider '' @ em_dash @ '' every map is in play'',
     vf_sequence =
       map (\<lambda>i. \<lparr>fa_team = (if i mod 2 = 0 then 1 else 2), fa_action_type = VetoActionType.Pick\<rparr>) [0..<6] @
       [\<lparr>fa_team = 0, fa_action_type = VetoActionType.Decider\<rparr>],
     vf_min_map_pool = 7\<rparr>"

definition VetoFormatConfig_wheel :: "nat \<Rightarrow> VetoFormatConfig" where
  "VetoFormatConfig_wheel map_count = \<lparr>vf_id = ''wheel_bo'' @ show_nat map_count,
     vf_display_name = ''Wheel '' @ em_dash @ '' Best of '' @ show_nat map_count,
     vf_description = show_nat map_count @ '' map'' @ (if map_count = 1 then [] else ''s'') @
       '' chosen by spinning the wheel'',
     vf_sequence = map (\<lambda>_. \<lparr>fa_team = 0, fa_action_type = VetoActionType.Random\<rparr>) [0..<map_count],
     vf_min_map_pool = map_count\<rparr>"

definition VetoFormatConfig_builtin :: "string \<Rightarrow> VetoFormatConfig option" where
  "VetoFormatConfig_builtin format_id =
     (if format_id = ''bo1_veto'' \<or> format_id = ''bo1_standard'' then Some VetoFormatConfig_bo1
      else if format_id = ''bo3_veto'' \<or> format_id = ''bo3_standard'' then Some VetoFormatConfig_bo3
      else if format_id = ''bo5_veto'' \<or> format_id = ''bo5_standard'' then Some VetoFormatConfig_bo5
      else if format_id = ''bo7_veto'' \<or> format_id = ''bo7_standard'' then Some VetoFormatConfig_bo7
      else if format_id = ''wheel_bo1'' then Some (VetoFormatConfig_wheel 1)
      else if format_id = ''wheel_bo3'' then Some (VetoFormatConfig_wheel 3)
      else if format_id = ''wheel_bo5'' then Some (VetoFormatConfig_wheel 5)
      else None)"

definition VetoFormatConfig_has_team_actions :: "VetoFormatConfig \<Rightarrow> bool" where
  "VetoFormatConfig_has_team_actions f = list_ex (\<lambda>a. fa_team a \<noteq> 0) (vf_sequence f)"

definition VetoFormatConfig_get_action :: "VetoFormatConfig \<Rightarrow> nat \<Rightarrow> VetoFormatActionConfig option" where
  "VetoFormatConfig_get_action f index =
     (if index < length (vf_sequence f) then Some (vf_sequence f ! index) else None)"

definition VetoFormatConfig_action_count :: "VetoFormatConfig \<Rightarrow> nat" where
  "VetoFormatConfig_action_count f = length (vf_sequence f)"

definition VetoFormatConfig_is_complete_at :: "VetoFormatConfig \<Rightarrow> nat \<Rightarrow> bool" where
  "VetoFormatConfig_is_complete_at f action_number \<longleftrightarrow> action_number > length (vf_sequence f)"

definition VetoFormatConfig_pick_count :: "VetoFormatConfig \<Rightarrow> nat" where
  "VetoFormatConfig_pick_count f = length (filter (\<lambda>a. fa_action_type a = VetoActionType.Pick) (vf_sequence f))"

definition VetoFormatConfig_decider_count :: "VetoFormatConfig \<Rightarrow> nat" where
  "VetoFormatConfig_decider_count f = length (filter (\<lambda>a. fa_action_type a = VetoActionType.Decider) (vf_sequence f))"

definition VetoFormatConfig_random_count :: "VetoFormatConfig \<Rightarrow> nat" where
  "VetoFormatConfig_random_count f = length (filter (\<lambda>a. fa_action_type a = VetoActionType.Random) (vf_sequence f))"

definition VetoFormatConfig_maps_selected :: "VetoFormatConfig \<Rightarrow> nat" where
  "VetoFormatConfig_maps_selected f = VetoFormatConfig_pick_count f + VetoFormatConfig_decider_count f +
     VetoFormatConfig_random_count f"

section \<open>Sessions and actions\<close>

record VetoSession =
  vs_id :: uuid
  vs_match_id :: uuid
  vs_veto_format_id :: string
  vs_map_pool :: "string list"
  vs_coin_flip_winner_registration_id :: "uuid option"
  vs_first_action_registration_id :: "uuid option"
  vs_current_action_number :: nat
  vs_current_team_turn :: "uuid option"
  vs_remaining_maps :: "string list"
  vs_selected_maps :: "string list"
  vs_status :: VetoStatus
  vs_action_deadline :: "datetime option"
  vs_timeout_seconds :: nat
  vs_side_selection_mode :: SideSelectionMode
  vs_started_at :: "datetime option"
  vs_completed_at :: "datetime option"
  vs_created_at :: datetime
  vs_updated_at :: datetime

record VetoAction =
  va_id :: uuid
  va_session_id :: uuid
  va_action_number :: nat
  va_action_type :: VetoActionType
  va_map_id :: string
  va_performed_by_registration_id :: "uuid option"
  va_performed_by_user_id :: "uuid option"
  va_side_selection :: "string option"
  va_side_selected_by_registration_id :: "uuid option"
  va_side_selected_at :: "datetime option"
  va_was_auto_action :: bool
  va_auto_action_reason :: "string option"
  va_performed_at :: datetime

record VetoActionResult =
  vr_session :: VetoSession
  vr_action :: VetoAction
  vr_veto_complete :: bool
  vr_next_team :: "uuid option"
  vr_next_action_type :: "VetoActionType option"

record MapStatus =
  ms_map_id :: string
  ms_map_name :: string
  ms_image_url :: "string option"
  ms_status :: MapVetoStatus
  ms_banned_by :: "uuid option"
  ms_picked_by :: "uuid option"
  ms_game_number :: "nat option"

record VetoSessionState =
  vss_session :: VetoSession
  vss_actions :: "VetoAction list"
  vss_format :: VetoFormatConfig
  vss_current_action :: "VetoFormatActionConfig option"
  vss_maps_with_status :: "MapStatus list"

record CreateVetoSession =
  cvs_match_id :: uuid
  cvs_veto_format_id :: string
  cvs_map_pool :: "string list"
  cvs_timeout_seconds :: nat
  cvs_side_selection_mode :: SideSelectionMode

record UpdateVetoSession =
  uvs_first_action_registration_id :: "uuid option"
  uvs_coin_flip_winner_registration_id :: "uuid option"
  uvs_current_action_number :: "nat option"
  uvs_current_team_turn :: "(uuid option) option"
  uvs_remaining_maps :: "(string list) option"
  uvs_selected_maps :: "(string list) option"
  uvs_status :: "VetoStatus option"
  uvs_action_deadline :: "(datetime option) option"
  uvs_started_at :: "datetime option"
  uvs_completed_at :: "datetime option"

record CreateVetoAction =
  cva_session_id :: uuid
  cva_action_number :: nat
  cva_action_type :: VetoActionType
  cva_map_id :: string
  cva_performed_by_registration_id :: "uuid option"
  cva_performed_by_user_id :: "uuid option"
  cva_was_auto_action :: bool
  cva_auto_action_reason :: "string option"

section \<open>Methods\<close>

definition VetoSession_is_pending :: "VetoSession \<Rightarrow> bool" where
  "VetoSession_is_pending s \<longleftrightarrow> vs_status s = VetoStatus.Pending"

definition VetoSession_is_coin_flip :: "VetoSession \<Rightarrow> bool" where
  "VetoSession_is_coin_flip s \<longleftrightarrow> vs_status s = VetoStatus.CoinFlip"

definition VetoSession_is_in_progress :: "VetoSession \<Rightarrow> bool" where
  "VetoSession_is_in_progress s \<longleftrightarrow> vs_status s = VetoStatus.InProgress"

definition VetoSession_is_complete :: "VetoSession \<Rightarrow> bool" where
  "VetoSession_is_complete s \<longleftrightarrow> vs_status s = VetoStatus.Completed"

definition VetoSession_is_cancelled :: "VetoSession \<Rightarrow> bool" where
  "VetoSession_is_cancelled s \<longleftrightarrow> vs_status s = VetoStatus.Cancelled"

definition VetoSession_is_terminal :: "VetoSession \<Rightarrow> bool" where
  "VetoSession_is_terminal s \<longleftrightarrow> vs_status s \<in> {VetoStatus.Completed, VetoStatus.Cancelled}"

definition VetoSession_is_timed_out :: "datetime \<Rightarrow> VetoSession \<Rightarrow> bool" where
  "VetoSession_is_timed_out t s \<longleftrightarrow> (case vs_action_deadline s of None \<Rightarrow> False | Some deadline \<Rightarrow> t > deadline)"

definition VetoSession_is_map_available :: "VetoSession \<Rightarrow> string \<Rightarrow> bool" where
  "VetoSession_is_map_available s map_id \<longleftrightarrow> map_id \<in> set (vs_remaining_maps s)"

definition VetoSession_selected_count :: "VetoSession \<Rightarrow> nat" where
  "VetoSession_selected_count s = length (vs_selected_maps s)"

definition VetoSession_remaining_count :: "VetoSession \<Rightarrow> nat" where
  "VetoSession_remaining_count s = length (vs_remaining_maps s)"

definition VetoAction_is_ban :: "VetoAction \<Rightarrow> bool" where
  "VetoAction_is_ban a \<longleftrightarrow> va_action_type a = VetoActionType.Ban"

definition VetoAction_is_pick :: "VetoAction \<Rightarrow> bool" where
  "VetoAction_is_pick a \<longleftrightarrow> va_action_type a = VetoActionType.Pick"

definition VetoAction_is_decider :: "VetoAction \<Rightarrow> bool" where
  "VetoAction_is_decider a \<longleftrightarrow> va_action_type a = VetoActionType.Decider"

definition VetoAction_is_random :: "VetoAction \<Rightarrow> bool" where
  "VetoAction_is_random a \<longleftrightarrow> va_action_type a = VetoActionType.Random"

definition VetoAction_needs_side_selection :: "VetoAction \<Rightarrow> bool" where
  "VetoAction_needs_side_selection a \<longleftrightarrow> va_action_type a = VetoActionType.Pick \<and> va_side_selection a = None"

definition VetoAction_has_side_selection :: "VetoAction \<Rightarrow> bool" where
  "VetoAction_has_side_selection a \<longleftrightarrow> va_side_selection a \<noteq> None"

lemmas veto_methods = VetoSession_is_pending_def VetoSession_is_coin_flip_def VetoSession_is_in_progress_def
  VetoSession_is_complete_def VetoSession_is_cancelled_def VetoSession_is_terminal_def VetoSession_is_timed_out_def
  VetoSession_is_map_available_def VetoAction_is_ban_def VetoAction_is_pick_def VetoAction_is_decider_def
  VetoAction_is_random_def VetoAction_has_side_selection_def VetoStatus_can_start_def VetoStatus_can_act_def
  VetoStatus_can_coin_flip_def

lemmas veto_formats = VetoFormatConfig_bo1_def VetoFormatConfig_bo3_def VetoFormatConfig_bo5_def
  VetoFormatConfig_bo7_def VetoFormatConfig_wheel_def

lemma get_action_Some [simp]:
  "VetoFormatConfig_get_action f i = Some a \<longleftrightarrow> i < length (vf_sequence f) \<and> a = vf_sequence f ! i"
  by (auto simp: VetoFormatConfig_get_action_def)

lemma get_action_None [simp]:
  "VetoFormatConfig_get_action f i = None \<longleftrightarrow> length (vf_sequence f) \<le> i"
  by (auto simp: VetoFormatConfig_get_action_def)

end
