(* ===== verification/TeamTypes.thy ===== *)
theory TeamTypes
  imports Codec
begin

text \<open>
  The enums of league teams and seasons (\<open>portal-core/src/types/league_team.rs\<close>): their stored
  texts, parsers, predicates and the transition table of a season.
\<close>

section \<open>Enums\<close>

datatype SeasonStatus = Draft | Registration | Active | Playoffs | Completed | Cancelled

fun SeasonStatus_to_string :: "SeasonStatus \<Rightarrow> string" where
  "SeasonStatus_to_string SeasonStatus.Draft = ''draft''"
| "SeasonStatus_to_string SeasonStatus.Registration = ''registration''"
| "SeasonStatus_to_string SeasonStatus.Active = ''active''"
| "SeasonStatus_to_string SeasonStatus.Playoffs = ''playoffs''"
| "SeasonStatus_to_string SeasonStatus.Completed = ''completed''"
| "SeasonStatus_to_string SeasonStatus.Cancelled = ''cancelled''"

definition SeasonStatus_from_str :: "string \<Rightarrow> string + SeasonStatus" where
  "SeasonStatus_from_str s = (let l = to_lowercase s in
     if l = ''draft'' then Inr SeasonStatus.Draft
     else if l = ''registration'' then Inr SeasonStatus.Registration
     else if l = ''active'' then Inr SeasonStatus.Active
     else if l = ''playoffs'' then Inr SeasonStatus.Playoffs
     else if l = ''completed'' then Inr SeasonStatus.Completed
     else if l = ''cancelled'' then Inr SeasonStatus.Cancelled
     else Inl (''invalid season status: '' @ s))"

definition SeasonStatus_is_registration_open :: "SeasonStatus \<Rightarrow> bool" where
  "SeasonStatus_is_registration_open s \<longleftrightarrow> s \<in> {SeasonStatus.Registration}"

definition SeasonStatus_is_active :: "SeasonStatus \<Rightarrow> bool" where
  "SeasonStatus_is_active s \<longleftrightarrow> s \<in> {SeasonStatus.Active, SeasonStatus.Playoffs}"

definition SeasonStatus_is_terminal :: "SeasonStatus \<Rightarrow> bool" where
  "SeasonStatus_is_terminal s \<longleftrightarrow> s \<in> {SeasonStatus.Completed, SeasonStatus.Cancelled}"

fun SeasonStatus_allowed_transitions :: "SeasonStatus \<Rightarrow> SeasonStatus list" where
  "SeasonStatus_allowed_transitions SeasonStatus.Draft = [SeasonStatus.Registration, SeasonStatus.Cancelled]"
| "SeasonStatus_allowed_transitions SeasonStatus.Registration = [SeasonStatus.Active, SeasonStatus.Cancelled]"
| "SeasonStatus_allowed_transitions SeasonStatus.Active = [SeasonStatus.Playoffs, SeasonStatus.Completed, SeasonStatus.Cancelled]"
| "SeasonStatus_allowed_transitions SeasonStatus.Playoffs = [SeasonStatus.Completed, SeasonStatus.Cancelled]"
| "SeasonStatus_allowed_transitions SeasonStatus.Completed = []"
| "SeasonStatus_allowed_transitions SeasonStatus.Cancelled = []"

datatype RosterLockStatus = Open | SoftLock | HardLock

fun RosterLockStatus_to_string :: "RosterLockStatus \<Rightarrow> string" where
  "RosterLockStatus_to_string RosterLockStatus.Open = ''open''"
| "RosterLockStatus_to_string RosterLockStatus.SoftLock = ''soft_lock''"
| "RosterLockStatus_to_string RosterLockStatus.HardLock = ''hard_lock''"

definition RosterLockStatus_from_str :: "string \<Rightarrow> string + RosterLockStatus" where
  "RosterLockStatus_from_str s = (let l = to_lowercase s in
     if l = ''open'' then Inr RosterLockStatus.Open
     else if l = ''soft_lock'' then Inr RosterLockStatus.SoftLock
     else if l = ''hard_lock'' then Inr RosterLockStatus.HardLock
     else Inl (''invalid roster lock status: '' @ s))"

definition RosterLockStatus_allows_primary_changes :: "RosterLockStatus \<Rightarrow> bool" where
  "RosterLockStatus_allows_primary_changes s \<longleftrightarrow> s \<in> {RosterLockStatus.Open}"

definition RosterLockStatus_allows_substitute_changes :: "RosterLockStatus \<Rightarrow> bool" where
  "RosterLockStatus_allows_substitute_changes s \<longleftrightarrow> s \<in> {RosterLockStatus.Open, RosterLockStatus.SoftLock}"

definition RosterLockStatus_allows_any_changes :: "RosterLockStatus \<Rightarrow> bool" where
  "RosterLockStatus_allows_any_changes s \<longleftrightarrow> s \<notin> {RosterLockStatus.HardLock}"

datatype LeagueTeamStatus = Active | Inactive | Disbanded

fun LeagueTeamStatus_to_string :: "LeagueTeamStatus \<Rightarrow> string" where
  "LeagueTeamStatus_to_string LeagueTeamStatus.Active = ''active''"
| "LeagueTeamStatus_to_string LeagueTeamStatus.Inactive = ''inactive''"
| "LeagueTeamStatus_to_string LeagueTeamStatus.Disbanded = ''disbanded''"

definition LeagueTeamStatus_from_str :: "string \<Rightarrow> string + LeagueTeamStatus" where
  "LeagueTeamStatus_from_str s = (let l = to_lowercase s in
     if l = ''active'' then Inr LeagueTeamStatus.Active
     else if l = ''inactive'' then Inr LeagueTeamStatus.Inactive
     else if l = ''disbanded'' then Inr LeagueTeamStatus.Disbanded
     else Inl (''invalid league team status: '' @ s))"

definition LeagueTeamStatus_can_participate :: "LeagueTeamStatus \<Rightarrow> bool" where
  "LeagueTeamStatus_can_participate s \<longleftrightarrow> s \<in> {LeagueTeamStatus.Active}"

definition LeagueTeamStatus_is_terminal :: "LeagueTeamStatus \<Rightarrow> bool" where
  "LeagueTeamStatus_is_terminal s \<longleftrightarrow> s \<in> {LeagueTeamStatus.Disbanded}"

datatype LeagueTeamSeasonStatus = Forming | Pending | Registered | Active | Eliminated | Disqualified | Withdrawn

fun LeagueTeamSeasonStatus_to_string :: "LeagueTeamSeasonStatus \<Rightarrow> string" where
  "LeagueTeamSeasonStatus_to_string LeagueTeamSeasonStatus.Forming = ''forming''"
| "LeagueTeamSeasonStatus_to_string LeagueTeamSeasonStatus.Pending = ''pending''"
| "LeagueTeamSeasonStatus_to_string LeagueTeamSeasonStatus.Registered = ''registered''"
| "LeagueTeamSeasonStatus_to_string LeagueTeamSeasonStatus.Active = ''active''"
| "LeagueTeamSeasonStatus_to_string LeagueTeamSeasonStatus.Eliminated = ''eliminated''"
| "LeagueTeamSeasonStatus_to_string LeagueTeamSeasonStatus.Disqualified = ''disqualified''"
| "LeagueTeamSeasonStatus_to_string LeagueTeamSeasonStatus.Withdrawn = ''withdrawn''"

definition LeagueTeamSeasonStatus_from_str :: "string \<Rightarrow> string + LeagueTeamSeasonStatus" where
  "LeagueTeamSeasonStatus_from_str s = (let l = to_lowercase s in
     if l = ''forming'' then Inr LeagueTeamSeasonStatus.Forming
     else if l = ''pending'' then Inr LeagueTeamSeasonStatus.Pending
     else if l = ''registered'' then Inr LeagueTeamSeasonStatus.Registered
     else if l = ''active'' then Inr LeagueTeamSeasonStatus.Active
     else if l = ''eliminated'' then Inr LeagueTeamSeasonStatus.Eliminated
     else if l = ''disqualified'' then Inr LeagueTeamSeasonStatus.Disqualified
     else if l = ''withdrawn'' then Inr LeagueTeamSeasonStatus.Withdrawn
     else Inl (''invalid league team season status: '' @ s))"

definition LeagueTeamSeasonStatus_can_compete :: "LeagueTeamSeasonStatus \<Rightarrow> bool" where
  "LeagueTeamSeasonStatus_can_compete s \<longleftrightarrow> s \<in> {LeagueTeamSeasonStatus.Registered, LeagueTeamSeasonStatus.Active}"

definition LeagueTeamSeasonStatus_can_modify_roster :: "LeagueTeamSeasonStatus \<Rightarrow> bool" where
  "LeagueTeamSeasonStatus_can_modify_roster s \<longleftrightarrow> s \<in> {LeagueTeamSeasonStatus.Forming, LeagueTeamSeasonStatus.Pending, LeagueTeamSeasonStatus.Registered, LeagueTeamSeasonStatus.Active}"

definition LeagueTeamSeasonStatus_is_terminal :: "LeagueTeamSeasonStatus \<Rightarrow> bool" where
  "LeagueTeamSeasonStatus_is_terminal s \<longleftrightarrow> s \<in> {LeagueTeamSeasonStatus.Eliminated, LeagueTeamSeasonStatus.Disqualified, LeagueTeamSeasonStatus.Withdrawn}"

datatype LeagueTeamRole = Captain | Player | Substitute

fun LeagueTeamRole_to_string :: "LeagueTeamRole \<Rightarrow> string" where
  "LeagueTeamRole_to_string LeagueTeamRole.Captain = ''captain''"
| "LeagueTeamRole_to_string LeagueTeamRole.Player = ''player''"
| "LeagueTeamRole_to_string LeagueTeamRole.Substitute = ''substitute''"

definition LeagueTeamRole_from_str :: "string \<Rightarrow> string + LeagueTeamRole" where
  "LeagueTeamRole_from_str s = (let l = to_lowercase s in
     if l = ''captain'' then Inr LeagueTeamRole.Captain
     else if l = ''player'' then Inr LeagueTeamRole.Player
     else if l = ''substitute'' then Inr LeagueTeamRole.Substitute
     else Inl (''invalid league team role: '' @ s))"

definition LeagueTeamRole_is_primary :: "LeagueTeamRole \<Rightarrow> bool" where
  "LeagueTeamRole_is_primary s \<longleftrightarrow> s \<in> {LeagueTeamRole.Captain, LeagueTeamRole.Player}"

definition LeagueTeamRole_can_manage_roster :: "LeagueTeamRole \<Rightarrow> bool" where
  "LeagueTeamRole_can_manage_roster s \<longleftrightarrow> s \<in> {LeagueTeamRole.Captain}"

datatype LeagueTeamMemberStatus = Active | Inactive | Left | Removed

fun LeagueTeamMemberStatus_to_string :: "LeagueTeamMemberStatus \<Rightarrow> string" where
  "LeagueTeamMemberStatus_to_string LeagueTeamMemberStatus.Active = ''active''"
| "LeagueTeamMemberStatus_to_string LeagueTeamMemberStatus.Inactive = ''inactive''"
| "LeagueTeamMemberStatus_to_string LeagueTeamMemberStatus.Left = ''left''"
| "LeagueTeamMemberStatus_to_string LeagueTeamMemberStatus.Removed = ''removed''"

definition LeagueTeamMemberStatus_from_str :: "string \<Rightarrow> string + LeagueTeamMemberStatus" where
  "LeagueTeamMemberStatus_from_str s = (let l = to_lowercase s in
     if l = ''active'' then Inr LeagueTeamMemberStatus.Active
     else if l = ''inactive'' then Inr LeagueTeamMemberStatus.Inactive
     else if l = ''left'' then Inr LeagueTeamMemberStatus.Left
     else if l = ''removed'' then Inr LeagueTeamMemberStatus.Removed
     else Inl (''invalid league team member status: '' @ s))"

definition LeagueTeamMemberStatus_is_active :: "LeagueTeamMemberStatus \<Rightarrow> bool" where
  "LeagueTeamMemberStatus_is_active s \<longleftrightarrow> s \<in> {LeagueTeamMemberStatus.Active}"

definition LeagueTeamMemberStatus_can_rejoin :: "LeagueTeamMemberStatus \<Rightarrow> bool" where
  "LeagueTeamMemberStatus_can_rejoin s \<longleftrightarrow> s \<in> {LeagueTeamMemberStatus.Inactive, LeagueTeamMemberStatus.Left}"

datatype LeagueTeamInvitationType = Invite | Request

fun LeagueTeamInvitationType_to_string :: "LeagueTeamInvitationType \<Rightarrow> string" where
  "LeagueTeamInvitationType_to_string LeagueTeamInvitationType.Invite = ''invite''"
| "LeagueTeamInvitationType_to_string LeagueTeamInvitationType.Request = ''request''"

definition LeagueTeamInvitationType_from_str :: "string \<Rightarrow> string + LeagueTeamInvitationType" where
  "LeagueTeamInvitationType_from_str s = (let l = to_lowercase s in
     if l = ''invite'' then Inr LeagueTeamInvitationType.Invite
     else if l = ''request'' then Inr LeagueTeamInvitationType.Request
     else Inl (''invalid league team invitation type: '' @ s))"

datatype LeagueTeamInvitationStatus = Pending | Accepted | Declined | Expired | Cancelled

fun LeagueTeamInvitationStatus_to_string :: "LeagueTeamInvitationStatus \<Rightarrow> string" where
  "LeagueTeamInvitationStatus_to_string LeagueTeamInvitationStatus.Pending = ''pending''"
| "LeagueTeamInvitationStatus_to_string LeagueTeamInvitationStatus.Accepted = ''accepted''"
| "LeagueTeamInvitationStatus_to_string LeagueTeamInvitationStatus.Declined = ''declined''"
| "LeagueTeamInvitationStatus_to_string LeagueTeamInvitationStatus.Expired = ''expired''"
| "LeagueTeamInvitationStatus_to_string LeagueTeamInvitationStatus.Cancelled = ''cancelled''"

definition LeagueTeamInvitationStatus_from_str :: "string \<Rightarrow> string + LeagueTeamInvitationStatus" where
  "LeagueTeamInvitationStatus_from_str s = (let l = to_lowercase s in
     if l = ''pending'' then Inr LeagueTeamInvitationStatus.Pending
     else if l = ''accepted'' then Inr LeagueTeamInvitationStatus.Accepted
     else if l = ''declined'' then Inr LeagueTeamInvitationStatus.Declined
     else if l = ''expired'' then Inr LeagueTeamInvitationStatus.Expired
     else if l = ''cancelled'' then Inr LeagueTeamInvitationStatus.Cancelled
     else Inl (''invalid league team invitation status: '' @ s))"

definition LeagueTeamInvitationStatus_is_actionable :: "LeagueTeamInvitationStatus \<Rightarrow> bool" where
  "LeagueTeamInvitationStatus_is_actionable s \<longleftrightarrow> s \<in> {LeagueTeamInvitationStatus.Pending}"

definition LeagueTeamInvitationStatus_is_terminal :: "LeagueTeamInvitationStatus \<Rightarrow> bool" where
  "LeagueTeamInvitationStatus_is_terminal s \<longleftrightarrow> s \<notin> {LeagueTeamInvitationStatus.Pending}"

section \<open>Text codecs\<close>

interpretation season_status: strict_codec SeasonStatus_to_string SeasonStatus_from_str
proof (rule strict_codecI)
  fix x s
  show "to_lowercase (SeasonStatus_to_string x) = SeasonStatus_to_string x" by (cases x) simp_all
  show "SeasonStatus_from_str s = Inr x \<longleftrightarrow> to_lowercase s = SeasonStatus_to_string x"
    by (cases x) (auto simp: SeasonStatus_from_str_def Let_def)
qed

interpretation roster_lock_status: strict_codec RosterLockStatus_to_string RosterLockStatus_from_str
proof (rule strict_codecI)
  fix x s
  show "to_lowercase (RosterLockStatus_to_string x) = RosterLockStatus_to_string x" by (cases x) simp_all
  show "RosterLockStatus_from_str s = Inr x \<longleftrightarrow> to_lowercase s = RosterLockStatus_to_string x"
    by (cases x) (auto simp: RosterLockStatus_from_str_def Let_def)
qed

interpretation league_team_status: strict_codec LeagueTeamStatus_to_string LeagueTeamStatus_from_str
proof (rule strict_codecI)
  fix x s
  show "to_lowercase (LeagueTeamStatus_to_string x) = LeagueTeamStatus_to_string x" by (cases x) simp_all
  show "LeagueTeamStatus_from_str s = Inr x \<longleftrightarrow> to_lowercase s = LeagueTeamStatus_to_string x"
    by (cases x) (auto simp: LeagueTeamStatus_from_str_def Let_def)
qed

interpretation league_team_season_status: strict_codec LeagueTeamSeasonStatus_to_string LeagueTeamSeasonStatus_from_str
proof (rule strict_codecI)
  fix x s
  show "to_lowercase (LeagueTeamSeasonStatus_to_string x) = LeagueTeamSeasonStatus_to_string x" by (cases x) simp_all
  show "LeagueTeamSeasonStatus_from_str s = Inr x \<longleftrightarrow> to_lowercase s = LeagueTeamSeasonStatus_to_string x"
    by (cases x) (auto simp: LeagueTeamSeasonStatus_from_str_def Let_def)
qed

interpretation league_team_role: strict_codec LeagueTeamRole_to_string LeagueTeamRole_from_str
proof (rule strict_codecI)
  fix x s
  show "to_lowercase (LeagueTeamRole_to_string x) = LeagueTeamRole_to_string x" by (cases x) simp_all
  show "LeagueTeamRole_from_str s = Inr x \<longleftrightarrow> to_lowercase s = LeagueTeamRole_to_string x"
    by (cases x) (auto simp: LeagueTeamRole_from_str_def Let_def)
qed

interpretation league_team_member_status: strict_codec LeagueTeamMemberStatus_to_string LeagueTeamMemberStatus_from_str
proof (rule strict_codecI)
  fix x s
  show "to_lowercase (LeagueTeamMemberStatus_to_string x) = LeagueTeamMemberStatus_to_string x" by (cases x) simp_all
  show "LeagueTeamMemberStatus_from_str s = Inr x \<longleftrightarrow> to_lowercase s = LeagueTeamMemberStatus_to_string x"
    by (cases x) (auto simp: LeagueTeamMemberStatus_from_str_def Let_def)
qed

interpretation league_team_invitation_type: strict_codec LeagueTeamInvitationType_to_string LeagueTeamInvitationType_from_str
proof (rule strict_codecI)
  fix x s
  show "to_lowercase (LeagueTeamInvitationType_to_string x) = LeagueTeamInvitationType_to_string x" by (cases x) simp_all
  show "LeagueTeamInvitationType_from_str s = Inr x \<longleftrightarrow> to_lowercase s = LeagueTeamInvitationType_to_string x"
    by (cases x) (auto simp: LeagueTeamInvitationType_from_str_def Let_def)
qed

interpretation league_team_invitation_status: strict_codec LeagueTeamInvitationStatus_to_string LeagueTeamInvitationStatus_from_str
proof (rule strict_codecI)
  fix x s
  show "to_lowercase (LeagueTeamInvitationStatus_to_string x) = LeagueTeamInvitationStatus_to_string x" by (cases x) simp_all
  show "LeagueTeamInvitationStatus_from_str s = Inr x \<longleftrightarrow> to_lowercase s = LeagueTeamInvitationStatus_to_string x"
    by (cases x) (auto simp: LeagueTeamInvitationStatus_from_str_def Let_def)
qed

section \<open>The season's statuses\<close>

fun season_rank :: "SeasonStatus \<Rightarrow> nat" where
  "season_rank SeasonStatus.Draft = 4"
| "season_rank SeasonStatus.Registration = 3"
| "season_rank SeasonStatus.Active = 2"
| "season_rank SeasonStatus.Playoffs = 1"
| "season_rank SeasonStatus.Completed = 0"
| "season_rank SeasonStatus.Cancelled = 0"

interpretation season_machine: ranked_machine
  SeasonStatus_allowed_transitions SeasonStatus_is_terminal season_rank
proof
  fix s t
  show "SeasonStatus_is_terminal s \<longleftrightarrow> SeasonStatus_allowed_transitions s = []"
    by (cases s) (simp_all add: SeasonStatus_is_terminal_def)
  show "t \<in> set (SeasonStatus_allowed_transitions s) \<Longrightarrow> season_rank t < season_rank s"
    by (cases s) auto
qed

end
