(* ===== verification/TeamRecords.thy ===== *)
theory TeamRecords
  imports Records TeamTypes
begin

text \<open>
  Members of the seasonal rosters of league teams (\<open>entities/league_team.rs\<close>), and the ad-hoc
  teams of a pick-up game (\<open>entities/pug.rs\<close>) with their members.
\<close>

record LeagueTeamMember =
  lm_id :: uuid
  lm_team_season_id :: uuid
  lm_player_id :: uuid
  lm_season_id :: uuid
  lm_role :: LeagueTeamRole
  lm_position :: "string option"
  lm_jersey_number :: "int option"
  lm_status :: LeagueTeamMemberStatus
  lm_joined_at :: datetime
  lm_left_at :: "datetime option"
  lm_added_by :: "uuid option"

record AddLeagueTeamMember =
  alm_team_season_id :: uuid
  alm_player_id :: uuid
  alm_role :: LeagueTeamRole
  alm_position :: "string option"
  alm_jersey_number :: "int option"
  alm_added_by :: "uuid option"

record AdhocTeam =
  at_id :: uuid
  at_tournament_id :: uuid
  at_name :: string
  at_created_at :: datetime

record AdhocTeamMember =
  am_adhoc_team_id :: uuid
  am_player_id :: uuid
  am_is_captain :: bool

definition LeagueTeamMember_is_active :: "LeagueTeamMember \<Rightarrow> bool" where
  "LeagueTeamMember_is_active m \<longleftrightarrow> LeagueTeamMemberStatus_is_active (lm_status m) \<and> lm_left_at m = None"

definition LeagueTeamMember_is_primary :: "LeagueTeamMember \<Rightarrow> bool" where
  "LeagueTeamMember_is_primary m \<longleftrightarrow> LeagueTeamRole_is_primary (lm_role m)"

definition LeagueTeamMember_is_captain :: "LeagueTeamMember \<Rightarrow> bool" where
  "LeagueTeamMember_is_captain m \<longleftrightarrow> lm_role m = LeagueTeamRole.Captain"

definition LeagueTeamMember_is_substitute :: "LeagueTeamMember \<Rightarrow> bool" where
  "LeagueTeamMember_is_substitute m \<longleftrightarrow> lm_role m = LeagueTeamRole.Substitute"

definition LeagueTeamMember_can_manage_roster :: "LeagueTeamMember \<Rightarrow> bool" where
  "LeagueTeamMember_can_manage_roster m \<longleftrightarrow> LeagueTeamMember_is_active m \<and> LeagueTeamRole_can_manage_roster (lm_role m)"

end
