(* ===== verification/InviteTypes.thy ===== *)
theory InviteTypes
  imports TeamRecords
begin

text \<open>
  The commands and predicates of invitations to a tournament and of map pools
  (\<open>entities/tournament.rs\<close>, \<open>repositories/tournament.rs\<close>), and the records of forfeits (\<open>entities/forfeit.rs\<close>,
  \<open>repositories/forfeit.rs\<close>).
\<close>

section \<open>Invitations and map pools\<close>

record CreateTournamentInvitation =
  cinv_tournament_id :: uuid
  cinv_user_id :: "uuid option"
  cinv_team_season_id :: "uuid option"
  cinv_message :: "string option"
  cinv_invited_by :: uuid

record UpsertTournamentMapPool =
  ump_tournament_id :: uuid
  ump_stage_id :: "uuid option"
  ump_maps :: "string list"
  ump_veto_format_id :: "string option"

definition TournamentInvitation_permits_registration :: "TournamentInvitation \<Rightarrow> bool" where
  "TournamentInvitation_permits_registration i = TournamentInvitationStatus_permits_registration (inv_status i)"

section \<open>Forfeits\<close>

datatype ForfeitType = NoShow | Withdrawal | Disqualification | TechnicalDefault

fun ForfeitType_to_string :: "ForfeitType \<Rightarrow> string" where
  "ForfeitType_to_string ForfeitType.NoShow = ''no_show''"
| "ForfeitType_to_string ForfeitType.Withdrawal = ''withdrawal''"
| "ForfeitType_to_string ForfeitType.Disqualification = ''disqualification''"
| "ForfeitType_to_string ForfeitType.TechnicalDefault = ''technical_default''"

definition ForfeitType_from_str :: "string \<Rightarrow> string + ForfeitType" where
  "ForfeitType_from_str s = (let l = to_lowercase s in
     if l = ''no_show'' then Inr ForfeitType.NoShow
     else if l = ''withdrawal'' then Inr ForfeitType.Withdrawal
     else if l = ''disqualification'' then Inr ForfeitType.Disqualification
     else if l = ''technical_default'' then Inr ForfeitType.TechnicalDefault
     else Inl (''invalid forfeit type: '' @ s))"

definition ForfeitType_eliminates_from_tournament :: "ForfeitType \<Rightarrow> bool" where
  "ForfeitType_eliminates_from_tournament s \<longleftrightarrow> s \<in> {ForfeitType.Withdrawal, ForfeitType.Disqualification}"

definition ForfeitType_default_score :: "ForfeitType \<Rightarrow> MatchFormat \<Rightarrow> int \<times> int" where
  "ForfeitType_default_score f match_format = (MatchFormat_wins_required match_format, 0)"

record ForfeitRecord =
  fr_id :: uuid
  fr_match_id :: uuid
  fr_forfeiting_registration_id :: uuid
  fr_forfeit_type :: ForfeitType
  fr_reason :: "string option"
  fr_triggered_by_user_id :: "uuid option"
  fr_triggered_by_system :: bool
  fr_forfeited_at :: datetime

record CreateForfeitRecord =
  cf_match_id :: uuid
  cf_forfeiting_registration_id :: uuid
  cf_forfeit_type :: ForfeitType
  cf_reason :: "string option"
  cf_triggered_by_user_id :: "uuid option"
  cf_triggered_by_system :: bool

datatype ForfeitTrigger = System string | User uuid | Admin uuid string

definition ForfeitRecord_is_system_triggered :: "ForfeitRecord \<Rightarrow> bool" where
  "ForfeitRecord_is_system_triggered x = fr_triggered_by_system x"

definition ForfeitRecord_is_no_show :: "ForfeitRecord \<Rightarrow> bool" where
  "ForfeitRecord_is_no_show x \<longleftrightarrow> fr_forfeit_type x = ForfeitType.NoShow"

definition ForfeitRecord_is_withdrawal :: "ForfeitRecord \<Rightarrow> bool" where
  "ForfeitRecord_is_withdrawal x \<longleftrightarrow> fr_forfeit_type x = ForfeitType.Withdrawal"

definition ForfeitRecord_is_disqualification :: "ForfeitRecord \<Rightarrow> bool" where
  "ForfeitRecord_is_disqualification x \<longleftrightarrow> fr_forfeit_type x = ForfeitType.Disqualification"

definition ForfeitTrigger_is_system :: "ForfeitTrigger \<Rightarrow> bool" where
  "ForfeitTrigger_is_system x = (case x of ForfeitTrigger.System _ \<Rightarrow> True | _ \<Rightarrow> False)"

definition ForfeitTrigger_user_id :: "ForfeitTrigger \<Rightarrow> uuid option" where
  "ForfeitTrigger_user_id x =
     (case x of ForfeitTrigger.System _ \<Rightarrow> None | ForfeitTrigger.User i \<Rightarrow> Some i | ForfeitTrigger.Admin i _ \<Rightarrow> Some i)"

definition ForfeitTrigger_reason :: "ForfeitTrigger \<Rightarrow> string option" where
  "ForfeitTrigger_reason x =
     (case x of ForfeitTrigger.System r \<Rightarrow> Some r | ForfeitTrigger.Admin _ r \<Rightarrow> Some r | ForfeitTrigger.User _ \<Rightarrow> None)"

record ProcessForfeitCommand =
  pf_match_id :: uuid
  pf_forfeiting_registration_id :: uuid
  pf_forfeit_type :: ForfeitType
  pf_reason :: "string option"
  pf_triggered_by :: ForfeitTrigger

record WithdrawFromTournamentCommand =
  wt_registration_id :: uuid
  wt_reason :: "string option"
  wt_withdrawn_by :: uuid

record DisqualifyCommand =
  dq_registration_id :: uuid
  dq_reason :: string
  dq_disqualified_by :: uuid

record ForfeitResult =
  fres_match_id :: uuid
  fres_forfeit_record :: ForfeitRecord
  fres_winner_registration_id :: "uuid option"
  fres_progression_triggered :: bool

section \<open>Text codec\<close>

interpretation forfeit_type: strict_codec ForfeitType_to_string ForfeitType_from_str
proof (rule strict_codecI)
  fix x s
  show "to_lowercase (ForfeitType_to_string x) = ForfeitType_to_string x" by (cases x) simp_all
  show "ForfeitType_from_str s = Inr x \<longleftrightarrow> to_lowercase s = ForfeitType_to_string x"
    by (cases x) (auto simp: ForfeitType_from_str_def Let_def)
qed

end
