(* ===== verification/PlatformTypes.thy ===== *)
theory PlatformTypes
  imports Codec
begin

text \<open>
  The enums of the platform around the tournaments (\<open>portal-core/src/types\<close>): lineups, pick-up
  games, demos, evidence, game servers and their reservations, entity and match statuses,
  permission scopes. The constructor \<open>None\<close> of the agent's game state is written \<open>None'\<close>.
\<close>

section \<open>Enums\<close>

datatype LineupStatus = Draft | Submitted | Locked

fun LineupStatus_to_string :: "LineupStatus \<Rightarrow> string" where
  "LineupStatus_to_string LineupStatus.Draft = ''draft''"
| "LineupStatus_to_string LineupStatus.Submitted = ''submitted''"
| "LineupStatus_to_string LineupStatus.Locked = ''locked''"

definition LineupStatus_from_str :: "string \<Rightarrow> string + LineupStatus" where
  "LineupStatus_from_str s = (let l = to_lowercase s in
     if l = ''draft'' then Inr LineupStatus.Draft
     else if l = ''submitted'' then Inr LineupStatus.Submitted
     else if l = ''locked'' then Inr LineupStatus.Locked
     else Inl (''invalid lineup status: '' @ s))"

definition LineupStatus_is_editable :: "LineupStatus \<Rightarrow> bool" where
  "LineupStatus_is_editable s \<longleftrightarrow> s \<notin> {LineupStatus.Locked}"

datatype LineupSource = Declared | Demo | Evidence | Admin

fun LineupSource_to_string :: "LineupSource \<Rightarrow> string" where
  "LineupSource_to_string LineupSource.Declared = ''declared''"
| "LineupSource_to_string LineupSource.Demo = ''demo''"
| "LineupSource_to_string LineupSource.Evidence = ''evidence''"
| "LineupSource_to_string LineupSource.Admin = ''admin''"

definition LineupSource_from_str :: "string \<Rightarrow> string + LineupSource" where
  "LineupSource_from_str s = (let l = to_lowercase s in
     if l = ''declared'' then Inr LineupSource.Declared
     else if l = ''demo'' then Inr LineupSource.Demo
     else if l = ''evidence'' then Inr LineupSource.Evidence
     else if l = ''admin'' then Inr LineupSource.Admin
     else Inl (''invalid lineup source: '' @ s))"

definition LineupSource_is_authoritative :: "LineupSource \<Rightarrow> bool" where
  "LineupSource_is_authoritative s \<longleftrightarrow> s \<notin> {LineupSource.Declared}"

datatype ParticipationStatus = Confirmed | NoShow | LeftEarly | Substituted | Removed

fun ParticipationStatus_to_string :: "ParticipationStatus \<Rightarrow> string" where
  "ParticipationStatus_to_string ParticipationStatus.Confirmed = ''confirmed''"
| "ParticipationStatus_to_string ParticipationStatus.NoShow = ''no_show''"
| "ParticipationStatus_to_string ParticipationStatus.LeftEarly = ''left_early''"
| "ParticipationStatus_to_string ParticipationStatus.Substituted = ''substituted''"
| "ParticipationStatus_to_string ParticipationStatus.Removed = ''removed''"

definition ParticipationStatus_from_str :: "string \<Rightarrow> string + ParticipationStatus" where
  "ParticipationStatus_from_str s = (let l = to_lowercase s in
     if l = ''confirmed'' then Inr ParticipationStatus.Confirmed
     else if l = ''no_show'' then Inr ParticipationStatus.NoShow
     else if l = ''left_early'' then Inr ParticipationStatus.LeftEarly
     else if l = ''substituted'' then Inr ParticipationStatus.Substituted
     else if l = ''removed'' then Inr ParticipationStatus.Removed
     else Inl (''invalid participation status: '' @ s))"

datatype PugStatus = Gathering | MapSelection | AwaitingServer | Live | Completed | Cancelled | Expired

fun PugStatus_to_string :: "PugStatus \<Rightarrow> string" where
  "PugStatus_to_string PugStatus.Gathering = ''gathering''"
| "PugStatus_to_string PugStatus.MapSelection = ''map_selection''"
| "PugStatus_to_string PugStatus.AwaitingServer = ''awaiting_server''"
| "PugStatus_to_string PugStatus.Live = ''live''"
| "PugStatus_to_string PugStatus.Completed = ''completed''"
| "PugStatus_to_string PugStatus.Cancelled = ''cancelled''"
| "PugStatus_to_string PugStatus.Expired = ''expired''"

definition PugStatus_from_str :: "string \<Rightarrow> string + PugStatus" where
  "PugStatus_from_str s = (let l = to_lowercase s in
     if l = ''gathering'' then Inr PugStatus.Gathering
     else if l = ''map_selection'' then Inr PugStatus.MapSelection
     else if l = ''awaiting_server'' then Inr PugStatus.AwaitingServer
     else if l = ''live'' then Inr PugStatus.Live
     else if l = ''completed'' then Inr PugStatus.Completed
     else if l = ''cancelled'' then Inr PugStatus.Cancelled
     else if l = ''expired'' then Inr PugStatus.Expired
     else Inl (''invalid pug status: '' @ s))"

definition PugStatus_is_terminal :: "PugStatus \<Rightarrow> bool" where
  "PugStatus_is_terminal s \<longleftrightarrow> s \<in> {PugStatus.Completed, PugStatus.Cancelled, PugStatus.Expired}"

definition PugStatus_is_open :: "PugStatus \<Rightarrow> bool" where
  "PugStatus_is_open s \<longleftrightarrow> s \<in> {PugStatus.Gathering}"

datatype PugMapSelectionMode = Veto | Wheel

fun PugMapSelectionMode_to_string :: "PugMapSelectionMode \<Rightarrow> string" where
  "PugMapSelectionMode_to_string PugMapSelectionMode.Veto = ''veto''"
| "PugMapSelectionMode_to_string PugMapSelectionMode.Wheel = ''wheel''"

definition PugMapSelectionMode_from_str :: "string \<Rightarrow> string + PugMapSelectionMode" where
  "PugMapSelectionMode_from_str s = (let l = to_lowercase s in
     if l = ''veto'' then Inr PugMapSelectionMode.Veto
     else if l = ''wheel'' then Inr PugMapSelectionMode.Wheel
     else Inl (''invalid pug map selection mode: '' @ s))"

datatype DemoCategory = Uncategorized | Pug | League | Scrim | Ignored

fun DemoCategory_to_string :: "DemoCategory \<Rightarrow> string" where
  "DemoCategory_to_string DemoCategory.Uncategorized = ''uncategorized''"
| "DemoCategory_to_string DemoCategory.Pug = ''pug''"
| "DemoCategory_to_string DemoCategory.League = ''league''"
| "DemoCategory_to_string DemoCategory.Scrim = ''scrim''"
| "DemoCategory_to_string DemoCategory.Ignored = ''ignored''"

definition DemoCategory_from_str :: "string \<Rightarrow> string + DemoCategory" where
  "DemoCategory_from_str s = (let l = to_lowercase s in
     if l = ''uncategorized'' then Inr DemoCategory.Uncategorized
     else if l = ''pug'' then Inr DemoCategory.Pug
     else if l = ''league'' then Inr DemoCategory.League
     else if l = ''scrim'' then Inr DemoCategory.Scrim
     else if l = ''ignored'' then Inr DemoCategory.Ignored
     else Inl (''invalid demo category: '' @ s))"

definition DemoCategory_is_competitive :: "DemoCategory \<Rightarrow> bool" where
  "DemoCategory_is_competitive s \<longleftrightarrow> s \<in> {DemoCategory.League}"

definition DemoCategory_is_visible :: "DemoCategory \<Rightarrow> bool" where
  "DemoCategory_is_visible s \<longleftrightarrow> s \<notin> {DemoCategory.Ignored}"

datatype DemoStatus = Pending | Processing | Ready | Failed | Archived

fun DemoStatus_to_string :: "DemoStatus \<Rightarrow> string" where
  "DemoStatus_to_string DemoStatus.Pending = ''pending''"
| "DemoStatus_to_string DemoStatus.Processing = ''processing''"
| "DemoStatus_to_string DemoStatus.Ready = ''ready''"
| "DemoStatus_to_string DemoStatus.Failed = ''failed''"
| "DemoStatus_to_string DemoStatus.Archived = ''archived''"

definition DemoStatus_from_str :: "string \<Rightarrow> string + DemoStatus" where
  "DemoStatus_from_str s = (let l = to_lowercase s in
     if l = ''pending'' then Inr DemoStatus.Pending
     else if l = ''processing'' then Inr DemoStatus.Processing
     else if l = ''ready'' then Inr DemoStatus.Ready
     else if l = ''failed'' then Inr DemoStatus.Failed
     else if l = ''archived'' then Inr DemoStatus.Archived
     else Inl (''invalid demo status: '' @ s))"

definition DemoStatus_has_stats :: "DemoStatus \<Rightarrow> bool" where
  "DemoStatus_has_stats s \<longleftrightarrow> s \<in> {DemoStatus.Ready}"

definition DemoStatus_needs_processing :: "DemoStatus \<Rightarrow> bool" where
  "DemoStatus_needs_processing s \<longleftrightarrow> s \<in> {DemoStatus.Pending}"

definition DemoStatus_is_terminal :: "DemoStatus \<Rightarrow> bool" where
  "DemoStatus_is_terminal s \<longleftrightarrow> s \<in> {DemoStatus.Ready, DemoStatus.Failed, DemoStatus.Archived}"

datatype DemoLinkType = Manual | AutoMatched | Evidence

fun DemoLinkType_to_string :: "DemoLinkType \<Rightarrow> string" where
  "DemoLinkType_to_string DemoLinkType.Manual = ''manual''"
| "DemoLinkType_to_string DemoLinkType.AutoMatched = ''auto_matched''"
| "DemoLinkType_to_string DemoLinkType.Evidence = ''evidence''"

definition DemoLinkType_from_str :: "string \<Rightarrow> string + DemoLinkType" where
  "DemoLinkType_from_str s = (let l = to_lowercase s in
     if l = ''manual'' then Inr DemoLinkType.Manual
     else if l = ''auto_matched'' then Inr DemoLinkType.AutoMatched
     else if l = ''evidence'' then Inr DemoLinkType.Evidence
     else Inl (''invalid demo link type: '' @ s))"

datatype EvidenceType = Demo | Screenshot | Video | Link | ServerLog

fun EvidenceType_to_string :: "EvidenceType \<Rightarrow> string" where
  "EvidenceType_to_string EvidenceType.Demo = ''demo''"
| "EvidenceType_to_string EvidenceType.Screenshot = ''screenshot''"
| "EvidenceType_to_string EvidenceType.Video = ''video''"
| "EvidenceType_to_string EvidenceType.Link = ''link''"
| "EvidenceType_to_string EvidenceType.ServerLog = ''server_log''"

definition EvidenceType_from_str :: "string \<Rightarrow> string + EvidenceType" where
  "EvidenceType_from_str s = (let l = to_lowercase s in
     if l = ''demo'' then Inr EvidenceType.Demo
     else if l = ''screenshot'' then Inr EvidenceType.Screenshot
     else if l = ''video'' then Inr EvidenceType.Video
     else if l = ''link'' then Inr EvidenceType.Link
     else if l = ''server_log'' then Inr EvidenceType.ServerLog
     else Inl (''invalid evidence type: '' @ s))"

datatype GameServerStatus = Offline | Available | Reserved | Configuring | InMatch | BusyExternal | Error

fun GameServerStatus_to_string :: "GameServerStatus \<Rightarrow> string" where
  "GameServerStatus_to_string GameServerStatus.Offline = ''offline''"
| "GameServerStatus_to_string GameServerStatus.Available = ''available''"
| "GameServerStatus_to_string GameServerStatus.Reserved = ''reserved''"
| "GameServerStatus_to_string GameServerStatus.Configuring = ''configuring''"
| "GameServerStatus_to_string GameServerStatus.InMatch = ''in_match''"
| "GameServerStatus_to_string GameServerStatus.BusyExternal = ''busy_external''"
| "GameServerStatus_to_string GameServerStatus.Error = ''error''"

definition GameServerStatus_from_str :: "string \<Rightarrow> string + GameServerStatus" where
  "GameServerStatus_from_str s = (let l = s in
     if l = ''offline'' then Inr GameServerStatus.Offline
     else if l = ''available'' then Inr GameServerStatus.Available
     else if l = ''reserved'' then Inr GameServerStatus.Reserved
     else if l = ''configuring'' then Inr GameServerStatus.Configuring
     else if l = ''in_match'' then Inr GameServerStatus.InMatch
     else if l = ''busy_external'' then Inr GameServerStatus.BusyExternal
     else if l = ''error'' then Inr GameServerStatus.Error
     else Inl (''invalid game server status: '' @ s))"

definition GameServerStatus_is_allocatable :: "GameServerStatus \<Rightarrow> bool" where
  "GameServerStatus_is_allocatable s \<longleftrightarrow> s \<in> {GameServerStatus.Available}"

definition GameServerStatus_is_busy :: "GameServerStatus \<Rightarrow> bool" where
  "GameServerStatus_is_busy s \<longleftrightarrow> s \<in> {GameServerStatus.Reserved, GameServerStatus.Configuring, GameServerStatus.InMatch}"

datatype ReservationKind = Match | Pug

fun ReservationKind_to_string :: "ReservationKind \<Rightarrow> string" where
  "ReservationKind_to_string ReservationKind.Match = ''match''"
| "ReservationKind_to_string ReservationKind.Pug = ''pug''"

definition ReservationKind_from_str :: "string \<Rightarrow> string + ReservationKind" where
  "ReservationKind_from_str s = (let l = to_lowercase s in
     if l = ''match'' then Inr ReservationKind.Match
     else if l = ''pug'' then Inr ReservationKind.Pug
     else Inl (''invalid reservation kind: '' @ s))"

datatype ReservationStatus = Pending | Configuring | Ready | Live | Completed | Failed | Cancelled

fun ReservationStatus_to_string :: "ReservationStatus \<Rightarrow> string" where
  "ReservationStatus_to_string ReservationStatus.Pending = ''pending''"
| "ReservationStatus_to_string ReservationStatus.Configuring = ''configuring''"
| "ReservationStatus_to_string ReservationStatus.Ready = ''ready''"
| "ReservationStatus_to_string ReservationStatus.Live = ''live''"
| "ReservationStatus_to_string ReservationStatus.Completed = ''completed''"
| "ReservationStatus_to_string ReservationStatus.Failed = ''failed''"
| "ReservationStatus_to_string ReservationStatus.Cancelled = ''cancelled''"

definition ReservationStatus_from_str :: "string \<Rightarrow> string + ReservationStatus" where
  "ReservationStatus_from_str s = (let l = s in
     if l = ''pending'' then Inr ReservationStatus.Pending
     else if l = ''configuring'' then Inr ReservationStatus.Configuring
     else if l = ''ready'' then Inr ReservationStatus.Ready
     else if l = ''live'' then Inr ReservationStatus.Live
     else if l = ''completed'' then Inr ReservationStatus.Completed
     else if l = ''failed'' then Inr ReservationStatus.Failed
     else if l = ''cancelled'' then Inr ReservationStatus.Cancelled
     else Inl (''invalid reservation status: '' @ s))"

definition ReservationStatus_is_live_state :: "ReservationStatus \<Rightarrow> bool" where
  "ReservationStatus_is_live_state s \<longleftrightarrow> s \<in> {ReservationStatus.Pending, ReservationStatus.Configuring, ReservationStatus.Ready, ReservationStatus.Live}"

definition ReservationStatus_is_terminal :: "ReservationStatus \<Rightarrow> bool" where
  "ReservationStatus_is_terminal s \<longleftrightarrow> s \<in> {ReservationStatus.Completed, ReservationStatus.Failed, ReservationStatus.Cancelled}"

datatype SubstitutionStatus = Pending | AwaitingApproval | Applying | Applied | Failed | Rejected | Cancelled

fun SubstitutionStatus_to_string :: "SubstitutionStatus \<Rightarrow> string" where
  "SubstitutionStatus_to_string SubstitutionStatus.Pending = ''pending''"
| "SubstitutionStatus_to_string SubstitutionStatus.AwaitingApproval = ''awaiting_approval''"
| "SubstitutionStatus_to_string SubstitutionStatus.Applying = ''applying''"
| "SubstitutionStatus_to_string SubstitutionStatus.Applied = ''applied''"
| "SubstitutionStatus_to_string SubstitutionStatus.Failed = ''failed''"
| "SubstitutionStatus_to_string SubstitutionStatus.Rejected = ''rejected''"
| "SubstitutionStatus_to_string SubstitutionStatus.Cancelled = ''cancelled''"

definition SubstitutionStatus_from_str :: "string \<Rightarrow> string + SubstitutionStatus" where
  "SubstitutionStatus_from_str s = (let l = s in
     if l = ''pending'' then Inr SubstitutionStatus.Pending
     else if l = ''awaiting_approval'' then Inr SubstitutionStatus.AwaitingApproval
     else if l = ''applying'' then Inr SubstitutionStatus.Applying
     else if l = ''applied'' then Inr SubstitutionStatus.Applied
     else if l = ''failed'' then Inr SubstitutionStatus.Failed
     else if l = ''rejected'' then Inr SubstitutionStatus.Rejected
     else if l = ''cancelled'' then Inr SubstitutionStatus.Cancelled
     else Inl (''invalid substitution status: '' @ s))"

datatype AgentGamestate = None' | PreVeto | Veto | Warmup | Knife | WaitingForKnifeDecision | GoingLive | Live | PendingRestore | PostGame | Unknown

fun AgentGamestate_to_string :: "AgentGamestate \<Rightarrow> string" where
  "AgentGamestate_to_string AgentGamestate.None' = ''none''"
| "AgentGamestate_to_string AgentGamestate.PreVeto = ''pre_veto''"
| "AgentGamestate_to_string AgentGamestate.Veto = ''veto''"
| "AgentGamestate_to_string AgentGamestate.Warmup = ''warmup''"
| "AgentGamestate_to_string AgentGamestate.Knife = ''knife''"
| "AgentGamestate_to_string AgentGamestate.WaitingForKnifeDecision = ''waiting_for_knife_decision''"
| "AgentGamestate_to_string AgentGamestate.GoingLive = ''going_live''"
| "AgentGamestate_to_string AgentGamestate.Live = ''live''"
| "AgentGamestate_to_string AgentGamestate.PendingRestore = ''pending_restore''"
| "AgentGamestate_to_string AgentGamestate.PostGame = ''post_game''"
| "AgentGamestate_to_string AgentGamestate.Unknown = ''unknown''"

definition AgentGamestate_is_idle :: "AgentGamestate \<Rightarrow> bool" where
  "AgentGamestate_is_idle s \<longleftrightarrow> s \<in> {AgentGamestate.None'}"

datatype EntityStatus = Active | Inactive | Deleted

fun EntityStatus_to_string :: "EntityStatus \<Rightarrow> string" where
  "EntityStatus_to_string EntityStatus.Active = ''active''"
| "EntityStatus_to_string EntityStatus.Inactive = ''inactive''"
| "EntityStatus_to_string EntityStatus.Deleted = ''deleted''"

definition EntityStatus_from_str :: "string \<Rightarrow> string + EntityStatus" where
  "EntityStatus_from_str s = (let l = to_lowercase s in
     if l = ''active'' then Inr EntityStatus.Active
     else if l = ''inactive'' then Inr EntityStatus.Inactive
     else if l = ''deleted'' then Inr EntityStatus.Deleted
     else Inl (''invalid entity status: '' @ s))"

datatype MatchStatus = Pending | Ready | InProgress | Completed | Cancelled | Forfeited | Disputed

fun MatchStatus_to_string :: "MatchStatus \<Rightarrow> string" where
  "MatchStatus_to_string MatchStatus.Pending = ''pending''"
| "MatchStatus_to_string MatchStatus.Ready = ''ready''"
| "MatchStatus_to_string MatchStatus.InProgress = ''in_progress''"
| "MatchStatus_to_string MatchStatus.Completed = ''completed''"
| "MatchStatus_to_string MatchStatus.Cancelled = ''cancelled''"
| "MatchStatus_to_string MatchStatus.Forfeited = ''forfeited''"
| "MatchStatus_to_string MatchStatus.Disputed = ''disputed''"

definition MatchStatus_from_str :: "string \<Rightarrow> string + MatchStatus" where
  "MatchStatus_from_str s = (let l = to_lowercase s in
     if l = ''pending'' then Inr MatchStatus.Pending
     else if l = ''ready'' then Inr MatchStatus.Ready
     else if l = ''in_progress'' then Inr MatchStatus.InProgress
     else if l = ''completed'' then Inr MatchStatus.Completed
     else if l = ''cancelled'' then Inr MatchStatus.Cancelled
     else if l = ''forfeited'' then Inr MatchStatus.Forfeited
     else if l = ''disputed'' then Inr MatchStatus.Disputed
     else Inl (''invalid match status: '' @ s))"

definition MatchStatus_is_terminal :: "MatchStatus \<Rightarrow> bool" where
  "MatchStatus_is_terminal s \<longleftrightarrow> s \<in> {MatchStatus.Completed, MatchStatus.Cancelled, MatchStatus.Forfeited}"

definition MatchStatus_can_cancel :: "MatchStatus \<Rightarrow> bool" where
  "MatchStatus_can_cancel s \<longleftrightarrow> s \<in> {MatchStatus.Pending, MatchStatus.Ready}"

definition MatchStatus_can_start :: "MatchStatus \<Rightarrow> bool" where
  "MatchStatus_can_start s \<longleftrightarrow> s \<in> {MatchStatus.Ready}"

definition AgentGamestate_parse_lenient :: "string \<Rightarrow> AgentGamestate" where
  "AgentGamestate_parse_lenient s =
     (if s = ''none'' then AgentGamestate.None'
      else if s = ''pre_veto'' then AgentGamestate.PreVeto
      else if s = ''veto'' then AgentGamestate.Veto
      else if s = ''warmup'' then AgentGamestate.Warmup
      else if s = ''knife'' then AgentGamestate.Knife
      else if s = ''waiting_for_knife_decision'' then AgentGamestate.WaitingForKnifeDecision
      else if s = ''going_live'' then AgentGamestate.GoingLive
      else if s = ''live'' then AgentGamestate.Live
      else if s = ''pending_restore'' then AgentGamestate.PendingRestore
      else if s = ''post_game'' then AgentGamestate.PostGame
      else AgentGamestate.Unknown)"

datatype ScopeType = Team | League | Tournament | Match

fun ScopeType_as_str :: "ScopeType \<Rightarrow> string" where
  "ScopeType_as_str ScopeType.Team = ''team''"
| "ScopeType_as_str ScopeType.League = ''league''"
| "ScopeType_as_str ScopeType.Tournament = ''tournament''"
| "ScopeType_as_str ScopeType.Match = ''match''"

definition ScopeType_all :: "ScopeType list" where
  "ScopeType_all = [ScopeType.Team, ScopeType.League, ScopeType.Tournament, ScopeType.Match]"

definition ScopeType_to_string :: "ScopeType \<Rightarrow> string" where
  "ScopeType_to_string s = ScopeType_as_str s"

record ParseScopeTypeError =
  pse_input :: string

definition ParseScopeTypeError_to_string :: "ParseScopeTypeError \<Rightarrow> string" where
  "ParseScopeTypeError_to_string e = ''invalid scope type '' @ [CHR 0x27] @ pse_input e @ [CHR 0x27] @
     '': expected one of team, league, tournament, match''"

definition ScopeType_from_str :: "string \<Rightarrow> ParseScopeTypeError + ScopeType" where
  "ScopeType_from_str s = (let l = to_lowercase s in
     if l = ''team'' then Inr ScopeType.Team
     else if l = ''league'' then Inr ScopeType.League
     else if l = ''tournament'' then Inr ScopeType.Tournament
     else if l = ''match'' then Inr ScopeType.Match
     else Inl \<lparr>pse_input = s\<rparr>)"

datatype EvidenceStorage = S3 string string | Url string | Inline string

fun EvidenceStorage_storage_type :: "EvidenceStorage \<Rightarrow> string" where
  "EvidenceStorage_storage_type (EvidenceStorage.S3 bucket key) = ''s3''"
| "EvidenceStorage_storage_type (EvidenceStorage.Url url) = ''url''"
| "EvidenceStorage_storage_type (EvidenceStorage.Inline content) = ''inline''"

fun EvidenceStorage_path :: "EvidenceStorage \<Rightarrow> string option" where
  "EvidenceStorage_path (EvidenceStorage.S3 bucket key) = Some key"
| "EvidenceStorage_path (EvidenceStorage.Url url) = Some url"
| "EvidenceStorage_path (EvidenceStorage.Inline content) = None"

fun EvidenceStorage_bucket :: "EvidenceStorage \<Rightarrow> string option" where
  "EvidenceStorage_bucket (EvidenceStorage.S3 bucket key) = Some bucket"
| "EvidenceStorage_bucket (EvidenceStorage.Url url) = None"
| "EvidenceStorage_bucket (EvidenceStorage.Inline content) = None"

section \<open>Text codecs\<close>

interpretation lineup_status: strict_codec LineupStatus_to_string LineupStatus_from_str
proof (rule strict_codecI)
  fix x s
  show "to_lowercase (LineupStatus_to_string x) = LineupStatus_to_string x" by (cases x) simp_all
  show "LineupStatus_from_str s = Inr x \<longleftrightarrow> to_lowercase s = LineupStatus_to_string x"
    by (cases x) (auto simp: LineupStatus_from_str_def Let_def)
qed

interpretation lineup_source: strict_codec LineupSource_to_string LineupSource_from_str
proof (rule strict_codecI)
  fix x s
  show "to_lowercase (LineupSource_to_string x) = LineupSource_to_string x" by (cases x) simp_all
  show "LineupSource_from_str s = Inr x \<longleftrightarrow> to_lowercase s = LineupSource_to_string x"
    by (cases x) (auto simp: LineupSource_from_str_def Let_def)
qed

interpretation participation_status: strict_codec ParticipationStatus_to_string ParticipationStatus_from_str
proof (rule strict_codecI)
  fix x s
  show "to_lowercase (ParticipationStatus_to_string x) = ParticipationStatus_to_string x" by (cases x) simp_all
  show "ParticipationStatus_from_str s = Inr x \<longleftrightarrow> to_lowercase s = ParticipationStatus_to_string x"
    by (cases x) (auto simp: ParticipationStatus_from_str_def Let_def)
qed

interpretation pug_status: strict_codec PugStatus_to_string PugStatus_from_str
proof (rule strict_codecI)
  fix x s
  show "to_lowercase (PugStatus_to_string x) = PugStatus_to_string x" by (cases x) simp_all
  show "PugStatus_from_str s = Inr x \<longleftrightarrow> to_lowercase s = PugStatus_to_string x"
    by (cases x) (auto simp: PugStatus_from_str_def Let_def)
qed

interpretation pug_map_selection_mode: strict_codec PugMapSelectionMode_to_string PugMapSelectionMode_from_str
proof (rule strict_codecI)
  fix x s
  show "to_lowercase (PugMapSelectionMode_to_string x) = PugMapSelectionMode_to_string x" by (cases x) simp_all
  show "PugMapSelectionMode_from_str s = Inr x \<longleftrightarrow> to_lowercase s = PugMapSelectionMode_to_string x"
    by (cases x) (auto simp: PugMapSelectionMode_from_str_def Let_def)
qed

interpretation demo_category: strict_codec DemoCategory_to_string DemoCategory_from_str
proof (rule strict_codecI)
  fix x s
  show "to_lowercase (DemoCategory_to_string x) = DemoCategory_to_string x" by (cases x) simp_all
  show "DemoCategory_from_str s = Inr x \<longleftrightarrow> to_lowercase s = DemoCategory_to_string x"
    by (cases x) (auto simp: DemoCategory_from_str_def Let_def)
qed

interpretation demo_status: strict_codec DemoStatus_to_string DemoStatus_from_str
proof (rule strict_codecI)
  fix x s
  show "to_lowercase (DemoStatus_to_string x) = DemoStatus_to_string x" by (cases x) simp_all
  show "DemoStatus_from_str s = Inr x \<longleftrightarrow> to_lowercase s = DemoStatus_to_string x"
    by (cases x) (auto simp: DemoStatus_from_str_def Let_def)
qed

interpretation demo_link_type: strict_codec DemoLinkType_to_string DemoLinkType_from_str
proof (rule strict_codecI)
  fix x s
  show "to_lowercase (DemoLinkType_to_string x) = DemoLinkType_to_string x" by (cases x) simp_all
  show "DemoLinkType_from_str s = Inr x \<longleftrightarrow> to_lowercase s = DemoLinkType_to_string x"
    by (cases x) (auto simp: DemoLinkType_from_str_def Let_def)
qed

interpretation evidence_type: strict_codec EvidenceType_to_string EvidenceType_from_str
proof (rule strict_codecI)
  fix x s
  show "to_lowercase (EvidenceType_to_string x) = EvidenceType_to_string x" by (cases x) simp_all
  show "EvidenceType_from_str s = Inr x \<longleftrightarrow> to_lowercase s = EvidenceType_to_string x"
    by (cases x) (auto simp: EvidenceType_from_str_def Let_def)
qed

interpretation game_server_status: exact_codec GameServerStatus_to_string GameServerStatus_from_str
proof (rule exact_codecI)
  fix x s
  show "GameServerStatus_from_str s = Inr x \<longleftrightarrow> s = GameServerStatus_to_string x"
    by (cases x) (auto simp: GameServerStatus_from_str_def Let_def)
qed

interpretation reservation_kind: strict_codec ReservationKind_to_string ReservationKind_from_str
proof (rule strict_codecI)
  fix x s
  show "to_lowercase (ReservationKind_to_string x) = ReservationKind_to_string x" by (cases x) simp_all
  show "ReservationKind_from_str s = Inr x \<longleftrightarrow> to_lowercase s = ReservationKind_to_string x"
    by (cases x) (auto simp: ReservationKind_from_str_def Let_def)
qed

interpretation reservation_status: exact_codec ReservationStatus_to_string ReservationStatus_from_str
proof (rule exact_codecI)
  fix x s
  show "ReservationStatus_from_str s = Inr x \<longleftrightarrow> s = ReservationStatus_to_string x"
    by (cases x) (auto simp: ReservationStatus_from_str_def Let_def)
qed

interpretation substitution_status: exact_codec SubstitutionStatus_to_string SubstitutionStatus_from_str
proof (rule exact_codecI)
  fix x s
  show "SubstitutionStatus_from_str s = Inr x \<longleftrightarrow> s = SubstitutionStatus_to_string x"
    by (cases x) (auto simp: SubstitutionStatus_from_str_def Let_def)
qed

interpretation entity_status: strict_codec EntityStatus_to_string EntityStatus_from_str
proof (rule strict_codecI)
  fix x s
  show "to_lowercase (EntityStatus_to_string x) = EntityStatus_to_string x" by (cases x) simp_all
  show "EntityStatus_from_str s = Inr x \<longleftrightarrow> to_lowercase s = EntityStatus_to_string x"
    by (cases x) (auto simp: EntityStatus_from_str_def Let_def)
qed

interpretation match_status: strict_codec MatchStatus_to_string MatchStatus_from_str
proof (rule strict_codecI)
  fix x s
  show "to_lowercase (MatchStatus_to_string x) = MatchStatus_to_string x" by (cases x) simp_all
  show "MatchStatus_from_str s = Inr x \<longleftrightarrow> to_lowercase s = MatchStatus_to_string x"
    by (cases x) (auto simp: MatchStatus_from_str_def Let_def)
qed

lemma agent_gamestate_round_trip: "AgentGamestate_parse_lenient (AgentGamestate_to_string s) = s"
  by (cases s) (simp_all add: AgentGamestate_parse_lenient_def)

lemma scope_type_round_trip: "ScopeType_from_str (ScopeType_to_string s) = Inr s"
  by (cases s) (simp_all add: ScopeType_from_str_def ScopeType_to_string_def)

lemma scope_type_all: "set ScopeType_all = UNIV"
  by (auto simp: ScopeType_all_def intro: ScopeType.exhaust)

end
