(* ===== verification/ResultTypes.thy ===== *)
theory ResultTypes
  imports InviteTypes PlatformTypes Errors
begin

text \<open>
  What becomes of a result: claims (\<open>entities/result_claim.rs\<close>), disputes and their threads
  (\<open>entities/dispute.rs\<close>), reviews of the demo evidence (\<open>entities/result_review.rs\<close>,
  \<open>entities/demo_validation.rs\<close>), the saga that completes a match with its log of progressions
  (\<open>entities/saga.rs\<close>, \<open>repositories/evidence.rs\<close>) and the audit trail of corrections.
\<close>

section \<open>Result claims\<close>

datatype ClaimStatus = Pending | Confirmed | Disputed | Superseded | Cancelled

fun ClaimStatus_to_string :: "ClaimStatus \<Rightarrow> string" where
  "ClaimStatus_to_string ClaimStatus.Pending = ''pending''"
| "ClaimStatus_to_string ClaimStatus.Confirmed = ''confirmed''"
| "ClaimStatus_to_string ClaimStatus.Disputed = ''disputed''"
| "ClaimStatus_to_string ClaimStatus.Superseded = ''superseded''"
| "ClaimStatus_to_string ClaimStatus.Cancelled = ''cancelled''"

definition ClaimStatus_from_str :: "string \<Rightarrow> string + ClaimStatus" where
  "ClaimStatus_from_str s = (let l = to_lowercase s in
     if l = ''pending'' then Inr ClaimStatus.Pending
     else if l = ''confirmed'' then Inr ClaimStatus.Confirmed
     else if l = ''disputed'' then Inr ClaimStatus.Disputed
     else if l = ''superseded'' then Inr ClaimStatus.Superseded
     else if l = ''cancelled'' then Inr ClaimStatus.Cancelled
     else Inl (''invalid claim status: '' @ s))"

record GameResult =
  gr_game_number :: int
  gr_map_id :: string
  gr_participant1_score :: int
  gr_participant2_score :: int
  gr_winner_registration_id :: uuid
  gr_started_at :: "datetime option"
  gr_completed_at :: "datetime option"
  gr_duration_seconds :: "int option"
  gr_evidence_ids :: "uuid list"
  gr_demo_link_id :: "uuid option"

record GameResultInput =
  gi_game_number :: int
  gi_map_id :: string
  gi_participant1_score :: int
  gi_participant2_score :: int
  gi_duration_seconds :: "int option"
  gi_evidence_ids :: "uuid list"
  gi_demo_link_id :: "uuid option"

record ResultClaim =
  rc_id :: uuid
  rc_match_id :: uuid
  rc_submitted_by_registration_id :: "uuid option"
  rc_submitted_by_user_id :: "uuid option"
  rc_source :: string
  rc_claimed_winner_registration_id :: uuid
  rc_claimed_participant1_score :: int
  rc_claimed_participant2_score :: int
  rc_game_results :: "GameResult list"
  rc_status :: ClaimStatus
  rc_confirmed_at :: "datetime option"
  rc_confirmed_by_registration_id :: "uuid option"
  rc_confirmed_by_user_id :: "uuid option"
  rc_auto_confirm_at :: "datetime option"
  rc_was_auto_confirmed :: bool
  rc_evidence_ids :: "uuid list"
  rc_demo_link_ids :: "uuid list"
  rc_submitter_notes :: "string option"
  rc_created_at :: datetime
  rc_updated_at :: datetime

record CreateResultClaim =
  crc_match_id :: uuid
  crc_submitted_by_registration_id :: "uuid option"
  crc_submitted_by_user_id :: "uuid option"
  crc_source :: string
  crc_claimed_winner_registration_id :: uuid
  crc_participant1_score :: int
  crc_participant2_score :: int
  crc_game_results :: "GameResult list"
  crc_auto_confirm_at :: datetime
  crc_evidence_ids :: "uuid list"
  crc_demo_link_ids :: "uuid list"
  crc_notes :: "string option"

record UpdateResultClaim =
  urc_status :: "ClaimStatus option"
  urc_confirmed_at :: "datetime option"
  urc_confirmed_by_registration_id :: "uuid option"
  urc_confirmed_by_user_id :: "uuid option"
  urc_was_auto_confirmed :: "bool option"

definition ClaimStatus_can_transition_to :: "ClaimStatus \<Rightarrow> ClaimStatus \<Rightarrow> bool" where
  "ClaimStatus_can_transition_to s target \<longleftrightarrow>
     s = ClaimStatus.Pending \<and> target \<in> {ClaimStatus.Confirmed, ClaimStatus.Disputed, ClaimStatus.Superseded, ClaimStatus.Cancelled}"

definition ResultClaim_is_pending :: "ResultClaim \<Rightarrow> bool" where
  "ResultClaim_is_pending c \<longleftrightarrow> rc_status c = ClaimStatus.Pending"

definition ResultClaim_is_confirmed :: "ResultClaim \<Rightarrow> bool" where
  "ResultClaim_is_confirmed c \<longleftrightarrow> rc_status c = ClaimStatus.Confirmed"

definition ResultClaim_is_disputed :: "ResultClaim \<Rightarrow> bool" where
  "ResultClaim_is_disputed c \<longleftrightarrow> rc_status c = ClaimStatus.Disputed"

definition ResultClaim_is_terminal :: "ResultClaim \<Rightarrow> bool" where
  "ResultClaim_is_terminal c \<longleftrightarrow> rc_status c \<in>
     {ClaimStatus.Confirmed, ClaimStatus.Disputed, ClaimStatus.Superseded, ClaimStatus.Cancelled}"

definition ResultClaim_is_auto_confirm_due :: "datetime \<Rightarrow> ResultClaim \<Rightarrow> bool" where
  "ResultClaim_is_auto_confirm_due t c \<longleftrightarrow> ResultClaim_is_pending c \<and>
     (case rc_auto_confirm_at c of None \<Rightarrow> False | Some deadline \<Rightarrow> t \<ge> deadline)"

definition ResultClaim_can_be_confirmed_by :: "ResultClaim \<Rightarrow> uuid \<Rightarrow> bool" where
  "ResultClaim_can_be_confirmed_by c r \<longleftrightarrow> ResultClaim_is_pending c \<and>
     rc_submitted_by_registration_id c \<noteq> Some r"

definition ResultClaim_scores :: "ResultClaim \<Rightarrow> int \<times> int" where
  "ResultClaim_scores c = (rc_claimed_participant1_score c, rc_claimed_participant2_score c)"

definition ResultClaim_game_count :: "ResultClaim \<Rightarrow> nat" where
  "ResultClaim_game_count c = length (rc_game_results c)"

definition GameResult_participant1_won :: "GameResult \<Rightarrow> bool" where
  "GameResult_participant1_won g \<longleftrightarrow> gr_participant1_score g > gr_participant2_score g"

definition GameResult_participant2_won :: "GameResult \<Rightarrow> bool" where
  "GameResult_participant2_won g \<longleftrightarrow> gr_participant2_score g > gr_participant1_score g"

definition GameResult_winning_score :: "GameResult \<Rightarrow> int" where
  "GameResult_winning_score g = (if gr_participant1_score g > gr_participant2_score g
     then gr_participant1_score g else gr_participant2_score g)"

definition GameResult_losing_score :: "GameResult \<Rightarrow> int" where
  "GameResult_losing_score g = (if gr_participant1_score g < gr_participant2_score g
     then gr_participant1_score g else gr_participant2_score g)"

text \<open>Numbers of type \<open>u32\<close>; a plugin's message is not built by the modelled operations.\<close>

datatype ResultValidationError =
    InvalidWinner
  | ScoreWinnerMismatch
  | InsufficientGames nat nat
  | GameScoresMismatch
  | NonSequentialGameNumber int
  | NegativeScore
  | TiedGame
  | UnknownMap string
  | MapNotInVeto string
  | PluginValidation string

definition ResultValidationError_to_string :: "ResultValidationError \<Rightarrow> string" where
  "ResultValidationError_to_string e = (case e of
     InvalidWinner \<Rightarrow> ''Winner must be a match participant''
   | ScoreWinnerMismatch \<Rightarrow> ''Scores don'' @ [single_quote] @ ''t match the claimed winner''
   | InsufficientGames required provided \<Rightarrow>
       ''Insufficient games: expected at least '' @ show_nat required @ '', got '' @ show_nat provided
   | GameScoresMismatch \<Rightarrow> ''Game scores don'' @ [single_quote] @ ''t sum to series score''
   | NonSequentialGameNumber n \<Rightarrow> ''Game number '' @ show_int n @ '' is not sequential''
   | NegativeScore \<Rightarrow> ''Scores must be non-negative''
   | TiedGame \<Rightarrow> ''Game cannot end in a tie''
   | UnknownMap m \<Rightarrow> ''Map '' @ [single_quote] @ m @ [single_quote] @ '' is not part of this match'' @ [single_quote] @ ''s map pool''
   | MapNotInVeto m \<Rightarrow> ''Map '' @ [single_quote] @ m @ [single_quote] @ '' was not selected during this match'' @ [single_quote] @ ''s map veto''
   | PluginValidation m \<Rightarrow> ''Plugin validation failed: '' @ m)"

section \<open>Disputes\<close>

datatype DisputeReason = WrongScore | WrongWinner | Cheating | RuleViolation | TechnicalIssue | PlayerMisconduct | Other

fun DisputeReason_to_string :: "DisputeReason \<Rightarrow> string" where
  "DisputeReason_to_string DisputeReason.WrongScore = ''wrong_score''"
| "DisputeReason_to_string DisputeReason.WrongWinner = ''wrong_winner''"
| "DisputeReason_to_string DisputeReason.Cheating = ''cheating''"
| "DisputeReason_to_string DisputeReason.RuleViolation = ''rule_violation''"
| "DisputeReason_to_string DisputeReason.TechnicalIssue = ''technical_issue''"
| "DisputeReason_to_string DisputeReason.PlayerMisconduct = ''player_misconduct''"
| "DisputeReason_to_string DisputeReason.Other = ''other''"

definition DisputeReason_from_str :: "string \<Rightarrow> string + DisputeReason" where
  "DisputeReason_from_str s = (let l = to_lowercase s in
     if l = ''wrong_score'' then Inr DisputeReason.WrongScore
     else if l = ''wrong_winner'' then Inr DisputeReason.WrongWinner
     else if l = ''cheating'' then Inr DisputeReason.Cheating
     else if l = ''rule_violation'' then Inr DisputeReason.RuleViolation
     else if l = ''technical_issue'' then Inr DisputeReason.TechnicalIssue
     else if l = ''player_misconduct'' then Inr DisputeReason.PlayerMisconduct
     else if l = ''other'' then Inr DisputeReason.Other
     else Inl (''invalid dispute reason: '' @ s))"

datatype DisputeStatus = Pending | UnderReview | Resolved | Cancelled

fun DisputeStatus_to_string :: "DisputeStatus \<Rightarrow> string" where
  "DisputeStatus_to_string DisputeStatus.Pending = ''pending''"
| "DisputeStatus_to_string DisputeStatus.UnderReview = ''under_review''"
| "DisputeStatus_to_string DisputeStatus.Resolved = ''resolved''"
| "DisputeStatus_to_string DisputeStatus.Cancelled = ''cancelled''"

definition DisputeStatus_from_str :: "string \<Rightarrow> string + DisputeStatus" where
  "DisputeStatus_from_str s = (let l = to_lowercase s in
     if l = ''pending'' then Inr DisputeStatus.Pending
     else if l = ''under_review'' then Inr DisputeStatus.UnderReview
     else if l = ''resolved'' then Inr DisputeStatus.Resolved
     else if l = ''cancelled'' then Inr DisputeStatus.Cancelled
     else Inl (''invalid dispute status: '' @ s))"

datatype DisputePriority = Low | Normal | High | Urgent

fun DisputePriority_to_string :: "DisputePriority \<Rightarrow> string" where
  "DisputePriority_to_string DisputePriority.Low = ''low''"
| "DisputePriority_to_string DisputePriority.Normal = ''normal''"
| "DisputePriority_to_string DisputePriority.High = ''high''"
| "DisputePriority_to_string DisputePriority.Urgent = ''urgent''"

definition DisputePriority_from_str :: "string \<Rightarrow> string + DisputePriority" where
  "DisputePriority_from_str s = (let l = to_lowercase s in
     if l = ''low'' then Inr DisputePriority.Low
     else if l = ''normal'' then Inr DisputePriority.Normal
     else if l = ''high'' then Inr DisputePriority.High
     else if l = ''urgent'' then Inr DisputePriority.Urgent
     else Inl (''invalid dispute priority: '' @ s))"

datatype ResolutionType = Upheld | Overturned | Rematch | Adjusted | DoubleDq

fun ResolutionType_to_string :: "ResolutionType \<Rightarrow> string" where
  "ResolutionType_to_string ResolutionType.Upheld = ''upheld''"
| "ResolutionType_to_string ResolutionType.Overturned = ''overturned''"
| "ResolutionType_to_string ResolutionType.Rematch = ''rematch''"
| "ResolutionType_to_string ResolutionType.Adjusted = ''adjusted''"
| "ResolutionType_to_string ResolutionType.DoubleDq = ''double_dq''"

definition ResolutionType_from_str :: "string \<Rightarrow> string + ResolutionType" where
  "ResolutionType_from_str s = (let l = to_lowercase s in
     if l = ''upheld'' then Inr ResolutionType.Upheld
     else if l = ''overturned'' then Inr ResolutionType.Overturned
     else if l = ''rematch'' then Inr ResolutionType.Rematch
     else if l = ''adjusted'' then Inr ResolutionType.Adjusted
     else if l = ''double_dq'' then Inr ResolutionType.DoubleDq
     else Inl (''invalid resolution type: '' @ s))"

definition ResolutionType_changes_result :: "ResolutionType \<Rightarrow> bool" where
  "ResolutionType_changes_result s \<longleftrightarrow> s \<in> {ResolutionType.Overturned, ResolutionType.Adjusted, ResolutionType.DoubleDq}"

definition ResolutionType_requires_rematch :: "ResolutionType \<Rightarrow> bool" where
  "ResolutionType_requires_rematch s \<longleftrightarrow> s \<in> {ResolutionType.Rematch}"

datatype AuthorType = Participant | Admin | System

fun AuthorType_to_string :: "AuthorType \<Rightarrow> string" where
  "AuthorType_to_string AuthorType.Participant = ''participant''"
| "AuthorType_to_string AuthorType.Admin = ''admin''"
| "AuthorType_to_string AuthorType.System = ''system''"

definition AuthorType_from_str :: "string \<Rightarrow> string + AuthorType" where
  "AuthorType_from_str s = (let l = to_lowercase s in
     if l = ''participant'' then Inr AuthorType.Participant
     else if l = ''admin'' then Inr AuthorType.Admin
     else if l = ''system'' then Inr AuthorType.System
     else Inl (''invalid author type: '' @ s))"

definition DisputeStatus_can_transition_to :: "DisputeStatus \<Rightarrow> DisputeStatus \<Rightarrow> bool" where
  "DisputeStatus_can_transition_to s target \<longleftrightarrow>
     (s = DisputeStatus.Pending \<and> target \<in> {DisputeStatus.UnderReview, DisputeStatus.Resolved, DisputeStatus.Cancelled} \<or>
      s = DisputeStatus.UnderReview \<and> target \<in> {DisputeStatus.Resolved, DisputeStatus.Pending})"

record DisputeResolution =
  drs_resolution_type :: ResolutionType
  drs_notes :: string
  drs_new_winner_registration_id :: "uuid option"
  drs_new_participant1_score :: "int option"
  drs_new_participant2_score :: "int option"

record Dispute =
  ds_id :: uuid
  ds_match_id :: uuid
  ds_result_claim_id :: "uuid option"
  ds_disputed_by_registration_id :: uuid
  ds_disputed_by_user_id :: uuid
  ds_reason :: DisputeReason
  ds_description :: string
  ds_evidence_ids :: "uuid list"
  ds_original_winner_registration_id :: "uuid option"
  ds_original_participant1_score :: "int option"
  ds_original_participant2_score :: "int option"
  ds_status :: DisputeStatus
  ds_priority :: DisputePriority
  ds_assigned_to_user_id :: "uuid option"
  ds_resolved_at :: "datetime option"
  ds_resolved_by_user_id :: "uuid option"
  ds_resolution :: "DisputeResolution option"
  ds_created_at :: datetime
  ds_updated_at :: datetime

record DisputeMessage =
  dm_id :: uuid
  dm_dispute_id :: uuid
  dm_author_user_id :: uuid
  dm_author_type :: AuthorType
  dm_message :: string
  dm_evidence_ids :: "uuid list"
  dm_is_internal :: bool
  dm_created_at :: datetime

record CreateDispute =
  cds_match_id :: uuid
  cds_result_claim_id :: "uuid option"
  cds_disputed_by_registration_id :: uuid
  cds_disputed_by_user_id :: uuid
  cds_reason :: DisputeReason
  cds_description :: string
  cds_evidence_ids :: "uuid list"
  cds_original_winner_registration_id :: "uuid option"
  cds_original_participant1_score :: "int option"
  cds_original_participant2_score :: "int option"
  cds_priority :: DisputePriority

record UpdateDispute =
  uds_status :: "DisputeStatus option"
  uds_priority :: "DisputePriority option"
  uds_resolution :: "DisputeResolution option"
  uds_resolved_by_user_id :: "uuid option"
  uds_assigned_to_user_id :: "uuid option"

record CreateDisputeMessage =
  cdm_dispute_id :: uuid
  cdm_author_user_id :: uuid
  cdm_author_type :: AuthorType
  cdm_message :: string
  cdm_evidence_ids :: "uuid list"
  cdm_is_internal :: bool

record ProgressionChanges =
  pch_reverted_matches :: "uuid list"
  pch_updated_matches :: "uuid list"
  pch_new_winner_path :: "uuid list"

record DisputeResolutionResult =
  drr_dispute :: Dispute
  drr_progression_changes :: "ProgressionChanges option"

record DisputeWithThread =
  dwt_dispute :: Dispute
  dwt_messages :: "DisputeMessage list"

definition Dispute_is_pending :: "Dispute \<Rightarrow> bool" where
  "Dispute_is_pending d \<longleftrightarrow> ds_status d = DisputeStatus.Pending"

definition Dispute_is_under_review :: "Dispute \<Rightarrow> bool" where
  "Dispute_is_under_review d \<longleftrightarrow> ds_status d = DisputeStatus.UnderReview"

definition Dispute_is_resolved :: "Dispute \<Rightarrow> bool" where
  "Dispute_is_resolved d \<longleftrightarrow> ds_status d = DisputeStatus.Resolved"

definition Dispute_is_terminal :: "Dispute \<Rightarrow> bool" where
  "Dispute_is_terminal d \<longleftrightarrow> ds_status d \<in> {DisputeStatus.Resolved, DisputeStatus.Cancelled}"

definition Dispute_can_assign :: "Dispute \<Rightarrow> bool" where
  "Dispute_can_assign d \<longleftrightarrow> ds_status d = DisputeStatus.Pending"

definition Dispute_can_resolve :: "Dispute \<Rightarrow> bool" where
  "Dispute_can_resolve d \<longleftrightarrow> ds_status d \<in> {DisputeStatus.Pending, DisputeStatus.UnderReview}"

definition DisputeMessage_is_public :: "DisputeMessage \<Rightarrow> bool" where
  "DisputeMessage_is_public m \<longleftrightarrow> \<not> dm_is_internal m"

definition DisputeMessage_is_system_message :: "DisputeMessage \<Rightarrow> bool" where
  "DisputeMessage_is_system_message m \<longleftrightarrow> dm_author_type m = AuthorType.System"

section \<open>Reviews of the evidence\<close>

datatype TeamSide = Team1 | Team2

fun TeamSide_to_string :: "TeamSide \<Rightarrow> string" where
  "TeamSide_to_string TeamSide.Team1 = ''team1''"
| "TeamSide_to_string TeamSide.Team2 = ''team2''"

record DemoValidationResult =
  dvr_is_valid :: bool
  dvr_confidence :: rat
  dvr_extracted_score :: "(int \<times> int) option"
  dvr_claimed_score :: "int \<times> int"
  dvr_map_match :: bool
  dvr_warnings :: "string list"
  dvr_errors :: "string list"

record UnrecognizedPlayer =
  up_steam_id :: string
  up_player_name :: string
  up_team_side :: TeamSide
  up_registration_side :: int

datatype ResultReviewStatus = PendingAcknowledgment | PendingAdminReview | Acknowledged | Approved | Rejected

definition ResultReviewStatus_from_str :: "string \<Rightarrow> string + ResultReviewStatus" where
  "ResultReviewStatus_from_str s = (let l = to_lowercase s in
     if l = ''pending_acknowledgment'' then Inr ResultReviewStatus.PendingAcknowledgment
     else if l = ''pending_admin_review'' then Inr ResultReviewStatus.PendingAdminReview
     else if l = ''acknowledged'' then Inr ResultReviewStatus.Acknowledged
     else if l = ''approved'' then Inr ResultReviewStatus.Approved
     else if l = ''rejected'' then Inr ResultReviewStatus.Rejected
     else Inl (''invalid result review status: '' @ s))"

definition ResultReviewStatus_is_terminal :: "ResultReviewStatus \<Rightarrow> bool" where
  "ResultReviewStatus_is_terminal s \<longleftrightarrow> s \<in> {ResultReviewStatus.Approved, ResultReviewStatus.Rejected}"

definition ResultReviewStatus_is_pending :: "ResultReviewStatus \<Rightarrow> bool" where
  "ResultReviewStatus_is_pending s \<longleftrightarrow> s \<in> {ResultReviewStatus.PendingAcknowledgment, ResultReviewStatus.PendingAdminReview}"

fun ResultReviewStatus_to_string :: "ResultReviewStatus \<Rightarrow> string" where
  "ResultReviewStatus_to_string ResultReviewStatus.PendingAcknowledgment = ''pending_acknowledgment''"
| "ResultReviewStatus_to_string ResultReviewStatus.PendingAdminReview = ''pending_admin_review''"
| "ResultReviewStatus_to_string ResultReviewStatus.Acknowledged = ''acknowledged''"
| "ResultReviewStatus_to_string ResultReviewStatus.Approved = ''approved''"
| "ResultReviewStatus_to_string ResultReviewStatus.Rejected = ''rejected''"

record ResultReview =
  rv_id :: uuid
  rv_result_claim_id :: uuid
  rv_match_id :: uuid
  rv_roster_mismatch :: bool
  rv_score_mismatch :: bool
  rv_winner_mismatch :: bool
  rv_progression_stalled :: bool
  rv_demo_link_id :: "uuid option"
  rv_validation_result :: "DemoValidationResult option"
  rv_unrecognized_players :: "UnrecognizedPlayer list"
  rv_status :: ResultReviewStatus
  rv_captain1_registration_id :: uuid
  rv_captain1_acknowledged :: bool
  rv_captain1_acknowledged_at :: "datetime option"
  rv_captain1_acknowledged_by_user_id :: "uuid option"
  rv_captain2_registration_id :: uuid
  rv_captain2_acknowledged :: bool
  rv_captain2_acknowledged_at :: "datetime option"
  rv_captain2_acknowledged_by_user_id :: "uuid option"
  rv_reviewed_by_user_id :: "uuid option"
  rv_reviewed_at :: "datetime option"
  rv_admin_notes :: "string option"
  rv_created_at :: datetime
  rv_updated_at :: datetime

definition review_of :: "uuid \<Rightarrow> datetime \<Rightarrow> uuid \<Rightarrow> uuid \<Rightarrow> uuid \<Rightarrow> uuid \<Rightarrow> ResultReview" where
  "review_of i t claim_id match_id captain1 captain2 = \<lparr>rv_id = i, rv_result_claim_id = claim_id, rv_match_id = match_id,
     rv_roster_mismatch = False, rv_score_mismatch = False, rv_winner_mismatch = False, rv_progression_stalled = False,
     rv_demo_link_id = None, rv_validation_result = None, rv_unrecognized_players = [],
     rv_status = ResultReviewStatus.PendingAdminReview,
     rv_captain1_registration_id = captain1, rv_captain1_acknowledged = False, rv_captain1_acknowledged_at = None,
     rv_captain1_acknowledged_by_user_id = None, rv_captain2_registration_id = captain2,
     rv_captain2_acknowledged = False, rv_captain2_acknowledged_at = None, rv_captain2_acknowledged_by_user_id = None,
     rv_reviewed_by_user_id = None, rv_reviewed_at = None, rv_admin_notes = None, rv_created_at = t, rv_updated_at = t\<rparr>"

definition ResultReview_for_roster_mismatch :: "uuid \<Rightarrow> datetime \<Rightarrow> uuid \<Rightarrow> uuid \<Rightarrow> uuid option \<Rightarrow>
    DemoValidationResult \<Rightarrow> UnrecognizedPlayer list \<Rightarrow> uuid \<Rightarrow> uuid \<Rightarrow> ResultReview" where
  "ResultReview_for_roster_mismatch i t claim_id match_id demo_link_id validation_result players captain1 captain2 =
     (review_of i t claim_id match_id captain1 captain2)\<lparr>rv_roster_mismatch := True, rv_demo_link_id := demo_link_id,
       rv_validation_result := Some validation_result, rv_unrecognized_players := players,
       rv_status := ResultReviewStatus.PendingAcknowledgment\<rparr>"

definition ResultReview_for_score_mismatch :: "uuid \<Rightarrow> datetime \<Rightarrow> uuid \<Rightarrow> uuid \<Rightarrow> uuid option \<Rightarrow>
    DemoValidationResult \<Rightarrow> bool \<Rightarrow> bool \<Rightarrow> UnrecognizedPlayer list \<Rightarrow> uuid \<Rightarrow> uuid \<Rightarrow> ResultReview" where
  "ResultReview_for_score_mismatch i t claim_id match_id demo_link_id validation_result score_mismatch winner_mismatch
       players captain1 captain2 =
     (review_of i t claim_id match_id captain1 captain2)\<lparr>rv_roster_mismatch := players \<noteq> [],
       rv_score_mismatch := score_mismatch, rv_winner_mismatch := winner_mismatch, rv_demo_link_id := demo_link_id,
       rv_validation_result := Some validation_result, rv_unrecognized_players := players\<rparr>"

definition ResultReview_for_progression_stall :: "uuid \<Rightarrow> datetime \<Rightarrow> uuid \<Rightarrow> uuid \<Rightarrow> uuid \<Rightarrow> uuid \<Rightarrow> ResultReview" where
  "ResultReview_for_progression_stall i t claim_id match_id captain1 captain2 =
     (review_of i t claim_id match_id captain1 captain2)\<lparr>rv_progression_stalled := True\<rparr>"

definition ResultReview_both_captains_acknowledged :: "ResultReview \<Rightarrow> bool" where
  "ResultReview_both_captains_acknowledged r \<longleftrightarrow> rv_captain1_acknowledged r \<and> rv_captain2_acknowledged r"

definition ResultReview_is_roster_only :: "ResultReview \<Rightarrow> bool" where
  "ResultReview_is_roster_only r \<longleftrightarrow> rv_roster_mismatch r \<and> \<not> rv_score_mismatch r \<and> \<not> rv_winner_mismatch r"

definition ResultReview_requires_admin :: "ResultReview \<Rightarrow> bool" where
  "ResultReview_requires_admin r \<longleftrightarrow> rv_score_mismatch r \<or> rv_winner_mismatch r \<or> rv_progression_stalled r"

definition ResultReview_has_any_mismatch :: "ResultReview \<Rightarrow> bool" where
  "ResultReview_has_any_mismatch r \<longleftrightarrow> rv_roster_mismatch r \<or> rv_score_mismatch r \<or> rv_winner_mismatch r"

definition ResultReview_get_captain_side :: "ResultReview \<Rightarrow> uuid \<Rightarrow> int option" where
  "ResultReview_get_captain_side r registration_id =
     (if registration_id = rv_captain1_registration_id r then Some 1
      else if registration_id = rv_captain2_registration_id r then Some 2 else None)"

definition ResultReview_is_captain_acknowledged :: "ResultReview \<Rightarrow> int \<Rightarrow> bool" where
  "ResultReview_is_captain_acknowledged r captain_side =
     (if captain_side = 1 then rv_captain1_acknowledged r
      else if captain_side = 2 then rv_captain2_acknowledged r else False)"

section \<open>Sagas and the log of progressions\<close>

datatype SagaStatus = Pending | Running | Paused | Completed | Failed | Compensating | Compensated

fun SagaStatus_to_string :: "SagaStatus \<Rightarrow> string" where
  "SagaStatus_to_string SagaStatus.Pending = ''pending''"
| "SagaStatus_to_string SagaStatus.Running = ''running''"
| "SagaStatus_to_string SagaStatus.Paused = ''paused''"
| "SagaStatus_to_string SagaStatus.Completed = ''completed''"
| "SagaStatus_to_string SagaStatus.Failed = ''failed''"
| "SagaStatus_to_string SagaStatus.Compensating = ''compensating''"
| "SagaStatus_to_string SagaStatus.Compensated = ''compensated''"

definition SagaStatus_from_str :: "string \<Rightarrow> string + SagaStatus" where
  "SagaStatus_from_str s = (let l = to_lowercase s in
     if l = ''pending'' then Inr SagaStatus.Pending
     else if l = ''running'' then Inr SagaStatus.Running
     else if l = ''paused'' then Inr SagaStatus.Paused
     else if l = ''completed'' then Inr SagaStatus.Completed
     else if l = ''failed'' then Inr SagaStatus.Failed
     else if l = ''compensating'' then Inr SagaStatus.Compensating
     else if l = ''compensated'' then Inr SagaStatus.Compensated
     else Inl (''invalid saga status: '' @ s))"

datatype StepStatus = Pending | Running | Completed | Failed | Skipped | Compensated

fun StepStatus_to_string :: "StepStatus \<Rightarrow> string" where
  "StepStatus_to_string StepStatus.Pending = ''pending''"
| "StepStatus_to_string StepStatus.Running = ''running''"
| "StepStatus_to_string StepStatus.Completed = ''completed''"
| "StepStatus_to_string StepStatus.Failed = ''failed''"
| "StepStatus_to_string StepStatus.Skipped = ''skipped''"
| "StepStatus_to_string StepStatus.Compensated = ''compensated''"

definition StepStatus_from_str :: "string \<Rightarrow> string + StepStatus" where
  "StepStatus_from_str s = (let l = to_lowercase s in
     if l = ''pending'' then Inr StepStatus.Pending
     else if l = ''running'' then Inr StepStatus.Running
     else if l = ''completed'' then Inr StepStatus.Completed
     else if l = ''failed'' then Inr StepStatus.Failed
     else if l = ''skipped'' then Inr StepStatus.Skipped
     else if l = ''compensated'' then Inr StepStatus.Compensated
     else Inl (''invalid step status: '' @ s))"

record StepRecord =
  sr_step :: int
  sr_name :: string
  sr_status :: StepStatus
  sr_started_at :: datetime
  sr_completed_at :: "datetime option"
  sr_output :: "json option"
  sr_error :: "string option"
  sr_retry_count :: int

record SagaExecution =
  sg_id :: uuid
  sg_saga_type :: string
  sg_saga_version :: int
  sg_tournament_id :: "uuid option"
  sg_match_id :: "uuid option"
  sg_correlation_id :: "string option"
  sg_input_data :: json
  sg_current_step :: int
  sg_status :: SagaStatus
  sg_step_history :: "StepRecord list"
  sg_last_error :: "string option"
  sg_retry_count :: int
  sg_max_retries :: int
  sg_started_at :: "datetime option"
  sg_completed_at :: "datetime option"
  sg_created_at :: datetime
  sg_updated_at :: datetime

record SagaContext =
  sgc_tournament_id :: "uuid option"
  sgc_match_id :: "uuid option"
  sgc_correlation_id :: "string option"

record CreateSagaExecution =
  csg_saga_type :: string
  csg_saga_version :: int
  csg_tournament_id :: "uuid option"
  csg_match_id :: "uuid option"
  csg_correlation_id :: "string option"
  csg_input_data :: json
  csg_max_retries :: int

definition SagaExecution_is_pending :: "SagaExecution \<Rightarrow> bool" where
  "SagaExecution_is_pending x \<longleftrightarrow> sg_status x = SagaStatus.Pending"

definition SagaExecution_is_running :: "SagaExecution \<Rightarrow> bool" where
  "SagaExecution_is_running x \<longleftrightarrow> sg_status x = SagaStatus.Running"

definition SagaExecution_is_completed :: "SagaExecution \<Rightarrow> bool" where
  "SagaExecution_is_completed x \<longleftrightarrow> sg_status x = SagaStatus.Completed"

definition SagaExecution_is_failed :: "SagaExecution \<Rightarrow> bool" where
  "SagaExecution_is_failed x \<longleftrightarrow> sg_status x = SagaStatus.Failed"

definition SagaExecution_is_paused :: "SagaExecution \<Rightarrow> bool" where
  "SagaExecution_is_paused x \<longleftrightarrow> sg_status x = SagaStatus.Paused"

definition SagaExecution_is_terminal :: "SagaExecution \<Rightarrow> bool" where
  "SagaExecution_is_terminal x \<longleftrightarrow> sg_status x \<in> {SagaStatus.Completed, SagaStatus.Failed, SagaStatus.Compensated}"

definition SagaExecution_can_retry :: "SagaExecution \<Rightarrow> bool" where
  "SagaExecution_can_retry x \<longleftrightarrow> sg_retry_count x < sg_max_retries x"

definition SagaExecution_start :: "datetime \<Rightarrow> SagaExecution \<Rightarrow> SagaExecution" where
  "SagaExecution_start t x = x\<lparr>sg_status := SagaStatus.Running, sg_started_at := Some t, sg_updated_at := t\<rparr>"

definition SagaExecution_complete_step :: "datetime \<Rightarrow> string \<Rightarrow> json option \<Rightarrow> SagaExecution \<Rightarrow> SagaExecution" where
  "SagaExecution_complete_step t step_name output x = x\<lparr>
     sg_step_history := sg_step_history x @ [\<lparr>sr_step = sg_current_step x, sr_name = step_name,
       sr_status = StepStatus.Completed, sr_started_at = t, sr_completed_at = Some t, sr_output = output,
       sr_error = None, sr_retry_count = 0\<rparr>],
     sg_current_step := sg_current_step x + 1, sg_retry_count := 0, sg_updated_at := t\<rparr>"

definition SagaExecution_fail_step :: "datetime \<Rightarrow> string \<Rightarrow> string \<Rightarrow> SagaExecution \<Rightarrow> SagaExecution" where
  "SagaExecution_fail_step t step_name error x = x\<lparr>
     sg_step_history := sg_step_history x @ [\<lparr>sr_step = sg_current_step x, sr_name = step_name,
       sr_status = StepStatus.Failed, sr_started_at = t, sr_completed_at = None, sr_output = None,
       sr_error = Some error, sr_retry_count = sg_retry_count x\<rparr>],
     sg_last_error := Some error, sg_retry_count := sg_retry_count x + 1, sg_updated_at := t\<rparr>"

definition SagaExecution_complete :: "datetime \<Rightarrow> SagaExecution \<Rightarrow> SagaExecution" where
  "SagaExecution_complete t x = x\<lparr>sg_status := SagaStatus.Completed, sg_completed_at := Some t, sg_updated_at := t\<rparr>"

definition SagaExecution_fail :: "datetime \<Rightarrow> string \<Rightarrow> SagaExecution \<Rightarrow> SagaExecution" where
  "SagaExecution_fail t error x = x\<lparr>sg_status := SagaStatus.Failed,
     sg_last_error := Some error, sg_completed_at := Some t, sg_updated_at := t\<rparr>"

definition SagaExecution_pause :: "datetime \<Rightarrow> string \<Rightarrow> SagaExecution \<Rightarrow> SagaExecution" where
  "SagaExecution_pause t reason x = x\<lparr>sg_status := SagaStatus.Paused,
     sg_last_error := Some reason, sg_updated_at := t\<rparr>"

definition SagaExecution_start_compensation :: "datetime \<Rightarrow> SagaExecution \<Rightarrow> SagaExecution" where
  "SagaExecution_start_compensation t x = x\<lparr>sg_status := SagaStatus.Compensating, sg_updated_at := t\<rparr>"

definition SagaExecution_complete_compensation :: "datetime \<Rightarrow> SagaExecution \<Rightarrow> SagaExecution" where
  "SagaExecution_complete_compensation t x = x\<lparr>sg_status := SagaStatus.Compensated, sg_completed_at := Some t, sg_updated_at := t\<rparr>"

definition SagaContext_with_tournament :: "uuid \<Rightarrow> SagaContext" where
  "SagaContext_with_tournament t = \<lparr>sgc_tournament_id = Some t, sgc_match_id = None, sgc_correlation_id = None\<rparr>"

definition SagaContext_with_match :: "uuid \<Rightarrow> uuid \<Rightarrow> SagaContext" where
  "SagaContext_with_match m t = \<lparr>sgc_tournament_id = Some t, sgc_match_id = Some m, sgc_correlation_id = None\<rparr>"

datatype ProgressionType = WinnerAdvance | LoserDrop | LoserEliminate | ByeAdvance

fun ProgressionType_to_string :: "ProgressionType \<Rightarrow> string" where
  "ProgressionType_to_string ProgressionType.WinnerAdvance = ''winner_advance''"
| "ProgressionType_to_string ProgressionType.LoserDrop = ''loser_drop''"
| "ProgressionType_to_string ProgressionType.LoserEliminate = ''loser_eliminate''"
| "ProgressionType_to_string ProgressionType.ByeAdvance = ''bye_advance''"

definition ProgressionType_from_str :: "string \<Rightarrow> string + ProgressionType" where
  "ProgressionType_from_str s = (let l = to_lowercase s in
     if l = ''winner_advance'' then Inr ProgressionType.WinnerAdvance
     else if l = ''loser_drop'' then Inr ProgressionType.LoserDrop
     else if l = ''loser_eliminate'' then Inr ProgressionType.LoserEliminate
     else if l = ''bye_advance'' then Inr ProgressionType.ByeAdvance
     else Inl (''invalid progression type: '' @ s))"

record ProgressionLog =
  pl_id :: uuid
  pl_source_match_id :: uuid
  pl_target_match_id :: "uuid option"
  pl_registration_id :: uuid
  pl_progression_type :: ProgressionType
  pl_target_position :: "int option"
  pl_saga_id :: "uuid option"
  pl_progressed_at :: datetime

record CreateProgressionLog =
  cpl_source_match_id :: uuid
  cpl_target_match_id :: "uuid option"
  cpl_registration_id :: uuid
  cpl_progression_type :: ProgressionType
  cpl_target_position :: "int option"
  cpl_saga_id :: "uuid option"

section \<open>Corrections and demo links\<close>

datatype ChangeType = Create | Update | Delete | Revert

fun ChangeType_to_string :: "ChangeType \<Rightarrow> string" where
  "ChangeType_to_string ChangeType.Create = ''create''"
| "ChangeType_to_string ChangeType.Update = ''update''"
| "ChangeType_to_string ChangeType.Delete = ''delete''"
| "ChangeType_to_string ChangeType.Revert = ''revert''"

definition ChangeType_from_str :: "string \<Rightarrow> string + ChangeType" where
  "ChangeType_from_str s = (let l = to_lowercase s in
     if l = ''create'' then Inr ChangeType.Create
     else if l = ''update'' then Inr ChangeType.Update
     else if l = ''delete'' then Inr ChangeType.Delete
     else if l = ''revert'' then Inr ChangeType.Revert
     else Inl (''Unknown change type: '' @ s))"

record EntityChange =
  ec_id :: uuid
  ec_entity_type :: string
  ec_entity_id :: uuid
  ec_change_type :: ChangeType
  ec_field_name :: "string option"
  ec_old_value :: "json option"
  ec_new_value :: "json option"
  ec_changed_by :: uuid
  ec_reverted_at :: "datetime option"
  ec_reverted_by :: "uuid option"
  ec_revert_reason :: "string option"
  ec_request_id :: "string option"
  ec_ip_address :: "string option"
  ec_user_agent :: "string option"
  ec_created_at :: datetime

record CreateEntityChange =
  cec_entity_type :: string
  cec_entity_id :: uuid
  cec_change_type :: ChangeType
  cec_field_name :: "string option"
  cec_old_value :: "json option"
  cec_new_value :: "json option"
  cec_changed_by :: uuid
  cec_request_id :: "string option"
  cec_ip_address :: "string option"
  cec_user_agent :: "string option"

record DemoMatchLink =
  dml_id :: uuid
  dml_demo_id :: uuid
  dml_match_id :: uuid
  dml_game_number :: "int option"
  dml_link_type :: DemoLinkType
  dml_confidence_score :: "rat option"
  dml_validated :: bool
  dml_validated_at :: "datetime option"
  dml_validation_result :: "json option"
  dml_linked_by_user_id :: "uuid option"
  dml_linked_at :: datetime
  dml_created_at :: datetime

section \<open>Text codecs\<close>

interpretation claim_status: strict_codec ClaimStatus_to_string ClaimStatus_from_str
proof (rule strict_codecI)
  fix x s
  show "to_lowercase (ClaimStatus_to_string x) = ClaimStatus_to_string x" by (cases x) simp_all
  show "ClaimStatus_from_str s = Inr x \<longleftrightarrow> to_lowercase s = ClaimStatus_to_string x"
    by (cases x) (auto simp: ClaimStatus_from_str_def Let_def)
qed

interpretation dispute_reason: strict_codec DisputeReason_to_string DisputeReason_from_str
proof (rule strict_codecI)
  fix x s
  show "to_lowercase (DisputeReason_to_string x) = DisputeReason_to_string x" by (cases x) simp_all
  show "DisputeReason_from_str s = Inr x \<longleftrightarrow> to_lowercase s = DisputeReason_to_string x"
    by (cases x) (auto simp: DisputeReason_from_str_def Let_def)
qed

interpretation dispute_status: strict_codec DisputeStatus_to_string DisputeStatus_from_str
proof (rule strict_codecI)
  fix x s
  show "to_lowercase (DisputeStatus_to_string x) = DisputeStatus_to_string x" by (cases x) simp_all
  show "DisputeStatus_from_str s = Inr x \<longleftrightarrow> to_lowercase s = DisputeStatus_to_string x"
    by (cases x) (auto simp: DisputeStatus_from_str_def Let_def)
qed

interpretation dispute_priority: strict_codec DisputePriority_to_string DisputePriority_from_str
proof (rule strict_codecI)
  fix x s
  show "to_lowercase (DisputePriority_to_string x) = DisputePriority_to_string x" by (cases x) simp_all
  show "DisputePriority_from_str s = Inr x \<longleftrightarrow> to_lowercase s = DisputePriority_to_string x"
    by (cases x) (auto simp: DisputePriority_from_str_def Let_def)
qed

interpretation resolution_type: strict_codec ResolutionType_to_string ResolutionType_from_str
proof (rule strict_codecI)
  fix x s
  show "to_lowercase (ResolutionType_to_string x) = ResolutionType_to_string x" by (cases x) simp_all
  show "ResolutionType_from_str s = Inr x \<longleftrightarrow> to_lowercase s = ResolutionType_to_string x"
    by (cases x) (auto simp: ResolutionType_from_str_def Let_def)
qed

interpretation author_type: strict_codec AuthorType_to_string AuthorType_from_str
proof (rule strict_codecI)
  fix x s
  show "to_lowercase (AuthorType_to_string x) = AuthorType_to_string x" by (cases x) simp_all
  show "AuthorType_from_str s = Inr x \<longleftrightarrow> to_lowercase s = AuthorType_to_string x"
    by (cases x) (auto simp: AuthorType_from_str_def Let_def)
qed

interpretation result_review_status: strict_codec ResultReviewStatus_to_string ResultReviewStatus_from_str
proof (rule strict_codecI)
  fix x s
  show "to_lowercase (ResultReviewStatus_to_string x) = ResultReviewStatus_to_string x" by (cases x) simp_all
  show "ResultReviewStatus_from_str s = Inr x \<longleftrightarrow> to_lowercase s = ResultReviewStatus_to_string x"
    by (cases x) (auto simp: ResultReviewStatus_from_str_def Let_def)
qed

interpretation saga_status: strict_codec SagaStatus_to_string SagaStatus_from_str
proof (rule strict_codecI)
  fix x s
  show "to_lowercase (SagaStatus_to_string x) = SagaStatus_to_string x" by (cases x) simp_all
  show "SagaStatus_from_str s = Inr x \<longleftrightarrow> to_lowercase s = SagaStatus_to_string x"
    by (cases x) (auto simp: SagaStatus_from_str_def Let_def)
qed

interpretation step_status: strict_codec StepStatus_to_string StepStatus_from_str
proof (rule strict_codecI)
  fix x s
  show "to_lowercase (StepStatus_to_string x) = StepStatus_to_string x" by (cases x) simp_all
  show "StepStatus_from_str s = Inr x \<longleftrightarrow> to_lowercase s = StepStatus_to_string x"
    by (cases x) (auto simp: StepStatus_from_str_def Let_def)
qed

interpretation progression_type: strict_codec ProgressionType_to_string ProgressionType_from_str
proof (rule strict_codecI)
  fix x s
  show "to_lowercase (ProgressionType_to_string x) = ProgressionType_to_string x" by (cases x) simp_all
  show "ProgressionType_from_str s = Inr x \<longleftrightarrow> to_lowercase s = ProgressionType_to_string x"
    by (cases x) (auto simp: ProgressionType_from_str_def Let_def)
qed

interpretation change_type: strict_codec ChangeType_to_string ChangeType_from_str
proof (rule strict_codecI)
  fix x s
  show "to_lowercase (ChangeType_to_string x) = ChangeType_to_string x" by (cases x) simp_all
  show "ChangeType_from_str s = Inr x \<longleftrightarrow> to_lowercase s = ChangeType_to_string x"
    by (cases x) (auto simp: ChangeType_from_str_def Let_def)
qed

end
