(* ===== verification/World.thy ===== *)
theory World
  imports Tables VetoTypes ResultTypes
begin

text \<open>
  The world the services act on: one list of rows per database table, the clock, the supply
  of fresh ids, the random source, and what comes from outside the repository (formatted times, the
  messages of the SQL library, the order of texts in the database). A service operation is a program over this world; every
  awaited repository call is one atomic step, the calls of one operation run in sequence,
  and the clock does not move while an operation runs.
\<close>

section \<open>Log rows and byes\<close>

record MatchStatusLog =
  l_id :: uuid
  l_match_id :: uuid
  l_from_status :: TournamentMatchStatus
  l_to_status :: TournamentMatchStatus
  l_transition_reason :: "string option"
  l_triggered_by_user_id :: "uuid option"
  l_triggered_by_system :: bool
  l_metadata :: json
  l_transitioned_at :: datetime

record MatchStatusLogRow =
  lr_id :: uuid
  lr_match_id :: uuid
  lr_from_status :: string
  lr_to_status :: string
  lr_transition_reason :: "string option"
  lr_triggered_by_user_id :: "uuid option"
  lr_triggered_by_system :: bool
  lr_metadata :: json
  lr_transitioned_at :: datetime

record CreateMatchStatusLog =
  cl_match_id :: uuid
  cl_from_status :: TournamentMatchStatus
  cl_to_status :: TournamentMatchStatus
  cl_transition_reason :: "string option"
  cl_triggered_by_user_id :: "uuid option"
  cl_triggered_by_system :: bool
  cl_metadata :: json

text \<open>A row of \<open>tournament_bracket_byes\<close>, keyed by bracket, registration and round.\<close>

record BracketBye =
  bb_bracket_id :: uuid
  bb_registration_id :: uuid
  bb_round :: int
  bb_points :: int

section \<open>The world\<close>

text \<open>
  What can go wrong in a statement, as far as the model goes: the row is missing, a unique
  key is taken, a check of the table refuses the row, a text is longer than its column. A lost connection is not modelled.
\<close>

datatype sql_error = RowNotFound | UniqueViolation string | CheckViolation string | ValueTooLong nat

record world =
  w_now :: datetime
  w_next :: nat
  w_uuids :: "nat \<Rightarrow> uuid"
  w_show_time :: "datetime \<Rightarrow> string"
  w_sql_error :: "sql_error \<Rightarrow> string"
  w_text_le :: "string \<Rightarrow> string \<Rightarrow> bool"
  w_random :: "nat \<Rightarrow> nat"
  w_drawn :: nat
  w_tournaments :: "Tournament list"
  w_stages :: "TournamentStage list"
  w_brackets :: "TournamentBracket list"
  w_registrations :: "TournamentRegistration list"
  w_matches :: "TournamentMatch list"
  w_logs :: "MatchStatusLogRow list"
  w_standings :: "TournamentStanding list"
  w_byes :: "BracketBye list"
  w_sessions :: "VetoSession list"
  w_actions :: "VetoAction list"
  w_members :: "LeagueTeamMember list"
  w_adhoc_teams :: "AdhocTeam list"
  w_adhoc_members :: "AdhocTeamMember list"
  w_invitations :: "TournamentInvitation list"
  w_map_pools :: "TournamentMapPool list"
  w_forfeits :: "ForfeitRecord list"
  w_claims :: "ResultClaim list"
  w_disputes :: "Dispute list"
  w_dispute_messages :: "DisputeMessage list"
  w_reviews :: "ResultReview list"
  w_sagas :: "SagaExecution list"
  w_progressions :: "ProgressionLog list"
  w_changes :: "EntityChange list"
  w_demo_links :: "DemoMatchLink list"

type_synonym 'a service = "(world, DomainError, 'a) prog"

definition now :: "datetime service" where
  "now = sget w_now"

definition new_uuid :: "uuid service" where
  "new_uuid w = (Inr (w_uuids w (w_next w)), w\<lparr>w_next := Suc (w_next w)\<rparr>)"

text \<open>The next number of the random source.\<close>

definition draw :: "nat service" where
  "draw w = (Inr (w_random w (w_drawn w)), w\<lparr>w_drawn := Suc (w_drawn w)\<rparr>)"

definition db_error :: "sql_error \<Rightarrow> world \<Rightarrow> DomainError" where
  "db_error e w = Internal (w_sql_error w e)"

lemma now_run [simp, prog_simps]: "now w = (Inr (w_now w), w)"
  by (simp add: now_def)

lemma keeps_now [keeps_intros]: "keeps I now"
  by (simp add: now_def keeps_sget)

interpretation tournament_table: row_table w_tournaments w_tournaments_update t_id
  by unfold_locales simp

interpretation stage_table: row_table w_stages w_stages_update st_id
  by unfold_locales simp

interpretation bracket_table: row_table w_brackets w_brackets_update b_id
  by unfold_locales simp

interpretation registration_table: row_table w_registrations w_registrations_update r_id
  by unfold_locales simp

interpretation match_table: row_table w_matches w_matches_update m_id
  by unfold_locales simp

interpretation log_table: row_table w_logs w_logs_update lr_id
  by unfold_locales simp

interpretation standing_table: row_table w_standings w_standings_update s_id
  by unfold_locales simp

interpretation veto_session_table: row_table w_sessions w_sessions_update vs_id
  by unfold_locales simp

interpretation veto_action_table: row_table w_actions w_actions_update va_id
  by unfold_locales simp

interpretation member_table: row_table w_members w_members_update lm_id
  by unfold_locales simp

interpretation adhoc_team_table: row_table w_adhoc_teams w_adhoc_teams_update at_id
  by unfold_locales simp

interpretation invitation_table: row_table w_invitations w_invitations_update inv_id
  by unfold_locales simp

interpretation map_pool_table: row_table w_map_pools w_map_pools_update mp_id
  by unfold_locales simp

interpretation forfeit_table: row_table w_forfeits w_forfeits_update fr_id
  by unfold_locales simp

interpretation claim_table: row_table w_claims w_claims_update rc_id
  by unfold_locales simp

interpretation dispute_table: row_table w_disputes w_disputes_update ds_id
  by unfold_locales simp

interpretation review_table: row_table w_reviews w_reviews_update rv_id
  by unfold_locales simp

interpretation saga_table: row_table w_sagas w_sagas_update sg_id
  by unfold_locales simp

text \<open>An empty world, from which the examples are built.\<close>

definition empty_world :: world where
  "empty_world =
     \<lparr>w_now = 0, w_next = 0, w_uuids = show_nat, w_show_time = show_int, w_sql_error = (\<lambda>_. ''sql error''),
      w_text_le = (\<lambda>_ _. True), w_random = (\<lambda>n. n), w_drawn = 0, w_tournaments = [], w_stages = [], w_brackets = [],
      w_registrations = [], w_matches = [], w_logs = [], w_standings = [], w_byes = [],
      w_sessions = [], w_actions = [], w_members = [], w_adhoc_teams = [], w_adhoc_members = [],
      w_invitations = [], w_map_pools = [], w_forfeits = [], w_claims = [], w_disputes = [],
      w_dispute_messages = [], w_reviews = [], w_sagas = [], w_progressions = [], w_changes = [], w_demo_links = []\<rparr>"

end
