(* ===== verification/MatchRepo.thy ===== *)
theory MatchRepo
  imports World
begin

text \<open>
  The match table and the status log (\<open>portal-db/src/adapters/tournament/match_.rs\<close> and
  \<open>match_status_log.rs\<close>): every statement as a program over the world. \<open>fetch_one\<close> on a
  missing row is an internal error with the message of the SQL library; a list is ordered by
  the statement's \<open>ORDER BY\<close>, rows that it does not separate keep their insertion order.
\<close>

datatype ParticipantSlot = One | Two

record UpdateTournamentMatch =
  u_scheduled_at :: "datetime option"
  u_schedule_deadline :: "datetime option"
  u_stream_url :: "string option"
  u_vod_url :: "string option"

section \<open>Single rows\<close>

definition match_find_by_id :: "uuid \<Rightarrow> TournamentMatch option service" where
  "match_find_by_id i = sget (\<lambda>w. find_row m_id i (w_matches w))"

definition match_find_by_position :: "uuid \<Rightarrow> string \<Rightarrow> TournamentMatch option service" where
  "match_find_by_position bracket_id position =
     sget (\<lambda>w. find (\<lambda>m. m_bracket_id m = bracket_id \<and> m_bracket_position m = position) (w_matches w))"

text \<open>\<open>UPDATE tournament_matches SET .. WHERE id = $1 RETURNING *\<close> at the time of the call.\<close>

definition match_set :: "uuid \<Rightarrow> (datetime \<Rightarrow> TournamentMatch \<Rightarrow> TournamentMatch) \<Rightarrow> TournamentMatch service" where
  "match_set i f = sbind now (\<lambda>t.
     update_returning w_matches w_matches_update m_id (db_error RowNotFound) i (f t))"

definition match_update :: "uuid \<Rightarrow> UpdateTournamentMatch \<Rightarrow> TournamentMatch service" where
  "match_update i u = match_set i (\<lambda>t m. m\<lparr>
     m_scheduled_at := coalesce (u_scheduled_at u) (m_scheduled_at m),
     m_schedule_deadline := coalesce (u_schedule_deadline u) (m_schedule_deadline m),
     m_stream_url := coalesce (u_stream_url u) (m_stream_url m),
     m_vod_url := coalesce (u_vod_url u) (m_vod_url m),
     m_updated_at := t\<rparr>)"

definition match_update_status :: "uuid \<Rightarrow> TournamentMatchStatus \<Rightarrow> TournamentMatch service" where
  "match_update_status i status = match_set i (\<lambda>t m. m\<lparr>m_status := status, m_updated_at := t\<rparr>)"

definition match_set_veto_required :: "uuid \<Rightarrow> bool \<Rightarrow> TournamentMatch service" where
  "match_set_veto_required i veto_required =
     match_set i (\<lambda>t m. m\<lparr>m_veto_required := veto_required, m_updated_at := t\<rparr>)"

definition match_set_check_in_deadline :: "uuid \<Rightarrow> datetime \<Rightarrow> TournamentMatch service" where
  "match_set_check_in_deadline i deadline =
     match_set i (\<lambda>t m. m\<lparr>m_check_in_deadline := Some deadline, m_updated_at := t\<rparr>)"

definition match_assign_participant :: "uuid \<Rightarrow> ParticipantSlot \<Rightarrow> uuid \<Rightarrow> string \<Rightarrow> string option \<Rightarrow>
    int option \<Rightarrow> TournamentMatch service" where
  "match_assign_participant i slot registration_id nam logo_url seed =
     match_set i (\<lambda>t m. case slot of
        One \<Rightarrow> m\<lparr>m_participant1_registration_id := Some registration_id, m_participant1_name := Some nam,
          m_participant1_logo_url := logo_url, m_participant1_seed := seed, m_updated_at := t\<rparr>
      | Two \<Rightarrow> m\<lparr>m_participant2_registration_id := Some registration_id, m_participant2_name := Some nam,
          m_participant2_logo_url := logo_url, m_participant2_seed := seed, m_updated_at := t\<rparr>)"

text \<open>Clearing a slot uses \<open>fetch_optional\<close> and names the missing match.\<close>

definition match_clear_participant :: "uuid \<Rightarrow> ParticipantSlot \<Rightarrow> TournamentMatch service" where
  "match_clear_participant i slot = sbind now (\<lambda>t.
     update_returning w_matches w_matches_update m_id (\<lambda>_. TournamentMatchNotFound i) i (\<lambda>m. case slot of
        One \<Rightarrow> m\<lparr>m_participant1_registration_id := None, m_participant1_name := None,
          m_participant1_logo_url := None, m_participant1_seed := None, m_updated_at := t\<rparr>
      | Two \<Rightarrow> m\<lparr>m_participant2_registration_id := None, m_participant2_name := None,
          m_participant2_logo_url := None, m_participant2_seed := None, m_updated_at := t\<rparr>))"

definition match_submit_result :: "uuid \<Rightarrow> int \<Rightarrow> int \<Rightarrow> uuid \<Rightarrow> uuid \<Rightarrow> TournamentMatch service" where
  "match_submit_result i score1 score2 winner_id loser_id =
     match_set i (\<lambda>t m. m\<lparr>m_participant1_score := score1, m_participant2_score := score2,
        m_winner_registration_id := Some winner_id, m_loser_registration_id := Some loser_id,
        m_completed_at := Some t, m_status := TournamentMatchStatus.Completed, m_updated_at := t\<rparr>)"

definition match_clear_result :: "uuid \<Rightarrow> TournamentMatch service" where
  "match_clear_result i = match_set i (\<lambda>t m. m\<lparr>m_winner_registration_id := None,
     m_loser_registration_id := None, m_completed_at := None, m_updated_at := t\<rparr>)"

definition match_schedule :: "uuid \<Rightarrow> datetime \<Rightarrow> TournamentMatch service" where
  "match_schedule i scheduled_at = match_set i (\<lambda>t m. m\<lparr>m_scheduled_at := Some scheduled_at, m_updated_at := t\<rparr>)"

definition match_start :: "uuid \<Rightarrow> TournamentMatch service" where
  "match_start i = match_set i (\<lambda>t m. m\<lparr>m_started_at := Some t,
     m_status := TournamentMatchStatus.InProgress, m_updated_at := t\<rparr>)"

definition match_check_in_participant :: "uuid \<Rightarrow> ParticipantSlot \<Rightarrow> uuid \<Rightarrow> TournamentMatch service" where
  "match_check_in_participant i slot checked_in_by = match_set i (\<lambda>t m. case slot of
      One \<Rightarrow> m\<lparr>m_participant1_checked_in_at := Some t, m_participant1_checked_in_by := Some checked_in_by,
        m_updated_at := t\<rparr>
    | Two \<Rightarrow> m\<lparr>m_participant2_checked_in_at := Some t, m_participant2_checked_in_by := Some checked_in_by,
        m_updated_at := t\<rparr>)"

definition match_complete :: "uuid \<Rightarrow> TournamentMatch service" where
  "match_complete i = match_set i (\<lambda>t m. m\<lparr>m_completed_at := Some t,
     m_status := TournamentMatchStatus.Completed, m_updated_at := t\<rparr>)"

definition match_forfeit :: "uuid \<Rightarrow> uuid \<Rightarrow> uuid \<Rightarrow> TournamentMatch service" where
  "match_forfeit i winner_id loser_id = match_set i (\<lambda>t m. m\<lparr>m_winner_registration_id := Some winner_id,
     m_loser_registration_id := Some loser_id, m_completed_at := Some t,
     m_status := TournamentMatchStatus.Forfeit, m_updated_at := t\<rparr>)"

definition match_file_dispute :: "uuid \<Rightarrow> string \<Rightarrow> TournamentMatch service" where
  "match_file_dispute i reason = match_set i (\<lambda>t m. m\<lparr>m_disputed := True, m_dispute_reason := Some reason,
     m_status := TournamentMatchStatus.Disputed, m_updated_at := t\<rparr>)"

definition match_resolve_dispute :: "uuid \<Rightarrow> uuid \<Rightarrow> string \<Rightarrow> TournamentMatch service" where
  "match_resolve_dispute i resolved_by resolution = match_set i (\<lambda>t m. m\<lparr>
     m_dispute_resolved_by := Some resolved_by, m_dispute_resolution := Some resolution,
     m_dispute_resolved_at := Some t, m_updated_at := t\<rparr>)"

text \<open>Two statements that report no missing row: the links, and the deletion.\<close>

definition match_set_progression_links :: "uuid \<Rightarrow> uuid option \<Rightarrow> uuid option \<Rightarrow> unit service" where
  "match_set_progression_links i winner_to loser_to =
     smodify (w_matches_update (modify_row m_id i (\<lambda>m. m\<lparr>m_winner_progresses_to := winner_to,
       m_loser_progresses_to := loser_to\<rparr>)))"

definition match_delete :: "uuid \<Rightarrow> unit service" where
  "match_delete i = smodify (w_matches_update (filter (\<lambda>m. m_id m \<noteq> i)))"

definition match_delete_by_bracket :: "uuid \<Rightarrow> unit service" where
  "match_delete_by_bracket b = smodify (w_matches_update (filter (\<lambda>m. m_bracket_id m \<noteq> b)))"

definition match_mark_pending_as_ready_bulk :: "uuid list \<Rightarrow> nat service" where
  "match_mark_pending_as_ready_bulk ids =
     (if ids = [] then sret 0
      else sbind now (\<lambda>t. sbind
        (sget (\<lambda>w. length (filter (\<lambda>m. m_id m \<in> set ids \<and> m_status m = TournamentMatchStatus.Pending) (w_matches w))))
        (\<lambda>affected. sbind
          (smodify (w_matches_update (map (\<lambda>m.
             if m_id m \<in> set ids \<and> m_status m = TournamentMatchStatus.Pending
             then m\<lparr>m_status := TournamentMatchStatus.Ready, m_updated_at := t\<rparr> else m))))
          (\<lambda>_. sret affected))))"

section \<open>Creation\<close>

text \<open>The row of an \<open>INSERT\<close>: the bound columns, and the column defaults of the schema.\<close>

definition match_of_create :: "uuid \<Rightarrow> datetime \<Rightarrow> CreateTournamentMatch \<Rightarrow> TournamentMatch" where
  "match_of_create i t c =
     \<lparr>m_id = i, m_bracket_id = c_bracket_id c, m_stage_id = c_stage_id c, m_tournament_id = c_tournament_id c,
      m_round = c_round c, m_match_number = c_match_number c, m_bracket_position = c_bracket_position c,
      m_participant1_registration_id = c_participant1_registration_id c,
      m_participant2_registration_id = c_participant2_registration_id c,
      m_participant1_name = c_participant1_name c, m_participant1_logo_url = c_participant1_logo_url c,
      m_participant1_seed = c_participant1_seed c, m_participant2_name = c_participant2_name c,
      m_participant2_logo_url = c_participant2_logo_url c, m_participant2_seed = c_participant2_seed c,
      m_participant1_source = c_participant1_source c, m_participant2_source = c_participant2_source c,
      m_match_format = c_match_format c, m_maps_required = c_maps_required c,
      m_scheduled_at = None, m_schedule_deadline = None, m_started_at = None, m_completed_at = None,
      m_participant1_score = 0, m_participant2_score = 0,
      m_winner_registration_id = None, m_loser_registration_id = None,
      m_winner_progresses_to = c_winner_progresses_to c, m_loser_progresses_to = c_loser_progresses_to c,
      m_status = TournamentMatchStatus.Pending, m_disputed = False, m_dispute_reason = None,
      m_dispute_resolved_by = None, m_dispute_resolution = None, m_dispute_resolved_at = None,
      m_stream_url = None, m_vod_url = None, m_check_in_opens_at = None, m_check_in_deadline = None,
      m_participant1_checked_in_at = None, m_participant2_checked_in_at = None,
      m_participant1_checked_in_by = None, m_participant2_checked_in_by = None,
      m_veto_required = False, m_check_in_required = False, m_created_at = t, m_updated_at = t\<rparr>"

text \<open>The \<open>UNIQUE (bracket_id, bracket_position)\<close> of the table.\<close>

definition match_position_taken :: "TournamentMatch \<Rightarrow> world \<Rightarrow> bool" where
  "match_position_taken m w \<longleftrightarrow> (\<exists>x \<in> set (w_matches w).
     m_bracket_id x = m_bracket_id m \<and> m_bracket_position x = m_bracket_position m)"

definition match_insert :: "TournamentMatch \<Rightarrow> TournamentMatch service" where
  "match_insert m w =
     (if match_position_taken m w then (Inl (db_error (UniqueViolation ''tournament_matches_unique_position'') w), w)
      else insert_returning w_matches_update m w)"

definition match_create :: "CreateTournamentMatch \<Rightarrow> TournamentMatch service" where
  "match_create c = sbind new_uuid (\<lambda>i. sbind now (\<lambda>t. match_insert (match_of_create i t c)))"

text \<open>One transaction: the first failing insertion rolls all of them back.\<close>

definition transaction :: "'a service \<Rightarrow> 'a service" where
  "transaction m w = (case m w of (Inl e, w') \<Rightarrow> (Inl e, w\<lparr>w_next := w_next w'\<rparr>) | (Inr a, w') \<Rightarrow> (Inr a, w'))"

definition match_bulk_create :: "CreateTournamentMatch list \<Rightarrow> TournamentMatch list service" where
  "match_bulk_create matches =
     (if matches = [] then sret []
      else transaction (sbind now (\<lambda>t.
        smap (\<lambda>c. sbind new_uuid (\<lambda>i. match_insert (match_of_create i t c))) matches)))"

section \<open>Lists\<close>

text \<open>\<open>ORDER BY round ASC, match_number ASC\<close>.\<close>

definition round_le :: "TournamentMatch \<Rightarrow> TournamentMatch \<Rightarrow> bool" where
  "round_le a b \<longleftrightarrow> m_round a < m_round b \<or> m_round a = m_round b \<and> m_match_number a \<le> m_match_number b"

definition match_list_by_bracket :: "uuid \<Rightarrow> TournamentMatch list service" where
  "match_list_by_bracket b = sget (\<lambda>w. sort_by round_le (filter (\<lambda>m. m_bracket_id m = b) (w_matches w)))"

definition match_list_by_stage :: "uuid \<Rightarrow> TournamentMatch list service" where
  "match_list_by_stage s = sget (\<lambda>w. sort_by round_le (filter (\<lambda>m. m_stage_id m = s) (w_matches w)))"

definition match_list_by_tournament :: "uuid \<Rightarrow> TournamentMatch list service" where
  "match_list_by_tournament t = sget (\<lambda>w. sort_by round_le (filter (\<lambda>m. m_tournament_id m = t) (w_matches w)))"

definition match_list_by_round :: "uuid \<Rightarrow> int \<Rightarrow> TournamentMatch list service" where
  "match_list_by_round b r = sget (\<lambda>w.
     sort_by (\<lambda>x y. m_match_number x \<le> m_match_number y)
       (filter (\<lambda>m. m_bracket_id m = b \<and> m_round m = r) (w_matches w)))"

definition match_list_by_status :: "uuid \<Rightarrow> TournamentMatchStatus \<Rightarrow> TournamentMatch list service" where
  "match_list_by_status t s = sget (\<lambda>w.
     sort_by round_le (filter (\<lambda>m. m_tournament_id m = t \<and> m_status m = s) (w_matches w)))"

definition match_list_by_participant :: "uuid \<Rightarrow> TournamentMatch list service" where
  "match_list_by_participant r = sget (\<lambda>w.
     sort_by round_le (filter (\<lambda>m. m_participant1_registration_id m = Some r \<or>
       m_participant2_registration_id m = Some r) (w_matches w)))"

text \<open>The jobs' queries: a nullable column is compared, ordered and limited.\<close>

definition opt_le :: "'a :: linorder option \<Rightarrow> 'a option \<Rightarrow> bool" where
  "opt_le x y = (case (x, y) of (Some a, Some b) \<Rightarrow> a \<le> b | (_, None) \<Rightarrow> True | (None, Some _) \<Rightarrow> False)"

definition match_list_scheduled_due :: "datetime \<Rightarrow> nat \<Rightarrow> TournamentMatch list service" where
  "match_list_scheduled_due before limit = sget (\<lambda>w.
     take limit (sort_by (\<lambda>x y. opt_le (m_scheduled_at x) (m_scheduled_at y))
       (filter (\<lambda>m. m_status m = TournamentMatchStatus.Scheduled \<and>
          (case m_scheduled_at m of None \<Rightarrow> False | Some t \<Rightarrow> t \<le> before)) (w_matches w))))"

definition match_list_checkin_expired :: "datetime \<Rightarrow> nat \<Rightarrow> TournamentMatch list service" where
  "match_list_checkin_expired t limit = sget (\<lambda>w.
     take limit (sort_by (\<lambda>x y. opt_le (m_check_in_deadline x) (m_check_in_deadline y))
       (filter (\<lambda>m. m_status m = TournamentMatchStatus.CheckingIn \<and>
          (case m_check_in_deadline m of None \<Rightarrow> False | Some d \<Rightarrow> d < t)) (w_matches w))))"

definition match_list_checkin_missing_deadline :: "nat \<Rightarrow> TournamentMatch list service" where
  "match_list_checkin_missing_deadline limit = sget (\<lambda>w.
     take limit (sort_by (\<lambda>x y. m_updated_at x \<le> m_updated_at y)
       (filter (\<lambda>m. m_status m = TournamentMatchStatus.CheckingIn \<and> m_check_in_deadline m = None) (w_matches w))))"

definition match_list_upcoming :: "uuid \<Rightarrow> nat \<Rightarrow> TournamentMatch list service" where
  "match_list_upcoming i limit = sget (\<lambda>w.
     take limit (sort_by (\<lambda>x y. opt_le (m_scheduled_at x) (m_scheduled_at y))
       (filter (\<lambda>m. m_tournament_id m = i \<and>
          (case m_scheduled_at m of None \<Rightarrow> False | Some t \<Rightarrow> t > w_now w) \<and>
          m_status m \<in> {TournamentMatchStatus.Ready, TournamentMatchStatus.Scheduled}) (w_matches w))))"

section \<open>The status log\<close>

text \<open>\<open>transition_reason VARCHAR(256)\<close>: a longer text fails the statement.\<close>

definition reason_fits :: "string option \<Rightarrow> bool" where
  "reason_fits r = (case r of None \<Rightarrow> True | Some t \<Rightarrow> length t \<le> 256)"

definition row_to_domain :: "MatchStatusLogRow \<Rightarrow> DomainError + MatchStatusLog" where
  "row_to_domain row =
     (case TournamentMatchStatus_from_str (lr_from_status row) of
        Inl e \<Rightarrow> Inl (Internal (''Invalid from_status: '' @ e))
      | Inr from_status \<Rightarrow> (case TournamentMatchStatus_from_str (lr_to_status row) of
          Inl e \<Rightarrow> Inl (Internal (''Invalid to_status: '' @ e))
        | Inr to_status \<Rightarrow> Inr \<lparr>l_id = lr_id row, l_match_id = lr_match_id row,
            l_from_status = from_status, l_to_status = to_status,
            l_transition_reason = lr_transition_reason row,
            l_triggered_by_user_id = lr_triggered_by_user_id row,
            l_triggered_by_system = lr_triggered_by_system row, l_metadata = lr_metadata row,
            l_transitioned_at = lr_transitioned_at row\<rparr>))"

definition log_create :: "CreateMatchStatusLog \<Rightarrow> MatchStatusLog service" where
  "log_create l = sbind now (\<lambda>t. sbind new_uuid (\<lambda>i. sbind
     (\<lambda>w. if reason_fits (cl_transition_reason l)
          then insert_returning w_logs_update
            \<lparr>lr_id = i, lr_match_id = cl_match_id l,
             lr_from_status = TournamentMatchStatus_to_string (cl_from_status l),
             lr_to_status = TournamentMatchStatus_to_string (cl_to_status l),
             lr_transition_reason = cl_transition_reason l,
             lr_triggered_by_user_id = cl_triggered_by_user_id l,
             lr_triggered_by_system = cl_triggered_by_system l, lr_metadata = cl_metadata l,
             lr_transitioned_at = t\<rparr> w
          else (Inl (Internal (''Failed to create match status log: '' @ w_sql_error w (ValueTooLong 256))), w))
     (\<lambda>row. slift (row_to_domain row))))"

text \<open>\<open>rows.into_iter().map(row_to_domain).collect()\<close>: the first bad row fails the list.\<close>

fun collect_results :: "('e + 'a) list \<Rightarrow> 'e + 'a list" where
  "collect_results [] = Inr []"
| "collect_results (r # rs) = (case r of Inl e \<Rightarrow> Inl e
     | Inr a \<Rightarrow> (case collect_results rs of Inl e \<Rightarrow> Inl e | Inr as \<Rightarrow> Inr (a # as)))"

definition logs_by_time :: "uuid \<Rightarrow> world \<Rightarrow> MatchStatusLogRow list" where
  "logs_by_time i w = sort_by (\<lambda>x y. lr_transitioned_at x \<le> lr_transitioned_at y)
     (filter (\<lambda>l. lr_match_id l = i) (w_logs w))"

definition log_find_by_match_id :: "uuid \<Rightarrow> MatchStatusLog list service" where
  "log_find_by_match_id i = sbind (sget (logs_by_time i)) (\<lambda>rows.
     slift (collect_results (map row_to_domain rows)))"

definition log_count_by_match_id :: "uuid \<Rightarrow> nat service" where
  "log_count_by_match_id i = sget (\<lambda>w. length (filter (\<lambda>l. lr_match_id l = i) (w_logs w)))"


section \<open>Laws\<close>

lemma match_set_run:
  "match_set i f w = (case find_row m_id i (w_matches w) of
     None \<Rightarrow> (Inl (db_error RowNotFound w), w)
   | Some m \<Rightarrow> (Inr (f (w_now w) m), w_matches_update (modify_row m_id i (f (w_now w))) w))"
  by (simp add: match_set_def update_returning_def)

lemma match_set_okE:
  assumes "match_set i f w = (Inr m', w')"
  obtains m where "find_row m_id i (w_matches w) = Some m" and "m' = f (w_now w) m"
    and "w' = w_matches_update (modify_row m_id i (f (w_now w))) w"
  using assms by (auto simp: match_set_run split: option.splits)

lemma match_set_found:
  assumes "find_row m_id i (w_matches w) = Some m"
  shows "match_set i f w = (Inr (f (w_now w) m), w_matches_update (modify_row m_id i (f (w_now w))) w)"
  using assms by (simp add: match_set_run)

lemma match_set_err: "match_set i f w = (Inl e, w') \<Longrightarrow> find_row m_id i (w_matches w) = None \<and> w' = w"
  by (auto simp: match_set_run split: option.splits)

lemmas match_set_ops = match_update_def match_update_status_def match_set_veto_required_def
  match_set_check_in_deadline_def match_assign_participant_def match_submit_result_def
  match_clear_result_def match_schedule_def match_start_def match_check_in_participant_def
  match_complete_def match_forfeit_def match_file_dispute_def match_resolve_dispute_def

lemma match_find_by_id_run [simp]: "match_find_by_id i w = (Inr (find_row m_id i (w_matches w)), w)"
  by (simp add: match_find_by_id_def)

text \<open>What the log stores is what it returns.\<close>

lemma row_to_domain_written [simp]:
  assumes "lr_from_status r = TournamentMatchStatus_to_string a" and "lr_to_status r = TournamentMatchStatus_to_string b"
  shows "row_to_domain r = Inr \<lparr>l_id = lr_id r, l_match_id = lr_match_id r, l_from_status = a, l_to_status = b,
    l_transition_reason = lr_transition_reason r, l_triggered_by_user_id = lr_triggered_by_user_id r,
    l_triggered_by_system = lr_triggered_by_system r, l_metadata = lr_metadata r,
    l_transitioned_at = lr_transitioned_at r\<rparr>"
  using assms by (simp add: row_to_domain_def tournament_match_status.parse_render)

definition log_row :: "world \<Rightarrow> CreateMatchStatusLog \<Rightarrow> MatchStatusLogRow" where
  "log_row w l = \<lparr>lr_id = w_uuids w (w_next w), lr_match_id = cl_match_id l,
     lr_from_status = TournamentMatchStatus_to_string (cl_from_status l),
     lr_to_status = TournamentMatchStatus_to_string (cl_to_status l),
     lr_transition_reason = cl_transition_reason l,
     lr_triggered_by_user_id = cl_triggered_by_user_id l,
     lr_triggered_by_system = cl_triggered_by_system l, lr_metadata = cl_metadata l,
     lr_transitioned_at = w_now w\<rparr>"

lemma log_create_ok:
  assumes "reason_fits (cl_transition_reason l)"
  shows "\<exists>e. log_create l w = (Inr e, w\<lparr>w_next := Suc (w_next w), w_logs := w_logs w @ [log_row w l]\<rparr>)"
  using assms by (simp add: log_create_def new_uuid_def insert_returning_def sbind_def log_row_def)

lemma log_create_too_long:
  assumes "\<not> reason_fits (cl_transition_reason l)"
  shows "\<exists>t. log_create l w = (Inl (Internal t), w\<lparr>w_next := Suc (w_next w)\<rparr>)"
  using assms by (simp add: log_create_def new_uuid_def sbind_def)

lemma log_create_okE:
  assumes "log_create l w = (Inr e, w')"
  obtains "reason_fits (cl_transition_reason l)"
    and "w' = w\<lparr>w_next := Suc (w_next w), w_logs := w_logs w @ [log_row w l]\<rparr>"
  using assms log_create_ok [of l w] log_create_too_long [of l w] by (cases "reason_fits (cl_transition_reason l)") auto

end
