(* ===== verification/Lifecycle.thy ===== *)
theory Lifecycle
  imports MatchRepo
begin

text \<open>
  The match lifecycle service (\<open>services/tournament/match_lifecycle.rs\<close>): guarded and logged
  status transitions of a match, check-in, start, forfeit, history; and the proof that the
  status log of a match is a gapless path of allowed transitions from its first to its
  current status.
\<close>

section \<open>Triggers\<close>

datatype TransitionTrigger = User uuid | System string | Admin uuid string

definition TransitionTrigger_user_id :: "TransitionTrigger \<Rightarrow> uuid option" where
  "TransitionTrigger_user_id t = (case t of User i \<Rightarrow> Some i | Admin i _ \<Rightarrow> Some i | System _ \<Rightarrow> None)"

definition TransitionTrigger_is_system :: "TransitionTrigger \<Rightarrow> bool" where
  "TransitionTrigger_is_system t = (case t of System _ \<Rightarrow> True | _ \<Rightarrow> False)"

definition TransitionTrigger_to_db_fields :: "TransitionTrigger \<Rightarrow> uuid option \<times> bool \<times> json" where
  "TransitionTrigger_to_db_fields t = (case t of
     User i \<Rightarrow> (Some i, False, JObj [])
   | System job_name \<Rightarrow> (None, True, JObj [(''job_name'', JStr job_name)])
   | Admin i override_reason \<Rightarrow>
       (Some i, True, JObj [(''admin_override'', JBool True), (''reason'', JStr override_reason)]))"

definition MatchStatusLog_is_user_triggered :: "MatchStatusLog \<Rightarrow> bool" where
  "MatchStatusLog_is_user_triggered l \<longleftrightarrow> l_triggered_by_user_id l \<noteq> None \<and> \<not> l_triggered_by_system l"

definition MatchStatusLog_is_system_triggered :: "MatchStatusLog \<Rightarrow> bool" where
  "MatchStatusLog_is_system_triggered l \<longleftrightarrow> l_triggered_by_system l \<and> l_triggered_by_user_id l = None"

definition MatchStatusLog_is_admin_override :: "MatchStatusLog \<Rightarrow> bool" where
  "MatchStatusLog_is_admin_override l \<longleftrightarrow> l_triggered_by_user_id l \<noteq> None \<and> l_triggered_by_system l"

section \<open>The service\<close>

definition get_match :: "uuid \<Rightarrow> TournamentMatch service" where
  "get_match i = sbind (match_find_by_id i) (sneed (TournamentMatchNotFound i))"

definition log_transition :: "uuid \<Rightarrow> TournamentMatchStatus \<Rightarrow> TournamentMatchStatus \<Rightarrow> TransitionTrigger \<Rightarrow>
    string option \<Rightarrow> MatchStatusLog service" where
  "log_transition i from_status to_status triggered_by reason =
     (let (user_id, is_system, metadata) = TransitionTrigger_to_db_fields triggered_by
      in log_create \<lparr>cl_match_id = i, cl_from_status = from_status, cl_to_status = to_status,
           cl_transition_reason = reason, cl_triggered_by_user_id = user_id,
           cl_triggered_by_system = is_system, cl_metadata = metadata\<rparr>)"

definition transition :: "uuid \<Rightarrow> TournamentMatchStatus \<Rightarrow> TransitionTrigger \<Rightarrow> string option \<Rightarrow>
    TournamentMatch service" where
  "transition i to_status triggered_by reason = sbind (get_match i) (\<lambda>m.
     if \<not> TournamentMatchStatus_can_transition_to (m_status m) to_status
     then sfail (InvalidState (''Cannot transition match from '' @ TournamentMatchStatus_to_string (m_status m) @
       '' to '' @ TournamentMatchStatus_to_string to_status))
     else sbind (match_update_status i to_status) (\<lambda>updated. sbind
       (log_transition i (m_status m) to_status triggered_by reason) (\<lambda>_. sret updated)))"

definition mark_ready :: "uuid \<Rightarrow> TournamentMatch service" where
  "mark_ready i = sbind (get_match i) (\<lambda>m.
     if m_status m \<noteq> TournamentMatchStatus.Pending
     then sfail (InvalidState (''Match is already in '' @ TournamentMatchStatus_to_string (m_status m) @
       '' status, cannot mark as ready''))
     else if \<not> TournamentMatch_has_both_participants m
     then sfail (InvalidState ''Cannot mark match as ready without both participants'')
     else transition i TournamentMatchStatus.Ready (System ''participant_assignment'')
       (Some ''Both participants assigned''))"

definition schedule :: "uuid \<Rightarrow> datetime \<Rightarrow> uuid \<Rightarrow> TournamentMatch service" where
  "schedule i scheduled_at scheduled_by = sbind (get_match i) (\<lambda>m.
     if \<not> TournamentMatchStatus_can_schedule (m_status m)
     then sfail (InvalidState (''Match in '' @ TournamentMatchStatus_to_string (m_status m) @
       '' status cannot be scheduled''))
     else sbind now (\<lambda>t.
       if scheduled_at \<le> t then sfail (InvalidState ''Scheduled time must be in the future'')
       else sbind (match_schedule i scheduled_at) (\<lambda>_. sbind (sget w_show_time) (\<lambda>show_time.
         transition i TournamentMatchStatus.Scheduled (User scheduled_by)
           (Some (''Scheduled for '' @ show_time scheduled_at))))))"

definition check_in :: "uuid \<Rightarrow> uuid \<Rightarrow> uuid \<Rightarrow> TournamentMatch service" where
  "check_in i registration_id checked_in_by = sbind (get_match i) (\<lambda>m.
     let is_participant1 = m_participant1_registration_id m = Some registration_id;
         is_participant2 = m_participant2_registration_id m = Some registration_id
     in if \<not> is_participant1 \<and> \<not> is_participant2
        then sfail (NotAuthorized ''Registration is not a participant in this match'')
        else sbind
          (if m_status m \<noteq> TournamentMatchStatus.CheckingIn
           then if m_status m = TournamentMatchStatus.Scheduled
                then sbind (transition i TournamentMatchStatus.CheckingIn (System ''match_check_in'')
                       (Some ''Check-in window opened'')) (\<lambda>_. sret ())
                else sfail (InvalidState (''Match in '' @ TournamentMatchStatus_to_string (m_status m) @
                  '' status cannot accept check-ins''))
           else sret ())
          (\<lambda>_. sbind (get_match i) (\<lambda>current.
             if (if is_participant1 then m_participant1_checked_in_at current \<noteq> None
                 else m_participant2_checked_in_at current \<noteq> None)
             then sret current
             else sbind (match_check_in_participant i (if is_participant1 then One else Two) checked_in_by)
               (\<lambda>updated.
                  if TournamentMatch_both_checked_in updated
                  then transition i (if m_veto_required updated then TournamentMatchStatus.PickBan
                                     else TournamentMatchStatus.InProgress)
                         (System ''both_checked_in'') (Some ''Both participants checked in'')
                  else sret updated))))"

definition start_match :: "uuid \<Rightarrow> uuid \<Rightarrow> TournamentMatch service" where
  "start_match i started_by = sbind (get_match i) (\<lambda>m.
     if \<not> TournamentMatchStatus_can_start (m_status m)
     then sfail (InvalidState (''Match in '' @ TournamentMatchStatus_to_string (m_status m) @
       '' status cannot be started''))
     else sbind (match_start i) (\<lambda>_. sbind
       (log_transition i (m_status m) TournamentMatchStatus.InProgress (User started_by) (Some ''Match started''))
       (\<lambda>_. get_match i)))"

definition admin_transition :: "uuid \<Rightarrow> TournamentMatchStatus \<Rightarrow> uuid \<Rightarrow> string \<Rightarrow> TournamentMatch service" where
  "admin_transition i to_status admin_id override_reason = sbind (get_match i) (\<lambda>m.
     if \<not> TournamentMatchStatus_can_transition_to (m_status m) to_status
     then sfail (InvalidState (''Cannot transition match from '' @ TournamentMatchStatus_to_string (m_status m) @
       '' to '' @ TournamentMatchStatus_to_string to_status @ '' (even with admin override)''))
     else transition i to_status (Admin admin_id override_reason)
       (Some (''Admin override: '' @ override_reason)))"

definition forfeit :: "uuid \<Rightarrow> uuid \<Rightarrow> uuid \<Rightarrow> TournamentMatch service" where
  "forfeit i forfeiting forfeited_by = sbind (get_match i) (\<lambda>m.
     if \<not> TournamentMatchStatus_can_forfeit (m_status m)
     then sfail (InvalidState (''Match in '' @ TournamentMatchStatus_to_string (m_status m) @
       '' status cannot be forfeited''))
     else sbind
       (if m_participant1_registration_id m = Some forfeiting
        then sneed (InvalidState ''No opponent to award forfeit win'') (m_participant2_registration_id m)
        else if m_participant2_registration_id m = Some forfeiting
        then sneed (InvalidState ''No opponent to award forfeit win'') (m_participant1_registration_id m)
        else sfail (NotAuthorized ''Registration is not a participant in this match''))
       (\<lambda>winner_id. sbind (match_forfeit i winner_id forfeiting) (\<lambda>_.
          let forfeiter =
            (case if m_participant1_registration_id m = Some forfeiting then m_participant1_name m
                  else m_participant2_name m of
               Some n \<Rightarrow> n | None \<Rightarrow> ''registration '' @ forfeiting)
          in sbind (log_transition i (m_status m) TournamentMatchStatus.Forfeit (User forfeited_by)
               (Some (''Forfeited by '' @ forfeiter)))
             (\<lambda>_. get_match i))))"

definition get_status_history :: "uuid \<Rightarrow> MatchStatusLog list service" where
  "get_status_history i = sbind (get_match i) (\<lambda>_. log_find_by_match_id i)"

record MatchStatusDetails =
  md_match_id :: uuid
  md_current_status :: TournamentMatchStatus
  md_allowed_transitions :: "TournamentMatchStatus list"
  md_is_terminal :: bool
  md_is_active :: bool
  md_scheduled_at :: "datetime option"
  md_started_at :: "datetime option"
  md_completed_at :: "datetime option"
  md_transition_count :: nat
  md_latest_transition :: "MatchStatusLog option"

definition get_match_status :: "uuid \<Rightarrow> MatchStatusDetails service" where
  "get_match_status i = sbind (get_match i) (\<lambda>m. sbind (log_find_by_match_id i) (\<lambda>history. sret
     \<lparr>md_match_id = i, md_current_status = m_status m,
      md_allowed_transitions = TournamentMatchStatus_allowed_transitions (m_status m),
      md_is_terminal = TournamentMatchStatus_is_terminal (m_status m),
      md_is_active = TournamentMatchStatus_is_active (m_status m),
      md_scheduled_at = m_scheduled_at m, md_started_at = m_started_at m,
      md_completed_at = m_completed_at m, md_transition_count = length history,
      md_latest_transition = (if history = [] then None else Some (last history))\<rparr>))"


section \<open>Paths in the log\<close>

fun walk :: "('a \<Rightarrow> 'a \<Rightarrow> bool) \<Rightarrow> 'a \<Rightarrow> ('a \<times> 'a) list \<Rightarrow> 'a \<Rightarrow> bool" where
  "walk ok s [] t \<longleftrightarrow> s = t"
| "walk ok s ((a, b) # es) t \<longleftrightarrow> a = s \<and> ok a b \<and> walk ok b es t"

lemma walk_append: "walk ok s (es @ fs) t \<longleftrightarrow> (\<exists>u. walk ok s es u \<and> walk ok u fs t)"
  by (induction es arbitrary: s) auto

lemma walk_mono: "walk ok s es t \<Longrightarrow> (\<And>a b. ok a b \<Longrightarrow> ok' a b) \<Longrightarrow> walk ok' s es t"
  by (induction es arbitrary: s) auto

lemma walk_stuck: "walk ok s es t \<Longrightarrow> (\<And>b. \<not> ok s b) \<Longrightarrow> es = [] \<and> t = s"
  by (cases es) auto

text \<open>The transitions the log holds of a match, and the text they are stored as.\<close>

definition history :: "uuid \<Rightarrow> world \<Rightarrow> (string \<times> string) list" where
  "history i w = map (\<lambda>l. (lr_from_status l, lr_to_status l)) (filter (\<lambda>l. lr_match_id l = i) (w_logs w))"

definition edge_texts :: "(TournamentMatchStatus \<times> TournamentMatchStatus) list \<Rightarrow> (string \<times> string) list" where
  "edge_texts es = map (\<lambda>(a, b). (TournamentMatchStatus_to_string a, TournamentMatchStatus_to_string b)) es"

lemma edge_texts_simps [simp]:
  "edge_texts [] = []"
  "edge_texts ((a, b) # es) = (TournamentMatchStatus_to_string a, TournamentMatchStatus_to_string b) # edge_texts es"
  "edge_texts (es @ fs) = edge_texts es @ edge_texts fs"
  by (simp_all add: edge_texts_def)

text \<open>
  \<open>audited ok w w'\<close>: the same matches, and for each of them the log grew by a path from its
  status in \<open>w\<close> to its status in \<open>w'\<close>.
\<close>

definition audited :: "(TournamentMatchStatus \<Rightarrow> TournamentMatchStatus \<Rightarrow> bool) \<Rightarrow> world \<Rightarrow> world \<Rightarrow> bool" where
  "audited ok w w' \<longleftrightarrow> map m_id (w_matches w') = map m_id (w_matches w) \<and>
     (\<forall>i m. find_row m_id i (w_matches w) = Some m \<longrightarrow>
        (\<exists>m' es. find_row m_id i (w_matches w') = Some m' \<and> history i w' = history i w @ edge_texts es \<and>
           walk ok (m_status m) es (m_status m')))"

lemma audited_refl [intro, simp]: "audited ok w w"
proof -
  have "history i w = history i w @ edge_texts [] \<and> walk ok (m_status m) [] (m_status m)" for i m by simp
  then show ?thesis unfolding audited_def by blast
qed

lemma audited_trans:
  assumes "audited ok u v" and "audited ok v w"
  shows "audited ok u w"
proof -
  have "\<exists>m' es. find_row m_id i (w_matches w) = Some m' \<and> history i w = history i u @ edge_texts es \<and>
      walk ok (m_status m) es (m_status m')" if m: "find_row m_id i (w_matches u) = Some m" for i m
  proof -
    obtain m1 es where 1: "find_row m_id i (w_matches v) = Some m1" "history i v = history i u @ edge_texts es"
      "walk ok (m_status m) es (m_status m1)"
      using assms(1) m unfolding audited_def by blast
    obtain m2 fs where 2: "find_row m_id i (w_matches w) = Some m2" "history i w = history i v @ edge_texts fs"
      "walk ok (m_status m1) fs (m_status m2)"
      using assms(2) 1(1) unfolding audited_def by blast
    have "history i w = history i u @ edge_texts (es @ fs)" using 1(2) 2(2) by simp
    moreover have "walk ok (m_status m) (es @ fs) (m_status m2)" using 1(3) 2(3) by (auto simp: walk_append)
    ultimately show ?thesis using 2(1) by blast
  qed
  moreover have "map m_id (w_matches w) = map m_id (w_matches u)"
    using assms unfolding audited_def by simp
  ultimately show ?thesis unfolding audited_def by blast
qed

text \<open>A change of a match that is not of its status needs no log entry.\<close>

lemma audited_quiet:
  assumes "\<And>m. m_id (f m) = m_id m" and "\<And>m. m_status (f m) = m_status m"
    and "w_matches w' = modify_row m_id i f (w_matches w)" and "w_logs w' = w_logs w"
  shows "audited ok w w'"
proof -
  have "find_row m_id j (w_matches w') = map_option (\<lambda>m. if m_id m = i then f m else m) (find_row m_id j (w_matches w))" for j
    unfolding assms(3) by (rule find_modify_row) (rule assms(1))
  then have "\<exists>m'. find_row m_id j (w_matches w') = Some m' \<and> m_status m = m_status m'"
    if "find_row m_id j (w_matches w) = Some m" for j m using that assms(2) by auto
  moreover have "history j w' = history j w @ edge_texts []" for j using assms(4) by (simp add: history_def)
  moreover have "map m_id (w_matches w') = map m_id (w_matches w)"
    unfolding assms(3) by (rule map_key_modify_row) (rule assms(1))
  ultimately show ?thesis unfolding audited_def by (metis walk.simps(1))
qed

text \<open>A change of the status of a match that is followed by its log entry.\<close>

lemma audited_move:
  assumes m: "find_row m_id i (w_matches w) = Some m"
    and f: "\<And>m. m_id (f m) = m_id m" "m_status (f m) = b" and "ok (m_status m) b"
    and w': "w_matches w' = modify_row m_id i f (w_matches w)" "w_logs w' = w_logs w @ [l]"
    and l: "lr_match_id l = i" "lr_from_status l = TournamentMatchStatus_to_string (m_status m)"
      "lr_to_status l = TournamentMatchStatus_to_string b"
  shows "audited ok w w'"
proof -
  have find: "find_row m_id j (w_matches w') = map_option (\<lambda>m. if m_id m = i then f m else m) (find_row m_id j (w_matches w))" for j
    unfolding w' by (rule find_modify_row) (rule f(1))
  have "\<exists>x' es. find_row m_id j (w_matches w') = Some x' \<and> history j w' = history j w @ edge_texts es \<and>
      walk ok (m_status x) es (m_status x')" if x: "find_row m_id j (w_matches w) = Some x" for j x
  proof (cases "j = i")
    case True
    with x m have "x = m" "m_id m = i" by (auto dest: find_row_key)
    then have "find_row m_id j (w_matches w') = Some (f m)" using x find [of j] by simp
    moreover have "history j w' = history j w @ edge_texts [(m_status m, b)]"
      using True w'(2) l by (simp add: history_def)
    moreover have "walk ok (m_status x) [(m_status m, b)] (m_status (f m))"
      using \<open>x = m\<close> f(2) assms(4) by simp
    ultimately show ?thesis by blast
  next
    case False
    then have "m_id x \<noteq> i" using x by (auto dest: find_row_key)
    then have "find_row m_id j (w_matches w') = Some x" using x find [of j] by simp
    moreover have "history j w' = history j w @ edge_texts []"
      using False w'(2) l by (simp add: history_def)
    ultimately show ?thesis by (metis walk.simps(1))
  qed
  moreover have "map m_id (w_matches w') = map m_id (w_matches w)"
    unfolding w' by (rule map_key_modify_row) (rule f(1))
  ultimately show ?thesis unfolding audited_def by blast
qed


section \<open>The operations\<close>

lemma get_match_run: "get_match i w = (case find_row m_id i (w_matches w) of
    None \<Rightarrow> (Inl (TournamentMatchNotFound i), w) | Some m \<Rightarrow> (Inr m, w))"
  by (simp add: get_match_def sbind_def sneed_def split: option.splits)

lemma get_match_okE:
  assumes "get_match i w = (Inr m, w')"
  obtains "find_row m_id i (w_matches w) = Some m" and "w' = w"
  using assms by (auto simp: get_match_run split: option.splits)

definition log_command :: "uuid \<Rightarrow> TournamentMatchStatus \<Rightarrow> TournamentMatchStatus \<Rightarrow> TransitionTrigger \<Rightarrow>
    string option \<Rightarrow> CreateMatchStatusLog" where
  "log_command i a b trig reason = \<lparr>cl_match_id = i, cl_from_status = a, cl_to_status = b,
     cl_transition_reason = reason, cl_triggered_by_user_id = fst (TransitionTrigger_to_db_fields trig),
     cl_triggered_by_system = fst (snd (TransitionTrigger_to_db_fields trig)),
     cl_metadata = snd (snd (TransitionTrigger_to_db_fields trig))\<rparr>"

lemma log_command_simps [simp]:
  "cl_match_id (log_command i a b trig reason) = i"
  "cl_from_status (log_command i a b trig reason) = a" "cl_to_status (log_command i a b trig reason) = b"
  "cl_transition_reason (log_command i a b trig reason) = reason"
  "cl_triggered_by_user_id (log_command i a b trig reason) = TransitionTrigger_user_id trig"
  by (simp_all add: log_command_def TransitionTrigger_to_db_fields_def TransitionTrigger_user_id_def
      split: TransitionTrigger.splits)

lemma log_transition_command: "log_transition i a b trig reason = log_create (log_command i a b trig reason)"
  by (simp add: log_transition_def log_command_def case_prod_unfold Let_def)

lemma log_row_simps [simp]:
  "lr_match_id (log_row w c) = cl_match_id c"
  "lr_from_status (log_row w c) = TournamentMatchStatus_to_string (cl_from_status c)"
  "lr_to_status (log_row w c) = TournamentMatchStatus_to_string (cl_to_status c)"
  "lr_triggered_by_user_id (log_row w c) = cl_triggered_by_user_id c"
  "lr_transition_reason (log_row w c) = cl_transition_reason c" "lr_transitioned_at (log_row w c) = w_now w"
  by (simp_all add: log_row_def)

lemma log_transition_okE:
  assumes "log_transition i a b trig reason w = (Inr e, w')"
  obtains "reason_fits reason"
    and "w' = w\<lparr>w_next := Suc (w_next w), w_logs := w_logs w @ [log_row w (log_command i a b trig reason)]\<rparr>"
  using assms unfolding log_transition_command by (rule log_create_okE) simp

lemma log_transition_ok:
  assumes "reason_fits reason"
  obtains e where "log_transition i a b trig reason w =
    (Inr e, w\<lparr>w_next := Suc (w_next w), w_logs := w_logs w @ [log_row w (log_command i a b trig reason)]\<rparr>)"
  using log_create_ok [of "log_command i a b trig reason" w] assms by (auto simp: log_transition_command)

text \<open>
  A status change of a match together with its log entry, as \<open>transition\<close>, \<open>start_match\<close> and
  \<open>forfeit\<close> make it.
\<close>

lemma logged_move:
  assumes m: "find_row m_id i (w_matches w) = Some m" and "match_set i f w = (Inr x, w1)"
    and "log_transition i (m_status m) b trig reason w1 = (Inr e, w2)"
    and "\<And>t m. m_id (f t m) = m_id m" and "\<And>t m. m_status (f t m) = b" and "ok (m_status m) b"
  shows "audited ok w w2"
proof -
  let ?l = "log_row w1 (log_command i (m_status m) b trig reason)"
  have w1: "w1 = w_matches_update (modify_row m_id i (f (w_now w))) w"
    using assms(2) by (auto simp: match_set_found [OF m])
  have w2: "w2 = w1\<lparr>w_next := Suc (w_next w1), w_logs := w_logs w1 @ [?l]\<rparr>"
    using assms(3) by (rule log_transition_okE)
  show ?thesis
    by (rule audited_move [where i = i and m = m and l = ?l and f = "f (w_now w)" and b = b])
      (use m assms(4,5,6) in \<open>simp_all add: w1 w2\<close>)
qed

text \<open>\<open>audits ok p\<close>: what a successful run of \<open>p\<close> does to the matches is in the log.\<close>

named_theorems audits_intros "programs whose successful runs are audited"

definition audits :: "(TournamentMatchStatus \<Rightarrow> TournamentMatchStatus \<Rightarrow> bool) \<Rightarrow> 'a service \<Rightarrow> bool" where
  "audits ok p \<longleftrightarrow> (\<forall>w x w'. p w = (Inr x, w') \<longrightarrow> audited ok w w')"

lemma auditsD: "audits ok p \<Longrightarrow> p w = (Inr x, w') \<Longrightarrow> audited ok w w'"
  by (simp add: audits_def)

lemma audits_sret [audits_intros]: "audits ok (sret a)" by (simp add: audits_def)
lemma audits_sfail [audits_intros]: "audits ok (sfail e)" by (simp add: audits_def)
lemma audits_sget [audits_intros]: "audits ok (sget f)" by (simp add: audits_def)
lemma audits_now [audits_intros]: "audits ok now" by (simp add: now_def audits_sget)
lemma audits_sneed [audits_intros]: "audits ok (sneed e x)" by (cases x) (simp_all add: audits_intros)

lemma audits_get_match [audits_intros]: "audits ok (get_match i)"
  by (auto simp: audits_def elim: get_match_okE)

lemma audits_sbind [audits_intros]:
  assumes "audits ok p" and "\<And>a. audits ok (f a)"
  shows "audits ok (sbind p f)"
  unfolding audits_def
proof (intro allI impI)
  fix w x w' assume "sbind p f w = (Inr x, w')"
  then obtain a v where "p w = (Inr a, v)" and "f a v = (Inr x, w')" by (rule sbind_okE)
  then have "audited ok w v" "audited ok v w'" using assms by (blast dest: auditsD)+
  then show "audited ok w w'" by (rule audited_trans)
qed

lemma audits_if [audits_intros]:
  "(b \<Longrightarrow> audits ok p) \<Longrightarrow> (\<not> b \<Longrightarrow> audits ok q) \<Longrightarrow> audits ok (if b then p else q)"
  by simp

lemma audits_match_set [audits_intros]:
  assumes "\<And>t m. m_id (f t m) = m_id m" and "\<And>t m. m_status (f t m) = m_status m"
  shows "audits ok (match_set i f)"
  unfolding audits_def
proof (intro allI impI)
  fix w x w' assume "match_set i f w = (Inr x, w')"
  then show "audited ok w w'"
    by (rule match_set_okE)
      (auto intro: audited_quiet [where f = "f (w_now w)" and i = i] simp: assms)
qed

text \<open>The change and its log entry for a match that was read before.\<close>

lemma audits_logged:
  assumes run: "sbind (match_set i f) (\<lambda>u. sbind (log_transition i (m_status m) b trig reason) (k u)) w = (Inr x, w')"
    and "find_row m_id i (w_matches w) = Some m" and "ok (m_status m) b"
    and "\<And>u a. audits ok (k u a)" and "\<And>t x. m_id (f t x) = m_id x" and "\<And>t x. m_status (f t x) = b"
  shows "audited ok w w'"
proof -
  obtain u w1 e w2 where "match_set i f w = (Inr u, w1)" "log_transition i (m_status m) b trig reason w1 = (Inr e, w2)"
    and k: "k u e w2 = (Inr x, w')"
    using run by (elim sbind_okE)
  then have "audited ok w w2" using assms(2,3,5,6) by (blast intro: logged_move)
  moreover have "audited ok w2 w'" using assms(4) k by (blast dest: auditsD)
  ultimately show ?thesis by (rule audited_trans)
qed

lemma audits_found:
  assumes "\<And>w m x w'. find_row m_id i (w_matches w) = Some m \<Longrightarrow> f m w = (Inr x, w') \<Longrightarrow> audited ok w w'"
  shows "audits ok (sbind (get_match i) f)"
  using assms unfolding audits_def by (metis get_match_okE sbind_okE)

definition table_edge :: "TournamentMatchStatus \<Rightarrow> TournamentMatchStatus \<Rightarrow> bool" where
  "table_edge a b \<longleftrightarrow> b \<in> set (TournamentMatchStatus_allowed_transitions a)"

definition service_edge :: "TournamentMatchStatus \<Rightarrow> TournamentMatchStatus \<Rightarrow> bool" where
  "service_edge a b \<longleftrightarrow> table_edge a b \<or> a = TournamentMatchStatus.Ready \<and> b = TournamentMatchStatus.InProgress"

lemma audits_transition [audits_intros]:
  assumes "\<And>a b. table_edge a b \<Longrightarrow> ok a b"
  shows "audits ok (transition i b trig reason)"
  unfolding transition_def match_update_status_def
proof (rule audits_found)
  fix w m x w'
  assume m: "find_row m_id i (w_matches w) = Some m"
    and run: "(if \<not> TournamentMatchStatus_can_transition_to (m_status m) b
       then sfail (InvalidState (''Cannot transition match from '' @ TournamentMatchStatus_to_string (m_status m) @
         '' to '' @ TournamentMatchStatus_to_string b))
       else sbind (match_set i (\<lambda>t m. m\<lparr>m_status := b, m_updated_at := t\<rparr>)) (\<lambda>updated.
         sbind (log_transition i (m_status m) b trig reason) (\<lambda>_. sret updated))) w = (Inr x, w')"
  then have "ok (m_status m) b"
    using assms by (auto simp: table_edge_def TournamentMatchStatus_can_transition_to_def split: if_splits)
  moreover from run have "sbind (match_set i (\<lambda>t m. m\<lparr>m_status := b, m_updated_at := t\<rparr>)) (\<lambda>updated.
      sbind (log_transition i (m_status m) b trig reason) (\<lambda>_. sret updated)) w = (Inr x, w')"
    by (simp split: if_splits)
  ultimately show "audited ok w w'" using m
    by (elim audits_logged) (simp_all add: audits_intros)
qed

lemma audits_mark_ready: "(\<And>a b. table_edge a b \<Longrightarrow> ok a b) \<Longrightarrow> audits ok (mark_ready i)"
  unfolding mark_ready_def by (intro audits_intros)

lemma audits_admin_transition: "(\<And>a b. table_edge a b \<Longrightarrow> ok a b) \<Longrightarrow> audits ok (admin_transition i b a r)"
  unfolding admin_transition_def by (intro audits_intros)

lemma audits_schedule: "(\<And>a b. table_edge a b \<Longrightarrow> ok a b) \<Longrightarrow> audits ok (schedule i t u)"
  unfolding schedule_def match_schedule_def by (intro audits_intros) simp_all

lemma audits_check_in: "(\<And>a b. table_edge a b \<Longrightarrow> ok a b) \<Longrightarrow> audits ok (check_in i r u)"
  unfolding check_in_def match_check_in_participant_def Let_def
  by (intro audits_intros) (simp_all split: ParticipantSlot.splits)

lemma can_forfeit_edge:
  "TournamentMatchStatus_can_forfeit s \<longleftrightarrow> table_edge s TournamentMatchStatus.Forfeit"
  by (cases s) (simp_all add: TournamentMatchStatus_can_forfeit_def table_edge_def)

lemma can_start_edge:
  "TournamentMatchStatus_can_start s \<Longrightarrow> service_edge s TournamentMatchStatus.InProgress"
  by (cases s) (simp_all add: TournamentMatchStatus_can_start_def table_edge_def service_edge_def)

lemma audits_start_match: "audits service_edge (start_match i u)"
  unfolding start_match_def match_start_def
proof (rule audits_found)
  fix w m x w'
  assume m: "find_row m_id i (w_matches w) = Some m"
    and run: "(if \<not> TournamentMatchStatus_can_start (m_status m)
       then sfail (InvalidState (''Match in '' @ TournamentMatchStatus_to_string (m_status m) @ '' status cannot be started''))
       else sbind (match_set i (\<lambda>t m. m\<lparr>m_started_at := Some t, m_status := TournamentMatchStatus.InProgress, m_updated_at := t\<rparr>))
         (\<lambda>_. sbind (log_transition i (m_status m) TournamentMatchStatus.InProgress (User u) (Some ''Match started''))
           (\<lambda>_. get_match i))) w = (Inr x, w')"
  then have "service_edge (m_status m) TournamentMatchStatus.InProgress"
    by (auto split: if_splits intro: can_start_edge)
  moreover from run have "sbind (match_set i (\<lambda>t m. m\<lparr>m_started_at := Some t, m_status := TournamentMatchStatus.InProgress, m_updated_at := t\<rparr>))
      (\<lambda>_. sbind (log_transition i (m_status m) TournamentMatchStatus.InProgress (User u) (Some ''Match started''))
        (\<lambda>_. get_match i)) w = (Inr x, w')"
    by (simp split: if_splits)
  ultimately show "audited service_edge w w'" using m
    by (elim audits_logged) (simp_all add: audits_intros)
qed

lemma audits_forfeit:
  assumes "\<And>a b. table_edge a b \<Longrightarrow> ok a b"
  shows "audits ok (forfeit i r u)"
  unfolding forfeit_def match_forfeit_def
proof (rule audits_found)
  fix w m x w'
  let ?f = "\<lambda>winner t m. m\<lparr>m_winner_registration_id := Some winner, m_loser_registration_id := Some r, m_completed_at := Some t,
     m_status := TournamentMatchStatus.Forfeit, m_updated_at := t\<rparr>"
  assume m: "find_row m_id i (w_matches w) = Some m"
    and "(if \<not> TournamentMatchStatus_can_forfeit (m_status m)
     then sfail (InvalidState (''Match in '' @ TournamentMatchStatus_to_string (m_status m) @ '' status cannot be forfeited''))
     else sbind
       (if m_participant1_registration_id m = Some r
        then sneed (InvalidState ''No opponent to award forfeit win'') (m_participant2_registration_id m)
        else if m_participant2_registration_id m = Some r
        then sneed (InvalidState ''No opponent to award forfeit win'') (m_participant1_registration_id m)
        else sfail (NotAuthorized ''Registration is not a participant in this match''))
       (\<lambda>winner. sbind (match_set i (?f winner)) (\<lambda>_.
          let forfeiter = (case if m_participant1_registration_id m = Some r then m_participant1_name m
              else m_participant2_name m of Some n \<Rightarrow> n | None \<Rightarrow> ''registration '' @ r)
          in sbind (log_transition i (m_status m) TournamentMatchStatus.Forfeit (User u)
               (Some (''Forfeited by '' @ forfeiter)))
             (\<lambda>_. get_match i)))) w = (Inr x, w')"
  then obtain winner w1 reason where "table_edge (m_status m) TournamentMatchStatus.Forfeit" and "w1 = w"
    and run: "sbind (match_set i (?f winner)) (\<lambda>_. sbind (log_transition i (m_status m) TournamentMatchStatus.Forfeit (User u) reason)
      (\<lambda>_. get_match i)) w1 = (Inr x, w')"
    by (auto simp: can_forfeit_edge sneed_def split: if_splits option.splits elim!: sbind_okE)
  with m assms show "audited ok w w'" by (intro audits_logged [OF run [unfolded \<open>w1 = w\<close>]]) (simp_all add: audits_intros)
qed


section \<open>Sequences of operations\<close>

text \<open>
  One step of the lifecycle: a successful call of one of the operations with any arguments, or
  the passing of time.
\<close>

inductive lifecycle_step :: "world \<Rightarrow> world \<Rightarrow> bool" where
  step_transition: "transition i b trig reason w = (Inr m, w') \<Longrightarrow> lifecycle_step w w'"
| step_mark_ready: "mark_ready i w = (Inr m, w') \<Longrightarrow> lifecycle_step w w'"
| step_schedule: "schedule i t u w = (Inr m, w') \<Longrightarrow> lifecycle_step w w'"
| step_check_in: "check_in i r u w = (Inr m, w') \<Longrightarrow> lifecycle_step w w'"
| step_start: "start_match i u w = (Inr m, w') \<Longrightarrow> lifecycle_step w w'"
| step_admin: "admin_transition i b a r w = (Inr m, w') \<Longrightarrow> lifecycle_step w w'"
| step_forfeit: "forfeit i r u w = (Inr m, w') \<Longrightarrow> lifecycle_step w w'"
| step_tick: "w_now w \<le> t \<Longrightarrow> lifecycle_step w (w\<lparr>w_now := t\<rparr>)"

inductive lifecycle_run :: "world \<Rightarrow> world \<Rightarrow> bool" where
  run_refl: "lifecycle_run w w"
| run_step: "lifecycle_run u v \<Longrightarrow> lifecycle_step v w \<Longrightarrow> lifecycle_run u w"

lemma service_edgeI: "table_edge a b \<Longrightarrow> service_edge a b"
  by (simp add: service_edge_def)

lemma lifecycle_step_audited: "lifecycle_step w w' \<Longrightarrow> audited service_edge w w'"
proof (induction rule: lifecycle_step.induct)
  case (step_tick w t)
  then show ?case by (auto intro: audited_quiet [where f = "\<lambda>m. m" and i = undefined] simp: modify_row_def)
qed (auto intro: auditsD service_edgeI audits_transition audits_mark_ready audits_schedule audits_check_in
      audits_start_match audits_admin_transition audits_forfeit)

lemma lifecycle_run_audited: "lifecycle_run w w' \<Longrightarrow> audited service_edge w w'"
  by (induction rule: lifecycle_run.induct) (auto intro: audited_trans lifecycle_step_audited)

section \<open>Runs\<close>

definition moved_to :: "uuid \<Rightarrow> TournamentMatch \<Rightarrow> TournamentMatchStatus \<Rightarrow> CreateMatchStatusLog \<Rightarrow> world \<Rightarrow> world" where
  "moved_to i m b c w = w\<lparr>w_matches := modify_row m_id i (\<lambda>m. m\<lparr>m_status := b, m_updated_at := w_now w\<rparr>) (w_matches w),
     w_next := Suc (w_next w), w_logs := w_logs w @ [log_row w c]\<rparr>"

lemma transition_run:
  assumes "find_row m_id i (w_matches w) = Some m" and "table_edge (m_status m) b" and "reason_fits reason"
  shows "transition i b trig reason w =
    (Inr (m\<lparr>m_status := b, m_updated_at := w_now w\<rparr>),
     moved_to i m b (log_command i (m_status m) b trig reason) w)"
proof -
  let ?w1 = "w_matches_update (modify_row m_id i (\<lambda>m. m\<lparr>m_status := b, m_updated_at := w_now w\<rparr>)) w"
  obtain e where "log_transition i (m_status m) b trig reason ?w1 = (Inr e, ?w1\<lparr>w_next := Suc (w_next ?w1),
      w_logs := w_logs ?w1 @ [log_row ?w1 (log_command i (m_status m) b trig reason)]\<rparr>)"
    using assms(3) by (rule log_transition_ok)
  moreover have "log_row ?w1 c = log_row w c" for c by (simp add: log_row_def)
  ultimately show ?thesis
    using assms by (simp add: transition_def get_match_run sbind_def match_update_status_def match_set_run
        TournamentMatchStatus_can_transition_to_def table_edge_def moved_to_def)
qed

lemma moved_to_simps [simp]:
  "find_row m_id j (w_matches (moved_to i m b c w)) =
     map_option (\<lambda>m. if m_id m = i then m\<lparr>m_status := b, m_updated_at := w_now w\<rparr> else m) (find_row m_id j (w_matches w))"
  "w_now (moved_to i m b c w) = w_now w"
  "history j (moved_to i m b c w) = history j w @ (if cl_match_id c = j
     then [(TournamentMatchStatus_to_string (cl_from_status c), TournamentMatchStatus_to_string (cl_to_status c))] else [])"
proof -
  have "find_row m_id j (modify_row m_id i (\<lambda>m. m\<lparr>m_status := b, m_updated_at := w_now w\<rparr>) (w_matches w)) =
     map_option (\<lambda>m. if m_id m = i then m\<lparr>m_status := b, m_updated_at := w_now w\<rparr> else m) (find_row m_id j (w_matches w))"
    by (rule find_modify_row) simp
  then show "find_row m_id j (w_matches (moved_to i m b c w)) =
     map_option (\<lambda>m. if m_id m = i then m\<lparr>m_status := b, m_updated_at := w_now w\<rparr> else m) (find_row m_id j (w_matches w))"
    by (simp add: moved_to_def)
qed (simp_all add: moved_to_def history_def)

lemma transition_step:
  assumes "find_row m_id i (w_matches w) = Some m" and "table_edge (m_status m) b" and "reason_fits reason"
  obtains w' where "transition i b trig reason w = (Inr (m\<lparr>m_status := b, m_updated_at := w_now w\<rparr>), w')"
    and "find_row m_id i (w_matches w') = Some (m\<lparr>m_status := b, m_updated_at := w_now w\<rparr>)"
    and "history i w' = history i w @ edge_texts [(m_status m, b)]" and "w_now w' = w_now w"
  using transition_run [OF assms] by (rule that) (simp_all add: assms(1) find_row_key [OF assms(1)])

lemma match_set_step:
  assumes "find_row m_id i (w_matches w) = Some m" and "\<And>t x. m_id (f t x) = m_id x"
  obtains w' where "match_set i f w = (Inr (f (w_now w) m), w')"
    and "find_row m_id i (w_matches w') = Some (f (w_now w) m)"
    and "w_logs w' = w_logs w" and "w_now w' = w_now w"
proof -
  have "find_row m_id i (modify_row m_id i (f (w_now w)) (w_matches w)) =
      map_option (\<lambda>r. if m_id r = i then f (w_now w) r else r) (find_row m_id i (w_matches w))"
    by (rule find_modify_row) (rule assms(2))
  then show ?thesis
    by (intro that [OF match_set_found [OF assms(1)]]) (simp_all add: assms(1) find_row_key [OF assms(1)])
qed

lemma history_logs: "w_logs w' = w_logs w \<Longrightarrow> history i w' = history i w"
  by (simp add: history_def)

lemma forfeit_okE:
  assumes "forfeit i r u w = (Inr m', w')"
  obtains m winner x w1 reason e w2 where "find_row m_id i (w_matches w) = Some m"
    and "TournamentMatchStatus_can_forfeit (m_status m)"
    and "if m_participant1_registration_id m = Some r then m_participant2_registration_id m = Some winner
      else m_participant2_registration_id m = Some r \<and> m_participant1_registration_id m = Some winner"
    and "match_forfeit i winner r w = (Inr x, w1)"
    and "log_transition i (m_status m) TournamentMatchStatus.Forfeit (User u) reason w1 = (Inr e, w2)"
    and "get_match i w2 = (Inr m', w')"
proof -
  let ?sel = "\<lambda>m. if m_participant1_registration_id m = Some r
      then sneed (InvalidState ''No opponent to award forfeit win'') (m_participant2_registration_id m)
      else if m_participant2_registration_id m = Some r
      then sneed (InvalidState ''No opponent to award forfeit win'') (m_participant1_registration_id m)
      else sfail (NotAuthorized ''Registration is not a participant in this match'')"
  let ?reason = "\<lambda>m. Some (''Forfeited by '' @ (case if m_participant1_registration_id m = Some r
      then m_participant1_name m else m_participant2_name m of Some n \<Rightarrow> n | None \<Rightarrow> ''registration '' @ r))"
  let ?rest = "\<lambda>m winner. sbind (match_forfeit i winner r) (\<lambda>_.
      sbind (log_transition i (m_status m) TournamentMatchStatus.Forfeit (User u) (?reason m)) (\<lambda>_. get_match i))"
  obtain m where m: "find_row m_id i (w_matches w) = Some m" "TournamentMatchStatus_can_forfeit (m_status m)"
    and run: "sbind (?sel m) (?rest m) w = (Inr m', w')"
    using assms unfolding forfeit_def Let_def by (elim sbind_okE get_match_okE) (simp split: if_splits)
  obtain winner v where sel: "?sel m w = (Inr winner, v)" and rest: "?rest m winner v = (Inr m', w')"
    using run by (rule sbind_okE)
  from sel have v: "v = w" and winner: "if m_participant1_registration_id m = Some r
      then m_participant2_registration_id m = Some winner
      else m_participant2_registration_id m = Some r \<and> m_participant1_registration_id m = Some winner"
    by (auto simp: sneed_def split: if_splits option.splits)
  obtain x w1 e w2 where "match_forfeit i winner r w = (Inr x, w1)"
    and "log_transition i (m_status m) TournamentMatchStatus.Forfeit (User u) (?reason m) w1 = (Inr e, w2)"
    and "get_match i w2 = (Inr m', w')"
    using rest unfolding v by (elim sbind_okE)
  with m winner show ?thesis by (rule that)
qed

text \<open>Check-in of a participant: the slot it fills, and the match after it.\<close>

definition slot_of :: "TournamentMatch \<Rightarrow> uuid \<Rightarrow> ParticipantSlot option" where
  "slot_of m r = (if m_participant1_registration_id m = Some r then Some One
     else if m_participant2_registration_id m = Some r then Some Two else None)"

definition checked_in_at :: "ParticipantSlot \<Rightarrow> TournamentMatch \<Rightarrow> datetime option" where
  "checked_in_at slot m = (case slot of One \<Rightarrow> m_participant1_checked_in_at m | Two \<Rightarrow> m_participant2_checked_in_at m)"

definition set_checked_in :: "ParticipantSlot \<Rightarrow> uuid \<Rightarrow> datetime \<Rightarrow> TournamentMatch \<Rightarrow> TournamentMatch" where
  "set_checked_in slot u t m = (case slot of
      One \<Rightarrow> m\<lparr>m_participant1_checked_in_at := Some t, m_participant1_checked_in_by := Some u, m_updated_at := t\<rparr>
    | Two \<Rightarrow> m\<lparr>m_participant2_checked_in_at := Some t, m_participant2_checked_in_by := Some u, m_updated_at := t\<rparr>)"

lemma set_checked_in_simps [simp]:
  "m_id (set_checked_in slot u t m) = m_id m" "m_status (set_checked_in slot u t m) = m_status m"
  "slot_of (set_checked_in slot u t m) = slot_of m"
  "m_veto_required (set_checked_in slot u t m) = m_veto_required m"
  "checked_in_at slot' (set_checked_in slot u t m) = (if slot' = slot then Some t else checked_in_at slot' m)"
  by (simp_all add: set_checked_in_def slot_of_def checked_in_at_def fun_eq_iff split: ParticipantSlot.splits)

lemma slot_of_updates [simp]:
  "slot_of (m\<lparr>m_status := b, m_updated_at := t\<rparr>) = slot_of m"
  "checked_in_at slot (m\<lparr>m_status := b, m_updated_at := t\<rparr>) = checked_in_at slot m"
  by (simp_all add: slot_of_def checked_in_at_def fun_eq_iff split: ParticipantSlot.splits)

lemma both_checked_in_slots:
  "TournamentMatch_both_checked_in m \<longleftrightarrow> (\<forall>slot. checked_in_at slot m \<noteq> None)"
proof -
  have "(\<forall>slot. P slot) \<longleftrightarrow> P One \<and> P Two" for P by (metis ParticipantSlot.exhaust)
  then show ?thesis by (simp add: TournamentMatch_both_checked_in_def checked_in_at_def)
qed

text \<open>The service in terms of slots.\<close>

lemma check_in_slots:
  "check_in i r u = sbind (get_match i) (\<lambda>m. case slot_of m r of
     None \<Rightarrow> sfail (NotAuthorized ''Registration is not a participant in this match'')
   | Some slot \<Rightarrow> sbind
       (if m_status m = TournamentMatchStatus.CheckingIn then sret ()
        else if m_status m = TournamentMatchStatus.Scheduled
        then sbind (transition i TournamentMatchStatus.CheckingIn (System ''match_check_in'')
               (Some ''Check-in window opened'')) (\<lambda>_. sret ())
        else sfail (InvalidState (''Match in '' @ TournamentMatchStatus_to_string (m_status m) @
                  '' status cannot accept check-ins'')))
       (\<lambda>_. sbind (get_match i) (\<lambda>current.
          if checked_in_at slot current \<noteq> None then sret current
          else sbind (match_set i (\<lambda>t. set_checked_in slot u t)) (\<lambda>updated.
                 if TournamentMatch_both_checked_in updated
                 then transition i (if m_veto_required updated then TournamentMatchStatus.PickBan
                                    else TournamentMatchStatus.InProgress)
                        (System ''both_checked_in'') (Some ''Both participants checked in'')
                 else sret updated))))"
  unfolding check_in_def match_check_in_participant_def set_checked_in_def [abs_def] Let_def
  by (intro arg_cong [where f = "sbind (get_match i)"] ext)
    (auto simp: slot_of_def checked_in_at_def intro!: arg_cong2 [where f = sbind])

lemma check_in_first:
  assumes m: "find_row m_id i (w_matches w) = Some m" and s: "m_status m = TournamentMatchStatus.Scheduled"
    and slot: "slot_of m r = Some slot" and c: "checked_in_at slot m = None"
    and c': "checked_in_at slot' m = None" "slot' \<noteq> slot"
  obtains x w' where "check_in i r u w = (Inr x, w')" and "find_row m_id i (w_matches w') = Some x"
    and "m_status x = TournamentMatchStatus.CheckingIn" and "slot_of x = slot_of m"
    and "m_veto_required x = m_veto_required m"
    and "checked_in_at slot x \<noteq> None" and "checked_in_at slot' x = None"
    and "history i w' = history i w @ edge_texts [(m_status m, TournamentMatchStatus.CheckingIn)]"
proof -
  let ?m1 = "m\<lparr>m_status := TournamentMatchStatus.CheckingIn, m_updated_at := w_now w\<rparr>"
  obtain w1 where t: "transition i TournamentMatchStatus.CheckingIn (System ''match_check_in'')
      (Some ''Check-in window opened'') w = (Inr ?m1, w1)"
    and m1: "find_row m_id i (w_matches w1) = Some ?m1"
    and h: "history i w1 = history i w @ edge_texts [(m_status m, TournamentMatchStatus.CheckingIn)]"
    using m by (rule transition_step [where b = TournamentMatchStatus.CheckingIn and trig = "System ''match_check_in''"
      and reason = "Some ''Check-in window opened''"]) (simp_all add: s table_edge_def reason_fits_def)
  obtain w2 where set: "match_set i (\<lambda>t. set_checked_in slot u t) w1 = (Inr (set_checked_in slot u (w_now w1) ?m1), w2)"
    and x: "find_row m_id i (w_matches w2) = Some (set_checked_in slot u (w_now w1) ?m1)" and l: "w_logs w2 = w_logs w1"
    using m1 by (rule match_set_step [where f = "\<lambda>t. set_checked_in slot u t"]) simp_all
  have "\<not> TournamentMatch_both_checked_in (set_checked_in slot u (w_now w1) ?m1)"
    unfolding both_checked_in_slots using c' by (auto intro: exI [of _ slot'])
  then have "check_in i r u w = (Inr (set_checked_in slot u (w_now w1) ?m1), w2)"
    using m s slot c t m1 set by (simp add: check_in_slots get_match_run sbind_def)
  then show ?thesis using x
    by (rule that) (use c' h history_logs [OF l] in simp_all)
qed

lemma check_in_second:
  assumes m: "find_row m_id i (w_matches w) = Some m" and s: "m_status m = TournamentMatchStatus.CheckingIn"
    and slot: "slot_of m r = Some slot" and c: "checked_in_at slot m = None"
    and c': "checked_in_at slot' m \<noteq> None" "slot' \<noteq> slot"
  obtains x w' where "check_in i r u w = (Inr x, w')" and "find_row m_id i (w_matches w') = Some x"
    and "m_status x = (if m_veto_required m then TournamentMatchStatus.PickBan else TournamentMatchStatus.InProgress)"
    and "TournamentMatch_both_checked_in x"
    and "history i w' = history i w @ edge_texts [(m_status m, m_status x)]"
proof -
  obtain w1 where set: "match_set i (\<lambda>t. set_checked_in slot u t) w = (Inr (set_checked_in slot u (w_now w) m), w1)"
    and m1: "find_row m_id i (w_matches w1) = Some (set_checked_in slot u (w_now w) m)" and l: "w_logs w1 = w_logs w"
    using m by (rule match_set_step [where f = "\<lambda>t. set_checked_in slot u t"]) simp_all
  let ?m1 = "set_checked_in slot u (w_now w) m"
  let ?b = "if m_veto_required m then TournamentMatchStatus.PickBan else TournamentMatchStatus.InProgress"
  have both: "TournamentMatch_both_checked_in ?m1"
    unfolding both_checked_in_slots
  proof
    fix s
    have "s = slot \<or> s = slot'" using c'(2) by (cases s; cases slot; cases slot') simp_all
    then show "checked_in_at s ?m1 \<noteq> None" using c' by auto
  qed
  obtain w2 where t: "transition i ?b (System ''both_checked_in'') (Some ''Both participants checked in'') w1 =
      (Inr (?m1\<lparr>m_status := ?b, m_updated_at := w_now w1\<rparr>), w2)"
    and x: "find_row m_id i (w_matches w2) = Some (?m1\<lparr>m_status := ?b, m_updated_at := w_now w1\<rparr>)"
    and h: "history i w2 = history i w1 @ edge_texts [(m_status ?m1, ?b)]"
    using m1 by (rule transition_step [where b = ?b and trig = "System ''both_checked_in''"
      and reason = "Some ''Both participants checked in''"]) (simp_all add: s table_edge_def reason_fits_def)
  have "check_in i r u w = (Inr (?m1\<lparr>m_status := ?b, m_updated_at := w_now w1\<rparr>), w2)"
    using m s slot c t set both by (simp add: check_in_slots get_match_run sbind_def)
  then show ?thesis using x
    by (rule that) (use both h history_logs [OF l] in \<open>simp_all add: both_checked_in_slots\<close>)
qed

section \<open>Properties\<close>





text \<open>
  C27. A scheduled match whose two participants check in, in either order, gets started: after
  the second check-in it is in pick and ban if it needs a veto and in progress otherwise, and
  the log shows the two transitions.
\<close>

theorem two_check_ins_start_the_match:
  assumes "find_row m_id i (w_matches w) = Some m" and "m_status m = TournamentMatchStatus.Scheduled"
    and "slot_of m a = Some slot" and "slot_of m b = Some slot'" and "slot \<noteq> slot'"
    and "m_participant1_checked_in_at m = None" and "m_participant2_checked_in_at m = None"
  shows "\<exists>m1 w1 m2 w2. check_in i a u w = (Inr m1, w1) \<and> check_in i b v w1 = (Inr m2, w2) \<and>
    m_status m1 = TournamentMatchStatus.CheckingIn \<and>
    m_status m2 = (if m_veto_required m then TournamentMatchStatus.PickBan else TournamentMatchStatus.InProgress) \<and>
    find_row m_id i (w_matches w2) = Some m2 \<and>
    history i w2 = history i w @ edge_texts [(m_status m, m_status m1), (m_status m1, m_status m2)]"
proof -
  have c: "checked_in_at slot m = None" "checked_in_at slot' m = None"
    using assms(6,7) by (simp_all add: checked_in_at_def split: ParticipantSlot.splits)
  obtain m1 w1 where 1: "check_in i a u w = (Inr m1, w1)" "find_row m_id i (w_matches w1) = Some m1"
    "m_status m1 = TournamentMatchStatus.CheckingIn" "slot_of m1 = slot_of m" "m_veto_required m1 = m_veto_required m"
    "checked_in_at slot m1 \<noteq> None" "checked_in_at slot' m1 = None"
    "history i w1 = history i w @ edge_texts [(m_status m, TournamentMatchStatus.CheckingIn)]"
    using assms(1,2,3) c assms(5) [symmetric] by (rule check_in_first)
  obtain m2 w2 where 2: "check_in i b v w1 = (Inr m2, w2)" "find_row m_id i (w_matches w2) = Some m2"
    "m_status m2 = (if m_veto_required m1 then TournamentMatchStatus.PickBan else TournamentMatchStatus.InProgress)"
    "history i w2 = history i w1 @ edge_texts [(m_status m1, m_status m2)]"
    using 1(2,3) assms(4) [folded 1(4)] 1(7,6) assms(5) by (rule check_in_second) blast
  with 1 show ?thesis
    by (intro exI [of _ m1] exI [of _ w1] exI [of _ m2] exI [of _ w2]) (simp del: edge_texts_simps(2) add: edge_texts_def)
qed

text \<open>
  A rejected transition changes nothing: on an unknown match, or a status the table does not
  allow next, the world stays as it was. An error after an allowed one is the log's.
\<close>

theorem rejected_transition_changes_nothing:
  assumes "transition i b trig reason w = (Inl e, w')"
  shows "(case find_row m_id i (w_matches w) of
      None \<Rightarrow> e = TournamentMatchNotFound i \<and> w' = w
    | Some m \<Rightarrow> if table_edge (m_status m) b then \<not> reason_fits reason
        else e = InvalidState (''Cannot transition match from '' @ TournamentMatchStatus_to_string (m_status m) @
          '' to '' @ TournamentMatchStatus_to_string b) \<and> w' = w)"
proof (cases "find_row m_id i (w_matches w)")
  case None
  with assms show ?thesis by (auto simp: transition_def get_match_run)
next
  case (Some m)
  show ?thesis
  proof (cases "table_edge (m_status m) b")
    case True
    then have "\<not> reason_fits reason" using assms transition_run [OF Some True] by auto
    with Some True show ?thesis by simp
  next
    case False
    then have "transition i b trig reason w = (Inl (InvalidState (''Cannot transition match from '' @
        TournamentMatchStatus_to_string (m_status m) @ '' to '' @ TournamentMatchStatus_to_string b)), w)"
      using Some by (simp add: transition_def get_match_run table_edge_def TournamentMatchStatus_can_transition_to_def)
    with Some False assms show ?thesis by auto
  qed
qed

text \<open>
  An override whose reason is longer than 240 characters moves the match and then fails
  without a log entry: the reason does not fit its column, and the status is already written.
\<close>

theorem long_override_reason_loses_the_audit:
  assumes m: "find_row m_id i (w_matches w) = Some m" and b: "table_edge (m_status m) b" and "240 < length reason"
  shows "\<exists>t w' m'. admin_transition i b admin reason w = (Inl (Internal t), w') \<and>
    find_row m_id i (w_matches w') = Some m' \<and> m_status m' = b \<and> history i w' = history i w"
proof -
  let ?r = "Some (''Admin override: '' @ reason)" and ?f = "\<lambda>t m. m\<lparr>m_status := b, m_updated_at := t\<rparr>"
  have long: "\<not> reason_fits ?r" using assms(3) by (simp add: reason_fits_def)
  obtain w1 where 1: "match_set i ?f w = (Inr (m\<lparr>m_status := b, m_updated_at := w_now w\<rparr>), w1)"
    and x: "find_row m_id i (w_matches w1) = Some (m\<lparr>m_status := b, m_updated_at := w_now w\<rparr>)" and l: "w_logs w1 = w_logs w"
    using m by (rule match_set_step [where f = ?f]) simp_all
  obtain t where t: "log_transition i (m_status m) b (Admin admin reason) ?r w1 = (Inl (Internal t), w1\<lparr>w_next := Suc (w_next w1)\<rparr>)"
    using log_create_too_long [of "log_command i (m_status m) b (Admin admin reason) ?r" w1] long
    by (auto simp: log_transition_command)
  have "admin_transition i b admin reason w = (Inl (Internal t), w1\<lparr>w_next := Suc (w_next w1)\<rparr>)"
    using m b 1 t
    by (simp add: admin_transition_def transition_def get_match_run sbind_def match_update_status_def
        TournamentMatchStatus_can_transition_to_def table_edge_def)
  then show ?thesis
    by (intro exI [of _ t] exI [of _ "w1\<lparr>w_next := Suc (w_next w1)\<rparr>"] exI [of _ "m\<lparr>m_status := b, m_updated_at := w_now w\<rparr>"])
      (simp add: x history_def l)
qed

text \<open>
  C20. \<open>start_match\<close> takes a match to in progress exactly from ready, scheduled and checking in:
  not from pick and ban, from where the table allows it, but from ready, from where it does not.
\<close>

theorem start_match_ignores_the_table:
  assumes "find_row m_id i (w_matches w) = Some m"
  shows "(if m_status m \<in> {TournamentMatchStatus.Ready, TournamentMatchStatus.Scheduled, TournamentMatchStatus.CheckingIn}
     then \<exists>m' w'. start_match i u w = (Inr m', w') \<and> m_status m' = TournamentMatchStatus.InProgress \<and>
       m_started_at m' = Some (w_now w) \<and> history i w' = history i w @ edge_texts [(m_status m, m_status m')]
     else \<exists>t. start_match i u w = (Inl (InvalidState t), w))
   \<and> table_edge TournamentMatchStatus.PickBan TournamentMatchStatus.InProgress
   \<and> \<not> table_edge TournamentMatchStatus.Ready TournamentMatchStatus.InProgress"
proof (cases "TournamentMatchStatus_can_start (m_status m)")
  case True
  let ?f = "\<lambda>t m. m\<lparr>m_started_at := Some t, m_status := TournamentMatchStatus.InProgress, m_updated_at := t\<rparr>"
  obtain w1 where 1: "match_set i ?f w = (Inr (?f (w_now w) m), w1)"
    and x: "find_row m_id i (w_matches w1) = Some (?f (w_now w) m)" and l: "w_logs w1 = w_logs w"
    using assms by (rule match_set_step [where f = ?f]) simp_all
  let ?c = "log_command i (m_status m) TournamentMatchStatus.InProgress (User u) (Some ''Match started'')"
  let ?w2 = "w1\<lparr>w_next := Suc (w_next w1), w_logs := w_logs w1 @ [log_row w1 ?c]\<rparr>"
  obtain e where "log_transition i (m_status m) TournamentMatchStatus.InProgress (User u) (Some ''Match started'') w1 = (Inr e, ?w2)"
    by (rule log_transition_ok [of "Some ''Match started''"]) (simp add: reason_fits_def)
  then have "start_match i u w = (Inr (?f (w_now w) m), ?w2)"
    using assms True 1 x by (simp add: start_match_def get_match_run sbind_def match_start_def)
  moreover have "history i ?w2 = history i w @ edge_texts [(m_status m, m_status (?f (w_now w) m))]"
    using l by (simp add: history_def)
  moreover have "m_status (?f (w_now w) m) = TournamentMatchStatus.InProgress" "m_started_at (?f (w_now w) m) = Some (w_now w)"
    by simp_all
  ultimately have ex: "\<exists>m' w'. start_match i u w = (Inr m', w') \<and> m_status m' = TournamentMatchStatus.InProgress \<and>
       m_started_at m' = Some (w_now w) \<and> history i w' = history i w @ edge_texts [(m_status m, m_status m')]" by blast
  have "table_edge TournamentMatchStatus.PickBan TournamentMatchStatus.InProgress"
    "\<not> table_edge TournamentMatchStatus.Ready TournamentMatchStatus.InProgress"
    by (simp_all add: table_edge_def)
  with ex True show ?thesis unfolding TournamentMatchStatus_can_start_def by (simp only: if_True simp_thms)
next
  case False
  then have "\<exists>t. start_match i u w = (Inl (InvalidState t), w)"
    using assms by (simp add: start_match_def get_match_run)
  with False show ?thesis by (auto simp: TournamentMatchStatus_can_start_def table_edge_def)
qed



section \<open>Witnesses\<close>

definition example_match :: TournamentMatch where
  "example_match = (match_of_create ''m1'' 0
     \<lparr>c_bracket_id = ''b'', c_stage_id = ''s'', c_tournament_id = ''t'', c_round = 1, c_match_number = 1,
      c_bracket_position = ''R1M1'', c_participant1_registration_id = Some ''r1'',
      c_participant2_registration_id = Some ''r2'', c_participant1_name = Some ''red'',
      c_participant1_logo_url = None, c_participant1_seed = Some 1, c_participant2_name = Some ''blue'',
      c_participant2_logo_url = None, c_participant2_seed = Some 2, c_participant1_source = Some (Seed 1),
      c_participant2_source = Some (Seed 2), c_match_format = Bo3, c_maps_required = 3,
      c_winner_progresses_to = None, c_loser_progresses_to = None\<rparr>)\<lparr>m_status := TournamentMatchStatus.Scheduled\<rparr>"

definition example_world :: world where
  "example_world = empty_world\<lparr>w_matches := [example_match]\<rparr>"

lemma example_found: "find_row m_id ''m1'' (w_matches example_world) = Some example_match"
  by (simp add: example_world_def find_row_def example_match_def match_of_create_def)

lemma example_fields [simp]:
  "m_status example_match = TournamentMatchStatus.Scheduled"
  "slot_of example_match ''r1'' = Some One" "slot_of example_match ''r2'' = Some Two"
  "m_participant1_checked_in_at example_match = None" "m_participant2_checked_in_at example_match = None"
  by (simp_all add: example_match_def match_of_create_def slot_of_def)

lemma example_forfeits:
  "case forfeit ''m1'' ''r1'' ''u'' example_world of (Inl e, _) \<Rightarrow> False
   | (Inr m, w) \<Rightarrow> map_option m_status (find_row m_id ''m1'' (w_matches w)) = Some TournamentMatchStatus.Forfeit"
  by code_simp



theorem two_check_ins_start_the_match_witness:
  "\<exists>m1 w1 m2 w2. check_in ''m1'' ''r2'' ''u'' example_world = (Inr m1, w1) \<and> check_in ''m1'' ''r1'' ''v'' w1 = (Inr m2, w2) \<and>
     m_status m2 = TournamentMatchStatus.InProgress"
  using two_check_ins_start_the_match [OF example_found, of "''r2''" Two "''r1''" One "''u''" "''v''"]
  by (auto simp: example_match_def match_of_create_def slot_of_def)

theorem rejected_transition_changes_nothing_witness:
  "\<exists>t. transition ''m1'' TournamentMatchStatus.Completed (System ''job'') None example_world = (Inl (InvalidState t), example_world)"
proof -
  obtain e w' where run: "transition ''m1'' TournamentMatchStatus.Completed (System ''job'') None example_world = (Inl e, w')"
    by (simp add: transition_def get_match_run example_found TournamentMatchStatus_can_transition_to_def)
  show ?thesis
    using rejected_transition_changes_nothing [OF run] run by (simp add: example_found table_edge_def)
qed

theorem long_override_reason_loses_the_audit_witness:
  "\<exists>t w'. admin_transition ''m1'' TournamentMatchStatus.Cancelled ''a'' (replicate 241 CHR ''x'') example_world = (Inl (Internal t), w') \<and>
     history ''m1'' w' = []"
  using long_override_reason_loses_the_audit [OF example_found, of TournamentMatchStatus.Cancelled "replicate 241 CHR ''x''" "''a''"]
  by (auto simp: table_edge_def history_def example_world_def empty_world_def)

theorem start_match_ignores_the_table_witness:
  "\<exists>m' w'. start_match ''m1'' ''u'' example_world = (Inr m', w') \<and> m_status m' = TournamentMatchStatus.InProgress"
  using start_match_ignores_the_table [OF example_found, of "''u''"] by auto


end
