(* ===== verification/VetoRepo.thy ===== *)
theory VetoRepo
  imports World
begin

text \<open>
  The tables of veto sessions and veto actions (\<open>portal-db/src/adapters/tournament/veto.rs\<close>):
  at most one session per match, at most one action per session and number. Creating an
  action that exists returns the stored one, which is how an interrupted action is finished.
\<close>

section \<open>Sessions\<close>

definition sql_internal :: "string \<Rightarrow> sql_error \<Rightarrow> world \<Rightarrow> DomainError" where
  "sql_internal what e w = Internal (what @ w_sql_error w e)"

definition veto_find_by_id :: "uuid \<Rightarrow> VetoSession option service" where
  "veto_find_by_id i = sget (\<lambda>w. find_row vs_id i (w_sessions w))"

definition veto_find_by_match :: "uuid \<Rightarrow> VetoSession option service" where
  "veto_find_by_match match_id = sget (\<lambda>w. find (\<lambda>s. vs_match_id s = match_id) (w_sessions w))"

definition veto_session_row :: "uuid \<Rightarrow> datetime \<Rightarrow> CreateVetoSession \<Rightarrow> VetoSession" where
  "veto_session_row i t c = \<lparr>vs_id = i, vs_match_id = cvs_match_id c, vs_veto_format_id = cvs_veto_format_id c,
     vs_map_pool = cvs_map_pool c, vs_coin_flip_winner_registration_id = None,
     vs_first_action_registration_id = None, vs_current_action_number = 0, vs_current_team_turn = None,
     vs_remaining_maps = cvs_map_pool c, vs_selected_maps = [], vs_status = VetoStatus.Pending,
     vs_action_deadline = None, vs_timeout_seconds = cvs_timeout_seconds c,
     vs_side_selection_mode = cvs_side_selection_mode c, vs_started_at = None, vs_completed_at = None,
     vs_created_at = t, vs_updated_at = t\<rparr>"

text \<open>The columns an update names; a nullable column may be named with \<open>NULL\<close>.\<close>

definition no_veto_update :: UpdateVetoSession where
  "no_veto_update = \<lparr>uvs_first_action_registration_id = None, uvs_coin_flip_winner_registration_id = None,
     uvs_current_action_number = None, uvs_current_team_turn = None, uvs_remaining_maps = None,
     uvs_selected_maps = None, uvs_status = None, uvs_action_deadline = None, uvs_started_at = None,
     uvs_completed_at = None\<rparr>"

definition veto_create :: "CreateVetoSession \<Rightarrow> VetoSession service" where
  "veto_create c = sbind now (\<lambda>t. sbind new_uuid (\<lambda>i. \<lambda>w.
     if cvs_match_id c \<in> vs_match_id ` set (w_sessions w)
     then (Inl (sql_internal ''Failed to create veto session: '' (UniqueViolation ''veto_sessions_unique_match'') w), w)
     else insert_returning w_sessions_update (veto_session_row i t c) w))"

definition apply_veto_update :: "UpdateVetoSession \<Rightarrow> datetime \<Rightarrow> VetoSession \<Rightarrow> VetoSession" where
  "apply_veto_update u t s = s\<lparr>
     vs_first_action_registration_id :=
       or_old (map_option Some (uvs_first_action_registration_id u)) (vs_first_action_registration_id s),
     vs_coin_flip_winner_registration_id :=
       or_old (map_option Some (uvs_coin_flip_winner_registration_id u)) (vs_coin_flip_winner_registration_id s),
     vs_current_action_number := or_old (uvs_current_action_number u) (vs_current_action_number s),
     vs_current_team_turn := or_old (uvs_current_team_turn u) (vs_current_team_turn s),
     vs_remaining_maps := or_old (uvs_remaining_maps u) (vs_remaining_maps s),
     vs_selected_maps := or_old (uvs_selected_maps u) (vs_selected_maps s),
     vs_status := or_old (uvs_status u) (vs_status s),
     vs_action_deadline := or_old (uvs_action_deadline u) (vs_action_deadline s),
     vs_started_at := or_old (map_option Some (uvs_started_at u)) (vs_started_at s),
     vs_completed_at := or_old (map_option Some (uvs_completed_at u)) (vs_completed_at s),
     vs_updated_at := t\<rparr>"

definition veto_update :: "uuid \<Rightarrow> UpdateVetoSession \<Rightarrow> VetoSession service" where
  "veto_update i u = sbind now (\<lambda>t. update_returning w_sessions w_sessions_update vs_id
     (sql_internal ''Failed to update veto session: '' RowNotFound) i (apply_veto_update u t))"

definition veto_update_status :: "uuid \<Rightarrow> VetoStatus \<Rightarrow> VetoSession service" where
  "veto_update_status i status = sbind now (\<lambda>t. update_returning w_sessions w_sessions_update vs_id
     (sql_internal ''Failed to update veto session status: '' RowNotFound) i
     (\<lambda>s. s\<lparr>vs_status := status, vs_updated_at := t\<rparr>))"

definition deadline_le :: "datetime option \<Rightarrow> datetime option \<Rightarrow> bool" where
  "deadline_le x y = (case (x, y) of (Some a, Some b) \<Rightarrow> a \<le> b | (None, Some _) \<Rightarrow> False | _ \<Rightarrow> True)"

definition veto_find_timed_out :: "VetoSession list service" where
  "veto_find_timed_out = sget (\<lambda>w. sort_by (\<lambda>x y. deadline_le (vs_action_deadline x) (vs_action_deadline y))
     (filter (\<lambda>s. vs_status s = VetoStatus.InProgress \<and>
        (case vs_action_deadline s of None \<Rightarrow> False | Some d \<Rightarrow> d < w_now w)) (w_sessions w)))"

definition veto_find_by_status :: "VetoStatus \<Rightarrow> VetoSession list service" where
  "veto_find_by_status status = sget (\<lambda>w. sort_by (\<lambda>x y. vs_created_at x \<le> vs_created_at y)
     (filter (\<lambda>s. vs_status s = status) (w_sessions w)))"

text \<open>Deleting a session deletes its actions (\<open>ON DELETE CASCADE\<close>).\<close>

definition veto_delete :: "uuid \<Rightarrow> unit service" where
  "veto_delete i = smodify (\<lambda>w. w\<lparr>w_sessions := filter (\<lambda>s. vs_id s \<noteq> i) (w_sessions w),
     w_actions := filter (\<lambda>a. va_session_id a \<noteq> i) (w_actions w)\<rparr>)"

section \<open>Actions\<close>

definition action_find_by_id :: "uuid \<Rightarrow> VetoAction option service" where
  "action_find_by_id i = sget (\<lambda>w. find_row va_id i (w_actions w))"

definition action_at :: "uuid \<Rightarrow> nat \<Rightarrow> world \<Rightarrow> VetoAction option" where
  "action_at session_id n w = find (\<lambda>a. va_session_id a = session_id \<and> va_action_number a = n) (w_actions w)"

definition action_find_by_session_and_number :: "uuid \<Rightarrow> nat \<Rightarrow> VetoAction option service" where
  "action_find_by_session_and_number session_id n = sget (action_at session_id n)"

definition action_list_by_session :: "uuid \<Rightarrow> VetoAction list service" where
  "action_list_by_session session_id = sget (\<lambda>w. sort_by (\<lambda>x y. va_action_number x \<le> va_action_number y)
     (filter (\<lambda>a. va_session_id a = session_id) (w_actions w)))"

definition veto_action_row :: "uuid \<Rightarrow> datetime \<Rightarrow> CreateVetoAction \<Rightarrow> VetoAction" where
  "veto_action_row i t c = \<lparr>va_id = i, va_session_id = cva_session_id c, va_action_number = cva_action_number c,
     va_action_type = cva_action_type c, va_map_id = cva_map_id c,
     va_performed_by_registration_id = cva_performed_by_registration_id c,
     va_performed_by_user_id = cva_performed_by_user_id c, va_side_selection = None,
     va_side_selected_by_registration_id = None, va_side_selected_at = None,
     va_was_auto_action = cva_was_auto_action c, va_auto_action_reason = cva_auto_action_reason c,
     va_performed_at = t\<rparr>"

text \<open>\<open>INSERT .. ON CONFLICT DO NOTHING RETURNING *\<close>, and the stored row on a conflict.\<close>

definition action_create :: "CreateVetoAction \<Rightarrow> VetoAction service" where
  "action_create c = sbind (sget (action_at (cva_session_id c) (cva_action_number c))) (\<lambda>existing.
     case existing of
       Some row \<Rightarrow> sret row
     | None \<Rightarrow> sbind now (\<lambda>t. sbind new_uuid (\<lambda>i. insert_returning w_actions_update (veto_action_row i t c))))"

definition action_update_side_selection :: "uuid \<Rightarrow> string \<Rightarrow> uuid \<Rightarrow> VetoAction service" where
  "action_update_side_selection i side selected_by = sbind now (\<lambda>t.
     update_returning w_actions w_actions_update va_id
       (sql_internal ''Failed to update side selection: '' RowNotFound) i
       (\<lambda>a. a\<lparr>va_side_selection := Some side, va_side_selected_by_registration_id := Some selected_by,
          va_side_selected_at := Some t\<rparr>))"

end
