(* ===== verification/Veto.thy ===== *)
theory Veto
  imports VetoRepo MatchRepo
begin

text \<open>
  The map veto service (\<open>services/tournament/veto.rs\<close>): creating and starting a session, the
  coin flip, bans and picks in turn, the automatic decider, wheel spins, timeouts, side
  selection, cancellation. The injected providers and the default timeout are the fields of
  \<open>VetoService\<close>; a random choice reads the next number of the world's random source.
\<close>

section \<open>The service\<close>

record VetoService =
  format_provider :: "(string \<Rightarrow> VetoFormatConfig option) option"
  side_provider :: "(string \<Rightarrow> nat \<Rightarrow> string option) option"
  default_timeout_seconds :: nat

definition get_session :: "uuid \<Rightarrow> VetoSession service" where
  "get_session i = sbind (veto_find_by_id i) (sneed (VetoSessionNotFound i))"

definition get_format :: "VetoService \<Rightarrow> string \<Rightarrow> DomainError + VetoFormatConfig" where
  "get_format self format_id =
     (case (case format_provider self of None \<Rightarrow> None | Some provider \<Rightarrow> provider format_id) of
        Some fmt \<Rightarrow> Inr fmt
      | None \<Rightarrow> (case VetoFormatConfig_builtin format_id of
          Some fmt \<Rightarrow> Inr fmt
        | None \<Rightarrow> Inl (InvalidMatchResult (''Unknown veto format: '' @ format_id))))"

definition resolve_format :: "VetoService \<Rightarrow> string \<Rightarrow> DomainError + VetoFormatConfig" where
  "resolve_format self format_id = get_format self format_id"

definition create_session :: "VetoService \<Rightarrow> uuid \<Rightarrow> VetoFormatConfig \<Rightarrow> string list \<Rightarrow> nat option \<Rightarrow>
    SideSelectionMode \<Rightarrow> VetoSession service" where
  "create_session self match_id veto_format map_pool timeout_seconds side_selection_mode =
     sbind (match_find_by_id match_id) (\<lambda>found. sbind (sneed (TournamentMatchNotFound match_id) found) (\<lambda>m.
       if \<not> TournamentMatch_has_both_participants m
       then sfail (InvalidState ''Match must have both participants to start veto'')
       else if length map_pool < vf_min_map_pool veto_format
       then sfail (InvalidMatchResult (''Map pool must have at least '' @ show_nat (vf_min_map_pool veto_format) @
         '' maps for '' @ vf_id veto_format @ '' format''))
       else sbind (veto_find_by_match match_id) (\<lambda>existing.
         if existing \<noteq> None then sfail (Conflict ''Veto session already exists for this match'')
         else sbind (veto_create \<lparr>cvs_match_id = match_id, cvs_veto_format_id = vf_id veto_format,
                cvs_map_pool = map_pool,
                cvs_timeout_seconds = (case timeout_seconds of None \<Rightarrow> default_timeout_seconds self | Some t \<Rightarrow> t),
                cvs_side_selection_mode = side_selection_mode\<rparr>)
              (\<lambda>session. sbind (match_set_veto_required match_id True) (\<lambda>_. sret session)))))"

definition start_session :: "VetoService \<Rightarrow> uuid \<Rightarrow> VetoSession service" where
  "start_session self session_id = sbind (get_session session_id) (\<lambda>session.
     if vs_status session \<in> {VetoStatus.CoinFlip, VetoStatus.InProgress} then sret session
     else if \<not> VetoStatus_can_start (vs_status session)
     then sfail (InvalidState (''Cannot start veto session in '' @ VetoStatus_to_string (vs_status session) @ '' status''))
     else sbind (slift (get_format self (vs_veto_format_id session))) (\<lambda>format. sbind now (\<lambda>t.
       if \<not> VetoFormatConfig_has_team_actions format
       then veto_update session_id (no_veto_update\<lparr>uvs_current_action_number := Some 1,
         uvs_current_team_turn := Some None, uvs_status := Some VetoStatus.InProgress,
         uvs_action_deadline := Some None, uvs_started_at := Some t\<rparr>)
       else veto_update session_id (no_veto_update\<lparr>uvs_status := Some VetoStatus.CoinFlip,
         uvs_started_at := Some t\<rparr>))))"

definition record_coin_flip :: "VetoService \<Rightarrow> uuid \<Rightarrow> uuid \<Rightarrow> bool \<Rightarrow> VetoSession service" where
  "record_coin_flip self session_id winner winner_goes_first = sbind (get_session session_id) (\<lambda>session.
     if \<not> VetoStatus_can_coin_flip (vs_status session)
     then sfail (InvalidState (''Cannot record coin flip in '' @ VetoStatus_to_string (vs_status session) @ '' status''))
     else if vs_coin_flip_winner_registration_id session \<noteq> None then sret session
     else sbind (match_find_by_id (vs_match_id session)) (\<lambda>found.
       sbind (sneed (TournamentMatchNotFound (vs_match_id session)) found) (\<lambda>m.
       if \<not> (m_participant1_registration_id m = Some winner \<or> m_participant2_registration_id m = Some winner)
       then sfail (NotAuthorized ''Coin flip winner must be a match participant'')
       else let other_team = (if m_participant1_registration_id m = Some winner
                              then m_participant2_registration_id m else m_participant1_registration_id m)
         in sbind (if winner_goes_first then sret winner
                   else sneed (InvalidState ''Other participant not set'') other_team) (\<lambda>first_action.
            sbind now (\<lambda>t. veto_update session_id (no_veto_update\<lparr>
              uvs_coin_flip_winner_registration_id := Some winner,
              uvs_first_action_registration_id := Some first_action,
              uvs_current_action_number := Some 1, uvs_current_team_turn := Some (Some first_action),
              uvs_status := Some VetoStatus.InProgress,
              uvs_action_deadline := Some (Some (t + int (vs_timeout_seconds session))),
              uvs_started_at := Some t\<rparr>))))))"

section \<open>One action\<close>

definition determine_next_team :: "VetoSession \<Rightarrow> VetoFormatActionConfig option \<Rightarrow> uuid option service" where
  "determine_next_team session next_action =
     sbind (sneed (InvalidState ''No next action'') next_action) (\<lambda>next_action.
       if fa_team next_action = 0 then sret (vs_first_action_registration_id session)
       else sbind (match_find_by_id (vs_match_id session)) (\<lambda>found.
         sbind (sneed (TournamentMatchNotFound (vs_match_id session)) found) (\<lambda>m.
         sbind (sneed (InvalidState ''Participant 1 not set'') (m_participant1_registration_id m)) (\<lambda>team1.
         sbind (sneed (InvalidState ''Participant 2 not set'') (m_participant2_registration_id m)) (\<lambda>team2.
         sbind (sneed (InvalidState ''First action team not set'') (vs_first_action_registration_id session))
           (\<lambda>first_action.
              let second_action = (if first_action = team1 then team2 else team1)
              in if fa_team next_action = 1 then sret (Some first_action)
                 else if fa_team next_action = 2 then sret (Some second_action)
                 else sfail (InvalidMatchResult ''Invalid team number in format'')))))))"

definition selects_map :: "VetoActionType \<Rightarrow> bool" where
  "selects_map t \<longleftrightarrow> t \<in> {VetoActionType.Pick, VetoActionType.Decider, VetoActionType.Random}"

text \<open>The random side of a pick or a wheel spin, and who it is attributed to.\<close>

definition random_side :: "VetoService \<Rightarrow> string service" where
  "random_side self = sbind draw (\<lambda>r. sret
     (case (case side_provider self of None \<Rightarrow> None | Some sp \<Rightarrow> sp [] r) of
        Some side \<Rightarrow> side
      | None \<Rightarrow> if even r then ''ct'' else ''t''))"

definition assign_random_side :: "VetoService \<Rightarrow> VetoSession \<Rightarrow> VetoActionType \<Rightarrow> uuid option \<Rightarrow> VetoAction \<Rightarrow>
    VetoAction service" where
  "assign_random_side self session action_type performed_by action =
     (if vs_side_selection_mode session = SideSelectionMode.CoinFlip \<and>
         action_type \<in> {VetoActionType.Pick, VetoActionType.Random} \<and> \<not> VetoAction_has_side_selection action
      then sbind (random_side self) (\<lambda>side. sbind
        (case performed_by of
           Some reg \<Rightarrow> sret (Some reg)
         | None \<Rightarrow> (case vs_first_action_registration_id session of
             Some reg \<Rightarrow> sret (Some reg)
           | None \<Rightarrow> sbind (match_find_by_id (vs_match_id session)) (\<lambda>m.
               sret (Option.bind m m_participant1_registration_id))))
        (\<lambda>selector. case selector of
           None \<Rightarrow> sret action
         | Some selector \<Rightarrow> action_update_side_selection (va_id action) side selector))
      else sret action)"

text \<open>The turn, the status and the deadline that follow an action; a wheel spin has no deadline.\<close>

definition next_turn :: "VetoSession \<Rightarrow> VetoFormatConfig \<Rightarrow> nat \<Rightarrow> datetime \<Rightarrow>
    (uuid option \<times> VetoStatus \<times> datetime option) service" where
  "next_turn session format next_action_number t =
     (if VetoFormatConfig_is_complete_at format next_action_number then sret (None, VetoStatus.Completed, None)
      else let next_format_action = VetoFormatConfig_get_action format (next_action_number - 1);
               next_is_random = (case next_format_action of None \<Rightarrow> False
                 | Some a \<Rightarrow> fa_action_type a = VetoActionType.Random)
           in sbind (determine_next_team session next_format_action) (\<lambda>next_team.
             sret (next_team, VetoStatus.InProgress,
               if next_is_random then None else Some (t + int (vs_timeout_seconds session)))))"

text \<open>The second half of an action: the session after \<open>map_id\<close>, written in one update.\<close>

definition advance_session :: "VetoSession \<Rightarrow> VetoFormatConfig \<Rightarrow> VetoFormatActionConfig \<Rightarrow> string \<Rightarrow> VetoAction \<Rightarrow>
    VetoActionResult service" where
  "advance_session session format format_action map_id action =
     (let remaining = filter (\<lambda>m. m \<noteq> map_id) (vs_remaining_maps session);
          selected = (if selects_map (fa_action_type format_action) \<and> map_id \<notin> set (vs_selected_maps session)
                      then vs_selected_maps session @ [map_id] else vs_selected_maps session);
          next_action_number = vs_current_action_number session + 1;
          veto_complete = VetoFormatConfig_is_complete_at format next_action_number
      in sbind now (\<lambda>t. sbind (next_turn session format next_action_number t)
          (\<lambda>(next_team, next_status, deadline).
          sbind (veto_update (vs_id session) (no_veto_update\<lparr>
              uvs_current_action_number := Some next_action_number,
              uvs_current_team_turn := Some next_team, uvs_remaining_maps := Some remaining,
              uvs_selected_maps := Some selected, uvs_status := Some next_status,
              uvs_action_deadline := Some deadline,
              uvs_completed_at := (if veto_complete then Some t else None)\<rparr>))
            (\<lambda>updated_session. sret \<lparr>vr_session = updated_session, vr_action = action,
               vr_veto_complete = veto_complete, vr_next_team = next_team,
               vr_next_action_type = (if veto_complete then None
                 else map_option fa_action_type
                   (VetoFormatConfig_get_action format (next_action_number - 1)))\<rparr>))))"

definition record_action_internal :: "VetoService \<Rightarrow> VetoSession \<Rightarrow> VetoFormatConfig \<Rightarrow> VetoFormatActionConfig \<Rightarrow>
    string \<Rightarrow> uuid option \<Rightarrow> uuid option \<Rightarrow> bool \<Rightarrow> string option \<Rightarrow> VetoActionResult service" where
  "record_action_internal self session format format_action map_id performed_by performed_by_user was_auto auto_reason =
     sbind (action_create \<lparr>cva_session_id = vs_id session, cva_action_number = vs_current_action_number session,
        cva_action_type = fa_action_type format_action, cva_map_id = map_id,
        cva_performed_by_registration_id = performed_by, cva_performed_by_user_id = performed_by_user,
        cva_was_auto_action = was_auto, cva_auto_action_reason = auto_reason\<rparr>) (\<lambda>created.
     sbind (assign_random_side self session (fa_action_type format_action) performed_by created) (\<lambda>action.
     advance_session session format format_action (va_map_id created) action))"

text \<open>
  The loop over the automatic deciders, with fuel; \<open>None\<close> is the loop cut off, which the fuel
  of \<open>chain_deciders\<close> excludes (\<open>chain_loop_enough\<close>).
\<close>

fun chain_loop :: "nat \<Rightarrow> VetoService \<Rightarrow> uuid \<Rightarrow> VetoFormatConfig \<Rightarrow> VetoActionResult \<Rightarrow> VetoActionResult option service" where
  "chain_loop 0 self session_id format result = sret None"
| "chain_loop (Suc fuel) self session_id format result =
     (if vr_veto_complete result \<or> vr_next_action_type result \<noteq> Some VetoActionType.Decider
      then sret (Some result)
      else sbind (get_session session_id) (\<lambda>updated_session.
        sbind (sneed (InvalidState ''Decider action index out of bounds'')
            (VetoFormatConfig_get_action format (vs_current_action_number updated_session - 1)))
          (\<lambda>next_format_action.
        sbind (sneed (InvalidState ''No maps remaining for decider'') (list_get (vs_remaining_maps updated_session) 0))
          (\<lambda>decider_map.
        sbind (record_action_internal self updated_session format next_format_action decider_map None None True
            (Some ''decider_auto''))
          (\<lambda>result. chain_loop fuel self session_id format result)))))"

definition chain_deciders :: "VetoService \<Rightarrow> uuid \<Rightarrow> VetoFormatConfig \<Rightarrow> VetoActionResult \<Rightarrow> VetoActionResult service" where
  "chain_deciders self session_id format result =
     sbind (chain_loop (length (vf_sequence format) + 2) self session_id format result)
       (sneed (Internal ''decider loop cut off''))"

section \<open>The operations on a running session\<close>

definition perform_action :: "VetoService \<Rightarrow> uuid \<Rightarrow> string \<Rightarrow> uuid \<Rightarrow> uuid \<Rightarrow> VetoActionResult service" where
  "perform_action self session_id map_id acting_for_registration performed_by_user =
     sbind (get_session session_id) (\<lambda>session.
       if \<not> VetoStatus_can_act (vs_status session)
       then sfail (InvalidState (''Cannot perform action in '' @ VetoStatus_to_string (vs_status session) @ '' status''))
       else if \<not> VetoSession_is_map_available session map_id
       then sfail (InvalidMatchResult (''Map '' @ single_quote # map_id @ single_quote # '' is not available for selection''))
       else sbind (sneed (InvalidState ''No team turn set'') (vs_current_team_turn session)) (\<lambda>current_team.
         if current_team \<noteq> acting_for_registration
         then sfail (NotAuthorized (''It is not your team'' @ single_quote # ''s turn''))
         else sbind (slift (get_format self (vs_veto_format_id session))) (\<lambda>format.
           sbind (sneed (InvalidState ''Action index out of bounds'')
               (VetoFormatConfig_get_action format (vs_current_action_number session - 1))) (\<lambda>format_action.
           sbind (record_action_internal self session format format_action map_id (Some current_team)
               (Some performed_by_user) False None) (\<lambda>result.
           chain_deciders self session_id format result)))))"

definition perform_wheel_action :: "VetoService \<Rightarrow> uuid \<Rightarrow> string \<Rightarrow> nat \<Rightarrow> VetoActionResult service" where
  "perform_wheel_action self session_id map_id expected_action_number =
     sbind (get_session session_id) (\<lambda>session.
       if \<not> VetoStatus_can_act (vs_status session)
       then sfail (InvalidState (''Cannot spin the wheel in '' @ VetoStatus_to_string (vs_status session) @ '' status''))
       else if vs_current_action_number session \<noteq> expected_action_number
       then sfail (Conflict ''The wheel was already spun for this map'')
       else if \<not> VetoSession_is_map_available session map_id
       then sfail (InvalidMatchResult (''Map '' @ single_quote # map_id @ single_quote # '' is not available for selection''))
       else sbind (slift (get_format self (vs_veto_format_id session))) (\<lambda>format.
         sbind (sneed (InvalidState ''Action index out of bounds'')
             (VetoFormatConfig_get_action format (vs_current_action_number session - 1))) (\<lambda>format_action.
         if fa_action_type format_action \<noteq> VetoActionType.Random
         then sfail (InvalidState ''The current veto action is not a wheel spin'')
         else record_action_internal self session format format_action map_id None None True (Some ''wheel_spin''))))"

definition cancel_session_for_match :: "uuid \<Rightarrow> VetoSession option service" where
  "cancel_session_for_match match_id = sbind (veto_find_by_match match_id) (\<lambda>found. case found of
     None \<Rightarrow> sret None
   | Some session \<Rightarrow>
       if vs_status session \<in> {VetoStatus.Completed, VetoStatus.Cancelled} then sret (Some session)
       else sbind (veto_update_status (vs_id session) VetoStatus.Cancelled) (\<lambda>session. sret (Some session)))"

text \<open>\<open>slice.choose(rng)\<close>.\<close>

definition choose_map :: "string list \<Rightarrow> string option service" where
  "choose_map maps = sbind draw (\<lambda>r. sret (if maps = [] then None else Some (maps ! (r mod length maps))))"

definition process_timeout :: "VetoService \<Rightarrow> uuid \<Rightarrow> VetoActionResult service" where
  "process_timeout self session_id = sbind (get_session session_id) (\<lambda>session. sbind now (\<lambda>t.
     if \<not> VetoSession_is_timed_out t session then sfail (InvalidState ''Session is not timed out'')
     else sbind (choose_map (vs_remaining_maps session)) (\<lambda>choice.
       sbind (sneed (InvalidState ''No maps remaining'') choice) (\<lambda>map_id.
       sbind (slift (get_format self (vs_veto_format_id session))) (\<lambda>format.
       sbind (sneed (InvalidState ''Action index out of bounds'')
           (VetoFormatConfig_get_action format (vs_current_action_number session - 1))) (\<lambda>format_action.
       sbind (record_action_internal self session format format_action map_id (vs_current_team_turn session) None
           True (Some ''timeout'')) (\<lambda>result.
       chain_deciders self session_id format result)))))))"

definition select_side :: "uuid \<Rightarrow> nat \<Rightarrow> string \<Rightarrow> uuid \<Rightarrow> uuid \<Rightarrow> VetoAction service" where
  "select_side session_id action_number side acting_for_registration selected_by_user =
     sbind (get_session session_id) (\<lambda>session.
     sbind (action_find_by_session_and_number session_id action_number) (\<lambda>found.
     sbind (sneed (InvalidMatchResult ''Action not found'') found) (\<lambda>action.
       if \<not> VetoAction_is_pick action then sfail (InvalidState ''Side selection only applies to picks'')
       else if VetoAction_has_side_selection action
       then sfail (InvalidState ''Side already selected for this action'')
       else if vs_side_selection_mode session = SideSelectionMode.Knife
       then sfail (InvalidState ''Side selection is not available in knife mode'')
       else if vs_side_selection_mode session = SideSelectionMode.CoinFlip
       then sfail (InvalidState ''Side selection is automatic in coin flip mode'')
       else if VetoAction_is_decider action
       then sfail (InvalidState ''Side selection is not available for decider maps'')
       else sbind (sneed (InvalidState ''Action has no performer'') (va_performed_by_registration_id action)) (\<lambda>picker.
         if acting_for_registration = picker
         then sfail (NotAuthorized ''The opponent of the picker selects the side'')
         else action_update_side_selection (va_id action) side acting_for_registration))))"

section \<open>The state shown to clients\<close>

definition game_number_of :: "VetoSession \<Rightarrow> string \<Rightarrow> nat option" where
  "game_number_of session map_id =
     map_option Suc (find (\<lambda>i. vs_selected_maps session ! i = map_id) [0..<length (vs_selected_maps session)])"

definition map_status :: "VetoSession \<Rightarrow> VetoAction list \<Rightarrow> string \<Rightarrow> MapStatus" where
  "map_status session actions map_id =
     (let action = find (\<lambda>a. va_map_id a = map_id) actions;
          (status, banned_by, picked_by, game_number) = (case action of
              Some a \<Rightarrow>
                if VetoAction_is_ban a then (MapVetoStatus.Banned, va_performed_by_registration_id a, None, None)
                else if VetoAction_is_pick a
                then (MapVetoStatus.Picked, None, va_performed_by_registration_id a, game_number_of session map_id)
                else if VetoAction_is_decider a
                then (MapVetoStatus.Decider, None, None, game_number_of session map_id)
                else (MapVetoStatus.Picked, None, None, game_number_of session map_id)
            | None \<Rightarrow> if map_id \<in> set (vs_remaining_maps session)
                then (MapVetoStatus.Available, None, None, None)
                else (MapVetoStatus.Banned, None, None, None))
      in \<lparr>ms_map_id = map_id, ms_map_name = map_id, ms_image_url = None, ms_status = status,
          ms_banned_by = banned_by, ms_picked_by = picked_by, ms_game_number = game_number\<rparr>)"

definition build_map_status :: "VetoSession \<Rightarrow> VetoAction list \<Rightarrow> MapStatus list" where
  "build_map_status session actions = map (map_status session actions) (vs_map_pool session)"

definition get_session_state :: "VetoService \<Rightarrow> uuid \<Rightarrow> VetoSessionState service" where
  "get_session_state self match_id = sbind (veto_find_by_match match_id) (\<lambda>found.
     sbind (sneed (LookupFailed ''veto session'' (''match '' @ match_id)) found) (\<lambda>session.
     sbind (action_list_by_session (vs_id session)) (\<lambda>actions.
     sbind (slift (get_format self (vs_veto_format_id session))) (\<lambda>format. sret
       \<lparr>vss_session = session, vss_actions = actions, vss_format = format,
        vss_current_action = (if VetoSession_is_in_progress session
          then VetoFormatConfig_get_action format (vs_current_action_number session - 1) else None),
        vss_maps_with_status = build_map_status session actions\<rparr>))))"

definition find_timed_out_sessions :: "VetoSession list service" where
  "find_timed_out_sessions = veto_find_timed_out"

definition find_sessions_by_status :: "VetoStatus \<Rightarrow> VetoSession list service" where
  "find_sessions_by_status status = veto_find_by_status status"

end
