(* ===== verification/VetoProofs.thy ===== *)
theory VetoProofs
  imports Veto
begin

text \<open>
  What the veto service keeps of its tables: the state of every session is the replay of its
  action log on the format. Every operation preserves this on every path, also when it fails
  between two of its writes and leaves an action that the session has not counted yet.
\<close>

section \<open>The abstract veto\<close>

text \<open>
  The specification: a veto is a list of decisions on maps, one for each action of the format
  in order. Every decision removes its map; all but the bans also select it.
\<close>

type_synonym decision = "VetoActionType \<times> string"

definition spec_remaining :: "string list \<Rightarrow> decision list \<Rightarrow> string list" where
  "spec_remaining pool ds = filter (\<lambda>m. m \<notin> snd ` set ds) pool"

definition spec_selected :: "decision list \<Rightarrow> string list" where
  "spec_selected ds = map snd (filter (\<lambda>d. selects_map (fst d)) ds)"

definition spec_legal :: "VetoFormatConfig \<Rightarrow> string list \<Rightarrow> decision list \<Rightarrow> bool" where
  "spec_legal f pool ds \<longleftrightarrow> map fst ds = take (length ds) (map fa_action_type (vf_sequence f)) \<and>
     distinct (map snd ds) \<and> snd ` set ds \<subseteq> set pool"

lemma spec_remaining_snoc: "spec_remaining pool (ds @ [d]) = filter (\<lambda>m. m \<noteq> snd d) (spec_remaining pool ds)"
  by (auto simp: spec_remaining_def intro: filter_cong)

lemma spec_selected_snoc:
  "spec_selected (ds @ [d]) = spec_selected ds @ (if selects_map (fst d) then [snd d] else [])"
  by (simp add: spec_selected_def)

lemma spec_selected_subset: "set (spec_selected ds) \<subseteq> snd ` set ds"
  by (auto simp: spec_selected_def)

lemma spec_legal_length: "spec_legal f pool ds \<Longrightarrow> length ds \<le> length (vf_sequence f)"
  by (metis length_map length_take min.cobounded1 spec_legal_def)

lemma spec_legal_snoc:
  assumes "spec_legal f pool ds" and "length ds < length (vf_sequence f)"
  shows "spec_legal f pool (ds @ [(fa_action_type (vf_sequence f ! length ds), m)]) \<longleftrightarrow> m \<in> set (spec_remaining pool ds)"
  using assms by (auto simp: spec_legal_def spec_remaining_def take_Suc_conv_app_nth)

lemma spec_legal_take: "spec_legal f pool ds \<Longrightarrow> spec_legal f pool (take k ds)"
  by (auto simp: spec_legal_def min_def simp flip: take_map dest: in_set_takeD)

section \<open>The invariant\<close>

definition decision_of :: "VetoAction \<Rightarrow> decision" where
  "decision_of a = (va_action_type a, va_map_id a)"

definition session_actions :: "uuid \<Rightarrow> world \<Rightarrow> VetoAction list" where
  "session_actions i w = filter (\<lambda>a. va_session_id a = i) (w_actions w)"

text \<open>The decisions the session has counted.\<close>

definition counted :: "VetoSession \<Rightarrow> VetoAction list \<Rightarrow> decision list" where
  "counted s acts = take (vs_current_action_number s - 1) (map decision_of acts)"

definition session_ok :: "VetoService \<Rightarrow> VetoAction list \<Rightarrow> VetoSession \<Rightarrow> bool" where
  "session_ok self acts s \<longleftrightarrow> (let n = vs_current_action_number s in
     (vs_status s = VetoStatus.CoinFlip \<longrightarrow> (\<exists>f. get_format self (vs_veto_format_id s) = Inr f)) \<and>
     (n = 0 \<longrightarrow> acts = [] \<and> vs_status s \<in> {VetoStatus.Pending, VetoStatus.CoinFlip, VetoStatus.Cancelled} \<and>
        vs_remaining_maps s = vs_map_pool s \<and> vs_selected_maps s = [] \<and> vs_action_deadline s = None) \<and>
     (n > 0 \<longrightarrow> (\<exists>f. get_format self (vs_veto_format_id s) = Inr f \<and>
        vs_status s \<in> {VetoStatus.InProgress, VetoStatus.Completed, VetoStatus.Cancelled} \<and>
        (vs_status s = VetoStatus.Completed \<longrightarrow> n = Suc (length (vf_sequence f)) \<and> vs_action_deadline s = None) \<and>
        (length acts = n - 1 \<or> length acts = n) \<and> map va_action_number acts = map Suc [0..<length acts] \<and>
        spec_legal f (vs_map_pool s) (map decision_of acts) \<and>
        vs_remaining_maps s = spec_remaining (vs_map_pool s) (counted s acts) \<and>
        vs_selected_maps s = spec_selected (counted s acts))))"

definition fresh_ids :: "world \<Rightarrow> bool" where
  "fresh_ids w \<longleftrightarrow> inj (w_uuids w) \<and>
     (\<forall>s \<in> set (w_sessions w). \<exists>k < w_next w. vs_id s = w_uuids w k)"

definition veto_inv :: "VetoService \<Rightarrow> world \<Rightarrow> bool" where
  "veto_inv self w \<longleftrightarrow> distinct (map vs_id (w_sessions w)) \<and> fresh_ids w \<and>
     va_session_id ` set (w_actions w) \<subseteq> vs_id ` set (w_sessions w) \<and>
     (\<forall>s \<in> set (w_sessions w). session_ok self (session_actions (vs_id s) w) s)"

lemma veto_inv_found:
  "veto_inv self w \<Longrightarrow> find_row vs_id i (w_sessions w) = Some s \<Longrightarrow>
   vs_id s = i \<and> s \<in> set (w_sessions w) \<and> session_ok self (session_actions i w) s"
  using find_row_key [of vs_id i "w_sessions w" s] find_row_mem [of vs_id i "w_sessions w" s]
  unfolding veto_inv_def by blast

text \<open>The invariant reads only the veto tables and the id supply.\<close>

lemma veto_inv_frame:
  assumes "w_sessions w' = w_sessions w" and "w_uuids w' = w_uuids w" and "w_next w \<le> w_next w'"
    and "\<And>i. map decision_of (session_actions i w') = map decision_of (session_actions i w)"
    and "\<And>i. map va_action_number (session_actions i w') = map va_action_number (session_actions i w)"
    and "va_session_id ` set (w_actions w') = va_session_id ` set (w_actions w)"
    and "veto_inv self w"
  shows "veto_inv self w'"
proof -
  have "length (session_actions i w') = length (session_actions i w)" for i
    using assms(5) [of i] by (metis length_map)
  then have "session_ok self (session_actions i w') s \<longleftrightarrow> session_ok self (session_actions i w) s" for i s
    using assms(4) [of i] assms(5) [of i]
    by (simp add: session_ok_def Let_def counted_def flip: length_0_conv)
  moreover have "fresh_ids w'" using assms(1-3,7) by (auto simp: veto_inv_def fresh_ids_def) (meson order_less_le_trans)
  ultimately show ?thesis using assms(1,6,7) by (simp add: veto_inv_def)
qed

text \<open>One session changes.\<close>

lemma veto_inv_update:
  assumes inv: "veto_inv self w" and s: "find_row vs_id i (w_sessions w) = Some s"
    and f: "\<And>s. vs_id (f s) = vs_id s" and ok: "session_ok self (session_actions i w) (f s)"
  shows "veto_inv self (w_sessions_update (modify_row vs_id i f) w)"
proof -
  have ids: "map vs_id (modify_row vs_id i f (w_sessions w)) = map vs_id (w_sessions w)"
    by (rule map_key_modify_row) (rule f)
  have idset: "vs_id ` set (modify_row vs_id i f (w_sessions w)) = vs_id ` set (w_sessions w)"
    using arg_cong [where f = set, OF ids] by simp
  have one: "session_ok self (session_actions (vs_id s') w) s'" if "s' \<in> set (modify_row vs_id i f (w_sessions w))" for s'
  proof -
    from that obtain s0 where s0: "s0 \<in> set (w_sessions w)" "s' = (if vs_id s0 = i then f s0 else s0)"
      by (auto simp: modify_row_def)
    show ?thesis
    proof (cases "vs_id s0 = i")
      case True
      moreover have "s0 = s"
      proof -
        have d: "distinct (map vs_id (w_sessions w))" using inv by (simp add: veto_inv_def)
        have "find_row vs_id i (w_sessions w) = Some s0"
          unfolding find_row_Some_iff [of vs_id, OF d] using s0(1) True by blast
        with s show ?thesis by simp
      qed
      ultimately show ?thesis using ok s0(2) f by simp
    next
      case False
      then show ?thesis using s0 inv by (simp add: veto_inv_def)
    qed
  qed
  have "session_actions j (w_sessions_update g w) = session_actions j w" for j g
    by (simp add: session_actions_def)
  moreover have "fresh_ids (w_sessions_update (modify_row vs_id i f) w)"
  proof -
    have "\<exists>k<w_next w. vs_id s' = w_uuids w k" if "s' \<in> set (modify_row vs_id i f (w_sessions w))" for s'
    proof -
      from that idset obtain s0 where "s0 \<in> set (w_sessions w)" "vs_id s' = vs_id s0" by blast
      with inv show ?thesis by (simp add: veto_inv_def fresh_ids_def)
    qed
    with inv show ?thesis by (simp add: veto_inv_def fresh_ids_def)
  qed
  ultimately show ?thesis using inv one ids idset unfolding veto_inv_def by simp
qed

section \<open>One action\<close>

lemma action_at_session:
  assumes "map va_action_number (session_actions i w) = map Suc [0..<k]"
  shows "action_at i (Suc n) w = (if n < k then Some (session_actions i w ! n) else None)"
proof -
  have 1: "action_at i (Suc n) w = find (\<lambda>a. va_action_number a = Suc n) (session_actions i w)"
  proof -
    have "find (\<lambda>a. va_session_id a = i \<and> va_action_number a = Suc n) xs =
      find (\<lambda>a. va_action_number a = Suc n) (filter (\<lambda>a. va_session_id a = i) xs)" for xs
      by (induction xs) auto
    then show ?thesis by (simp add: action_at_def session_actions_def)
  qed
  have nth: "va_action_number (session_actions i w ! j) = Suc j" if "j < k" for j
    using arg_cong [where f = "\<lambda>l. l ! j", OF assms] that arg_cong [where f = length, OF assms] by simp
  have len: "length (session_actions i w) = k" using arg_cong [where f = length, OF assms] by simp
  show ?thesis
  proof (cases "n < k")
    case True
    then show ?thesis unfolding 1 using nth len by (auto simp: find_Some_iff)
  next
    case False
    then show ?thesis unfolding 1 using nth len by (auto simp: find_None_iff in_set_conv_nth)
  qed
qed

text \<open>The action of the session's current number is stored, and not counted yet.\<close>

definition pending :: "VetoService \<Rightarrow> uuid \<Rightarrow> VetoSession \<Rightarrow> VetoAction \<Rightarrow> world \<Rightarrow> bool" where
  "pending self i s a w \<longleftrightarrow> veto_inv self w \<and> find_row vs_id i (w_sessions w) = Some s \<and>
     length (session_actions i w) = vs_current_action_number s \<and>
     decision_of (session_actions i w ! (vs_current_action_number s - 1)) = decision_of a \<and>
     va_id a \<in> va_id ` set (w_actions w)"

definition ready_for :: "VetoService \<Rightarrow> uuid \<Rightarrow> VetoSession \<Rightarrow> VetoFormatConfig \<Rightarrow> bool" where
  "ready_for self i s f \<longleftrightarrow> 0 < vs_current_action_number s \<and>
     vs_current_action_number s \<le> length (vf_sequence f) \<and> get_format self (vs_veto_format_id s) = Inr f"

lemma session_okD:
  assumes "session_ok self acts s" and "ready_for self i s f"
  shows "length acts = vs_current_action_number s - 1 \<or> length acts = vs_current_action_number s"
    and "map va_action_number acts = map Suc [0..<length acts]"
    and "spec_legal f (vs_map_pool s) (map decision_of acts)"
    and "vs_remaining_maps s = spec_remaining (vs_map_pool s) (counted s acts)"
    and "vs_selected_maps s = spec_selected (counted s acts)"
  using assms by (auto simp: session_ok_def ready_for_def Let_def)

lemma action_create_triple:
  assumes "ready_for self i s f" and "cva_session_id c = i" and n: "cva_action_number c = vs_current_action_number s"
    and "cva_action_type c = fa_action_type (vf_sequence f ! (vs_current_action_number s - 1))"
    and "cva_map_id c \<in> set (vs_remaining_maps s)"
  shows "triple (\<lambda>w. veto_inv self w \<and> find_row vs_id i (w_sessions w) = Some s) (action_create c)
    (pending self i s) E"
proof (rule triple_pre)
  fix w assume "veto_inv self w \<and> find_row vs_id i (w_sessions w) = Some s"
  then have inv: "veto_inv self w" and s: "find_row vs_id i (w_sessions w) = Some s" by auto
  let ?n = "vs_current_action_number s" and ?acts = "session_actions i w"
  note ok = session_okD [OF conjunct2 [OF conjunct2 [OF veto_inv_found [OF inv s]]] assms(1)]
  have n0: "0 < ?n" "?n \<le> length (vf_sequence f)" using assms(1) by (auto simp: ready_for_def)
  have at: "action_at i ?n w = (if ?n - 1 < length ?acts then Some (?acts ! (?n - 1)) else None)"
    using action_at_session [OF ok(2), of "?n - 1"] n0(1) by simp
  show "triple (\<lambda>t. t = w) (action_create c) (pending self i s) E"
  proof (cases "length ?acts = ?n")
    case True
    then have "action_at i ?n w = Some (?acts ! (?n - 1))" using at n0(1) by simp
    moreover have "?acts ! (?n - 1) \<in> set (w_actions w)"
      using True n0(1) nth_mem [of "?n - 1" ?acts] by (auto simp: session_actions_def)
    ultimately have "action_create c w = (Inr (?acts ! (?n - 1)), w) \<and> pending self i s (?acts ! (?n - 1)) w"
      using assms(2) n inv s True by (simp add: action_create_def pending_def)
    then show ?thesis by (simp add: triple_def)
  next
    case False
    then have len: "length ?acts = ?n - 1" using ok(1) by simp
    let ?a = "veto_action_row (w_uuids w (w_next w)) (w_now w) c"
    let ?w = "w\<lparr>w_next := Suc (w_next w), w_actions := w_actions w @ [?a]\<rparr>"
    have run: "action_create c w = (Inr ?a, ?w)"
      using at len n0(1) assms(2) n
      by (simp add: action_create_def new_uuid_def insert_returning_def sbind_def)
    have acts: "session_actions j ?w = session_actions j w @ (if j = i then [?a] else [])" for j
      using assms(2) by (simp add: session_actions_def veto_action_row_def)
    have dec: "decision_of ?a = (fa_action_type (vf_sequence f ! length ?acts), cva_map_id c)"
      using assms(4) len by (simp add: decision_of_def veto_action_row_def)
    have cnt: "counted s ?acts = map decision_of ?acts" using len by (simp add: counted_def)
    have cnt': "counted s (?acts @ [?a]) = counted s ?acts" using len by (simp add: counted_def)
    have legal: "spec_legal f (vs_map_pool s) (map decision_of ?acts @ [decision_of ?a])"
      unfolding dec using spec_legal_snoc [OF ok(3), of "cva_map_id c"] len n0 ok(4) assms(5) cnt by simp
    have sid: "vs_id s = i" "s \<in> set (w_sessions w)" "session_ok self ?acts s" using veto_inv_found [OF inv s] by auto
    have "va_action_number ?a = Suc (length ?acts)" using len n0(1) n by (simp add: veto_action_row_def)
    then have nums: "map va_action_number (?acts @ [?a]) = map Suc [0..<length (?acts @ [?a])]"
      using ok(2) by simp
    have oks: "session_ok self (?acts @ [?a]) s"
      unfolding session_ok_def Let_def nums cnt' ok(4,5) using sid(3) assms(1) len legal n0 ok(4,5)
      unfolding session_ok_def Let_def by (auto simp: ready_for_def)
    have "session_ok self (session_actions (vs_id s') ?w) s'" if "s' \<in> set (w_sessions w)" for s'
    proof (cases "vs_id s' = i")
      case True
      then have "s' = s"
        using that sid inv by (metis veto_inv_def inj_on_def distinct_map)
      with oks True acts show ?thesis by simp
    next
      case False
      with that inv acts show ?thesis by (simp add: veto_inv_def)
    qed
    moreover have "fresh_ids ?w"
    proof -
      have "\<exists>k<Suc (w_next w). vs_id s' = w_uuids w k" if "s' \<in> set (w_sessions w)" for s'
        using inv that unfolding veto_inv_def fresh_ids_def by (meson less_Suc_eq)
      with inv show ?thesis by (simp add: veto_inv_def fresh_ids_def)
    qed
    moreover have "va_session_id ?a \<in> vs_id ` set (w_sessions w)"
      using sid image_eqI [of i vs_id s] assms(2) by (simp add: veto_action_row_def)
    ultimately have "veto_inv self ?w" using inv sid unfolding veto_inv_def by auto
    then have "pending self i s ?a ?w" using s acts len n0(1) by (simp add: pending_def nth_append)
    with run show ?thesis by (simp add: triple_def)
  qed
qed


lemma map_modify_row:
  assumes "\<And>b. g (f b) = g b"
  shows "map g (modify_row key j f xs) = map g xs"
  using assms by (simp add: modify_row_def)

lemma image_modify_row:
  assumes "\<And>b. g (f b) = g b"
  shows "g ` set (modify_row key j f xs) = g ` set xs"
  using arg_cong [where f = set, OF map_modify_row [of g f key j xs, OF assms]] by simp

text \<open>A change of the side columns of an action is invisible to the invariant.\<close>

lemma pending_side:
  assumes p: "pending self i s a w"
    and f: "\<And>b. va_id (f b) = va_id b \<and> va_session_id (f b) = va_session_id b \<and>
      va_action_number (f b) = va_action_number b \<and> decision_of (f b) = decision_of b"
  shows "pending self i s a (w_actions_update (modify_row va_id j f) w)"
proof -
  have acts: "session_actions k (w_actions_update (modify_row va_id j f) w) = modify_row va_id j f (session_actions k w)" for k
    unfolding session_actions_def by (simp add: filter_modify_row [where f = f] f)
  note m = map_modify_row [of _ f]
  have "veto_inv self (w_actions_update (modify_row va_id j f) w)"
    by (rule veto_inv_frame [where w = w]) (use p f in \<open>simp_all add: acts m image_modify_row pending_def\<close>)
  moreover have "decision_of (modify_row va_id j f (session_actions i w) ! k) = decision_of (session_actions i w ! k)"
    if "k < length (session_actions i w)" for k
    using arg_cong [where f = "\<lambda>l. l ! k", OF m [of decision_of va_id j "session_actions i w"]] f that by simp
  ultimately show ?thesis using p f veto_inv_found unfolding pending_def
    by (cases "vs_current_action_number s") (auto simp: acts image_modify_row)
qed

lemma draw_triple:
  assumes "\<And>w k. P w \<Longrightarrow> P (w\<lparr>w_drawn := k\<rparr>)"
  shows "triple P draw (\<lambda>_. P) E"
  using assms by (simp add: triple_def draw_def)

lemma pending_drawn: "pending self i s a w \<Longrightarrow> pending self i s a (w\<lparr>w_drawn := k\<rparr>)"
  unfolding pending_def by (auto intro!: veto_inv_frame [where w = w] simp: session_actions_def)

lemma action_side_triple:
  assumes "va_id a = j"
  shows "triple (pending self i s a) (action_update_side_selection j side u) (\<lambda>_. pending self i s a) E"
proof (rule tripleI)
  fix w e t
  assume p: "pending self i s a w" and "action_update_side_selection j side u w = (Inl e, t)"
  then have "find_row va_id j (w_actions w) = None"
    by (auto simp: action_update_side_selection_def elim: veto_action_table.update_errE)
  with p assms show "E t" by (simp add: pending_def find_row_None_iff)
next
  fix w b t
  assume p: "pending self i s a w" and "action_update_side_selection j side u w = (Inr b, t)"
  then obtain a0 where a0: "find_row va_id j (w_actions w) = Some a0"
    "b = a0\<lparr>va_side_selection := Some side, va_side_selected_by_registration_id := Some u, va_side_selected_at := Some (w_now w)\<rparr>"
    "t = w_actions_update (modify_row va_id j (\<lambda>a. a\<lparr>va_side_selection := Some side,
       va_side_selected_by_registration_id := Some u, va_side_selected_at := Some (w_now w)\<rparr>)) w"
    by (auto simp: action_update_side_selection_def elim: veto_action_table.update_okE)
  show "pending self i s a t" unfolding a0(3) by (rule pending_side [OF p]) (simp add: decision_of_def)
qed


lemma assign_random_side_triple:
  "triple (pending self i s a) (assign_random_side self s ty by a) (\<lambda>_. pending self i s a) E"
proof -
  have m: "triple (pending self i s a) (match_find_by_id k) (\<lambda>_. pending self i s a) E" for k
    by (simp add: match_find_by_id_def triple_sget)
  have d: "triple (pending self i s a) (random_side self) (\<lambda>_. pending self i s a) E"
    unfolding random_side_def
    by (rule triple_sbind [where R = "\<lambda>_. pending self i s a"], rule draw_triple) (auto intro: pending_drawn triple_sret)
  show ?thesis
    unfolding assign_random_side_def
    apply (rule triple_if)
     apply (rule triple_sbind [where R = "\<lambda>_. pending self i s a", OF d])
     apply (rule triple_sbind [where R = "\<lambda>_. pending self i s a"])
      apply (auto split: option.splits intro!: triple_sret triple_sbind [OF m] action_side_triple)
    done
qed

lemma determine_next_team_triple:
  "(\<And>w. P w \<Longrightarrow> E w) \<Longrightarrow> triple P (determine_next_team s na) (\<lambda>_. P) E"
  unfolding determine_next_team_def
  by (auto simp: match_find_by_id_def Let_def intro!: triple_sbind [where R = "\<lambda>_. P"] triple_sneed triple_if triple_sret
      triple_sget triple_sfail)


text \<open>The session after an action, and that it is consistent with the log.\<close>

definition advanced :: "VetoFormatConfig \<Rightarrow> string \<Rightarrow> uuid option \<Rightarrow> VetoSession \<Rightarrow> VetoSession \<Rightarrow> bool" where
  "advanced f m turn s s' \<longleftrightarrow> (let n = vs_current_action_number s; ty = fa_action_type (vf_sequence f ! (n - 1)) in
     vs_id s' = vs_id s \<and> vs_match_id s' = vs_match_id s \<and> vs_veto_format_id s' = vs_veto_format_id s \<and>
     vs_map_pool s' = vs_map_pool s \<and> vs_first_action_registration_id s' = vs_first_action_registration_id s \<and>
     vs_current_action_number s' = Suc n \<and> vs_current_team_turn s' = turn \<and>
     vs_remaining_maps s' = filter (\<lambda>x. x \<noteq> m) (vs_remaining_maps s) \<and>
     vs_selected_maps s' = vs_selected_maps s @ (if selects_map ty then [m] else []) \<and>
     vs_status s' = (if n = length (vf_sequence f) then VetoStatus.Completed else VetoStatus.InProgress) \<and>
     (n = length (vf_sequence f) \<longrightarrow> vs_action_deadline s' = None))"

lemma pending_decision:
  assumes "pending self i s a w" and r: "ready_for self i s f"
  shows "va_action_type a = fa_action_type (vf_sequence f ! (vs_current_action_number s - 1))"
    and "map decision_of (session_actions i w) = counted s (session_actions i w) @ [decision_of a]"
    and "va_map_id a \<notin> set (vs_selected_maps s)"
proof -
  let ?n = "vs_current_action_number s" and ?acts = "session_actions i w"
  from assms(1) have p: "veto_inv self w" "find_row vs_id i (w_sessions w) = Some s" "length ?acts = ?n"
    "decision_of (?acts ! (?n - 1)) = decision_of a" by (auto simp: pending_def)
  note ok = session_okD [OF conjunct2 [OF conjunct2 [OF veto_inv_found [OF p(1,2)]]] r]
  obtain k where k: "?n = Suc k" using r by (cases ?n) (auto simp: ready_for_def)
  have "map decision_of ?acts = take (Suc k) (map decision_of ?acts)" using p(3) k by simp
  also have "\<dots> = take k (map decision_of ?acts) @ [map decision_of ?acts ! k]"
    using p(3) k by (intro take_Suc_conv_app_nth) simp
  finally show all: "map decision_of ?acts = counted s ?acts @ [decision_of a]"
    using p(3,4) k by (simp add: counted_def)
  have lens: "length (counted s ?acts) = k" using p(3) k by (simp add: counted_def)
  have "map fst (counted s ?acts @ [decision_of a]) = take (Suc k) (map fa_action_type (vf_sequence f))"
    using ok(3) all p(3) k lens by (simp add: spec_legal_def)
  then have "map fst (counted s ?acts @ [decision_of a]) ! k = take (Suc k) (map fa_action_type (vf_sequence f)) ! k"
    by simp
  then show "va_action_type a = fa_action_type (vf_sequence f ! (?n - 1))"
    using lens r k by (simp add: nth_append decision_of_def ready_for_def)
  have "va_map_id a \<notin> snd ` set (counted s ?acts)"
    using ok(3) all by (auto simp: spec_legal_def decision_of_def)
  then show "va_map_id a \<notin> set (vs_selected_maps s)" using ok(5) spec_selected_subset by fastforce
qed

lemma session_ok_advanced:
  assumes p: "pending self i s a w" and r: "ready_for self i s f" and adv: "advanced f (va_map_id a) turn s s'"
  shows "session_ok self (session_actions i w) s'"
proof -
  let ?n = "vs_current_action_number s" and ?acts = "session_actions i w"
  from p have q: "veto_inv self w" "find_row vs_id i (w_sessions w) = Some s" "length ?acts = ?n"
    by (auto simp: pending_def)
  note ok = session_okD [OF conjunct2 [OF conjunct2 [OF veto_inv_found [OF q(1,2)]]] r]
  note d = pending_decision [OF p r]
  have n0: "0 < ?n" "?n \<le> length (vf_sequence f)" "get_format self (vs_veto_format_id s) = Inr f"
    using r by (auto simp: ready_for_def)
  have c': "counted s' ?acts = counted s ?acts @ [decision_of a]"
    using adv q(3) d(2) by (simp add: counted_def advanced_def Let_def)
  have rem: "vs_remaining_maps s' = spec_remaining (vs_map_pool s') (counted s' ?acts)"
    unfolding c' spec_remaining_snoc using adv ok(4) by (simp add: advanced_def Let_def decision_of_def)
  have sel: "vs_selected_maps s' = spec_selected (counted s' ?acts)"
    unfolding c' spec_selected_snoc using adv ok(5) d(1) by (simp add: advanced_def Let_def decision_of_def)
  have "vs_current_action_number s' = Suc ?n" "vs_map_pool s' = vs_map_pool s" "vs_veto_format_id s' = vs_veto_format_id s"
    and "vs_status s' = (if ?n = length (vf_sequence f) then VetoStatus.Completed else VetoStatus.InProgress)"
    and "?n = length (vf_sequence f) \<longrightarrow> vs_action_deadline s' = None"
    using adv by (simp_all add: advanced_def Let_def)
  with rem sel ok(2,3) q(3) n0 show ?thesis by (auto simp: session_ok_def Let_def)
qed

definition running :: "VetoService \<Rightarrow> uuid \<Rightarrow> VetoFormatConfig \<Rightarrow> VetoSession \<Rightarrow> world \<Rightarrow> bool" where
  "running self i f s w \<longleftrightarrow> veto_inv self w \<and> find_row vs_id i (w_sessions w) = Some s \<and>
     get_format self (vs_veto_format_id s) = Inr f \<and> 0 < vs_current_action_number s"

lemma veto_update_ok:
  assumes "find_row vs_id i (w_sessions w) = Some s"
  shows "veto_update i u w = (Inr (apply_veto_update u (w_now w) s),
    w_sessions_update (modify_row vs_id i (apply_veto_update u (w_now w))) w)"
  using assms by (simp add: veto_update_def veto_session_table.update_found)

lemma apply_veto_update_id [simp]: "vs_id (apply_veto_update u t s) = vs_id s"
  by (simp add: apply_veto_update_def)

lemma find_session_update:
  assumes "find_row vs_id i (w_sessions w) = Some s" and "\<And>s. vs_id (f s) = vs_id s"
  shows "find_row vs_id i (modify_row vs_id i f (w_sessions w)) = Some (f s)"
  using assms find_row_key [OF assms(1)] by (simp add: find_modify_row [where f = f])

text \<open>The last write of an action.\<close>

lemma advance_triple:
  assumes r: "ready_for self i s f"
    and adv: "\<And>t. advanced f (va_map_id a) turn s (apply_veto_update u t s)"
  shows "triple (pending self i s a) (veto_update i u)
    (\<lambda>s' w. running self i f s' w \<and> advanced f (va_map_id a) turn s s' \<and>
       length (session_actions i w) = vs_current_action_number s) E"
proof (rule triple_pre)
  fix w assume p: "pending self i s a w"
  then have q: "veto_inv self w" "find_row vs_id i (w_sessions w) = Some s" by (auto simp: pending_def)
  let ?g = "apply_veto_update u (w_now w)"
  have "veto_inv self (w_sessions_update (modify_row vs_id i ?g) w)"
    by (rule veto_inv_update [OF q]) (simp_all add: session_ok_advanced [OF p r adv])
  moreover have "find_row vs_id i (modify_row vs_id i ?g (w_sessions w)) = Some (?g s)"
    by (rule find_session_update [OF q(2)]) simp
  ultimately have "running self i f (?g s) (w_sessions_update (modify_row vs_id i ?g) w)"
    using r adv [of "w_now w"] by (simp add: running_def ready_for_def advanced_def Let_def)
  then show "triple (\<lambda>t. t = w) (veto_update i u)
    (\<lambda>s' w. running self i f s' w \<and> advanced f (va_map_id a) turn s s' \<and>
       length (session_actions i w) = vs_current_action_number s) E"
    using adv p by (simp add: triple_def veto_update_ok [OF q(2)] session_actions_def pending_def)
qed


subsection \<open>The whole action\<close>

abbreviation matches_are :: "TournamentMatch list \<Rightarrow> world \<Rightarrow> bool" where
  "matches_are ms w \<equiv> w_matches w = ms"

lemma keeps_matches_draw [keeps_intros]: "keeps (matches_are ms) draw"
  by (simp add: keeps_def draw_def)

lemma keeps_matches_side [keeps_intros]: "keeps (matches_are ms) (action_update_side_selection j side u)"
  by (rule keepsI) (simp add: action_update_side_selection_def update_returning_def split: option.splits)

lemma keeps_matches_find [keeps_intros]: "keeps (matches_are ms) (match_find_by_id k)"
  by (simp add: match_find_by_id_def keeps_sget)

lemma keeps_matches_create [keeps_intros]: "keeps (matches_are ms) (action_create c)"
  by (rule keepsI) (simp add: action_create_def new_uuid_def insert_returning_def sbind_def split: option.splits)

lemma keeps_matches_assign [keeps_intros]: "keeps (matches_are ms) (assign_random_side self s ty by a)"
  unfolding assign_random_side_def random_side_def by (intro keeps_intros)

lemma keeps_matches_next [keeps_intros]: "keeps (matches_are ms) (determine_next_team s na)"
  unfolding determine_next_team_def Let_def by (intro keeps_intros)

lemma keeps_matches_update [keeps_intros]: "keeps (matches_are ms) (veto_update i u)"
  by (rule keepsI) (simp add: veto_update_def update_returning_def split: option.splits)

text \<open>A fresh action stores the map it is called with.\<close>

lemma action_create_map:
  assumes "action_at (cva_session_id c) (cva_action_number c) w = None" and "action_create c w = (Inr a, t)"
  shows "va_map_id a = cva_map_id c"
  using assms by (auto simp: action_create_def new_uuid_def insert_returning_def sbind_def veto_action_row_def)

lemma action_at_fresh:
  assumes "veto_inv self w" and "find_row vs_id i (w_sessions w) = Some s" and r: "ready_for self i s f"
    and "length (session_actions i w) = vs_current_action_number s - 1"
  shows "action_at i (vs_current_action_number s) w = None"
proof -
  note ok = session_okD [OF conjunct2 [OF conjunct2 [OF veto_inv_found [OF assms(1,2)]]] r]
  have "0 < vs_current_action_number s" using r by (simp add: ready_for_def)
  then show ?thesis using action_at_session [OF ok(2), of "vs_current_action_number s - 1"] assms(4) by simp
qed

definition recorded :: "VetoService \<Rightarrow> uuid \<Rightarrow> VetoFormatConfig \<Rightarrow> VetoSession \<Rightarrow> string \<Rightarrow> uuid option \<Rightarrow>
    VetoActionResult \<Rightarrow> world \<Rightarrow> bool" where
  "recorded self i f s m turn r w \<longleftrightarrow> running self i f (vr_session r) w \<and>
     length (session_actions i w) = vs_current_action_number s \<and>
     advanced f m turn s (vr_session r) \<and>
     vr_veto_complete r = (vs_current_action_number s = length (vf_sequence f)) \<and>
     vr_next_action_type r = (if vs_current_action_number s = length (vf_sequence f) then None
       else Some (fa_action_type (vf_sequence f ! vs_current_action_number s)))"

lemma advanced_by_update:
  assumes "ready_for self i s f" and "m \<notin> set (vs_selected_maps s)"
    and "st = (if vs_current_action_number s = length (vf_sequence f) then VetoStatus.Completed else VetoStatus.InProgress)"
    and "vs_current_action_number s = length (vf_sequence f) \<Longrightarrow> dl = None"
  shows "advanced f m turn s (apply_veto_update (no_veto_update\<lparr>
      uvs_current_action_number := Some (vs_current_action_number s + 1), uvs_current_team_turn := Some turn,
      uvs_remaining_maps := Some (filter (\<lambda>x. x \<noteq> m) (vs_remaining_maps s)),
      uvs_selected_maps := Some (if selects_map (fa_action_type (vf_sequence f ! (vs_current_action_number s - 1))) \<and>
          m \<notin> set (vs_selected_maps s) then vs_selected_maps s @ [m] else vs_selected_maps s),
      uvs_status := Some st, uvs_action_deadline := Some dl, uvs_completed_at := ct\<rparr>) t s)"
  using assms by (auto simp: advanced_def Let_def apply_veto_update_def no_veto_update_def)

lemma next_turn_triple:
  assumes r: "ready_for self i s f"
    and dt: "vs_current_action_number s < length (vf_sequence f) \<Longrightarrow>
      triple P (determine_next_team s (Some (vf_sequence f ! vs_current_action_number s))) (\<lambda>turn w. P w \<and> T turn) E"
    and fin: "vs_current_action_number s = length (vf_sequence f) \<Longrightarrow> T None"
  shows "triple P (next_turn s f (vs_current_action_number s + 1) t) (\<lambda>x w. P w \<and> (case x of (turn, st, dl) \<Rightarrow> T turn \<and>
    st = (if vs_current_action_number s = length (vf_sequence f) then VetoStatus.Completed else VetoStatus.InProgress) \<and>
    (vs_current_action_number s = length (vf_sequence f) \<longrightarrow> dl = None))) E"
proof (cases "vs_current_action_number s = length (vf_sequence f)")
  case True
  then show ?thesis
    using fin by (auto simp: next_turn_def VetoFormatConfig_is_complete_at_def intro: triple_sret)
next
  case False
  then have "vs_current_action_number s < length (vf_sequence f)" using r by (simp add: ready_for_def)
  with False show ?thesis
    by (auto simp: next_turn_def VetoFormatConfig_is_complete_at_def VetoFormatConfig_get_action_def
      intro!: triple_sbind [OF dt] triple_sret)
qed

lemma advance_session_triple:
  assumes r: "ready_for self i s f"
    and dt: "vs_current_action_number s < length (vf_sequence f) \<Longrightarrow>
      triple (\<lambda>w. pending self i s a w \<and> matches_are ms w)
        (determine_next_team s (Some (vf_sequence f ! vs_current_action_number s)))
        (\<lambda>turn w. (pending self i s a w \<and> matches_are ms w) \<and> T turn) E"
    and fin: "vs_current_action_number s = length (vf_sequence f) \<Longrightarrow> T None"
  shows "triple (\<lambda>w. pending self i s a w \<and> matches_are ms w)
      (advance_session s f (vf_sequence f ! (vs_current_action_number s - 1)) (va_map_id a) b)
      (\<lambda>res w. \<exists>turn. (recorded self i f s (va_map_id a) turn res w \<and> matches_are ms w) \<and> T turn) E"
proof (rule triple_pre)
  fix w0
  let ?n = "vs_current_action_number s"
  let ?P = "\<lambda>w. pending self i s a w \<and> matches_are ms w"
  let ?Q = "\<lambda>res w. \<exists>turn. (recorded self i f s (va_map_id a) turn res w \<and> matches_are ms w) \<and> T turn"
  assume w0: "?P w0"
  have new: "va_map_id a \<notin> set (vs_selected_maps s)" using pending_decision(3) [OF _ r] w0 by blast
  have sid: "vs_id s = i" using w0 veto_inv_found unfolding pending_def by blast
  have n: "?n \<le> length (vf_sequence f)" using r by (simp add: ready_for_def)
  then have get: "VetoFormatConfig_is_complete_at f (?n + 1) \<longleftrightarrow> ?n = length (vf_sequence f)"
    "VetoFormatConfig_get_action f (?n + 1 - 1) = (if ?n = length (vf_sequence f) then None else Some (vf_sequence f ! ?n))"
    by (auto simp: VetoFormatConfig_is_complete_at_def VetoFormatConfig_get_action_def)
  have upd: "triple ?P (veto_update (vs_id s) u)
      (\<lambda>us w. (running self i f us w \<and> advanced f (va_map_id a) turn s us \<and>
         length (session_actions i w) = ?n) \<and> matches_are ms w) E"
    if u: "\<And>t. advanced f (va_map_id a) turn s (apply_veto_update u t s)" for u turn
    unfolding sid by (rule triple_frame [OF advance_triple [OF r u] keeps_matches_update])
  note adv = advanced_by_update [OF r new]
  have "triple ?P (advance_session s f (vf_sequence f ! (?n - 1)) (va_map_id a) b) ?Q E"
    unfolding advance_session_def Let_def get
  proof (rule triple_sbind [where R = "\<lambda>_. ?P"])
    show "triple ?P now (\<lambda>_. ?P) E" by (simp add: now_def triple_sget)
  next
    fix t
    show "triple ?P (sbind (next_turn s f (?n + 1) t) (\<lambda>(next_team, next_status, deadline).
        sbind (veto_update (vs_id s) (no_veto_update\<lparr>
          uvs_current_action_number := Some (?n + 1), uvs_current_team_turn := Some next_team,
          uvs_remaining_maps := Some (filter (\<lambda>m. m \<noteq> va_map_id a) (vs_remaining_maps s)),
          uvs_selected_maps := Some (if selects_map (fa_action_type (vf_sequence f ! (?n - 1))) \<and>
              va_map_id a \<notin> set (vs_selected_maps s)
            then vs_selected_maps s @ [va_map_id a] else vs_selected_maps s),
          uvs_status := Some next_status, uvs_action_deadline := Some deadline,
          uvs_completed_at := (if ?n = length (vf_sequence f) then Some t else None)\<rparr>))
        (\<lambda>us. sret \<lparr>vr_session = us, vr_action = b, vr_veto_complete = (?n = length (vf_sequence f)),
           vr_next_team = next_team, vr_next_action_type = (if ?n = length (vf_sequence f) then None
             else map_option fa_action_type
               (if ?n = length (vf_sequence f) then None else Some (vf_sequence f ! ?n)))\<rparr>))) ?Q E"
      apply (rule triple_sbind [OF next_turn_triple [OF r dt fin]], assumption, assumption)
      apply (rule triple_pre, clarify)
      apply (rule triple_conseq)
         apply (rule triple_sbind [OF upd])
          apply (rule adv)
           apply simp_all
      apply (force simp: recorded_def intro!: triple_sret)
      done
  qed
  then show "triple (\<lambda>w. w = w0) (advance_session s f (vf_sequence f ! (?n - 1)) (va_map_id a) b) ?Q E"
    by (rule triple_conseq) (use w0 in auto)
qed

text \<open>
  Recording an action advances the session; only finding the next team can fail. A map that
  an interrupted action stored is the one that counts.
\<close>

lemma record_triple:
  assumes r: "ready_for self i s f"
    and m: "m \<in> set (vs_remaining_maps s)"
    and dt: "\<And>a. vs_current_action_number s < length (vf_sequence f) \<Longrightarrow>
      triple (\<lambda>w. pending self i s a w \<and> matches_are ms w)
        (determine_next_team s (Some (vf_sequence f ! vs_current_action_number s)))
        (\<lambda>turn w. (pending self i s a w \<and> matches_are ms w) \<and> T turn) E"
    and fin: "vs_current_action_number s = length (vf_sequence f) \<Longrightarrow> T None"
  shows "triple (\<lambda>w. (veto_inv self w \<and> find_row vs_id i (w_sessions w) = Some s \<and>
        (fresh \<longrightarrow> length (session_actions i w) = vs_current_action_number s - 1)) \<and> matches_are ms w)
      (record_action_internal self s f (vf_sequence f ! (vs_current_action_number s - 1)) m pby pbu auto why)
      (\<lambda>res w. \<exists>m' turn. (recorded self i f s m' turn res w \<and> matches_are ms w) \<and> (fresh \<longrightarrow> m' = m) \<and> T turn) E"
proof (rule triple_pre)
  fix w0
  let ?n = "vs_current_action_number s" and ?fa = "vf_sequence f ! (vs_current_action_number s - 1)"
  let ?P = "\<lambda>a w. pending self i s a w \<and> matches_are ms w"
  let ?Q = "\<lambda>res w. \<exists>m' turn. (recorded self i f s m' turn res w \<and> matches_are ms w) \<and> (fresh \<longrightarrow> m' = m) \<and> T turn"
  assume w0: "(veto_inv self w0 \<and> find_row vs_id i (w_sessions w0) = Some s \<and>
    (fresh \<longrightarrow> length (session_actions i w0) = ?n - 1)) \<and> matches_are ms w0"
  have sid: "vs_id s = i" using w0 veto_inv_found by blast
  let ?c = "\<lparr>cva_session_id = vs_id s, cva_action_number = ?n, cva_action_type = fa_action_type ?fa, cva_map_id = m,
    cva_performed_by_registration_id = pby, cva_performed_by_user_id = pbu, cva_was_auto_action = auto,
    cva_auto_action_reason = why\<rparr>"
  have create: "triple (\<lambda>w. w = w0) (action_create ?c) (\<lambda>a w. ?P a w \<and> (fresh \<longrightarrow> va_map_id a = m)) E"
  proof -
    have t: "triple (\<lambda>w. (veto_inv self w \<and> find_row vs_id i (w_sessions w) = Some s) \<and> matches_are ms w) (action_create ?c) ?P E"
      by (rule triple_frame [OF action_create_triple keeps_matches_create]) (use r m sid in simp_all)
    have at: "action_at (cva_session_id ?c) (cva_action_number ?c) w0 = None" if fresh
      using action_at_fresh [of self w0 i s f] w0 r sid that by simp
    show ?thesis
    proof (rule tripleI)
      show "E t" if "w = w0" "action_create ?c w = (Inl e, t)" for w e t
        using triple_err [OF t] w0 that by blast
      show "?P a t \<and> (fresh \<longrightarrow> va_map_id a = m)" if "w = w0" "action_create ?c w = (Inr a, t)" for w a t
        using triple_ok [OF t] w0 that action_create_map [of ?c w0 a t] at by auto
    qed
  qed
  have rest: "triple (\<lambda>w. ?P a w \<and> (fresh \<longrightarrow> va_map_id a = m))
      (sbind (assign_random_side self s (fa_action_type ?fa) pby a) (advance_session s f ?fa (va_map_id a))) ?Q E" for a
  proof (rule triple_pre)
    fix w assume w: "?P a w \<and> (fresh \<longrightarrow> va_map_id a = m)"
    have "triple (?P a) (sbind (assign_random_side self s (fa_action_type ?fa) pby a) (advance_session s f ?fa (va_map_id a)))
        (\<lambda>res w. \<exists>turn. (recorded self i f s (va_map_id a) turn res w \<and> matches_are ms w) \<and> T turn) E"
      by (rule triple_sbind [OF triple_frame [OF assign_random_side_triple keeps_matches_assign]
            advance_session_triple [OF r dt fin]])
    then show "triple (\<lambda>t. t = w)
        (sbind (assign_random_side self s (fa_action_type ?fa) pby a) (advance_session s f ?fa (va_map_id a))) ?Q E"
      by (rule triple_conseq) (use w in blast)+
  qed
  show "triple (\<lambda>w. w = w0) (record_action_internal self s f ?fa m pby pbu auto why) ?Q E"
    unfolding record_action_internal_def by (rule triple_sbind [OF create rest])
qed


lemma record_keeps:
  assumes "ready_for self i s f" and "m \<in> set (vs_remaining_maps s)"
    and "fa = vf_sequence f ! (vs_current_action_number s - 1)"
  shows "triple (\<lambda>w. veto_inv self w \<and> find_row vs_id i (w_sessions w) = Some s)
    (record_action_internal self s f fa m pby pbu auto why)
    (\<lambda>res w. \<exists>m turn. recorded self i f s m turn res w) (veto_inv self)"
  unfolding assms(3)
proof (rule triple_pre)
  fix w0 assume w0: "veto_inv self w0 \<and> find_row vs_id i (w_sessions w0) = Some s"
  let ?fa = "vf_sequence f ! (vs_current_action_number s - 1)"
  have "triple (\<lambda>w. (veto_inv self w \<and> find_row vs_id i (w_sessions w) = Some s \<and>
        (False \<longrightarrow> length (session_actions i w) = vs_current_action_number s - 1)) \<and> matches_are (w_matches w0) w)
      (record_action_internal self s f ?fa m pby pbu auto why)
      (\<lambda>res w. \<exists>m' turn. (recorded self i f s m' turn res w \<and> matches_are (w_matches w0) w) \<and>
        (False \<longrightarrow> m' = m) \<and> True) (veto_inv self)"
  proof (rule record_triple [where T = "\<lambda>_. True", OF assms(1,2)])
    have "triple (\<lambda>w. pending self i s a w \<and> matches_are (w_matches w0) w) (determine_next_team s na)
      (\<lambda>_ w. pending self i s a w \<and> matches_are (w_matches w0) w) (veto_inv self)" for a na
      by (rule determine_next_team_triple) (simp add: pending_def)
    then show "triple (\<lambda>w. pending self i s a w \<and> matches_are (w_matches w0) w)
        (determine_next_team s (Some (vf_sequence f ! vs_current_action_number s)))
        (\<lambda>turn w. (pending self i s a w \<and> matches_are (w_matches w0) w) \<and> True) (veto_inv self)" for a
      by simp
  qed simp
  then show "triple (\<lambda>t. t = w0) (record_action_internal self s f ?fa m pby pbu auto why)
      (\<lambda>res w. \<exists>m turn. recorded self i f s m turn res w) (veto_inv self)"
    by (rule triple_conseq) (use w0 in auto)
qed

lemma get_session_triple:
  "triple P (get_session i) (\<lambda>s w. P w \<and> find_row vs_id i (w_sessions w) = Some s) P"
  by (simp add: triple_def get_session_def veto_find_by_id_def sneed_def sbind_def split: option.splits)

text \<open>The loop over the deciders ends: every round counts one more action of the format.\<close>

lemma session_ok_bound:
  assumes "running self i f s w"
  shows "vs_current_action_number s \<le> Suc (length (vf_sequence f))"
proof -
  let ?acts = "session_actions i w"
  have "session_ok self ?acts s" using assms veto_inv_found unfolding running_def by blast
  then have "length ?acts = vs_current_action_number s - 1 \<or> length ?acts = vs_current_action_number s"
    "spec_legal f (vs_map_pool s) (map decision_of ?acts)"
    using assms by (auto simp: session_ok_def running_def Let_def)
  with spec_legal_length show ?thesis by fastforce
qed

definition woken :: "nat \<Rightarrow> VetoSession \<Rightarrow> bool" where
  "woken k s \<longleftrightarrow> vs_status s \<in> {VetoStatus.InProgress, VetoStatus.Completed} \<and> k < vs_current_action_number s"

lemma recorded_woken:
  assumes "recorded self i f s m turn res w" and "k \<le> vs_current_action_number s"
  shows "woken k (vr_session res)"
  using assms by (auto simp: recorded_def advanced_def woken_def Let_def)

lemma chain_loop_triple:
  "triple (\<lambda>w. running self i f (vr_session res) w \<and> woken k (vr_session res) \<and>
      length (vf_sequence f) + 2 \<le> fuel + vs_current_action_number (vr_session res))
    (chain_loop fuel self i f res)
    (\<lambda>r w. \<exists>res'. r = Some res' \<and> running self i f (vr_session res') w \<and> woken k (vr_session res') \<and>
       (vr_veto_complete res' \<or> vr_next_action_type res' \<noteq> Some VetoActionType.Decider)) (veto_inv self)"
proof (induction fuel arbitrary: res)
  case 0
  have False if "running self i f (vr_session res) w"
    "length (vf_sequence f) + 2 \<le> vs_current_action_number (vr_session res)" for w
    using session_ok_bound [OF that(1)] that(2) by simp
  then show ?case by (auto simp: triple_def)
next
  case (Suc fuel)
  let ?s = "vr_session res"
  let ?R = "\<lambda>w. running self i f ?s w \<and> woken k ?s \<and> length (vf_sequence f) + 2 \<le> Suc fuel + vs_current_action_number ?s"
  have step: "triple (\<lambda>w. ?R w \<and> m \<in> set (vs_remaining_maps ?s) \<and> vs_current_action_number ?s - 1 < length (vf_sequence f))
      (sbind (record_action_internal self ?s f (vf_sequence f ! (vs_current_action_number ?s - 1)) m None None True
         (Some ''decider_auto'')) (chain_loop fuel self i f))
      (\<lambda>r w. \<exists>res'. r = Some res' \<and> running self i f (vr_session res') w \<and> woken k (vr_session res') \<and>
         (vr_veto_complete res' \<or> vr_next_action_type res' \<noteq> Some VetoActionType.Decider)) (veto_inv self)" for m
  proof (rule triple_pre)
    fix w0 assume w0: "?R w0 \<and> m \<in> set (vs_remaining_maps ?s) \<and> vs_current_action_number ?s - 1 < length (vf_sequence f)"
    then have r: "ready_for self i ?s f" by (auto simp: ready_for_def running_def)
    show "triple (\<lambda>t. t = w0)
      (sbind (record_action_internal self ?s f (vf_sequence f ! (vs_current_action_number ?s - 1)) m None None True
         (Some ''decider_auto'')) (chain_loop fuel self i f))
      (\<lambda>r w. \<exists>res'. r = Some res' \<and> running self i f (vr_session res') w \<and> woken k (vr_session res') \<and>
         (vr_veto_complete res' \<or> vr_next_action_type res' \<noteq> Some VetoActionType.Decider)) (veto_inv self)"
    proof (rule triple_sbind [where R = "\<lambda>res' w. running self i f (vr_session res') w \<and> woken k (vr_session res') \<and>
          length (vf_sequence f) + 2 \<le> fuel + vs_current_action_number (vr_session res')"])
      have m: "m \<in> set (vs_remaining_maps ?s)" using w0 by blast
      show "triple (\<lambda>t. t = w0) (record_action_internal self ?s f (vf_sequence f ! (vs_current_action_number ?s - 1)) m
          None None True (Some ''decider_auto''))
        (\<lambda>res' w. running self i f (vr_session res') w \<and> woken k (vr_session res') \<and>
          length (vf_sequence f) + 2 \<le> fuel + vs_current_action_number (vr_session res')) (veto_inv self)"
        by (rule triple_conseq [OF record_keeps [OF r m refl]])
           (use w0 in \<open>auto simp: recorded_def advanced_def running_def woken_def Let_def\<close>)
    next
      show "triple (\<lambda>w. running self i f (vr_session res') w \<and> woken k (vr_session res') \<and>
          length (vf_sequence f) + 2 \<le> fuel + vs_current_action_number (vr_session res')) (chain_loop fuel self i f res')
        (\<lambda>r w. \<exists>res'. r = Some res' \<and> running self i f (vr_session res') w \<and> woken k (vr_session res') \<and>
         (vr_veto_complete res' \<or> vr_next_action_type res' \<noteq> Some VetoActionType.Decider)) (veto_inv self)" for res'
        by (rule Suc.IH)
    qed
  qed
  show ?case
  proof (cases "vr_veto_complete res \<or> vr_next_action_type res \<noteq> Some VetoActionType.Decider")
    case True
    then show ?thesis unfolding chain_loop.simps if_P [OF True] by (intro triple_sret) blast
  next
    case False
    show ?thesis
      unfolding chain_loop.simps if_not_P [OF False]
    proof (rule triple_sbind [where R = "\<lambda>s w. ?R w \<and> s = ?s"])
      show "triple ?R (get_session i) (\<lambda>s w. ?R w \<and> s = ?s) (veto_inv self)"
        by (rule triple_conseq [OF get_session_triple [of ?R]]) (auto simp: running_def)
    next
      fix s
      show "triple (\<lambda>w. ?R w \<and> s = ?s) (sbind (sneed (InvalidState ''Decider action index out of bounds'')
            (VetoFormatConfig_get_action f (vs_current_action_number s - 1))) (\<lambda>fa.
          sbind (sneed (InvalidState ''No maps remaining for decider'') (list_get (vs_remaining_maps s) 0)) (\<lambda>m.
          sbind (record_action_internal self s f fa m None None True (Some ''decider_auto''))
            (\<lambda>res. chain_loop fuel self i f res))))
        (\<lambda>r w. \<exists>res'. r = Some res' \<and> running self i f (vr_session res') w \<and> woken k (vr_session res') \<and>
          (vr_veto_complete res' \<or> vr_next_action_type res' \<noteq> Some VetoActionType.Decider)) (veto_inv self)"
        apply (rule triple_pre, elim conjE, hypsubst)
        apply (rule triple_sbind [where R = "\<lambda>fa w. ?R w \<and> vs_current_action_number ?s - 1 < length (vf_sequence f) \<and>
            fa = vf_sequence f ! (vs_current_action_number ?s - 1)"])
         apply (rule triple_sneed)
          apply (auto simp: running_def)[1]
         apply (auto simp: running_def)[1]
        apply (rule triple_pre, elim conjE, hypsubst)
        apply (rule triple_sbind [where R = "\<lambda>m w. ?R w \<and> vs_current_action_number ?s - 1 < length (vf_sequence f) \<and>
            m \<in> set (vs_remaining_maps ?s)"])
         apply (rule triple_sneed)
          apply (auto simp: running_def)[1]
         apply (auto simp: running_def)[1]
        apply (rule triple_conseq [OF step])
          apply auto
        done
    qed
  qed
qed


lemma chain_deciders_triple:
  "triple (\<lambda>w. running self i f (vr_session res) w \<and> woken k (vr_session res)) (chain_deciders self i f res)
    (\<lambda>res' w. running self i f (vr_session res') w \<and> woken k (vr_session res') \<and>
       (vr_veto_complete res' \<or> vr_next_action_type res' \<noteq> Some VetoActionType.Decider)) (veto_inv self)"
  unfolding chain_deciders_def
proof (rule triple_sbind)
  show "triple (\<lambda>w. running self i f (vr_session res) w \<and> woken k (vr_session res)) (chain_loop (length (vf_sequence f) + 2) self i f res)
    (\<lambda>r w. \<exists>res'. r = Some res' \<and> running self i f (vr_session res') w \<and> woken k (vr_session res') \<and>
       (vr_veto_complete res' \<or> vr_next_action_type res' \<noteq> Some VetoActionType.Decider)) (veto_inv self)"
    by (rule triple_conseq [OF chain_loop_triple]) simp_all
qed (rule triple_sneed; auto)

section \<open>Every operation keeps the invariant\<close>

lemma act_triple:
  assumes "\<And>f fa. ready_for self i s f \<Longrightarrow> fa = vf_sequence f ! (vs_current_action_number s - 1) \<Longrightarrow>
    triple (\<lambda>w. veto_inv self w \<and> find_row vs_id i (w_sessions w) = Some s) (k f fa) Q (veto_inv self)"
    and "0 < vs_current_action_number s"
  shows "triple (\<lambda>w. veto_inv self w \<and> find_row vs_id i (w_sessions w) = Some s)
    (sbind (slift (get_format self (vs_veto_format_id s))) (\<lambda>f.
       sbind (sneed e (VetoFormatConfig_get_action f (vs_current_action_number s - 1))) (k f)))
    Q (veto_inv self)"
proof (cases "get_format self (vs_veto_format_id s)")
  case (Inl x)
  then show ?thesis by (simp add: triple_def)
next
  case (Inr f)
  then have run: "sbind (slift (get_format self (vs_veto_format_id s))) (\<lambda>f.
      sbind (sneed e (VetoFormatConfig_get_action f (vs_current_action_number s - 1))) (k f)) =
    sbind (sneed e (VetoFormatConfig_get_action f (vs_current_action_number s - 1))) (k f)"
    by (intro ext) simp
  show ?thesis
  proof (cases "vs_current_action_number s - 1 < length (vf_sequence f)")
    case True
    then have "VetoFormatConfig_get_action f (vs_current_action_number s - 1) =
      Some (vf_sequence f ! (vs_current_action_number s - 1))"
      by (simp add: VetoFormatConfig_get_action_def)
    then have go: "sbind (sneed e (VetoFormatConfig_get_action f (vs_current_action_number s - 1))) (k f) =
      k f (vf_sequence f ! (vs_current_action_number s - 1))"
      by (simp only: sneed_simps sbind_sret)
    show ?thesis unfolding run go
      by (rule assms(1)) (use True assms(2) Inr in \<open>auto simp: ready_for_def\<close>)
  next
    case False
    then have none: "VetoFormatConfig_get_action f (vs_current_action_number s - 1) = None" by simp
    show ?thesis unfolding run none by (simp add: triple_def)
  qed
qed

lemma act_and_chain:
  assumes "ready_for self i s f" and "m \<in> set (vs_remaining_maps s)"
    and "fa = vf_sequence f ! (vs_current_action_number s - 1)"
  shows "triple (\<lambda>w. veto_inv self w \<and> find_row vs_id i (w_sessions w) = Some s)
    (sbind (record_action_internal self s f fa m pby pbu auto why) (chain_deciders self i f))
    (\<lambda>res w. (\<exists>f. running self i f (vr_session res) w) \<and> woken (vs_current_action_number s) (vr_session res)) (veto_inv self)"
proof (rule triple_sbind [OF record_keeps [OF assms]])
  fix res
  show "triple (\<lambda>w. \<exists>m turn. recorded self i f s m turn res w) (chain_deciders self i f res)
      (\<lambda>res w. (\<exists>f. running self i f (vr_session res) w) \<and> woken (vs_current_action_number s) (vr_session res)) (veto_inv self)"
    by (rule triple_conseq [OF chain_deciders_triple [where k = "vs_current_action_number s"]])
       (use recorded_woken in \<open>blast intro: order_refl | simp add: recorded_def\<close>)+
qed

lemma act_and_chain_keeps:
  assumes "ready_for self i s f" and "m \<in> set (vs_remaining_maps s)"
    and "fa = vf_sequence f ! (vs_current_action_number s - 1)"
  shows "triple (\<lambda>w. veto_inv self w \<and> find_row vs_id i (w_sessions w) = Some s)
    (sbind (record_action_internal self s f fa m pby pbu auto why) (chain_deciders self i f))
    (\<lambda>_. veto_inv self) (veto_inv self)"
  by (rule triple_conseq [OF act_and_chain [OF assms]]) (auto simp: running_def)

lemma found_positive:
  assumes "veto_inv self w" and "find_row vs_id i (w_sessions w) = Some s"
    and "vs_status s = VetoStatus.InProgress \<or> vs_action_deadline s \<noteq> None"
  shows "0 < vs_current_action_number s"
proof -
  have "session_ok self (session_actions i w) s" using veto_inv_found [OF assms(1,2)] by blast
  with assms(3) show ?thesis by (auto simp: session_ok_def Let_def)
qed

lemma triple_found:
  assumes "\<And>s w0. veto_inv self w0 \<Longrightarrow> find_row vs_id i (w_sessions w0) = Some s \<Longrightarrow>
    triple (\<lambda>w. veto_inv self w \<and> find_row vs_id i (w_sessions w) = Some s) (k s) (\<lambda>_. veto_inv self) (veto_inv self)"
  shows "keeps (veto_inv self) (sbind (get_session i) k)"
  unfolding triple_keeps
proof (rule triple_sbind [OF get_session_triple], rule triple_pre)
  fix s w0 assume w0: "veto_inv self w0 \<and> find_row vs_id i (w_sessions w0) = Some s"
  show "triple (\<lambda>w. w = w0) (k s) (\<lambda>_. veto_inv self) (veto_inv self)"
    by (rule triple_conseq [OF assms]) (use w0 in auto)
qed

lemma perform_action_keeps [keeps_intros]: "keeps (veto_inv self) (perform_action self i m team user)"
  unfolding perform_action_def
  apply (rule triple_found)
  subgoal premises found for s w0
    apply (rule triple_if, rule triple_sfail, blast)
    apply (rule triple_if, rule triple_sfail, blast)
    subgoal premises guards
    proof -
      from guards have m: "m \<in> set (vs_remaining_maps s)" and n: "0 < vs_current_action_number s"
        using found_positive [OF found] by (auto simp: veto_methods)
      show ?thesis
        apply (rule triple_sbind [where R = "\<lambda>_ w. veto_inv self w \<and> find_row vs_id i (w_sessions w) = Some s"])
         apply (rule triple_sneed, blast, blast)
        apply (rule triple_if, rule triple_sfail, blast)
        apply (rule act_triple [OF _ n])
        apply (rule act_and_chain_keeps [OF _ m], assumption+)
        done
    qed
    done
  done

lemma perform_wheel_action_keeps [keeps_intros]: "keeps (veto_inv self) (perform_wheel_action self i m n)"
  unfolding perform_wheel_action_def
  apply (rule triple_found)
  subgoal premises found for s w0
    apply (rule triple_if, rule triple_sfail, blast)
    apply (rule triple_if, rule triple_sfail, blast)
    apply (rule triple_if, rule triple_sfail, blast)
    subgoal premises guards
    proof -
      from guards have m: "m \<in> set (vs_remaining_maps s)" and n: "0 < vs_current_action_number s"
        using found_positive [OF found] by (auto simp: veto_methods)
      show ?thesis
        apply (rule act_triple [OF _ n])
        apply (rule triple_if, rule triple_sfail, blast)
        apply (rule triple_conseq [OF record_keeps [OF _ m]], assumption+)
          apply (auto simp: recorded_def running_def)
        done
    qed
    done
  done

lemma process_timeout_triple:
  assumes found: "veto_inv self w0" "find_row vs_id i (w_sessions w0) = Some s"
  shows "triple (\<lambda>w. w = w0) (process_timeout self i)
    (\<lambda>res w. (\<exists>f. running self i f (vr_session res) w) \<and> woken (vs_current_action_number s) (vr_session res)) (veto_inv self)"
proof -
  let ?P = "\<lambda>w. veto_inv self w \<and> find_row vs_id i (w_sessions w) = Some s"
  let ?Q = "\<lambda>res w. (\<exists>f. running self i f (vr_session res) w) \<and> woken (vs_current_action_number s) (vr_session res)"
  have "triple ?P (process_timeout self i) ?Q (veto_inv self)"
    unfolding process_timeout_def
    apply (rule triple_sbind [where R = "\<lambda>s' w. ?P w \<and> s' = s"])
     apply (rule triple_conseq [OF get_session_triple [of ?P]]; auto)
    apply (rule triple_pre, elim conjE, hypsubst)
    apply (rule triple_conseq [where P = ?P and Q = ?Q and E = "veto_inv self"])
      apply (rule triple_sbind [where R = "\<lambda>_. ?P"])
       apply (simp add: now_def triple_sget)
      apply (rule triple_if, rule triple_sfail, blast)
      subgoal premises guards
      proof -
        from guards have n: "0 < vs_current_action_number s"
          using found_positive [OF found] by (auto simp: veto_methods split: option.splits)
        have drawn: "?P (w\<lparr>w_drawn := k\<rparr>)" if "?P w" for w k
          using that by (auto intro: veto_inv_frame [where w = w] simp: session_actions_def)
        show ?thesis
          apply (rule triple_sbind [where R = "\<lambda>c w. ?P w \<and> (\<forall>m. c = Some m \<longrightarrow> m \<in> set (vs_remaining_maps s))"])
           apply (simp only: choose_map_def)
           apply (rule triple_sbind [OF draw_triple [of ?P, OF drawn]], assumption)
           apply (rule triple_sret, auto)[1]
          apply (rule triple_sbind [where R = "\<lambda>m w. ?P w \<and> m \<in> set (vs_remaining_maps s)"])
           apply (rule triple_sneed, blast, blast)
          apply (rule triple_pre)
          subgoal premises m for c m w
            apply (rule triple_conseq)
               apply (rule act_triple [OF _ n])
               apply (rule act_and_chain)
                 apply assumption
                apply (use m in blast)
               apply assumption
              apply (use m in blast)
             apply auto
            done
          done
      qed
      apply auto
    done
  then show ?thesis by (rule triple_conseq) (use found in auto)
qed

lemma process_timeout_keeps [keeps_intros]: "keeps (veto_inv self) (process_timeout self i)"
proof (rule keepsI)
  fix w assume inv: "veto_inv self w"
  show "veto_inv self (snd (process_timeout self i w))"
  proof (cases "find_row vs_id i (w_sessions w)")
    case None
    then show ?thesis using inv by (simp add: process_timeout_def get_session_def veto_find_by_id_def sbind_def)
  next
    case (Some s)
    note t = process_timeout_triple [OF inv Some]
    obtain r w' where run: "process_timeout self i w = (r, w')" by fastforce
    then show ?thesis
      using triple_err [OF t refl] triple_ok [OF t refl] by (cases r) (auto simp: running_def)
  qed
qed


lemma select_side_keeps [keeps_intros]: "keeps (veto_inv self) (select_side i n side team user)"
proof -
  have side: "keeps (veto_inv self) (action_update_side_selection j side u)" for j u
  proof (rule keepsI)
    fix w assume inv: "veto_inv self w"
    let ?f = "\<lambda>a. a\<lparr>va_side_selection := Some side, va_side_selected_by_registration_id := Some u,
      va_side_selected_at := Some (w_now w)\<rparr>"
    have acts: "session_actions k (w_actions_update (modify_row va_id j ?f) w) = modify_row va_id j ?f (session_actions k w)" for k
      unfolding session_actions_def by (simp add: filter_modify_row [where f = ?f])
    have "veto_inv self (w_actions_update (modify_row va_id j ?f) w)"
      by (rule veto_inv_frame [where w = w])
         (use inv in \<open>simp_all add: acts map_modify_row [of _ ?f] image_modify_row [of _ ?f] decision_of_def\<close>)
    with inv show "veto_inv self (snd (action_update_side_selection j side u w))"
      by (simp add: action_update_side_selection_def update_returning_def split: option.splits)
  qed
  show ?thesis
    unfolding select_side_def get_session_def veto_find_by_id_def action_find_by_session_and_number_def
    by (intro keeps_intros side)
qed

lemma cancel_keeps [keeps_intros]: "keeps (veto_inv self) (cancel_session_for_match k)"
proof (rule keepsI)
  fix w assume inv: "veto_inv self w"
  let ?f = "\<lambda>s. s\<lparr>vs_status := VetoStatus.Cancelled, vs_updated_at := w_now w\<rparr>"
  show "veto_inv self (snd (cancel_session_for_match k w))"
  proof (cases "find (\<lambda>s. vs_match_id s = k) (w_sessions w)")
    case None
    then show ?thesis using inv by (simp add: cancel_session_for_match_def veto_find_by_match_def)
  next
    case (Some s)
    then have "s \<in> set (w_sessions w)" by (auto simp: find_Some_iff)
    then have s: "find_row vs_id (vs_id s) (w_sessions w) = Some s"
      using inv find_row_Some_iff [of vs_id "w_sessions w"] by (simp add: veto_inv_def)
    have "session_ok self (session_actions (vs_id s) w) (?f s)" if "vs_status s \<notin> {VetoStatus.Completed, VetoStatus.Cancelled}"
      using veto_inv_found [OF inv s] by (auto simp: session_ok_def Let_def counted_def)
    then have "veto_inv self (w_sessions_update (modify_row vs_id (vs_id s) ?f) w)"
      if "vs_status s \<notin> {VetoStatus.Completed, VetoStatus.Cancelled}"
      using that veto_inv_update [OF inv s, of ?f] by simp
    then show ?thesis
      using Some inv s by (auto simp: cancel_session_for_match_def veto_find_by_match_def veto_update_status_def
        veto_session_table.update_found sbind_def)
  qed
qed

lemma start_session_keeps [keeps_intros]: "keeps (veto_inv self) (start_session self i)"
proof (rule keepsI)
  fix w assume inv: "veto_inv self w"
  have upd: "veto_inv self (snd (veto_update i u w))"
    if "find_row vs_id i (w_sessions w) = Some s" "session_ok self (session_actions i w) (apply_veto_update u (w_now w) s)" for s u
    using veto_inv_update [OF inv that(1), of "apply_veto_update u (w_now w)"] that by (simp add: veto_update_ok)
  show "veto_inv self (snd (start_session self i w))"
  proof (cases "find_row vs_id i (w_sessions w)")
    case None
    then show ?thesis using inv by (simp add: start_session_def get_session_def veto_find_by_id_def sbind_def)
  next
    case (Some s)
    have ok: "session_ok self (session_actions i w) s" using veto_inv_found [OF inv Some] by blast
    show ?thesis
    proof (cases "vs_status s = VetoStatus.Pending")
      case False
      then show ?thesis using Some inv
        by (simp add: start_session_def get_session_def veto_find_by_id_def sbind_def veto_methods)
    next
      case True
      then have "session_actions i w = []" "vs_current_action_number s = 0" "vs_remaining_maps s = vs_map_pool s"
        "vs_selected_maps s = []" "vs_action_deadline s = None"
        using ok by (auto simp: session_ok_def Let_def)
      then show ?thesis
        using True Some inv
        by (cases "get_format self (vs_veto_format_id s)")
           (auto simp: start_session_def get_session_def veto_find_by_id_def sbind_def veto_methods intro!: upd
             simp: session_ok_def Let_def apply_veto_update_def no_veto_update_def counted_def spec_legal_def
               spec_remaining_def spec_selected_def)
    qed
  qed
qed

lemma record_coin_flip_keeps [keeps_intros]: "keeps (veto_inv self) (record_coin_flip self i winner first)"
  unfolding record_coin_flip_def
  apply (rule triple_found)
  subgoal premises found for s w0
    apply (rule triple_if, rule triple_sfail, blast)
    apply (rule triple_if, rule triple_sret, blast)
    subgoal premises guards
    proof -
      let ?P = "\<lambda>w. veto_inv self w \<and> find_row vs_id i (w_sessions w) = Some s"
      have st: "vs_status s = VetoStatus.CoinFlip" using guards by (simp add: veto_methods)
      have upd: "triple ?P (veto_update i (no_veto_update\<lparr>uvs_coin_flip_winner_registration_id := Some a,
          uvs_first_action_registration_id := Some b, uvs_current_action_number := Some 1,
          uvs_current_team_turn := Some (Some b), uvs_status := Some VetoStatus.InProgress,
          uvs_action_deadline := Some (Some d), uvs_started_at := Some t\<rparr>)) (\<lambda>_. veto_inv self) (veto_inv self)" for a b d t
      proof (rule triple_pre)
        fix w assume w: "?P w"
        let ?u = "no_veto_update\<lparr>uvs_coin_flip_winner_registration_id := Some a,
          uvs_first_action_registration_id := Some b, uvs_current_action_number := Some 1,
          uvs_current_team_turn := Some (Some b), uvs_status := Some VetoStatus.InProgress,
          uvs_action_deadline := Some (Some d), uvs_started_at := Some t\<rparr>"
        have "session_ok self (session_actions i w) s" using veto_inv_found w by blast
        then have "session_ok self (session_actions i w) (apply_veto_update ?u (w_now w) s)"
          using st by (auto simp: session_ok_def Let_def apply_veto_update_def no_veto_update_def counted_def spec_legal_def
            spec_remaining_def spec_selected_def)
        then have "veto_inv self (w_sessions_update (modify_row vs_id i (apply_veto_update ?u (w_now w))) w)"
          using w by (intro veto_inv_update) auto
        then show "triple (\<lambda>t. t = w) (veto_update i ?u) (\<lambda>_. veto_inv self) (veto_inv self)"
          using w veto_update_ok [of i w s ?u] by (simp add: triple_def)
      qed
      show ?thesis
        unfolding match_find_by_id_def Let_def
        apply (rule triple_sbind [where R = "\<lambda>_. ?P"])
         apply (simp add: triple_sget)
        apply (rule triple_sbind [where R = "\<lambda>_. ?P"])
         apply (rule triple_sneed, blast, blast)
        apply (rule triple_if, rule triple_sfail, blast)
        apply (rule triple_sbind [where R = "\<lambda>_. ?P"])
         apply (rule triple_if, rule triple_sret, blast, rule triple_sneed, blast, blast)
        apply (rule triple_sbind [where R = "\<lambda>_. ?P"])
         apply (simp add: now_def triple_sget)
        apply (rule upd)
        done
    qed
    done
  done

lemma create_session_keeps [keeps_intros]: "keeps (veto_inv self) (create_session self k fmt pool secs mode)"
proof -
  have flag: "keeps (veto_inv self) (match_set_veto_required k b)" for b
  proof (rule keepsI)
    fix w assume "veto_inv self w"
    then show "veto_inv self (snd (match_set_veto_required k b w))"
      by (auto simp: match_set_veto_required_def match_set_run session_actions_def split: option.splits
        intro!: veto_inv_frame [where w = w])
  qed
  have create: "keeps (veto_inv self) (veto_create c)" for c
  proof (rule keepsI)
    fix w assume inv: "veto_inv self w"
    let ?i = "w_uuids w (w_next w)"
    let ?s = "veto_session_row ?i (w_now w) c"
    let ?w = "w\<lparr>w_next := Suc (w_next w), w_sessions := w_sessions w @ [?s]\<rparr>"
    have old: "vs_id s \<noteq> ?i" if "s \<in> set (w_sessions w)" for s
      using inv that unfolding veto_inv_def fresh_ids_def by (metis injD less_irrefl)
    have none: "session_actions ?i w = []"
    proof -
      have "va_session_id a \<noteq> ?i" if "a \<in> set (w_actions w)" for a
        using inv that old unfolding veto_inv_def by (metis image_eqI image_iff subsetD)
      then show ?thesis by (simp add: session_actions_def)
    qed
    have skip: "veto_inv self (w\<lparr>w_next := Suc (w_next w)\<rparr>)"
      using inv by (auto simp: session_actions_def intro!: veto_inv_frame [where w = w])
    have "veto_inv self ?w"
    proof -
      have acts: "session_actions j (w\<lparr>w_next := n, w_sessions := ss\<rparr>) = session_actions j w"
        "session_actions j (w\<lparr>w_next := n\<rparr>) = session_actions j w" for j n ss
        by (simp_all add: session_actions_def)
      have "session_ok self [] ?s"
        by (simp add: session_ok_def Let_def veto_session_row_def)
      then show ?thesis
        using inv skip none old
        by (auto simp: veto_inv_def fresh_ids_def acts veto_session_row_def)
    qed
    moreover have "w_sessions_update (\<lambda>rows. rows @ [?s]) (w\<lparr>w_next := Suc (w_next w)\<rparr>) = ?w"
      by (cases w) simp
    ultimately have "veto_inv self (w_sessions_update (\<lambda>rows. rows @ [?s]) (w\<lparr>w_next := Suc (w_next w)\<rparr>))"
      by (simp only:)
    with skip show "veto_inv self (snd (veto_create c w))"
      by (simp add: veto_create_def new_uuid_def insert_returning_def sbind_def)
  qed
  show ?thesis
    unfolding create_session_def match_find_by_id_def veto_find_by_match_def
    by (intro keeps_intros flag create)
qed


section \<open>Runs\<close>

text \<open>Any sequence of operations of the service, the failed ones included.\<close>

inductive veto_step :: "VetoService \<Rightarrow> world \<Rightarrow> world \<Rightarrow> bool" for self where
  Create: "veto_step self w (snd (create_session self k fmt pool secs mode w))"
| Start: "veto_step self w (snd (start_session self i w))"
| Flip: "veto_step self w (snd (record_coin_flip self i winner goes_first w))"
| Act: "veto_step self w (snd (perform_action self i m team user w))"
| Spin: "veto_step self w (snd (perform_wheel_action self i m n w))"
| Timeout: "veto_step self w (snd (process_timeout self i w))"
| Side: "veto_step self w (snd (select_side i n side team user w))"
| Cancel: "veto_step self w (snd (cancel_session_for_match k w))"
| Clock: "veto_step self w (w\<lparr>w_now := t\<rparr>)"

inductive veto_run :: "VetoService \<Rightarrow> world \<Rightarrow> world \<Rightarrow> bool" for self where
  Done: "veto_run self w w"
| Step: "veto_run self u v \<Longrightarrow> veto_step self v w \<Longrightarrow> veto_run self u w"

lemma veto_step_inv: "veto_step self w w' \<Longrightarrow> veto_inv self w \<Longrightarrow> veto_inv self w'"
proof (induction rule: veto_step.induct)
  case (Clock w t)
  then show ?case by (auto simp: session_actions_def intro!: veto_inv_frame [where w = w])
qed (simp_all add: keepsD [OF _ _ surjective_pairing] keeps_intros)

lemma veto_run_inv: "veto_run self w w' \<Longrightarrow> veto_inv self w \<Longrightarrow> veto_inv self w'"
  by (induction rule: veto_run.induct) (auto dest: veto_step_inv)

lemma veto_inv_start:
  assumes "w_sessions w = []" and "w_actions w = []" and "inj (w_uuids w)"
  shows "veto_inv self w"
  using assms by (simp add: veto_inv_def fresh_ids_def)

text \<open>How many maps a complete veto selects.\<close>

lemma maps_selected_count:
  "VetoFormatConfig_maps_selected f = length (filter (\<lambda>a. selects_map (fa_action_type a)) (vf_sequence f))"
proof -
  have "length (filter (\<lambda>a. selects_map (fa_action_type a)) as) =
    length (filter (\<lambda>a. fa_action_type a = VetoActionType.Pick) as) +
    length (filter (\<lambda>a. fa_action_type a = VetoActionType.Decider) as) +
    length (filter (\<lambda>a. fa_action_type a = VetoActionType.Random) as)" for as
    by (induction as) (auto simp: selects_map_def)
  from this [of "vf_sequence f"] show ?thesis
    unfolding VetoFormatConfig_maps_selected_def VetoFormatConfig_pick_count_def
      VetoFormatConfig_decider_count_def VetoFormatConfig_random_count_def by (rule sym)
qed

lemma spec_selected_complete:
  assumes "spec_legal f pool ds" and "length ds = length (vf_sequence f)"
  shows "length (spec_selected ds) = VetoFormatConfig_maps_selected f"
proof -
  have "map fst ds = map fa_action_type (vf_sequence f)" using assms by (simp add: spec_legal_def)
  then have "length (filter selects_map (map fst ds)) = length (filter selects_map (map fa_action_type (vf_sequence f)))"
    by simp
  then show ?thesis by (simp add: spec_selected_def maps_selected_count filter_map o_def)
qed

lemma spec_selected_distinct:
  assumes "spec_legal f pool ds"
  shows "distinct (spec_selected ds)"
proof -
  have "distinct (map snd ds)" using assms by (simp add: spec_legal_def)
  then show ?thesis unfolding spec_selected_def by (simp add: distinct_map_filter)
qed

lemma spec_banned_not_selected:
  assumes "spec_legal f pool ds" and "(VetoActionType.Ban, m) \<in> set ds"
  shows "m \<notin> set (spec_selected ds)"
proof
  assume "m \<in> set (spec_selected ds)"
  then obtain ty where ty: "(ty, m) \<in> set ds" "selects_map ty" by (auto simp: spec_selected_def)
  then have "(ty, m) = (VetoActionType.Ban, m)"
    using assms inj_onD [of snd "set ds" "(ty, m)" "(VetoActionType.Ban, m)"] by (auto simp: spec_legal_def distinct_map)
  with ty(2) show False by (simp add: selects_map_def)
qed

end
