(* ===== verification/VetoSpec.thy ===== *)
theory VetoSpec
  imports VetoProofs Lifecycle
begin

text \<open>
  The properties of the map veto: what a session says is the replay of its log; the standard
  formats always come to an end; who may act and who selects the side; what happens to an
  interrupted action and to a cancelled session.
\<close>

section \<open>Progress\<close>

lemma triple_total:
  assumes "triple (\<lambda>t. t = w) m Q (\<lambda>_. False)"
  obtains a t where "m w = (Inr a, t)" and "Q a t"
proof (cases "m w")
  case (Pair r t)
  with assms show ?thesis
    by (cases r) (auto simp: triple_def intro: that)
qed

text \<open>Bans and picks of the two teams, then one decider: \<open>bo1\<close> to \<open>bo7\<close>.\<close>

definition standard :: "VetoFormatConfig \<Rightarrow> bool" where
  "standard f \<longleftrightarrow> (let team_actions = butlast (vf_sequence f) in
     team_actions \<noteq> [] \<and> last (vf_sequence f) = \<lparr>fa_team = 0, fa_action_type = VetoActionType.Decider\<rparr> \<and>
     fa_team (hd team_actions) = 1 \<and>
     (\<forall>x \<in> set team_actions. fa_team x \<in> {1, 2} \<and> fa_action_type x \<in> {VetoActionType.Ban, VetoActionType.Pick}))"

lemma standard_builtin:
  "standard VetoFormatConfig_bo1" "standard VetoFormatConfig_bo3" "standard VetoFormatConfig_bo5"
  "standard VetoFormatConfig_bo7"
  by (simp_all add: standard_def veto_formats upt_rec Let_def)

lemma standard_nth:
  assumes "standard f" and "k < length (vf_sequence f) - 1"
  shows "fa_team (vf_sequence f ! k) \<in> {1, 2}" and "fa_action_type (vf_sequence f ! k) \<in> {VetoActionType.Ban, VetoActionType.Pick}"
proof -
  have "vf_sequence f ! k = butlast (vf_sequence f) ! k" using assms(2) by (simp add: nth_butlast)
  moreover have "butlast (vf_sequence f) ! k \<in> set (butlast (vf_sequence f))" using assms(2) by simp
  ultimately show "fa_team (vf_sequence f ! k) \<in> {1, 2}"
    and "fa_action_type (vf_sequence f ! k) \<in> {VetoActionType.Ban, VetoActionType.Pick}"
    using assms(1) by (auto simp: standard_def Let_def)
qed

lemma standard_last:
  assumes "standard f"
  shows "1 < length (vf_sequence f)" and "vf_sequence f ! (length (vf_sequence f) - 1) = \<lparr>fa_team = 0, fa_action_type = VetoActionType.Decider\<rparr>"
    and "fa_team (vf_sequence f ! 0) = 1"
proof -
  have ne: "butlast (vf_sequence f) \<noteq> []" using assms by (simp add: standard_def Let_def)
  then have "0 < length (butlast (vf_sequence f))" by (simp only: length_greater_0_conv not_False_eq_True)
  then show len: "1 < length (vf_sequence f)" by simp
  then show "vf_sequence f ! (length (vf_sequence f) - 1) = \<lparr>fa_team = 0, fa_action_type = VetoActionType.Decider\<rparr>"
    using assms by (metis last_conv_nth length_0_conv not_less0 standard_def)
  show "fa_team (vf_sequence f ! 0) = 1"
    using assms ne len by (simp add: standard_def Let_def hd_conv_nth nth_butlast)
qed

text \<open>A recorded action on a running session, when the next team can be found.\<close>

lemma record_total:
  assumes run: "running self i f s w" and n: "vs_current_action_number s \<le> length (vf_sequence f)"
    and m: "m \<in> set (vs_remaining_maps s)"
    and acts: "length (session_actions i w) = vs_current_action_number s - 1"
    and turn: "\<And>v. w_matches v = w_matches w \<Longrightarrow> vs_current_action_number s < length (vf_sequence f) \<Longrightarrow>
      determine_next_team s (Some (vf_sequence f ! vs_current_action_number s)) v = (Inr turn, v)"
    and fin: "vs_current_action_number s = length (vf_sequence f) \<Longrightarrow> turn = None"
  obtains res w' where
    "record_action_internal self s f (vf_sequence f ! (vs_current_action_number s - 1)) m pby pbu auto why w = (Inr res, w')"
    and "recorded self i f s m turn res w'" and "w_matches w' = w_matches w"
proof -
  have r: "ready_for self i s f" using run n by (auto simp: running_def ready_for_def)
  have "triple (\<lambda>v. (veto_inv self v \<and> find_row vs_id i (w_sessions v) = Some s \<and>
        (True \<longrightarrow> length (session_actions i v) = vs_current_action_number s - 1)) \<and> matches_are (w_matches w) v)
      (record_action_internal self s f (vf_sequence f ! (vs_current_action_number s - 1)) m pby pbu auto why)
      (\<lambda>res v. \<exists>m' turn'. (recorded self i f s m' turn' res v \<and> matches_are (w_matches w) v) \<and>
        (True \<longrightarrow> m' = m) \<and> turn' = turn) (\<lambda>_. False)"
    by (rule record_triple [where T = "\<lambda>t. t = turn", OF r m]) (use turn fin in \<open>simp_all add: triple_def\<close>)
  then have "triple (\<lambda>v. v = w) (record_action_internal self s f (vf_sequence f ! (vs_current_action_number s - 1)) m pby pbu auto why)
      (\<lambda>res v. recorded self i f s m turn res v \<and> matches_are (w_matches w) v) (\<lambda>_. False)"
    by (rule triple_conseq) (use run acts in \<open>auto simp: running_def\<close>)
  then show ?thesis by (rule triple_total) (use that in blast)
qed

definition team_at :: "VetoFormatConfig \<Rightarrow> uuid \<Rightarrow> uuid \<Rightarrow> nat \<Rightarrow> uuid" where
  "team_at f first second n = (if fa_team (vf_sequence f ! (n - 1)) = 1 then first else second)"

text \<open>A session of a standard format in the middle of its team actions.\<close>

definition live :: "VetoService \<Rightarrow> uuid \<Rightarrow> VetoFormatConfig \<Rightarrow> uuid \<Rightarrow> uuid \<Rightarrow> VetoSession \<Rightarrow> world \<Rightarrow> bool" where
  "live self i f first second s w \<longleftrightarrow> running self i f s w \<and> vs_status s = VetoStatus.InProgress \<and>
     length (session_actions i w) = vs_current_action_number s - 1 \<and>
     vs_first_action_registration_id s = Some first \<and> first \<noteq> second \<and>
     (\<exists>m. find_row m_id (vs_match_id s) (w_matches w) = Some m \<and>
        {m_participant1_registration_id m, m_participant2_registration_id m} = {Some first, Some second}) \<and>
     vs_current_team_turn s = Some (team_at f first second (vs_current_action_number s))"

lemma determine_next_team_run:
  assumes "find_row m_id (vs_match_id s) (w_matches v) = Some m"
    and "{m_participant1_registration_id m, m_participant2_registration_id m} = {Some first, Some second}"
    and "first \<noteq> second" and "vs_first_action_registration_id s = Some first" and "fa_team na \<in> {1, 2}"
  shows "determine_next_team s (Some na) v = (Inr (Some (if fa_team na = 1 then first else second)), v)"
proof -
  from assms(2,3) have "(m_participant1_registration_id m = Some first \<and> m_participant2_registration_id m = Some second) \<or>
      (m_participant1_registration_id m = Some second \<and> m_participant2_registration_id m = Some first)"
    by (auto simp: doubleton_eq_iff)
  moreover have "fa_team na = 1 \<or> fa_team na = 2" using assms(5) by blast
  ultimately show ?thesis
    using assms(1,3,4) by (elim disjE conjE) (simp_all add: determine_next_team_def Let_def)
qed

lemma perform_action_run:
  assumes "find_row vs_id i (w_sessions w) = Some s" and "vs_status s = VetoStatus.InProgress"
    and "m \<in> set (vs_remaining_maps s)" and "vs_current_team_turn s = Some team"
    and "get_format self (vs_veto_format_id s) = Inr f" and "vs_current_action_number s - 1 < length (vf_sequence f)"
  shows "perform_action self i m team user w =
    sbind (record_action_internal self s f (vf_sequence f ! (vs_current_action_number s - 1)) m (Some team) (Some user)
      False None) (chain_deciders self i f) w"
  using assms by (simp add: perform_action_def get_session_def veto_find_by_id_def veto_methods VetoFormatConfig_get_action_def)

lemma chain_deciders_stop:
  assumes "vr_veto_complete res \<or> vr_next_action_type res \<noteq> Some VetoActionType.Decider"
  shows "chain_deciders self i f res w = (Inr res, w)"
proof -
  have "chain_loop (Suc n) self i f res = sret (Some res)" for n
    unfolding chain_loop.simps if_P [OF assms] ..
  then show ?thesis unfolding chain_deciders_def add_2_eq_Suc' by simp
qed

lemma chain_deciders_step:
  assumes "\<not> (vr_veto_complete res \<or> vr_next_action_type res \<noteq> Some VetoActionType.Decider)"
    and "find_row vs_id i (w_sessions w) = Some s" and "vs_current_action_number s - 1 < length (vf_sequence f)"
    and "vs_remaining_maps s = d # ds"
    and "record_action_internal self s f (vf_sequence f ! (vs_current_action_number s - 1)) d None None True
      (Some ''decider_auto'') w = (Inr res', w')"
    and "vr_veto_complete res'"
  shows "chain_deciders self i f res w = (Inr res', w')"
proof -
  have stop: "chain_loop (Suc n) self i f res' = sret (Some res')" for n
    unfolding chain_loop.simps using assms(6) by simp
  have "chain_loop (Suc (Suc n)) self i f res w = (Inr (Some res'), w')" for n
    unfolding chain_loop.simps(2) [of "Suc n"] if_not_P [OF assms(1)]
    using assms(2-5) stop by (simp add: get_session_def veto_find_by_id_def VetoFormatConfig_get_action_def del: chain_loop.simps)
  then show ?thesis unfolding chain_deciders_def add_2_eq_Suc' by (simp del: chain_loop.simps)
qed

text \<open>A legal action of a live session succeeds: the session stays live, or its decider is recorded too.\<close>

lemma live_step:
  assumes live: "live self i f first second s w" and std: "standard f"
    and m: "m \<in> set (vs_remaining_maps s)" and n: "vs_current_action_number s < length (vf_sequence f) - 1"
    and team: "vs_current_team_turn s = Some team"
  obtains res w' where "perform_action self i m team user w = (Inr res, w')"
    and "live self i f first second (vr_session res) w'"
    and "advanced f m (vs_current_team_turn (vr_session res)) s (vr_session res)"
proof -
  let ?n = "vs_current_action_number s"
  let ?turn = "Some (team_at f first second (Suc ?n))"
  from live obtain m0 where run: "running self i f s w" and st: "vs_status s = VetoStatus.InProgress"
    and acts: "length (session_actions i w) = ?n - 1" and first: "vs_first_action_registration_id s = Some first" "first \<noteq> second"
    and m0: "find_row m_id (vs_match_id s) (w_matches w) = Some m0"
      "{m_participant1_registration_id m0, m_participant2_registration_id m0} = {Some first, Some second}"
    by (auto simp: live_def)
  have turn: "determine_next_team s (Some (vf_sequence f ! ?n)) v = (Inr ?turn, v)" if "w_matches v = w_matches w" for v
    using determine_next_team_run [of s v m0 first second "vf_sequence f ! ?n"] m0 first that standard_nth(1) [OF std n]
    by (simp add: team_at_def)
  obtain res w' where res: "record_action_internal self s f (vf_sequence f ! (?n - 1)) m (Some team) (Some user) False None w = (Inr res, w')"
    "recorded self i f s m ?turn res w'" "w_matches w' = w_matches w"
    by (rule record_total [where turn = ?turn, OF run _ m acts turn]) (use n in auto)
  have next_type: "vr_next_action_type res \<noteq> Some VetoActionType.Decider"
    using res(2) standard_nth(2) [OF std n] n by (auto simp: recorded_def)
  have "perform_action self i m team user w = (Inr res, w')"
    using perform_action_run [of i w s m team self f user] run st m team n res(1) next_type
    by (auto simp: running_def sbind_def chain_deciders_stop)
  moreover have "live self i f first second (vr_session res) w'"
    using res(2,3) first m0 n unfolding live_def recorded_def advanced_def Let_def by auto
  moreover have "advanced f m (vs_current_team_turn (vr_session res)) s (vr_session res)"
    using res(2) by (auto simp: recorded_def advanced_def Let_def)
  ultimately show ?thesis by (rule that)
qed

lemma live_last:
  assumes live: "live self i f first second s w" and std: "standard f"
    and m: "m \<in> set (vs_remaining_maps s)" and n: "vs_current_action_number s = length (vf_sequence f) - 1"
    and team: "vs_current_team_turn s = Some team" and d: "filter (\<lambda>x. x \<noteq> m) (vs_remaining_maps s) = d # ds"
  obtains res w' where "perform_action self i m team user w = (Inr res, w')"
    and "vs_status (vr_session res) = VetoStatus.Completed" and "vr_veto_complete res"
    and "find_row vs_id i (w_sessions w') = Some (vr_session res)"
    and "vs_remaining_maps (vr_session res) = filter (\<lambda>x. x \<noteq> d) (d # ds)"
    and "vs_selected_maps (vr_session res) = vs_selected_maps s @
      (if selects_map (fa_action_type (vf_sequence f ! (vs_current_action_number s - 1))) then [m] else []) @ [d]"
proof -
  let ?n = "vs_current_action_number s"
  from live have run: "running self i f s w" and st: "vs_status s = VetoStatus.InProgress"
    and acts: "length (session_actions i w) = ?n - 1" and first: "vs_first_action_registration_id s = Some first"
    by (auto simp: live_def)
  have len: "?n < length (vf_sequence f)" "Suc ?n = length (vf_sequence f)" "vf_sequence f ! ?n = \<lparr>fa_team = 0, fa_action_type = VetoActionType.Decider\<rparr>"
    using n standard_last [OF std] by auto
  have turn: "determine_next_team s (Some (vf_sequence f ! ?n)) v = (Inr (Some first), v)" for v
    using len(3) first by (simp add: determine_next_team_def)
  obtain r1 w1 where r1: "record_action_internal self s f (vf_sequence f ! (?n - 1)) m (Some team) (Some user) False None w = (Inr r1, w1)"
    "recorded self i f s m (Some first) r1 w1" "w_matches w1 = w_matches w"
    by (rule record_total [where turn = "Some first", OF run _ m acts turn]) (use len in auto)
  let ?s1 = "vr_session r1"
  have s1: "running self i f ?s1 w1" "vs_current_action_number ?s1 = Suc ?n" "vs_remaining_maps ?s1 = d # ds"
    "length (session_actions i w1) = ?n"
    using r1(2) d by (auto simp: recorded_def advanced_def Let_def)
  obtain r2 w2 where r2: "record_action_internal self ?s1 f (vf_sequence f ! (vs_current_action_number ?s1 - 1)) d None None True
      (Some ''decider_auto'') w1 = (Inr r2, w2)" "recorded self i f ?s1 d None r2 w2"
    by (rule record_total [where turn = None, OF s1(1)]) (use s1 len in auto)
  have "chain_deciders self i f r1 w1 = (Inr r2, w2)"
    by (rule chain_deciders_step [OF _ _ _ s1(3) r2(1)]) (use r1(2) r2(2) s1 len in \<open>auto simp: recorded_def running_def\<close>)
  then have go: "perform_action self i m team user w = (Inr r2, w2)"
    using perform_action_run [of i w s m team self f user] run st m team len r1(1)
    by (auto simp: running_def sbind_def)
  have sel: "selects_map (fa_action_type (vf_sequence f ! (length (vf_sequence f) - Suc 0)))"
    using standard_last(2) [OF std] by (simp add: selects_map_def)
  show ?thesis
    by (rule that [OF go]) (use r1(2) r2(2) d len sel in \<open>auto simp: recorded_def advanced_def running_def Let_def\<close>)
qed


section \<open>A veto played to its end\<close>

text \<open>Each choice is made by the team whose turn it is.\<close>

fun play :: "VetoService \<Rightarrow> uuid \<Rightarrow> uuid \<Rightarrow> string list \<Rightarrow> VetoSession service" where
  "play self i user [] = get_session i"
| "play self i user (m # ms) = sbind (get_session i) (\<lambda>s.
     sbind (sneed (InvalidState ''No team turn set'') (vs_current_team_turn s)) (\<lambda>team.
     sbind (perform_action self i m team user) (\<lambda>_. play self i user ms)))"

fun picked :: "VetoFormatActionConfig list \<Rightarrow> string list \<Rightarrow> string list" where
  "picked (a # as) (m # ms) = (if selects_map (fa_action_type a) then [m] else []) @ picked as ms"
| "picked _ _ = []"

lemma play_live:
  assumes "live self i f first second s w" and std: "standard f" and "ms \<noteq> []"
    and "length ms = length (vf_sequence f) - vs_current_action_number s"
    and "vs_current_action_number s < length (vf_sequence f)"
    and "distinct ms" and "set ms \<subseteq> set (vs_remaining_maps s)"
    and "filter (\<lambda>x. x \<notin> set ms) (vs_remaining_maps s) = d # ds"
  shows "\<exists>s' w'. play self i user ms w = (Inr s', w') \<and> vs_status s' = VetoStatus.Completed \<and>
    vs_selected_maps s' = vs_selected_maps s @ picked (drop (vs_current_action_number s - 1) (butlast (vf_sequence f))) ms @ [d] \<and>
    vs_remaining_maps s' = filter (\<lambda>x. x \<noteq> d) (d # ds)"
  using assms(1,3-)
proof (induction ms arbitrary: s w)
  case Nil
  then show ?case by simp
next
  case (Cons m ms)
  let ?n = "vs_current_action_number s" and ?acts = "butlast (vf_sequence f)"
  have run: "running self i f s w" using Cons.prems(1) by (simp add: live_def)
  obtain team where team: "vs_current_team_turn s = Some team" using Cons.prems(1) by (auto simp: live_def)
  have n: "0 < ?n" and found: "find_row vs_id i (w_sessions w) = Some s" using run by (auto simp: running_def)
  have "?n - 1 < length ?acts" using n Cons.prems(4) by simp
  then have drop: "drop (?n - 1) ?acts = vf_sequence f ! (?n - 1) # drop ?n ?acts"
    using n Cons.prems(4) Cons_nth_drop_Suc [of "?n - 1" ?acts] by (simp add: nth_butlast)
  have m: "m \<in> set (vs_remaining_maps s)" using Cons.prems(6) by simp
  have start: "play self i user (m # ms) w = sbind (perform_action self i m team user) (\<lambda>_. play self i user ms) w"
    using found team by (simp add: get_session_def veto_find_by_id_def)
  show ?case
  proof (cases "ms = []")
    case True
    then have nl: "?n = length (vf_sequence f) - 1" using Cons.prems(3,4) by simp
    have d: "filter (\<lambda>x. x \<noteq> m) (vs_remaining_maps s) = d # ds" using Cons.prems(7) True by simp
    obtain res w' where res: "perform_action self i m team user w = (Inr res, w')"
      "vs_status (vr_session res) = VetoStatus.Completed"
      "find_row vs_id i (w_sessions w') = Some (vr_session res)"
      "vs_remaining_maps (vr_session res) = filter (\<lambda>x. x \<noteq> d) (d # ds)"
      "vs_selected_maps (vr_session res) = vs_selected_maps s @
        (if selects_map (fa_action_type (vf_sequence f ! (?n - 1))) then [m] else []) @ [d]"
      using live_last [OF Cons.prems(1) std m nl team d] by metis
    have "play self i user (m # ms) w = (Inr (vr_session res), w')"
      unfolding start using res(1,3) True by (simp add: sbind_def get_session_def veto_find_by_id_def)
    then show ?thesis using res True drop by simp
  next
    case False
    then have nl: "?n < length (vf_sequence f) - 1" using Cons.prems(3,4) by (cases ms) auto
    obtain res w' where res: "perform_action self i m team user w = (Inr res, w')"
      "live self i f first second (vr_session res) w'"
      "advanced f m (vs_current_team_turn (vr_session res)) s (vr_session res)"
      by (rule live_step [OF Cons.prems(1) std m nl team])
    let ?s = "vr_session res"
    have s: "vs_current_action_number ?s = Suc ?n" "vs_remaining_maps ?s = filter (\<lambda>x. x \<noteq> m) (vs_remaining_maps s)"
      "vs_selected_maps ?s = vs_selected_maps s @ (if selects_map (fa_action_type (vf_sequence f ! (?n - 1))) then [m] else [])"
      using res(3) by (simp_all add: advanced_def Let_def)
    have rest: "filter (\<lambda>x. x \<notin> set ms) (vs_remaining_maps ?s) = d # ds"
      using Cons.prems(7) by (simp add: s(2) conj_commute)
    have "\<exists>s' w''. play self i user ms w' = (Inr s', w'') \<and> vs_status s' = VetoStatus.Completed \<and>
      vs_selected_maps s' = vs_selected_maps ?s @ picked (drop (vs_current_action_number ?s - 1) ?acts) ms @ [d] \<and>
      vs_remaining_maps s' = filter (\<lambda>x. x \<noteq> d) (d # ds)"
      by (rule Cons.IH [OF res(2) False]) (use Cons.prems s rest nl in auto)
    then obtain s' w'' where s': "play self i user ms w' = (Inr s', w'')" "vs_status s' = VetoStatus.Completed"
      "vs_selected_maps s' = vs_selected_maps ?s @ picked (drop (vs_current_action_number ?s - 1) ?acts) ms @ [d]"
      "vs_remaining_maps s' = filter (\<lambda>x. x \<noteq> d) (d # ds)" by blast
    have "play self i user (m # ms) w = (Inr s', w'')"
      unfolding start using res(1) s'(1) by (simp add: sbind_def)
    with s' s drop show ?thesis by simp
  qed
qed

lemma coin_flip_live:
  assumes inv: "veto_inv self w" and s: "find_row vs_id i (w_sessions w) = Some s"
    and st: "vs_status s = VetoStatus.CoinFlip" "vs_coin_flip_winner_registration_id s = None"
    and f: "get_format self (vs_veto_format_id s) = Inr f" and std: "standard f"
    and m: "find_row m_id (vs_match_id s) (w_matches w) = Some m"
      "m_participant1_registration_id m = Some p1" "m_participant2_registration_id m = Some p2" "p1 \<noteq> p2"
    and win: "winner \<in> {p1, p2}"
  obtains s' w' first second where "record_coin_flip self i winner goes_first w = (Inr s', w')"
    and "live self i f first second s' w'" and "vs_current_action_number s' = 1"
    and "first = (if goes_first then winner else if winner = p1 then p2 else p1)"
    and "vs_remaining_maps s' = vs_map_pool s" and "vs_selected_maps s' = []"
proof -
  let ?other = "if winner = p1 then p2 else p1"
  let ?first = "if goes_first then winner else ?other" and ?second = "if goes_first then ?other else winner"
  let ?u = "no_veto_update\<lparr>uvs_coin_flip_winner_registration_id := Some winner,
    uvs_first_action_registration_id := Some ?first, uvs_current_action_number := Some 1,
    uvs_current_team_turn := Some (Some ?first), uvs_status := Some VetoStatus.InProgress,
    uvs_action_deadline := Some (Some (w_now w + int (vs_timeout_seconds s))), uvs_started_at := Some (w_now w)\<rparr>"
  let ?s = "apply_veto_update ?u (w_now w) s"
  let ?w = "w_sessions_update (modify_row vs_id i (apply_veto_update ?u (w_now w))) w"
  have run: "record_coin_flip self i winner goes_first w = (Inr ?s, ?w)"
    using s st m win veto_update_ok [OF s, of ?u]
    by (auto simp: record_coin_flip_def get_session_def veto_find_by_id_def veto_methods Let_def)
  have "session_ok self (session_actions i w) s" using veto_inv_found [OF inv s] by blast
  then have zero: "session_actions i w = []" "vs_remaining_maps s = vs_map_pool s" "vs_selected_maps s = []"
    using st by (auto simp: session_ok_def Let_def)
  have "veto_inv self ?w" using keepsD [OF record_coin_flip_keeps inv run] .
  moreover have "find_row vs_id i (w_sessions ?w) = Some ?s" using find_session_update [OF s] by simp
  ultimately have "running self i f ?s ?w" using f by (simp add: running_def apply_veto_update_def no_veto_update_def)
  then have "live self i f ?first ?second ?s ?w"
    using m win zero standard_last(3) [OF std]
    by (auto simp: live_def apply_veto_update_def no_veto_update_def session_actions_def team_at_def)
  then show ?thesis
    by (rule that [OF run]) (use zero in \<open>simp_all add: apply_veto_update_def no_veto_update_def\<close>)
qed


section \<open>Properties\<close>

text \<open>
  C7. After any sequence of veto operations from an empty table, the failed ones included, a
  session that has started refines the abstract veto: its remaining and its selected maps are
  those of the decisions it has counted, which are legal for the format; no map is decided
  twice, no banned map is selected, and a completed session has one decision for every action
  of the format and selects as many maps as the format says.
\<close>

theorem veto_session_is_its_log:
  assumes "veto_run self w w'" and "w_sessions w = []" and "w_actions w = []" and "inj (w_uuids w)"
    and "s \<in> set (w_sessions w')" and "0 < vs_current_action_number s"
  shows "\<exists>f ds. get_format self (vs_veto_format_id s) = Inr f \<and> ds = counted s (session_actions (vs_id s) w') \<and>
    spec_legal f (vs_map_pool s) ds \<and>
    vs_remaining_maps s = spec_remaining (vs_map_pool s) ds \<and> vs_selected_maps s = spec_selected ds \<and>
    distinct (vs_selected_maps s) \<and> (\<forall>m. (VetoActionType.Ban, m) \<in> set ds \<longrightarrow> m \<notin> set (vs_selected_maps s)) \<and>
    (vs_status s = VetoStatus.Completed \<longrightarrow> length ds = length (vf_sequence f) \<and>
       length (vs_selected_maps s) = VetoFormatConfig_maps_selected f)"
proof -
  let ?acts = "session_actions (vs_id s) w'"
  have "veto_inv self w'" using veto_run_inv [OF assms(1)] veto_inv_start assms(2-4) by blast
  then have ok: "session_ok self ?acts s" using assms(5) by (simp add: veto_inv_def)
  obtain f where f: "get_format self (vs_veto_format_id s) = Inr f"
    "vs_status s = VetoStatus.Completed \<longrightarrow> vs_current_action_number s = Suc (length (vf_sequence f))"
    "length ?acts = vs_current_action_number s - 1 \<or> length ?acts = vs_current_action_number s"
    "spec_legal f (vs_map_pool s) (map decision_of ?acts)"
    "vs_remaining_maps s = spec_remaining (vs_map_pool s) (counted s ?acts)"
    "vs_selected_maps s = spec_selected (counted s ?acts)"
    using ok assms(6) by (auto simp: session_ok_def Let_def)
  have legal: "spec_legal f (vs_map_pool s) (counted s ?acts)"
    unfolding counted_def by (rule spec_legal_take [OF f(4)])
  have "length (counted s ?acts) = vs_current_action_number s - 1" using f(3) by (auto simp: counted_def)
  then show ?thesis
    using f legal spec_selected_complete [OF legal] spec_selected_distinct [OF legal] spec_banned_not_selected [OF legal]
    by (intro exI [of _ f] exI [of _ "counted s ?acts"]) simp
qed

text \<open>
  C8. A veto of a standard format comes to an end: after the coin flip, for any choice of as many
  different maps of the pool as the teams have actions, made in turn, with a map left over, all
  actions succeed, the decider follows by itself, and the session is completed with the picked
  maps in order and the first left-over map of the pool as the decider.
\<close>

theorem veto_comes_to_an_end:
  assumes "veto_inv self w" and "find_row vs_id i (w_sessions w) = Some s"
    and "vs_status s = VetoStatus.CoinFlip" and "vs_coin_flip_winner_registration_id s = None"
    and "get_format self (vs_veto_format_id s) = Inr f" and "standard f"
    and "find_row m_id (vs_match_id s) (w_matches w) = Some m"
    and "m_participant1_registration_id m = Some p1" and "m_participant2_registration_id m = Some p2" and "p1 \<noteq> p2"
    and "winner \<in> {p1, p2}" and "length ms = length (vf_sequence f) - 1" and "distinct ms" and "set ms \<subseteq> set (vs_map_pool s)"
    and "filter (\<lambda>x. x \<notin> set ms) (vs_map_pool s) = d # ds"
  shows "\<exists>s1 w1 s2 w2. record_coin_flip self i winner goes_first w = (Inr s1, w1) \<and>
    play self i user ms w1 = (Inr s2, w2) \<and> vs_status s2 = VetoStatus.Completed \<and>
    vs_selected_maps s2 = picked (butlast (vf_sequence f)) ms @ [d] \<and>
    vs_remaining_maps s2 = filter (\<lambda>x. x \<noteq> d) ds"
proof -
  obtain s1 w1 first second where flip: "record_coin_flip self i winner goes_first w = (Inr s1, w1)"
    "live self i f first second s1 w1" "vs_current_action_number s1 = 1"
    "vs_remaining_maps s1 = vs_map_pool s" "vs_selected_maps s1 = []"
    by (rule coin_flip_live [OF assms(1-11)])
  have len: "1 < length (vf_sequence f)" using standard_last(1) [OF assms(6)] .
  then have "ms \<noteq> []" using assms(12) by auto
  then show ?thesis
    using play_live [OF flip(2) assms(6), of ms d ds user] flip assms(12-15) len by auto
qed

text \<open>
  C25. A ban or pick is accepted only from the team whose turn it is, in a session in progress, and
  for a map that is still in the pool; anything else is an error and changes nothing.
\<close>

theorem veto_action_only_in_turn:
  "(\<forall>r w'. perform_action self i m team user w = (Inr r, w') \<longrightarrow>
      (\<exists>s. find_row vs_id i (w_sessions w) = Some s \<and> vs_status s = VetoStatus.InProgress \<and>
         m \<in> set (vs_remaining_maps s) \<and> vs_current_team_turn s = Some team)) \<and>
   (\<forall>s. find_row vs_id i (w_sessions w) = Some s \<longrightarrow>
      \<not> (vs_status s = VetoStatus.InProgress \<and> m \<in> set (vs_remaining_maps s) \<and> vs_current_team_turn s = Some team) \<longrightarrow>
      (\<exists>e. perform_action self i m team user w = (Inl e, w)))"
proof -
  have refused: "\<exists>e. perform_action self i m team user w = (Inl e, w)"
    if "find_row vs_id i (w_sessions w) = Some s"
      "\<not> (vs_status s = VetoStatus.InProgress \<and> m \<in> set (vs_remaining_maps s) \<and> vs_current_team_turn s = Some team)" for s
    using that by (cases "vs_current_team_turn s")
      (auto simp: perform_action_def get_session_def veto_find_by_id_def veto_methods sbind_def)
  have "\<exists>e. perform_action self i m team user w = (Inl e, w)" if "find_row vs_id i (w_sessions w) = None"
    using that by (simp add: perform_action_def get_session_def veto_find_by_id_def sbind_def)
  with refused show ?thesis by (metis Inl_Inr_False not_None_eq prod.inject)
qed

text \<open>
  In picker-choice mode the picker is refused, and every other registration may choose the
  side of a pick that has none; in the other two modes nobody may.
\<close>

theorem side_is_chosen_by_the_opponent:
  assumes "find_row vs_id i (w_sessions w) = Some s" and "action_at i n w = Some a"
    and "va_action_type a = VetoActionType.Pick" and "va_side_selection a = None"
    and "va_performed_by_registration_id a = Some picker" and "distinct (map va_id (w_actions w))"
  shows "(if vs_side_selection_mode s = SideSelectionMode.PickerChoice \<and> team \<noteq> picker
     then \<exists>w'. select_side i n side team user w = (Inr (a\<lparr>va_side_selection := Some side,
         va_side_selected_by_registration_id := Some team, va_side_selected_at := Some (w_now w)\<rparr>), w')
     else \<exists>e. select_side i n side team user w = (Inl e, w))"
proof -
  have "a \<in> set (w_actions w)" using assms(2) by (auto simp: action_at_def find_Some_iff)
  then have a: "find_row va_id (va_id a) (w_actions w) = Some a"
    using find_row_Some_iff [of va_id, OF assms(6)] by blast
  have found: "get_session i w = (Inr s, w)" using assms(1) by (simp add: get_session_def veto_find_by_id_def)
  show ?thesis
    using assms(2-5) a found
    by (cases "vs_side_selection_mode s")
       (auto simp: select_side_def action_find_by_session_and_number_def veto_methods
         action_update_side_selection_def veto_action_table.update_found)
qed



section \<open>Witnesses\<close>

definition example_veto :: VetoService where
  "example_veto = \<lparr>format_provider = None, side_provider = None, default_timeout_seconds = 30\<rparr>"

definition example_pool :: "string list" where
  "example_pool = [''ancient'', ''anubis'', ''dust2'', ''inferno'', ''mirage'', ''nuke'', ''train'']"

definition example_flip :: "VetoSession service" where
  "example_flip = sbind (create_session example_veto ''m1'' VetoFormatConfig_bo3 example_pool None SideSelectionMode.PickerChoice)
     (\<lambda>s. start_session example_veto (vs_id s))"

text \<open>A session waiting for its coin flip, one after its first ban, and one cancelled after it.\<close>

definition flip_world :: world where
  "flip_world = snd (example_flip example_world)"

definition banned_world :: world where
  "banned_world = snd (perform_action example_veto ''0'' ''nuke'' ''r1'' ''u'' (snd (record_coin_flip example_veto ''0'' ''r1'' True flip_world)))"

lemma inj_show_nat: "inj show_nat"
  by (simp add: inj_def)

lemma flip_run: "veto_run example_veto example_world flip_world"
proof -
  have "case example_flip example_world of (Inl _, _) \<Rightarrow> False | (Inr _, _) \<Rightarrow> True" by code_simp
  then obtain s w where r: "example_flip example_world = (Inr s, w)" by (auto split: prod.splits sum.splits)
  then obtain s0 w0 where "create_session example_veto ''m1'' VetoFormatConfig_bo3 example_pool None SideSelectionMode.PickerChoice example_world = (Inr s0, w0)"
    "start_session example_veto (vs_id s0) w0 = (Inr s, w)"
    unfolding example_flip_def by (rule sbind_okE)
  then show ?thesis
    using veto_run.Step [OF veto_run.Step [OF veto_run.Done veto_step.Create] veto_step.Start] r
    unfolding flip_world_def by (metis snd_conv)
qed

lemma banned_run: "veto_run example_veto example_world banned_world"
  unfolding banned_world_def
  by (rule veto_run.Step [OF veto_run.Step [OF flip_run veto_step.Flip] veto_step.Act])

lemma example_empty: "w_sessions example_world = []" "w_actions example_world = []" "inj (w_uuids example_world)"
  by (simp_all add: example_world_def empty_world_def inj_show_nat)

lemma banned_facts:
  "case w_sessions banned_world of [s] \<Rightarrow> vs_current_action_number s = 2 \<and> vs_id s = ''0'' \<and>
     vs_current_team_turn s = Some ''r2'' \<and> vs_remaining_maps s = filter (\<lambda>m. m \<noteq> ''nuke'') example_pool | _ \<Rightarrow> False"
  by code_simp

theorem veto_session_is_its_log_witness:
  "\<exists>s f ds. veto_run example_veto example_world banned_world \<and> s \<in> set (w_sessions banned_world) \<and>
     get_format example_veto (vs_veto_format_id s) = Inr f \<and>
     vs_remaining_maps s = spec_remaining (vs_map_pool s) ds \<and> vs_remaining_maps s = filter (\<lambda>m. m \<noteq> ''nuke'') example_pool"
proof -
  obtain s where s: "w_sessions banned_world = [s]" "vs_current_action_number s = 2"
    "vs_remaining_maps s = filter (\<lambda>m. m \<noteq> ''nuke'') example_pool"
    using banned_facts by (auto split: list.splits)
  then show ?thesis
    using veto_session_is_its_log [OF banned_run example_empty, of s] banned_run by auto
qed


lemma flip_facts:
  "case w_sessions flip_world of [s] \<Rightarrow> vs_id s = ''0'' \<and> vs_status s = VetoStatus.CoinFlip \<and>
     vs_coin_flip_winner_registration_id s = None \<and> vs_veto_format_id s = ''bo3_standard'' \<and> vs_match_id s = ''m1'' \<and>
     vs_map_pool s = example_pool | _ \<Rightarrow> False"
  "case w_matches flip_world of [m] \<Rightarrow> m_id m = ''m1'' \<and> m_participant1_registration_id m = Some ''r1'' \<and>
     m_participant2_registration_id m = Some ''r2'' | _ \<Rightarrow> False"
  by code_simp+

theorem veto_comes_to_an_end_witness:
  "\<exists>s1 w1 s2 w2. record_coin_flip example_veto ''0'' ''r2'' True flip_world = (Inr s1, w1) \<and>
     play example_veto ''0'' ''u'' [''nuke'', ''train'', ''mirage'', ''dust2'', ''inferno'', ''anubis''] w1 = (Inr s2, w2) \<and>
     vs_status s2 = VetoStatus.Completed \<and> vs_selected_maps s2 = [''mirage'', ''dust2'', ''ancient''] \<and> vs_remaining_maps s2 = []"
proof -
  obtain s where s: "w_sessions flip_world = [s]" "vs_id s = ''0''" "vs_status s = VetoStatus.CoinFlip"
    "vs_coin_flip_winner_registration_id s = None" "vs_veto_format_id s = ''bo3_standard''" "vs_match_id s = ''m1''"
    "vs_map_pool s = example_pool"
    using flip_facts(1) by (auto split: list.splits)
  obtain m where m: "w_matches flip_world = [m]" "m_id m = ''m1''" "m_participant1_registration_id m = Some ''r1''"
    "m_participant2_registration_id m = Some ''r2''"
    using flip_facts(2) by (auto split: list.splits)
  have inv: "veto_inv example_veto flip_world"
    by (rule veto_run_inv [OF flip_run]) (rule veto_inv_start [OF example_empty])
  have f: "get_format example_veto (vs_veto_format_id s) = Inr VetoFormatConfig_bo3"
    by (simp add: s(5) get_format_def example_veto_def VetoFormatConfig_builtin_def)
  have "\<exists>s1 w1 s2 w2. record_coin_flip example_veto ''0'' ''r2'' True flip_world = (Inr s1, w1) \<and>
     play example_veto ''0'' ''u'' [''nuke'', ''train'', ''mirage'', ''dust2'', ''inferno'', ''anubis''] w1 = (Inr s2, w2) \<and>
     vs_status s2 = VetoStatus.Completed \<and>
     vs_selected_maps s2 = picked (butlast (vf_sequence VetoFormatConfig_bo3))
       [''nuke'', ''train'', ''mirage'', ''dust2'', ''inferno'', ''anubis''] @ [''ancient''] \<and>
     vs_remaining_maps s2 = filter (\<lambda>x. x \<noteq> ''ancient'') []"
    by (rule veto_comes_to_an_end [OF inv _ s(3,4) f standard_builtin(2) _ m(3,4)])
       (simp_all add: s m find_row_def example_pool_def VetoFormatConfig_bo3_def)
  then show ?thesis by (simp add: VetoFormatConfig_bo3_def selects_map_def)
qed

theorem veto_action_only_in_turn_witness:
  "\<exists>e. perform_action example_veto ''0'' ''dust2'' ''r1'' ''u'' banned_world = (Inl e, banned_world)"
proof -
  obtain s where s: "w_sessions banned_world = [s]" "vs_id s = ''0''" "vs_current_team_turn s = Some ''r2''"
    using banned_facts by (auto split: list.splits)
  then have "find_row vs_id ''0'' (w_sessions banned_world) = Some s" by (simp add: find_row_def)
  then show ?thesis
    using veto_action_only_in_turn [of example_veto "''0''" "''dust2''" "''r1''" "''u''" banned_world] s(3) by auto
qed

text \<open>The session of \<open>banned_world\<close> with the pick of the second team stored, its side open.\<close>

definition picked_world :: world where
  "picked_world = snd (play example_veto ''0'' ''u'' [''train'', ''mirage''] banned_world)"

lemma picked_facts:
  "case w_sessions picked_world of [s] \<Rightarrow> vs_id s = ''0'' \<and> vs_side_selection_mode s = SideSelectionMode.PickerChoice | _ \<Rightarrow> False"
  "case action_at ''0'' 3 picked_world of Some a \<Rightarrow> va_action_type a = VetoActionType.Pick \<and> va_side_selection a = None \<and>
     va_performed_by_registration_id a = Some ''r1'' | None \<Rightarrow> False"
  "distinct (map va_id (w_actions picked_world))"
  by code_simp+

theorem side_is_chosen_by_the_opponent_witness:
  "\<exists>a w'. select_side ''0'' 3 ''ct'' ''r2'' ''u'' picked_world = (Inr a, w') \<and> va_side_selection a = Some ''ct''"
proof -
  obtain s where s: "w_sessions picked_world = [s]" "vs_id s = ''0''" "vs_side_selection_mode s = SideSelectionMode.PickerChoice"
    using picked_facts(1) by (auto split: list.splits)
  obtain a where a: "action_at ''0'' 3 picked_world = Some a" "va_action_type a = VetoActionType.Pick"
    "va_side_selection a = None" "va_performed_by_registration_id a = Some ''r1''"
    using picked_facts(2) by (auto split: option.splits)
  have "find_row vs_id ''0'' (w_sessions picked_world) = Some s" using s by (simp add: find_row_def)
  from side_is_chosen_by_the_opponent [OF this a picked_facts(3), of "''r2''" "''ct''" "''u''"] s(3)
  show ?thesis by auto
qed

text \<open>The match of \<open>banned_world\<close> is cancelled, then the deadline of its session passes.\<close>

definition cancelled_world :: world where
  "cancelled_world = (snd (cancel_session_for_match ''m1'' banned_world))\<lparr>w_now := 1000\<rparr>"

lemma cancelled_run: "veto_run example_veto example_world cancelled_world"
  unfolding cancelled_world_def
  by (rule veto_run.Step [OF veto_run.Step [OF banned_run veto_step.Cancel] veto_step.Clock])

lemma cancelled_facts:
  "case w_sessions cancelled_world of [s] \<Rightarrow> vs_id s = ''0'' \<and> vs_status s = VetoStatus.Cancelled | _ \<Rightarrow> False"
  "case process_timeout example_veto ''0'' cancelled_world of (Inl _, _) \<Rightarrow> False | (Inr _, _) \<Rightarrow> True"
  by code_simp+


end
