(* ===== verification/StageRepo.thy ===== *)
theory StageRepo
  imports MatchRepo
begin

text \<open>
  The tables of stages and brackets (\<open>portal-db/src/adapters/tournament/stage.rs\<close> and
  \<open>bracket.rs\<close>). At most one stage of a tournament has a given order; closing a stage and
  opening the next one is one transaction.
\<close>

section \<open>Stages\<close>

definition stage_find_by_id :: "uuid \<Rightarrow> TournamentStage option service" where
  "stage_find_by_id i = sget (\<lambda>w. find_row st_id i (w_stages w))"

definition stage_row :: "uuid \<Rightarrow> datetime \<Rightarrow> CreateTournamentStage \<Rightarrow> TournamentStage" where
  "stage_row i t c = \<lparr>st_id = i, st_tournament_id = cs_tournament_id c, st_name = cs_name c,
     st_stage_order = cs_stage_order c, st_format = cs_format c, st_format_settings = cs_format_settings c,
     st_advancement_count = cs_advancement_count c, st_advancement_rule = cs_advancement_rule c,
     st_match_format = cs_match_format c, st_map_veto_format = cs_map_veto_format c,
     st_status = StageStatus.Pending, st_starts_at = cs_starts_at c, st_ends_at = cs_ends_at c,
     st_created_at = t, st_updated_at = t\<rparr>"

definition stage_order_taken :: "CreateTournamentStage \<Rightarrow> world \<Rightarrow> bool" where
  "stage_order_taken c w \<longleftrightarrow> (\<exists>x \<in> set (w_stages w).
     st_tournament_id x = cs_tournament_id c \<and> st_stage_order x = cs_stage_order c)"

definition stage_create :: "CreateTournamentStage \<Rightarrow> TournamentStage service" where
  "stage_create c = sbind new_uuid (\<lambda>i. sbind now (\<lambda>t. \<lambda>w.
     if stage_order_taken c w
     then (Inl (db_error (UniqueViolation ''tournament_stages_unique_order'') w), w)
     else insert_returning w_stages_update (stage_row i t c) w))"

definition stage_set :: "uuid \<Rightarrow> (datetime \<Rightarrow> TournamentStage \<Rightarrow> TournamentStage) \<Rightarrow> TournamentStage service" where
  "stage_set i f = sbind now (\<lambda>t.
     update_returning w_stages w_stages_update st_id (db_error RowNotFound) i (f t))"

definition stage_update :: "uuid \<Rightarrow> UpdateTournamentStage \<Rightarrow> TournamentStage service" where
  "stage_update i u = stage_set i (\<lambda>t s. s\<lparr>
     st_name := or_old (us_name u) (st_name s),
     st_format_settings := or_old (us_format_settings u) (st_format_settings s),
     st_advancement_count := coalesce (us_advancement_count u) (st_advancement_count s),
     st_advancement_rule := or_old (us_advancement_rule u) (st_advancement_rule s),
     st_match_format := coalesce (us_match_format u) (st_match_format s),
     st_map_veto_format := coalesce (us_map_veto_format u) (st_map_veto_format s),
     st_starts_at := coalesce (us_starts_at u) (st_starts_at s),
     st_ends_at := coalesce (us_ends_at u) (st_ends_at s),
     st_updated_at := t\<rparr>)"

definition stage_update_status :: "uuid \<Rightarrow> StageStatus \<Rightarrow> TournamentStage service" where
  "stage_update_status i status = stage_set i (\<lambda>t s. s\<lparr>st_status := status, st_updated_at := t\<rparr>)"

definition stage_transition_stages :: "uuid \<Rightarrow> StageStatus \<Rightarrow> uuid \<Rightarrow> StageStatus \<Rightarrow>
    (TournamentStage \<times> TournamentStage) service" where
  "stage_transition_stages from_stage_id from_status to_stage_id to_status = transaction (
     sbind (stage_update_status from_stage_id from_status) (\<lambda>from_row.
     sbind (stage_update_status to_stage_id to_status) (\<lambda>to_row.
     sret (from_row, to_row))))"

definition stage_list_by_tournament :: "uuid \<Rightarrow> TournamentStage list service" where
  "stage_list_by_tournament t = sget (\<lambda>w.
     sort_by (\<lambda>x y. st_stage_order x \<le> st_stage_order y) (filter (\<lambda>s. st_tournament_id s = t) (w_stages w)))"

definition stage_find_next_stage :: "uuid \<Rightarrow> int \<Rightarrow> TournamentStage option service" where
  "stage_find_next_stage t current_order = sget (\<lambda>w. list_get
     (sort_by (\<lambda>x y. st_stage_order x \<le> st_stage_order y)
       (filter (\<lambda>s. st_tournament_id s = t \<and> st_stage_order s > current_order) (w_stages w))) 0)"

definition stage_delete :: "uuid \<Rightarrow> unit service" where
  "stage_delete i = smodify (w_stages_update (filter (\<lambda>s. st_id s \<noteq> i)))"

section \<open>Brackets\<close>

definition bracket_find_by_id :: "uuid \<Rightarrow> TournamentBracket option service" where
  "bracket_find_by_id i = sget (\<lambda>w. find_row b_id i (w_brackets w))"

definition bracket_row :: "uuid \<Rightarrow> datetime \<Rightarrow> CreateTournamentBracket \<Rightarrow> TournamentBracket" where
  "bracket_row i t c = \<lparr>b_id = i, b_stage_id = cb_stage_id c, b_tournament_id = cb_tournament_id c,
     b_name = cb_name c, b_bracket_type = cb_bracket_type c, b_total_rounds = cb_total_rounds c,
     b_current_round = 1, b_group_number = cb_group_number c, b_status = BracketStatus.Pending,
     b_created_at = t, b_updated_at = t\<rparr>"

definition bracket_create :: "CreateTournamentBracket \<Rightarrow> TournamentBracket service" where
  "bracket_create c = sbind new_uuid (\<lambda>i. sbind now (\<lambda>t. insert_returning w_brackets_update (bracket_row i t c)))"

definition bracket_set :: "uuid \<Rightarrow> (datetime \<Rightarrow> TournamentBracket \<Rightarrow> TournamentBracket) \<Rightarrow> TournamentBracket service" where
  "bracket_set i f = sbind now (\<lambda>t.
     update_returning w_brackets w_brackets_update b_id (db_error RowNotFound) i (f t))"

definition bracket_update :: "uuid \<Rightarrow> UpdateTournamentBracket \<Rightarrow> TournamentBracket service" where
  "bracket_update i u = bracket_set i (\<lambda>t b. b\<lparr>
     b_name := or_old (ub_name u) (b_name b),
     b_total_rounds := or_old (ub_total_rounds u) (b_total_rounds b),
     b_current_round := or_old (ub_current_round u) (b_current_round b),
     b_updated_at := t\<rparr>)"

definition bracket_update_status :: "uuid \<Rightarrow> BracketStatus \<Rightarrow> TournamentBracket service" where
  "bracket_update_status i status = bracket_set i (\<lambda>t b. b\<lparr>b_status := status, b_updated_at := t\<rparr>)"

definition bracket_advance_round :: "uuid \<Rightarrow> TournamentBracket service" where
  "bracket_advance_round i = bracket_set i (\<lambda>t b. b\<lparr>b_current_round := b_current_round b + 1, b_updated_at := t\<rparr>)"

text \<open>\<open>ORDER BY group_number ASC NULLS FIRST, name ASC\<close>.\<close>

definition group_le :: "(string \<Rightarrow> string \<Rightarrow> bool) \<Rightarrow> TournamentBracket \<Rightarrow> TournamentBracket \<Rightarrow> bool" where
  "group_le text_le = lex_by (\<lambda>x y. nulls_first (\<le>) (b_group_number x) (b_group_number y))
     (\<lambda>x y. text_le (b_name x) (b_name y))"

definition bracket_list_by_stage :: "uuid \<Rightarrow> TournamentBracket list service" where
  "bracket_list_by_stage stage_id = sget (\<lambda>w.
     sort_by (group_le (w_text_le w)) (filter (\<lambda>b. b_stage_id b = stage_id) (w_brackets w)))"

definition bracket_list_by_tournament :: "uuid \<Rightarrow> TournamentBracket list service" where
  "bracket_list_by_tournament t = sget (\<lambda>w.
     sort_by (group_le (w_text_le w)) (filter (\<lambda>b. b_tournament_id b = t) (w_brackets w)))"

definition bracket_delete :: "uuid \<Rightarrow> unit service" where
  "bracket_delete i = smodify (w_brackets_update (filter (\<lambda>b. b_id b \<noteq> i)))"

section \<open>Laws\<close>

lemma stage_find_by_id_run [simp, prog_simps]: "stage_find_by_id i w = (Inr (find_row st_id i (w_stages w)), w)"
  by (simp add: stage_find_by_id_def)

lemma bracket_find_by_id_run [simp, prog_simps]: "bracket_find_by_id i w = (Inr (find_row b_id i (w_brackets w)), w)"
  by (simp add: bracket_find_by_id_def)

text \<open>A transition of stages that fails leaves every stage as it was.\<close>

lemma stage_transition_atomic:
  assumes "stage_transition_stages a sa b sb w = (Inl e, w')"
  shows "w_stages w' = w_stages w"
  using assms by (auto simp: stage_transition_stages_def transaction_def split: prod.splits sum.splits)

end
