(* ===== verification/TournamentRepo.thy ===== *)
theory TournamentRepo
  imports MatchRepo
begin

text \<open>
  The tournament table (\<open>portal-db/src/adapters/tournament/tournament.rs\<close>) with the checks of
  its migration: unique slugs, the participant bounds and the order of the dates. The lists
  are ordered as the statements say; a page is \<open>LIMIT\<close> rows from \<open>OFFSET\<close> on, with the count
  of all rows. Leagues are outside the model: their archived ids and their seasons are
  parameters of the operations that look at them.
\<close>

section \<open>Commands\<close>

record CreateTournament =
  ct_game_id :: uuid
  ct_league_id :: "uuid option"
  ct_season_id :: "uuid option"
  ct_name :: string
  ct_slug :: string
  ct_description :: "string option"
  ct_format :: TournamentFormat
  ct_format_settings :: json
  ct_participant_type :: TournamentParticipantType
  ct_kind :: TournamentKind
  ct_team_size :: "int option"
  ct_min_participants :: int
  ct_max_participants :: int
  ct_registration_type :: RegistrationType
  ct_registration_start :: "datetime option"
  ct_registration_end :: "datetime option"
  ct_check_in_required :: bool
  ct_check_in_start :: "datetime option"
  ct_check_in_end :: "datetime option"
  ct_scheduling_mode :: SchedulingMode
  ct_starts_at :: "datetime option"
  ct_default_match_format :: MatchFormat
  ct_default_map_veto_format :: "string option"
  ct_withdrawal_policy :: WithdrawalPolicy
  ct_rules_url :: "string option"
  ct_settings :: json
  ct_created_by :: uuid

record UpdateTournament =
  ut_name :: "string option"
  ut_slug :: "string option"
  ut_description :: "string option"
  ut_format_settings :: "json option"
  ut_min_participants :: "int option"
  ut_max_participants :: "int option"
  ut_registration_start :: "datetime option"
  ut_registration_end :: "datetime option"
  ut_check_in_required :: "bool option"
  ut_check_in_start :: "datetime option"
  ut_check_in_end :: "datetime option"
  ut_starts_at :: "datetime option"
  ut_ends_at :: "datetime option"
  ut_timezone_hint :: "string option"
  ut_default_match_format :: "MatchFormat option"
  ut_default_map_veto_format :: "string option"
  ut_prize_pool :: "json option"
  ut_rules_url :: "string option"
  ut_settings :: "json option"
  ut_withdrawal_policy :: "WithdrawalPolicy option"

record TournamentFilters =
  tf_include_archived :: bool
  tf_game_id :: "uuid option"
  tf_league_id :: "uuid option"
  tf_season_id :: "uuid option"
  tf_status :: "TournamentStatus option"
  tf_format :: "TournamentFormat option"
  tf_participant_type :: "TournamentParticipantType option"
  tf_search :: "string option"
  tf_upcoming :: "bool option"
  tf_active :: "bool option"

section \<open>Constraints of the table\<close>

definition participants_check :: "Tournament \<Rightarrow> bool" where
  "participants_check t \<longleftrightarrow> t_min_participants t \<ge> 2 \<and> t_max_participants t \<ge> t_min_participants t"

definition dates_check :: "Tournament \<Rightarrow> bool" where
  "dates_check t \<longleftrightarrow>
     (case (t_registration_start t, t_registration_end t) of (Some a, Some b) \<Rightarrow> a < b | _ \<Rightarrow> True) \<and>
     (case (t_registration_end t, t_starts_at t) of (Some a, Some b) \<Rightarrow> a \<le> b | _ \<Rightarrow> True)"

definition tournament_violation :: "Tournament list \<Rightarrow> Tournament \<Rightarrow> sql_error option" where
  "tournament_violation others t =
     (if \<not> participants_check t then Some (CheckViolation ''tournaments_check_participants'')
      else if \<not> dates_check t then Some (CheckViolation ''tournaments_check_dates'')
      else if t_slug t \<in> t_slug ` set others then Some (UniqueViolation ''tournaments_slug_unique'')
      else None)"

text \<open>An \<open>UPDATE\<close> of one row that the constraints may refuse.\<close>

definition tournament_write :: "(world \<Rightarrow> DomainError) \<Rightarrow> uuid \<Rightarrow> (datetime \<Rightarrow> Tournament \<Rightarrow> Tournament) \<Rightarrow> Tournament service" where
  "tournament_write missing i f = (\<lambda>w. case find_row t_id i (w_tournaments w) of
     None \<Rightarrow> (Inl (missing w), w)
   | Some r \<Rightarrow> (case tournament_violation (filter (\<lambda>t. t_id t \<noteq> i) (w_tournaments w)) (f (w_now w) r) of
       Some e \<Rightarrow> (Inl (db_error e w), w)
     | None \<Rightarrow> (Inr (f (w_now w) r), w_tournaments_update (modify_row t_id i (f (w_now w))) w)))"

definition tournament_set :: "uuid \<Rightarrow> (datetime \<Rightarrow> Tournament \<Rightarrow> Tournament) \<Rightarrow> Tournament service" where
  "tournament_set = tournament_write (db_error RowNotFound)"

section \<open>Rows\<close>

definition tournament_find_by_id :: "uuid \<Rightarrow> Tournament option service" where
  "tournament_find_by_id i = sget (\<lambda>w. find_row t_id i (w_tournaments w))"

definition tournament_find_by_slug :: "string \<Rightarrow> Tournament option service" where
  "tournament_find_by_slug slug = sget (\<lambda>w. find (\<lambda>t. t_slug t = slug) (w_tournaments w))"

definition tournament_row :: "uuid \<Rightarrow> datetime \<Rightarrow> CreateTournament \<Rightarrow> Tournament" where
  "tournament_row i t c = \<lparr>t_id = i, t_game_id = ct_game_id c, t_league_id = ct_league_id c, t_season_id = ct_season_id c,
     t_name = ct_name c, t_slug = ct_slug c, t_description = ct_description c, t_logo_url = None,
     t_banner_url = None, t_format = ct_format c, t_format_settings = ct_format_settings c,
     t_participant_type = ct_participant_type c, t_kind = ct_kind c, t_team_size = ct_team_size c,
     t_min_participants = ct_min_participants c, t_max_participants = ct_max_participants c,
     t_registration_type = ct_registration_type c, t_registration_start = ct_registration_start c,
     t_registration_end = ct_registration_end c, t_check_in_start = ct_check_in_start c,
     t_check_in_end = ct_check_in_end c, t_check_in_required = ct_check_in_required c,
     t_scheduling_mode = ct_scheduling_mode c, t_starts_at = ct_starts_at c, t_ends_at = None,
     t_timezone_hint = None, t_default_match_format = ct_default_match_format c,
     t_default_map_veto_format = ct_default_map_veto_format c, t_prize_pool = None,
     t_rules_url = ct_rules_url c, t_settings = ct_settings c, t_withdrawal_policy = ct_withdrawal_policy c,
     t_status = TournamentStatus.Draft, t_archived_at = None, t_archived_by = None,
     t_created_by = ct_created_by c, t_organization_id = None, t_created_at = t, t_updated_at = t,
     t_published_at = None, t_started_at = None, t_completed_at = None\<rparr>"

definition tournament_create :: "CreateTournament \<Rightarrow> Tournament service" where
  "tournament_create c = sbind new_uuid (\<lambda>i. sbind now (\<lambda>t. \<lambda>w.
     case tournament_violation (w_tournaments w) (tournament_row i t c) of
       Some e \<Rightarrow> (Inl (db_error e w), w)
     | None \<Rightarrow> insert_returning w_tournaments_update (tournament_row i t c) w))"

definition tournament_update :: "uuid \<Rightarrow> UpdateTournament \<Rightarrow> Tournament service" where
  "tournament_update i u = tournament_set i (\<lambda>t x. x\<lparr>t_name := or_old (ut_name u) (t_name x), t_slug := or_old (ut_slug u) (t_slug x),
     t_description := coalesce (ut_description u) (t_description x),
     t_format_settings := or_old (ut_format_settings u) (t_format_settings x),
     t_min_participants := or_old (ut_min_participants u) (t_min_participants x),
     t_max_participants := or_old (ut_max_participants u) (t_max_participants x),
     t_registration_start := coalesce (ut_registration_start u) (t_registration_start x),
     t_registration_end := coalesce (ut_registration_end u) (t_registration_end x),
     t_check_in_required := or_old (ut_check_in_required u) (t_check_in_required x),
     t_check_in_start := coalesce (ut_check_in_start u) (t_check_in_start x),
     t_check_in_end := coalesce (ut_check_in_end u) (t_check_in_end x),
     t_starts_at := coalesce (ut_starts_at u) (t_starts_at x),
     t_ends_at := coalesce (ut_ends_at u) (t_ends_at x),
     t_timezone_hint := coalesce (ut_timezone_hint u) (t_timezone_hint x),
     t_default_match_format := or_old (ut_default_match_format u) (t_default_match_format x),
     t_default_map_veto_format := coalesce (ut_default_map_veto_format u) (t_default_map_veto_format x),
     t_prize_pool := coalesce (ut_prize_pool u) (t_prize_pool x),
     t_rules_url := coalesce (ut_rules_url u) (t_rules_url x),
     t_settings := or_old (ut_settings u) (t_settings x),
     t_withdrawal_policy := or_old (ut_withdrawal_policy u) (t_withdrawal_policy x), t_updated_at := t\<rparr>)"

definition tournament_update_status :: "uuid \<Rightarrow> TournamentStatus \<Rightarrow> Tournament service" where
  "tournament_update_status i status = tournament_set i (\<lambda>t x. x\<lparr>t_status := status, t_updated_at := t\<rparr>)"

definition tournament_update_logo :: "uuid \<Rightarrow> string option \<Rightarrow> Tournament service" where
  "tournament_update_logo i logo_url = tournament_set i (\<lambda>t x. x\<lparr>t_logo_url := logo_url, t_updated_at := t\<rparr>)"

definition tournament_update_banner :: "uuid \<Rightarrow> string option \<Rightarrow> Tournament service" where
  "tournament_update_banner i banner_url = tournament_set i (\<lambda>t x. x\<lparr>t_banner_url := banner_url, t_updated_at := t\<rparr>)"

text \<open>Starting a tournament fills an absent start time.\<close>

definition started :: "datetime \<Rightarrow> Tournament \<Rightarrow> Tournament" where
  "started t x = x\<lparr>t_started_at := Some t, t_starts_at := coalesce (t_starts_at x) (Some t),
     t_status := TournamentStatus.InProgress, t_updated_at := t\<rparr>"

text \<open>Compare and set: only the caller that finds the row before the start gets it back.\<close>

definition tournament_try_claim_start :: "uuid \<Rightarrow> Tournament option service" where
  "tournament_try_claim_start i = (\<lambda>w. case find_row t_id i (w_tournaments w) of
     None \<Rightarrow> (Inr None, w)
   | Some r \<Rightarrow>
       if t_status r \<in> {TournamentStatus.Scheduled, TournamentStatus.Registration}
       then sbind (tournament_set i started) (\<lambda>x. sret (Some x)) w
       else (Inr None, w))"

definition tournament_mark_started :: "uuid \<Rightarrow> Tournament service" where
  "tournament_mark_started i = tournament_set i started"

definition tournament_mark_completed :: "uuid \<Rightarrow> Tournament service" where
  "tournament_mark_completed i = tournament_set i (\<lambda>t x. x\<lparr>t_completed_at := Some t,
     t_status := TournamentStatus.Completed, t_updated_at := t\<rparr>)"

definition tournament_mark_published :: "uuid \<Rightarrow> Tournament service" where
  "tournament_mark_published i = tournament_set i (\<lambda>t x. x\<lparr>t_published_at := Some t,
     t_status := TournamentStatus.Published, t_updated_at := t\<rparr>)"

text \<open>Only a draft can be deleted; what hangs on a tournament is not modelled to go with it.\<close>

definition tournament_delete :: "uuid \<Rightarrow> unit service" where
  "tournament_delete i = smodify (w_tournaments_update
     (filter (\<lambda>t. \<not> (t_id t = i \<and> t_status t = TournamentStatus.Draft))))"

definition tournament_slug_exists :: "string \<Rightarrow> bool service" where
  "tournament_slug_exists slug = sget (\<lambda>w. length (filter (\<lambda>t. t_slug t = slug) (w_tournaments w)) > 0)"

text \<open>The registrations that hold a place: neither withdrawn nor disqualified.\<close>

definition holds_place :: "TournamentRegistration \<Rightarrow> bool" where
  "holds_place r \<longleftrightarrow> r_status r \<notin> {TournamentRegistrationStatus.Withdrawn, TournamentRegistrationStatus.Disqualified}"

definition tournament_count_registrations :: "uuid \<Rightarrow> nat service" where
  "tournament_count_registrations i = sget (\<lambda>w.
     length (filter (\<lambda>r. r_tournament_id r = i \<and> holds_place r) (w_registrations w)))"

definition tournament_set_league_and_season :: "(uuid \<Rightarrow> uuid \<Rightarrow> bool) \<Rightarrow> uuid \<Rightarrow> uuid option \<Rightarrow> uuid option \<Rightarrow>
    Tournament service" where
  "tournament_set_league_and_season season_of_league i league_id season_id =
     (if (case (league_id, season_id) of (Some league, Some season) \<Rightarrow> \<not> season_of_league season league | _ \<Rightarrow> False)
      then sfail (InvalidState ''target season belongs to a different league'')
      else tournament_write (\<lambda>_. TournamentNotFound i) i (\<lambda>t x. x\<lparr>t_league_id := league_id,
        t_season_id := season_id, t_updated_at := t\<rparr>))"

definition tournament_set_archived :: "uuid \<Rightarrow> uuid option \<Rightarrow> Tournament service" where
  "tournament_set_archived i archived_by = tournament_write (\<lambda>_. TournamentNotFound i) i (\<lambda>t x. x\<lparr>
     t_archived_at := (case archived_by of None \<Rightarrow> None | Some _ \<Rightarrow> Some t), t_archived_by := archived_by,
     t_updated_at := t\<rparr>)"

section \<open>Lists\<close>

text \<open>\<open>ORDER BY starts_at DESC NULLS LAST, created_at DESC\<close>.\<close>

definition starts_le :: "Tournament \<Rightarrow> Tournament \<Rightarrow> bool" where
  "starts_le = lex_by (\<lambda>x y. nulls_last (\<lambda>a b. b \<le> a) (t_starts_at x) (t_starts_at y)) (\<lambda>x y. t_created_at y \<le> t_created_at x)"

text \<open>
  The filters of the public list. \<open>ilike\<close> is the database's \<open>ILIKE '%..%'\<close> test,
  \<open>archived_league\<close> says which leagues are archived. The active filter names its statuses as
  texts, one of which (\<open>check_in\<close>) is no status.
\<close>

definition active_status_texts :: "string list" where
  "active_status_texts = [''published'', ''registration'', ''check_in'', ''in_progress'']"

definition tournament_listed :: "(string \<Rightarrow> string \<Rightarrow> bool) \<Rightarrow> (uuid \<Rightarrow> bool) \<Rightarrow> TournamentFilters \<Rightarrow> datetime \<Rightarrow>
    Tournament \<Rightarrow> bool" where
  "tournament_listed ilike archived_league f clock t \<longleftrightarrow>
     wanted (tf_game_id f) (t_game_id t) \<and>
     (case tf_league_id f of None \<Rightarrow> True | Some l \<Rightarrow> t_league_id t = Some l) \<and>
     (case tf_season_id f of None \<Rightarrow> True | Some s \<Rightarrow> t_season_id t = Some s) \<and>
     wanted (tf_status f) (t_status t) \<and> wanted (tf_format f) (t_format t) \<and>
     wanted (tf_participant_type f) (t_participant_type t) \<and>
     (case tf_search f of None \<Rightarrow> True | Some s \<Rightarrow> ilike s (t_name t) \<or> ilike s (t_slug t)) \<and>
     (case tf_upcoming f of None \<Rightarrow> True | Some b \<Rightarrow> \<not> b \<or> (case t_starts_at t of None \<Rightarrow> False | Some s \<Rightarrow> s > clock)) \<and>
     (case tf_active f of None \<Rightarrow> True | Some b \<Rightarrow> \<not> b \<or> TournamentStatus_to_string (t_status t) \<in> set active_status_texts) \<and>
     t_kind t = TournamentKind.Standard \<and>
     (tf_include_archived f \<or> (t_archived_at t = None \<and>
        (case t_league_id t of None \<Rightarrow> True | Some l \<Rightarrow> \<not> archived_league l)))"

definition tournament_list :: "(string \<Rightarrow> string \<Rightarrow> bool) \<Rightarrow> (uuid \<Rightarrow> bool) \<Rightarrow> TournamentFilters \<Rightarrow> nat \<Rightarrow> nat \<Rightarrow>
    (Tournament list \<times> nat) service" where
  "tournament_list ilike archived_league f limit offset = sget (\<lambda>w. paged limit offset starts_le
     (filter (tournament_listed ilike archived_league f (w_now w)) (w_tournaments w)))"

definition tournament_list_by_game :: "uuid \<Rightarrow> nat \<Rightarrow> nat \<Rightarrow> (Tournament list \<times> nat) service" where
  "tournament_list_by_game game_id limit offset = sget (\<lambda>w. paged limit offset starts_le
     (filter (\<lambda>t. t_game_id t = game_id \<and> t_kind t = TournamentKind.Standard) (w_tournaments w)))"

definition tournament_list_by_league :: "uuid \<Rightarrow> nat \<Rightarrow> nat \<Rightarrow> (Tournament list \<times> nat) service" where
  "tournament_list_by_league league_id limit offset = sget (\<lambda>w. paged limit offset starts_le
     (filter (\<lambda>t. t_league_id t = Some league_id) (w_tournaments w)))"

definition tournament_list_by_creator :: "uuid \<Rightarrow> nat \<Rightarrow> nat \<Rightarrow> (Tournament list \<times> nat) service" where
  "tournament_list_by_creator user_id limit offset = sget (\<lambda>w. paged limit offset (\<lambda>x y. t_created_at y \<le> t_created_at x)
     (filter (\<lambda>t. t_created_by t = user_id) (w_tournaments w)))"

section \<open>Laws\<close>

lemma tournament_find_by_id_run [simp]: "tournament_find_by_id i w = (Inr (find_row t_id i (w_tournaments w)), w)"
  by (simp add: tournament_find_by_id_def)

lemma tournament_write_okE:
  assumes "tournament_write missing i f w = (Inr x, w')"
  obtains r where "find_row t_id i (w_tournaments w) = Some r" and "x = f (w_now w) r"
    and "w' = w_tournaments_update (modify_row t_id i (f (w_now w))) w"
  using assms by (auto simp: tournament_write_def split: option.splits)

lemma tournament_write_err: "tournament_write missing i f w = (Inl e, w') \<Longrightarrow> w' = w"
  by (auto simp: tournament_write_def split: option.splits)

lemma paged_length: "length (fst (paged limit offset le rows)) = min limit (snd (paged limit offset le rows) - offset)"
  by (simp add: paged_def page_def)

end
