(* ===== verification/RegistrationRepo.thy ===== *)
theory RegistrationRepo
  imports TournamentRepo
begin

text \<open>
  The registration table (\<open>portal-db/src/adapters/tournament/registration.rs\<close>) with the
  constraints of its migration: a row has exactly one participant, and a participant at
  most one row per tournament. The operations that count before they write run in one
  transaction. \<open>list_all_by_tournament\<close> is the default method of the repository trait: it
  pages until a page comes back short.
\<close>

section \<open>Constraints and rows\<close>

definition one_participant :: "TournamentRegistration \<Rightarrow> bool" where
  "one_participant r \<longleftrightarrow>
     (if r_team_season_id r = None then 0 else 1) + (if r_player_id r = None then 0 else 1) +
     (if r_adhoc_team_id r = None then 0 else 1) = (1 :: nat)"

text \<open>A unique key with a null in it clashes with nothing.\<close>

definition same_key :: "(TournamentRegistration \<Rightarrow> uuid option) \<Rightarrow> TournamentRegistration \<Rightarrow>
    TournamentRegistration \<Rightarrow> bool" where
  "same_key key r x \<longleftrightarrow> key r \<noteq> None \<and> key x = key r \<and> r_tournament_id x = r_tournament_id r"

definition registration_violation :: "TournamentRegistration list \<Rightarrow> TournamentRegistration \<Rightarrow> sql_error option" where
  "registration_violation rows r =
     (if \<not> one_participant r then Some (CheckViolation ''tournament_registrations_one_participant'')
      else if list_ex (same_key r_team_season_id r) rows
        then Some (UniqueViolation ''tournament_registrations_unique_team'')
      else if list_ex (same_key r_player_id r) rows
        then Some (UniqueViolation ''tournament_registrations_unique_player'')
      else if list_ex (same_key r_adhoc_team_id r) rows
        then Some (UniqueViolation ''tournament_registrations_unique_adhoc'')
      else None)"

definition registration_row :: "uuid \<Rightarrow> datetime \<Rightarrow> CreateTournamentRegistration \<Rightarrow> TournamentRegistration" where
  "registration_row i t c = \<lparr>r_id = i, r_tournament_id = cr_tournament_id c,
     r_team_season_id = cr_team_season_id c, r_player_id = cr_player_id c,
     r_adhoc_team_id = cr_adhoc_team_id c, r_participant_name = cr_participant_name c,
     r_participant_logo_url = cr_participant_logo_url c, r_registered_by = cr_registered_by c,
     r_registered_at = t, r_checked_in = False, r_checked_in_at = None, r_checked_in_by = None,
     r_seed = None, r_seed_rating = cr_seed_rating c, r_status = cr_status c, r_admin_notes = None,
     r_created_at = t, r_updated_at = t, r_withdrawn_at = None\<rparr>"

definition registration_find_by_id :: "uuid \<Rightarrow> TournamentRegistration option service" where
  "registration_find_by_id i = sget (\<lambda>w. find_row r_id i (w_registrations w))"

definition registration_find_by_team_season :: "uuid \<Rightarrow> uuid \<Rightarrow> TournamentRegistration option service" where
  "registration_find_by_team_season t team_season_id = sget (\<lambda>w.
     find (\<lambda>r. r_tournament_id r = t \<and> r_team_season_id r = Some team_season_id) (w_registrations w))"

definition registration_find_by_player :: "uuid \<Rightarrow> uuid \<Rightarrow> TournamentRegistration option service" where
  "registration_find_by_player t player_id = sget (\<lambda>w.
     find (\<lambda>r. r_tournament_id r = t \<and> r_player_id r = Some player_id) (w_registrations w))"

definition registration_create :: "CreateTournamentRegistration \<Rightarrow> TournamentRegistration service" where
  "registration_create c = sbind new_uuid (\<lambda>i. sbind now (\<lambda>t. \<lambda>w.
     case registration_violation (w_registrations w) (registration_row i t c) of
       Some e \<Rightarrow> (Inl (db_error e w), w)
     | None \<Rightarrow> insert_returning w_registrations_update (registration_row i t c) w))"

definition registration_delete :: "uuid \<Rightarrow> unit service" where
  "registration_delete i = smodify (w_registrations_update (filter (\<lambda>r. r_id r \<noteq> i)))"

section \<open>Places\<close>

text \<open>The registrations of a tournament that hold a place.\<close>

definition places :: "uuid \<Rightarrow> world \<Rightarrow> nat" where
  "places t w = length (filter (\<lambda>r. r_tournament_id r = t \<and> holds_place r) (w_registrations w))"

definition registration_create_with_capacity_check :: "CreateTournamentRegistration \<Rightarrow> uuid option \<Rightarrow>
    TournamentRegistration service" where
  "registration_create_with_capacity_check c replace_terminal = transaction (
     sbind (tournament_find_by_id (cr_tournament_id c)) (\<lambda>found.
     sbind (sneed (TournamentNotFound (cr_tournament_id c)) found) (\<lambda>t.
     sbind (case replace_terminal of None \<Rightarrow> sret () | Some old_id \<Rightarrow> registration_delete old_id) (\<lambda>_.
     sbind (sget (places (cr_tournament_id c))) (\<lambda>count.
     if int count \<ge> t_max_participants t then sfail TournamentFull
     else registration_create c)))))"

definition registration_set :: "uuid \<Rightarrow> (datetime \<Rightarrow> TournamentRegistration \<Rightarrow> TournamentRegistration) \<Rightarrow>
    TournamentRegistration service" where
  "registration_set i f = sbind now (\<lambda>t.
     update_returning w_registrations w_registrations_update r_id (db_error RowNotFound) i (f t))"

definition registration_update_status :: "uuid \<Rightarrow> TournamentRegistrationStatus \<Rightarrow> TournamentRegistration service" where
  "registration_update_status i status = registration_set i (\<lambda>t r. r\<lparr>r_status := status, r_updated_at := t\<rparr>)"

text \<open>The tournament a registration belongs to, by the join of the two tables.\<close>

definition tournament_of_registration :: "uuid \<Rightarrow> world \<Rightarrow> Tournament option" where
  "tournament_of_registration i w = Option.bind (find_row r_id i (w_registrations w))
     (\<lambda>r. find_row t_id (r_tournament_id r) (w_tournaments w))"

definition registration_update_status_with_capacity_check :: "uuid \<Rightarrow> TournamentRegistrationStatus \<Rightarrow>
    TournamentRegistration service" where
  "registration_update_status_with_capacity_check i status = transaction (
     sbind (sget (tournament_of_registration i)) (\<lambda>found.
     sbind (sneed (TournamentRegistrationNotFound i) found) (\<lambda>t.
     sbind (sget (\<lambda>w. length (filter (\<lambda>r. r_tournament_id r = t_id t \<and> r_id r \<noteq> i \<and> holds_place r)
       (w_registrations w)))) (\<lambda>count.
     if int count \<ge> t_max_participants t then sfail TournamentFull
     else registration_update_status i status))))"

section \<open>Updates\<close>

definition no_registration_update :: UpdateTournamentRegistration where
  "no_registration_update = \<lparr>ur_participant_name = None, ur_participant_logo_url = None, ur_seed = None,
     ur_seed_rating = None, ur_admin_notes = None\<rparr>"

definition registration_update :: "uuid \<Rightarrow> UpdateTournamentRegistration \<Rightarrow> TournamentRegistration service" where
  "registration_update i u = registration_set i (\<lambda>t r. r\<lparr>
     r_participant_name := or_old (ur_participant_name u) (r_participant_name r),
     r_participant_logo_url := coalesce (ur_participant_logo_url u) (r_participant_logo_url r),
     r_seed := coalesce (ur_seed u) (r_seed r),
     r_seed_rating := coalesce (ur_seed_rating u) (r_seed_rating r),
     r_admin_notes := coalesce (ur_admin_notes u) (r_admin_notes r),
     r_updated_at := t\<rparr>)"

text \<open>Only an approved row checks in; any other one, or none, is an invalid state.\<close>

definition registration_check_in :: "uuid \<Rightarrow> uuid \<Rightarrow> TournamentRegistration service" where
  "registration_check_in i checked_in_by = (\<lambda>w. case find_row r_id i (w_registrations w) of
     None \<Rightarrow> (Inl (InvalidState ''only an approved registration can check in''), w)
   | Some r \<Rightarrow>
       if r_status r = TournamentRegistrationStatus.Approved
       then registration_set i (\<lambda>t x. x\<lparr>r_checked_in := True, r_checked_in_at := Some t,
         r_checked_in_by := Some checked_in_by, r_status := TournamentRegistrationStatus.CheckedIn,
         r_updated_at := t\<rparr>) w
       else (Inl (InvalidState ''only an approved registration can check in''), w))"

definition registration_update_seed :: "uuid \<Rightarrow> int \<Rightarrow> TournamentRegistration service" where
  "registration_update_seed i seed = registration_set i (\<lambda>t r. r\<lparr>r_seed := Some seed, r_updated_at := t\<rparr>)"

definition registration_withdraw :: "uuid \<Rightarrow> TournamentRegistration service" where
  "registration_withdraw i = registration_set i (\<lambda>t r. r\<lparr>r_status := TournamentRegistrationStatus.Withdrawn,
     r_withdrawn_at := Some t, r_updated_at := t\<rparr>)"

text \<open>One statement per seed, without a transaction; a missing row is skipped.\<close>

definition registration_bulk_update_seeds :: "(uuid \<times> int) list \<Rightarrow> unit service" where
  "registration_bulk_update_seeds seeds = sbind now (\<lambda>t. sbind (smap (\<lambda>(i, seed).
     smodify (w_registrations_update (modify_row r_id i (\<lambda>r. r\<lparr>r_seed := Some seed, r_updated_at := t\<rparr>)))) seeds)
     (\<lambda>_. sret ()))"

definition registration_clear_seeds :: "uuid \<Rightarrow> unit service" where
  "registration_clear_seeds t = sbind now (\<lambda>at_time. smodify (w_registrations_update (map (\<lambda>r.
     if r_tournament_id r = t then r\<lparr>r_seed := None, r_seed_rating := None, r_updated_at := at_time\<rparr> else r))))"

section \<open>Lists\<close>

text \<open>\<open>ORDER BY seed ASC NULLS LAST, registered_at ASC\<close>.\<close>

definition seed_le :: "TournamentRegistration \<Rightarrow> TournamentRegistration \<Rightarrow> bool" where
  "seed_le = lex_by (\<lambda>x y. nulls_last (\<le>) (r_seed x) (r_seed y)) (\<lambda>x y. r_registered_at x \<le> r_registered_at y)"

definition registration_listed :: "uuid \<Rightarrow> TournamentRegistrationStatus option \<Rightarrow> TournamentRegistration \<Rightarrow> bool" where
  "registration_listed t status_filter r \<longleftrightarrow> r_tournament_id r = t \<and> wanted status_filter (r_status r)"

definition registration_list_by_tournament :: "uuid \<Rightarrow> TournamentRegistrationStatus option \<Rightarrow> nat \<Rightarrow> nat \<Rightarrow>
    (TournamentRegistration list \<times> nat) service" where
  "registration_list_by_tournament t status_filter limit offset = sget (\<lambda>w.
     paged limit offset seed_le (filter (registration_listed t status_filter) (w_registrations w)))"

definition PAGE :: nat where "PAGE = 500"

text \<open>The loop of the default method: pages from \<open>offset\<close> on, collected in \<open>acc\<close>.\<close>

function list_pages :: "uuid \<Rightarrow> TournamentRegistrationStatus option \<Rightarrow> nat \<Rightarrow> TournamentRegistration list \<Rightarrow>
    TournamentRegistration list service" where
  "list_pages t status_filter offset acc w =
     (case registration_list_by_tournament t status_filter PAGE offset w of
        (Inl e, w') \<Rightarrow> (Inl e, w')
      | (Inr (rows, _), w') \<Rightarrow>
          if length rows < PAGE then (Inr (acc @ rows), w')
          else list_pages t status_filter (offset + PAGE) (acc @ rows) w')"
  by pat_completeness auto
termination
  by (relation "measure (\<lambda>(t, f, offset, acc, w).
        length (filter (registration_listed t f) (w_registrations w)) - offset)")
    (auto simp: registration_list_by_tournament_def paged_def page_def PAGE_def)

declare list_pages.simps [simp del]

definition registration_list_all_by_tournament :: "uuid \<Rightarrow> TournamentRegistrationStatus option \<Rightarrow>
    TournamentRegistration list service" where
  "registration_list_all_by_tournament t status_filter = list_pages t status_filter 0 []"

definition registration_list_checked_in :: "uuid \<Rightarrow> TournamentRegistration list service" where
  "registration_list_checked_in t = sget (\<lambda>w. sort_by seed_le (filter (\<lambda>r. r_tournament_id r = t \<and>
     r_checked_in r \<and> r_status r \<in> {TournamentRegistrationStatus.CheckedIn, TournamentRegistrationStatus.Active})
     (w_registrations w)))"

text \<open>\<open>ORDER BY seed ASC NULLS LAST, seed_rating DESC NULLS LAST, registered_at ASC\<close>.\<close>

definition seeding_le :: "TournamentRegistration \<Rightarrow> TournamentRegistration \<Rightarrow> bool" where
  "seeding_le = lex_by (\<lambda>x y. nulls_last (\<le>) (r_seed x) (r_seed y))
     (lex_by (\<lambda>x y. nulls_last (\<lambda>a b. b \<le> a) (r_seed_rating x) (r_seed_rating y))
       (\<lambda>x y. r_registered_at x \<le> r_registered_at y))"

definition registration_list_seeded :: "uuid \<Rightarrow> TournamentRegistration list service" where
  "registration_list_seeded t = sget (\<lambda>w. sort_by seeding_le (filter (\<lambda>r. r_tournament_id r = t \<and>
     r_status r \<in> {TournamentRegistrationStatus.CheckedIn, TournamentRegistrationStatus.Approved,
       TournamentRegistrationStatus.Active}) (w_registrations w)))"

definition registration_count_by_status :: "uuid \<Rightarrow> TournamentRegistrationStatus \<Rightarrow> nat service" where
  "registration_count_by_status t status = sget (\<lambda>w.
     length (filter (\<lambda>r. r_tournament_id r = t \<and> r_status r = status) (w_registrations w)))"

text \<open>\<open>GROUP BY status\<close>: the statuses that occur, each with its count; their text is parsed back.\<close>

definition status_groups :: "uuid \<Rightarrow> world \<Rightarrow> (string \<times> nat) list" where
  "status_groups t w = (let ss = map (\<lambda>r. TournamentRegistrationStatus_to_string (r_status r))
       (filter (\<lambda>r. r_tournament_id r = t) (w_registrations w))
     in map (\<lambda>s. (s, length (filter (\<lambda>s'. s' = s) ss))) (remdups ss))"

definition registration_count_all_by_status :: "uuid \<Rightarrow> (TournamentRegistrationStatus \<times> nat) list service" where
  "registration_count_all_by_status t = sbind (sget (status_groups t)) (smap (\<lambda>(status, count).
     case TournamentRegistrationStatus_from_str status of
       Inr s \<Rightarrow> sret (s, count)
     | Inl e \<Rightarrow> sfail (Internal (''Unknown registration status '' @ [CHR 0x22] @ status @ [CHR 0x22] @ '': '' @ e))))"

section \<open>Laws\<close>

lemma registration_find_by_id_run [simp, prog_simps]:
  "registration_find_by_id i w = (Inr (find_row r_id i (w_registrations w)), w)"
  by (simp add: registration_find_by_id_def)

lemma list_pages_step:
  assumes "rows = sort_by seed_le (filter (registration_listed t f) (w_registrations w))"
  shows "list_pages t f offset acc w =
    (if length rows - offset < PAGE then (Inr (acc @ drop offset rows), w)
     else list_pages t f (offset + PAGE) (acc @ take PAGE (drop offset rows)) w)"
  using assms
  by (subst list_pages.simps) (simp add: registration_list_by_tournament_def paged_def page_def min_def not_less)

lemma list_pages_value:
  "list_pages t f offset acc w =
    (Inr (acc @ drop offset (sort_by seed_le (filter (registration_listed t f) (w_registrations w)))), w)"
proof (induction t f offset acc w rule: list_pages.induct)
  case (1 t f offset acc w)
  let ?rows = "sort_by seed_le (filter (registration_listed t f) (w_registrations w))"
  show ?case
  proof (cases "length ?rows - offset < PAGE")
    case True
    then show ?thesis by (subst list_pages_step [OF refl]) simp
  next
    case False
    then have "list_pages t f (offset + PAGE) (acc @ take PAGE (drop offset ?rows)) w =
        (Inr ((acc @ take PAGE (drop offset ?rows)) @ drop (offset + PAGE) ?rows), w)"
      using 1 by (simp add: registration_list_by_tournament_def paged_def page_def)
    moreover have "take PAGE (drop offset ?rows) @ drop (offset + PAGE) ?rows = drop offset ?rows"
      by (metis add.commute append_take_drop_id drop_drop)
    ultimately show ?thesis using False by (subst list_pages_step [OF refl]) simp
  qed
qed

text \<open>The pages together are one query for all rows.\<close>

lemma list_all_run [simp, prog_simps]:
  "registration_list_all_by_tournament t f w =
    (Inr (sort_by seed_le (filter (registration_listed t f) (w_registrations w))), w)"
  by (simp add: registration_list_all_by_tournament_def list_pages_value)

lemma seed_le_linear: "seed_le x y \<or> seed_le y x"
  unfolding seed_le_def by (intro lex_by_linear nulls_last_linear) auto

lemma seed_le_trans: "seed_le x y \<Longrightarrow> seed_le y z \<Longrightarrow> seed_le x z"
  unfolding seed_le_def by (rule lex_by_trans [rotated 2]) (auto elim: nulls_last_trans [rotated])

text \<open>
  Listing all registrations of a tournament by pages of 500 ends for every number of rows
  and gives what one query would: every row the filter wants exactly once, seeds first in
  ascending order, then by the time of registration, and the world is not changed.
\<close>

theorem list_all_is_one_query:
  "\<exists>rows. registration_list_all_by_tournament t f w = (Inr rows, w) \<and>
     mset rows = mset (filter (registration_listed t f) (w_registrations w)) \<and>
     sorted_wrt seed_le rows \<and>
     registration_list_by_tournament t f (length rows) 0 w = (Inr (rows, length rows), w)"
  by (simp add: sorted_sort_by seed_le_linear seed_le_trans registration_list_by_tournament_def paged_def page_def)

end
