(* ===== verification/MemberRepo.thy ===== *)
theory MemberRepo
  imports World
begin

text \<open>
  The roster table (\<open>portal-db/src/adapters/league_team/member.rs\<close>) and the members of ad-hoc
  teams (\<open>portal-db/src/adapters/pug.rs\<close>). A departure only stamps \<open>left_at\<close>: a member is a row
  without it. Seating a member (an upsert under triggers and partial indexes) and the lists that
  join players, teams and leagues are not modelled.
\<close>

section \<open>Rosters\<close>

definition seated :: "uuid \<Rightarrow> uuid \<Rightarrow> LeagueTeamMember \<Rightarrow> bool" where
  "seated team_season_id player_id m \<longleftrightarrow>
     lm_team_season_id m = team_season_id \<and> lm_player_id m = player_id \<and> lm_left_at m = None"

definition member_find_by_id :: "uuid \<Rightarrow> LeagueTeamMember option service" where
  "member_find_by_id i = sget (\<lambda>w. find_row lm_id i (w_members w))"

definition member_find_member :: "uuid \<Rightarrow> uuid \<Rightarrow> LeagueTeamMember option service" where
  "member_find_member team_season_id player_id = sget (\<lambda>w. find (seated team_season_id player_id) (w_members w))"

text \<open>
  An \<open>UPDATE .. RETURNING *\<close> of the open seat: every open seat of the pair is written, the first
  one is returned (there is at most one, by the unique key).
\<close>

definition member_set :: "uuid \<Rightarrow> uuid \<Rightarrow> (LeagueTeamMember \<Rightarrow> LeagueTeamMember) \<Rightarrow> LeagueTeamMember service" where
  "member_set team_season_id player_id f = (\<lambda>w.
     case find (seated team_season_id player_id) (w_members w) of
       None \<Rightarrow> (Inl (db_error RowNotFound w), w)
     | Some m \<Rightarrow> (Inr (f m),
         w_members_update (map (\<lambda>m. if seated team_season_id player_id m then f m else m)) w))"

definition member_update_role :: "uuid \<Rightarrow> uuid \<Rightarrow> LeagueTeamRole \<Rightarrow> LeagueTeamMember service" where
  "member_update_role team_season_id player_id new_role =
     member_set team_season_id player_id (\<lambda>m. m\<lparr>lm_role := new_role\<rparr>)"

definition member_update_status :: "uuid \<Rightarrow> uuid \<Rightarrow> LeagueTeamMemberStatus \<Rightarrow> LeagueTeamMember service" where
  "member_update_status team_season_id player_id status =
     member_set team_season_id player_id (\<lambda>m. m\<lparr>lm_status := status\<rparr>)"

definition member_remove_member :: "uuid \<Rightarrow> uuid \<Rightarrow> unit service" where
  "member_remove_member team_season_id player_id = sbind now (\<lambda>t. smodify (w_members_update (map (\<lambda>m.
     if seated team_season_id player_id m
     then m\<lparr>lm_left_at := Some t, lm_status := LeagueTeamMemberStatus.Left\<rparr> else m))))"

definition on_roster :: "uuid \<Rightarrow> LeagueTeamMember \<Rightarrow> bool" where
  "on_roster team_season_id m \<longleftrightarrow> lm_team_season_id m = team_season_id \<and> lm_left_at m = None"

definition member_list_members :: "uuid \<Rightarrow> LeagueTeamMember list service" where
  "member_list_members team_season_id = sget (\<lambda>w.
     sort_by (\<lambda>x y. lm_joined_at x \<le> lm_joined_at y) (filter (on_roster team_season_id) (w_members w)))"

definition member_count :: "(LeagueTeamMember \<Rightarrow> bool) \<Rightarrow> uuid \<Rightarrow> nat service" where
  "member_count P team_season_id = sget (\<lambda>w.
     length (filter (\<lambda>m. on_roster team_season_id m \<and> P m) (w_members w)))"

definition member_count_by_role :: "uuid \<Rightarrow> LeagueTeamRole \<Rightarrow> nat service" where
  "member_count_by_role team_season_id role = member_count (\<lambda>m. lm_role m = role) team_season_id"

definition member_count_captains :: "uuid \<Rightarrow> nat service" where
  "member_count_captains = member_count (\<lambda>m. lm_role m = LeagueTeamRole.Captain)"

definition member_count_active_members :: "uuid \<Rightarrow> nat service" where
  "member_count_active_members = member_count (\<lambda>m. lm_status m = LeagueTeamMemberStatus.Active)"

definition member_count_primary_members :: "uuid \<Rightarrow> nat service" where
  "member_count_primary_members =
     member_count (\<lambda>m. lm_role m \<in> {LeagueTeamRole.Captain, LeagueTeamRole.Player})"

definition member_count_substitutes :: "uuid \<Rightarrow> nat service" where
  "member_count_substitutes = member_count (\<lambda>m. lm_role m = LeagueTeamRole.Substitute)"

definition member_is_member :: "uuid \<Rightarrow> uuid \<Rightarrow> bool service" where
  "member_is_member team_season_id player_id = sget (\<lambda>w.
     length (filter (seated team_season_id player_id) (w_members w)) > 0)"

definition member_is_captain :: "uuid \<Rightarrow> uuid \<Rightarrow> bool service" where
  "member_is_captain team_season_id player_id = sget (\<lambda>w.
     length (filter (\<lambda>m. seated team_season_id player_id m \<and> lm_role m = LeagueTeamRole.Captain) (w_members w)) > 0)"

definition member_find_primary_team_in_season :: "uuid \<Rightarrow> uuid \<Rightarrow> uuid option service" where
  "member_find_primary_team_in_season season_id player_id = sget (\<lambda>w. map_option lm_team_season_id
     (find (\<lambda>m. lm_season_id m = season_id \<and> lm_player_id m = player_id \<and>
        lm_role m \<in> {LeagueTeamRole.Captain, LeagueTeamRole.Player} \<and>
        lm_status m = LeagueTeamMemberStatus.Active \<and> lm_left_at m = None) (w_members w)))"

section \<open>Ad-hoc teams\<close>

definition adhoc_member :: "uuid \<Rightarrow> uuid \<Rightarrow> AdhocTeamMember \<Rightarrow> bool" where
  "adhoc_member team player_id m \<longleftrightarrow> am_adhoc_team_id m = team \<and> am_player_id m = player_id"

definition adhoc_find_by_id :: "uuid \<Rightarrow> AdhocTeam option service" where
  "adhoc_find_by_id i = sget (\<lambda>w. find_row at_id i (w_adhoc_teams w))"

definition adhoc_list_members :: "uuid \<Rightarrow> AdhocTeamMember list service" where
  "adhoc_list_members i = sget (\<lambda>w. filter (\<lambda>m. am_adhoc_team_id m = i) (w_adhoc_members w))"

definition adhoc_is_member :: "uuid \<Rightarrow> uuid \<Rightarrow> bool service" where
  "adhoc_is_member i player_id = sget (\<lambda>w. list_ex (adhoc_member i player_id) (w_adhoc_members w))"

definition adhoc_is_captain :: "uuid \<Rightarrow> uuid \<Rightarrow> bool service" where
  "adhoc_is_captain i player_id = sget (\<lambda>w. case find (adhoc_member i player_id) (w_adhoc_members w) of
     None \<Rightarrow> False | Some m \<Rightarrow> am_is_captain m)"

lemma member_is_member_run [simp, prog_simps]:
  "member_is_member s p w = (Inr (list_ex (seated s p) (w_members w)), w)"
  by (auto simp: member_is_member_def list_ex_iff filter_empty_conv)

lemma adhoc_is_member_run [simp, prog_simps]:
  "adhoc_is_member s p w = (Inr (list_ex (adhoc_member s p) (w_adhoc_members w)), w)"
  by (simp add: adhoc_is_member_def)

lemma removed_not_seated:
  "\<not> seated s p (if seated s p m then m\<lparr>lm_left_at := Some t, lm_status := LeagueTeamMemberStatus.Left\<rparr> else m)"
  by (cases "seated s p m") (simp_all add: seated_def [of _ _ "m\<lparr>lm_left_at := Some t, lm_status := LeagueTeamMemberStatus.Left\<rparr>"])

lemma none_seated_after_removal:
  "\<not> list_ex (seated s p) (map (\<lambda>m. if seated s p m
     then m\<lparr>lm_left_at := Some t, lm_status := LeagueTeamMemberStatus.Left\<rparr> else m) ms)"
proof (induction ms)
  case (Cons m ms)
  then show ?case using removed_not_seated [of s p m t] by simp
qed simp

text \<open>A member that left is no member any more.\<close>

lemma removed_is_no_member:
  "fst (sbind (member_remove_member s p) (\<lambda>_. member_is_member s p) w) = Inr False"
  by (simp add: member_remove_member_def none_seated_after_removal)

end
