(* ===== verification/Registration.thy ===== *)
theory Registration
  imports RegistrationRepo MemberRepo
begin

text \<open>
  The services around a registration: who speaks for it
  (\<open>services/tournament/registration_actor.rs\<close>), its life from entry to withdrawal
  (\<open>registration.rs\<close>) and the check-in (\<open>checkin.rs\<close>). The repository of ad-hoc teams is
  optional in the services; a flag says whether it is wired.
\<close>

section \<open>Who speaks for a registration\<close>

record RegistrationActor =
  ra_user_id :: uuid
  ra_player_id :: uuid

definition speaks_for_registration :: "bool \<Rightarrow> TournamentRegistration \<Rightarrow> RegistrationActor \<Rightarrow> bool service" where
  "speaks_for_registration adhoc_wired registration actor =
     (case r_team_season_id registration of
        Some team_season_id \<Rightarrow> member_is_member team_season_id (ra_player_id actor)
      | None \<Rightarrow> (case r_adhoc_team_id registration of
          Some adhoc \<Rightarrow> if adhoc_wired then adhoc_is_member adhoc (ra_player_id actor) else sret False
        | None \<Rightarrow> sret (r_player_id registration = Some (ra_player_id actor) \<or>
            r_registered_by registration = ra_user_id actor)))"

fun first_spoken_for :: "bool \<Rightarrow> RegistrationActor \<Rightarrow> uuid list \<Rightarrow> uuid service" where
  "first_spoken_for adhoc_wired actor [] =
     sfail (NotAuthorized ''User is not authorized to act for any participant in this match'')"
| "first_spoken_for adhoc_wired actor (reg_id # rest) =
     sbind (registration_find_by_id reg_id) (\<lambda>found. case found of
        None \<Rightarrow> first_spoken_for adhoc_wired actor rest
      | Some registration \<Rightarrow> sbind (speaks_for_registration adhoc_wired registration actor) (\<lambda>speaks.
          if speaks then sret reg_id else first_spoken_for adhoc_wired actor rest))"

definition find_actor_registration :: "bool \<Rightarrow> TournamentMatch \<Rightarrow> RegistrationActor \<Rightarrow> uuid service" where
  "find_actor_registration adhoc_wired m actor = first_spoken_for adhoc_wired actor
     (List.map_filter id [m_participant1_registration_id m, m_participant2_registration_id m])"

text \<open>
  \<open>list_for_actor\<close>: the player's own registration, then the registrations of the team-seasons
  the player is listed for. That list comes from a database view over teams and leagues; it is
  the parameter \<open>memberships\<close>.
\<close>

fun team_registrations :: "bool \<Rightarrow> uuid \<Rightarrow> RegistrationActor \<Rightarrow> uuid list \<Rightarrow> TournamentRegistration list \<Rightarrow>
    TournamentRegistration list service" where
  "team_registrations adhoc_wired t actor [] found = sret found"
| "team_registrations adhoc_wired t actor (team_season_id # rest) found =
     (if list_ex (\<lambda>r. r_team_season_id r = Some team_season_id) found
      then team_registrations adhoc_wired t actor rest found
      else sbind (registration_find_by_team_season t team_season_id) (\<lambda>x. case x of
          None \<Rightarrow> team_registrations adhoc_wired t actor rest found
        | Some registration \<Rightarrow> sbind (speaks_for_registration adhoc_wired registration actor) (\<lambda>speaks.
            team_registrations adhoc_wired t actor rest
              (if speaks then found @ [registration] else found))))"

definition list_for_actor :: "(uuid \<Rightarrow> uuid list) \<Rightarrow> bool \<Rightarrow> uuid \<Rightarrow> RegistrationActor \<Rightarrow>
    TournamentRegistration list service" where
  "list_for_actor memberships adhoc_wired t actor =
     sbind (registration_find_by_player t (ra_player_id actor)) (\<lambda>own.
       team_registrations adhoc_wired t actor (memberships (ra_player_id actor))
         (case own of None \<Rightarrow> [] | Some registration \<Rightarrow> [registration]))"

section \<open>The registration service\<close>

fun initial_registration_status :: "RegistrationType \<Rightarrow> TournamentRegistrationStatus" where
  "initial_registration_status RegistrationType.Open = TournamentRegistrationStatus.Approved"
| "initial_registration_status RegistrationType.Approval = TournamentRegistrationStatus.Pending"
| "initial_registration_status RegistrationType.InviteOnly = TournamentRegistrationStatus.Pending"
| "initial_registration_status RegistrationType.Qualification = TournamentRegistrationStatus.Pending"

definition initial_status_for_tournament :: "RegistrationType \<Rightarrow> TournamentRegistrationStatus" where
  "initial_status_for_tournament registration_type = initial_registration_status registration_type"

record RegistrationCounts =
  rc_total :: nat
  rc_participating :: nat
  rc_pending :: nat
  rc_approved :: nat
  rc_checked_in :: nat
  rc_active :: nat
  rc_eliminated :: nat
  rc_disqualified :: nat
  rc_withdrawn :: nat
  rc_no_show :: nat

definition count_of :: "(TournamentRegistrationStatus \<times> nat) list \<Rightarrow> TournamentRegistrationStatus \<Rightarrow> nat" where
  "count_of by_status status = (case find (\<lambda>(s, _). s = status) by_status of None \<Rightarrow> 0 | Some (_, n) \<Rightarrow> n)"

definition registration_counts :: "uuid \<Rightarrow> RegistrationCounts service" where
  "registration_counts t = sbind (registration_count_all_by_status t) (\<lambda>by_status. sret
     \<lparr>rc_total = sum_list (map snd by_status),
      rc_participating = sum_list (map snd (filter (\<lambda>(s, _).
        s \<notin> {TournamentRegistrationStatus.Withdrawn, TournamentRegistrationStatus.Disqualified}) by_status)),
      rc_pending = count_of by_status TournamentRegistrationStatus.Pending,
      rc_approved = count_of by_status TournamentRegistrationStatus.Approved,
      rc_checked_in = count_of by_status TournamentRegistrationStatus.CheckedIn,
      rc_active = count_of by_status TournamentRegistrationStatus.Active,
      rc_eliminated = count_of by_status TournamentRegistrationStatus.Eliminated,
      rc_disqualified = count_of by_status TournamentRegistrationStatus.Disqualified,
      rc_withdrawn = count_of by_status TournamentRegistrationStatus.Withdrawn,
      rc_no_show = count_of by_status TournamentRegistrationStatus.NoShow\<rparr>)"

definition get_registration :: "uuid \<Rightarrow> TournamentRegistration service" where
  "get_registration i = sbind (registration_find_by_id i) (sneed (TournamentRegistrationNotFound i))"

definition find_tournament :: "uuid \<Rightarrow> Tournament service" where
  "find_tournament t = sbind (tournament_find_by_id t) (sneed (TournamentNotFound t))"

text \<open>A state error that names the status of the registration.\<close>

definition wrong_status :: "string \<Rightarrow> TournamentRegistration \<Rightarrow> DomainError" where
  "wrong_status what r = InvalidState (''Cannot '' @ what @ '' registration in '' @
     TournamentRegistrationStatus_to_string (r_status r) @ '' status'')"

definition withdraw :: "uuid \<Rightarrow> uuid \<Rightarrow> TournamentRegistration service" where
  "withdraw registration_id withdrawn_by =
     sbind (get_registration registration_id) (\<lambda>registration.
     if \<not> TournamentRegistrationStatus_can_withdraw (r_status registration)
     then sfail (wrong_status ''withdraw'' registration)
     else sbind (find_tournament (r_tournament_id registration)) (\<lambda>t.
     if t_status t = TournamentStatus.InProgress \<or> t_status t = TournamentStatus.Completed
     then sfail (InvalidState ''Cannot withdraw after tournament has started'')
     else registration_withdraw registration_id))"

definition approve_registration :: "uuid \<Rightarrow> TournamentRegistration service" where
  "approve_registration registration_id =
     sbind (get_registration registration_id) (\<lambda>registration.
     if r_status registration = TournamentRegistrationStatus.Approved then sret registration
     else if r_status registration \<noteq> TournamentRegistrationStatus.Pending
     then sfail (wrong_status ''approve'' registration)
     else sbind (find_tournament (r_tournament_id registration)) (\<lambda>_.
       registration_update_status_with_capacity_check registration_id TournamentRegistrationStatus.Approved))"

definition reject_registration :: "uuid \<Rightarrow> string option \<Rightarrow> TournamentRegistration service" where
  "reject_registration registration_id reason =
     sbind (get_registration registration_id) (\<lambda>registration.
     if r_status registration \<noteq> TournamentRegistrationStatus.Pending
     then sfail (wrong_status ''reject'' registration)
     else sbind (case reason of
         None \<Rightarrow> sret ()
       | Some reason \<Rightarrow> sbind (registration_update registration_id
           (no_registration_update\<lparr>ur_admin_notes := Some (''Rejected: '' @ reason)\<rparr>)) (\<lambda>_. sret ())) (\<lambda>_.
       registration_update_status registration_id TournamentRegistrationStatus.Withdrawn))"

definition disqualify :: "uuid \<Rightarrow> string \<Rightarrow> TournamentRegistration service" where
  "disqualify registration_id reason =
     sbind (get_registration registration_id) (\<lambda>registration.
     if TournamentRegistrationStatus_is_terminal (r_status registration)
     then sfail (wrong_status ''disqualify'' registration)
     else sbind (registration_update registration_id
         (no_registration_update\<lparr>ur_admin_notes := Some (''Disqualified: '' @ reason)\<rparr>)) (\<lambda>_.
       registration_update_status registration_id TournamentRegistrationStatus.Disqualified))"

definition list_registrations :: "uuid \<Rightarrow> TournamentRegistrationStatus option \<Rightarrow> nat \<Rightarrow> nat \<Rightarrow>
    (TournamentRegistration list \<times> nat) service" where
  "list_registrations t status_filter limit offset = registration_list_by_tournament t status_filter limit offset"

definition check_eligibility :: "uuid \<Rightarrow> unit service" where
  "check_eligibility t = sbind (find_tournament t) (\<lambda>tournament. sbind now (\<lambda>clock.
     if \<not> Tournament_is_registration_open clock tournament then sfail TournamentNotOpen
     else sbind (tournament_count_registrations t) (\<lambda>current_count.
       if int current_count \<ge> t_max_participants tournament then sfail TournamentFull else sret ())))"

section \<open>Check-in\<close>

definition check_in_registration :: "uuid \<Rightarrow> uuid \<Rightarrow> TournamentRegistration service" where
  "check_in_registration registration_id checked_in_by =
     sbind (get_registration registration_id) (\<lambda>registration.
     if r_checked_in registration then sfail (Conflict ''Already checked in'')
     else if \<not> TournamentRegistrationStatus_can_check_in (r_status registration)
     then sfail (wrong_status ''check in'' registration)
     else sbind (find_tournament (r_tournament_id registration)) (\<lambda>t. sbind now (\<lambda>clock.
     if t_check_in_required t \<and> \<not> Tournament_is_check_in_open clock t
     then sfail (InvalidState ''Check-in is not currently open'')
     else registration_check_in registration_id checked_in_by)))"

definition admin_check_in :: "uuid \<Rightarrow> uuid \<Rightarrow> TournamentRegistration service" where
  "admin_check_in registration_id admin_user_id =
     sbind (get_registration registration_id) (\<lambda>registration.
     if r_checked_in registration then sfail (Conflict ''Already checked in'')
     else if r_status registration \<noteq> TournamentRegistrationStatus.Approved \<and>
       r_status registration \<noteq> TournamentRegistrationStatus.Pending
     then sfail (wrong_status ''check in'' registration)
     else sbind (if r_status registration = TournamentRegistrationStatus.Pending
         then sbind (registration_update_status registration_id TournamentRegistrationStatus.Approved) (\<lambda>_. sret ())
         else sret ()) (\<lambda>_.
       registration_check_in registration_id admin_user_id))"

definition process_no_shows :: "uuid \<Rightarrow> TournamentRegistration list service" where
  "process_no_shows t = sbind (find_tournament t) (\<lambda>tournament.
     if \<not> t_check_in_required tournament
     then sfail (InvalidState ''Tournament does not require check-in'')
     else sbind (registration_list_all_by_tournament t (Some TournamentRegistrationStatus.Approved)) (\<lambda>registrations.
       smap (\<lambda>r. registration_update_status (r_id r) TournamentRegistrationStatus.NoShow)
         (filter (\<lambda>r. \<not> r_checked_in r) registrations)))"

record CheckInStatus =
  ci_tournament_id :: uuid
  ci_check_in_required :: bool
  ci_check_in_open :: bool
  ci_checked_in_count :: nat
  ci_total_eligible :: nat

definition get_check_in_status :: "uuid \<Rightarrow> CheckInStatus service" where
  "get_check_in_status t = sbind (find_tournament t) (\<lambda>tournament. sbind now (\<lambda>clock.
     sbind (registration_count_by_status t TournamentRegistrationStatus.CheckedIn) (\<lambda>checked_in_count.
     sbind (registration_count_by_status t TournamentRegistrationStatus.Approved) (\<lambda>approved_count.
     sret \<lparr>ci_tournament_id = t, ci_check_in_required = t_check_in_required tournament,
       ci_check_in_open = Tournament_is_check_in_open clock tournament,
       ci_checked_in_count = checked_in_count, ci_total_eligible = checked_in_count + approved_count\<rparr>))))"

end
