(* ===== verification/Pagination.thy ===== *)
theory Pagination
  imports Tables "HOL-Library.Word"
begin

text \<open>
  Pages of a list: the page request of \<open>portal-core/src/types/pagination.rs\<close> and the query
  parameters of \<open>portal-api/src/dto/common.rs\<close>. Page numbers and sizes are 32-bit words, so
  the offset wraps as in a release build. The number of pages is a 64-bit float quotient
  in the code; here it is the exact quotient (the two agree while the quotient is far
  below \<open>2 ^ 53\<close>).
\<close>

section \<open>Requests\<close>

definition MAX_PAGE_SIZE :: "32 word" where "MAX_PAGE_SIZE = 100"

definition DEFAULT_PAGE_SIZE :: "32 word" where "DEFAULT_PAGE_SIZE = 20"

record PageRequest =
  pq_page :: "32 word"
  pq_per_page :: "32 word"

definition PageRequest_default :: PageRequest where
  "PageRequest_default = \<lparr>pq_page = 1, pq_per_page = DEFAULT_PAGE_SIZE\<rparr>"

definition PageRequest_new :: "32 word \<Rightarrow> 32 word \<Rightarrow> PageRequest" where
  "PageRequest_new p n = \<lparr>pq_page = max p 1, pq_per_page = min MAX_PAGE_SIZE (max 1 n)\<rparr>"

definition saturating_pred :: "32 word \<Rightarrow> 32 word" where
  "saturating_pred p = (if p = 0 then 0 else p - 1)"

definition PageRequest_offset :: "PageRequest \<Rightarrow> 32 word" where
  "PageRequest_offset r = saturating_pred (pq_page r) * pq_per_page r"

definition PageRequest_limit :: "PageRequest \<Rightarrow> 32 word" where
  "PageRequest_limit r = pq_per_page r"

definition PageRequest_normalize :: "PageRequest \<Rightarrow> PageRequest" where
  "PageRequest_normalize r = PageRequest_new (pq_page r) (pq_per_page r)"

text \<open>
  The ceiling of a quotient, cast to 32 bits: a value that does not fit, and a division by
  zero, give the largest one.
\<close>

definition page_count :: "32 word \<Rightarrow> nat \<Rightarrow> 32 word" where
  "page_count per_page total_items =
     (if total_items = 0 then 1
      else if per_page = 0 then - 1
      else let q = (total_items + unat per_page - 1) div unat per_page in
        if q < 2 ^ 32 then of_nat q else - 1)"

record Pagination =
  pg_page :: "32 word"
  pg_per_page :: "32 word"
  pg_total_items :: nat
  pg_total_pages :: "32 word"

definition Pagination_new :: "PageRequest \<Rightarrow> nat \<Rightarrow> Pagination" where
  "Pagination_new r total_items = \<lparr>pg_page = pq_page r, pg_per_page = pq_per_page r,
     pg_total_items = total_items, pg_total_pages = page_count (pq_per_page r) total_items\<rparr>"

definition Pagination_has_next :: "Pagination \<Rightarrow> bool" where
  "Pagination_has_next g \<longleftrightarrow> pg_page g < pg_total_pages g"

definition Pagination_has_prev :: "Pagination \<Rightarrow> bool" where
  "Pagination_has_prev g \<longleftrightarrow> pg_page g > 1"

record 'a Page =
  pa_data :: "'a list"
  pa_pagination :: Pagination

definition Page_new :: "'a list \<Rightarrow> PageRequest \<Rightarrow> nat \<Rightarrow> 'a Page" where
  "Page_new d r total_items = \<lparr>pa_data = d, pa_pagination = Pagination_new r total_items\<rparr>"

definition Page_empty :: "PageRequest \<Rightarrow> 'a Page" where
  "Page_empty r = Page_new [] r 0"

definition Page_map :: "('a \<Rightarrow> 'b) \<Rightarrow> 'a Page \<Rightarrow> 'b Page" where
  "Page_map f p = \<lparr>pa_data = map f (pa_data p), pa_pagination = pa_pagination p\<rparr>"

text \<open>
  The parameters of the list endpoints: the limit is cut at 100, the offset and the number
  of pages use the size the client sent.
\<close>

record PaginationParams =
  pp_page :: "32 word"
  pp_per_page :: "32 word"

definition PaginationParams_default :: PaginationParams where
  "PaginationParams_default = \<lparr>pp_page = 1, pp_per_page = 20\<rparr>"

definition PaginationParams_offset :: "PaginationParams \<Rightarrow> nat" where
  "PaginationParams_offset r = unat (saturating_pred (pp_page r) * pp_per_page r)"

definition PaginationParams_limit :: "PaginationParams \<Rightarrow> nat" where
  "PaginationParams_limit r = unat (min (pp_per_page r) 100)"

record PaginationMeta =
  pm_page :: "32 word"
  pm_per_page :: "32 word"
  pm_total_items :: nat
  pm_total_pages :: "32 word"

definition PaginationMeta_new :: "PaginationParams \<Rightarrow> nat \<Rightarrow> PaginationMeta" where
  "PaginationMeta_new r total_items = \<lparr>pm_page = pp_page r, pm_per_page = pp_per_page r,
     pm_total_items = total_items, pm_total_pages = page_count (pp_per_page r) total_items\<rparr>"

text \<open>What an endpoint shows for a request: \<open>LIMIT\<close> rows from \<open>OFFSET\<close> on.\<close>

definition shown :: "PaginationParams \<Rightarrow> 'a list \<Rightarrow> 'a list" where
  "shown r rows = page (PaginationParams_limit r) (PaginationParams_offset r) rows"

section \<open>Pages and lists\<close>

lemma page_tiles:
  "concat (map (\<lambda>k. page n (k * n) xs) [0..<m]) = take (m * n) xs"
proof (induction m)
  case (Suc m)
  have "take (m * n) xs @ take n (drop (m * n) xs) = take (m * n + n) xs"
    by (simp only: take_add)
  moreover have "m * n + n = Suc m * n" by simp
  ultimately show ?case using Suc by (simp add: page_def)
qed simp

lemma unat_offset:
  assumes "(unat p - 1) * unat n < 2 ^ 32"
  shows "unat (saturating_pred p * n) = (unat p - 1) * unat n"
proof (cases "p = 0")
  case False
  then have "unat (p - 1) = unat p - 1" by (simp add: unat_minus_one)
  with False assms show ?thesis
    by (simp add: saturating_pred_def unat_word_ariths)
qed (simp add: saturating_pred_def)

lemma ceiling_bounds:
  fixes k n :: nat
  assumes "0 < n" and "0 < k"
  shows "k \<le> (k + n - 1) div n * n" and "((k + n - 1) div n - 1) * n < k"
proof -
  have e: "(k + n - 1) div n * n + (k + n - 1) mod n = k + n - 1" by simp
  have m: "(k + n - 1) mod n < n" using assms(1) by simp
  from e m show "k \<le> (k + n - 1) div n * n" by linarith
  have "((k + n - 1) div n - 1) * n = (k + n - 1) div n * n - n"
    by (simp add: diff_mult_distrib)
  with e assms show "((k + n - 1) div n - 1) * n < k" by linarith
qed

lemma page_count_value:
  assumes "0 < unat n" and "0 < k" and "k < 2 ^ 32"
  shows "unat (page_count n k) = (k + unat n - 1) div unat n"
proof -
  have "(k + unat n - 1) div unat n \<le> k"
  proof -
    have "(k + unat n - 1) div unat n - 1 \<le> ((k + unat n - 1) div unat n - 1) * unat n"
      using assms(1) by simp
    with ceiling_bounds(2) [OF assms(1, 2)] show ?thesis by linarith
  qed
  with assms show ?thesis by (auto simp: page_count_def Let_def unat_of_nat)
qed

text \<open>The \<open>k\<close>-th page of a list with fewer than \<open>2 ^ 32\<close> rows.\<close>

lemma shown_page:
  assumes "unat n \<le> 100" and "k < 2 ^ 32" and "(k - 1) * unat n < 2 ^ 32"
  shows "shown \<lparr>pp_page = word_of_nat k, pp_per_page = n\<rparr> rows = page (unat n) ((k - 1) * unat n) rows"
proof -
  have "unat (word_of_nat k :: 32 word) = k" using assms(2) by (simp add: unat_of_nat)
  then have "PaginationParams_offset \<lparr>pp_page = word_of_nat k, pp_per_page = n\<rparr> = (k - 1) * unat n"
    using assms(3) by (simp add: PaginationParams_offset_def unat_offset)
  moreover have "min n 100 = n" using assms(1) by (simp add: min_def word_le_nat_alt)
  ultimately show ?thesis by (simp add: shown_def PaginationParams_limit_def)
qed

lemma pages_concat:
  assumes "0 < unat n" "unat n \<le> 100" and "0 < length rows" "length rows < 2 ^ 32"
  shows "concat (map (\<lambda>k. shown \<lparr>pp_page = word_of_nat k, pp_per_page = n\<rparr> rows)
    [1..<Suc (unat (page_count n (length rows)))]) = rows"
proof -
  let ?m = "(length rows + unat n - 1) div unat n"
  note b = ceiling_bounds [OF assms(1, 3)]
  have m: "unat (page_count n (length rows)) = ?m" using assms by (simp add: page_count_value)
  moreover have "unat (page_count n (length rows)) < 2 ^ LENGTH(32)" by (rule unsigned_less)
  ultimately have m32: "?m < 2 ^ 32" by simp
  have s: "shown \<lparr>pp_page = word_of_nat k, pp_per_page = n\<rparr> rows = page (unat n) ((k - 1) * unat n) rows"
    if "k \<in> set [1..<Suc ?m]" for k
  proof (rule shown_page)
    show "unat n \<le> 100" by fact
    have "k \<le> ?m" using that by (simp only: set_upt atLeastLessThan_iff less_Suc_eq_le)
    with m32 show "k < 2 ^ 32" by (rule order.strict_trans1 [rotated])
    have "(k - 1) * unat n \<le> (?m - 1) * unat n" using that by (intro mult_right_mono) auto
    with b(2) assms(4) show "(k - 1) * unat n < 2 ^ 32" by linarith
  qed
  have "concat (map (\<lambda>k. shown \<lparr>pp_page = word_of_nat k, pp_per_page = n\<rparr> rows) [1..<Suc ?m]) =
      concat (map (\<lambda>k. page (unat n) ((k - 1) * unat n) rows) [1..<Suc ?m])"
    using s by (intro arg_cong [where f = concat] map_cong refl) blast
  also have "\<dots> = concat (map (\<lambda>k. page (unat n) (k * unat n) rows) [0..<?m])"
    by (simp only: map_Suc_upt [symmetric] One_nat_def map_map comp_def diff_Suc_Suc diff_zero)
  also have "\<dots> = take (?m * unat n) rows" by (rule page_tiles)
  also have "\<dots> = rows" using b(1) by simp
  finally show ?thesis by (simp only: m)
qed


section \<open>What the list endpoints show\<close>

text \<open>
  C34. With at most 100 rows a page, the pages the metadata announces show every row once and in
  order: page after page from the first to \<open>total_pages\<close> they add up to the list.
\<close>

theorem pages_cover_the_list:
  assumes "0 < unat n" and "unat n \<le> 100" and "0 < length rows" and "length rows < 2 ^ 32"
  shows "concat (map (\<lambda>k. shown \<lparr>pp_page = word_of_nat k, pp_per_page = n\<rparr> rows)
    [1..<Suc (unat (pm_total_pages (PaginationMeta_new \<lparr>pp_page = 1, pp_per_page = n\<rparr> (length rows))))]) = rows"
  using pages_concat [OF assms] by (simp only: PaginationMeta_new_def PaginationParams.simps PaginationMeta.simps)

theorem pages_cover_the_list_witness:
  "concat (map (\<lambda>k. shown \<lparr>pp_page = word_of_nat k, pp_per_page = 20\<rparr> [0..<45])
    [1..<Suc (unat (pm_total_pages (PaginationMeta_new \<lparr>pp_page = 1, pp_per_page = 20\<rparr> (length [0..<45]))))]) = [0..<45]"
  by (rule pages_cover_the_list) simp_all

lemma shown_oversized:
  assumes "100 < unat n" and "length rows < 2 ^ 32" and "0 < length rows"
    and "1 \<le> k" and "k \<le> unat (page_count n (length rows))"
  shows "shown \<lparr>pp_page = word_of_nat k, pp_per_page = n\<rparr> rows = page 100 ((k - 1) * unat n) rows"
proof -
  have n: "0 < unat n" using assms(1) by simp
  note b = ceiling_bounds [OF n assms(3)]
  have "(k - 1) * unat n \<le> (unat (page_count n (length rows)) - 1) * unat n"
    using assms(5) by (intro mult_right_mono) auto
  with b(2) assms(2) have o: "(k - 1) * unat n < 2 ^ 32"
    by (simp only: page_count_value [OF n assms(3, 2)])
  have "unat (page_count n (length rows)) < 2 ^ LENGTH(32)" by (rule unsigned_less)
  with assms(5) have "unat (word_of_nat k :: 32 word) = k" by (simp add: unat_of_nat)
  then have "PaginationParams_offset \<lparr>pp_page = word_of_nat k, pp_per_page = n\<rparr> = (k - 1) * unat n"
    using o by (simp add: PaginationParams_offset_def unat_offset)
  moreover have "unat (min n 100) = 100" using assms(1) by (simp add: min_def word_le_nat_alt)
  ultimately show ?thesis by (simp add: shown_def PaginationParams_limit_def)
qed

lemma page_misses:
  assumes "distinct rows" and "i < length rows" and "100 \<le> i mod n"
  shows "rows ! i \<notin> set (page 100 (j * n) rows)"
proof
  assume "rows ! i \<in> set (page 100 (j * n) rows)"
  then obtain l where l: "l < 100" "j * n + l < length rows" "rows ! i = rows ! (j * n + l)"
    by (auto simp: page_def in_set_conv_nth)
  with assms(1, 2) have "i = j * n + l" by (simp add: nth_eq_iff_index_eq)
  then have "i mod n \<le> l" by (simp add: mod_mult_self3)
  with l(1) assms(3) show False by simp
qed

text \<open>
  A page size above 100 loses rows: the limit is cut to 100 while the offset and the number of
  pages go on with the requested size, so that no announced page shows a row whose place is 100 or
  more past the start of its page.
\<close>

theorem oversized_pages_lose_rows:
  assumes "100 < unat n" and "distinct rows" and "length rows < 2 ^ 32"
    and "i < length rows" and "100 \<le> i mod unat n"
    and "1 \<le> k" and "k \<le> unat (pm_total_pages (PaginationMeta_new \<lparr>pp_page = 1, pp_per_page = n\<rparr> (length rows)))"
  shows "rows ! i \<notin> set (shown \<lparr>pp_page = word_of_nat k, pp_per_page = n\<rparr> rows)"
proof -
  have "k \<le> unat (page_count n (length rows))"
    using assms(7) by (simp add: PaginationMeta_new_def)
  then have "shown \<lparr>pp_page = word_of_nat k, pp_per_page = n\<rparr> rows = page 100 ((k - 1) * unat n) rows"
    using assms by (intro shown_oversized) auto
  with page_misses [OF assms(2, 4, 5)] show ?thesis by simp
qed

theorem oversized_pages_lose_rows_witness:
  "[0..<250::nat] ! 120 \<notin> set (shown \<lparr>pp_page = word_of_nat 1, pp_per_page = 200\<rparr> [0..<250])"
  by (rule oversized_pages_lose_rows) (simp_all add: PaginationMeta_new_def page_count_def Let_def)

end
