(* ===== verification/CodecSpec.thy ===== *)
theory CodecSpec
  imports PlatformTypes TeamTypes VetoTypes InviteTypes ResultTypes
begin

text \<open>
  The stored texts of the enums, over all components: what the interpretations of the codec
  locales say about the parsers and printers of the code, written out.
\<close>

text \<open>What each interpretation says of its parser.\<close>

lemmas parser_facts =
  tournament_format.parse_render tournament_format.parse_iff tournament_participant_type.parse_render
  tournament_participant_type.parse_iff tournament_kind.parse_render tournament_kind.parse_iff
  registration_type.parse_render registration_type.parse_iff tournament_invitation_status.parse_render
  tournament_invitation_status.parse_iff scheduling_mode.parse_render scheduling_mode.parse_iff
  tournament_match_status.parse_render tournament_match_status.parse_iff
  tournament_registration_status.parse_render tournament_registration_status.parse_iff
  withdrawal_policy.parse_render withdrawal_policy.parse_iff stage_format.parse_render stage_format.parse_iff
  bracket_type.parse_render bracket_type.parse_iff stage_status.parse_render stage_status.parse_iff
  bracket_status.parse_render bracket_status.parse_iff advancement_rule.parse_render
  advancement_rule.parse_iff match_format.parse_render match_format.parse_iff seeding_algorithm.parse_render
  seeding_algorithm.parse_iff proposal_status.parse_render proposal_status.parse_iff
  exception_type.parse_render exception_type.parse_iff tournament_status.parse_render
  tournament_status.parse_iff veto_action_type.parse_render veto_action_type.parse_iff
  side_selection_mode.parse_render side_selection_mode.parse_iff veto_status.parse_render
  veto_status.parse_iff forfeit_type.parse_render forfeit_type.parse_iff season_status.parse_render
  season_status.parse_iff roster_lock_status.parse_render roster_lock_status.parse_iff
  league_team_status.parse_render league_team_status.parse_iff league_team_season_status.parse_render
  league_team_season_status.parse_iff league_team_role.parse_render league_team_role.parse_iff
  league_team_member_status.parse_render league_team_member_status.parse_iff
  league_team_invitation_type.parse_render league_team_invitation_type.parse_iff
  league_team_invitation_status.parse_render league_team_invitation_status.parse_iff
  lineup_status.parse_render lineup_status.parse_iff lineup_source.parse_render lineup_source.parse_iff
  participation_status.parse_render participation_status.parse_iff pug_status.parse_render
  pug_status.parse_iff pug_map_selection_mode.parse_render pug_map_selection_mode.parse_iff
  demo_category.parse_render demo_category.parse_iff demo_status.parse_render demo_status.parse_iff
  demo_link_type.parse_render demo_link_type.parse_iff evidence_type.parse_render evidence_type.parse_iff
  reservation_kind.parse_render reservation_kind.parse_iff entity_status.parse_render entity_status.parse_iff
  match_status.parse_render match_status.parse_iff claim_status.parse_render claim_status.parse_iff
  dispute_reason.parse_render dispute_reason.parse_iff dispute_status.parse_render dispute_status.parse_iff
  dispute_priority.parse_render dispute_priority.parse_iff resolution_type.parse_render
  resolution_type.parse_iff author_type.parse_render author_type.parse_iff result_review_status.parse_render
  result_review_status.parse_iff saga_status.parse_render saga_status.parse_iff step_status.parse_render
  step_status.parse_iff progression_type.parse_render progression_type.parse_iff change_type.parse_render
  change_type.parse_iff game_server_status.parse_exact reservation_status.parse_exact
  substitution_status.parse_exact


end
