(* ===== verification/InviteRepo.thy ===== *)
theory InviteRepo
  imports World
begin

text \<open>
  The tables of invitations (\<open>portal-db/src/adapters/tournament/invitation.rs\<close>, constraints of
  migration 0078), map pools (\<open>map_pool.rs\<close>) and forfeit records
  (\<open>portal-db/src/adapters/forfeit.rs\<close>). A target has at most one live invitation to a
  tournament; a forfeit of a match by a registration is recorded once, however often it is tried.
\<close>

section \<open>Invitations\<close>

text \<open>The partial unique indexes: only rows that are not revoked clash.\<close>

definition invitation_clash :: "TournamentInvitation list \<Rightarrow> TournamentInvitation \<Rightarrow> bool" where
  "invitation_clash rows i \<longleftrightarrow> inv_status i \<noteq> TournamentInvitationStatus.Revoked \<and>
     list_ex (\<lambda>x. inv_status x \<noteq> TournamentInvitationStatus.Revoked \<and>
       inv_tournament_id x = inv_tournament_id i \<and>
       (inv_user_id i \<noteq> None \<and> inv_user_id x = inv_user_id i \<or>
        inv_team_season_id i \<noteq> None \<and> inv_team_season_id x = inv_team_season_id i)) rows"

definition one_target :: "TournamentInvitation \<Rightarrow> bool" where
  "one_target i \<longleftrightarrow> (inv_user_id i = None) \<noteq> (inv_team_season_id i = None)"

definition invitation_find_by_id :: "uuid \<Rightarrow> TournamentInvitation option service" where
  "invitation_find_by_id i = sget (\<lambda>w. find_row inv_id i (w_invitations w))"

definition invitation_find_for_user :: "uuid \<Rightarrow> uuid \<Rightarrow> TournamentInvitation option service" where
  "invitation_find_for_user t user_id = sget (\<lambda>w. find (\<lambda>i. inv_tournament_id i = t \<and>
     inv_user_id i = Some user_id \<and> inv_status i \<noteq> TournamentInvitationStatus.Revoked) (w_invitations w))"

definition invitation_find_for_team_season :: "uuid \<Rightarrow> uuid \<Rightarrow> TournamentInvitation option service" where
  "invitation_find_for_team_season t team_season_id = sget (\<lambda>w. find (\<lambda>i. inv_tournament_id i = t \<and>
     inv_team_season_id i = Some team_season_id \<and> inv_status i \<noteq> TournamentInvitationStatus.Revoked)
     (w_invitations w))"

text \<open>Ids are compared byte by byte.\<close>

fun uuid_le :: "uuid \<Rightarrow> uuid \<Rightarrow> bool" where
  "uuid_le [] ds \<longleftrightarrow> True"
| "uuid_le (c # cs) [] \<longleftrightarrow> False"
| "uuid_le (c # cs) (d # ds) \<longleftrightarrow> (if c = d then uuid_le cs ds else (of_char c :: nat) < of_char d)"

text \<open>\<open>ORDER BY created_at DESC, id DESC\<close>.\<close>

definition newest_le :: "TournamentInvitation \<Rightarrow> TournamentInvitation \<Rightarrow> bool" where
  "newest_le = lex_by (\<lambda>x y. inv_created_at y \<le> inv_created_at x) (\<lambda>x y. uuid_le (inv_id y) (inv_id x))"

definition invitation_list_by_tournament :: "uuid \<Rightarrow> TournamentInvitation list service" where
  "invitation_list_by_tournament t = sget (\<lambda>w.
     sort_by newest_le (filter (\<lambda>i. inv_tournament_id i = t) (w_invitations w)))"

definition invitation_row :: "uuid \<Rightarrow> datetime \<Rightarrow> CreateTournamentInvitation \<Rightarrow> TournamentInvitation" where
  "invitation_row i t c = \<lparr>inv_id = i, inv_tournament_id = cinv_tournament_id c, inv_user_id = cinv_user_id c,
     inv_team_season_id = cinv_team_season_id c, inv_status = TournamentInvitationStatus.Pending,
     inv_message = cinv_message c, inv_invited_by = cinv_invited_by c, inv_accepted_at = None,
     inv_revoked_at = None, inv_created_at = t\<rparr>"

definition invitation_create :: "CreateTournamentInvitation \<Rightarrow> TournamentInvitation service" where
  "invitation_create c = sbind new_uuid (\<lambda>i. sbind now (\<lambda>t. \<lambda>w.
     let row = invitation_row i t c in
     if \<not> one_target row then (Inl (db_error (CheckViolation ''tournament_invitations_check_target'') w), w)
     else if invitation_clash (w_invitations w) row
     then (Inl (Conflict ''Target already has an invitation''), w)
     else insert_returning w_invitations_update row w))"

definition invitation_set :: "uuid \<Rightarrow> (datetime \<Rightarrow> TournamentInvitation \<Rightarrow> TournamentInvitation) \<Rightarrow>
    TournamentInvitation service" where
  "invitation_set i f = (\<lambda>w. case find_row inv_id i (w_invitations w) of
     None \<Rightarrow> (Inl (TournamentInvitationNotFound i), w)
   | Some r \<Rightarrow>
       if invitation_clash (filter (\<lambda>x. inv_id x \<noteq> i) (w_invitations w)) (f (w_now w) r)
       then (Inl (db_error (UniqueViolation ''idx_tournament_invitations_unique'') w), w)
       else (Inr (f (w_now w) r), w_invitations_update (modify_row inv_id i (f (w_now w))) w))"

definition invitation_mark_accepted :: "uuid \<Rightarrow> TournamentInvitation service" where
  "invitation_mark_accepted i = invitation_set i (\<lambda>t x. x\<lparr>inv_status := TournamentInvitationStatus.Accepted,
     inv_accepted_at := coalesce (inv_accepted_at x) (Some t)\<rparr>)"

definition invitation_revoke :: "uuid \<Rightarrow> TournamentInvitation service" where
  "invitation_revoke i = invitation_set i (\<lambda>t x. x\<lparr>inv_status := TournamentInvitationStatus.Revoked,
     inv_revoked_at := Some t\<rparr>)"

section \<open>Map pools\<close>

definition map_pool_find_by_id :: "uuid \<Rightarrow> TournamentMapPool option service" where
  "map_pool_find_by_id i = sget (\<lambda>w. find_row mp_id i (w_map_pools w))"

definition map_pool_find_by_tournament :: "uuid \<Rightarrow> TournamentMapPool option service" where
  "map_pool_find_by_tournament t = sget (\<lambda>w.
     find (\<lambda>p. mp_tournament_id p = t \<and> mp_stage_id p = None) (w_map_pools w))"

definition map_pool_find_by_stage :: "uuid \<Rightarrow> TournamentMapPool option service" where
  "map_pool_find_by_stage stage_id = sget (\<lambda>w. find (\<lambda>p. mp_stage_id p = Some stage_id) (w_map_pools w))"

text \<open>The pool of the stage, or else that of the tournament.\<close>

definition map_pool_get_effective :: "uuid \<Rightarrow> uuid option \<Rightarrow> TournamentMapPool option service" where
  "map_pool_get_effective t stage_id =
     sbind (case stage_id of None \<Rightarrow> sret None | Some s \<Rightarrow> map_pool_find_by_stage s) (\<lambda>of_stage.
       case of_stage of Some p \<Rightarrow> sret (Some p) | None \<Rightarrow> map_pool_find_by_tournament t)"

definition map_pool_upsert :: "UpsertTournamentMapPool \<Rightarrow> TournamentMapPool service" where
  "map_pool_upsert c = sbind now (\<lambda>t.
     sbind (case ump_stage_id c of
         Some s \<Rightarrow> map_pool_find_by_stage s
       | None \<Rightarrow> map_pool_find_by_tournament (ump_tournament_id c)) (\<lambda>existing. case existing of
       Some p \<Rightarrow> update_returning w_map_pools w_map_pools_update mp_id (db_error RowNotFound) (mp_id p)
         (\<lambda>x. x\<lparr>mp_maps := ump_maps c, mp_veto_format_id := ump_veto_format_id c, mp_updated_at := t\<rparr>)
     | None \<Rightarrow> sbind new_uuid (\<lambda>i. insert_returning w_map_pools_update
         \<lparr>mp_id = i, mp_tournament_id = ump_tournament_id c, mp_stage_id = ump_stage_id c, mp_maps = ump_maps c,
          mp_veto_format_id = ump_veto_format_id c, mp_created_at = t, mp_updated_at = t\<rparr>)))"

definition map_pool_delete :: "uuid \<Rightarrow> unit service" where
  "map_pool_delete i = smodify (w_map_pools_update (filter (\<lambda>p. mp_id p \<noteq> i)))"

section \<open>Forfeit records\<close>

definition same_forfeit :: "uuid \<Rightarrow> uuid \<Rightarrow> ForfeitRecord \<Rightarrow> bool" where
  "same_forfeit m r x \<longleftrightarrow> fr_match_id x = m \<and> fr_forfeiting_registration_id x = r"

text \<open>A second attempt for the same match and registration gives the record that is there.\<close>

definition forfeit_create :: "CreateForfeitRecord \<Rightarrow> ForfeitRecord service" where
  "forfeit_create c = sbind new_uuid (\<lambda>i. sbind now (\<lambda>t. \<lambda>w.
     case find (same_forfeit (cf_match_id c) (cf_forfeiting_registration_id c)) (w_forfeits w) of
       Some r \<Rightarrow> (Inr r, w)
     | None \<Rightarrow> insert_returning w_forfeits_update
         \<lparr>fr_id = i, fr_match_id = cf_match_id c, fr_forfeiting_registration_id = cf_forfeiting_registration_id c,
          fr_forfeit_type = cf_forfeit_type c, fr_reason = cf_reason c,
          fr_triggered_by_user_id = cf_triggered_by_user_id c, fr_triggered_by_system = cf_triggered_by_system c,
          fr_forfeited_at = t\<rparr> w))"

definition forfeit_find_by_id :: "uuid \<Rightarrow> ForfeitRecord option service" where
  "forfeit_find_by_id i = sget (\<lambda>w. find_row fr_id i (w_forfeits w))"

definition forfeit_find_by_match :: "uuid \<Rightarrow> ForfeitRecord option service" where
  "forfeit_find_by_match m = sget (\<lambda>w. list_get (sort_by (\<lambda>x y. fr_forfeited_at y \<le> fr_forfeited_at x)
     (filter (\<lambda>r. fr_match_id r = m) (w_forfeits w))) 0)"

definition forfeit_find_by_registration :: "uuid \<Rightarrow> ForfeitRecord list service" where
  "forfeit_find_by_registration r = sget (\<lambda>w. sort_by (\<lambda>x y. fr_forfeited_at y \<le> fr_forfeited_at x)
     (filter (\<lambda>x. fr_forfeiting_registration_id x = r) (w_forfeits w)))"

definition forfeit_exists_for_match :: "uuid \<Rightarrow> bool service" where
  "forfeit_exists_for_match m = sget (\<lambda>w. list_ex (\<lambda>r. fr_match_id r = m) (w_forfeits w))"

section \<open>Laws\<close>

lemma forfeit_create_again:
  assumes "forfeit_create c w = (Inr r, w')" and "cf_match_id d = cf_match_id c"
    and "cf_forfeiting_registration_id d = cf_forfeiting_registration_id c"
    and "w_forfeits w'' = w_forfeits w'"
  shows "fst (forfeit_create d w'') = Inr r"
proof (cases "find (same_forfeit (cf_match_id c) (cf_forfeiting_registration_id c)) (w_forfeits w)")
  case None
  have app: "find P (xs @ [x]) = (case find P xs of None \<Rightarrow> if P x then Some x else None | Some y \<Rightarrow> Some y)"
    for P and x :: ForfeitRecord and xs by (induction xs) auto
  from None assms show ?thesis
    by (auto simp: forfeit_create_def new_uuid_def insert_returning_def app same_forfeit_def)
next
  case (Some y)
  with assms show ?thesis by (auto simp: forfeit_create_def new_uuid_def)
qed


end
