(* ===== verification/TournamentService.thy ===== *)
theory TournamentService
  imports Registration InviteRepo StageRepo FormatPlan GroupStage
begin

text \<open>
  The tournament service (\<open>services/tournament/service.rs\<close>) without the start of a tournament:
  creation, updates and the status changes, stages, entries with and without invitations, the
  check-in. \<open>shallow_merge\<close> is \<open>services/settings_merge.rs\<close>. The JSON accessors of the parsers are
  those of the datatype of the settings columns.
\<close>

section \<open>JSON\<close>

definition serde_json :: "json json_get_api" where
  "serde_json = \<lparr>as_object = (\<lambda>j. case j of JObj kvs \<Rightarrow> Some kvs | _ \<Rightarrow> None),
     as_str = (\<lambda>j. case j of JStr s \<Rightarrow> Some s | _ \<Rightarrow> None), is_null = (\<lambda>j. j = JNull),
     json_get = (\<lambda>j k. case j of JObj kvs \<Rightarrow> map_of kvs k | _ \<Rightarrow> None),
     as_u64 = (\<lambda>j. case j of JNum i \<Rightarrow> if 0 \<le> i \<and> i < 2 ^ 64 then Some (nat i) else None | _ \<Rightarrow> None)\<rparr>"

definition json_i64 :: "json \<Rightarrow> int option" where
  "json_i64 j = (case j of JNum i \<Rightarrow> if - (2 ^ 63) \<le> i \<and> i < 2 ^ 63 then Some i else None | _ \<Rightarrow> None)"

text \<open>One key of the incoming object: \<open>null\<close> removes it, any other value replaces it.\<close>

definition merge_key :: "string \<times> json \<Rightarrow> (string \<times> json) list \<Rightarrow> (string \<times> json) list" where
  "merge_key kv merged = (let rest = filter (\<lambda>(k, _). k \<noteq> fst kv) merged in
     if snd kv = JNull then rest else rest @ [kv])"

definition shallow_merge :: "json \<Rightarrow> json \<Rightarrow> json" where
  "shallow_merge stored incoming = (case (stored, incoming) of
     (JObj stored_obj, JObj incoming_obj) \<Rightarrow> JObj (fold merge_key incoming_obj stored_obj)
   | (_, other) \<Rightarrow> other)"

section \<open>Commands\<close>

record CreateTournamentCommand =
  ctc_game_id :: uuid
  ctc_league_id :: "uuid option"
  ctc_season_id :: "uuid option"
  ctc_name :: string
  ctc_slug :: string
  ctc_description :: "string option"
  ctc_format :: TournamentFormat
  ctc_format_settings :: "json option"
  ctc_participant_type :: TournamentParticipantType
  ctc_team_size :: "int option"
  ctc_min_participants :: int
  ctc_max_participants :: int
  ctc_registration_type :: RegistrationType
  ctc_registration_start :: "datetime option"
  ctc_registration_end :: "datetime option"
  ctc_check_in_required :: bool
  ctc_check_in_start :: "datetime option"
  ctc_check_in_end :: "datetime option"
  ctc_scheduling_mode :: SchedulingMode
  ctc_starts_at :: "datetime option"
  ctc_default_match_format :: MatchFormat
  ctc_default_map_veto_format :: "string option"
  ctc_withdrawal_policy :: WithdrawalPolicy
  ctc_rules_url :: "string option"
  ctc_settings :: "json option"
  ctc_map_pool :: "string list"

record UpdateTournamentCommand =
  utc_name :: "string option"
  utc_slug :: "string option"
  utc_description :: "string option"
  utc_logo_url :: "string option"
  utc_banner_url :: "string option"
  utc_format_settings :: "json option"
  utc_min_participants :: "int option"
  utc_max_participants :: "int option"
  utc_registration_start :: "datetime option"
  utc_registration_end :: "datetime option"
  utc_check_in_required :: "bool option"
  utc_check_in_start :: "datetime option"
  utc_check_in_end :: "datetime option"
  utc_starts_at :: "datetime option"
  utc_ends_at :: "datetime option"
  utc_timezone_hint :: "string option"
  utc_default_match_format :: "MatchFormat option"
  utc_default_map_veto_format :: "string option"
  utc_prize_pool :: "json option"
  utc_rules_url :: "string option"
  utc_settings :: "json option"
  utc_withdrawal_policy :: "WithdrawalPolicy option"

record CreateTournamentStageCommand =
  csc_tournament_id :: uuid
  csc_name :: string
  csc_stage_order :: int
  csc_format :: StageFormat
  csc_format_settings :: "json option"
  csc_advancement_count :: "int option"
  csc_advancement_rule :: AdvancementRule
  csc_match_format :: "MatchFormat option"
  csc_map_veto_format :: "string option"
  csc_starts_at :: "datetime option"
  csc_ends_at :: "datetime option"

section \<open>Creation and updates\<close>

definition get_tournament :: "uuid \<Rightarrow> Tournament service" where
  "get_tournament i = sbind (tournament_find_by_id i) (sneed (TournamentNotFound i))"

definition get_tournament_by_slug :: "string \<Rightarrow> Tournament service" where
  "get_tournament_by_slug slug = sbind (tournament_find_by_slug slug) (sneed (LookupFailed ''tournament'' slug))"

definition range_error :: DomainError where
  "range_error = Validation (ValidationError_field \<lparr>fe_field = ''min_participants'',
     fe_message = ''min_participants cannot be greater than max_participants'', fe_code = ''invalid_range''\<rparr>)"

definition slug_error :: "string \<Rightarrow> DomainError" where
  "slug_error slug = Conflict (''Tournament with slug '' @ [single_quote] @ slug @ [single_quote] @ '' already exists'')"

definition create_tournament :: "CreateTournamentCommand \<Rightarrow> uuid \<Rightarrow> Tournament service" where
  "create_tournament c created_by =
     (if ctc_min_participants c > ctc_max_participants c then sfail range_error
      else sbind (tournament_slug_exists (ctc_slug c)) (\<lambda>taken.
      if taken then sfail (slug_error (ctc_slug c))
      else sbind (tournament_create
        \<lparr>ct_game_id = ctc_game_id c, ct_league_id = ctc_league_id c, ct_season_id = ctc_season_id c,
         ct_name = ctc_name c, ct_slug = ctc_slug c, ct_description = ctc_description c,
         ct_format = ctc_format c, ct_format_settings = or_old (ctc_format_settings c) (JObj []),
         ct_participant_type = ctc_participant_type c, ct_kind = TournamentKind.Standard,
         ct_team_size = ctc_team_size c, ct_min_participants = ctc_min_participants c,
         ct_max_participants = ctc_max_participants c, ct_registration_type = ctc_registration_type c,
         ct_registration_start = ctc_registration_start c, ct_registration_end = ctc_registration_end c,
         ct_check_in_required = ctc_check_in_required c, ct_check_in_start = ctc_check_in_start c,
         ct_check_in_end = ctc_check_in_end c, ct_scheduling_mode = ctc_scheduling_mode c,
         ct_starts_at = ctc_starts_at c, ct_default_match_format = ctc_default_match_format c,
         ct_default_map_veto_format = ctc_default_map_veto_format c,
         ct_withdrawal_policy = ctc_withdrawal_policy c, ct_rules_url = ctc_rules_url c,
         ct_settings = or_old (ctc_settings c) (JObj []), ct_created_by = created_by\<rparr>) (\<lambda>t.
      sbind (sattempt (map_pool_upsert \<lparr>ump_tournament_id = t_id t, ump_stage_id = None, ump_maps = ctc_map_pool c,
         ump_veto_format_id = ctc_default_map_veto_format c\<rparr>)) (\<lambda>r. case r of
        Inl e \<Rightarrow> sbind (sattempt (tournament_delete (t_id t))) (\<lambda>_. sfail e)
      | Inr _ \<Rightarrow> sret t))))"

definition update_tournament :: "uuid \<Rightarrow> UpdateTournamentCommand \<Rightarrow> Tournament service" where
  "update_tournament i c = sbind (get_tournament i) (\<lambda>t.
     if Tournament_has_started t then sfail TournamentAlreadyStarted
     else if or_old (utc_min_participants c) (t_min_participants t) > or_old (utc_max_participants c) (t_max_participants t)
     then sfail range_error
     else sbind (case utc_slug c of
         None \<Rightarrow> sret False
       | Some new_slug \<Rightarrow> if new_slug \<noteq> t_slug t then tournament_slug_exists new_slug else sret False) (\<lambda>taken.
     if taken then sfail (slug_error (or_old (utc_slug c) []))
     else tournament_update i
       \<lparr>ut_name = utc_name c, ut_slug = utc_slug c, ut_description = utc_description c,
        ut_format_settings = utc_format_settings c, ut_min_participants = utc_min_participants c,
        ut_max_participants = utc_max_participants c, ut_registration_start = utc_registration_start c,
        ut_registration_end = utc_registration_end c, ut_check_in_required = utc_check_in_required c,
        ut_check_in_start = utc_check_in_start c, ut_check_in_end = utc_check_in_end c,
        ut_starts_at = utc_starts_at c, ut_ends_at = utc_ends_at c, ut_timezone_hint = utc_timezone_hint c,
        ut_default_match_format = utc_default_match_format c,
        ut_default_map_veto_format = utc_default_map_veto_format c, ut_prize_pool = utc_prize_pool c,
        ut_rules_url = utc_rules_url c,
        ut_settings = map_option (shallow_merge (t_settings t)) (utc_settings c),
        ut_withdrawal_policy = utc_withdrawal_policy c\<rparr>))"

section \<open>Status changes\<close>

definition publish_tournament :: "uuid \<Rightarrow> Tournament service" where
  "publish_tournament i = sbind (get_tournament i) (\<lambda>t.
     if t_status t \<noteq> TournamentStatus.Draft
     then sfail (InvalidState (''Cannot publish tournament in '' @ TournamentStatus_to_string (t_status t) @ '' status''))
     else tournament_mark_published i)"

definition change_status :: "TournamentStatus \<Rightarrow> uuid \<Rightarrow> Tournament service" where
  "change_status target i = sbind (get_tournament i) (\<lambda>t.
     if \<not> TournamentStatus_can_transition_to (t_status t) target
     then sfail (InvalidTournamentTransition (TournamentStatus_to_string (t_status t)) (TournamentStatus_to_string target))
     else tournament_update_status i target)"

definition open_registration :: "uuid \<Rightarrow> Tournament service" where
  "open_registration = change_status TournamentStatus.Registration"

definition close_registration :: "uuid \<Rightarrow> Tournament service" where
  "close_registration = change_status TournamentStatus.Scheduled"

definition reopen_registration :: "uuid \<Rightarrow> Tournament service" where
  "reopen_registration = change_status TournamentStatus.Registration"

definition cancel_tournament :: "uuid \<Rightarrow> Tournament service" where
  "cancel_tournament = change_status TournamentStatus.Cancelled"

definition complete_tournament :: "uuid \<Rightarrow> Tournament service" where
  "complete_tournament = change_status TournamentStatus.Completed"

definition finalize_tournament :: "uuid \<Rightarrow> Tournament service" where
  "finalize_tournament = change_status TournamentStatus.Finalized"

definition move_tournament :: "(uuid \<Rightarrow> uuid \<Rightarrow> bool) \<Rightarrow> uuid \<Rightarrow> uuid option \<Rightarrow> uuid option \<Rightarrow> Tournament service" where
  "move_tournament season_of_league i league_id season_id = sbind (get_tournament i) (\<lambda>t.
     if season_id \<noteq> None \<and> league_id = None
     then sfail (InvalidState ''a season cannot be set without its league'')
     else if t_league_id t = league_id \<and> t_season_id t = season_id
     then sfail (InvalidState ''tournament is already there'')
     else sbind (tournament_count_registrations i) (\<lambda>registrations.
     if registrations > 0
     then sfail (InvalidState (''tournament has '' @ show_nat registrations @
       '' registration(s) tied to its current league; move refused rather than stranding them''))
     else tournament_set_league_and_season season_of_league i league_id season_id))"

definition archive_tournament :: "uuid \<Rightarrow> uuid \<Rightarrow> Tournament service" where
  "archive_tournament i archived_by = tournament_set_archived i (Some archived_by)"

definition restore_tournament :: "uuid \<Rightarrow> Tournament service" where
  "restore_tournament i = tournament_set_archived i None"

definition delete_tournament :: "uuid \<Rightarrow> unit service" where
  "delete_tournament i = sbind (get_tournament i) (\<lambda>t.
     if t_status t \<noteq> TournamentStatus.Draft
     then sfail (InvalidState ''Can only delete tournaments in draft status'')
     else tournament_delete i)"

section \<open>Stages\<close>

definition plan_or_invalid :: "MatchFormat \<Rightarrow> json option \<Rightarrow> MatchFormatPlan service" where
  "plan_or_invalid f settings = slift (map_sum (\<lambda>e. InvalidState (''invalid stage format settings: '' @ e)) id
     (MatchFormatPlan_from_settings (json_api.truncate serde_json) f settings))"

definition create_stage :: "CreateTournamentStageCommand \<Rightarrow> TournamentStage service" where
  "create_stage c = sbind (get_tournament (csc_tournament_id c)) (\<lambda>t.
     if Tournament_has_started t then sfail TournamentAlreadyStarted
     else sbind (plan_or_invalid (or_old (csc_match_format c) (t_default_match_format t)) (csc_format_settings c)) (\<lambda>_.
     stage_create \<lparr>cs_tournament_id = csc_tournament_id c, cs_name = csc_name c, cs_stage_order = csc_stage_order c,
       cs_format = csc_format c, cs_format_settings = or_old (csc_format_settings c) (JObj []),
       cs_advancement_count = csc_advancement_count c, cs_advancement_rule = csc_advancement_rule c,
       cs_match_format = csc_match_format c, cs_map_veto_format = csc_map_veto_format c,
       cs_starts_at = csc_starts_at c, cs_ends_at = csc_ends_at c\<rparr>))"

definition update_stage :: "uuid \<Rightarrow> uuid \<Rightarrow> UpdateTournamentStage \<Rightarrow> TournamentStage service" where
  "update_stage t stage_id u = sbind (get_tournament t) (\<lambda>tournament.
     sbind (stage_find_by_id stage_id) (\<lambda>found.
     sbind (sneed (TournamentStageNotFound stage_id)
       (Option.bind found (\<lambda>s. if st_tournament_id s = t then Some s else None))) (\<lambda>stage.
     if st_status stage \<noteq> StageStatus.Pending
     then sfail (InvalidState (''Cannot edit a stage in '' @ StageStatus_to_string (st_status stage) @
       '' status '' @ em_dash @ '' its matches already exist''))
     else sbind (plan_or_invalid
         (or_old (us_match_format u) (or_old (st_match_format stage) (t_default_match_format tournament)))
         (Some (or_old (us_format_settings u) (st_format_settings stage)))) (\<lambda>_.
       stage_update stage_id u))))"

section \<open>Entries\<close>

definition require_invitation :: "Tournament \<Rightarrow> TournamentInvitation option service \<Rightarrow> TournamentInvitation option service" where
  "require_invitation t lookup =
     (if \<not> RegistrationType_requires_invitation (t_registration_type t) then sret None
      else sbind lookup (\<lambda>found.
        sbind (sneed TournamentInviteOnly (Option.bind found (\<lambda>i.
          if TournamentInvitation_permits_registration i then Some i else None))) (\<lambda>i. sret (Some i))))"

definition require_team_invitation :: "Tournament \<Rightarrow> uuid \<Rightarrow> TournamentInvitation option service" where
  "require_team_invitation t team_season_id =
     require_invitation t (invitation_find_for_team_season (t_id t) team_season_id)"

definition require_user_invitation :: "Tournament \<Rightarrow> uuid \<Rightarrow> TournamentInvitation option service" where
  "require_user_invitation t user_id = require_invitation t (invitation_find_for_user (t_id t) user_id)"

text \<open>The entry exists already: a failure to mark the invitation is dropped.\<close>

definition consume_invitation :: "TournamentInvitation option \<Rightarrow> unit service" where
  "consume_invitation invitation = (case invitation of
     None \<Rightarrow> sret ()
   | Some i \<Rightarrow> sbind (sattempt (invitation_mark_accepted (inv_id i))) (\<lambda>_. sret ()))"

definition replaceable :: "TournamentRegistration option \<Rightarrow> uuid option service" where
  "replaceable existing = (case existing of
     None \<Rightarrow> sret None
   | Some r \<Rightarrow> if TournamentRegistrationStatus_is_terminal (r_status r) then sret (Some (r_id r))
       else sfail AlreadyRegisteredForTournament)"

definition register_team :: "uuid \<Rightarrow> uuid \<Rightarrow> string \<Rightarrow> string option \<Rightarrow> uuid \<Rightarrow> TournamentRegistration service" where
  "register_team t team_season_id participant_name participant_logo_url registered_by =
     sbind (get_tournament t) (\<lambda>tournament. sbind now (\<lambda>clock.
     if \<not> Tournament_is_registration_open clock tournament then sfail TournamentNotOpen
     else sbind (require_team_invitation tournament team_season_id) (\<lambda>invitation.
     sbind (registration_find_by_team_season t team_season_id) (\<lambda>existing.
     sbind (replaceable existing) (\<lambda>replace_terminal.
     sbind (registration_create_with_capacity_check
       \<lparr>cr_tournament_id = t, cr_team_season_id = Some team_season_id, cr_player_id = None, cr_adhoc_team_id = None,
        cr_participant_name = participant_name, cr_participant_logo_url = participant_logo_url,
        cr_registered_by = registered_by, cr_seed_rating = None,
        cr_status = initial_registration_status (t_registration_type tournament)\<rparr> replace_terminal) (\<lambda>registration.
     sbind (consume_invitation invitation) (\<lambda>_. sret registration)))))))"

definition register_player :: "uuid \<Rightarrow> uuid \<Rightarrow> string \<Rightarrow> uuid \<Rightarrow> TournamentRegistration service" where
  "register_player t player_id participant_name registered_by =
     sbind (get_tournament t) (\<lambda>tournament. sbind now (\<lambda>clock.
     if \<not> Tournament_is_registration_open clock tournament then sfail TournamentNotOpen
     else sbind (require_user_invitation tournament registered_by) (\<lambda>invitation.
     sbind (registration_find_by_player t player_id) (\<lambda>existing.
     sbind (replaceable existing) (\<lambda>replace_terminal.
     sbind (registration_create_with_capacity_check
       \<lparr>cr_tournament_id = t, cr_team_season_id = None, cr_player_id = Some player_id, cr_adhoc_team_id = None,
        cr_participant_name = participant_name, cr_participant_logo_url = None,
        cr_registered_by = registered_by, cr_seed_rating = None,
        cr_status = initial_registration_status (t_registration_type tournament)\<rparr> replace_terminal) (\<lambda>registration.
     sbind (consume_invitation invitation) (\<lambda>_. sret registration)))))))"

section \<open>Invitations\<close>

definition target_error :: "string \<Rightarrow> string \<Rightarrow> DomainError" where
  "target_error field message = Validation (ValidationError_field
     \<lparr>fe_field = field, fe_message = message, fe_code = ''invalid_target''\<rparr>)"

definition invite_to_tournament :: "uuid \<Rightarrow> uuid option \<Rightarrow> uuid option \<Rightarrow> string option \<Rightarrow> uuid \<Rightarrow>
    TournamentInvitation service" where
  "invite_to_tournament t user_id team_season_id message invited_by = sbind (get_tournament t) (\<lambda>tournament.
     if (user_id = None) = (team_season_id = None)
     then sfail (target_error ''user_id'' ''exactly one of user_id or team_season_id must be provided'')
     else if TournamentParticipantType_requires_team_size (t_participant_type tournament) \<and> team_season_id = None
     then sfail (target_error ''team_season_id'' ''team tournaments must be invited by team_season_id'')
     else if \<not> TournamentParticipantType_requires_team_size (t_participant_type tournament) \<and> user_id = None
     then sfail (target_error ''user_id'' ''individual tournaments must be invited by user_id'')
     else invitation_create \<lparr>cinv_tournament_id = t, cinv_user_id = user_id, cinv_team_season_id = team_season_id,
       cinv_message = message, cinv_invited_by = invited_by\<rparr>)"

definition list_invitations :: "uuid \<Rightarrow> TournamentInvitation list service" where
  "list_invitations t = sbind (get_tournament t) (\<lambda>_. invitation_list_by_tournament t)"

definition revoke_invitation :: "uuid \<Rightarrow> uuid \<Rightarrow> TournamentInvitation service" where
  "revoke_invitation t invitation_id = sbind (invitation_find_by_id invitation_id) (\<lambda>found.
     sbind (sneed (TournamentInvitationNotFound invitation_id) found) (\<lambda>i.
     if inv_tournament_id i \<noteq> t then sfail (TournamentInvitationNotFound invitation_id)
     else invitation_revoke invitation_id))"

section \<open>Check-in and lookups\<close>

definition tournament_check_in :: "uuid \<Rightarrow> uuid \<Rightarrow> TournamentRegistration service" where
  "tournament_check_in registration_id checked_in_by =
     sbind (get_registration registration_id) (\<lambda>registration.
     sbind (get_tournament (r_tournament_id registration)) (\<lambda>t. sbind now (\<lambda>clock.
     if \<not> Tournament_is_check_in_open clock t then sfail (InvalidState ''Check-in is not currently open'')
     else if r_checked_in registration then sfail (Conflict ''Already checked in'')
     else if \<not> TournamentRegistrationStatus_can_check_in (r_status registration)
     then sfail (wrong_status ''check in'' registration)
     else registration_check_in registration_id checked_in_by)))"

definition get_tournament_match :: "uuid \<Rightarrow> uuid \<Rightarrow> TournamentMatch service" where
  "get_tournament_match t i = sbind (match_find_by_id i) (\<lambda>found.
     sbind (sneed (TournamentMatchNotFound i) found) (\<lambda>m.
     if m_tournament_id m \<noteq> t then sfail (TournamentMatchNotFound i) else sret m))"

text \<open>A tournament for the examples: single elimination, four places, open to everyone.\<close>

definition example_tournament :: CreateTournament where
  "example_tournament = \<lparr>ct_game_id = ''g'', ct_league_id = None, ct_season_id = None, ct_name = ''cup'',
     ct_slug = ''cup'', ct_description = None, ct_format = TournamentFormat.SingleElimination,
     ct_format_settings = JObj [], ct_participant_type = TournamentParticipantType.Team,
     ct_kind = TournamentKind.Standard, ct_team_size = Some 5, ct_min_participants = 2, ct_max_participants = 4,
     ct_registration_type = RegistrationType.Open, ct_registration_start = None, ct_registration_end = None,
     ct_check_in_required = False, ct_check_in_start = None, ct_check_in_end = None,
     ct_scheduling_mode = SchedulingMode.Live, ct_starts_at = None, ct_default_match_format = MatchFormat.Bo1,
     ct_default_map_veto_format = None, ct_withdrawal_policy = WithdrawalPolicy.Forfeit, ct_rules_url = None,
     ct_settings = JObj [], ct_created_by = ''u''\<rparr>"

end
