(* ===== verification/Seeding.thy ===== *)
theory Seeding
  imports TournamentService
begin

text \<open>
  The seeding service (\<open>services/tournament/seeding.rs\<close>). The shuffle is the random library's:
  a parameter that rearranges a list by a number drawn from the random source.
\<close>

record SeedingParticipant =
  sd_registration_id :: uuid
  sd_participant_name :: string
  sd_seed :: int
  sd_seed_rating :: "int option"

section \<open>Seeds\<close>

definition get_eligible_participants :: "uuid \<Rightarrow> TournamentRegistration list service" where
  "get_eligible_participants t =
     sbind (registration_list_all_by_tournament t (Some TournamentRegistrationStatus.CheckedIn)) (\<lambda>checked_in.
     if checked_in \<noteq> [] then sret checked_in
     else registration_list_all_by_tournament t (Some TournamentRegistrationStatus.Approved))"

definition seed_random :: "(nat \<Rightarrow> nat list \<Rightarrow> nat list) \<Rightarrow> TournamentRegistration list \<Rightarrow> SeedingParticipant list service" where
  "seed_random shuffle registrations = sbind draw (\<lambda>n. sret (map (\<lambda>(seed_idx, reg_idx).
     \<lparr>sd_registration_id = r_id (registrations ! reg_idx),
      sd_participant_name = r_participant_name (registrations ! reg_idx),
      sd_seed = int (seed_idx + 1), sd_seed_rating = None\<rparr>)
     (enumerate 0 (shuffle n [0..<length registrations]))))"

definition seed_by_rating :: "TournamentRegistration list \<Rightarrow> SeedingParticipant list" where
  "seed_by_rating registrations =
     (let with_ratings = map (\<lambda>r. (r, or_old (r_seed_rating r) 1000)) registrations
      in map (\<lambda>(idx, reg, rating). \<lparr>sd_registration_id = r_id reg, sd_participant_name = r_participant_name reg,
           sd_seed = int (idx + 1), sd_seed_rating = Some rating\<rparr>)
         (enumerate 0 (sort_by (\<lambda>a b. snd b \<le> snd a) with_ratings)))"

definition seeds_for :: "(nat \<Rightarrow> nat list \<Rightarrow> nat list) \<Rightarrow> SeedingAlgorithm \<Rightarrow> TournamentRegistration list \<Rightarrow>
    SeedingParticipant list service" where
  "seeds_for shuffle algorithm registrations = (case algorithm of
     SeedingAlgorithm.Random \<Rightarrow> seed_random shuffle registrations
   | SeedingAlgorithm.Rating \<Rightarrow> sret (seed_by_rating registrations)
   | SeedingAlgorithm.SeasonRank \<Rightarrow>
       sfail (InvalidState (''Season-rank seeding is not implemented '' @ em_dash @ '' use rating or random seeding''))
   | SeedingAlgorithm.Manual \<Rightarrow> sfail (InvalidState ''Use manual_seed for manual seeding''))"

definition store_seed :: "SeedingParticipant \<Rightarrow> unit service" where
  "store_seed p = sbind (registration_update (sd_registration_id p)
     (no_registration_update\<lparr>ur_seed := Some (sd_seed p), ur_seed_rating := sd_seed_rating p\<rparr>)) (\<lambda>_. sret ())"

definition auto_seed :: "(nat \<Rightarrow> nat list \<Rightarrow> nat list) \<Rightarrow> uuid \<Rightarrow> SeedingAlgorithm \<Rightarrow> SeedingParticipant list service" where
  "auto_seed shuffle t algorithm = sbind (find_tournament t) (\<lambda>_.
     sbind (get_eligible_participants t) (\<lambda>eligible.
     if eligible = [] then sfail InsufficientParticipants
     else sbind (seeds_for shuffle algorithm eligible) (\<lambda>seeded.
       sbind (sfor store_seed seeded) (\<lambda>_. sret seeded))))"

section \<open>Manual seeds\<close>

text \<open>The first number that the sorted list repeats.\<close>

fun first_repeated :: "int list \<Rightarrow> int option" where
  "first_repeated (x # y # zs) = (if x = y then Some x else first_repeated (y # zs))"
| "first_repeated _ = None"

definition seed_one :: "uuid \<Rightarrow> uuid \<times> int \<Rightarrow> SeedingParticipant service" where
  "seed_one t = (\<lambda>(registration_id, seed). sbind (get_registration registration_id) (\<lambda>registration.
     if r_tournament_id registration \<noteq> t
     then sfail (InvalidState (''Registration '' @ registration_id @ '' does not belong to tournament '' @ t))
     else sbind (registration_update registration_id (no_registration_update\<lparr>ur_seed := Some seed\<rparr>)) (\<lambda>_.
       sret \<lparr>sd_registration_id = registration_id, sd_participant_name = r_participant_name registration,
         sd_seed = seed, sd_seed_rating = r_seed_rating registration\<rparr>)))"

definition manual_seed :: "uuid \<Rightarrow> (uuid \<times> int) list \<Rightarrow> SeedingParticipant list service" where
  "manual_seed t seeds = sbind (find_tournament t) (\<lambda>_.
     let seed_numbers = sort (map snd seeds) in
     case first_repeated seed_numbers of
       Some n \<Rightarrow> sfail (InvalidState (''Duplicate seed number: '' @ show_int n))
     | None \<Rightarrow>
         if seed_numbers \<noteq> [] \<and> hd seed_numbers < 1 then sfail (InvalidState ''Seeds must be positive'')
         else sbind (smap (seed_one t) seeds) (\<lambda>seeded.
           sret (sort_by (\<lambda>x y. sd_seed x \<le> sd_seed y) seeded)))"

definition get_current_seeding :: "uuid \<Rightarrow> SeedingParticipant list service" where
  "get_current_seeding t = sbind (find_tournament t) (\<lambda>_.
     sbind (registration_list_seeded t) (\<lambda>registrations.
     sret (List.map_filter (\<lambda>r. map_option (\<lambda>seed. \<lparr>sd_registration_id = r_id r,
       sd_participant_name = r_participant_name r, sd_seed = seed, sd_seed_rating = r_seed_rating r\<rparr>) (r_seed r))
       registrations)))"

definition clear_seeding :: "uuid \<Rightarrow> unit service" where
  "clear_seeding t = sbind (find_tournament t) (\<lambda>_. registration_clear_seeds t)"

section \<open>What a seeding gives\<close>

lemma seed_by_rating_seeds: "map sd_seed (seed_by_rating rs) = map int [1..<length rs + 1]"
proof -
  let ?s = "sort_by (\<lambda>a b. snd b \<le> snd a) (map (\<lambda>r. (r, or_old (r_seed_rating r) 1000)) rs)"
  have "map sd_seed (seed_by_rating rs) = map ((\<lambda>i. int (i + 1)) \<circ> fst) (enumerate 0 ?s)"
    by (simp add: seed_by_rating_def Let_def comp_def split_def)
  also have "\<dots> = map (\<lambda>i. int (i + 1)) [0..<length rs]"
    by (simp only: map_map [symmetric] map_fst_enumerate) simp
  also have "\<dots> = map int (map Suc [0..<length rs])" by simp
  also have "\<dots> = map int [1..<length rs + 1]" by (simp only: map_Suc_upt) simp
  finally show ?thesis .
qed

lemma map_snd_enumerate: "map (f \<circ> snd) (enumerate n xs) = map f xs"
  by (induction xs arbitrary: n) simp_all

lemma seed_by_rating_ids: "mset (map sd_registration_id (seed_by_rating rs)) = mset (map r_id rs)"
proof -
  let ?s = "sort_by (\<lambda>a b. snd b \<le> snd a) (map (\<lambda>r. (r, or_old (r_seed_rating r) 1000)) rs)"
  have "map sd_registration_id (seed_by_rating rs) = map ((r_id \<circ> fst) \<circ> snd) (enumerate 0 ?s)"
    by (simp add: seed_by_rating_def Let_def comp_def split_def)
  then have "mset (map sd_registration_id (seed_by_rating rs)) = image_mset (r_id \<circ> fst) (mset ?s)"
    by (simp only: map_snd_enumerate mset_map)
  then show ?thesis by (simp add: image_mset.compositionality comp_def)
qed

lemma seed_by_rating_sorted:
  "sorted_wrt (\<lambda>p q. the (sd_seed_rating q) \<le> the (sd_seed_rating p)) (seed_by_rating rs)"
proof -
  let ?s = "sort_by (\<lambda>a b. snd b \<le> snd a) (map (\<lambda>r. (r, or_old (r_seed_rating r) 1000)) rs)"
  have "sorted_wrt (\<lambda>a b. snd b \<le> snd a) ?s" by (rule sorted_sort_by) auto
  then have "sorted_wrt (\<lambda>a b. b \<le> a) (map (snd \<circ> snd) (enumerate 0 ?s))"
    by (simp only: map_snd_enumerate) (simp add: sorted_wrt_map)
  moreover have "map (the \<circ> sd_seed_rating) (seed_by_rating rs) = map (snd \<circ> snd) (enumerate 0 ?s)"
    by (simp add: seed_by_rating_def Let_def comp_def split_def)
  ultimately have "sorted_wrt (\<lambda>a b. b \<le> a) (map (the \<circ> sd_seed_rating) (seed_by_rating rs))" by simp
  then show ?thesis by (simp add: sorted_wrt_map)
qed

lemma seed_by_rating_rating:
  assumes "p \<in> set (seed_by_rating rs)"
  shows "\<exists>r \<in> set rs. sd_registration_id p = r_id r \<and> sd_seed_rating p = Some (or_old (r_seed_rating r) 1000)"
  using assms by (auto simp: seed_by_rating_def Let_def dest!: enumerate_snd_mem)

section \<open>Storing the seeds\<close>

definition seeded_row :: "datetime \<Rightarrow> SeedingParticipant \<Rightarrow> TournamentRegistration \<Rightarrow> TournamentRegistration" where
  "seeded_row t p r = r\<lparr>r_seed := Some (sd_seed p), r_seed_rating := coalesce (sd_seed_rating p) (r_seed_rating r),
     r_updated_at := t\<rparr>"

lemma seeded_row_id [simp]: "r_id (seeded_row t p r) = r_id r"
  by (simp add: seeded_row_def)

lemma store_seed_run:
  assumes "sd_registration_id p \<in> r_id ` set (w_registrations w)"
  shows "store_seed p w = (Inr (), w_registrations_update (modify_row r_id (sd_registration_id p) (seeded_row (w_now w) p)) w)"
proof -
  obtain r where "find_row r_id (sd_registration_id p) (w_registrations w) = Some r"
    using assms by (cases "find_row r_id (sd_registration_id p) (w_registrations w)") (auto simp: find_row_None_iff)
  moreover have "(\<lambda>r. r\<lparr>r_participant_name := r_participant_name r, r_participant_logo_url := r_participant_logo_url r,
      r_seed := Some (sd_seed p), r_seed_rating := coalesce (sd_seed_rating p) (r_seed_rating r),
      r_admin_notes := r_admin_notes r, r_updated_at := w_now w\<rparr>) = seeded_row (w_now w) p"
    by (rule ext) (simp add: seeded_row_def)
  ultimately show ?thesis
    by (simp add: store_seed_def registration_update_def registration_set_def no_registration_update_def
        update_returning_def coalesce_def)
qed

definition store_in :: "datetime \<Rightarrow> SeedingParticipant list \<Rightarrow> TournamentRegistration \<Rightarrow> TournamentRegistration" where
  "store_in t ps r = (case find (\<lambda>p. sd_registration_id p = r_id r) ps of None \<Rightarrow> r | Some p \<Rightarrow> seeded_row t p r)"

lemma store_in_Cons:
  assumes "sd_registration_id p \<notin> sd_registration_id ` set ps"
  shows "store_in t ps (if r_id r = sd_registration_id p then seeded_row t p r else r) = store_in t (p # ps) r"
proof -
  have "find (\<lambda>q. sd_registration_id q = sd_registration_id p) ps = None"
    using assms unfolding find_None_iff by (metis imageI)
  then show ?thesis by (auto simp: store_in_def)
qed

lemma store_all_run:
  assumes "distinct (map sd_registration_id ps)"
    and "sd_registration_id ` set ps \<subseteq> r_id ` set (w_registrations w)"
  shows "sfor store_seed ps w = (Inr (), w_registrations_update (map (store_in (w_now w) ps)) w)"
  using assms
proof (induction ps arbitrary: w)
  case Nil
  then show ?case by (simp add: store_in_def [abs_def])
next
  case (Cons p ps)
  let ?w = "w_registrations_update (modify_row r_id (sd_registration_id p) (seeded_row (w_now w) p)) w"
  have "store_seed p w = (Inr (), ?w)" using Cons.prems by (intro store_seed_run) simp
  moreover have "map r_id (w_registrations ?w) = map r_id (w_registrations w)"
    by (simp add: map_key_modify_row)
  then have ids: "r_id ` set (w_registrations ?w) = r_id ` set (w_registrations w)" by (metis list.set_map)
  have "sfor store_seed ps ?w = (Inr (), w_registrations_update (map (store_in (w_now ?w) ps)) ?w)"
    by (rule Cons.IH) (use Cons.prems ids in auto)
  moreover have "map (store_in (w_now w) ps) \<circ> modify_row r_id (sd_registration_id p) (seeded_row (w_now w) p) =
      map (store_in (w_now w) (p # ps))"
    using Cons.prems(1) by (intro ext) (simp add: modify_row_def comp_def store_in_Cons)
  ultimately show ?case by (simp add: comp_def)
qed

definition eligible_rows :: "uuid \<Rightarrow> world \<Rightarrow> TournamentRegistration list" where
  "eligible_rows t w =
     (let of_status = (\<lambda>s. sort_by seed_le (filter (registration_listed t (Some s)) (w_registrations w)));
          checked_in = of_status TournamentRegistrationStatus.CheckedIn
      in if checked_in \<noteq> [] then checked_in else of_status TournamentRegistrationStatus.Approved)"

lemma eligible_run: "get_eligible_participants t w = (Inr (eligible_rows t w), w)"
  by (simp add: get_eligible_participants_def eligible_rows_def Let_def)

lemma eligible_subset: "set (eligible_rows t w) \<subseteq> set (w_registrations w)"
  by (auto simp: eligible_rows_def Let_def)

lemma distinct_eligible: "distinct (map r_id (w_registrations w)) \<Longrightarrow> distinct (map r_id (eligible_rows t w))"
  by (simp add: eligible_rows_def Let_def distinct_map_filter)

text \<open>
  C24. Seeding by rating ranks everyone who takes part: the checked-in entries, or the approved ones
  if nobody has checked in, get the seeds 1 to n, each seed once, a better rating (1000 if none is
  stored) never behind a worse one, and every row stores its seed. Nobody else's row is touched:
  an entry that no longer takes part keeps the seed it had.
\<close>

theorem rating_seeds_everyone:
  assumes "distinct (map r_id (w_registrations w))" and "find_row t_id t (w_tournaments w) \<noteq> None"
    and "eligible_rows t w \<noteq> []"
  shows "\<exists>seeded w'. auto_seed shuffle t SeedingAlgorithm.Rating w = (Inr seeded, w') \<and>
    map sd_seed seeded = map int [1..<length (eligible_rows t w) + 1] \<and>
    mset (map sd_registration_id seeded) = mset (map r_id (eligible_rows t w)) \<and>
    sorted_wrt (\<lambda>p q. the (sd_seed_rating q) \<le> the (sd_seed_rating p)) seeded \<and>
    (\<forall>p \<in> set seeded. \<exists>r. find_row r_id (sd_registration_id p) (w_registrations w) = Some r \<and>
       sd_seed_rating p = Some (or_old (r_seed_rating r) 1000) \<and>
       find_row r_id (sd_registration_id p) (w_registrations w') = Some (seeded_row (w_now w) p r)) \<and>
    (\<forall>r \<in> set (w_registrations w). r_id r \<notin> sd_registration_id ` set seeded \<longrightarrow> r \<in> set (w_registrations w'))"
proof -
  let ?ps = "seed_by_rating (eligible_rows t w)"
  let ?w = "w_registrations_update (map (store_in (w_now w) ?ps)) w"
  obtain x where x: "find_row t_id t (w_tournaments w) = Some x" using assms(2) by blast
  have ids: "mset (map sd_registration_id ?ps) = mset (map r_id (eligible_rows t w))" by (rule seed_by_rating_ids)
  then have d: "distinct (map sd_registration_id ?ps)"
    using distinct_eligible [OF assms(1)] mset_eq_imp_distinct_iff by blast
  have sub: "sd_registration_id ` set ?ps \<subseteq> r_id ` set (w_registrations w)"
    using mset_eq_setD [OF ids] eligible_subset [of t w] by auto
  have run: "auto_seed shuffle t SeedingAlgorithm.Rating w = (Inr ?ps, ?w)"
    using assms(3) x by (simp add: auto_seed_def find_tournament_def tournament_find_by_id_def eligible_run
        seeds_for_def store_all_run [OF d sub])
  have stored: "\<exists>r. find_row r_id (sd_registration_id p) (w_registrations w) = Some r \<and>
       sd_seed_rating p = Some (or_old (r_seed_rating r) 1000) \<and>
       find_row r_id (sd_registration_id p) (w_registrations ?w) = Some (seeded_row (w_now w) p r)" if p: "p \<in> set ?ps" for p
  proof -
    obtain r where r: "r \<in> set (eligible_rows t w)" "sd_registration_id p = r_id r"
      "sd_seed_rating p = Some (or_old (r_seed_rating r) 1000)" using seed_by_rating_rating [OF p] by blast
    then have mem: "r \<in> set (w_registrations w)" using eligible_subset by blast
    have "find (\<lambda>q. sd_registration_id q = sd_registration_id p) ?ps = Some p"
      using d p find_row_Some_iff [of sd_registration_id ?ps] by (simp add: find_row_def)
    then have st: "store_in (w_now w) ?ps r = seeded_row (w_now w) p r" using r(2) by (simp add: store_in_def)
    have "map r_id (w_registrations ?w) = map r_id (w_registrations w)"
      by (simp add: store_in_def split: option.split)
    then have "distinct (map r_id (w_registrations ?w))" using assms(1) by (simp only:)
    then have "find_row r_id (sd_registration_id p) (w_registrations ?w) = Some (seeded_row (w_now w) p r)"
      using mem r(2) st by (subst find_row_Some_iff) (auto simp: image_iff intro!: bexI [of _ r])
    moreover have "find_row r_id (sd_registration_id p) (w_registrations w) = Some r"
      using mem r(2) by (simp add: find_row_Some_iff [OF assms(1)])
    ultimately show ?thesis using r(3) by blast
  qed
  have other: "r \<in> set (w_registrations ?w)"
    if "r \<in> set (w_registrations w)" "r_id r \<notin> sd_registration_id ` set ?ps" for r
  proof -
    have "find (\<lambda>p. sd_registration_id p = r_id r) ?ps = None"
      using that(2) unfolding find_None_iff by (metis imageI)
    then have "store_in (w_now w) ?ps r = r" by (simp add: store_in_def)
    with that(1) show ?thesis by (auto intro!: image_eqI [of _ _ r])
  qed
  show ?thesis
    using run seed_by_rating_seeds ids seed_by_rating_sorted stored other by blast
qed

text \<open>Two approved entries, the second with the better rating, and a withdrawn one that has a seed.\<close>

definition seeding_example :: world where
  "seeding_example = (let row = (\<lambda>i rating. registration_row i 0
       \<lparr>cr_tournament_id = ''t'', cr_team_season_id = Some i, cr_player_id = None, cr_adhoc_team_id = None,
        cr_participant_name = i, cr_participant_logo_url = None, cr_registered_by = ''u'', cr_seed_rating = rating,
        cr_status = TournamentRegistrationStatus.Approved\<rparr>)
     in empty_world\<lparr>w_registrations := [row ''r1'' None, row ''r2'' (Some 1500),
          (row ''r3'' None)\<lparr>r_seed := Some 1, r_status := TournamentRegistrationStatus.Withdrawn\<rparr>],
        w_tournaments := [tournament_row ''t'' 0 example_tournament]\<rparr>)"

theorem rating_seeds_everyone_witness:
  "\<exists>seeded w'. auto_seed (\<lambda>_ xs. rev xs) ''t'' SeedingAlgorithm.Rating seeding_example = (Inr seeded, w') \<and>
     map sd_seed seeded = [1, 2] \<and> mset (map sd_registration_id seeded) = {#''r1'', ''r2''#}"
proof -
  have r: "map r_id (w_registrations seeding_example) = [''r1'', ''r2'', ''r3'']"
    by (simp add: seeding_example_def Let_def registration_row_def)
  have t: "find_row t_id ''t'' (w_tournaments seeding_example) \<noteq> None"
    by (simp add: seeding_example_def Let_def find_row_def tournament_row_def)
  have e: "map r_id (eligible_rows ''t'' seeding_example) = [''r1'', ''r2'']"
    by (simp add: seeding_example_def Let_def registration_row_def eligible_rows_def registration_listed_def wanted_def
        sort_by_Cons seed_le_def lex_by_def nulls_last_def)
  then have n: "eligible_rows ''t'' seeding_example \<noteq> []" and l: "length (eligible_rows ''t'' seeding_example) = 2"
    by (auto dest: arg_cong [where f = length])
  have d: "distinct (map r_id (w_registrations seeding_example))" unfolding r by simp
  show ?thesis using rating_seeds_everyone [OF d t n, of "\<lambda>_ xs. rev xs"] unfolding e l
    by (elim exE conjE) (intro exI conjI, assumption, simp add: upt_conv_Cons, simp)
qed

end
