(* ===== verification/Entries.thy ===== *)
theory Entries
  imports Seeding
begin

text \<open>
  What holds of the registrations however the services act on them: ids and participants are
  unique, every row has one participant, a checked-in row says so, and no tournament has more
  entries than it admits. One lemma per kind of statement (an update of a row, a deletion, an
  insertion behind the capacity check), then one per operation of the services.
\<close>

section \<open>The invariant\<close>

definition entry_keys :: "(TournamentRegistration \<Rightarrow> uuid option) \<Rightarrow> TournamentRegistration list \<Rightarrow> (uuid \<times> uuid) list" where
  "entry_keys key rows = List.map_filter (\<lambda>r. map_option (Pair (r_tournament_id r)) (key r)) rows"

definition checked_in_coherent :: "TournamentRegistration \<Rightarrow> bool" where
  "checked_in_coherent r \<longleftrightarrow> (r_checked_in r \<longrightarrow> r_checked_in_at r \<noteq> None \<and> r_checked_in_by r \<noteq> None) \<and>
     (r_status r = TournamentRegistrationStatus.CheckedIn \<longrightarrow> r_checked_in r)"

definition rows_ok :: "TournamentRegistration list \<Rightarrow> bool" where
  "rows_ok rows \<longleftrightarrow> distinct (map r_id rows) \<and> list_all one_participant rows \<and>
     list_all checked_in_coherent rows \<and> distinct (entry_keys r_team_season_id rows) \<and>
     distinct (entry_keys r_player_id rows) \<and> distinct (entry_keys r_adhoc_team_id rows)"

definition unused_ids :: "world \<Rightarrow> bool" where
  "unused_ids w \<longleftrightarrow> inj (w_uuids w) \<and>
     (\<forall>r \<in> set (w_registrations w). \<forall>n \<ge> w_next w. r_id r \<noteq> w_uuids w n)"

definition within_capacity :: "world \<Rightarrow> bool" where
  "within_capacity w \<longleftrightarrow> distinct (map t_id (w_tournaments w)) \<and>
     (\<forall>t \<in> set (w_tournaments w). int (places (t_id t) w) \<le> t_max_participants t)"

definition entries_ok :: "world \<Rightarrow> bool" where
  "entries_ok w \<longleftrightarrow> rows_ok (w_registrations w) \<and> unused_ids w \<and> within_capacity w"

lemma entry_keys_simps [simp]:
  "entry_keys key [] = []"
  "entry_keys key (r # rs) = (case key r of None \<Rightarrow> [] | Some k \<Rightarrow> [(r_tournament_id r, k)]) @ entry_keys key rs"
  "entry_keys key (rs @ rs') = entry_keys key rs @ entry_keys key rs'"
  by (auto simp: entry_keys_def map_filter_def split: option.split)

lemma entry_keys_cong:
  "(\<And>r. r \<in> set rs \<Longrightarrow> key (f r) = key r \<and> r_tournament_id (f r) = r_tournament_id r) \<Longrightarrow>
   entry_keys key (map f rs) = entry_keys key rs"
  by (induction rs) (auto split: option.split)

lemma set_entry_keys: "(t, k) \<in> set (entry_keys key rs) \<longleftrightarrow> (\<exists>r \<in> set rs. r_tournament_id r = t \<and> key r = Some k)"
  by (induction rs) (auto split: option.split)

lemma distinct_entry_keys_filter: "distinct (entry_keys key rs) \<Longrightarrow> distinct (entry_keys key (filter P rs))"
  by (induction rs) (auto simp: set_entry_keys split: option.splits)

section \<open>An update of a row\<close>

text \<open>The participants of a row stay, and the row does not take a place it did not have.\<close>

definition same_entry :: "TournamentRegistration \<Rightarrow> TournamentRegistration \<Rightarrow> bool" where
  "same_entry r r' \<longleftrightarrow> r_id r' = r_id r \<and> r_tournament_id r' = r_tournament_id r \<and>
     r_team_season_id r' = r_team_season_id r \<and> r_player_id r' = r_player_id r \<and>
     r_adhoc_team_id r' = r_adhoc_team_id r \<and> (holds_place r' \<longrightarrow> holds_place r) \<and>
     (checked_in_coherent r \<longrightarrow> checked_in_coherent r')"

lemma same_entry_refl [simp]: "same_entry r r"
  by (simp add: same_entry_def)

lemma rows_ok_map:
  assumes "rows_ok rows" and "\<And>r. r \<in> set rows \<Longrightarrow> same_entry r (f r)"
  shows "rows_ok (map f rows)"
proof -
  have ids: "map r_id (map f rows) = map r_id rows" using assms(2) by (simp add: same_entry_def)
  have keys: "entry_keys key (map f rows) = entry_keys key rs"
    if "rs = rows" "\<And>r r'. same_entry r r' \<Longrightarrow> key r' = key r" for key rs
    using assms(2) that by (auto simp: same_entry_def intro!: entry_keys_cong)
  have "entry_keys r_team_season_id (map f rows) = entry_keys r_team_season_id rows"
    "entry_keys r_player_id (map f rows) = entry_keys r_player_id rows"
    "entry_keys r_adhoc_team_id (map f rows) = entry_keys r_adhoc_team_id rows"
    by (rule keys [OF refl], simp add: same_entry_def)+
  moreover have "list_all one_participant (map f rows)" "list_all checked_in_coherent (map f rows)"
    using assms by (auto simp: rows_ok_def list_all_iff one_participant_def same_entry_def)
  ultimately show ?thesis using assms(1) unfolding rows_ok_def ids by simp
qed

lemma places_map_le:
  assumes "\<And>r. r \<in> set rows \<Longrightarrow> same_entry r (f r)"
  shows "length (filter (\<lambda>r. r_tournament_id r = t \<and> holds_place r) (map f rows)) \<le>
    length (filter (\<lambda>r. r_tournament_id r = t \<and> holds_place r) rows)"
  using assms by (induction rows) (auto simp: same_entry_def)

lemma entries_ok_map:
  assumes "entries_ok w" and "\<And>r. r \<in> set (w_registrations w) \<Longrightarrow> same_entry r (f r)"
  shows "entries_ok (w_registrations_update (\<lambda>_. map f (w_registrations w)) w)"
proof -
  have "within_capacity (w_registrations_update (\<lambda>_. map f (w_registrations w)) w)"
    unfolding within_capacity_def
  proof (intro conjI ballI)
    show "distinct (map t_id (w_tournaments (w_registrations_update (\<lambda>_. map f (w_registrations w)) w)))"
      using assms(1) by (simp add: entries_ok_def within_capacity_def)
    fix t assume "t \<in> set (w_tournaments (w_registrations_update (\<lambda>_. map f (w_registrations w)) w))"
    then have "int (places (t_id t) w) \<le> t_max_participants t"
      using assms(1) by (simp add: entries_ok_def within_capacity_def)
    moreover have "places (t_id t) (w_registrations_update (\<lambda>_. map f (w_registrations w)) w) \<le> places (t_id t) w"
      using places_map_le [where rows = "w_registrations w" and f = f, OF assms(2)] by (simp add: places_def)
    ultimately show "int (places (t_id t) (w_registrations_update (\<lambda>_. map f (w_registrations w)) w)) \<le>
      t_max_participants t" by linarith
  qed
  moreover have "unused_ids (w_registrations_update (\<lambda>_. map f (w_registrations w)) w)"
    using assms by (auto simp: entries_ok_def unused_ids_def same_entry_def)
  ultimately show ?thesis using assms by (simp add: entries_ok_def rows_ok_map)
qed

lemma modify_row_found:
  assumes "distinct (map key rows)" and "find_row key k rows = Some r"
  shows "modify_row key k f rows = map (\<lambda>x. if x = r then f r else x) rows"
proof -
  have "key x = k \<longleftrightarrow> x = r" if "x \<in> set rows" for x
    using that assms by (auto simp: find_row_Some_iff distinct_map inj_on_def)
  then show ?thesis by (simp add: modify_row_def)
qed

lemma set_keeps:
  assumes "entries_ok w"
    and "\<And>r. find_row r_id i (w_registrations w) = Some r \<Longrightarrow> same_entry r (f (w_now w) r)"
  shows "entries_ok (snd (registration_set i f w))"
proof (cases "find_row r_id i (w_registrations w)")
  case None
  with assms(1) show ?thesis by (simp add: registration_set_def update_returning_def)
next
  case (Some r)
  have "distinct (map r_id (w_registrations w))" using assms(1) by (simp add: entries_ok_def rows_ok_def)
  then have "snd (registration_set i f w) =
      w_registrations_update (\<lambda>_. map (\<lambda>x. if x = r then f (w_now w) r else x) (w_registrations w)) w"
    using Some by (simp add: registration_set_def update_returning_def modify_row_found)
  moreover have "entries_ok \<dots>"
    by (rule entries_ok_map [OF assms(1)]) (use assms(2) [OF Some] in auto)
  ultimately show ?thesis by simp
qed

section \<open>A deletion and an insertion\<close>

lemma next_keeps: "entries_ok w \<Longrightarrow> w_next w \<le> n \<Longrightarrow> entries_ok (w\<lparr>w_next := n\<rparr>)"
  by (auto simp: entries_ok_def unused_ids_def within_capacity_def places_def)

lemma places_filter_le:
  "length (filter (\<lambda>r. r_tournament_id r = t \<and> holds_place r) (filter P rows)) \<le>
    length (filter (\<lambda>r. r_tournament_id r = t \<and> holds_place r) rows)"
  by (induction rows) auto

lemma filter_keeps:
  assumes "entries_ok w"
  shows "entries_ok (w_registrations_update (filter P) w)"
proof -
  have "rows_ok (filter P (w_registrations w))"
    using assms by (simp add: entries_ok_def rows_ok_def distinct_map_filter list_all_iff distinct_entry_keys_filter)
  moreover have "unused_ids (w_registrations_update (filter P) w)"
    using assms by (auto simp: entries_ok_def unused_ids_def)
  moreover have "within_capacity (w_registrations_update (filter P) w)"
  proof -
    have le: "int (places i (w_registrations_update (filter P) w)) \<le> int (places i w)" for i
      using places_filter_le [of i P "w_registrations w"] by (simp add: places_def del: filter_filter)
    from assms have "distinct (map t_id (w_tournaments w))"
      and c: "\<And>t. t \<in> set (w_tournaments w) \<Longrightarrow> int (places (t_id t) w) \<le> t_max_participants t"
      by (auto simp: entries_ok_def within_capacity_def)
    then show ?thesis unfolding within_capacity_def by (auto intro: order_trans [OF le c])
  qed
  ultimately show ?thesis by (simp add: entries_ok_def)
qed

lemma violation_None:
  assumes "registration_violation rows r = None"
  shows "one_participant r" and "\<And>k. r_team_season_id r = Some k \<Longrightarrow> (r_tournament_id r, k) \<notin> set (entry_keys r_team_season_id rows)"
    and "\<And>k. r_player_id r = Some k \<Longrightarrow> (r_tournament_id r, k) \<notin> set (entry_keys r_player_id rows)"
    and "\<And>k. r_adhoc_team_id r = Some k \<Longrightarrow> (r_tournament_id r, k) \<notin> set (entry_keys r_adhoc_team_id rows)"
  using assms by (auto simp: registration_violation_def same_key_def list_ex_iff set_entry_keys split: if_splits)

lemma rows_ok_snoc:
  assumes "rows_ok rows" and "registration_violation rows r = None" and "r_id r \<notin> r_id ` set rows"
    and "checked_in_coherent r"
  shows "rows_ok (rows @ [r])"
  using assms(1,3,4) violation_None [OF assms(2)] unfolding rows_ok_def by (auto split: option.split)

lemma insert_keeps:
  assumes "entries_ok w" and "cr_status c \<noteq> TournamentRegistrationStatus.CheckedIn"
    and "\<And>t. t \<in> set (w_tournaments w) \<Longrightarrow> t_id t = cr_tournament_id c \<Longrightarrow> int (places (t_id t) w) < t_max_participants t"
  shows "entries_ok (snd (registration_create c w)) \<and> w_next w \<le> w_next (snd (registration_create c w))"
proof -
  let ?r = "registration_row (w_uuids w (w_next w)) (w_now w) c"
  let ?w = "w\<lparr>w_next := Suc (w_next w)\<rparr>"
  have ok: "entries_ok ?w" by (rule next_keeps [OF assms(1)]) simp
  show ?thesis
  proof (cases "registration_violation (w_registrations w) ?r")
    case (Some e)
    with ok show ?thesis by (simp add: registration_create_def new_uuid_def)
  next
    case None
    let ?w' = "w_registrations_update (\<lambda>rs. rs @ [?r]) ?w"
    have run: "snd (registration_create c w) = ?w'"
      using None by (simp add: registration_create_def new_uuid_def insert_returning_def)
    have "r_id x \<noteq> w_uuids w (w_next w)" if "x \<in> set (w_registrations w)" for x
      using assms(1) that by (simp add: entries_ok_def unused_ids_def)
    then have "w_uuids w (w_next w) \<notin> r_id ` set (w_registrations w)" by (metis imageE)
    then have "r_id ?r \<notin> r_id ` set (w_registrations w)" by (simp add: registration_row_def)
    moreover have "checked_in_coherent ?r"
      using assms(2) by (simp add: checked_in_coherent_def registration_row_def)
    ultimately have "rows_ok (w_registrations w @ [?r])"
      using assms(1) None by (intro rows_ok_snoc) (simp_all add: entries_ok_def)
    moreover have "unused_ids ?w'"
      using assms(1) by (auto simp: entries_ok_def unused_ids_def registration_row_def dest: injD)
    moreover have "within_capacity ?w'"
      unfolding within_capacity_def
    proof (intro conjI ballI)
      show "distinct (map t_id (w_tournaments ?w'))" using assms(1) by (simp add: entries_ok_def within_capacity_def)
      fix t assume "t \<in> set (w_tournaments ?w')"
      then have t: "t \<in> set (w_tournaments w)" by simp
      then have "int (places (t_id t) w) \<le> t_max_participants t"
        using assms(1) by (simp add: entries_ok_def within_capacity_def)
      with assms(3) [OF t] show "int (places (t_id t) ?w') \<le> t_max_participants t"
        by (auto simp: places_def registration_row_def)
    qed
    ultimately show ?thesis using run by (simp add: entries_ok_def)
  qed
qed

lemma transaction_keeps:
  assumes "entries_ok w" and "entries_ok (snd (m w))" and "w_next w \<le> w_next (snd (m w))"
  shows "entries_ok (snd (transaction m w))"
  using assms by (auto simp: transaction_def next_keeps split: prod.splits sum.splits)

text \<open>The tournament of a row that is about to be entered has a place left.\<close>

lemma unique_tournament:
  "entries_ok w \<Longrightarrow> find_row t_id i (w_tournaments w) = Some t \<Longrightarrow> t' \<in> set (w_tournaments w) \<Longrightarrow> t_id t' = i \<Longrightarrow> t' = t"
  by (auto simp: entries_ok_def within_capacity_def find_row_Some_iff distinct_map inj_on_def)

lemma create_with_capacity_keeps:
  assumes "entries_ok w" and "cr_status c \<noteq> TournamentRegistrationStatus.CheckedIn"
  shows "entries_ok (snd (registration_create_with_capacity_check c replace_terminal w))"
proof (cases "find_row t_id (cr_tournament_id c) (w_tournaments w)")
  case None
  with assms(1) show ?thesis
    by (simp add: registration_create_with_capacity_check_def transaction_def tournament_find_by_id_def)
next
  case (Some t)
  define w1 where "w1 = (case replace_terminal of None \<Rightarrow> w
    | Some i \<Rightarrow> w_registrations_update (filter (\<lambda>r. r_id r \<noteq> i)) w)"
  have w1: "entries_ok w1" "w_next w1 = w_next w" "w_tournaments w1 = w_tournaments w"
    using assms(1) by (auto simp: w1_def filter_keeps split: option.split)
  define body where "body = sbind (sget (places (cr_tournament_id c))) (\<lambda>count.
     if int count \<ge> t_max_participants t then sfail TournamentFull else registration_create c)"
  have "entries_ok (snd (body w1)) \<and> w_next w1 \<le> w_next (snd (body w1))"
  proof (cases "int (places (cr_tournament_id c) w1) \<ge> t_max_participants t")
    case True
    with w1 show ?thesis by (simp add: body_def)
  next
    case False
    have "int (places (t_id t') w1) < t_max_participants t'"
      if "t' \<in> set (w_tournaments w1)" "t_id t' = cr_tournament_id c" for t'
      using unique_tournament [OF assms(1) Some] that w1(3) False by auto
    from insert_keeps [OF w1(1) assms(2) this] False show ?thesis by (simp add: body_def)
  qed
  moreover have "(sbind (tournament_find_by_id (cr_tournament_id c)) (\<lambda>found.
     sbind (sneed (TournamentNotFound (cr_tournament_id c)) found) (\<lambda>t.
     sbind (case replace_terminal of None \<Rightarrow> sret () | Some old_id \<Rightarrow> registration_delete old_id) (\<lambda>_.
     sbind (sget (places (cr_tournament_id c))) (\<lambda>count.
     if int count \<ge> t_max_participants t then sfail TournamentFull
     else registration_create c))))) w = body w1"
    using Some by (cases replace_terminal)
      (simp_all add: tournament_find_by_id_def w1_def body_def registration_delete_def)
  ultimately show ?thesis
    unfolding registration_create_with_capacity_check_def using assms(1) w1(2)
    by (intro transaction_keeps) simp_all
qed

section \<open>The operations\<close>

text \<open>Programs that do not touch the registrations, the tournaments and the supply of ids.\<close>

lemma entries_ok_cong:
  assumes "w_registrations w' = w_registrations w" and "w_tournaments w' = w_tournaments w"
    and "w_uuids w' = w_uuids w" and "w_next w' = w_next w"
  shows "entries_ok w' = entries_ok w"
  using assms by (simp add: entries_ok_def unused_ids_def within_capacity_def places_def)

lemma new_status_same:
  assumes "status = TournamentRegistrationStatus.Withdrawn \<or> status = TournamentRegistrationStatus.Disqualified \<or>
      holds_place r \<and> status \<noteq> TournamentRegistrationStatus.CheckedIn"
  shows "same_entry r (r\<lparr>r_status := status, r_updated_at := t\<rparr>)"
  using assms by (auto simp: same_entry_def holds_place_def checked_in_coherent_def)

lemma update_status_keeps:
  assumes "status = TournamentRegistrationStatus.Withdrawn \<or> status = TournamentRegistrationStatus.Disqualified"
  shows "keeps entries_ok (registration_update_status i status)"
  unfolding registration_update_status_def keeps_def using assms
  by (intro allI impI set_keeps) (auto intro!: new_status_same)

lemma registration_withdraw_keeps [keeps_intros]: "keeps entries_ok (registration_withdraw i)"
  unfolding registration_withdraw_def keeps_def
  by (intro allI impI set_keeps) (auto simp: same_entry_def holds_place_def checked_in_coherent_def)

lemma registration_update_keeps [keeps_intros]: "keeps entries_ok (registration_update i u)"
  unfolding registration_update_def keeps_def
  by (intro allI impI set_keeps) (auto simp: same_entry_def holds_place_def checked_in_coherent_def)

lemma check_in_row_keeps [keeps_intros]: "keeps entries_ok (registration_check_in i u)"
proof
  fix w assume ok: "entries_ok w"
  show "entries_ok (snd (registration_check_in i u w))"
  proof (cases "find_row r_id i (w_registrations w)")
    case None
    with ok show ?thesis by (simp add: registration_check_in_def)
  next
    case (Some r)
    show ?thesis
    proof (cases "r_status r = TournamentRegistrationStatus.Approved")
      case True
      with Some have "snd (registration_check_in i u w) = snd (registration_set i (\<lambda>t x. x\<lparr>r_checked_in := True,
          r_checked_in_at := Some t, r_checked_in_by := Some u,
          r_status := TournamentRegistrationStatus.CheckedIn, r_updated_at := t\<rparr>) w)"
        by (simp add: registration_check_in_def)
      moreover have "entries_ok \<dots>"
        by (rule set_keeps [OF ok])
          (use Some True in \<open>auto simp: same_entry_def holds_place_def checked_in_coherent_def\<close>)
      ultimately show ?thesis by simp
    next
      case False
      with Some ok show ?thesis by (simp add: registration_check_in_def)
    qed
  qed
qed

lemma clear_seeds_keeps [keeps_intros]: "keeps entries_ok (registration_clear_seeds t)"
proof
  fix w assume ok: "entries_ok w"
  let ?f = "\<lambda>r. if r_tournament_id r = t then r\<lparr>r_seed := None, r_seed_rating := None, r_updated_at := w_now w\<rparr> else r"
  have "entries_ok (w_registrations_update (\<lambda>_. map ?f (w_registrations w)) w)"
    by (rule entries_ok_map [OF ok]) (auto simp: same_entry_def holds_place_def checked_in_coherent_def)
  moreover have "w_registrations_update (\<lambda>_. map ?f (w_registrations w)) w = w_registrations_update (map ?f) w"
    by (cases w) simp
  ultimately show "entries_ok (snd (registration_clear_seeds t w))"
    by (simp add: registration_clear_seeds_def)
qed

lemma reads_keep [keeps_intros]:
  "keeps entries_ok (get_registration i)" "keeps entries_ok (find_tournament t)" "keeps entries_ok (get_tournament t)"
  "keeps entries_ok (registration_list_all_by_tournament t f)"
  "keeps entries_ok (registration_find_by_team_season t s)" "keeps entries_ok (registration_find_by_player t p)"
  by (auto simp: get_registration_def find_tournament_def get_tournament_def tournament_find_by_id_def keeps_def
      registration_find_by_team_season_def registration_find_by_player_def sneed_def sbind_def split: option.split)

lemma withdraw_keeps: "keeps entries_ok (withdraw i u)"
  unfolding withdraw_def by (intro keeps_intros)

lemma reject_keeps: "keeps entries_ok (reject_registration i reason)"
  unfolding reject_registration_def by (intro keeps_intros update_status_keeps) simp

lemma disqualify_keeps: "keeps entries_ok (disqualify i reason)"
  unfolding disqualify_def by (intro keeps_intros update_status_keeps) simp

lemma check_in_registration_keeps: "keeps entries_ok (check_in_registration i u)"
  unfolding check_in_registration_def by (intro keeps_intros keeps_now)

lemma tournament_check_in_keeps: "keeps entries_ok (tournament_check_in i u)"
  unfolding tournament_check_in_def by (intro keeps_intros keeps_now)

text \<open>A change of status that depends on what the row is: the row holds its place already.\<close>

lemma update_status_at:
  assumes "entries_ok w" and "find_row r_id i (w_registrations w) = Some r" and "holds_place r"
    and "status \<noteq> TournamentRegistrationStatus.CheckedIn"
  shows "entries_ok (snd (registration_update_status i status w))"
  unfolding registration_update_status_def
  by (rule set_keeps [OF assms(1)]) (use assms(2-4) in \<open>auto intro!: new_status_same\<close>)

lemma registration_set_next: "w_next (snd (registration_set i f w)) = w_next w"
  by (simp add: registration_set_def update_returning_def split: option.split)

lemma approve_keeps: "keeps entries_ok (approve_registration i)"
proof
  fix w assume ok: "entries_ok w"
  show "entries_ok (snd (approve_registration i w))"
  proof (cases "find_row r_id i (w_registrations w)")
    case None
    with ok show ?thesis by (simp add: approve_registration_def get_registration_def)
  next
    case (Some r)
    show ?thesis
    proof (cases "r_status r = TournamentRegistrationStatus.Pending \<and>
        find_row t_id (r_tournament_id r) (w_tournaments w) \<noteq> None")
      case False
      with Some ok show ?thesis
        by (auto simp: approve_registration_def get_registration_def find_tournament_def tournament_find_by_id_def)
    next
      case True
      then have place: "holds_place r" by (auto simp: holds_place_def)
      have "entries_ok (snd (registration_update_status_with_capacity_check i TournamentRegistrationStatus.Approved w))"
        unfolding registration_update_status_with_capacity_check_def
      proof (rule transaction_keeps [OF ok])
        let ?m = "sbind (sget (tournament_of_registration i)) (\<lambda>found.
          sbind (sneed (TournamentRegistrationNotFound i) found) (\<lambda>t.
          sbind (sget (\<lambda>w. length (filter (\<lambda>r. r_tournament_id r = t_id t \<and> r_id r \<noteq> i \<and> holds_place r)
            (w_registrations w)))) (\<lambda>count.
          if int count \<ge> t_max_participants t then sfail TournamentFull
          else registration_update_status i TournamentRegistrationStatus.Approved)))"
        obtain t where t: "tournament_of_registration i w = Some t"
          using True Some by (auto simp: tournament_of_registration_def)
        have "snd (?m w) = w \<or> snd (?m w) = snd (registration_update_status i TournamentRegistrationStatus.Approved w)"
          using t by simp
        then show "entries_ok (snd (?m w))" "w_next w \<le> w_next (snd (?m w))"
          using ok update_status_at [OF ok Some place] registration_set_next by (auto simp: registration_update_status_def)
      qed
      with True Some show ?thesis
        by (auto simp: approve_registration_def get_registration_def find_tournament_def tournament_find_by_id_def)
    qed
  qed
qed

lemma admin_check_in_keeps: "keeps entries_ok (admin_check_in i u)"
proof
  fix w assume ok: "entries_ok w"
  show "entries_ok (snd (admin_check_in i u w))"
  proof (cases "find_row r_id i (w_registrations w)")
    case None
    with ok show ?thesis by (simp add: admin_check_in_def get_registration_def)
  next
    case (Some r)
    have last: "entries_ok (snd (registration_check_in i u w'))" if "entries_ok w'" for w'
      using check_in_row_keeps that by (simp add: keeps_def)
    show ?thesis
    proof (cases "r_status r = TournamentRegistrationStatus.Pending")
      case False
      with Some ok last show ?thesis by (simp add: admin_check_in_def get_registration_def)
    next
      case True
      then have "holds_place r" by (auto simp: holds_place_def)
      then have "entries_ok (snd (registration_update_status i TournamentRegistrationStatus.Approved w))"
        by (intro update_status_at [OF ok Some]) simp_all
      with True Some ok last show ?thesis
        by (auto simp: admin_check_in_def get_registration_def sbind_def split: prod.split sum.split)
    qed
  qed
qed

definition all_hold :: "uuid list \<Rightarrow> world \<Rightarrow> bool" where
  "all_hold is w \<longleftrightarrow> entries_ok w \<and>
     (\<forall>i \<in> set is. \<forall>r. find_row r_id i (w_registrations w) = Some r \<longrightarrow> holds_place r)"

lemma no_show_keeps_all: "i \<in> set is \<Longrightarrow> keeps (all_hold is) (registration_update_status i TournamentRegistrationStatus.NoShow)"
proof
  fix w assume i: "i \<in> set is" and h: "all_hold is w"
  let ?w = "snd (registration_update_status i TournamentRegistrationStatus.NoShow w)"
  have "entries_ok ?w"
  proof (cases "find_row r_id i (w_registrations w)")
    case None
    with h show ?thesis by (simp add: all_hold_def registration_update_status_def registration_set_def update_returning_def)
  next
    case (Some r)
    with h i have "entries_ok w" "holds_place r" by (auto simp: all_hold_def)
    with Some show ?thesis by (intro update_status_at) simp_all
  qed
  moreover have "holds_place r" if j: "j \<in> set is" "find_row r_id j (w_registrations ?w) = Some r" for j r
  proof -
    let ?f = "\<lambda>r. r\<lparr>r_status := TournamentRegistrationStatus.NoShow, r_updated_at := w_now w\<rparr>"
    have "find_row r_id j (w_registrations ?w) =
        map_option (\<lambda>r. if r_id r = i then ?f r else r) (find_row r_id j (w_registrations w))"
      by (simp add: registration_update_status_def registration_set_def registration_table.find_after_update)
    with j(2) obtain r0 where "find_row r_id j (w_registrations w) = Some r0" "r = (if r_id r0 = i then ?f r0 else r0)"
      by auto
    with h j(1) show ?thesis by (auto simp: all_hold_def holds_place_def)
  qed
  ultimately show "all_hold is ?w" by (auto simp: all_hold_def)
qed

lemma process_no_shows_keeps: "keeps entries_ok (process_no_shows t)"
proof
  fix w assume ok: "entries_ok w"
  let ?rs = "filter (\<lambda>r. \<not> r_checked_in r) (sort_by seed_le (filter
    (registration_listed t (Some TournamentRegistrationStatus.Approved)) (w_registrations w)))"
  have "r_status r = TournamentRegistrationStatus.Approved" if "r \<in> set ?rs" for r
    using that by (auto simp: registration_listed_def wanted_def)
  moreover have "find_row r_id (r_id r) (w_registrations w) = Some r" if "r \<in> set ?rs" for r
    using that ok by (subst find_row_Some_iff) (auto simp: entries_ok_def rows_ok_def)
  ultimately have "all_hold (map r_id ?rs) w" using ok by (auto simp: all_hold_def holds_place_def)
  moreover have "keeps (all_hold (map r_id ?rs))
      (smap (\<lambda>r. registration_update_status (r_id r) TournamentRegistrationStatus.NoShow) ?rs)"
    by (intro keeps_smap no_show_keeps_all) simp
  ultimately have "entries_ok (snd (smap (\<lambda>r. registration_update_status (r_id r) TournamentRegistrationStatus.NoShow) ?rs w))"
    by (simp add: keeps_def all_hold_def)
  with ok show "entries_ok (snd (process_no_shows t w))"
    by (cases "find_row t_id t (w_tournaments w)")
      (simp_all add: process_no_shows_def find_tournament_def tournament_find_by_id_def)
qed

section \<open>Seeds and entries\<close>

lemma draw_keeps [keeps_intros]: "keeps entries_ok draw"
  by (auto simp: keeps_def draw_def entries_ok_def unused_ids_def within_capacity_def places_def)

lemma seeds_for_keeps [keeps_intros]: "keeps entries_ok (seeds_for shuffle a rs)"
  unfolding seeds_for_def seed_random_def by (cases a) (auto intro!: keeps_intros)

lemma auto_seed_keeps: "keeps entries_ok (auto_seed shuffle t a)"
  unfolding auto_seed_def get_eligible_participants_def store_seed_def by (intro keeps_intros keeps_sfor)

lemma manual_seed_keeps: "keeps entries_ok (manual_seed t seeds)"
  unfolding manual_seed_def seed_one_def Let_def split_def by (intro keeps_intros keeps_smap)

lemma clear_seeding_keeps: "keeps entries_ok (clear_seeding t)"
  unfolding clear_seeding_def by (intro keeps_intros)

lemma invitation_set_keeps: "keeps entries_ok (invitation_set i f)"
  by (auto simp: keeps_def invitation_set_def entries_ok_def unused_ids_def within_capacity_def places_def split: option.split)

lemma consume_invitation_keeps [keeps_intros]: "keeps entries_ok (consume_invitation x)"
  unfolding consume_invitation_def invitation_mark_accepted_def by (intro keeps_intros invitation_set_keeps)

lemma require_keeps [keeps_intros]:
  "keeps entries_ok (require_team_invitation t s)" "keeps entries_ok (require_user_invitation t u)"
  unfolding require_team_invitation_def require_user_invitation_def require_invitation_def
    invitation_find_for_team_season_def invitation_find_for_user_def by (intro keeps_intros)+

lemma replaceable_keeps [keeps_intros]: "keeps entries_ok (replaceable x)"
  unfolding replaceable_def by (intro keeps_intros)

lemma initial_status_not_checked_in: "initial_registration_status r \<noteq> TournamentRegistrationStatus.CheckedIn"
  by (cases r) simp_all

lemma register_team_keeps: "keeps entries_ok (register_team t s name logo u)"
  unfolding register_team_def
  by (intro keeps_intros keeps_now keepsI create_with_capacity_keeps) (simp_all add: initial_status_not_checked_in)

lemma register_player_keeps: "keeps entries_ok (register_player t p name u)"
  unfolding register_player_def
  by (intro keeps_intros keeps_now keepsI create_with_capacity_keeps) (simp_all add: initial_status_not_checked_in)

section \<open>Runs\<close>

text \<open>
  One operation of the services, successful or not, or time passing. The shuffle of the random
  seeding is any function.
\<close>

inductive entry_step :: "world \<Rightarrow> world \<Rightarrow> bool" where
  step_register_team: "entry_step w (snd (register_team t s name logo u w))"
| step_register_player: "entry_step w (snd (register_player t p name u w))"
| step_withdraw: "entry_step w (snd (withdraw i u w))"
| step_approve: "entry_step w (snd (approve_registration i w))"
| step_reject: "entry_step w (snd (reject_registration i reason w))"
| step_disqualify: "entry_step w (snd (disqualify i why w))"
| step_check_in: "entry_step w (snd (check_in_registration i u w))"
| step_tournament_check_in: "entry_step w (snd (tournament_check_in i u w))"
| step_admin_check_in: "entry_step w (snd (admin_check_in i u w))"
| step_no_shows: "entry_step w (snd (process_no_shows t w))"
| step_auto_seed: "entry_step w (snd (auto_seed shuffle t a w))"
| step_manual_seed: "entry_step w (snd (manual_seed t seeds w))"
| step_clear_seeding: "entry_step w (snd (clear_seeding t w))"
| step_time: "w_now w \<le> clock \<Longrightarrow> entry_step w (w\<lparr>w_now := clock\<rparr>)"

lemma entry_step_keeps: "entry_step w w' \<Longrightarrow> entries_ok w \<Longrightarrow> entries_ok w'"
proof (induction rule: entry_step.induct)
  case (step_time w clock)
  then show ?case by (simp add: entries_ok_def unused_ids_def within_capacity_def places_def)
qed (use register_team_keeps register_player_keeps withdraw_keeps approve_keeps reject_keeps disqualify_keeps
    check_in_registration_keeps tournament_check_in_keeps admin_check_in_keeps process_no_shows_keeps
    auto_seed_keeps manual_seed_keeps clear_seeding_keeps in \<open>simp_all add: keeps_def\<close>)

lemma entry_run_keeps: "entry_step\<^sup>*\<^sup>* w w' \<Longrightarrow> entries_ok w \<Longrightarrow> entries_ok w'"
  by (induction rule: rtranclp_induct) (auto dest: entry_step_keeps)

lemma entry_keys_unique:
  "distinct (entry_keys key rows) \<Longrightarrow> r \<in> set rows \<Longrightarrow> r' \<in> set rows \<Longrightarrow> key r = Some k \<Longrightarrow> key r' = Some k \<Longrightarrow>
   r_tournament_id r' = r_tournament_id r \<Longrightarrow> r' = r"
proof (induction rows)
  case (Cons x xs)
  have "x = y" if "y \<in> set (x # xs)" "key y = Some k" "key x = Some k" "r_tournament_id y = r_tournament_id x" for y
    using that Cons.prems(1) set_entry_keys [of "r_tournament_id x" k key xs] by auto
  with Cons show ?case by (metis distinct_append entry_keys_simps(2) set_ConsD)
qed simp

text \<open>
  C4. However teams and players enter, withdraw, are approved, rejected, disqualified, checked in,
  declared no-shows or seeded, in any order and with any failures in between: no tournament ever
  has more entries that hold a place than it admits, a team and a player have at most one entry in
  a tournament, every entry has exactly one participant, and an entry counts as checked in only if
  it says when and by whom.
\<close>

theorem entries_stay_within_capacity:
  assumes "entry_step\<^sup>*\<^sup>* w w'" and "entries_ok w"
  shows "(\<forall>t \<in> set (w_tournaments w'). int (places (t_id t) w') \<le> t_max_participants t) \<and>
    (\<forall>r \<in> set (w_registrations w'). one_participant r \<and>
       (r_status r = TournamentRegistrationStatus.CheckedIn \<longrightarrow>
          r_checked_in r \<and> r_checked_in_at r \<noteq> None \<and> r_checked_in_by r \<noteq> None)) \<and>
    (\<forall>r \<in> set (w_registrations w'). \<forall>r' \<in> set (w_registrations w'). \<forall>k.
       r_tournament_id r' = r_tournament_id r \<and>
       (r_team_season_id r = Some k \<and> r_team_season_id r' = Some k \<or>
        r_player_id r = Some k \<and> r_player_id r' = Some k) \<longrightarrow> r' = r)"
proof -
  have ok: "entries_ok w'" using assms by (rule entry_run_keeps)
  have "\<forall>t \<in> set (w_tournaments w'). int (places (t_id t) w') \<le> t_max_participants t"
    using ok by (simp add: entries_ok_def within_capacity_def)
  moreover have "\<forall>r \<in> set (w_registrations w'). one_participant r \<and> checked_in_coherent r"
    using ok by (simp add: entries_ok_def rows_ok_def list_all_iff)
  moreover have "distinct (entry_keys r_team_season_id (w_registrations w'))"
    "distinct (entry_keys r_player_id (w_registrations w'))"
    using ok by (simp_all add: entries_ok_def rows_ok_def)
  ultimately show ?thesis by (auto simp: checked_in_coherent_def dest: entry_keys_unique)
qed

text \<open>A tournament that takes entries, and nobody in it yet.\<close>

definition open_example :: world where
  "open_example = empty_world\<lparr>w_tournaments :=
     [(tournament_row ''t'' 0 example_tournament)\<lparr>t_status := TournamentStatus.Registration\<rparr>]\<rparr>"

theorem entries_stay_within_capacity_witness:
  "\<exists>r w'. register_team ''t'' ''s'' ''team'' None ''u'' open_example = (Inr r, w') \<and>
     (\<forall>t \<in> set (w_tournaments w'). int (places (t_id t) w') \<le> t_max_participants t) \<and> places ''t'' w' = 1"
proof -
  have ok: "entries_ok open_example"
    by (simp add: entries_ok_def rows_ok_def unused_ids_def within_capacity_def places_def open_example_def
        empty_world_def inj_def tournament_row_def example_tournament_def)
  obtain r w' where run: "register_team ''t'' ''s'' ''team'' None ''u'' open_example = (Inr r, w')"
    and one: "places ''t'' w' = 1"
    by (simp add: register_team_def get_tournament_def tournament_find_by_id_def find_row_def open_example_def
        tournament_row_def example_tournament_def empty_world_def Tournament_is_registration_open_def
        TournamentStatus_is_registration_open_def require_team_invitation_def require_invitation_def
        RegistrationType_requires_invitation_def registration_find_by_team_season_def replaceable_def
        registration_create_with_capacity_check_def transaction_def places_def registration_create_def
        registration_row_def registration_violation_def one_participant_def new_uuid_def insert_returning_def
        consume_invitation_def holds_place_def)
  have "entry_step\<^sup>*\<^sup>* open_example w'"
    using step_register_team [of open_example "''t''" "''s''" "''team''" "None" "''u''"] run by auto
  from entries_stay_within_capacity [OF this ok] run one show ?thesis by blast
qed

end
