(* ===== verification/StandingsRepo.thy ===== *)
theory StandingsRepo
  imports StageRepo
begin

text \<open>
  The standings of a bracket (\<open>portal-db/src/adapters/tournament/standings.rs\<close>). They are
  derived, not accumulated: one statement sums the completed matches and the recorded byes of
  the bracket for every row, a second one ranks the rows. Equal ranks keep their order here;
  the database may break such ties either way.
\<close>

definition WIN_POINTS :: int where "WIN_POINTS = 3"

section \<open>Contributions\<close>

text \<open>What a match or a bye adds to a participant.\<close>

record Contribution =
  co_registration_id :: uuid
  co_played :: int
  co_won :: int
  co_lost :: int
  co_game_wins :: int
  co_game_losses :: int
  co_points :: int

definition counted_match :: "uuid \<Rightarrow> TournamentMatch \<Rightarrow> bool" where
  "counted_match b m \<longleftrightarrow> m_bracket_id m = b \<and> m_status m = TournamentMatchStatus.Completed \<and>
     m_winner_registration_id m \<noteq> None \<and> m_loser_registration_id m \<noteq> None"

text \<open>The scores are read from the slot the winner sits in.\<close>

definition winner_score :: "TournamentMatch \<Rightarrow> int" where
  "winner_score m = (if m_participant1_registration_id m = m_winner_registration_id m
     then m_participant1_score m else m_participant2_score m)"

definition loser_score :: "TournamentMatch \<Rightarrow> int" where
  "loser_score m = (if m_participant1_registration_id m = m_winner_registration_id m
     then m_participant2_score m else m_participant1_score m)"

definition win_of :: "TournamentMatch \<Rightarrow> Contribution" where
  "win_of m = \<lparr>co_registration_id = the (m_winner_registration_id m), co_played = 1, co_won = 1, co_lost = 0,
     co_game_wins = winner_score m, co_game_losses = loser_score m, co_points = WIN_POINTS\<rparr>"

definition loss_of :: "TournamentMatch \<Rightarrow> Contribution" where
  "loss_of m = \<lparr>co_registration_id = the (m_loser_registration_id m), co_played = 1, co_won = 0, co_lost = 1,
     co_game_wins = loser_score m, co_game_losses = winner_score m, co_points = 0\<rparr>"

definition bye_of :: "BracketBye \<Rightarrow> Contribution" where
  "bye_of y = \<lparr>co_registration_id = bb_registration_id y, co_played = 1, co_won = 1, co_lost = 0,
     co_game_wins = 0, co_game_losses = 0, co_points = bb_points y\<rparr>"

definition contributions :: "uuid \<Rightarrow> world \<Rightarrow> Contribution list" where
  "contributions b w =
     (let ms = filter (counted_match b) (w_matches w)
      in map win_of ms @ map loss_of ms @ map bye_of (filter (\<lambda>y. bb_bracket_id y = b) (w_byes w)))"

definition total_of :: "(Contribution \<Rightarrow> int) \<Rightarrow> Contribution list \<Rightarrow> uuid \<Rightarrow> int" where
  "total_of f cs r = sum_list (map f (filter (\<lambda>c. co_registration_id c = r) cs))"

definition derived :: "Contribution list \<Rightarrow> datetime \<Rightarrow> TournamentStanding \<Rightarrow> TournamentStanding" where
  "derived cs t s = s\<lparr>s_matches_played := total_of co_played cs (s_registration_id s),
     s_matches_won := total_of co_won cs (s_registration_id s),
     s_matches_lost := total_of co_lost cs (s_registration_id s),
     s_matches_drawn := 0,
     s_game_wins := total_of co_game_wins cs (s_registration_id s),
     s_game_losses := total_of co_game_losses cs (s_registration_id s),
     s_game_differential := total_of co_game_wins cs (s_registration_id s) - total_of co_game_losses cs (s_registration_id s),
     s_points := total_of co_points cs (s_registration_id s), s_updated_at := t\<rparr>"

section \<open>Statements\<close>

definition standing_find :: "uuid \<Rightarrow> uuid \<Rightarrow> TournamentStanding option service" where
  "standing_find b r = sget (\<lambda>w. find (\<lambda>s. s_bracket_id s = b \<and> s_registration_id s = r) (w_standings w))"

definition standing_row :: "uuid \<Rightarrow> datetime \<Rightarrow> CreateTournamentStanding \<Rightarrow> TournamentStanding" where
  "standing_row i t c = \<lparr>s_id = i, s_bracket_id = cst_bracket_id c, s_registration_id = cst_registration_id c,
     s_participant_name = None, s_position = cst_position c, s_matches_played = 0, s_matches_won = 0,
     s_matches_lost = 0, s_matches_drawn = 0, s_game_wins = 0, s_game_losses = 0, s_game_differential = 0,
     s_buchholz_score = None, s_opponent_match_wins = None, s_head_to_head = HeadToHead_new,
     s_tiebreaker_score = 0, s_is_tied = False, s_points = 0, s_updated_at = t\<rparr>"

definition standing_insert :: "TournamentStanding \<Rightarrow> TournamentStanding service" where
  "standing_insert s = (\<lambda>w.
     if list_ex (\<lambda>x. s_bracket_id x = s_bracket_id s \<and> s_registration_id x = s_registration_id s) (w_standings w)
     then (Inl (db_error (UniqueViolation ''tournament_standings_unique'') w), w)
     else insert_returning w_standings_update s w)"

definition standing_create :: "CreateTournamentStanding \<Rightarrow> TournamentStanding service" where
  "standing_create c = sbind new_uuid (\<lambda>i. sbind now (\<lambda>t. standing_insert (standing_row i t c)))"

definition standing_bulk_create :: "CreateTournamentStanding list \<Rightarrow> TournamentStanding list service" where
  "standing_bulk_create cs =
     (if cs = [] then sret []
      else transaction (sbind now (\<lambda>t. smap (\<lambda>c. sbind new_uuid (\<lambda>i. standing_insert (standing_row i t c))) cs)))"

definition standing_derive :: "uuid \<Rightarrow> unit service" where
  "standing_derive b = sbind now (\<lambda>t. \<lambda>w. (Inr (), w_standings_update (map (\<lambda>s.
     if s_bracket_id s = b then derived (contributions b w) t s else s)) w))"

text \<open>\<open>ORDER BY points DESC, game_differential DESC, matches_won DESC\<close>.\<close>

definition standing_le :: "TournamentStanding \<Rightarrow> TournamentStanding \<Rightarrow> bool" where
  "standing_le = lex_by (\<lambda>x y. s_points y \<le> s_points x)
     (lex_by (\<lambda>x y. s_game_differential y \<le> s_game_differential x) (\<lambda>x y. s_matches_won y \<le> s_matches_won x))"

definition ranked :: "uuid \<Rightarrow> TournamentStanding list \<Rightarrow> TournamentStanding list" where
  "ranked b rows = sort_by standing_le (filter (\<lambda>s. s_bracket_id s = b) rows)"

text \<open>The row number of an id in the ranked rows.\<close>

definition new_position :: "TournamentStanding list \<Rightarrow> uuid \<Rightarrow> int option" where
  "new_position rows i = map_of (zip (map s_id rows) [1..int (length rows)]) i"

definition standing_rank :: "uuid \<Rightarrow> unit service" where
  "standing_rank b = sbind now (\<lambda>t. smodify (w_standings_update (\<lambda>rows. map (\<lambda>s.
     case new_position (ranked b rows) (s_id s) of
       None \<Rightarrow> s | Some p \<Rightarrow> s\<lparr>s_position := p, s_updated_at := t\<rparr>) rows)))"

text \<open>The join with the registrations gives the name; a row without its registration is dropped.\<close>

definition with_name :: "TournamentRegistration list \<Rightarrow> TournamentStanding \<Rightarrow> TournamentStanding option" where
  "with_name regs s = map_option (\<lambda>r. s\<lparr>s_participant_name := Some (r_participant_name r)\<rparr>)
     (find_row r_id (s_registration_id s) regs)"

definition standing_list_by_bracket :: "uuid \<Rightarrow> TournamentStanding list service" where
  "standing_list_by_bracket b = sget (\<lambda>w. sort_by (\<lambda>x y. s_position x \<le> s_position y)
     (List.map_filter (with_name (w_registrations w)) (filter (\<lambda>s. s_bracket_id s = b) (w_standings w))))"

definition standing_recalculate_positions :: "uuid \<Rightarrow> TournamentStanding list service" where
  "standing_recalculate_positions b = sbind (standing_rank b) (\<lambda>_. standing_list_by_bracket b)"

definition standing_recompute_bracket :: "uuid \<Rightarrow> TournamentStanding list service" where
  "standing_recompute_bracket b = transaction (sbind (standing_derive b) (\<lambda>_.
     sbind (standing_rank b) (\<lambda>_. standing_list_by_bracket b)))"

definition standing_record_bye :: "uuid \<Rightarrow> uuid \<Rightarrow> int \<Rightarrow> unit service" where
  "standing_record_bye b r round_number = smodify (\<lambda>w.
     if list_ex (\<lambda>y. bb_bracket_id y = b \<and> bb_registration_id y = r \<and> bb_round y = round_number) (w_byes w) then w
     else w_byes_update (\<lambda>ys. ys @ [\<lparr>bb_bracket_id = b, bb_registration_id = r, bb_round = round_number, bb_points = WIN_POINTS\<rparr>]) w)"

section \<open>Laws\<close>

text \<open>The contributions depend on the matches and the byes only, so deriving is idempotent.\<close>

lemma contributions_frame [simp]:
  "contributions b (w_standings_update f w) = contributions b w"
  by (simp add: contributions_def)

lemma derived_registration [simp]: "s_registration_id (derived cs t s) = s_registration_id s"
  "s_bracket_id (derived cs t s) = s_bracket_id s" "s_id (derived cs t s) = s_id s"
  by (simp_all add: derived_def)

lemma derived_idem [simp]: "derived cs t (derived cs t s) = derived cs t s"
  by (simp add: derived_def)

lemma total_of_simps [simp]:
  "total_of f [] r = 0"
  "total_of f (c # cs) r = (if co_registration_id c = r then f c else 0) + total_of f cs r"
  "total_of f (cs @ ds) r = total_of f cs r + total_of f ds r"
  by (simp_all add: total_of_def)

lemma insert_by_map: "(\<And>x y. le (f x) (f y) = le x y) \<Longrightarrow> insert_by le (f x) (map f xs) = map f (insert_by le x xs)"
  by (induction xs) auto

lemma sort_by_map: "(\<And>x y. le (f x) (f y) = le x y) \<Longrightarrow> sort_by le (map f xs) = map f (sort_by le xs)"
  by (induction xs) (simp_all add: sort_by_Cons insert_by_map)

lemma standing_le_linear: "standing_le x y \<or> standing_le y x"
  unfolding standing_le_def by (intro lex_by_linear) auto

lemma standing_le_trans: "standing_le x y \<Longrightarrow> standing_le y z \<Longrightarrow> standing_le x z"
  unfolding standing_le_def by (rule lex_by_trans [rotated 2]) (auto elim: lex_by_trans [rotated 2])

text \<open>The two updates of a row.\<close>

definition derive_row :: "uuid \<Rightarrow> world \<Rightarrow> TournamentStanding \<Rightarrow> TournamentStanding" where
  "derive_row b w s = (if s_bracket_id s = b then derived (contributions b w) (w_now w) s else s)"

lemma derive_row_simps [simp]:
  "s_id (derive_row b w s) = s_id s" "s_bracket_id (derive_row b w s) = s_bracket_id s"
  "s_registration_id (derive_row b w s) = s_registration_id s"
  by (simp_all add: derive_row_def)

lemma derive_row_frame [simp]: "derive_row b (w_standings_update f w) = derive_row b w"
  by (intro ext) (simp add: derive_row_def)

definition rank_row :: "datetime \<Rightarrow> TournamentStanding list \<Rightarrow> TournamentStanding \<Rightarrow> TournamentStanding" where
  "rank_row t rows s = (case new_position rows (s_id s) of
     None \<Rightarrow> s | Some p \<Rightarrow> s\<lparr>s_position := p, s_updated_at := t\<rparr>)"

lemma rank_row_simps [simp]:
  "s_id (rank_row t rows s) = s_id s" "s_bracket_id (rank_row t rows s) = s_bracket_id s"
  "s_registration_id (rank_row t rows s) = s_registration_id s" "s_points (rank_row t rows s) = s_points s"
  "s_game_differential (rank_row t rows s) = s_game_differential s"
  "s_matches_won (rank_row t rows s) = s_matches_won s"
  "standing_le (rank_row t rows x) (rank_row t rows y) = standing_le x y"
  by (simp_all add: rank_row_def standing_le_def lex_by_def split: option.split)

lemma rank_row_idem [simp]: "rank_row t rows (rank_row t rows s) = rank_row t rows s"
  by (simp add: rank_row_def split: option.split)

lemma ranked_map_rank: "ranked b (map (rank_row t rows) xs) = map (rank_row t rows) (ranked b xs)"
  by (simp add: ranked_def filter_map comp_def sort_by_map)

lemma new_position_map_rank: "new_position (map (rank_row t rows) xs) = new_position xs"
  by (rule ext) (simp add: new_position_def comp_def)

lemma rank_row_cong: "new_position rows = new_position rows' \<Longrightarrow> rank_row t rows = rank_row t rows'"
  by (rule ext) (simp add: rank_row_def)

definition recomputed :: "uuid \<Rightarrow> world \<Rightarrow> TournamentStanding list" where
  "recomputed b w = (let rows = map (derive_row b w) (w_standings w) in map (rank_row (w_now w) (ranked b rows)) rows)"

lemma recompute_run:
  "standing_recompute_bracket b w = standing_list_by_bracket b (w_standings_update (\<lambda>_. recomputed b w) w)"
  by (simp add: standing_recompute_bracket_def transaction_def standing_derive_def standing_rank_def
      standing_list_by_bracket_def recomputed_def derive_row_def [abs_def] rank_row_def [abs_def] Let_def)

lemma derive_after_rank:
  "derive_row b w (rank_row (w_now w) rows (derive_row b w s)) = rank_row (w_now w) rows (derive_row b w s)"
  by (cases "s_bracket_id s = b"; cases "new_position rows (s_id s)")
    (simp_all add: derive_row_def rank_row_def derived_def)

lemma recomputed_again:
  assumes "w' = w_standings_update (\<lambda>_. recomputed b w) w"
  shows "recomputed b w' = recomputed b w"
proof -
  let ?d = "derive_row b w" and ?rows = "map (derive_row b w) (w_standings w)"
  let ?r = "rank_row (w_now w) (ranked b ?rows)"
  have rows: "map (derive_row b w') (w_standings w') = map ?r ?rows"
    using assms by (simp add: recomputed_def Let_def derive_after_rank)
  have "rank_row (w_now w) (ranked b (map ?r ?rows)) = ?r"
    by (rule rank_row_cong) (simp only: ranked_map_rank new_position_map_rank)
  moreover have "map ?r (map ?r ?rows) = map ?r ?rows" by simp
  moreover have "w_now w' = w_now w" using assms by simp
  ultimately show ?thesis by (simp only: recomputed_def [of b w'] recomputed_def [of b w] Let_def rows)
qed

end
