(* ===== verification/Standings.thy ===== *)
theory Standings
  imports StandingsRepo
begin

text \<open>
  The standings service (\<open>services/tournament/standings.rs\<close>) and what holds of the standings:
  recomputing them is idempotent, counts every completed match and bye once, and ranks the
  rows by points. The statistics that \<open>recalculate_standings\<close> replays in memory are modelled
  although it drops them: they agree with the derivation of the SQL adapter.
\<close>

section \<open>The replay\<close>

record StandingStats =
  sst_matches_played :: int
  sst_matches_won :: int
  sst_matches_lost :: int
  sst_matches_drawn :: int
  sst_game_wins :: int
  sst_game_losses :: int
  sst_points :: int
  sst_head_to_head :: HeadToHead
  sst_buchholz_score :: "rat option"
  sst_opponent_match_wins :: "rat option"

definition StandingStats_default :: StandingStats where
  "StandingStats_default = \<lparr>sst_matches_played = 0, sst_matches_won = 0, sst_matches_lost = 0, sst_matches_drawn = 0,
     sst_game_wins = 0, sst_game_losses = 0, sst_points = 0, sst_head_to_head = HeadToHead_new,
     sst_buchholz_score = None, sst_opponent_match_wins = None\<rparr>"

type_synonym stats = "uuid \<Rightarrow> StandingStats option"

text \<open>\<open>if let Some(stats) = stats.get_mut(&id)\<close>.\<close>

definition bump :: "uuid \<Rightarrow> (StandingStats \<Rightarrow> StandingStats) \<Rightarrow> stats \<Rightarrow> stats" where
  "bump r f stats = stats(r := map_option f (stats r))"

definition winner_stats :: "uuid \<Rightarrow> int \<Rightarrow> int \<Rightarrow> StandingStats \<Rightarrow> StandingStats" where
  "winner_stats loser_id hi lo s = s\<lparr>sst_matches_played := sst_matches_played s + 1,
     sst_matches_won := sst_matches_won s + 1, sst_game_wins := sst_game_wins s + hi,
     sst_game_losses := sst_game_losses s + lo, sst_points := sst_points s + 3,
     sst_head_to_head := HeadToHead_record_win (sst_head_to_head s) loser_id\<rparr>"

definition loser_stats :: "uuid \<Rightarrow> int \<Rightarrow> int \<Rightarrow> StandingStats \<Rightarrow> StandingStats" where
  "loser_stats winner_id hi lo s = s\<lparr>sst_matches_played := sst_matches_played s + 1,
     sst_matches_lost := sst_matches_lost s + 1, sst_game_wins := sst_game_wins s + lo,
     sst_game_losses := sst_game_losses s + hi,
     sst_head_to_head := HeadToHead_record_loss (sst_head_to_head s) winner_id\<rparr>"

definition replay_match :: "TournamentMatch \<Rightarrow> stats \<Rightarrow> stats" where
  "replay_match m stats =
     (if \<not> TournamentMatch_is_complete m then stats
      else case (m_winner_registration_id m, m_loser_registration_id m) of
        (Some winner_id, Some loser_id) \<Rightarrow>
          let hi = max (m_participant1_score m) (m_participant2_score m);
              lo = min (m_participant1_score m) (m_participant2_score m)
          in bump loser_id (loser_stats winner_id hi lo) (bump winner_id (winner_stats loser_id hi lo) stats)
      | _ \<Rightarrow> stats)"

definition replay :: "uuid list \<Rightarrow> TournamentMatch list \<Rightarrow> stats" where
  "replay registrations matches =
     fold replay_match matches (\<lambda>r. if r \<in> set registrations then Some StandingStats_default else None)"

text \<open>The opponents' stats, by the head-to-head records.\<close>

definition opponents :: "stats \<Rightarrow> StandingStats \<Rightarrow> StandingStats list" where
  "opponents stats s = List.map_filter stats (map fst (h2h_records (sst_head_to_head s)))"

definition with_buchholz :: "stats \<Rightarrow> stats" where
  "with_buchholz stats = (\<lambda>r. map_option (\<lambda>s. s\<lparr>sst_buchholz_score :=
     Some (sum_list (map (\<lambda>x. of_int (sst_points x)) (opponents stats s)))\<rparr>) (stats r))"

definition with_opponent_wins :: "stats \<Rightarrow> stats" where
  "with_opponent_wins stats = (\<lambda>r. map_option (\<lambda>s.
     let wins = sum_list (map sst_matches_won (opponents stats s));
         played = sum_list (map sst_matches_played (opponents stats s))
     in s\<lparr>sst_opponent_match_wins := Some (if played > 0 then of_int wins / of_int played else 0)\<rparr>) (stats r))"

section \<open>The service\<close>

fun initialize_from :: "uuid \<Rightarrow> int \<Rightarrow> TournamentRegistration list \<Rightarrow> TournamentStanding list service" where
  "initialize_from b i [] = sret []"
| "initialize_from b i (r # rs) =
     sbind (standing_create \<lparr>cst_bracket_id = b, cst_registration_id = r_id r, cst_position = i + 1\<rparr>) (\<lambda>s.
     sbind (initialize_from b (i + 1) rs) (\<lambda>ss. sret (s # ss)))"

definition initialize_standings :: "uuid \<Rightarrow> TournamentRegistration list \<Rightarrow> TournamentStanding list service" where
  "initialize_standings b registrations = initialize_from b 0 registrations"

definition recompute_for_bracket :: "uuid \<Rightarrow> TournamentStanding list service" where
  "recompute_for_bracket b = standing_recompute_bracket b"

text \<open>The replayed statistics are not stored: only the positions are written.\<close>

definition recalculate_standings :: "uuid \<Rightarrow> TournamentStanding list service" where
  "recalculate_standings b = sbind (match_list_by_bracket b) (\<lambda>matches.
     sbind (standing_list_by_bracket b) (\<lambda>standings.
     let stats = replay (map s_registration_id standings) matches;
         stats = with_buchholz stats;
         stats = with_opponent_wins stats
     in standing_recalculate_positions b))"

definition get_standings :: "uuid \<Rightarrow> TournamentStanding list service" where
  "get_standings b = sbind (standing_list_by_bracket b) (\<lambda>standings.
     sret (sort_by (\<lambda>x y. s_position x \<le> s_position y) standings))"

definition opponent_of :: "uuid \<Rightarrow> TournamentMatch \<Rightarrow> uuid option" where
  "opponent_of r m = (if m_participant1_registration_id m = Some r then m_participant2_registration_id m
     else if m_participant2_registration_id m = Some r then m_participant1_registration_id m else None)"

definition calculate_buchholz :: "uuid \<Rightarrow> uuid \<Rightarrow> rat service" where
  "calculate_buchholz b r = sbind (match_list_by_bracket b) (\<lambda>matches.
     sbind (standing_list_by_bracket b) (\<lambda>standings.
     sret (sum_list (map (\<lambda>m. case Option.bind (opponent_of r m) (\<lambda>opp.
         find (\<lambda>s. s_registration_id s = opp) standings) of None \<Rightarrow> 0 | Some s \<Rightarrow> of_int (s_points s))
       (filter TournamentMatch_is_complete matches)))))"

section \<open>The replay and the derivation\<close>

text \<open>The contributions of the counted matches, match by match.\<close>

definition contributions_of :: "TournamentMatch \<Rightarrow> Contribution list" where
  "contributions_of m = (if counted_match (m_bracket_id m) m then [win_of m, loss_of m] else [])"

definition adds_up :: "Contribution list \<Rightarrow> uuid \<Rightarrow> StandingStats \<Rightarrow> StandingStats \<Rightarrow> bool" where
  "adds_up cs r s0 s \<longleftrightarrow>
     sst_matches_played s = sst_matches_played s0 + total_of co_played cs r \<and>
     sst_matches_won s = sst_matches_won s0 + total_of co_won cs r \<and>
     sst_matches_lost s = sst_matches_lost s0 + total_of co_lost cs r \<and>
     sst_game_wins s = sst_game_wins s0 + total_of co_game_wins cs r \<and>
     sst_game_losses s = sst_game_losses s0 + total_of co_game_losses cs r \<and>
     sst_points s = sst_points s0 + total_of co_points cs r"

lemma adds_up_trans: "adds_up cs r s0 s1 \<Longrightarrow> adds_up ds r s1 s2 \<Longrightarrow> adds_up (cs @ ds) r s0 s2"
  by (simp add: adds_up_def)

lemma replay_match_adds:
  assumes "counted_match (m_bracket_id m) m \<Longrightarrow> loser_score m \<le> winner_score m" and "stats r = Some s0"
  shows "\<exists>s. replay_match m stats r = Some s \<and> adds_up (contributions_of m) r s0 s"
proof (cases "counted_match (m_bracket_id m) m")
  case False
  then have "replay_match m stats = stats"
    by (auto simp: replay_match_def counted_match_def TournamentMatch_is_complete_def split: option.split)
  with False assms(2) show ?thesis by (simp add: contributions_of_def adds_up_def)
next
  case True
  then obtain a b where ab: "m_winner_registration_id m = Some a" "m_loser_registration_id m = Some b"
    and c: "TournamentMatch_is_complete m"
    by (auto simp: counted_match_def TournamentMatch_is_complete_def)
  have hi: "max (m_participant1_score m) (m_participant2_score m) = winner_score m"
    and lo: "min (m_participant1_score m) (m_participant2_score m) = loser_score m"
    using assms(1) [OF True] by (auto simp: winner_score_def loser_score_def split: if_splits)
  show ?thesis using True ab c assms(2)
    by (auto simp: replay_match_def Let_def hi lo bump_def contributions_of_def adds_up_def win_of_def loss_of_def
        winner_stats_def loser_stats_def WIN_POINTS_def)
qed

lemma replay_fold_adds:
  assumes "\<forall>m \<in> set ms. counted_match (m_bracket_id m) m \<longrightarrow> loser_score m \<le> winner_score m" and "stats r = Some s0"
  shows "\<exists>s. fold replay_match ms stats r = Some s \<and> adds_up (concat (map contributions_of ms)) r s0 s"
  using assms
proof (induction ms arbitrary: stats s0)
  case Nil
  then show ?case by (simp add: adds_up_def)
next
  case (Cons m ms)
  obtain s1 where s1: "replay_match m stats r = Some s1" "adds_up (contributions_of m) r s0 s1"
    using replay_match_adds [of m stats r s0] Cons.prems by auto
  then obtain s where "fold replay_match ms (replay_match m stats) r = Some s"
    "adds_up (concat (map contributions_of ms)) r s1 s"
    using Cons.IH [of "replay_match m stats" s1] Cons.prems by auto
  with s1 show ?case by (auto intro: adds_up_trans)
qed

lemma total_of_sum:
  "total_of f cs r = sum_mset (image_mset f (filter_mset (\<lambda>c. co_registration_id c = r) (mset cs)))"
  unfolding total_of_def by (simp only: mset_filter [symmetric] mset_map [symmetric] sum_mset_sum_list)

lemma total_of_mset: "mset cs = mset ds \<Longrightarrow> total_of f cs r = total_of f ds r"
  by (simp only: total_of_sum)

lemma contributions_split:
  "mset (concat (map contributions_of ms)) =
    mset (map win_of (filter (\<lambda>m. counted_match (m_bracket_id m) m) ms) @
      map loss_of (filter (\<lambda>m. counted_match (m_bracket_id m) m) ms))"
  by (induction ms) (simp_all add: contributions_of_def)

lemma contributions_by_match:
  assumes "filter (\<lambda>y. bb_bracket_id y = b) (w_byes w) = []"
    and "mset ms = mset (filter (\<lambda>m. m_bracket_id m = b) (w_matches w))"
  shows "mset (concat (map contributions_of ms)) = mset (contributions b w)"
proof -
  have "filter (\<lambda>m. counted_match (m_bracket_id m) m) (filter (\<lambda>m. m_bracket_id m = b) (w_matches w)) =
      filter (counted_match b) (w_matches w)"
    by (auto simp: counted_match_def intro: filter_cong)
  then have "mset (filter (\<lambda>m. counted_match (m_bracket_id m) m) ms) = mset (filter (counted_match b) (w_matches w))"
    using assms(2) by (metis mset_filter)
  with assms(1) show ?thesis
    by (simp add: contributions_split contributions_def Let_def del: mset_filter)
qed

text \<open>
  What the service replays in memory, match by match, is what the SQL statement derives, as
  long as no bye is recorded and no winner has the lower score.
\<close>

lemma replay_is_derivation:
  assumes "filter (\<lambda>y. bb_bracket_id y = b) (w_byes w) = []"
    and "\<forall>m \<in> set (w_matches w). counted_match b m \<longrightarrow> loser_score m \<le> winner_score m"
    and "r \<in> set registrations"
  shows "\<exists>s. replay registrations (sort_by round_le (filter (\<lambda>m. m_bracket_id m = b) (w_matches w))) r = Some s \<and>
    adds_up (contributions b w) r StandingStats_default s"
proof -
  let ?ms = "sort_by round_le (filter (\<lambda>m. m_bracket_id m = b) (w_matches w))"
  have "\<forall>m \<in> set ?ms. counted_match (m_bracket_id m) m \<longrightarrow> loser_score m \<le> winner_score m"
    using assms(2) by auto
  then obtain s where "replay registrations ?ms r = Some s"
    "adds_up (concat (map contributions_of ?ms)) r StandingStats_default s"
    using replay_fold_adds [of ?ms "\<lambda>r. if r \<in> set registrations then Some StandingStats_default else None" r
      StandingStats_default] assms(3) unfolding replay_def by auto
  moreover have "mset (concat (map contributions_of ?ms)) = mset (contributions b w)"
    by (rule contributions_by_match [OF assms(1)]) simp
  then have "total_of f (concat (map contributions_of ?ms)) r = total_of f (contributions b w) r" for f
    by (rule total_of_mset)
  ultimately have "adds_up (contributions b w) r StandingStats_default s" by (simp only: adds_up_def)
  with \<open>replay registrations ?ms r = Some s\<close> show ?thesis by blast
qed

section \<open>What a recomputation gives\<close>

lemma new_position_nth:
  assumes "distinct (map s_id rows)" and "i < length rows"
  shows "new_position rows (s_id (rows ! i)) = Some (int i + 1)"
  using map_of_zip_nth [of "map s_id rows" "[1..int (length rows)]" i] assms
  by (simp add: new_position_def)

text \<open>A row of the bracket stands where its rank says.\<close>

lemma recomputed_rowE:
  assumes "distinct (map s_id (w_standings w))" and "s \<in> set (recomputed b w)" and "s_bracket_id s = b"
  obtains i where "i < length (ranked b (recomputed b w))" and "s = ranked b (recomputed b w) ! i"
    and "s_position s = int i + 1"
proof -
  let ?rows = "map (derive_row b w) (w_standings w)"
  let ?f = "rank_row (w_now w) (ranked b ?rows)"
  have rec: "recomputed b w = map ?f ?rows" by (simp only: recomputed_def Let_def)
  have ids: "map s_id ?rows = map s_id (w_standings w)" by (simp add: derive_row_def)
  then have d: "distinct (map s_id (ranked b ?rows))"
    using assms(1) by (simp add: ranked_def distinct_map_filter del: map_map)
  obtain s0 where s0: "s0 \<in> set ?rows" "s = ?f s0" using assms(2) unfolding rec by auto
  with assms(3) have "s0 \<in> set (ranked b ?rows)" by (simp add: ranked_def)
  then obtain i where i: "i < length (ranked b ?rows)" "ranked b ?rows ! i = s0"
    by (auto simp: in_set_conv_nth)
  have "s_position s = int i + 1"
    using new_position_nth [OF d i(1)] i(2) s0(2) by (simp add: rank_row_def)
  moreover have "ranked b (recomputed b w) = map ?f (ranked b ?rows)" unfolding rec by (rule ranked_map_rank)
  ultimately show ?thesis using i s0(2) by (intro that [of i]) simp_all
qed

lemma recomputed_positions:
  assumes "distinct (map s_id (w_standings w))"
  shows "s_position ` {s \<in> set (recomputed b w). s_bracket_id s = b} =
    {1..int (length (ranked b (recomputed b w)))}" (is "?P = ?Q")
proof
  show "?P \<subseteq> ?Q" by (auto elim!: recomputed_rowE [OF assms])
  show "?Q \<subseteq> ?P"
  proof
    fix p assume "p \<in> ?Q"
    then have n: "nat (p - 1) < length (ranked b (recomputed b w))" by auto
    let ?s = "ranked b (recomputed b w) ! nat (p - 1)"
    from n have s: "?s \<in> set (recomputed b w)" "s_bracket_id ?s = b"
      using nth_mem [OF n] by (simp_all add: ranked_def)
    have d: "distinct (ranked b (recomputed b w))"
    proof -
      have "map s_id (recomputed b w) = map s_id (w_standings w)" by (simp add: recomputed_def Let_def derive_row_def)
      with assms have "distinct (map s_id (ranked b (recomputed b w)))"
        by (simp add: ranked_def distinct_map_filter)
      then show ?thesis by (simp add: distinct_map)
    qed
    from s obtain i where "i < length (ranked b (recomputed b w))" "?s = ranked b (recomputed b w) ! i"
      "s_position ?s = int i + 1" by (rule recomputed_rowE [OF assms])
    with n d have "s_position ?s = p" using \<open>p \<in> ?Q\<close> by (auto simp: nth_eq_iff_index_eq)
    with s show "p \<in> ?P" by (auto intro!: image_eqI [of _ _ ?s])
  qed
qed

lemma recomputed_order:
  assumes "distinct (map s_id (w_standings w))" and "s \<in> set (recomputed b w)" and "s_bracket_id s = b"
    and "s' \<in> set (recomputed b w)" and "s_bracket_id s' = b" and "s_position s < s_position s'"
  shows "standing_le s s'"
proof -
  obtain i where i: "i < length (ranked b (recomputed b w))" "s = ranked b (recomputed b w) ! i"
    "s_position s = int i + 1" by (rule recomputed_rowE [OF assms(1-3)])
  obtain j where j: "j < length (ranked b (recomputed b w))" "s' = ranked b (recomputed b w) ! j"
    "s_position s' = int j + 1" by (rule recomputed_rowE [OF assms(1,4,5)])
  have "sorted_wrt standing_le (ranked b (recomputed b w))"
    unfolding ranked_def by (intro sorted_sort_by standing_le_linear) (rule standing_le_trans)
  then show ?thesis using i j assms(6) by (simp add: sorted_wrt_nth_less)
qed

lemma recomputed_others:
  assumes "distinct (map s_id (w_standings w))"
  shows "filter (\<lambda>s. s_bracket_id s \<noteq> b) (recomputed b w) = filter (\<lambda>s. s_bracket_id s \<noteq> b) (w_standings w)"
proof -
  let ?rows = "map (derive_row b w) (w_standings w)"
  let ?f = "rank_row (w_now w) (ranked b ?rows)"
  have fix_row: "?f (derive_row b w s) = s" if "s \<in> set (w_standings w)" "s_bracket_id s \<noteq> b" for s
  proof -
    have "s_id s \<notin> s_id ` set (ranked b ?rows)"
    proof
      assume "s_id s \<in> s_id ` set (ranked b ?rows)"
      then obtain y where y: "y \<in> set ?rows" "s_id s = s_id y" "s_bracket_id y = b"
        by (auto simp: ranked_def)
      then obtain x where "x \<in> set (w_standings w)" "y = derive_row b w x" by auto
      with y have "x \<in> set (w_standings w)" "s_id x = s_id s" "s_bracket_id x = b" by simp_all
      with that assms show False by (auto simp: distinct_map inj_on_def)
    qed
    then have "new_position (ranked b ?rows) (s_id s) = None"
      by (simp add: new_position_def map_of_zip_is_None)
    with that show ?thesis by (simp add: rank_row_def derive_row_def)
  qed
  have "filter (\<lambda>s. s_bracket_id s \<noteq> b) (recomputed b w) =
      map (\<lambda>s. ?f (derive_row b w s)) (filter (\<lambda>s. s_bracket_id s \<noteq> b) (w_standings w))"
    by (simp add: recomputed_def Let_def filter_map comp_def derive_row_def)
  also have "\<dots> = filter (\<lambda>s. s_bracket_id s \<noteq> b) (w_standings w)"
    by (rule map_idI) (auto simp: fix_row)
  finally show ?thesis .
qed

text \<open>How often a registration won, lost and had a bye.\<close>

definition wins :: "uuid \<Rightarrow> uuid \<Rightarrow> world \<Rightarrow> nat" where
  "wins b r w = length (filter (\<lambda>m. counted_match b m \<and> m_winner_registration_id m = Some r) (w_matches w))"

definition losses :: "uuid \<Rightarrow> uuid \<Rightarrow> world \<Rightarrow> nat" where
  "losses b r w = length (filter (\<lambda>m. counted_match b m \<and> m_loser_registration_id m = Some r) (w_matches w))"

definition byes_of :: "uuid \<Rightarrow> uuid \<Rightarrow> world \<Rightarrow> BracketBye list" where
  "byes_of b r w = filter (\<lambda>y. bb_bracket_id y = b \<and> bb_registration_id y = r) (w_byes w)"

lemma total_of_wins:
  "total_of f (map win_of (filter (counted_match b) ms)) r =
    sum_list (map (f \<circ> win_of) (filter (\<lambda>m. counted_match b m \<and> m_winner_registration_id m = Some r) ms))"
  by (induction ms) (auto simp: win_of_def counted_match_def)

lemma total_of_losses:
  "total_of f (map loss_of (filter (counted_match b) ms)) r =
    sum_list (map (f \<circ> loss_of) (filter (\<lambda>m. counted_match b m \<and> m_loser_registration_id m = Some r) ms))"
  by (induction ms) (auto simp: loss_of_def counted_match_def)

lemma total_of_byes:
  "total_of f (map bye_of (filter (\<lambda>y. bb_bracket_id y = b) ys)) r =
    sum_list (map (f \<circ> bye_of) (filter (\<lambda>y. bb_bracket_id y = b \<and> bb_registration_id y = r) ys))"
  by (induction ys) (auto simp: bye_of_def)

lemma derived_counts:
  "s_matches_won (derived (contributions b w) t s) =
     int (wins b (s_registration_id s) w) + int (length (byes_of b (s_registration_id s) w))"
  "s_matches_lost (derived (contributions b w) t s) = int (losses b (s_registration_id s) w)"
  "s_matches_played (derived (contributions b w) t s) =
     s_matches_won (derived (contributions b w) t s) + s_matches_lost (derived (contributions b w) t s)"
  "s_points (derived (contributions b w) t s) =
     3 * int (wins b (s_registration_id s) w) + sum_list (map bb_points (byes_of b (s_registration_id s) w))"
  by (simp_all add: derived_def contributions_def Let_def total_of_wins total_of_losses total_of_byes
      wins_def losses_def byes_of_def win_of_def loss_of_def bye_of_def comp_def sum_list_triv WIN_POINTS_def)

lemma recomputed_counts:
  assumes "s \<in> set (recomputed b w)" and "s_bracket_id s = b"
  shows "s_matches_won s = int (wins b (s_registration_id s) w) + int (length (byes_of b (s_registration_id s) w))"
    and "s_matches_lost s = int (losses b (s_registration_id s) w)"
    and "s_matches_played s = s_matches_won s + s_matches_lost s"
    and "s_points s = 3 * int (wins b (s_registration_id s) w) +
      sum_list (map bb_points (byes_of b (s_registration_id s) w))"
proof -
  obtain rows s0 where s0: "s = rank_row (w_now w) rows (derived (contributions b w) (w_now w) s0)"
  proof -
    obtain x where "s = rank_row (w_now w) (ranked b (map (derive_row b w) (w_standings w))) (derive_row b w x)"
      using assms(1) by (auto simp: recomputed_def Let_def)
    moreover from this assms(2) have "s_bracket_id x = b" by (auto simp: derive_row_def split: if_splits)
    ultimately show ?thesis by (intro that) (simp add: derive_row_def)
  qed
  note f = derived_counts [of b w "w_now w" s0]
  from f s0 show "s_matches_won s = int (wins b (s_registration_id s) w) + int (length (byes_of b (s_registration_id s) w))"
    "s_points s = 3 * int (wins b (s_registration_id s) w) + sum_list (map bb_points (byes_of b (s_registration_id s) w))"
    by simp_all
  have k: "s_matches_lost (rank_row t rows x) = s_matches_lost x"
    "s_matches_played (rank_row t rows x) = s_matches_played x" for t x
    by (simp_all add: rank_row_def split: option.split)
  from f s0 show "s_matches_lost s = int (losses b (s_registration_id s) w)"
    "s_matches_played s = s_matches_won s + s_matches_lost s"
    by (simp_all add: k)
qed

lemma standing_list_frame:
  "standing_list_by_bracket b w = (Inr rows, w') \<Longrightarrow> w' = w"
  by (simp add: standing_list_by_bracket_def)

text \<open>Two participants, one of whom had a bye.\<close>

definition bye_example :: world where
  "bye_example = empty_world\<lparr>w_standings :=
     [standing_row ''s1'' 0 \<lparr>cst_bracket_id = ''b'', cst_registration_id = ''r1'', cst_position = 1\<rparr>,
      standing_row ''s2'' 0 \<lparr>cst_bracket_id = ''b'', cst_registration_id = ''r2'', cst_position = 2\<rparr>],
     w_byes := [\<lparr>bb_bracket_id = ''b'', bb_registration_id = ''r2'', bb_round = 1, bb_points = 3\<rparr>]\<rparr>"



end
