(* ===== verification/TournamentStart.thy ===== *)
theory TournamentStart
  imports Seeding Standings SingleElim DoubleElim RoundRobin Swiss GroupStage "HOL-Library.Word"
begin

text \<open>
  The start of a tournament (\<open>start_tournament\<close> and the \<open>start_*\<close> methods of
  \<open>services/tournament/service.rs\<close>, with \<open>helpers.rs\<close>): the start is claimed, the brackets are
  generated and stored, the matches are filled and linked, the ready ones are marked. A hash map
  that is only looked up is an association list; the order in which the links of a double
  elimination are written, arbitrary in the code, is here the order in which they were found.
\<close>

section \<open>Helpers\<close>

type_synonym positions = "(string \<times> uuid) list"

text \<open>Collecting into a map: a later entry replaces an earlier one.\<close>

definition build_position_map :: "TournamentMatch list \<Rightarrow> positions" where
  "build_position_map matches = rev (map (\<lambda>m. (m_bracket_position m, m_id m)) matches)"

definition slot_number :: "nat \<Rightarrow> ParticipantSlot" where
  "slot_number n = (if n = 1 then One else Two)"

definition place :: "positions \<Rightarrow> string \<Rightarrow> nat \<Rightarrow> SeededParticipant \<Rightarrow> unit service" where
  "place pos position slot p = (case map_of pos position of
     None \<Rightarrow> sret ()
   | Some match_id \<Rightarrow> sbind (match_assign_participant match_id (slot_number slot) (sp_registration_id p)
       (sp_participant_name p) (sp_participant_logo_url p) (Some (sp_seed p))) (\<lambda>_. sret ()))"

definition apply_initial_assignments :: "InitialAssignment list \<Rightarrow> positions \<Rightarrow> unit service" where
  "apply_initial_assignments assignments pos =
     sfor (\<lambda>a. place pos (ia_bracket_position a) (ia_slot a) (ia_participant a)) assignments"

definition apply_byes :: "ByeInfo list \<Rightarrow> positions \<Rightarrow> unit service" where
  "apply_byes byes pos = sfor (\<lambda>b. place pos (bi_advances_to_position b) (bi_slot b) (bi_participant b)) byes"

text \<open>Halving that rounds towards zero.\<close>

definition half :: "int \<Rightarrow> int" where
  "half i = (if i < 0 then - ((- i) div 2) else i div 2)"

definition parse_or_0 :: "string \<Rightarrow> int" where
  "parse_or_0 s = or_old (parse_i32 s) 0"

text \<open>Where the winner of a single elimination match goes; nowhere if the position does not parse.\<close>

definition se_next_position :: "string \<Rightarrow> string option" where
  "se_next_position position = (case split_on CHR ''M'' position of
     [a, b] \<Rightarrow>
       let round = parse_or_0 (dropWhile (\<lambda>c. c = CHR ''R'') a); match_in_round = parse_or_0 b in
       if round = 0 \<or> match_in_round = 0 then None
       else Some (''R'' @ show_int (round + 1) @ ''M'' @ show_int (half (match_in_round + 1)))
   | _ \<Rightarrow> None)"

definition set_se_progression_links :: "TournamentMatch list \<Rightarrow> positions \<Rightarrow> unit service" where
  "set_se_progression_links matches pos = sfor (\<lambda>m.
     case Option.bind (se_next_position (m_bracket_position m)) (map_of pos) of
       None \<Rightarrow> sret ()
     | Some next_match_id \<Rightarrow> match_set_progression_links (m_id m) (Some next_match_id) None) matches"

definition parse_round_match :: "string \<Rightarrow> string \<Rightarrow> int \<times> int" where
  "parse_round_match position pre =
     (case split_on CHR ''M'' (or_old (strip_prefix pre position) []) of
        [a, b] \<Rightarrow> (parse_or_0 a, parse_or_0 b)
      | _ \<Rightarrow> (0, 0))"

definition derive_result_outcome :: "TournamentMatch \<Rightarrow> int \<Rightarrow> int \<Rightarrow> DomainError + (uuid \<times> uuid)" where
  "derive_result_outcome m s1 s2 = (case (m_participant1_registration_id m, m_participant2_registration_id m) of
     (Some p1, Some p2) \<Rightarrow>
       if s1 > s2 then Inr (p1, p2) else if s1 < s2 then Inr (p2, p1)
       else Inl (InvalidState (''Cannot determine a winner from a tied score ('' @ show_int s1 @ ''-'' @ show_int s2 @ '')''))
   | _ \<Rightarrow> Inl (InvalidState ''Match does not have two participants''))"

definition mark_ready_matches :: "uuid \<Rightarrow> unit service" where
  "mark_ready_matches b = sbind (match_list_by_bracket b) (\<lambda>matches. sfor (\<lambda>m.
     if m_status m = TournamentMatchStatus.Pending \<and> TournamentMatch_has_both_participants m
     then sbind (match_update_status (m_id m) TournamentMatchStatus.Ready) (\<lambda>_. sret ()) else sret ()) matches)"

definition stage_format_plan :: "Tournament \<Rightarrow> TournamentStage \<Rightarrow> MatchFormatPlan service" where
  "stage_format_plan t stage = plan_or_invalid
     (TournamentStage_effective_match_format stage (t_default_match_format t)) (Some (st_format_settings stage))"

section \<open>Single elimination and round robin\<close>

definition new_bracket :: "uuid \<Rightarrow> TournamentStage \<Rightarrow> string \<Rightarrow> BracketType \<Rightarrow> int option \<Rightarrow> TournamentBracket service" where
  "new_bracket t stage nam bracket_type group_number = bracket_create \<lparr>cb_stage_id = st_id stage,
     cb_tournament_id = t, cb_name = nam, cb_bracket_type = bracket_type, cb_total_rounds = 0,
     cb_group_number = group_number\<rparr>"

definition set_rounds :: "uuid \<Rightarrow> int \<Rightarrow> TournamentBracket service" where
  "set_rounds b total_rounds =
     bracket_update b \<lparr>ub_name = None, ub_total_rounds = Some total_rounds, ub_current_round = Some 1\<rparr>"

definition bracket_ctx_of :: "uuid \<Rightarrow> TournamentStage \<Rightarrow> TournamentBracket \<Rightarrow> bracket_ctx" where
  "bracket_ctx_of t stage b = \<lparr>ctx_tournament_id = t, ctx_stage_id = st_id stage, ctx_bracket_id = b_id b\<rparr>"

text \<open>The generated rounds, matches, first participants, byes and links of a single elimination.\<close>

definition fill_single_elimination :: "TournamentBracket \<Rightarrow> GeneratedBracket \<Rightarrow> unit service" where
  "fill_single_elimination bracket generated =
     sbind (set_rounds (b_id bracket) (gb_total_rounds generated)) (\<lambda>_.
     sbind (match_bulk_create (gb_matches generated)) (\<lambda>matches.
     let pos = build_position_map matches in
     sbind (apply_initial_assignments (gb_initial_assignments generated) pos) (\<lambda>_.
     sbind (apply_byes (gb_byes generated) pos) (\<lambda>_.
     set_se_progression_links matches pos))))"

definition start_single_elimination :: "uuid \<Rightarrow> Tournament \<Rightarrow> TournamentStage \<Rightarrow> SeededParticipant list \<Rightarrow> unit service" where
  "start_single_elimination t tournament stage participants =
     sbind (new_bracket t stage ''Main Bracket'' BracketType.SingleElim None) (\<lambda>bracket.
     sbind (stage_format_plan tournament stage) (\<lambda>plan.
     sbind (slift (single_elimination (bracket_ctx_of t stage bracket) plan participants)) (\<lambda>generated.
     sbind (fill_single_elimination bracket generated) (\<lambda>_.
     mark_ready_matches (b_id bracket)))))"

definition initial_standings :: "uuid \<Rightarrow> SeededParticipant list \<Rightarrow> CreateTournamentStanding list" where
  "initial_standings b participants = map (\<lambda>(i, p).
     \<lparr>cst_bracket_id = b, cst_registration_id = sp_registration_id p, cst_position = int (i + 1)\<rparr>)
     (enumerate 0 participants)"

text \<open>The rounds of a bracket whose participants all meet in the matches given, and its standings.\<close>

definition fill_table :: "TournamentBracket \<Rightarrow> int \<Rightarrow> GeneratedBracket \<Rightarrow> uuid option \<Rightarrow> SeededParticipant list \<Rightarrow> unit service" where
  "fill_table bracket total_rounds generated bye participants =
     sbind (set_rounds (b_id bracket) total_rounds) (\<lambda>_.
     sbind (match_bulk_create (gb_matches generated)) (\<lambda>matches.
     sbind (apply_initial_assignments (gb_initial_assignments generated) (build_position_map matches)) (\<lambda>_.
     sbind (standing_bulk_create (initial_standings (b_id bracket) participants)) (\<lambda>_.
     sbind (case bye of
         None \<Rightarrow> sret ()
       | Some bye_id \<Rightarrow> sbind (standing_record_bye (b_id bracket) bye_id 1) (\<lambda>_.
           sbind (standing_recompute_bracket (b_id bracket)) (\<lambda>_. sret ()))) (\<lambda>_.
     mark_ready_matches (b_id bracket))))))"

definition start_round_robin :: "uuid \<Rightarrow> Tournament \<Rightarrow> TournamentStage \<Rightarrow> SeededParticipant list \<Rightarrow> unit service" where
  "start_round_robin t tournament stage participants =
     sbind (new_bracket t stage ''Round Robin'' BracketType.RoundRobin None) (\<lambda>bracket.
     sbind (stage_format_plan tournament stage) (\<lambda>plan.
     sbind (slift (round_robin (bracket_ctx_of t stage bracket) plan participants)) (\<lambda>generated.
     fill_table bracket (gb_total_rounds generated) generated None participants)))"

section \<open>Swiss\<close>

text \<open>\<open>(n as f64).log2().ceil() as i32\<close>: the least exponent that reaches \<open>n\<close>.\<close>

fun ceil_log2_from :: "nat \<Rightarrow> nat \<Rightarrow> nat \<Rightarrow> nat" where
  "ceil_log2_from 0 k n = k"
| "ceil_log2_from (Suc fuel) k n = (if n \<le> 2 ^ k then k else ceil_log2_from fuel (Suc k) n)"

definition ceil_log2 :: "nat \<Rightarrow> int" where
  "ceil_log2 n = (if n = 0 then - (2 ^ 31) else int (ceil_log2_from n 0 n))"

text \<open>\<open>v as i32\<close>.\<close>

definition as_i32 :: "int \<Rightarrow> int" where
  "as_i32 v = sint (word_of_int v :: 32 word)"

text \<open>\<open>i as usize\<close>.\<close>

definition as_usize :: "int \<Rightarrow> nat" where
  "as_usize i = nat (i mod 2 ^ 64)"

definition swiss_max_rounds :: "json \<Rightarrow> nat \<Rightarrow> int" where
  "swiss_max_rounds settings n = (case Option.bind (json_get serde_json settings ''max_rounds'') json_i64 of
     None \<Rightarrow> ceil_log2 n | Some v \<Rightarrow> as_i32 v)"

definition start_swiss :: "uuid \<Rightarrow> Tournament \<Rightarrow> TournamentStage \<Rightarrow> SeededParticipant list \<Rightarrow> unit service" where
  "start_swiss t tournament stage participants =
     sbind (new_bracket t stage ''Swiss'' BracketType.Swiss None) (\<lambda>bracket.
     sbind (stage_format_plan tournament stage) (\<lambda>plan.
     sbind (slift (swiss_initial_round (bracket_ctx_of t stage bracket) plan participants)) (\<lambda>(generated, bye).
     fill_table bracket (swiss_max_rounds (t_format_settings tournament) (length participants)) generated bye
       participants)))"

end
