(* ===== verification/TournamentLaunch.thy ===== *)
theory TournamentLaunch
  imports TournamentStart
begin

text \<open>
  The rest of the start of a tournament (\<open>services/tournament/service.rs\<close>): double elimination
  with its links across three brackets, groups and playoffs, \<open>start_tournament\<close> itself, and the
  next round of a Swiss bracket.
\<close>

section \<open>Double elimination\<close>

text \<open>Who goes where from a match: winner, loser.\<close>

type_synonym links = "(uuid \<times> uuid option \<times> uuid option) list"

text \<open>\<open>entry(id).or_insert((None, None))\<close> and a change of the entry.\<close>

definition link_entry :: "(uuid option \<times> uuid option \<Rightarrow> uuid option \<times> uuid option) \<Rightarrow> uuid \<Rightarrow> links \<Rightarrow> links" where
  "link_entry f i ls = (if i \<in> fst ` set ls then map (\<lambda>(j, l). (j, if j = i then f l else l)) ls
     else ls @ [(i, f (None, None))])"

definition link_winner :: "positions \<Rightarrow> uuid \<Rightarrow> string \<Rightarrow> links \<Rightarrow> links" where
  "link_winner pos i next_pos ls = (case map_of pos next_pos of
     None \<Rightarrow> ls | Some next_id \<Rightarrow> link_entry (\<lambda>l. (Some next_id, snd l)) i ls)"

definition wb_link :: "positions \<Rightarrow> TournamentMatch \<Rightarrow> links \<Rightarrow> links" where
  "wb_link pos m ls = (let (round, match_in_round) = parse_round_match (m_bracket_position m) ''WR'' in
     if round = 0 then ls
     else link_winner pos (m_id m) (''WR'' @ show_int (round + 1) @ ''M'' @ show_int (half (match_in_round + 1))) ls)"

definition lb_next_position :: "int \<Rightarrow> int \<Rightarrow> string" where
  "lb_next_position lb_round match_in_round =
     (if lb_round mod 2 = 1 \<and> lb_round > 1 then ''LR'' @ show_int (lb_round + 1) @ ''M'' @ show_int match_in_round
      else if lb_round = 1 then ''LR2M'' @ show_int match_in_round
      else ''LR'' @ show_int (lb_round + 1) @ ''M'' @ show_int (half (match_in_round + 1)))"

definition lb_link :: "positions \<Rightarrow> TournamentMatch \<Rightarrow> links \<Rightarrow> links" where
  "lb_link pos m ls = (let (lb_round, match_in_round) = parse_round_match (m_bracket_position m) ''LR'' in
     if lb_round = 0 then ls else link_winner pos (m_id m) (lb_next_position lb_round match_in_round) ls)"

definition cross_link :: "positions \<Rightarrow> CrossBracketLink \<Rightarrow> links \<Rightarrow> links" where
  "cross_link pos l ls =
     (case (map_of pos (cl_source_bracket_position l), map_of pos (cl_target_bracket_position l)) of
        (Some src, Some tgt) \<Rightarrow> link_entry (\<lambda>e. case cl_link_type l of
            LoserDropsTo \<Rightarrow> (fst e, Some tgt) | WinnerAdvancesTo \<Rightarrow> (Some tgt, snd e)) src ls
      | _ \<Rightarrow> ls)"

definition de_links :: "positions \<Rightarrow> TournamentMatch list \<Rightarrow> TournamentMatch list \<Rightarrow> CrossBracketLink list \<Rightarrow> links" where
  "de_links pos wb_matches lb_matches cross = fold (cross_link pos) cross
     (fold (lb_link pos) lb_matches (fold (wb_link pos) wb_matches []))"

text \<open>The three brackets, in the order winners, losers, grand final, and what is generated into them.\<close>

definition new_double_elimination :: "uuid \<Rightarrow> TournamentStage \<Rightarrow>
    (TournamentBracket \<times> TournamentBracket \<times> TournamentBracket) service" where
  "new_double_elimination t stage =
     sbind (new_bracket t stage ''Winners Bracket'' BracketType.Winners None) (\<lambda>wb.
     sbind (new_bracket t stage ''Losers Bracket'' BracketType.Losers None) (\<lambda>lb.
     sbind (new_bracket t stage ''Grand Final'' BracketType.GrandFinal None) (\<lambda>gf.
     sret (wb, lb, gf))))"

definition fill_double_elimination :: "TournamentBracket \<times> TournamentBracket \<times> TournamentBracket \<Rightarrow>
    GeneratedDoubleElimination \<Rightarrow> unit service" where
  "fill_double_elimination = (\<lambda>(wb, lb, gf) generated.
     sbind (set_rounds (b_id wb) (gb_total_rounds (winners_bracket generated))) (\<lambda>_.
     sbind (if gb_total_rounds (losers_bracket generated) > 0
         then sbind (set_rounds (b_id lb) (gb_total_rounds (losers_bracket generated))) (\<lambda>_. sret ())
         else sret ()) (\<lambda>_.
     sbind (set_rounds (b_id gf) 1) (\<lambda>_.
     sbind (match_bulk_create (gb_matches (winners_bracket generated))) (\<lambda>wb_matches.
     sbind (if gb_matches (losers_bracket generated) = [] then sret []
         else match_bulk_create (gb_matches (losers_bracket generated))) (\<lambda>lb_matches.
     sbind (match_bulk_create (gb_matches (grand_final_bracket generated))) (\<lambda>gf_matches.
     let pos = build_position_map gf_matches @ build_position_map lb_matches @ build_position_map wb_matches in
     sbind (apply_initial_assignments (gb_initial_assignments (winners_bracket generated)) pos) (\<lambda>_.
     sbind (apply_byes (gb_byes (winners_bracket generated)) pos) (\<lambda>_.
     sfor (\<lambda>(match_id, winner_to, loser_to). match_set_progression_links match_id winner_to loser_to)
       (de_links pos wb_matches lb_matches (cross_bracket_links generated)))))))))))"

definition start_double_elimination :: "uuid \<Rightarrow> Tournament \<Rightarrow> TournamentStage \<Rightarrow> SeededParticipant list \<Rightarrow> unit service" where
  "start_double_elimination t tournament stage participants =
     sbind (new_double_elimination t stage) (\<lambda>(wb, lb, gf).
     sbind (stage_format_plan tournament stage) (\<lambda>plan.
     sbind (slift (double_elimination t (st_id stage) (b_id wb) (b_id lb) (b_id gf) plan participants)) (\<lambda>generated.
     sbind (fill_double_elimination (wb, lb, gf) generated) (\<lambda>_.
     mark_ready_matches (b_id wb)))))"

section \<open>Groups and playoffs\<close>

definition GroupsConfig_playoff_stage_settings :: "GroupsConfig \<Rightarrow> json" where
  "GroupsConfig_playoff_stage_settings c = JObj (
     (case gc_playoff_final_format c of None \<Rightarrow> [] | Some f \<Rightarrow> [(''final_format'', JStr (MatchFormat_to_string f))]) @
     (case gc_playoff_grand_final_format c of None \<Rightarrow> []
        | Some f \<Rightarrow> [(''grand_final_format'', JStr (MatchFormat_to_string f))]))"

definition start_group :: "uuid \<Rightarrow> TournamentStage \<Rightarrow> GroupStageFormat \<Rightarrow> MatchFormatPlan \<Rightarrow>
    nat \<times> SeededParticipant list \<Rightarrow> unit service" where
  "start_group t stage group_format plan = (\<lambda>(group_idx, group).
     sbind (new_bracket t stage (''Group '' @ group_label group_idx)
       (case group_format of GroupStageFormat.RoundRobin \<Rightarrow> BracketType.RoundRobin | GroupStageFormat.Swiss \<Rightarrow> BracketType.Swiss)
       (Some (int (group_idx + 1)))) (\<lambda>bracket.
     case group_format of
       GroupStageFormat.RoundRobin \<Rightarrow>
         sbind (slift (round_robin (bracket_ctx_of t stage bracket) plan group)) (\<lambda>generated.
         fill_table bracket (gb_total_rounds generated) generated None group)
     | GroupStageFormat.Swiss \<Rightarrow>
         sbind (slift (swiss_initial_round (bracket_ctx_of t stage bracket) plan group)) (\<lambda>(generated, bye).
         fill_table bracket (ceil_log2 (length group)) generated bye group)))"

definition start_groups_and_playoffs :: "uuid \<Rightarrow> Tournament \<Rightarrow> SeededParticipant list \<Rightarrow> unit service" where
  "start_groups_and_playoffs t tournament participants =
     sbind (slift (GroupsConfig_from_format_settings serde_json (t_format_settings tournament) (length participants))) (\<lambda>config.
     let min_per_group = length participants div gc_group_count config in
     if min_per_group < 2
     then sfail (InvalidState (''Not enough participants ('' @ show_nat (length participants) @ '') for '' @
       show_nat (gc_group_count config) @ '' groups (need at least 2 per group)''))
     else if gc_advance_per_group config > min_per_group
     then sfail (InvalidState (''advance_per_group ('' @ show_nat (gc_advance_per_group config) @
       '') exceeds minimum group size ('' @ show_nat min_per_group @ '')''))
     else sbind (slift (distribute_into_groups participants (gc_group_count config))) (\<lambda>groups.
     let group_plan = GroupsConfig_group_format_plan config (t_default_match_format tournament) in
     sbind (stage_create \<lparr>cs_tournament_id = t, cs_name = ''Group Stage'', cs_stage_order = 1,
       cs_format = StageFormat.GroupStage,
       cs_format_settings = JObj [(''group_format'', JStr (case gc_group_format config of
         GroupStageFormat.RoundRobin \<Rightarrow> ''round_robin'' | GroupStageFormat.Swiss \<Rightarrow> ''swiss''))],
       cs_advancement_count = Some (int (gc_advance_per_group config)),
       cs_advancement_rule = AdvancementRule.TopNPerGroup, cs_match_format = Some (plan_default group_plan),
       cs_map_veto_format = t_default_map_veto_format tournament, cs_starts_at = t_starts_at tournament,
       cs_ends_at = None\<rparr>) (\<lambda>group_stage.
     sbind (stage_create \<lparr>cs_tournament_id = t, cs_name = ''Playoffs'', cs_stage_order = 2,
       cs_format = (case gc_playoff_format config of
         PlayoffFormat.SingleElimination \<Rightarrow> StageFormat.SingleElimination
       | PlayoffFormat.DoubleElimination \<Rightarrow> StageFormat.DoubleElimination),
       cs_format_settings = GroupsConfig_playoff_stage_settings config, cs_advancement_count = None,
       cs_advancement_rule = AdvancementRule.TopN,
       cs_match_format = Some (or_old (gc_playoff_match_format config) (t_default_match_format tournament)),
       cs_map_veto_format = t_default_map_veto_format tournament, cs_starts_at = None, cs_ends_at = None\<rparr>) (\<lambda>_.
     sbind (sfor (start_group t group_stage (gc_group_format config) group_plan) (enumerate 0 groups)) (\<lambda>_.
     sbind (stage_update_status (st_id group_stage) StageStatus.Active) (\<lambda>_. sret ()))))))"

section \<open>The start\<close>

definition main_stage :: "uuid \<Rightarrow> Tournament \<Rightarrow> StageFormat \<Rightarrow> TournamentStage service" where
  "main_stage t tournament stage_format = sbind (stage_list_by_tournament t) (\<lambda>stages. case stages of
     [] \<Rightarrow> stage_create \<lparr>cs_tournament_id = t, cs_name = ''Main Bracket'', cs_stage_order = 1,
       cs_format = stage_format, cs_format_settings = t_format_settings tournament, cs_advancement_count = None,
       cs_advancement_rule = AdvancementRule.TopN, cs_match_format = Some (t_default_match_format tournament),
       cs_map_veto_format = t_default_map_veto_format tournament, cs_starts_at = t_starts_at tournament,
       cs_ends_at = None\<rparr>
   | stage # _ \<Rightarrow> sret stage)"

text \<open>The format's stage format and its way to start; groups and playoffs make their own stages.\<close>

definition build_brackets :: "uuid \<Rightarrow> Tournament \<Rightarrow> SeededParticipant list \<Rightarrow> unit service" where
  "build_brackets t tournament participants =
     (let via = (\<lambda>stage_format start. sbind (main_stage t tournament stage_format) (\<lambda>stage.
            sbind (start t tournament stage participants) (\<lambda>_.
            sbind (stage_update_status (st_id stage) StageStatus.Active) (\<lambda>_. sret ()))))
      in case t_format tournament of
        TournamentFormat.GroupsAndPlayoffs \<Rightarrow> start_groups_and_playoffs t tournament participants
      | TournamentFormat.SingleElimination \<Rightarrow> via StageFormat.SingleElimination start_single_elimination
      | TournamentFormat.DoubleElimination \<Rightarrow> via StageFormat.DoubleElimination start_double_elimination
      | TournamentFormat.RoundRobin \<Rightarrow> via StageFormat.RoundRobin start_round_robin
      | TournamentFormat.Swiss \<Rightarrow> via StageFormat.Swiss start_swiss)"

definition confirmed_participants :: "Tournament \<Rightarrow> uuid \<Rightarrow> TournamentRegistration list service" where
  "confirmed_participants tournament t = (if t_check_in_required tournament then registration_list_checked_in t
     else registration_list_seeded t)"

definition start_tournament :: "uuid \<Rightarrow> Tournament service" where
  "start_tournament t = sbind (get_tournament t) (\<lambda>tournament.
     if t_status tournament \<noteq> TournamentStatus.Scheduled \<and> t_status tournament \<noteq> TournamentStatus.Registration
     then sfail (InvalidState (''Cannot start tournament in '' @ TournamentStatus_to_string (t_status tournament) @ '' status''))
     else sbind (confirmed_participants tournament t) (\<lambda>participants.
     if length participants < nat (t_min_participants tournament) then sfail InsufficientParticipants
     else sbind (tournament_try_claim_start t) (\<lambda>claimed. case claimed of
       None \<Rightarrow> get_tournament t
     | Some claimed \<Rightarrow> sbind (bracket_list_by_tournament t) (\<lambda>existing_brackets.
         if existing_brackets \<noteq> [] then sret claimed
         else sbind (build_brackets t tournament (prepare_participants participants)) (\<lambda>_.
           tournament_mark_started t)))))"

section \<open>The next Swiss round\<close>

definition completed_pairings :: "TournamentMatch list \<Rightarrow> (uuid \<times> uuid) list" where
  "completed_pairings matches = List.map_filter (\<lambda>m.
     case (m_participant1_registration_id m, m_participant2_registration_id m) of
       (Some a, Some b) \<Rightarrow> Some (a, b) | _ \<Rightarrow> None) matches"

definition swiss_standing :: "TournamentRegistration list \<Rightarrow> TournamentMatch list \<Rightarrow> int \<Rightarrow> TournamentStanding \<Rightarrow>
    rat SwissParticipantStanding option" where
  "swiss_standing registrations matches current_round s =
     map_option (\<lambda>reg. \<lparr>ss_registration_id = s_registration_id s, ss_participant_name = r_participant_name reg,
        ss_participant_logo_url = r_participant_logo_url reg, ss_seed = or_old (r_seed reg) (s_position s),
        ss_points = s_points s, ss_buchholz_score = or_old (s_buchholz_score s) 0,
        ss_had_bye = length (filter (\<lambda>m. m_participant1_registration_id m = Some (s_registration_id s) \<or>
          m_participant2_registration_id m = Some (s_registration_id s)) matches) < nat current_round\<rparr>)
       (map_of (rev (map (\<lambda>r. (r_id r, r)) registrations)) (s_registration_id s))"

definition generate_next_swiss_round :: "uuid \<Rightarrow> TournamentMatch list service" where
  "generate_next_swiss_round t = sbind (get_tournament t) (\<lambda>tournament.
     if t_status tournament \<noteq> TournamentStatus.InProgress
     then sfail (InvalidState ''Tournament must be in InProgress status'')
     else if t_format tournament \<noteq> TournamentFormat.Swiss \<and> t_format tournament \<noteq> TournamentFormat.GroupsAndPlayoffs
     then sfail (InvalidState ''Tournament is not Swiss format'')
     else sbind (bracket_list_by_tournament t) (\<lambda>brackets.
     sbind (sneed (InvalidState ''No Swiss bracket found'') (find (\<lambda>b. b_bracket_type b = BracketType.Swiss) brackets)) (\<lambda>bracket.
     sbind (match_list_by_bracket (b_id bracket)) (\<lambda>all_matches.
     let current = filter (\<lambda>m. m_round m = b_current_round bracket) all_matches in
     if current = [] then sfail (InvalidState ''No matches found for current round'')
     else if \<not> list_all TournamentMatch_is_complete current
     then sfail (InvalidState ''Not all current-round matches are complete'')
     else let next_round = b_current_round bracket + 1 in
     if next_round > b_total_rounds bracket then sfail (InvalidState ''Maximum number of rounds reached'')
     else sbind (standing_list_by_bracket (b_id bracket)) (\<lambda>standings.
     sbind (registration_list_all_by_tournament t (Some TournamentRegistrationStatus.Approved)) (\<lambda>registrations.
     sbind (stage_find_by_id (b_stage_id bracket)) (\<lambda>found.
     sbind (sneed (Internal (''Stage '' @ b_stage_id bracket @ '' not found'')) found) (\<lambda>stage.
     sbind (stage_format_plan tournament stage) (\<lambda>plan.
     sbind (slift (swiss_next_round (bracket_ctx_of t stage bracket) plan next_round
       (List.map_filter (swiss_standing registrations all_matches (b_current_round bracket)) standings)
       (completed_pairings all_matches))) (\<lambda>(generated, bye).
     sbind (match_bulk_create (gb_matches generated)) (\<lambda>new_matches.
     sbind (apply_initial_assignments (gb_initial_assignments generated) (build_position_map new_matches)) (\<lambda>_.
     sbind (case bye of None \<Rightarrow> sret () | Some bye_id \<Rightarrow> standing_record_bye (b_id bracket) bye_id next_round) (\<lambda>_.
     sbind (standing_recompute_bracket (b_id bracket)) (\<lambda>_.
     sbind (bracket_update (b_id bracket) \<lparr>ub_name = None, ub_total_rounds = None, ub_current_round = Some next_round\<rparr>) (\<lambda>_.
     sbind (mark_ready_matches (b_id bracket)) (\<lambda>_.
     sret new_matches))))))))))))))))"

end
