(* ===== verification/Progression.thy ===== *)
theory Progression
  imports TournamentLaunch Lifecycle
begin

text \<open>
  The progression service (\<open>services/tournament/progression.rs\<close>): a result moves the winner and the
  loser on, updates the standings, marks the matches that became ready and, after the last result
  of a group stage, builds the playoffs; a revert takes all of it back, or refuses.
\<close>

section \<open>Results and roles\<close>

record Advancement =
  ad_target_match_id :: uuid
  ad_target_position :: int

datatype LoserResult = Eliminated | DropsTo uuid int | NotApplicable

record ProgressionResult =
  pr_match_id :: uuid
  pr_winner_advancement :: "Advancement option"
  pr_loser_result :: LoserResult
  pr_updated_standings :: "TournamentStanding list"
  pr_newly_ready_matches :: "uuid list"
  pr_bracket_complete :: bool
  pr_tournament_complete :: bool
  pr_stage_advanced :: bool

datatype RevertEffect = ClearRecordedResult | WithdrawFromDownstream

fun revert_effect :: "BracketType \<Rightarrow> RevertEffect" where
  "revert_effect BracketType.RoundRobin = ClearRecordedResult"
| "revert_effect BracketType.Swiss = ClearRecordedResult"
| "revert_effect BracketType.SingleElim = WithdrawFromDownstream"
| "revert_effect BracketType.Winners = WithdrawFromDownstream"
| "revert_effect BracketType.Losers = WithdrawFromDownstream"
| "revert_effect BracketType.GrandFinal = WithdrawFromDownstream"

datatype ProgressionRole = Winner | Loser

text \<open>Whether the source says that a slot is filled by this output of the match at the position.\<close>

fun fills_from :: "ProgressionRole \<Rightarrow> MatchParticipantSource \<Rightarrow> string \<Rightarrow> bool" where
  "fills_from Winner (WinnerOf pos) position \<longleftrightarrow> pos = position"
| "fills_from Loser (LoserOf pos) position \<longleftrightarrow> pos = position"
| "fills_from role source position \<longleftrightarrow> False"

fun role_label :: "ProgressionRole \<Rightarrow> string" where
  "role_label Winner = ''winner''"
| "role_label Loser = ''loser''"

definition target_is_still_untouched :: "TournamentMatchStatus \<Rightarrow> bool" where
  "target_is_still_untouched s \<longleftrightarrow> s \<in> {TournamentMatchStatus.Pending, TournamentMatchStatus.Ready,
     TournamentMatchStatus.Scheduled}"

section \<open>Lookups\<close>

definition require_match :: "uuid \<Rightarrow> TournamentMatch service" where
  "require_match i = sbind (match_find_by_id i) (sneed (TournamentMatchNotFound i))"

definition require_bracket :: "uuid \<Rightarrow> TournamentBracket service" where
  "require_bracket i = sbind (bracket_find_by_id i) (sneed (Internal (''Bracket '' @ i @ '' not found'')))"

definition require_registration :: "uuid \<Rightarrow> TournamentRegistration service" where
  "require_registration i = sbind (registration_find_by_id i) (sneed (Internal (''Registration '' @ i @ '' not found'')))"

section \<open>Moving on\<close>

definition wired :: "ProgressionRole \<Rightarrow> TournamentMatch \<Rightarrow> MatchParticipantSource option \<Rightarrow> bool" where
  "wired role source_match source = (case source of None \<Rightarrow> False
     | Some s \<Rightarrow> fills_from role s (m_bracket_position source_match))"

definition determine_target_position :: "TournamentMatch \<Rightarrow> TournamentMatch \<Rightarrow> bool \<Rightarrow> DomainError + int" where
  "determine_target_position source_match target is_winner =
     (let role = (if is_winner then Winner else Loser) in
      if wired role source_match (m_participant1_source target) then Inr 1
      else if wired role source_match (m_participant2_source target) then Inr 2
      else if m_participant1_registration_id target = None then Inr 1
      else if m_participant2_registration_id target = None then Inr 2
      else Inl (InvalidState ''Target match already has both participants''))"

definition seat :: "uuid \<Rightarrow> int \<Rightarrow> uuid \<Rightarrow> TournamentRegistration \<Rightarrow> unit service" where
  "seat target_match_id target_position registration_id r = sbind (match_assign_participant target_match_id
     (if target_position = 1 then One else Two) registration_id (r_participant_name r)
     (r_participant_logo_url r) (r_seed r)) (\<lambda>_. sret ())"

definition advance_winner :: "TournamentMatch \<Rightarrow> uuid \<Rightarrow> Advancement option service" where
  "advance_winner source_match winner_id = (case m_winner_progresses_to source_match of
     None \<Rightarrow> sret None
   | Some target_match_id \<Rightarrow>
       sbind (require_match target_match_id) (\<lambda>target.
       sbind (slift (determine_target_position source_match target True)) (\<lambda>target_position.
       sbind (require_registration winner_id) (\<lambda>registration.
       sbind (seat target_match_id target_position winner_id registration) (\<lambda>_.
       sret (Some \<lparr>ad_target_match_id = target_match_id, ad_target_position = target_position\<rparr>))))))"

definition is_table :: "BracketType \<Rightarrow> bool" where
  "is_table b \<longleftrightarrow> b \<in> {BracketType.RoundRobin, BracketType.Swiss}"

definition route_loser :: "TournamentMatch \<Rightarrow> TournamentBracket \<Rightarrow> uuid \<Rightarrow> LoserResult service" where
  "route_loser source_match bracket loser_id =
     (if is_table (b_bracket_type bracket) then sret NotApplicable
      else case m_loser_progresses_to source_match of
        None \<Rightarrow> sret LoserResult.Eliminated
      | Some target_match_id \<Rightarrow>
          sbind (require_match target_match_id) (\<lambda>target.
          sbind (slift (determine_target_position source_match target False)) (\<lambda>target_position.
          sbind (require_registration loser_id) (\<lambda>registration.
          sbind (seat target_match_id target_position loser_id registration) (\<lambda>_.
          sret (DropsTo target_match_id target_position))))))"

definition record_outcome :: "TournamentMatch \<Rightarrow> uuid \<Rightarrow> uuid \<Rightarrow> unit service" where
  "record_outcome m winner_id loser_id =
     (if m_winner_registration_id m = Some winner_id \<and> m_loser_registration_id m = Some loser_id then sret ()
      else sbind (match_submit_result (m_id m) (m_participant1_score m) (m_participant2_score m) winner_id loser_id)
        (\<lambda>_. sret ()))"

section \<open>What became ready, what is complete\<close>

definition waits_full :: "TournamentMatch \<Rightarrow> bool" where
  "waits_full m \<longleftrightarrow> m_status m = TournamentMatchStatus.Pending \<and>
     m_participant1_registration_id m \<noteq> None \<and> m_participant2_registration_id m \<noteq> None"

definition find_newly_ready_matches :: "uuid \<Rightarrow> uuid list service" where
  "find_newly_ready_matches b = sbind (match_list_by_bracket b) (\<lambda>matches.
     let ready = map m_id (filter waits_full matches) in
     sbind (if ready = [] then sret () else sbind (match_mark_pending_as_ready_bulk ready) (\<lambda>_. sret ())) (\<lambda>_.
     sret ready))"

definition is_done :: "TournamentMatch \<Rightarrow> bool" where
  "is_done m \<longleftrightarrow> m_status m \<in> {TournamentMatchStatus.Completed, TournamentMatchStatus.Cancelled}"

definition check_bracket_completion :: "uuid \<Rightarrow> bool service" where
  "check_bracket_completion b = sbind (match_list_by_bracket b) (\<lambda>matches. sret (list_all is_done matches))"

fun all_brackets_complete :: "TournamentBracket list \<Rightarrow> bool service" where
  "all_brackets_complete [] = sret True"
| "all_brackets_complete (b # bs) = sbind (check_bracket_completion (b_id b)) (\<lambda>complete.
     if complete then all_brackets_complete bs else sret False)"

definition check_stage_completion :: "uuid \<Rightarrow> bool service" where
  "check_stage_completion s = sbind (bracket_list_by_stage s) all_brackets_complete"

fun all_stages_complete :: "TournamentStage list \<Rightarrow> bool service" where
  "all_stages_complete [] = sret True"
| "all_stages_complete (s # ss) = sbind (check_stage_completion (st_id s)) (\<lambda>complete.
     if complete then all_stages_complete ss else sret False)"

definition check_tournament_completion :: "uuid \<Rightarrow> bool service" where
  "check_tournament_completion t = sbind (stage_list_by_tournament t) all_stages_complete"

section \<open>From the groups to the playoffs\<close>

definition generate_se_playoff :: "uuid \<Rightarrow> TournamentStage \<Rightarrow> SeededParticipant list \<Rightarrow> MatchFormatPlan \<Rightarrow> unit service" where
  "generate_se_playoff t stage participants plan =
     sbind (new_bracket t stage ''Playoffs'' BracketType.SingleElim None) (\<lambda>bracket.
     sbind (slift (single_elimination (bracket_ctx_of t stage bracket) plan participants)) (\<lambda>generated.
     sbind (fill_single_elimination bracket generated) (\<lambda>_.
     sbind (find_newly_ready_matches (b_id bracket)) (\<lambda>_. sret ()))))"

definition generate_de_playoff :: "uuid \<Rightarrow> TournamentStage \<Rightarrow> SeededParticipant list \<Rightarrow> MatchFormatPlan \<Rightarrow> unit service" where
  "generate_de_playoff t stage participants plan =
     sbind (new_double_elimination t stage) (\<lambda>(wb, lb, gf).
     sbind (slift (double_elimination t (st_id stage) (b_id wb) (b_id lb) (b_id gf) plan participants)) (\<lambda>generated.
     sbind (fill_double_elimination (wb, lb, gf) generated) (\<lambda>_.
     sbind (find_newly_ready_matches (b_id wb)) (\<lambda>_. sret ()))))"

definition as_participant :: "TournamentStanding \<Rightarrow> SeededParticipant service" where
  "as_participant s = sbind (require_registration (s_registration_id s)) (\<lambda>r.
     sret \<lparr>sp_registration_id = r_id r, sp_seed = s_position s, sp_participant_name = r_participant_name r,
       sp_participant_logo_url = r_participant_logo_url r\<rparr>)"

definition group_table :: "TournamentBracket \<Rightarrow> SeededParticipant list service" where
  "group_table b = sbind (standing_list_by_bracket (b_id b)) (smap as_participant)"

definition advance_to_next_stage :: "uuid \<Rightarrow> TournamentStage \<Rightarrow> uuid service" where
  "advance_to_next_stage t completed =
     sbind (stage_find_next_stage t (st_stage_order completed)) (\<lambda>found.
     sbind (sneed (InvalidState ''No next stage found for advancement'') found) (\<lambda>next_stage.
     sbind (bracket_list_by_stage (st_id completed)) (\<lambda>brackets.
     let group_brackets = sort_by (\<lambda>x y. or_old (b_group_number x) 0 \<le> or_old (b_group_number y) 0) brackets in
     sbind (smap group_table group_brackets) (\<lambda>group_standings.
     let participants = cross_seed_for_playoffs group_standings
           (as_usize (or_old (st_advancement_count completed) 2)) in
     if length participants < 2 then sfail (InvalidState ''Not enough participants advanced to playoffs'')
     else sbind (plan_or_invalid (or_old (st_match_format next_stage) MatchFormat.Bo3)
         (Some (st_format_settings next_stage))) (\<lambda>plan.
     sbind (case st_format next_stage of
         StageFormat.SingleElimination \<Rightarrow> generate_se_playoff t next_stage participants plan
       | StageFormat.DoubleElimination \<Rightarrow> generate_de_playoff t next_stage participants plan
       | f \<Rightarrow> sfail (InvalidState (''Unsupported playoff format: '' @ StageFormat_to_string f))) (\<lambda>_.
     sbind (stage_transition_stages (st_id completed) StageStatus.Completed (st_id next_stage) StageStatus.Active) (\<lambda>_.
     sret (st_id next_stage))))))))"

definition advance_stage_if_complete :: "uuid \<Rightarrow> uuid option service" where
  "advance_stage_if_complete b = sbind (check_bracket_completion b) (\<lambda>complete.
     if \<not> complete then sret None
     else sbind (require_bracket b) (\<lambda>bracket.
     sbind (stage_find_by_id (b_stage_id bracket)) (\<lambda>found.
     sbind (sneed (Internal (''Stage '' @ b_stage_id bracket @ '' not found'')) found) (\<lambda>stage.
     if st_format stage \<noteq> StageFormat.GroupStage \<or> st_status stage = StageStatus.Completed then sret None
     else sbind (stage_find_next_stage (b_tournament_id bracket) (st_stage_order stage)) (\<lambda>next_stage.
     if next_stage = None then sret None
     else sbind (check_stage_completion (st_id stage)) (\<lambda>stage_complete.
     if \<not> stage_complete then sret None
     else sbind (advance_to_next_stage (b_tournament_id bracket) stage) (\<lambda>i. sret (Some i))))))))"

definition process_match_completion :: "uuid \<Rightarrow> uuid \<Rightarrow> uuid \<Rightarrow> ProgressionResult service" where
  "process_match_completion match_id winner_id loser_id =
     sbind (require_match match_id) (\<lambda>m.
     sbind (require_bracket (m_bracket_id m)) (\<lambda>bracket.
     sbind (record_outcome m winner_id loser_id) (\<lambda>_.
     sbind (advance_winner m winner_id) (\<lambda>winner_advancement.
     sbind (route_loser m bracket loser_id) (\<lambda>loser_result.
     sbind (if is_table (b_bracket_type bracket) then standing_recompute_bracket (b_id bracket) else sret []) (\<lambda>standings.
     sbind (find_newly_ready_matches (m_bracket_id m)) (\<lambda>ready.
     sbind (check_bracket_completion (m_bracket_id m)) (\<lambda>bracket_complete.
     sbind (advance_stage_if_complete (m_bracket_id m)) (\<lambda>opened.
     sbind (if bracket_complete then check_tournament_completion (m_tournament_id m) else sret False) (\<lambda>tournament_complete.
     sret \<lparr>pr_match_id = match_id, pr_winner_advancement = winner_advancement, pr_loser_result = loser_result,
       pr_updated_standings = standings, pr_newly_ready_matches = ready, pr_bracket_complete = bracket_complete,
       pr_tournament_complete = tournament_complete, pr_stage_advanced = (opened \<noteq> None)\<rparr>))))))))))"

section \<open>Taking it back\<close>

definition candidates :: "TournamentMatch \<Rightarrow> uuid list" where
  "candidates m = List.map_filter id [m_participant1_registration_id m, m_participant2_registration_id m]"

definition slots :: "TournamentMatch \<Rightarrow> (ParticipantSlot \<times> MatchParticipantSource option \<times> uuid option) list" where
  "slots m = [(One, m_participant1_source m, m_participant1_registration_id m),
     (Two, m_participant2_source m, m_participant2_registration_id m)]"

text \<open>The slot wired to the match, or else the slot held by one of its participants.\<close>

definition fed_slot :: "ProgressionRole \<Rightarrow> TournamentMatch \<Rightarrow> TournamentMatch \<Rightarrow>
    (ParticipantSlot \<times> MatchParticipantSource option \<times> uuid option) option" where
  "fed_slot role source_match target =
     (case find (\<lambda>(_, source, _). wired role source_match source) (slots target) of
        Some x \<Rightarrow> Some x
      | None \<Rightarrow> find (\<lambda>(_, _, occupant). case occupant of None \<Rightarrow> False
          | Some i \<Rightarrow> i \<in> set (candidates source_match)) (slots target))"

definition blocker :: "TournamentMatch \<Rightarrow> string option service" where
  "blocker target =
     (if m_winner_registration_id target \<noteq> None then sret (Some ''has a recorded result'')
      else if \<not> target_is_still_untouched (m_status target)
      then sret (Some (''is '' @ TournamentMatchStatus_to_string (m_status target)))
      else case m_winner_progresses_to target of
        None \<Rightarrow> sret None
      | Some deeper_id \<Rightarrow> sbind (require_match deeper_id) (\<lambda>deeper.
          if list_ex (\<lambda>i. Some i \<in> {m_participant1_registration_id target, m_participant2_registration_id target})
              (candidates deeper)
          then sret (Some (''has already advanced a participant into '' @ m_bracket_position deeper))
          else sret None))"

definition moved_on_error :: "TournamentMatch \<Rightarrow> TournamentMatch \<Rightarrow> string \<Rightarrow> DomainError" where
  "moved_on_error source_match target what = Conflict (''Cannot revert '' @ m_bracket_position source_match @
     '': the next-round match '' @ m_bracket_position target @ '' '' @ what @ ''. Revert '' @
     m_bracket_position target @ '' first, then retry '' @ em_dash @
     '' rolling back into a round that has already been played would silently discard that result.'')"

definition ensure_target_has_not_moved_on :: "TournamentMatch \<Rightarrow> TournamentMatch \<Rightarrow> unit service" where
  "ensure_target_has_not_moved_on source_match target = sbind (blocker target) (\<lambda>b. case b of
     None \<Rightarrow> sret ()
   | Some what \<Rightarrow> sfail (moved_on_error source_match target what))"

definition stranger_error :: "ProgressionRole \<Rightarrow> TournamentMatch \<Rightarrow> TournamentMatch \<Rightarrow> uuid \<Rightarrow> DomainError" where
  "stranger_error role source_match target occupant = Conflict (''Cannot revert '' @ m_bracket_position source_match @
     '': the '' @ role_label role @ '' slot of '' @ m_bracket_position target @ '' is held by registration '' @
     occupant @ '', who did not play in '' @ m_bracket_position source_match @ ''. The bracket is inconsistent '' @
     em_dash @ '' refusing to evict a participant this match did not put there.'')"

definition withdraw_from_target :: "TournamentMatch \<Rightarrow> uuid option \<Rightarrow> ProgressionRole \<Rightarrow> bool service" where
  "withdraw_from_target source_match target_match_id role = (case target_match_id of
     None \<Rightarrow> sret False
   | Some target_id \<Rightarrow>
       if candidates source_match = [] then sret False
       else sbind (require_match target_id) (\<lambda>target. case fed_slot role source_match target of
           None \<Rightarrow> sret False
         | Some (slot, _, None) \<Rightarrow> sret False
         | Some (slot, _, Some occupant) \<Rightarrow>
             if occupant \<notin> set (candidates source_match) then sfail (stranger_error role source_match target occupant)
             else sbind (ensure_target_has_not_moved_on source_match target) (\<lambda>_.
               sbind (match_clear_participant target_id slot) (\<lambda>_.
               sbind (if target_is_still_untouched (m_status target) \<and> m_status target \<noteq> TournamentMatchStatus.Pending
                 then sbind (match_update_status target_id TournamentMatchStatus.Pending) (\<lambda>_. sret ()) else sret ()) (\<lambda>_.
               sret True)))))"

definition revert_progression :: "uuid \<Rightarrow> unit service" where
  "revert_progression match_id = sbind (require_match match_id) (\<lambda>m.
     sbind (require_bracket (m_bracket_id m)) (\<lambda>bracket. case revert_effect (b_bracket_type bracket) of
       ClearRecordedResult \<Rightarrow>
         sbind (if m_winner_registration_id m \<noteq> None \<or> m_loser_registration_id m \<noteq> None
           then sbind (match_clear_result match_id) (\<lambda>_. sret ()) else sret ()) (\<lambda>_.
         sbind (standing_recompute_bracket (b_id bracket)) (\<lambda>_. sret ()))
     | WithdrawFromDownstream \<Rightarrow>
         sbind (withdraw_from_target m (m_winner_progresses_to m) Winner) (\<lambda>_.
         sbind (withdraw_from_target m (m_loser_progresses_to m) Loser) (\<lambda>_. sret ()))))"

definition reapply_progression :: "uuid \<Rightarrow> uuid \<Rightarrow> ProgressionResult service" where
  "reapply_progression match_id new_winner_id = sbind (require_match match_id) (\<lambda>m.
     sbind (sneed (InvalidState ''Cannot determine loser'')
       (if m_participant1_registration_id m = Some new_winner_id then m_participant2_registration_id m
        else m_participant1_registration_id m)) (\<lambda>new_loser_id.
     sbind (revert_progression match_id) (\<lambda>_.
     process_match_completion match_id new_winner_id new_loser_id)))"

end
