(* ===== verification/ProgressionSpec.thy ===== *)
theory ProgressionSpec
  imports Progression
begin

text \<open>
  What the progression service does: a result of an elimination match seats both participants in
  the slots wired to it and marks what became ready in its own bracket; reverting the match takes
  the winner back out, and refuses to touch a round that has been played.
\<close>

section \<open>Slots\<close>

fun slot_pos :: "ParticipantSlot \<Rightarrow> int" where
  "slot_pos One = 1"
| "slot_pos Two = 2"

fun occupant :: "ParticipantSlot \<Rightarrow> TournamentMatch \<Rightarrow> uuid option" where
  "occupant One m = m_participant1_registration_id m"
| "occupant Two m = m_participant2_registration_id m"

fun free_slot :: "ParticipantSlot \<Rightarrow> TournamentMatch \<Rightarrow> bool" where
  "free_slot One m \<longleftrightarrow> m_participant1_registration_id m = None \<and> m_participant1_name m = None \<and>
     m_participant1_logo_url m = None \<and> m_participant1_seed m = None"
| "free_slot Two m \<longleftrightarrow> m_participant2_registration_id m = None \<and> m_participant2_name m = None \<and>
     m_participant2_logo_url m = None \<and> m_participant2_seed m = None"

text \<open>The first slot of the target that is wired to the output of the match.\<close>

fun awaits :: "ProgressionRole \<Rightarrow> TournamentMatch \<Rightarrow> ParticipantSlot \<Rightarrow> TournamentMatch \<Rightarrow> bool" where
  "awaits role m One target \<longleftrightarrow> wired role m (m_participant1_source target)"
| "awaits role m Two target \<longleftrightarrow> \<not> wired role m (m_participant1_source target) \<and>
     wired role m (m_participant2_source target)"

fun placed :: "ParticipantSlot \<Rightarrow> uuid \<Rightarrow> TournamentRegistration \<Rightarrow> datetime \<Rightarrow> TournamentMatch \<Rightarrow> TournamentMatch" where
  "placed One i r t m = m\<lparr>m_participant1_registration_id := Some i, m_participant1_name := Some (r_participant_name r),
     m_participant1_logo_url := r_participant_logo_url r, m_participant1_seed := r_seed r, m_updated_at := t\<rparr>"
| "placed Two i r t m = m\<lparr>m_participant2_registration_id := Some i, m_participant2_name := Some (r_participant_name r),
     m_participant2_logo_url := r_participant_logo_url r, m_participant2_seed := r_seed r, m_updated_at := t\<rparr>"

fun emptied :: "ParticipantSlot \<Rightarrow> datetime \<Rightarrow> TournamentMatch \<Rightarrow> TournamentMatch" where
  "emptied One t m = m\<lparr>m_participant1_registration_id := None, m_participant1_name := None,
     m_participant1_logo_url := None, m_participant1_seed := None, m_updated_at := t\<rparr>"
| "emptied Two t m = m\<lparr>m_participant2_registration_id := None, m_participant2_name := None,
     m_participant2_logo_url := None, m_participant2_seed := None, m_updated_at := t\<rparr>"

definition marked :: "uuid \<Rightarrow> datetime \<Rightarrow> TournamentMatch \<Rightarrow> TournamentMatch" where
  "marked b t m = (if m_bracket_id m = b \<and> waits_full m
     then m\<lparr>m_status := TournamentMatchStatus.Ready, m_updated_at := t\<rparr> else m)"

lemma seated_fields [simp]:
  "m_id (placed s i r t m) = m_id m" "m_bracket_id (placed s i r t m) = m_bracket_id m"
  "m_status (placed s i r t m) = m_status m" "m_winner_progresses_to (placed s i r t m) = m_winner_progresses_to m"
  "m_winner_registration_id (placed s i r t m) = m_winner_registration_id m"
  "m_participant1_source (placed s i r t m) = m_participant1_source m"
  "m_participant2_source (placed s i r t m) = m_participant2_source m"
  "occupant s' (placed s i r t m) = (if s' = s then Some i else occupant s' m)"
  by (cases s; cases s'; simp)+

lemma emptied_fields [simp]:
  "m_id (emptied s t m) = m_id m" "occupant s (emptied s t m) = None"
  by (cases s; simp)+

lemma marked_fields [simp]:
  "m_id (marked b t m) = m_id m" "m_bracket_id (marked b t m) = m_bracket_id m"
  "m_winner_progresses_to (marked b t m) = m_winner_progresses_to m"
  "m_winner_registration_id (marked b t m) = m_winner_registration_id m"
  "m_participant1_source (marked b t m) = m_participant1_source m"
  "m_participant2_source (marked b t m) = m_participant2_source m"
  "m_participant1_registration_id (marked b t m) = m_participant1_registration_id m"
  "m_participant2_registration_id (marked b t m) = m_participant2_registration_id m"
  by (simp_all add: marked_def)

lemma marked_occupant [simp]: "occupant s (marked b t m) = occupant s m" "candidates (marked b t m) = candidates m"
  by (cases s) (simp_all add: candidates_def)

lemma marked_not_waiting: "\<not> waits_full m \<Longrightarrow> marked b t m = m"
  by (simp add: marked_def)

lemma emptied_seated: "free_slot s m \<Longrightarrow> emptied s t (placed s i r t' m) = m\<lparr>m_updated_at := t\<rparr>"
  by (cases s) simp_all

lemma mem_candidates: "i \<in> set (candidates m) \<longleftrightarrow>
    m_participant1_registration_id m = Some i \<or> m_participant2_registration_id m = Some i"
  by (auto simp: candidates_def List.map_filter_def)

section \<open>Runs of the parts\<close>

lemma require_match_run [simp]:
  "require_match i w = (case find_row m_id i (w_matches w) of
     None \<Rightarrow> (Inl (TournamentMatchNotFound i), w) | Some m \<Rightarrow> (Inr m, w))"
  by (simp add: require_match_def split: option.split)

lemma require_bracket_found [simp]:
  "find_row b_id i (w_brackets w) = Some b \<Longrightarrow> require_bracket i w = (Inr b, w)"
  by (simp add: require_bracket_def)

lemma require_registration_found [simp]:
  "find_row r_id i (w_registrations w) = Some r \<Longrightarrow> require_registration i w = (Inr r, w)"
  by (simp add: require_registration_def)

lemma seat_run:
  assumes "find_row m_id j (w_matches w) = Some target"
  shows "seat j (slot_pos s) i r w = (Inr (), w_matches_update (modify_row m_id j (placed s i r (w_now w))) w)"
  by (cases s) (simp_all add: seat_def match_assign_participant_def match_set_found [OF assms], simp_all add: modify_row_def)

lemma target_position:
  "awaits (if is_winner then Winner else Loser) m s target \<Longrightarrow>
   determine_target_position m target is_winner = Inr (slot_pos s)"
  by (cases s) (simp_all add: determine_target_position_def)

lemma advance_winner_run:
  assumes "m_winner_progresses_to m = Some j" and "find_row m_id j (w_matches w) = Some target"
    and "awaits Winner m s target" and "find_row r_id i (w_registrations w) = Some r"
  shows "advance_winner m i w = (Inr (Some \<lparr>ad_target_match_id = j, ad_target_position = slot_pos s\<rparr>),
    w_matches_update (modify_row m_id j (placed s i r (w_now w))) w)"
  using assms target_position [of True m s target] by (simp add: advance_winner_def seat_run [OF assms(2)])

lemma route_loser_run:
  assumes "m_loser_progresses_to m = Some j" and "find_row m_id j (w_matches w) = Some target"
    and "awaits Loser m s target" and "find_row r_id i (w_registrations w) = Some r"
    and "\<not> is_table (b_bracket_type b)"
  shows "route_loser m b i w = (Inr (DropsTo j (slot_pos s)),
    w_matches_update (modify_row m_id j (placed s i r (w_now w))) w)"
  using assms target_position [of False m s target] by (simp add: route_loser_def seat_run [OF assms(2)])

lemma newly_ready_run:
  assumes "distinct (map m_id (w_matches w))"
  shows "find_newly_ready_matches b w =
    (Inr (map m_id (filter waits_full (sort_by round_le (filter (\<lambda>m. m_bracket_id m = b) (w_matches w))))),
     w_matches_update (map (marked b (w_now w))) w)"
proof -
  let ?ready = "map m_id (filter waits_full (sort_by round_le (filter (\<lambda>m. m_bracket_id m = b) (w_matches w))))"
  have mem: "m_id m \<in> set ?ready \<and> m_status m = TournamentMatchStatus.Pending \<longleftrightarrow> m_bracket_id m = b \<and> waits_full m"
    if "m \<in> set (w_matches w)" for m
    using that assms by (auto simp: waits_full_def distinct_map inj_on_def image_iff)
  have "map (\<lambda>m. if m_id m \<in> set ?ready \<and> m_status m = TournamentMatchStatus.Pending
      then m\<lparr>m_status := TournamentMatchStatus.Ready, m_updated_at := w_now w\<rparr> else m) (w_matches w) =
    map (marked b (w_now w)) (w_matches w)"
    by (rule map_cong [OF refl]) (simp only: mem marked_def)
  moreover have "map (marked b (w_now w)) (w_matches w) = w_matches w" if "?ready = []"
  proof (rule map_idI)
    fix m assume "m \<in> set (w_matches w)"
    with mem [OF this] that have "\<not> (m_bracket_id m = b \<and> waits_full m)" by simp
    then show "marked b (w_now w) m = m" by (auto simp: marked_def)
  qed
  ultimately show ?thesis
    by (auto simp: find_newly_ready_matches_def match_list_by_bracket_def match_mark_pending_as_ready_bulk_def Let_def
        intro!: world.equality)
qed

definition bracket_done :: "uuid \<Rightarrow> world \<Rightarrow> bool" where
  "bracket_done b w \<longleftrightarrow> (\<forall>m \<in> set (w_matches w). m_bracket_id m = b \<longrightarrow> is_done m)"

lemma check_bracket_run [simp]: "check_bracket_completion b w = (Inr (bracket_done b w), w)"
  by (auto simp: check_bracket_completion_def match_list_by_bracket_def bracket_done_def list_all_iff)

lemma all_brackets_run [simp]: "all_brackets_complete bs w = (Inr (\<forall>b \<in> set bs. bracket_done (b_id b) w), w)"
  by (induction bs) auto

lemma check_stage_run [simp]:
  "check_stage_completion s w =
    (Inr (\<forall>b \<in> set (w_brackets w). b_stage_id b = s \<longrightarrow> bracket_done (b_id b) w), w)"
  by (simp add: check_stage_completion_def bracket_list_by_stage_def Ball_def imp_conjL)

lemma all_stages_run [simp]:
  "all_stages_complete ss w = (Inr (\<forall>s \<in> set ss. \<forall>b \<in> set (w_brackets w).
     b_stage_id b = st_id s \<longrightarrow> bracket_done (b_id b) w), w)"
  by (induction ss) auto

lemma check_tournament_run: "\<exists>c. check_tournament_completion t w = (Inr c, w)"
  by (simp add: check_tournament_completion_def stage_list_by_tournament_def)

lemma no_group_stage:
  assumes "find_row b_id i (w_brackets w) = Some b" and "find_row st_id (b_stage_id b) (w_stages w) = Some st"
    and "st_format st \<noteq> StageFormat.GroupStage"
  shows "advance_stage_if_complete i w = (Inr None, w)"
  using assms by (simp add: advance_stage_if_complete_def)


section \<open>Processing a result\<close>

text \<open>
  A result of an elimination match outside the group stages, with the outcome recorded on the row:
  both participants are moved on, then the matches that became ready are marked.
\<close>

lemma process_elimination:
  assumes "find_row m_id i (w_matches w) = Some m" and "find_row b_id (m_bracket_id m) (w_brackets w) = Some b"
    and "\<not> is_table (b_bracket_type b)" and "find_row st_id (b_stage_id b) (w_stages w) = Some st"
    and "st_format st \<noteq> StageFormat.GroupStage"
    and "m_winner_registration_id m = Some winner_id" and "m_loser_registration_id m = Some loser_id"
    and "advance_winner m winner_id w = (Inr a, w1)" and "route_loser m b loser_id w1 = (Inr l, w2)"
    and "w_brackets w2 = w_brackets w" and "w_stages w2 = w_stages w" and "distinct (map m_id (w_matches w2))"
  shows "\<exists>res. process_match_completion i winner_id loser_id w =
      (Inr res, w_matches_update (map (marked (m_bracket_id m) (w_now w2))) w2) \<and>
    pr_winner_advancement res = a \<and> pr_loser_result res = l \<and>
    pr_newly_ready_matches res = map m_id (filter waits_full (sort_by round_le
      (filter (\<lambda>x. m_bracket_id x = m_bracket_id m) (w_matches w2))))"
proof -
  let ?w = "w_matches_update (map (marked (m_bracket_id m) (w_now w2))) w2"
  obtain c where c: "check_tournament_completion (m_tournament_id m) ?w = (Inr c, ?w)"
    using check_tournament_run by blast
  have none: "advance_stage_if_complete (m_bracket_id m) ?w = (Inr None, ?w)"
    using assms(2,4,5,10,11) by (intro no_group_stage [of _ _ b st]) simp_all
  show ?thesis
    using assms(1-9) by (cases "bracket_done (m_bracket_id m) ?w")
      (simp_all add: process_match_completion_def record_outcome_def newly_ready_run [OF assms(12)] none c)
qed


section \<open>Taking a participant back out\<close>

text \<open>The slot emptied, and the match waiting again.\<close>

definition released :: "ParticipantSlot \<Rightarrow> datetime \<Rightarrow> TournamentMatch \<Rightarrow> TournamentMatch" where
  "released s t m = (emptied s t m)\<lparr>m_status := TournamentMatchStatus.Pending\<rparr>"

lemma released_fields [simp]:
  "m_id (released s t m) = m_id m" "m_status (released s t m) = TournamentMatchStatus.Pending"
  "m_winner_registration_id (released s t m) = m_winner_registration_id m"
  "occupant s (released s t m) = None"
  "m_participant1_source (released s t m) = m_participant1_source m"
  "m_participant2_source (released s t m) = m_participant2_source m"
  by (cases s; simp add: released_def)+

lemma find_row_map:
  assumes "\<And>r. key (f r) = key r"
  shows "find_row key k (map f rows) = map_option f (find_row key k rows)"
  using assms by (induction rows) (auto simp: find_row_def)

lemma modify_row_cong:
  assumes "distinct (map key rows)" and "find_row key k rows = Some r" and "f r = g r"
  shows "modify_row key k f rows = modify_row key k g rows"
  unfolding modify_row_def
  using assms by (intro map_cong [OF refl]) (auto simp: find_row_Some_iff [OF assms(1)] distinct_map inj_on_def)

lemma find_modify_key:
  assumes "\<And>r. key (f r) = key r"
  shows "find_row key k (modify_row key j f rows) = map_option (\<lambda>r. if k = j then f r else r) (find_row key k rows)"
  using find_row_key [of key k rows] by (cases "find_row key k rows") (simp_all add: find_modify_row [where key = key and f = f, OF assms])

lemma fed_slot_wired:
  "awaits role m s target \<Longrightarrow> \<exists>source. fed_slot role m target = Some (s, source, occupant s target)"
  by (cases s) (simp_all add: fed_slot_def slots_def)

lemma withdraw_run:
  assumes "distinct (map m_id (w_matches w))" and "find_row m_id j (w_matches w) = Some target"
    and "awaits role m s target" and "occupant s target = Some x" and "x \<in> set (candidates m)"
    and "blocker target w = (Inr None, w)" and "target_is_still_untouched (m_status target)"
  shows "withdraw_from_target m (Some j) role w =
    (Inr True, w_matches_update (modify_row m_id j (released s (w_now w))) w)"
proof -
  let ?t = "w_now w"
  have clear: "match_clear_participant j s w = (Inr (emptied s ?t target), w_matches_update (modify_row m_id j (emptied s ?t)) w)"
    using assms(2) by (cases s) (simp_all add: match_clear_participant_def match_table.update_found, simp_all add: modify_row_def)
  have there: "find_row m_id j (modify_row m_id j (emptied s ?t) (w_matches w)) = Some (emptied s ?t target)"
    using assms(2) by (simp add: find_modify_row find_row_key [OF assms(2)])
  have twice: "modify_row m_id j (\<lambda>m. m\<lparr>m_status := TournamentMatchStatus.Pending, m_updated_at := ?t\<rparr>)
      (modify_row m_id j (emptied s ?t) (w_matches w)) = modify_row m_id j (released s ?t) (w_matches w)"
    by (cases s) (auto simp: modify_row_def released_def)
  have once: "modify_row m_id j (emptied s ?t) (w_matches w) = modify_row m_id j (released s ?t) (w_matches w)"
    if "m_status target = TournamentMatchStatus.Pending"
    using that by (intro modify_row_cong [OF assms(1,2)]) (cases s; simp add: released_def)
  obtain source where fed: "fed_slot role m target = Some (s, source, Some x)"
    using fed_slot_wired [OF assms(3)] assms(4) by auto
  have some: "candidates m \<noteq> []" using assms(5) by auto
  show ?thesis
  proof (cases "m_status target = TournamentMatchStatus.Pending")
    case True
    then show ?thesis
      using assms(2,5,6) fed some clear once by (simp add: withdraw_from_target_def ensure_target_has_not_moved_on_def)
  next
    case False
    then show ?thesis
      using assms(2,5,6,7) fed some clear there
      by (simp add: withdraw_from_target_def ensure_target_has_not_moved_on_def match_update_status_def match_set_run twice)
  qed
qed

lemma withdraw_empty:
  assumes "find_row m_id j (w_matches w) = Some target" and "awaits role m s target" and "occupant s target = None"
  shows "withdraw_from_target m (Some j) role w = (Inr False, w)"
  using fed_slot_wired [OF assms(2)] assms(1,3) by (auto simp: withdraw_from_target_def)

lemma withdraw_nowhere [simp]: "withdraw_from_target m None role = sret False"
  by (simp add: withdraw_from_target_def)


lemma revert_elimination:
  assumes "find_row m_id i (w_matches w) = Some m" and "find_row b_id (m_bracket_id m) (w_brackets w) = Some b"
    and "\<not> is_table (b_bracket_type b)"
  shows "revert_progression i w = sbind (withdraw_from_target m (m_winner_progresses_to m) Winner) (\<lambda>_.
    sbind (withdraw_from_target m (m_loser_progresses_to m) Loser) (\<lambda>_. sret ())) w"
  using assms by (cases "b_bracket_type b") (simp_all add: revert_progression_def is_table_def)

text \<open>The matches behind the target have none of the target's participants.\<close>

definition nobody_beyond :: "uuid \<Rightarrow> TournamentMatch \<Rightarrow> uuid list \<Rightarrow> world \<Rightarrow> bool" where
  "nobody_beyond j target xs w \<longleftrightarrow> (case m_winner_progresses_to target of None \<Rightarrow> True
     | Some k \<Rightarrow> k \<noteq> j \<and> (case find_row m_id k (w_matches w) of None \<Rightarrow> False
         | Some d \<Rightarrow> \<forall>x \<in> set xs. x \<notin> set (candidates d)))"

lemma blocker_none:
  assumes "m_winner_registration_id target = None" and "target_is_still_untouched (m_status target)"
    and "nobody_beyond j target xs w" and "set (candidates target) \<subseteq> set xs"
  shows "blocker target w = (Inr None, w)"
proof -
  have "\<not> list_ex (\<lambda>i. Some i \<in> {m_participant1_registration_id target, m_participant2_registration_id target})
      (candidates d)" if "\<forall>x \<in> set xs. x \<notin> set (candidates d)" for d
    using that assms(4) mem_candidates [of _ target] by (fastforce simp: list_ex_iff)
  then show ?thesis
    using assms(1-3) by (auto simp: blocker_def nobody_beyond_def split: option.splits)
qed



text \<open>
  C14. The result of an elimination match whose loser drops: the winner and the loser are seated in
  the slots wired to the match, every other slot of every match keeps its occupant, and a waiting
  match becomes ready exactly if it is in the bracket of the finished match and now has both
  participants. A match of another bracket keeps its status: a losers bracket match or a grand
  final that has just got its second participant stays pending.
\<close>

theorem result_seats_both:
  assumes "distinct (map m_id (w_matches w))" and "find_row m_id i (w_matches w) = Some m"
    and "m_winner_registration_id m = Some winner_id" and "m_loser_registration_id m = Some loser_id"
    and "find_row b_id (m_bracket_id m) (w_brackets w) = Some b" and "\<not> is_table (b_bracket_type b)"
    and "find_row st_id (b_stage_id b) (w_stages w) = Some st" and "st_format st \<noteq> StageFormat.GroupStage"
    and "find_row r_id winner_id (w_registrations w) = Some r" and "find_row r_id loser_id (w_registrations w) = Some r'"
    and "m_winner_progresses_to m = Some j" and "m_loser_progresses_to m = Some l" and "j \<noteq> l"
    and "find_row m_id j (w_matches w) = Some target" and "awaits Winner m s target"
    and "find_row m_id l (w_matches w) = Some target'" and "awaits Loser m s' target'"
  shows "\<exists>res w'. process_match_completion i winner_id loser_id w = (Inr res, w') \<and>
    pr_winner_advancement res = Some \<lparr>ad_target_match_id = j, ad_target_position = slot_pos s\<rparr> \<and>
    pr_loser_result res = DropsTo l (slot_pos s') \<and>
    w_matches_update (\<lambda>_. w_matches w) w' = w \<and>
    (\<forall>k x. find_row m_id k (w_matches w) = Some x \<longrightarrow> (\<exists>x'. find_row m_id k (w_matches w') = Some x' \<and>
       (\<forall>q. occupant q x' = (if k = j \<and> q = s then Some winner_id
          else if k = l \<and> q = s' then Some loser_id else occupant q x)) \<and>
       m_status x' = (if m_bracket_id x = m_bracket_id m \<and> m_status x = TournamentMatchStatus.Pending \<and>
          occupant One x' \<noteq> None \<and> occupant Two x' \<noteq> None then TournamentMatchStatus.Ready else m_status x)))"
proof -
  let ?b = "m_bracket_id m" and ?t = "w_now w"
  let ?f = "placed s winner_id r ?t" and ?g = "placed s' loser_id r' ?t"
  let ?rows = "modify_row m_id l ?g (modify_row m_id j ?f (w_matches w))"
  let ?w1 = "w_matches_update (modify_row m_id j ?f) w"
  let ?w2 = "w_matches_update (modify_row m_id l ?g) ?w1"
  let ?w' = "w_matches_update (map (marked ?b (w_now ?w2))) ?w2"
  have ids: "map m_id ?rows = map m_id (w_matches w)" by (simp add: map_key_modify_row)
  have there: "find_row m_id l (w_matches ?w1) = Some target'"
    using assms(13,16) by (simp add: find_modify_key)
  have drop: "route_loser m b loser_id ?w1 = (Inr (DropsTo l (slot_pos s')), ?w2)"
    using route_loser_run [OF assms(12) there assms(17) _ assms(6)] assms(10) by simp
  have "distinct (map m_id (w_matches ?w2))" using assms(1) ids by simp
  then obtain res where run: "process_match_completion i winner_id loser_id w = (Inr res, ?w')"
    and res: "pr_winner_advancement res = Some \<lparr>ad_target_match_id = j, ad_target_position = slot_pos s\<rparr>"
      "pr_loser_result res = DropsTo l (slot_pos s')"
    using process_elimination [OF assms(2,5-8,3,4) advance_winner_run [OF assms(11,14,15,9)] drop] by auto
  have row: "find_row m_id k (w_matches ?w') =
      map_option (\<lambda>x. marked ?b ?t (if k = l then ?g x else if k = j then ?f x else x)) (find_row m_id k (w_matches w))" for k
    using assms(13) by (cases "find_row m_id k (w_matches w)") (simp_all add: find_row_map find_modify_key)
  have frame: "w_matches_update (\<lambda>_. w_matches w) ?w' = w" by (simp add: comp_def)
  have status: "m_status (marked ?b ?t x) = (if m_bracket_id x = ?b \<and> m_status x = TournamentMatchStatus.Pending \<and>
      occupant One x \<noteq> None \<and> occupant Two x \<noteq> None then TournamentMatchStatus.Ready else m_status x)" for x
    by (simp add: marked_def waits_full_def)
  have each: "\<forall>k x. find_row m_id k (w_matches w) = Some x \<longrightarrow> (\<exists>x'. find_row m_id k (w_matches ?w') = Some x' \<and>
       (\<forall>q. occupant q x' = (if k = j \<and> q = s then Some winner_id
          else if k = l \<and> q = s' then Some loser_id else occupant q x)) \<and>
       m_status x' = (if m_bracket_id x = ?b \<and> m_status x = TournamentMatchStatus.Pending \<and>
          occupant One x' \<noteq> None \<and> occupant Two x' \<noteq> None then TournamentMatchStatus.Ready else m_status x))"
    by (intro allI impI, subst row) (use assms(13) in \<open>simp add: status del: occupant.simps\<close>)
  from run res frame each show ?thesis by blast
qed

definition moved_on :: "TournamentMatch \<Rightarrow> bool" where
  "moved_on m \<longleftrightarrow> m_winner_registration_id m \<noteq> None \<or> \<not> target_is_still_untouched (m_status m)"

lemma withdraw_refused:
  assumes "find_row m_id j (w_matches w) = Some target" and "awaits role m s target"
    and "occupant s target = Some x" and "x \<in> set (candidates m)" and "moved_on target"
  shows "\<exists>what. withdraw_from_target m (Some j) role w = (Inl (moved_on_error m target what), w)"
proof -
  obtain source where fed: "fed_slot role m target = Some (s, source, Some x)"
    using fed_slot_wired [OF assms(2)] assms(3) by auto
  have "\<exists>what. blocker target w = (Inr (Some what), w)"
    using assms(5) by (cases "m_winner_registration_id target") (simp_all add: moved_on_def blocker_def)
  then obtain what where "blocker target w = (Inr (Some what), w)" ..
  moreover have "candidates m \<noteq> []" using assms(4) by auto
  ultimately show ?thesis
    using assms(1,4) fed by (auto simp: withdraw_from_target_def ensure_target_has_not_moved_on_def)
qed


text \<open>
  A revert never reaches into a round that has been played: if the match the winner went to has
  a result, or is in any other status than pending, ready or scheduled, the revert fails and
  changes nothing. It is not atomic over the two ways out of a match: if only the match the loser
  dropped to has moved on, the revert fails as well, but the winner has then already been taken out
  of the next match, which waits again.
\<close>

theorem revert_refuses_played_rounds:
  assumes "distinct (map m_id (w_matches w))" and "find_row m_id i (w_matches w) = Some m"
    and "find_row b_id (m_bracket_id m) (w_brackets w) = Some b" and "\<not> is_table (b_bracket_type b)"
    and "m_winner_progresses_to m = Some j" and "m_loser_progresses_to m = Some l" and "j \<noteq> l"
    and "find_row m_id j (w_matches w) = Some target" and "awaits Winner m s target"
    and "occupant s target = Some x" and "x \<in> set (candidates m)"
    and "find_row m_id l (w_matches w) = Some target'" and "awaits Loser m s' target'"
    and "occupant s' target' = Some y" and "y \<in> set (candidates m)"
  shows "(moved_on target \<longrightarrow> (\<exists>what. revert_progression i w = (Inl (moved_on_error m target what), w))) \<and>
    (\<not> moved_on target \<and> nobody_beyond j target (candidates target) w \<and> moved_on target' \<longrightarrow>
      (\<exists>what w'. revert_progression i w = (Inl (moved_on_error m target' what), w') \<and>
         find_row m_id j (w_matches w') = Some (released s (w_now w) target)))"
proof (intro conjI impI)
  note run = revert_elimination [OF assms(2-4), unfolded assms(5,6)]
  show "\<exists>what. revert_progression i w = (Inl (moved_on_error m target what), w)" if "moved_on target"
    using withdraw_refused [OF assms(8-11) that] by (auto simp: run)
  let ?w = "w_matches_update (modify_row m_id j (released s (w_now w))) w"
  assume *: "\<not> moved_on target \<and> nobody_beyond j target (candidates target) w \<and> moved_on target'"
  then have "blocker target w = (Inr None, w)"
    by (intro blocker_none [where j = j and xs = "candidates target"]) (auto simp: moved_on_def)
  then have "withdraw_from_target m (Some j) Winner w = (Inr True, ?w)"
    using * assms(1,8-11) by (intro withdraw_run) (auto simp: moved_on_def)
  moreover have "find_row m_id l (w_matches ?w) = Some target'"
    using assms(7,12) by (simp add: find_modify_key)
  then obtain what where "withdraw_from_target m (Some l) Loser ?w = (Inl (moved_on_error m target' what), ?w)"
    using withdraw_refused [OF _ assms(13-15)] * by blast
  moreover have "find_row m_id j (w_matches ?w) = Some (released s (w_now w) target)"
    using assms(8) by (simp add: find_modify_key)
  ultimately show "\<exists>what w'. revert_progression i w = (Inl (moved_on_error m target' what), w') \<and>
      find_row m_id j (w_matches w') = Some (released s (w_now w) target)"
    by (auto simp: run)
qed

section \<open>Examples\<close>

text \<open>A decided match of a winners bracket, the next match with an opponent waiting, and where the loser drops.\<close>

definition cup_match :: "uuid \<Rightarrow> uuid \<Rightarrow> string \<Rightarrow> TournamentMatch" where
  "cup_match i b position = match_of_create i 0 \<lparr>c_bracket_id = b, c_stage_id = ''st'', c_tournament_id = ''t'',
     c_round = 1, c_match_number = 1, c_bracket_position = position, c_participant1_registration_id = None,
     c_participant2_registration_id = None, c_participant1_name = None, c_participant1_logo_url = None,
     c_participant1_seed = None, c_participant2_name = None, c_participant2_logo_url = None,
     c_participant2_seed = None, c_participant1_source = None, c_participant2_source = None,
     c_match_format = MatchFormat.Bo1, c_maps_required = 1, c_winner_progresses_to = None,
     c_loser_progresses_to = None\<rparr>"

definition decided_match :: "uuid option \<Rightarrow> TournamentMatch" where
  "decided_match loser_to = (cup_match ''m1'' ''wb'' ''WR1M1'')\<lparr>m_participant1_registration_id := Some ''r1'',
     m_participant2_registration_id := Some ''r2'', m_winner_registration_id := Some ''r1'',
     m_loser_registration_id := Some ''r2'', m_winner_progresses_to := Some ''m2'',
     m_loser_progresses_to := loser_to, m_status := TournamentMatchStatus.Completed\<rparr>"

definition next_match :: TournamentMatch where
  "next_match = (cup_match ''m2'' ''wb'' ''WR2M1'')\<lparr>m_participant1_source := Some (WinnerOf ''WR1M1''),
     m_participant2_source := Some (WinnerOf ''WR1M2''), m_participant2_registration_id := Some ''r3''\<rparr>"

definition drop_match :: TournamentMatch where
  "drop_match = (cup_match ''m3'' ''lb'' ''LR1M1'')\<lparr>m_participant1_source := Some (LoserOf ''WR1M1''),
     m_participant2_source := Some (LoserOf ''WR1M2''), m_participant2_registration_id := Some ''r4''\<rparr>"

definition cup_example :: "TournamentMatch list \<Rightarrow> world" where
  "cup_example ms = (let entry = (\<lambda>i. registration_row i 0
       \<lparr>cr_tournament_id = ''t'', cr_team_season_id = Some i, cr_player_id = None, cr_adhoc_team_id = None,
        cr_participant_name = i, cr_participant_logo_url = None, cr_registered_by = ''u'', cr_seed_rating = None,
        cr_status = TournamentRegistrationStatus.Approved\<rparr>);
      bracket = (\<lambda>i kind. bracket_row i 0 \<lparr>cb_stage_id = ''st'', cb_tournament_id = ''t'', cb_name = i,
        cb_bracket_type = kind, cb_total_rounds = 2, cb_group_number = None\<rparr>)
     in empty_world\<lparr>w_matches := ms, w_registrations := [entry ''r1'', entry ''r2''],
       w_brackets := [bracket ''wb'' BracketType.Winners, bracket ''lb'' BracketType.Losers],
       w_stages := [stage_row ''st'' 0 \<lparr>cs_tournament_id = ''t'', cs_name = ''Main'', cs_stage_order = 1,
         cs_format = StageFormat.DoubleElimination, cs_format_settings = JObj [], cs_advancement_count = None,
         cs_advancement_rule = AdvancementRule.TopN, cs_match_format = None, cs_map_veto_format = None,
         cs_starts_at = None, cs_ends_at = None\<rparr>]\<rparr>)"

lemmas cup_rows = decided_match_def next_match_def drop_match_def cup_match_def match_of_create_def

lemma cup_match_fields [simp]:
  "m_id (cup_match i b pos) = i" "m_bracket_id (cup_match i b pos) = b" "m_bracket_position (cup_match i b pos) = pos"
  "m_status (cup_match i b pos) = TournamentMatchStatus.Pending" "m_winner_registration_id (cup_match i b pos) = None"
  "m_winner_progresses_to (cup_match i b pos) = None" "free_slot s (cup_match i b pos)"
  by (simp_all add: cup_match_def match_of_create_def) (cases s; simp)

lemma decided_match_fields [simp]:
  "m_id (decided_match l) = ''m1''" "m_bracket_id (decided_match l) = ''wb''"
  "m_status (decided_match l) = TournamentMatchStatus.Completed"
  "m_winner_registration_id (decided_match l) = Some ''r1''" "m_loser_registration_id (decided_match l) = Some ''r2''"
  "m_winner_progresses_to (decided_match l) = Some ''m2''" "m_loser_progresses_to (decided_match l) = l"
  "candidates (decided_match l) = [''r1'', ''r2'']"
  by (simp_all add: decided_match_def candidates_def List.map_filter_def)

lemma next_match_fields [simp]:
  "m_id next_match = ''m2''" "m_status next_match = TournamentMatchStatus.Pending"
  "m_winner_registration_id next_match = None" "m_winner_progresses_to next_match = None"
  "awaits Winner (decided_match l) One next_match" "free_slot One next_match"
  by (simp_all add: next_match_def decided_match_def wired_def cup_match_def match_of_create_def)

lemma drop_match_fields [simp]:
  "m_id drop_match = ''m3''" "m_status drop_match = TournamentMatchStatus.Pending" "m_bracket_id drop_match = ''lb''"
  "awaits Loser (decided_match l) One drop_match" "occupant Two drop_match = Some ''r4''"
  by (simp_all add: drop_match_def decided_match_def wired_def)

lemma cup_example_tables [simp]:
  "w_matches (cup_example ms) = ms" "w_now (cup_example ms) = 0"
  "\<exists>r. find_row r_id ''r1'' (w_registrations (cup_example ms)) = Some r"
  "\<exists>r. find_row r_id ''r2'' (w_registrations (cup_example ms)) = Some r"
  "\<exists>b. find_row b_id ''wb'' (w_brackets (cup_example ms)) = Some b \<and> \<not> is_table (b_bracket_type b) \<and>
     (\<exists>st. find_row st_id (b_stage_id b) (w_stages (cup_example ms)) = Some st \<and> st_format st \<noteq> StageFormat.GroupStage)"
  by (simp_all add: cup_example_def Let_def empty_world_def find_row_def registration_row_def bracket_row_def
      stage_row_def is_table_def)

declare occupant.simps [simp del] free_slot.simps [simp del] awaits.simps [simp del]



theorem result_seats_both_witness:
  "\<exists>res w'. process_match_completion ''m1'' ''r1'' ''r2''
       (cup_example [decided_match (Some ''m3''), next_match, drop_match]) = (Inr res, w') \<and>
     pr_loser_result res = DropsTo ''m3'' 1 \<and>
     (\<exists>m. find_row m_id ''m3'' (w_matches w') = Some m \<and> occupant One m = Some ''r2'' \<and> occupant Two m = Some ''r4'' \<and>
        m_status m = TournamentMatchStatus.Pending)"
proof -
  let ?w = "cup_example [decided_match (Some ''m3''), next_match, drop_match]"
  obtain b st r r' where *: "find_row b_id ''wb'' (w_brackets ?w) = Some b" "\<not> is_table (b_bracket_type b)"
    "find_row st_id (b_stage_id b) (w_stages ?w) = Some st" "st_format st \<noteq> StageFormat.GroupStage"
    "find_row r_id ''r1'' (w_registrations ?w) = Some r" "find_row r_id ''r2'' (w_registrations ?w) = Some r'"
    using cup_example_tables by metis
  have f: "find_row m_id ''m1'' (w_matches ?w) = Some (decided_match (Some ''m3''))"
    "find_row m_id ''m2'' (w_matches ?w) = Some next_match" "find_row m_id ''m3'' (w_matches ?w) = Some drop_match"
    by (simp_all add: find_row_def)
  have "find_row b_id (m_bracket_id (decided_match (Some ''m3''))) (w_brackets ?w) = Some b"
    "distinct (map m_id (w_matches ?w))" "''m2'' \<noteq> ''m3''" using * by simp_all
  from result_seats_both [OF this(2) f(1) decided_match_fields(4,5) this(1) *(2-6) decided_match_fields(6,7) this(3)
      f(2) next_match_fields(5) f(3) drop_match_fields(4)]
  obtain res w' where run: "process_match_completion ''m1'' ''r1'' ''r2'' ?w = (Inr res, w')"
    and drop: "pr_loser_result res = DropsTo ''m3'' (slot_pos One)"
    and each: "\<forall>k x. find_row m_id k (w_matches ?w) = Some x \<longrightarrow> (\<exists>x'. find_row m_id k (w_matches w') = Some x' \<and>
       (\<forall>q. occupant q x' = (if k = ''m2'' \<and> q = One then Some ''r1''
          else if k = ''m3'' \<and> q = One then Some ''r2'' else occupant q x)) \<and>
       m_status x' = (if m_bracket_id x = m_bracket_id (decided_match (Some ''m3'')) \<and>
          m_status x = TournamentMatchStatus.Pending \<and> occupant One x' \<noteq> None \<and> occupant Two x' \<noteq> None
          then TournamentMatchStatus.Ready else m_status x))"
    by (elim exE conjE)
  obtain x' where "find_row m_id ''m3'' (w_matches w') = Some x'"
    and "\<forall>q. occupant q x' = (if q = One then Some ''r2'' else occupant q drop_match)"
    and "m_status x' = TournamentMatchStatus.Pending"
    using each [rule_format, OF f(3)] by auto
  with run drop show ?thesis by simp
qed

text \<open>The same, with both moved on and the losers bracket match already played.\<close>

theorem revert_refuses_played_rounds_witness:
  "\<exists>what w'. revert_progression ''m1'' (cup_example [decided_match (Some ''m3''),
       next_match\<lparr>m_participant1_registration_id := Some ''r1''\<rparr>,
       drop_match\<lparr>m_participant1_registration_id := Some ''r2'', m_winner_registration_id := Some ''r2''\<rparr>]) =
     (Inl (Conflict what), w') \<and>
     map_option (occupant One) (find_row m_id ''m2'' (w_matches w')) = Some None"
proof -
  let ?n = "next_match\<lparr>m_participant1_registration_id := Some ''r1''\<rparr>"
  let ?d = "drop_match\<lparr>m_participant1_registration_id := Some ''r2'', m_winner_registration_id := Some ''r2''\<rparr>"
  let ?w = "cup_example [decided_match (Some ''m3''), ?n, ?d]"
  obtain b where *: "find_row b_id ''wb'' (w_brackets ?w) = Some b" "\<not> is_table (b_bracket_type b)"
    using cup_example_tables by metis
  have f: "find_row m_id ''m1'' (w_matches ?w) = Some (decided_match (Some ''m3''))"
    "find_row m_id ''m2'' (w_matches ?w) = Some ?n" "find_row m_id ''m3'' (w_matches ?w) = Some ?d"
    by (simp_all add: find_row_def)
  have a: "awaits Winner (decided_match (Some ''m3'')) One ?n" "awaits Loser (decided_match (Some ''m3'')) One ?d"
    "occupant One ?n = Some ''r1''" "occupant One ?d = Some ''r2''"
    using next_match_fields(5) drop_match_fields(4) by (simp_all add: awaits.simps occupant.simps)
  have m: "\<not> moved_on ?n" "moved_on ?d" "nobody_beyond ''m2'' ?n (candidates ?n) ?w"
    by (simp_all add: moved_on_def target_is_still_untouched_def nobody_beyond_def)
  have "\<exists>what w'. revert_progression ''m1'' ?w = (Inl (moved_on_error (decided_match (Some ''m3'')) ?d what), w') \<and>
      find_row m_id ''m2'' (w_matches w') = Some (released One 0 ?n)"
    using revert_refuses_played_rounds [of ?w "''m1''" "decided_match (Some ''m3'')" b "''m2''" "''m3''" ?n One "''r1''" ?d One "''r2''"]
      * f a m by simp
  then show ?thesis by (auto simp: moved_on_error_def)
qed

end
