(* ===== verification/Forfeit.thy ===== *)
theory Forfeit
  imports ProgressionSpec
begin

text \<open>
  The forfeit service (\<open>services/tournament/forfeit.rs\<close>): forfeits of one or both sides of a match,
  withdrawal and disqualification with the forfeits they bring; and what a forfeit does to the
  bracket, which counts only completed and cancelled matches as done.
\<close>

section \<open>The service\<close>

definition validate_can_forfeit :: "TournamentMatch \<Rightarrow> uuid \<Rightarrow> DomainError + unit" where
  "validate_can_forfeit m r =
     (if \<not> TournamentMatchStatus_can_forfeit (m_status m)
      then Inl (InvalidState (''Match in '' @ TournamentMatchStatus_to_string (m_status m) @ '' status cannot be forfeited''))
      else if m_participant1_registration_id m \<noteq> Some r \<and> m_participant2_registration_id m \<noteq> Some r
      then Inl (NotAuthorized (''Registration '' @ r @ '' is not a participant in match '' @ m_id m))
      else Inr ())"

definition determine_winner :: "TournamentMatch \<Rightarrow> uuid \<Rightarrow> uuid service" where
  "determine_winner m r = sneed (InvalidState ''No opponent to award win'')
     (if m_participant1_registration_id m = Some r then m_participant2_registration_id m
      else m_participant1_registration_id m)"

definition process_forfeit :: "uuid \<Rightarrow> uuid \<Rightarrow> ForfeitType \<Rightarrow> string option \<Rightarrow> ForfeitTrigger \<Rightarrow> ForfeitResult service" where
  "process_forfeit match_id r forfeit_type reason triggered_by =
     sbind (require_match match_id) (\<lambda>m.
     sbind (slift (validate_can_forfeit m r)) (\<lambda>_.
     sbind (determine_winner m r) (\<lambda>winner_id.
     sbind (forfeit_create \<lparr>cf_match_id = match_id, cf_forfeiting_registration_id = r,
       cf_forfeit_type = forfeit_type, cf_reason = reason,
       cf_triggered_by_user_id = ForfeitTrigger_user_id triggered_by,
       cf_triggered_by_system = ForfeitTrigger_is_system triggered_by\<rparr>) (\<lambda>record.
     sbind (match_forfeit match_id winner_id r) (\<lambda>_.
     sret \<lparr>fres_match_id = match_id, fres_forfeit_record = record, fres_winner_registration_id = Some winner_id,
       fres_progression_triggered = False\<rparr>)))))"

definition process_no_show :: "uuid \<Rightarrow> uuid \<Rightarrow> ForfeitResult service" where
  "process_no_show match_id r = process_forfeit match_id r ForfeitType.NoShow
     (Some ''Failed to check in for match'') (ForfeitTrigger.System ''check_in_timeout'')"

definition double_record :: "uuid \<Rightarrow> string option \<Rightarrow> ForfeitTrigger \<Rightarrow> uuid \<Rightarrow> ForfeitRecord service" where
  "double_record match_id reason triggered_by r = forfeit_create \<lparr>cf_match_id = match_id,
     cf_forfeiting_registration_id = r, cf_forfeit_type = ForfeitType.Disqualification, cf_reason = reason,
     cf_triggered_by_user_id = ForfeitTrigger_user_id triggered_by,
     cf_triggered_by_system = ForfeitTrigger_is_system triggered_by\<rparr>"

definition process_double_forfeit :: "uuid \<Rightarrow> string option \<Rightarrow> ForfeitTrigger \<Rightarrow> ForfeitResult service" where
  "process_double_forfeit match_id reason triggered_by =
     sbind (require_match match_id) (\<lambda>m.
     sbind (sneed (InvalidState ''No participant 1 in match'') (m_participant1_registration_id m)) (\<lambda>p1.
     sbind (sneed (InvalidState ''No participant 2 in match'') (m_participant2_registration_id m)) (\<lambda>p2.
     sbind (if m_status m = TournamentMatchStatus.Cancelled then forfeit_find_by_match match_id else sret None) (\<lambda>found.
     case found of
       Some existing \<Rightarrow> sret \<lparr>fres_match_id = match_id, fres_forfeit_record = existing,
         fres_winner_registration_id = None, fres_progression_triggered = False\<rparr>
     | None \<Rightarrow>
         sbind (double_record match_id reason triggered_by p1) (\<lambda>record.
         sbind (double_record match_id reason triggered_by p2) (\<lambda>_.
         sbind (match_update_status match_id TournamentMatchStatus.Cancelled) (\<lambda>_.
         sret \<lparr>fres_match_id = match_id, fres_forfeit_record = record, fres_winner_registration_id = None,
           fres_progression_triggered = False\<rparr>)))))))"

definition find_pending_matches :: "uuid \<Rightarrow> TournamentMatch list service" where
  "find_pending_matches r = sbind (match_list_by_participant r) (\<lambda>matches. sret (filter (\<lambda>m.
     m_status m \<in> {TournamentMatchStatus.Pending, TournamentMatchStatus.Scheduled, TournamentMatchStatus.Ready,
       TournamentMatchStatus.CheckingIn}) matches))"

text \<open>Every match is tried; a failure is logged and passed over.\<close>

fun forfeit_each :: "uuid \<Rightarrow> ForfeitType \<Rightarrow> string option \<Rightarrow> ForfeitTrigger \<Rightarrow> TournamentMatch list \<Rightarrow>
    ForfeitResult list service" where
  "forfeit_each r forfeit_type reason triggered_by [] = sret []"
| "forfeit_each r forfeit_type reason triggered_by (m # ms) =
     sbind (sattempt (process_forfeit (m_id m) r forfeit_type reason triggered_by)) (\<lambda>outcome.
     sbind (forfeit_each r forfeit_type reason triggered_by ms) (\<lambda>results.
     sret (case outcome of Inl _ \<Rightarrow> results | Inr result \<Rightarrow> result # results)))"

definition entry_of_tournament :: "uuid \<Rightarrow> uuid \<Rightarrow> TournamentRegistration service" where
  "entry_of_tournament t r = sbind (registration_find_by_id r) (\<lambda>found.
     sbind (sneed (TournamentRegistrationNotFound r) found) (\<lambda>registration.
     if r_tournament_id registration \<noteq> t
     then sfail (NotAuthorized ''Registration does not belong to this tournament'')
     else sret registration))"

definition withdraw_from_tournament :: "uuid \<Rightarrow> uuid \<Rightarrow> string option \<Rightarrow> uuid \<Rightarrow> ForfeitResult list service" where
  "withdraw_from_tournament t r reason withdrawn_by =
     sbind (entry_of_tournament t r) (\<lambda>registration.
     if \<not> TournamentRegistrationStatus_can_withdraw (r_status registration)
     then sfail (InvalidState (''Cannot withdraw a registration in '' @
       TournamentRegistrationStatus_to_string (r_status registration) @ '' status''))
     else sbind (registration_update_status r TournamentRegistrationStatus.Withdrawn) (\<lambda>_.
       sbind (find_pending_matches r) (\<lambda>pending.
       forfeit_each r ForfeitType.Withdrawal reason (ForfeitTrigger.User withdrawn_by) pending)))"

definition disqualify_from_tournament :: "uuid \<Rightarrow> uuid \<Rightarrow> string \<Rightarrow> uuid \<Rightarrow> ForfeitResult list service" where
  "disqualify_from_tournament t r reason disqualified_by =
     sbind (entry_of_tournament t r) (\<lambda>registration.
     sbind (registration_update_status r TournamentRegistrationStatus.Disqualified) (\<lambda>_.
     sbind (find_pending_matches r) (\<lambda>pending.
     forfeit_each r ForfeitType.Disqualification (Some reason)
       (ForfeitTrigger.Admin disqualified_by reason) pending)))"

section \<open>One forfeit\<close>

definition forfeited :: "uuid \<Rightarrow> uuid \<Rightarrow> datetime \<Rightarrow> TournamentMatch \<Rightarrow> TournamentMatch" where
  "forfeited winner_id loser_id t m = m\<lparr>m_winner_registration_id := Some winner_id,
     m_loser_registration_id := Some loser_id, m_completed_at := Some t,
     m_status := TournamentMatchStatus.Forfeit, m_updated_at := t\<rparr>"

definition opponent :: "uuid \<Rightarrow> TournamentMatch \<Rightarrow> uuid option" where
  "opponent r m = (if m_participant1_registration_id m = Some r then m_participant2_registration_id m
     else if m_participant2_registration_id m = Some r then m_participant1_registration_id m else None)"

definition forfeitable :: "uuid \<Rightarrow> TournamentMatch \<Rightarrow> bool" where
  "forfeitable r m \<longleftrightarrow> TournamentMatchStatus_can_forfeit (m_status m) \<and> opponent r m \<noteq> None"

lemma forfeit_create_run:
  "\<exists>x v. forfeit_create c w = (Inr x, v) \<and> w_matches v = w_matches w \<and> w_now v = w_now w \<and>
     w_brackets v = w_brackets w \<and> w_stages v = w_stages w \<and> w_registrations v = w_registrations w \<and>
     set (w_forfeits w) \<subseteq> set (w_forfeits v) \<and>
     (\<exists>f \<in> set (w_forfeits v). same_forfeit (cf_match_id c) (cf_forfeiting_registration_id c) f)"
  by (auto simp: forfeit_create_def new_uuid_def insert_returning_def same_forfeit_def find_Some_iff split: option.split)

lemma process_forfeit_run:
  assumes "find_row m_id i (w_matches w) = Some m"
  shows "if forfeitable r m
    then \<exists>res w'. process_forfeit i r ty reason by w = (Inr res, w') \<and>
      w_matches w' = modify_row m_id i (forfeited (the (opponent r m)) r (w_now w)) (w_matches w) \<and>
      w_now w' = w_now w \<and> w_brackets w' = w_brackets w \<and> w_stages w' = w_stages w \<and>
      w_registrations w' = w_registrations w \<and>
      fres_match_id res = i \<and> fres_winner_registration_id res = opponent r m
    else \<exists>e. process_forfeit i r ty reason by w = (Inl e, w)"
proof (cases "forfeitable r m")
  case True
  then obtain x where x: "opponent r m = Some x" by (auto simp: forfeitable_def)
  then have ok: "validate_can_forfeit m r = Inr ()" "determine_winner m r = sneed (InvalidState ''No opponent to award win'') (Some x)"
    using True by (auto simp: forfeitable_def opponent_def validate_can_forfeit_def determine_winner_def split: if_splits)
  let ?c = "\<lparr>cf_match_id = i, cf_forfeiting_registration_id = r, cf_forfeit_type = ty, cf_reason = reason,
    cf_triggered_by_user_id = ForfeitTrigger_user_id by, cf_triggered_by_system = ForfeitTrigger_is_system by\<rparr>"
  obtain y v where v: "forfeit_create ?c w = (Inr y, v)" "w_matches v = w_matches w" "w_now v = w_now w"
    "w_brackets v = w_brackets w" "w_stages v = w_stages w" "w_registrations v = w_registrations w"
    using forfeit_create_run by blast
  have "match_forfeit i x r v = (Inr (forfeited x r (w_now w) m),
      w_matches_update (modify_row m_id i (forfeited x r (w_now w))) v)"
    using assms v by (simp add: match_forfeit_def match_set_run forfeited_def [abs_def])
  with True x ok v assms show ?thesis by (simp add: process_forfeit_def)
next
  case False
  then have "(\<exists>e. validate_can_forfeit m r = Inl e) \<or>
      validate_can_forfeit m r = Inr () \<and> (\<exists>e. determine_winner m r = sneed e None)"
    by (auto simp: forfeitable_def opponent_def validate_can_forfeit_def determine_winner_def)
  with False assms show ?thesis by (auto simp: process_forfeit_def)
qed


section \<open>Withdrawals\<close>

definition forfeit_row :: "uuid \<Rightarrow> datetime \<Rightarrow> TournamentMatch \<Rightarrow> TournamentMatch" where
  "forfeit_row r t m = (if forfeitable r m then forfeited (the (opponent r m)) r t m else m)"

lemma forfeit_row_id [simp]: "m_id (forfeit_row r t m) = m_id m"
  by (simp add: forfeit_row_def forfeited_def)

lemma forfeit_each_run:
  assumes "distinct (map m_id (w_matches w))" and "distinct (map m_id ms)" and "set ms \<subseteq> set (w_matches w)"
  shows "\<exists>results w'. forfeit_each r ty reason by ms w = (Inr results, w') \<and>
    w_matches w' = map (\<lambda>m. if m_id m \<in> m_id ` set ms then forfeit_row r (w_now w) m else m) (w_matches w) \<and>
    w_now w' = w_now w \<and> w_registrations w' = w_registrations w \<and>
    map fres_match_id results = map m_id (filter (forfeitable r) ms)"
  using assms
proof (induction ms arbitrary: w)
  case (Cons m ms)
  let ?t = "w_now w"
  have m: "find_row m_id (m_id m) (w_matches w) = Some m"
    using Cons.prems(1,3) by (simp add: find_row_Some_iff)
  let ?rows = "modify_row m_id (m_id m) (forfeit_row r ?t) (w_matches w)"
  obtain out v where v: "process_forfeit (m_id m) r ty reason by w = (out, v)" by (cases "process_forfeit (m_id m) r ty reason by w")
  have "w_matches v = ?rows \<and> w_now v = ?t \<and> w_registrations v = w_registrations w \<and>
      (if forfeitable r m then \<exists>res. out = Inr res \<and> fres_match_id res = m_id m else \<exists>e. out = Inl e)"
  proof (cases "forfeitable r m")
    case True
    have "modify_row m_id (m_id m) (forfeited (the (opponent r m)) r ?t) (w_matches w) = ?rows"
      using True by (intro modify_row_cong [OF Cons.prems(1) m]) (simp add: forfeit_row_def)
    then show ?thesis using process_forfeit_run [OF m, of r ty reason "by"] True v by auto
  next
    case False
    have "modify_row m_id (m_id m) (\<lambda>x. x) (w_matches w) = ?rows"
      using False by (intro modify_row_cong [OF Cons.prems(1) m]) (simp add: forfeit_row_def)
    then have "?rows = w_matches w" by (simp add: modify_row_def)
    then show ?thesis using process_forfeit_run [OF m, of r ty reason "by"] False v by auto
  qed
  note step = this
  have "distinct (map m_id (w_matches v))"
    using step Cons.prems(1) by (simp add: map_key_modify_row)
  moreover have "set ms \<subseteq> set (w_matches v)"
  proof
    fix x assume x: "x \<in> set ms"
    then have "m_id x \<noteq> m_id m" using Cons.prems(2) by (auto simp: image_iff)
    with x Cons.prems(3) step show "x \<in> set (w_matches v)" by (auto simp: modify_row_def image_iff intro!: bexI [of _ x])
  qed
  ultimately obtain results w' where rest: "forfeit_each r ty reason by ms v = (Inr results, w')"
    "w_matches w' = map (\<lambda>m. if m_id m \<in> m_id ` set ms then forfeit_row r ?t m else m) (w_matches v)"
    "w_now w' = ?t" "w_registrations w' = w_registrations w"
    "map fres_match_id results = map m_id (filter (forfeitable r) ms)"
    using Cons.IH [of v] Cons.prems(2) step by auto
  have "m_id m \<notin> m_id ` set ms" using Cons.prems(2) by simp
  then have "w_matches w' = map (\<lambda>x. if m_id x \<in> m_id ` set (m # ms) then forfeit_row r ?t x else x) (w_matches w)"
    unfolding rest(2) conjunct1 [OF step] by (auto simp: modify_row_def)
  with rest step v show ?case by (cases "forfeitable r m") auto
qed simp

lemma chosen:
  assumes "a \<longleftrightarrow> s \<and> q" and "s \<and> f \<longleftrightarrow> p" and "p \<Longrightarrow> q"
  shows "(if a then (if f then x else y) else y) = (if p then x else y)"
  using assms by auto

text \<open>
  C29. Withdrawing from a tournament forfeits "all remaining matches" only in part: the entry is
  withdrawn, and of its matches exactly those that are scheduled or checking in and have an
  opponent become forfeits, won by the opponent. A match that is ready or pending keeps its status
  and the withdrawn participant, because its forfeit is refused and the refusal is passed over; so
  does a match in pick/ban or in progress, which is not looked for. No match of anybody else and
  no other entry changes.
\<close>

theorem withdrawal_forfeits_scheduled_matches:
  assumes "distinct (map m_id (w_matches w))" and "find_row r_id r (w_registrations w) = Some e"
    and "r_tournament_id e = t" and "TournamentRegistrationStatus_can_withdraw (r_status e)"
  shows "\<exists>results w'. withdraw_from_tournament t r reason u w = (Inr results, w') \<and>
    map_option r_status (find_row r_id r (w_registrations w')) = Some TournamentRegistrationStatus.Withdrawn \<and>
    (\<forall>k. k \<noteq> r \<longrightarrow> find_row r_id k (w_registrations w') = find_row r_id k (w_registrations w)) \<and>
    w_matches w' = map (\<lambda>m. if opponent r m \<noteq> None \<and>
        m_status m \<in> {TournamentMatchStatus.Scheduled, TournamentMatchStatus.CheckingIn}
      then forfeited (the (opponent r m)) r (w_now w) m else m) (w_matches w) \<and>
    set (map fres_match_id results) = m_id ` {m \<in> set (w_matches w). opponent r m \<noteq> None \<and>
        m_status m \<in> {TournamentMatchStatus.Scheduled, TournamentMatchStatus.CheckingIn}}"
proof -
  let ?S = "{TournamentMatchStatus.Pending, TournamentMatchStatus.Scheduled, TournamentMatchStatus.Ready,
       TournamentMatchStatus.CheckingIn}"
  let ?ms = "filter (\<lambda>m. m_status m \<in> ?S) (sort_by round_le (filter (\<lambda>m. m_participant1_registration_id m = Some r \<or>
       m_participant2_registration_id m = Some r) (w_matches w)))"
  let ?f = "\<lambda>x. x\<lparr>r_status := TournamentRegistrationStatus.Withdrawn, r_updated_at := w_now w\<rparr>"
  let ?v = "w_registrations_update (modify_row r_id r ?f) w"
  have upd: "registration_update_status r TournamentRegistrationStatus.Withdrawn w = (Inr (?f e), ?v)"
    using assms(2) by (simp add: registration_update_status_def registration_set_def registration_table.update_found)
  have d: "distinct (map m_id ?ms)"
    using assms(1) by (intro distinct_map_filter) (simp add: distinct_map_filter)
  obtain results w' where run: "forfeit_each r ForfeitType.Withdrawal reason (ForfeitTrigger.User u) ?ms ?v = (Inr results, w')"
    and rows: "w_matches w' = map (\<lambda>m. if m_id m \<in> m_id ` set ?ms then forfeit_row r (w_now w) m else m) (w_matches w)"
    and regs: "w_registrations w' = w_registrations ?v"
    and ids: "map fres_match_id results = map m_id (filter (forfeitable r) ?ms)"
    using forfeit_each_run [of ?v ?ms r ForfeitType.Withdrawal reason "ForfeitTrigger.User u"] assms(1) d by auto
  have open_here: "m_status m \<in> ?S \<and> forfeitable r m \<longleftrightarrow> opponent r m \<noteq> None \<and>
      m_status m \<in> {TournamentMatchStatus.Scheduled, TournamentMatchStatus.CheckingIn}" for m
    by (auto simp: forfeitable_def TournamentMatchStatus_can_forfeit_def)
  have played: "opponent r m \<noteq> None \<Longrightarrow> m_participant1_registration_id m = Some r \<or> m_participant2_registration_id m = Some r" for m
    by (auto simp: opponent_def split: if_splits)
  have mem: "m_id m \<in> m_id ` set ?ms \<longleftrightarrow> m_status m \<in> ?S \<and>
      (m_participant1_registration_id m = Some r \<or> m_participant2_registration_id m = Some r)" if "m \<in> set (w_matches w)" for m
    using that assms(1) by (auto simp: distinct_map inj_on_def image_iff)
  have "(if m_id m \<in> m_id ` set ?ms then forfeit_row r (w_now w) m else m) = (if opponent r m \<noteq> None \<and>
        m_status m \<in> {TournamentMatchStatus.Scheduled, TournamentMatchStatus.CheckingIn}
      then forfeited (the (opponent r m)) r (w_now w) m else m)" if m: "m \<in> set (w_matches w)" for m
    unfolding forfeit_row_def by (rule chosen [OF mem [OF m] open_here]) (use played in blast)
  then have "w_matches w' = map (\<lambda>m. if opponent r m \<noteq> None \<and>
        m_status m \<in> {TournamentMatchStatus.Scheduled, TournamentMatchStatus.CheckingIn}
      then forfeited (the (opponent r m)) r (w_now w) m else m) (w_matches w)"
    unfolding rows by (intro map_cong [OF refl])
  moreover have "set (map fres_match_id results) = m_id ` {m \<in> set (w_matches w). opponent r m \<noteq> None \<and>
        m_status m \<in> {TournamentMatchStatus.Scheduled, TournamentMatchStatus.CheckingIn}}"
    unfolding ids using open_here played by auto
  moreover have "withdraw_from_tournament t r reason u w = (Inr results, w')"
    using assms(2-4) upd run by (simp add: withdraw_from_tournament_def entry_of_tournament_def find_pending_matches_def
        match_list_by_participant_def)
  moreover have "find_row r_id k (w_registrations w') = map_option (\<lambda>x. if k = r then ?f x else x) (find_row r_id k (w_registrations w))" for k
    by (simp add: regs find_modify_key)
  ultimately show ?thesis using assms(2) by (intro exI [of _ results] exI [of _ w']) (simp add: option.map_ident)
qed

text \<open>An entry with a match that is ready, one that is scheduled and one of other people.\<close>

definition ready_match :: TournamentMatch where
  "ready_match = (cup_match ''m1'' ''wb'' ''WR1M1'')\<lparr>m_participant1_registration_id := Some ''r1'',
     m_participant2_registration_id := Some ''r2'', m_status := TournamentMatchStatus.Ready\<rparr>"

definition scheduled_match :: TournamentMatch where
  "scheduled_match = (cup_match ''m2'' ''wb'' ''WR2M1'')\<lparr>m_participant1_registration_id := Some ''r3'',
     m_participant2_registration_id := Some ''r1'', m_status := TournamentMatchStatus.Scheduled\<rparr>"

lemma leaving_fields [simp]:
  "m_id ready_match = ''m1''" "m_status ready_match = TournamentMatchStatus.Ready"
  "m_id scheduled_match = ''m2''" "m_status scheduled_match = TournamentMatchStatus.Scheduled"
  "m_bracket_id scheduled_match = ''wb''" "opponent ''r1'' scheduled_match = Some ''r3''"
  by (simp_all add: ready_match_def scheduled_match_def opponent_def)

theorem withdrawal_forfeits_scheduled_matches_witness:
  "\<exists>results w'. withdraw_from_tournament ''t'' ''r1'' None ''u'' (cup_example [ready_match, scheduled_match]) =
       (Inr results, w') \<and>
     map m_status (w_matches w') = [TournamentMatchStatus.Ready, TournamentMatchStatus.Forfeit] \<and>
     set (map fres_match_id results) = {''m2''}"
proof -
  let ?w = "cup_example [ready_match, scheduled_match]"
  obtain e where e: "find_row r_id ''r1'' (w_registrations ?w) = Some e" "r_tournament_id e = ''t''"
    "TournamentRegistrationStatus_can_withdraw (r_status e)"
    by (simp add: cup_example_def Let_def find_row_def registration_row_def
        TournamentRegistrationStatus_can_withdraw_def)
  have d: "distinct (map m_id (w_matches ?w))" by simp
  have hit: "{m \<in> set (w_matches ?w). opponent ''r1'' m \<noteq> None \<and>
      m_status m \<in> {TournamentMatchStatus.Scheduled, TournamentMatchStatus.CheckingIn}} = {scheduled_match}"
    by auto
  obtain results w' where run: "withdraw_from_tournament ''t'' ''r1'' None ''u'' ?w = (Inr results, w')"
    and rows: "w_matches w' = map (\<lambda>m. if opponent ''r1'' m \<noteq> None \<and>
        m_status m \<in> {TournamentMatchStatus.Scheduled, TournamentMatchStatus.CheckingIn}
      then forfeited (the (opponent ''r1'' m)) ''r1'' (w_now ?w) m else m) (w_matches ?w)"
    and ids: "set (map fres_match_id results) = m_id ` {scheduled_match}"
    using withdrawal_forfeits_scheduled_matches [OF d e, of None "''u''", unfolded hit] by (elim exE conjE)
  have "map m_status (w_matches w') = [TournamentMatchStatus.Ready, TournamentMatchStatus.Forfeit]"
    unfolding rows by (simp add: forfeited_def)
  with run ids show ?thesis by simp
qed

section \<open>What a forfeit leaves behind\<close>

text \<open>
  C28. A forfeit decides the match and stops there: the opponent is the winner of the match, but no
  other match changes, so the winner is not seated in the next one; the bracket never counts as
  complete while the match is a forfeit (only completed and cancelled matches are done), a group
  stage is not advanced, and no transition leads out of the status.
\<close>

theorem forfeit_stalls_the_bracket:
  assumes "distinct (map m_id (w_matches w))" and "find_row m_id i (w_matches w) = Some m"
    and "TournamentMatchStatus_can_forfeit (m_status m)" and "opponent r m = Some x"
  shows "\<exists>res w' m'. process_forfeit i r ty reason by w = (Inr res, w') \<and>
    fres_winner_registration_id res = Some x \<and> \<not> fres_progression_triggered res \<and>
    find_row m_id i (w_matches w') = Some m' \<and> m_status m' = TournamentMatchStatus.Forfeit \<and>
    m_winner_registration_id m' = Some x \<and> m_winner_progresses_to m' = m_winner_progresses_to m \<and>
    (\<forall>k. k \<noteq> i \<longrightarrow> find_row m_id k (w_matches w') = find_row m_id k (w_matches w)) \<and>
    check_bracket_completion (m_bracket_id m) w' = (Inr False, w') \<and>
    advance_stage_if_complete (m_bracket_id m) w' = (Inr None, w') \<and>
    (\<forall>s. \<not> TournamentMatchStatus_can_transition_to (m_status m') s)"
proof -
  let ?m = "forfeited x r (w_now w) m"
  have "forfeitable r m" using assms(3,4) by (simp add: forfeitable_def)
  then obtain res w' where run: "process_forfeit i r ty reason by w = (Inr res, w')"
    and rows: "w_matches w' = modify_row m_id i (forfeited x r (w_now w)) (w_matches w)"
    and res: "fres_winner_registration_id res = Some x"
    using process_forfeit_run [OF assms(2), of r ty reason "by"] assms(4) by auto
  have quiet: "\<not> fres_progression_triggered res"
    using run by (auto simp: process_forfeit_def sbind_def sret_def split: prod.splits sum.splits)
  have m': "find_row m_id i (w_matches w') = Some ?m"
    using assms(2) by (simp add: rows find_modify_key forfeited_def)
  have others: "\<forall>k. k \<noteq> i \<longrightarrow> find_row m_id k (w_matches w') = find_row m_id k (w_matches w)"
    by (simp add: rows find_modify_key forfeited_def option.map_ident)
  have "?m \<in> set (w_matches w')" using m' by (auto simp: find_row_def find_Some_iff)
  then have waits: "\<not> bracket_done (m_bracket_id m) w'"
    by (auto simp: bracket_done_def is_done_def forfeited_def intro!: bexI [of _ ?m])
  have "\<forall>s. \<not> TournamentMatchStatus_can_transition_to TournamentMatchStatus.Forfeit s"
    by (simp add: TournamentMatchStatus_can_transition_to_def)
  with run res quiet m' others waits show ?thesis
    by - (rule exI [of _ res], rule exI [of _ w'], rule exI [of _ ?m],
      simp add: forfeited_def advance_stage_if_complete_def)
qed

theorem forfeit_stalls_the_bracket_witness:
  "\<exists>res w'. process_forfeit ''m2'' ''r1'' ForfeitType.Disqualification None (ForfeitTrigger.User ''u'')
       (cup_example [ready_match, scheduled_match]) = (Inr res, w') \<and>
     fres_winner_registration_id res = Some ''r3'' \<and> check_bracket_completion ''wb'' w' = (Inr False, w')"
proof -
  let ?w = "cup_example [ready_match, scheduled_match]"
  have "find_row m_id ''m2'' (w_matches ?w) = Some scheduled_match" "distinct (map m_id (w_matches ?w))"
    "TournamentMatchStatus_can_forfeit (m_status scheduled_match)" "opponent ''r1'' scheduled_match = Some ''r3''"
    by (simp_all add: find_row_def TournamentMatchStatus_can_forfeit_def)
  from forfeit_stalls_the_bracket [OF this(2,1,3,4), of ForfeitType.Disqualification None "ForfeitTrigger.User ''u''"]
  show ?thesis unfolding leaving_fields(5) by blast
qed

text \<open>
  A double forfeit asks for two participants and nothing else: it cancels a match in any other
  status, one that is completed included, which then keeps its winner and loser; both sides get a
  forfeit record, no other match changes, and a second call finds the first and changes nothing.
\<close>

theorem double_forfeit_cancels_any_match:
  assumes "find_row m_id i (w_matches w) = Some m" and "m_status m \<noteq> TournamentMatchStatus.Cancelled"
    and "m_participant1_registration_id m = Some p" and "m_participant2_registration_id m = Some q"
  shows "\<exists>res w'. process_double_forfeit i reason by w = (Inr res, w') \<and>
    find_row m_id i (w_matches w') =
      Some (m\<lparr>m_status := TournamentMatchStatus.Cancelled, m_updated_at := w_now w\<rparr>) \<and>
    (\<forall>k. k \<noteq> i \<longrightarrow> find_row m_id k (w_matches w') = find_row m_id k (w_matches w)) \<and>
    (\<forall>y \<in> {p, q}. \<exists>f \<in> set (w_forfeits w'). same_forfeit i y f) \<and>
    (\<exists>again. process_double_forfeit i reason' by' w' = (Inr again, w'))"
proof -
  let ?c = "\<lambda>y. \<lparr>cf_match_id = i, cf_forfeiting_registration_id = y,
     cf_forfeit_type = ForfeitType.Disqualification, cf_reason = reason,
     cf_triggered_by_user_id = ForfeitTrigger_user_id by,
     cf_triggered_by_system = ForfeitTrigger_is_system by\<rparr>"
  obtain x1 v1 where c1: "forfeit_create (?c p) w = (Inr x1, v1)" "w_matches v1 = w_matches w" "w_now v1 = w_now w"
    and f1: "\<exists>f \<in> set (w_forfeits v1). same_forfeit i p f"
    using forfeit_create_run [of "?c p" w] by auto
  obtain x2 v2 where c2: "forfeit_create (?c q) v1 = (Inr x2, v2)" "w_matches v2 = w_matches v1" "w_now v2 = w_now v1"
    and f2: "set (w_forfeits v1) \<subseteq> set (w_forfeits v2)" "\<exists>f \<in> set (w_forfeits v2). same_forfeit i q f"
    using forfeit_create_run [of "?c q" v1] by auto
  let ?f = "\<lambda>m. m\<lparr>m_status := TournamentMatchStatus.Cancelled, m_updated_at := w_now w\<rparr>"
  let ?w' = "w_matches_update (modify_row m_id i ?f) v2"
  have "match_update_status i TournamentMatchStatus.Cancelled v2 = (Inr (?f m), ?w')"
    using assms(1) c1 c2 by (simp add: match_update_status_def match_set_run)
  then obtain res where run: "process_double_forfeit i reason by w = (Inr res, ?w')"
    using assms c1 c2 by (simp add: process_double_forfeit_def double_record_def)
  have row: "find_row m_id k (w_matches ?w') = map_option (\<lambda>x. if k = i then ?f x else x) (find_row m_id k (w_matches w))" for k
    using c1 c2 by (simp add: find_modify_key)
  have both: "\<forall>y \<in> {p, q}. \<exists>f \<in> set (w_forfeits ?w'). same_forfeit i y f" using f1 f2 by auto
  then have "filter (\<lambda>r. fr_match_id r = i) (w_forfeits ?w') \<noteq> []"
    by (auto simp: filter_empty_conv same_forfeit_def)
  then obtain x where "forfeit_find_by_match i ?w' = (Inr (Some x), ?w')"
    by (cases "sort_by (\<lambda>x y. fr_forfeited_at y \<le> fr_forfeited_at x) (filter (\<lambda>r. fr_match_id r = i) (w_forfeits ?w'))")
      (auto simp: forfeit_find_by_match_def list_get_def dest!: arg_cong [where f = set])
  then obtain again where "process_double_forfeit i reason' by' ?w' = (Inr again, ?w')"
    using row [of i] assms by (simp add: process_double_forfeit_def)
  with run row [of i] row assms(1) both show ?thesis
    by - (rule exI [of _ res], rule exI [of _ ?w'], auto simp: option.map_ident)
qed

theorem double_forfeit_cancels_any_match_witness:
  "\<exists>res w' m. process_double_forfeit ''m1'' None (ForfeitTrigger.User ''u'') (cup_example [decided_match None]) =
       (Inr res, w') \<and> find_row m_id ''m1'' (w_matches w') = Some m \<and>
     m_status m = TournamentMatchStatus.Cancelled \<and> m_winner_registration_id m = Some ''r1''"
  using double_forfeit_cancels_any_match [of "''m1''" "cup_example [decided_match None]" "decided_match None" "''r1''" "''r2''"
      None "ForfeitTrigger.User ''u''" None "ForfeitTrigger.User ''u''"]
  by (auto simp: find_row_def decided_match_def)

end
