(* ===== verification/ResultRepo.thy ===== *)
theory ResultRepo
  imports MatchRepo VetoRepo InviteRepo
begin

text \<open>
  The tables around a result: claims (\<open>portal-db/src/adapters/tournament/result_claim.rs\<close>, checks of
  migrations 0035 and 0082), disputes with their threads (\<open>adapters/dispute.rs\<close>), links of demos to
  matches (\<open>adapters/demo.rs\<close>), the audited correction of a score (\<open>match_.rs\<close>). The composite
  operations run in one transaction, which a failure rolls back.
\<close>

section \<open>Result claims\<close>

definition claim_find_by_id :: "uuid \<Rightarrow> ResultClaim option service" where
  "claim_find_by_id i = sget (\<lambda>w. find_row rc_id i (w_claims w))"

text \<open>\<open>ORDER BY (status = 'pending') DESC, created_at DESC\<close>.\<close>

definition current_le :: "ResultClaim \<Rightarrow> ResultClaim \<Rightarrow> bool" where
  "current_le = lex_by (\<lambda>x y. rc_status y = ClaimStatus.Pending \<longrightarrow> rc_status x = ClaimStatus.Pending)
     (\<lambda>x y. rc_created_at y \<le> rc_created_at x)"

definition claim_find_current_by_match :: "uuid \<Rightarrow> ResultClaim option service" where
  "claim_find_current_by_match m = sget (\<lambda>w. list_get (sort_by current_le (filter (\<lambda>c. rc_match_id c = m \<and>
     rc_status c \<in> {ClaimStatus.Pending, ClaimStatus.Confirmed}) (w_claims w))) 0)"

definition claim_list_by_match :: "uuid \<Rightarrow> ResultClaim list service" where
  "claim_list_by_match m = sget (\<lambda>w. sort_by (\<lambda>x y. rc_created_at y \<le> rc_created_at x)
     (filter (\<lambda>c. rc_match_id c = m) (w_claims w)))"

definition claim_row :: "uuid \<Rightarrow> datetime \<Rightarrow> CreateResultClaim \<Rightarrow> ResultClaim" where
  "claim_row i t c = \<lparr>rc_id = i, rc_match_id = crc_match_id c,
     rc_submitted_by_registration_id = crc_submitted_by_registration_id c,
     rc_submitted_by_user_id = crc_submitted_by_user_id c, rc_source = crc_source c,
     rc_claimed_winner_registration_id = crc_claimed_winner_registration_id c,
     rc_claimed_participant1_score = crc_participant1_score c,
     rc_claimed_participant2_score = crc_participant2_score c, rc_game_results = crc_game_results c,
     rc_status = ClaimStatus.Pending, rc_confirmed_at = None, rc_confirmed_by_registration_id = None,
     rc_confirmed_by_user_id = None, rc_auto_confirm_at = Some (crc_auto_confirm_at c),
     rc_was_auto_confirmed = False, rc_evidence_ids = crc_evidence_ids c, rc_demo_link_ids = crc_demo_link_ids c,
     rc_submitter_notes = crc_notes c, rc_created_at = t, rc_updated_at = t\<rparr>"

text \<open>The checks of the table: scores, source, and a submitter for a participant's claim.\<close>

definition claim_violation :: "ResultClaim \<Rightarrow> sql_error option" where
  "claim_violation c =
     (if rc_claimed_participant1_score c < 0 \<or> rc_claimed_participant2_score c < 0
      then Some (CheckViolation ''result_claims_scores_non_negative'')
      else if rc_source c \<notin> {''participant'', ''server'', ''admin''} then Some (CheckViolation ''result_claims_check_source'')
      else if rc_source c = ''participant'' \<and>
          (rc_submitted_by_registration_id c = None \<or> rc_submitted_by_user_id c = None)
      then Some (CheckViolation ''result_claims_check_submitter'') else None)"

definition claim_create :: "CreateResultClaim \<Rightarrow> ResultClaim service" where
  "claim_create c = sbind new_uuid (\<lambda>i. sbind now (\<lambda>t. \<lambda>w. case claim_violation (claim_row i t c) of
     Some e \<Rightarrow> (Inl (sql_internal ''Failed to create result claim: '' e w), w)
   | None \<Rightarrow> insert_returning w_claims_update (claim_row i t c) w))"

definition claim_set :: "string \<Rightarrow> uuid \<Rightarrow> (datetime \<Rightarrow> ResultClaim \<Rightarrow> ResultClaim) \<Rightarrow> ResultClaim service" where
  "claim_set what i f = sbind now (\<lambda>t. update_returning w_claims w_claims_update rc_id (sql_internal what RowNotFound) i
     (\<lambda>c. (f t c)\<lparr>rc_updated_at := t\<rparr>))"

definition claim_update :: "uuid \<Rightarrow> UpdateResultClaim \<Rightarrow> ResultClaim service" where
  "claim_update i u = claim_set ''Failed to update result claim: '' i (\<lambda>t c. c\<lparr>
     rc_status := or_old (urc_status u) (rc_status c),
     rc_confirmed_at := coalesce (urc_confirmed_at u) (rc_confirmed_at c),
     rc_confirmed_by_registration_id := coalesce (urc_confirmed_by_registration_id u) (rc_confirmed_by_registration_id c),
     rc_confirmed_by_user_id := coalesce (urc_confirmed_by_user_id u) (rc_confirmed_by_user_id c),
     rc_was_auto_confirmed := or_old (urc_was_auto_confirmed u) (rc_was_auto_confirmed c)\<rparr>)"

text \<open>\<open>UPDATE .. WHERE id = $1 AND status = 'pending' RETURNING *\<close>: no row means that the claim is resolved.\<close>

definition claim_resolve :: "uuid \<Rightarrow> (datetime \<Rightarrow> ResultClaim \<Rightarrow> ResultClaim) \<Rightarrow> ResultClaim service" where
  "claim_resolve i f = (\<lambda>w. case find_row rc_id i (w_claims w) of
     None \<Rightarrow> (Inl (Conflict ''Result claim has already been resolved''), w)
   | Some c \<Rightarrow> if rc_status c \<noteq> ClaimStatus.Pending
       then (Inl (Conflict ''Result claim has already been resolved''), w)
       else update_returning w_claims w_claims_update rc_id (db_error RowNotFound) i
         (\<lambda>c. (f (w_now w) c)\<lparr>rc_updated_at := w_now w\<rparr>) w)"

definition claim_update_status :: "uuid \<Rightarrow> ClaimStatus \<Rightarrow> ResultClaim service" where
  "claim_update_status i status = claim_resolve i (\<lambda>t c. c\<lparr>rc_status := status\<rparr>)"

definition claim_confirmed :: "uuid \<Rightarrow> uuid option \<Rightarrow> bool \<Rightarrow> datetime \<Rightarrow> ResultClaim \<Rightarrow> ResultClaim" where
  "claim_confirmed registration_id user_id was_auto t c = c\<lparr>rc_status := ClaimStatus.Confirmed, rc_confirmed_at := Some t,
     rc_confirmed_by_registration_id := Some registration_id, rc_confirmed_by_user_id := user_id,
     rc_was_auto_confirmed := was_auto\<rparr>"

definition claim_confirm :: "uuid \<Rightarrow> uuid \<Rightarrow> uuid \<Rightarrow> bool \<Rightarrow> ResultClaim service" where
  "claim_confirm i registration_id user_id was_auto = claim_resolve i (claim_confirmed registration_id (Some user_id) was_auto)"

text \<open>
  The claim and the match commit together. The statement on the match is an \<open>execute\<close>: a
  missing match is no error.
\<close>

definition execute_match :: "uuid \<Rightarrow> (datetime \<Rightarrow> TournamentMatch \<Rightarrow> TournamentMatch) \<Rightarrow> unit service" where
  "execute_match i f = sbind now (\<lambda>t. smodify (w_matches_update (modify_row m_id i (\<lambda>m. (f t m)\<lparr>m_updated_at := t\<rparr>))))"

definition claim_confirm_and_apply_to_match :: "uuid \<Rightarrow> uuid \<Rightarrow> uuid option \<Rightarrow> bool \<Rightarrow> uuid \<Rightarrow> uuid \<Rightarrow> uuid \<Rightarrow>
    int \<Rightarrow> int \<Rightarrow> ResultClaim service" where
  "claim_confirm_and_apply_to_match i registration_id user_id was_auto match_id winner_id loser_id score1 score2 =
     transaction (sbind (claim_resolve i (claim_confirmed registration_id user_id was_auto)) (\<lambda>claim.
       sbind (execute_match match_id (\<lambda>t m. m\<lparr>m_participant1_score := score1, m_participant2_score := score2,
         m_winner_registration_id := Some winner_id, m_loser_registration_id := Some loser_id,
         m_completed_at := Some t, m_status := TournamentMatchStatus.Completed\<rparr>)) (\<lambda>_. sret claim)))"

definition supersede_claims :: "(ResultClaim \<Rightarrow> bool) \<Rightarrow> unit service" where
  "supersede_claims P = sbind now (\<lambda>t. smodify (w_claims_update (map (\<lambda>c.
     if P c \<and> rc_status c = ClaimStatus.Pending
     then c\<lparr>rc_status := ClaimStatus.Superseded, rc_updated_at := t\<rparr> else c))))"

definition claim_create_and_supersede_pending :: "CreateResultClaim \<Rightarrow> ResultClaim service" where
  "claim_create_and_supersede_pending c = transaction (
     sbind (supersede_claims (\<lambda>x. rc_match_id x = crc_match_id c)) (\<lambda>_. claim_create c))"

definition claim_supersede_pending_claims :: "uuid \<Rightarrow> uuid \<Rightarrow> unit service" where
  "claim_supersede_pending_claims m except_claim_id =
     supersede_claims (\<lambda>x. rc_match_id x = m \<and> rc_id x \<noteq> except_claim_id)"

definition claim_find_ready_for_auto_confirm :: "ResultClaim list service" where
  "claim_find_ready_for_auto_confirm = sget (\<lambda>w. sort_by (\<lambda>x y. opt_le (rc_auto_confirm_at x) (rc_auto_confirm_at y))
     (filter (\<lambda>c. rc_status c = ClaimStatus.Pending \<and>
       (case rc_auto_confirm_at c of None \<Rightarrow> False | Some deadline \<Rightarrow> deadline \<le> w_now w)) (w_claims w)))"

definition demo_link_find_by_ids :: "uuid list \<Rightarrow> DemoMatchLink list service" where
  "demo_link_find_by_ids ids = (if ids = [] then sret []
     else sget (\<lambda>w. filter (\<lambda>l. dml_id l \<in> set ids) (w_demo_links w)))"

section \<open>The audited correction of a score\<close>

definition change_insert :: "CreateEntityChange \<Rightarrow> unit service" where
  "change_insert c = sbind new_uuid (\<lambda>i. sbind now (\<lambda>t. smodify (w_changes_update (\<lambda>rows. rows @ [
     \<lparr>ec_id = i, ec_entity_type = cec_entity_type c, ec_entity_id = cec_entity_id c, ec_change_type = cec_change_type c,
      ec_field_name = cec_field_name c, ec_old_value = cec_old_value c, ec_new_value = cec_new_value c,
      ec_changed_by = cec_changed_by c, ec_reverted_at = None, ec_reverted_by = None, ec_revert_reason = None,
      ec_request_id = cec_request_id c, ec_ip_address = cec_ip_address c, ec_user_agent = cec_user_agent c,
      ec_created_at = t\<rparr>]))))"

definition match_override_result_audited :: "uuid \<Rightarrow> int \<Rightarrow> int \<Rightarrow> uuid \<Rightarrow> uuid \<Rightarrow> CreateEntityChange \<Rightarrow>
    TournamentMatch service" where
  "match_override_result_audited i score1 score2 winner_id loser_id audit = transaction (
     sbind (match_submit_result i score1 score2 winner_id loser_id) (\<lambda>m.
     sbind (change_insert audit) (\<lambda>_. sret m)))"

section \<open>Disputes\<close>

definition dispute_row :: "uuid \<Rightarrow> datetime \<Rightarrow> CreateDispute \<Rightarrow> Dispute" where
  "dispute_row i t c = \<lparr>ds_id = i, ds_match_id = cds_match_id c, ds_result_claim_id = cds_result_claim_id c,
     ds_disputed_by_registration_id = cds_disputed_by_registration_id c,
     ds_disputed_by_user_id = cds_disputed_by_user_id c, ds_reason = cds_reason c,
     ds_description = cds_description c, ds_evidence_ids = cds_evidence_ids c,
     ds_original_winner_registration_id = cds_original_winner_registration_id c,
     ds_original_participant1_score = cds_original_participant1_score c,
     ds_original_participant2_score = cds_original_participant2_score c,
     ds_status = DisputeStatus.Pending, ds_priority = cds_priority c, ds_assigned_to_user_id = None,
     ds_resolved_at = None, ds_resolved_by_user_id = None, ds_resolution = None,
     ds_created_at = t, ds_updated_at = t\<rparr>"

definition dispute_create :: "CreateDispute \<Rightarrow> Dispute service" where
  "dispute_create c = sbind new_uuid (\<lambda>i. sbind now (\<lambda>t. insert_returning w_disputes_update (dispute_row i t c)))"

definition dispute_find_by_id :: "uuid \<Rightarrow> Dispute option service" where
  "dispute_find_by_id i = sget (\<lambda>w. find_row ds_id i (w_disputes w))"

definition newest_dispute :: "Dispute \<Rightarrow> Dispute \<Rightarrow> bool" where
  "newest_dispute x y \<longleftrightarrow> ds_created_at y \<le> ds_created_at x"

definition dispute_find_by_match :: "uuid \<Rightarrow> Dispute list service" where
  "dispute_find_by_match m = sget (\<lambda>w. sort_by newest_dispute (filter (\<lambda>d. ds_match_id d = m) (w_disputes w)))"

definition dispute_open :: "Dispute \<Rightarrow> bool" where
  "dispute_open d \<longleftrightarrow> ds_status d \<in> {DisputeStatus.Pending, DisputeStatus.UnderReview}"

definition dispute_find_pending_by_match :: "uuid \<Rightarrow> Dispute option service" where
  "dispute_find_pending_by_match m = sget (\<lambda>w.
     list_get (sort_by newest_dispute (filter (\<lambda>d. ds_match_id d = m \<and> dispute_open d) (w_disputes w))) 0)"

definition dispute_exists_pending_for_match :: "uuid \<Rightarrow> bool service" where
  "dispute_exists_pending_for_match m = sget (\<lambda>w. list_ex (\<lambda>d. ds_match_id d = m \<and> dispute_open d) (w_disputes w))"

text \<open>
  The queue: \<open>ORDER BY d.priority DESC\<close> compares the stored texts, then the age decides. A
  dispute appears with its match only (an inner join).
\<close>

definition priority_desc :: "world \<Rightarrow> Dispute \<Rightarrow> Dispute \<Rightarrow> bool" where
  "priority_desc w x y \<longleftrightarrow>
     w_text_le w (DisputePriority_to_string (ds_priority y)) (DisputePriority_to_string (ds_priority x))"

definition of_tournament :: "uuid option \<Rightarrow> world \<Rightarrow> Dispute \<Rightarrow> bool" where
  "of_tournament t w d \<longleftrightarrow>
     (case find_row m_id (ds_match_id d) (w_matches w) of None \<Rightarrow> False | Some m \<Rightarrow> wanted t (m_tournament_id m))"

definition dispute_find_pending :: "uuid option \<Rightarrow> DisputePriority option \<Rightarrow> nat \<Rightarrow> nat \<Rightarrow> (Dispute list \<times> nat) service" where
  "dispute_find_pending t priority limit offset = sget (\<lambda>w. paged limit offset
     (lex_by (priority_desc w) (\<lambda>x y. ds_created_at x \<le> ds_created_at y))
     (filter (\<lambda>d. dispute_open d \<and> of_tournament t w d \<and> wanted priority (ds_priority d)) (w_disputes w)))"

definition dispute_list_filtered :: "DisputeStatus list option \<Rightarrow> uuid option \<Rightarrow> uuid option \<Rightarrow> DisputePriority option \<Rightarrow>
    nat \<Rightarrow> nat \<Rightarrow> (Dispute list \<times> nat) service" where
  "dispute_list_filtered statuses t m priority limit offset = sget (\<lambda>w. paged limit offset
     (lex_by (priority_desc w) newest_dispute)
     (filter (\<lambda>d. (case statuses of None \<Rightarrow> True | Some l \<Rightarrow> ds_status d \<in> set l) \<and> of_tournament t w d \<and>
       wanted m (ds_match_id d) \<and> wanted priority (ds_priority d)) (w_disputes w)))"

definition dispute_update :: "uuid \<Rightarrow> UpdateDispute \<Rightarrow> Dispute service" where
  "dispute_update i u = sbind now (\<lambda>t. update_returning w_disputes w_disputes_update ds_id (db_error RowNotFound) i (\<lambda>d. d\<lparr>
     ds_status := or_old (uds_status u) (ds_status d),
     ds_priority := or_old (uds_priority u) (ds_priority d),
     ds_resolved_by_user_id := coalesce (uds_resolved_by_user_id u) (ds_resolved_by_user_id d),
     ds_assigned_to_user_id := coalesce (uds_assigned_to_user_id u) (ds_assigned_to_user_id d),
     ds_resolution := coalesce (uds_resolution u) (ds_resolution d),
     ds_resolved_at := (if uds_resolution u = None then ds_resolved_at d else Some t),
     ds_updated_at := t\<rparr>))"

definition dispute_resolved :: "uuid \<Rightarrow> DisputeResolution \<Rightarrow> datetime \<Rightarrow> Dispute \<Rightarrow> Dispute" where
  "dispute_resolved user_id resolution t d = d\<lparr>ds_status := DisputeStatus.Resolved, ds_resolved_at := Some t,
     ds_resolved_by_user_id := Some user_id, ds_resolution := Some resolution, ds_updated_at := t\<rparr>"

definition dispute_resolve :: "uuid \<Rightarrow> uuid \<Rightarrow> DisputeResolution \<Rightarrow> Dispute service" where
  "dispute_resolve i resolved_by resolution = sbind now (\<lambda>t. update_returning w_disputes w_disputes_update ds_id
     (\<lambda>_. DisputeNotFound i) i (dispute_resolved resolved_by resolution t))"

definition dispute_cancel :: "uuid \<Rightarrow> Dispute service" where
  "dispute_cancel i = sbind now (\<lambda>t. update_returning w_disputes w_disputes_update ds_id (\<lambda>_. DisputeNotFound i) i
     (\<lambda>d. d\<lparr>ds_status := DisputeStatus.Cancelled, ds_updated_at := t\<rparr>))"

definition message_row :: "uuid \<Rightarrow> datetime \<Rightarrow> CreateDisputeMessage \<Rightarrow> DisputeMessage" where
  "message_row i t c = \<lparr>dm_id = i, dm_dispute_id = cdm_dispute_id c, dm_author_user_id = cdm_author_user_id c,
     dm_author_type = cdm_author_type c, dm_message = cdm_message c, dm_evidence_ids = cdm_evidence_ids c,
     dm_is_internal = cdm_is_internal c, dm_created_at = t\<rparr>"

definition message_create :: "CreateDisputeMessage \<Rightarrow> DisputeMessage service" where
  "message_create c = sbind new_uuid (\<lambda>i. sbind now (\<lambda>t. insert_returning w_dispute_messages_update (message_row i t c)))"

definition message_find_by_id :: "uuid \<Rightarrow> DisputeMessage option service" where
  "message_find_by_id i = sget (\<lambda>w. find_row dm_id i (w_dispute_messages w))"

definition message_find_by_dispute :: "uuid \<Rightarrow> bool \<Rightarrow> DisputeMessage list service" where
  "message_find_by_dispute i include_internal = sget (\<lambda>w. sort_by (\<lambda>x y. dm_created_at x \<le> dm_created_at y)
     (filter (\<lambda>m. dm_dispute_id m = i \<and> (include_internal \<or> \<not> dm_is_internal m)) (w_dispute_messages w)))"

definition message_count_by_dispute :: "uuid \<Rightarrow> nat service" where
  "message_count_by_dispute i = sget (\<lambda>w. length (filter (\<lambda>m. dm_dispute_id m = i) (w_dispute_messages w)))"

text \<open>The resolution, the match and the message of the thread in one transaction.\<close>

definition dispute_resolve_with_status_change :: "uuid \<Rightarrow> uuid \<Rightarrow> DisputeResolution \<Rightarrow> uuid \<Rightarrow> TournamentMatchStatus \<Rightarrow>
    bool \<Rightarrow> CreateDisputeMessage \<Rightarrow> Dispute service" where
  "dispute_resolve_with_status_change i resolved_by resolution match_id status clear_match_result message = transaction (
     sbind (dispute_resolve i resolved_by resolution) (\<lambda>d.
     sbind (execute_match match_id (\<lambda>t m. if clear_match_result
       then m\<lparr>m_status := status, m_winner_registration_id := None, m_loser_registration_id := None,
         m_participant1_score := 0, m_participant2_score := 0, m_completed_at := None\<rparr>
       else m\<lparr>m_status := status\<rparr>)) (\<lambda>_.
     sbind (message_create (message\<lparr>cdm_dispute_id := i\<rparr>)) (\<lambda>_. sret d))))"

definition dispute_cancel_with_match_restore :: "uuid \<Rightarrow> uuid \<Rightarrow> CreateDisputeMessage \<Rightarrow> Dispute service" where
  "dispute_cancel_with_match_restore i match_id message = transaction (
     sbind (dispute_cancel i) (\<lambda>d.
     sbind (execute_match match_id (\<lambda>t m. m\<lparr>m_status := TournamentMatchStatus.Completed\<rparr>)) (\<lambda>_.
     sbind (message_create (message\<lparr>cdm_dispute_id := i\<rparr>)) (\<lambda>_. sret d))))"

definition dispute_claim :: "uuid option \<Rightarrow> unit service" where
  "dispute_claim claim_id = (case claim_id of None \<Rightarrow> sret ()
   | Some i \<Rightarrow> sbind now (\<lambda>t. smodify (w_claims_update (modify_row rc_id i (\<lambda>c.
       if rc_status c = ClaimStatus.Pending then c\<lparr>rc_status := ClaimStatus.Disputed, rc_updated_at := t\<rparr> else c)))))"

definition dispute_raise_atomic :: "CreateDispute \<Rightarrow> CreateDisputeMessage \<Rightarrow> Dispute service" where
  "dispute_raise_atomic c message = transaction (
     sbind (dispute_create c) (\<lambda>d.
     sbind (execute_match (cds_match_id c) (\<lambda>t m. m\<lparr>m_status := TournamentMatchStatus.Disputed, m_disputed := True,
       m_dispute_reason := Some (cds_description c)\<rparr>)) (\<lambda>_.
     sbind (dispute_claim (cds_result_claim_id c)) (\<lambda>_.
     sbind (message_create (message\<lparr>cdm_dispute_id := ds_id d\<rparr>)) (\<lambda>_. sret d)))))"

definition dispute_resolve_with_overturn :: "uuid \<Rightarrow> uuid \<Rightarrow> DisputeResolution \<Rightarrow> uuid \<Rightarrow> uuid \<Rightarrow> uuid \<Rightarrow> int \<Rightarrow> int \<Rightarrow>
    CreateDisputeMessage \<Rightarrow> Dispute service" where
  "dispute_resolve_with_overturn i resolved_by resolution match_id winner_id loser_id score1 score2 message = transaction (
     sbind (dispute_resolve i resolved_by resolution) (\<lambda>d.
     sbind (match_submit_result match_id score1 score2 winner_id loser_id) (\<lambda>_.
     sbind (message_create (message\<lparr>cdm_dispute_id := i\<rparr>)) (\<lambda>_. sret d))))"

end
