(* ===== verification/Results.thy ===== *)
theory Results
  imports ResultRepo Registration Lifecycle TournamentStart
begin

text \<open>
  The result service (\<open>services/tournament/result.rs\<close>): a team claims a result, the opponent confirms
  or disputes it, or it confirms itself after a deadline; an administrator corrects a recorded score.
  Scores are 32-bit integers whose sum wraps in a release build (a debug build panics). The maps that
  are legal for a tournament come from a provider of the API layer, which is a parameter.
\<close>

section \<open>The service\<close>

type_synonym map_pool_provider = "uuid \<Rightarrow> uuid option \<Rightarrow> string list service"

record ResultService =
  rs_adhoc_repo :: bool
  rs_map_pool_provider :: "map_pool_provider option"
  rs_match_transitioner :: bool
  rs_auto_confirm_timeout_seconds :: int

definition ResultService_new :: ResultService where
  "ResultService_new = \<lparr>rs_adhoc_repo = False, rs_map_pool_provider = None, rs_match_transitioner = False,
     rs_auto_confirm_timeout_seconds = 24 * 60 * 60\<rparr>"

definition MATCH_RESULT_OVERRIDE_ENTITY :: string where
  "MATCH_RESULT_OVERRIDE_ENTITY = ''tournament_match''"

definition MATCH_RESULT_OVERRIDE_FIELD :: string where
  "MATCH_RESULT_OVERRIDE_FIELD = ''result_override''"

datatype MapSource = Veto | Pool

definition check_map_ids :: "string list \<Rightarrow> GameResultInput list \<Rightarrow> MapSource \<Rightarrow> DomainError + unit" where
  "check_map_ids valid_maps game_results source =
     (case find (\<lambda>g. gi_map_id g \<notin> set valid_maps) game_results of
        None \<Rightarrow> Inr ()
      | Some g \<Rightarrow> Inl (InvalidMatchResult (ResultValidationError_to_string (case source of
          Veto \<Rightarrow> MapNotInVeto (gi_map_id g) | Pool \<Rightarrow> UnknownMap (gi_map_id g)))))"

definition get_claim :: "uuid \<Rightarrow> ResultClaim service" where
  "get_claim i = sbind (claim_find_by_id i) (sneed (ResultClaimNotFound i))"

section \<open>Validation\<close>

definition invalid :: "ResultValidationError \<Rightarrow> DomainError + unit" where
  "invalid e = Inl (InvalidMatchResult (ResultValidationError_to_string e))"

definition as_u32 :: "int \<Rightarrow> nat" where
  "as_u32 i = nat (i mod 2 ^ 32)"

definition check_series :: "TournamentMatch \<Rightarrow> uuid \<Rightarrow> int \<Rightarrow> int \<Rightarrow> DomainError + unit" where
  "check_series m claimed_winner score1 score2 =
     (let p1_wins = m_participant1_registration_id m = Some claimed_winner;
          wins_required = MatchFormat_wins_required (m_match_format m);
          expected_games = as_i32 (score1 + score2) in
      if score1 < 0 \<or> score2 < 0 then invalid NegativeScore
      else if \<not> p1_wins \<and> m_participant2_registration_id m \<noteq> Some claimed_winner then invalid InvalidWinner
      else if p1_wins \<and> score1 \<le> score2 then invalid ScoreWinnerMismatch
      else if \<not> p1_wins \<and> score2 \<le> score1 then invalid ScoreWinnerMismatch
      else if expected_games < wins_required \<or> expected_games > wins_required * 2 - 1
      then invalid (InsufficientGames (as_u32 wins_required) (as_u32 expected_games))
      else Inr ())"

fun check_games :: "nat \<Rightarrow> GameResultInput list \<Rightarrow> DomainError + unit" where
  "check_games i [] = Inr ()"
| "check_games i (g # gs) =
     (if gi_game_number g \<noteq> as_i32 (int (i + 1)) then invalid (NonSequentialGameNumber (gi_game_number g))
      else if gi_participant1_score g = gi_participant2_score g then invalid TiedGame
      else check_games (i + 1) gs)"

definition check_game_results :: "int \<Rightarrow> int \<Rightarrow> GameResultInput list \<Rightarrow> DomainError + unit" where
  "check_game_results score1 score2 game_results =
     (if length game_results \<noteq> as_usize (as_i32 (score1 + score2)) then invalid GameScoresMismatch
      else case check_games 0 game_results of
        Inl e \<Rightarrow> Inl e
      | Inr _ \<Rightarrow>
          let p1_game_wins = as_i32 (int (length (filter (\<lambda>g. gi_participant1_score g > gi_participant2_score g) game_results)));
              p2_game_wins = as_i32 (as_i32 (int (length game_results)) - p1_game_wins) in
          if p1_game_wins \<noteq> score1 \<or> p2_game_wins \<noteq> score2 then invalid GameScoresMismatch else Inr ())"

definition no_map_pool :: DomainError where
  "no_map_pool = InvalidMatchResult
     ''No map pool is configured for this tournament, so submitted maps cannot be validated''"

definition validate_map_ids :: "ResultService \<Rightarrow> TournamentMatch \<Rightarrow> GameResultInput list \<Rightarrow> unit service" where
  "validate_map_ids sv m game_results =
     (if game_results = [] then sret ()
      else sbind (veto_find_by_match (m_id m)) (\<lambda>found.
        let vetoed = (case found of None \<Rightarrow> []
          | Some s \<Rightarrow> if vs_status s = VetoStatus.Completed then vs_selected_maps s else []) in
        if vetoed \<noteq> [] then slift (check_map_ids vetoed game_results Veto)
        else sbind (sneed (Internal ''No map pool provider configured for result validation'') (rs_map_pool_provider sv))
          (\<lambda>valid_map_ids. sbind (valid_map_ids (m_tournament_id m) (Some (m_stage_id m))) (\<lambda>valid_maps.
          if valid_maps = [] then sfail no_map_pool
          else slift (check_map_ids valid_maps game_results Pool)))))"

definition validate_claim :: "ResultService \<Rightarrow> TournamentMatch \<Rightarrow> uuid \<Rightarrow> int \<Rightarrow> int \<Rightarrow> GameResultInput list \<Rightarrow> unit service" where
  "validate_claim sv m claimed_winner score1 score2 game_results =
     sbind (slift (check_series m claimed_winner score1 score2)) (\<lambda>_.
     if game_results = [] then sret ()
     else sbind (slift (check_game_results score1 score2 game_results)) (\<lambda>_. validate_map_ids sv m game_results))"

definition convert_game_result :: "TournamentMatch \<Rightarrow> GameResultInput \<Rightarrow> DomainError + GameResult" where
  "convert_game_result m g =
     (case (if gi_participant1_score g > gi_participant2_score g then m_participant1_registration_id m
        else m_participant2_registration_id m) of
        None \<Rightarrow> Inl (InvalidState ''Participant not found'')
      | Some game_winner \<Rightarrow> Inr \<lparr>gr_game_number = gi_game_number g, gr_map_id = gi_map_id g,
          gr_participant1_score = gi_participant1_score g, gr_participant2_score = gi_participant2_score g,
          gr_winner_registration_id = game_winner, gr_started_at = None, gr_completed_at = None,
          gr_duration_seconds = gi_duration_seconds g, gr_evidence_ids = gi_evidence_ids g,
          gr_demo_link_id = gi_demo_link_id g\<rparr>)"

section \<open>Claims\<close>

definition check_demo_links :: "uuid \<Rightarrow> uuid list \<Rightarrow> unit service" where
  "check_demo_links match_id ids = (if ids = [] then sret ()
     else sbind (demo_link_find_by_ids ids) (\<lambda>links.
       case find (\<lambda>i. i \<notin> dml_id ` set links) ids of
         Some i \<Rightarrow> sfail (DemoMatchLinkNotFound i)
       | None \<Rightarrow> (case find (\<lambda>l. dml_match_id l \<noteq> match_id) links of
           Some l \<Rightarrow> sfail (DemoNotLinkedToMatch (dml_id l) match_id)
         | None \<Rightarrow> sret ())))"

definition not_submittable :: "TournamentMatch \<Rightarrow> DomainError" where
  "not_submittable m = InvalidState (''Cannot submit result for match in '' @
     TournamentMatchStatus_to_string (m_status m) @ '' status'')"

definition submit_claim :: "ResultService \<Rightarrow> uuid \<Rightarrow> uuid \<Rightarrow> int \<Rightarrow> int \<Rightarrow> GameResultInput list \<Rightarrow> uuid list \<Rightarrow> uuid list \<Rightarrow>
    string option \<Rightarrow> RegistrationActor \<Rightarrow> ResultClaim service" where
  "submit_claim sv match_id claimed_winner score1 score2 games evidence_ids demo_link_ids notes submitted_by =
     sbind (get_match match_id) (\<lambda>m.
     if \<not> TournamentMatch_can_submit_result m then sfail (not_submittable m)
     else sbind (find_actor_registration (rs_adhoc_repo sv) m submitted_by) (\<lambda>submitter.
     sbind (validate_claim sv m claimed_winner score1 score2 games) (\<lambda>_.
     sbind (check_demo_links match_id demo_link_ids) (\<lambda>_.
     sbind (slift (collect_results (map (convert_game_result m) games))) (\<lambda>game_results.
     sbind now (\<lambda>t.
     sbind (claim_create_and_supersede_pending \<lparr>crc_match_id = match_id,
       crc_submitted_by_registration_id = Some submitter,
       crc_submitted_by_user_id = Some (ra_user_id submitted_by), crc_source = ''participant'',
       crc_claimed_winner_registration_id = claimed_winner, crc_participant1_score = score1,
       crc_participant2_score = score2, crc_game_results = game_results,
       crc_auto_confirm_at = t + rs_auto_confirm_timeout_seconds sv, crc_evidence_ids = evidence_ids,
       crc_demo_link_ids = demo_link_ids, crc_notes = notes\<rparr>) (\<lambda>claim.
     if m_status m = TournamentMatchStatus.InProgress \<and> rs_match_transitioner sv
     then sbind (transition match_id TournamentMatchStatus.AwaitingResult (TransitionTrigger.System ''result_submitted'')
       (Some ''Result claim submitted; awaiting opponent confirmation'')) (\<lambda>_. sret claim)
     else sret claim)))))))"

definition server_claim :: "ResultService \<Rightarrow> TournamentMatch \<Rightarrow> uuid \<Rightarrow> uuid \<Rightarrow> int \<Rightarrow> int \<Rightarrow> GameResultInput list \<Rightarrow>
    datetime \<Rightarrow> ResultClaim service" where
  "server_claim sv m match_id claimed_winner score1 score2 games auto_confirm_at =
     sbind (validate_claim sv m claimed_winner score1 score2 games) (\<lambda>_.
     sbind (slift (collect_results (map (convert_game_result m) games))) (\<lambda>game_results.
     claim_create_and_supersede_pending \<lparr>crc_match_id = match_id, crc_submitted_by_registration_id = None,
       crc_submitted_by_user_id = None, crc_source = ''server'',
       crc_claimed_winner_registration_id = claimed_winner, crc_participant1_score = score1,
       crc_participant2_score = score2, crc_game_results = game_results, crc_auto_confirm_at = auto_confirm_at,
       crc_evidence_ids = [], crc_demo_link_ids = [],
       crc_notes = Some ''Automatically reported by the game server''\<rparr>))"

definition submit_server_claim :: "ResultService \<Rightarrow> uuid \<Rightarrow> uuid \<Rightarrow> int \<Rightarrow> int \<Rightarrow> GameResultInput list \<Rightarrow> datetime \<Rightarrow>
    ResultClaim service" where
  "submit_server_claim sv match_id claimed_winner score1 score2 games auto_confirm_at =
     sbind (get_match match_id) (\<lambda>m.
     if \<not> TournamentMatch_can_submit_result m then sfail (not_submittable m)
     else sbind (claim_find_current_by_match match_id) (\<lambda>existing.
     case existing of
       Some c \<Rightarrow> if ResultClaim_is_pending c
         then sfail (Conflict (''a result claim ('' @ rc_id c @ '') is already pending for this match''))
         else server_claim sv m match_id claimed_winner score1 score2 games auto_confirm_at
     | None \<Rightarrow> server_claim sv m match_id claimed_winner score1 score2 games auto_confirm_at))"

definition not_pending :: "string \<Rightarrow> ResultClaim \<Rightarrow> DomainError" where
  "not_pending verb c = InvalidState (''Cannot '' @ verb @ '' claim in '' @ ClaimStatus_to_string (rc_status c) @ '' status'')"

definition other_side :: "TournamentMatch \<Rightarrow> uuid \<Rightarrow> uuid option" where
  "other_side m r = (if m_participant1_registration_id m = Some r then m_participant2_registration_id m
     else m_participant1_registration_id m)"

definition confirm_claim :: "ResultService \<Rightarrow> uuid \<Rightarrow> RegistrationActor \<Rightarrow> ResultClaim service" where
  "confirm_claim sv claim_id confirmed_by = sbind (get_claim claim_id) (\<lambda>claim.
     if \<not> ResultClaim_is_pending claim then sfail (not_pending ''confirm'' claim)
     else sbind (get_match (rc_match_id claim)) (\<lambda>m.
     sbind (find_actor_registration (rs_adhoc_repo sv) m confirmed_by) (\<lambda>confirmer.
     if Some confirmer = rc_submitted_by_registration_id claim
     then sfail (NotAuthorized ''Cannot confirm your own result claim'')
     else sbind (sneed (InvalidState ''Loser participant not found'')
         (other_side m (rc_claimed_winner_registration_id claim))) (\<lambda>loser.
       claim_confirm_and_apply_to_match claim_id confirmer (Some (ra_user_id confirmed_by)) False (m_id m)
         (rc_claimed_winner_registration_id claim) loser
         (rc_claimed_participant1_score claim) (rc_claimed_participant2_score claim)))))"

definition outcome_json :: "int \<Rightarrow> int \<Rightarrow> uuid option \<Rightarrow> (string \<times> json) list" where
  "outcome_json score1 score2 winner = [(''participant1_score'', JNum score1), (''participant2_score'', JNum score2),
     (''winner_registration_id'', case winner of None \<Rightarrow> JNull | Some i \<Rightarrow> JStr i)]"

definition override_result :: "uuid \<Rightarrow> int \<Rightarrow> int \<Rightarrow> string \<Rightarrow> uuid \<Rightarrow> string option \<Rightarrow> TournamentMatch service" where
  "override_result match_id score1 score2 reason changed_by request_id = sbind (get_match match_id) (\<lambda>m.
     if m_winner_registration_id m = None
     then sfail (InvalidState ''Match has no recorded result to correct'')
     else sbind (slift (derive_result_outcome m score1 score2)) (\<lambda>(winner_id, loser_id).
       match_override_result_audited match_id score1 score2 winner_id loser_id
         \<lparr>cec_entity_type = MATCH_RESULT_OVERRIDE_ENTITY, cec_entity_id = match_id, cec_change_type = ChangeType.Update,
          cec_field_name = Some MATCH_RESULT_OVERRIDE_FIELD,
          cec_old_value = Some (JObj (outcome_json (m_participant1_score m) (m_participant2_score m) (m_winner_registration_id m))),
          cec_new_value = Some (JObj (outcome_json score1 score2 (Some winner_id) @ [(''reason'', JStr reason)])),
          cec_changed_by = changed_by, cec_request_id = request_id, cec_ip_address = None, cec_user_agent = None\<rparr>))"

definition authorize_claim_dispute :: "ResultService \<Rightarrow> uuid \<Rightarrow> RegistrationActor \<Rightarrow> (ResultClaim \<times> uuid) service" where
  "authorize_claim_dispute sv claim_id disputed_by = sbind (get_claim claim_id) (\<lambda>claim.
     if \<not> ResultClaim_is_pending claim then sfail (not_pending ''dispute'' claim)
     else sbind (get_match (rc_match_id claim)) (\<lambda>m.
     sbind (find_actor_registration (rs_adhoc_repo sv) m disputed_by) (\<lambda>disputer.
     if Some disputer = rc_submitted_by_registration_id claim
     then sfail (NotAuthorized ''Cannot dispute your own result claim'')
     else sret (claim, disputer))))"

definition cancel_claim :: "uuid \<Rightarrow> uuid \<Rightarrow> ResultClaim service" where
  "cancel_claim claim_id cancelled_by_user = sbind (get_claim claim_id) (\<lambda>claim.
     if \<not> ResultClaim_is_pending claim then sfail (not_pending ''cancel'' claim)
     else if rc_submitted_by_user_id claim \<noteq> Some cancelled_by_user
     then sfail (NotAuthorized ''Only the submitter can cancel their own claim'')
     else claim_update_status claim_id ClaimStatus.Cancelled)"

definition auto_confirm_claim :: "ResultClaim \<Rightarrow> ResultClaim service" where
  "auto_confirm_claim claim = sbind (get_match (rc_match_id claim)) (\<lambda>m.
     let reference = or_old (rc_submitted_by_registration_id claim) (rc_claimed_winner_registration_id claim) in
     sbind (sneed (InvalidState ''Opponent not found'') (other_side m reference)) (\<lambda>opponent.
     sbind (sneed (InvalidState ''Loser participant not found'')
       (other_side m (rc_claimed_winner_registration_id claim))) (\<lambda>loser.
     claim_confirm_and_apply_to_match (rc_id claim) opponent (rc_submitted_by_user_id claim) True (m_id m)
       (rc_claimed_winner_registration_id claim) loser
       (rc_claimed_participant1_score claim) (rc_claimed_participant2_score claim))))"

text \<open>A claim that fails is logged and passed over.\<close>

fun auto_confirm_each :: "ResultClaim list \<Rightarrow> ResultClaim list service" where
  "auto_confirm_each [] = sret []"
| "auto_confirm_each (c # cs) = sbind (sattempt (auto_confirm_claim c)) (\<lambda>outcome.
     sbind (auto_confirm_each cs) (\<lambda>confirmed. sret (case outcome of Inl _ \<Rightarrow> confirmed | Inr c' \<Rightarrow> c' # confirmed)))"

definition process_auto_confirmations :: "ResultClaim list service" where
  "process_auto_confirmations = sbind claim_find_ready_for_auto_confirm auto_confirm_each"

definition get_current_claim :: "uuid \<Rightarrow> ResultClaim option service" where
  "get_current_claim = claim_find_current_by_match"

definition get_claim_history :: "uuid \<Rightarrow> ResultClaim list service" where
  "get_claim_history = claim_list_by_match"

end
