(* ===== verification/Disputes.thy ===== *)
theory Disputes
  imports ResultRepo TournamentStart Lifecycle
begin

text \<open>
  The dispute service (\<open>services/tournament/dispute.rs\<close>): a participant disputes a claim or a recorded
  result, an administrator takes the dispute and resolves it in one of five ways, or it is cancelled.
\<close>

definition get_dispute :: "uuid \<Rightarrow> Dispute service" where
  "get_dispute i = sbind (dispute_find_by_id i) (sneed (DisputeNotFound i))"

definition validate_can_dispute :: "TournamentMatch \<Rightarrow> uuid \<Rightarrow> bool \<Rightarrow> DomainError + unit" where
  "validate_can_dispute m r targets_result_claim =
     (let live_claim_dispute = targets_result_claim \<and> TournamentMatchStatus_can_submit_result (m_status m) in
      if \<not> live_claim_dispute \<and> m_status m \<notin> {TournamentMatchStatus.Completed, TournamentMatchStatus.Disputed}
      then Inl (InvalidState (''Match in '' @ TournamentMatchStatus_to_string (m_status m) @ '' status cannot be disputed''))
      else if m_participant1_registration_id m \<noteq> Some r \<and> m_participant2_registration_id m \<noteq> Some r
      then Inl (NotAuthorized ''Only match participants can raise a dispute'')
      else Inr ())"

definition validate_can_resolve :: "Dispute \<Rightarrow> DomainError + unit" where
  "validate_can_resolve d = (if Dispute_can_resolve d then Inr ()
     else Inl (InvalidState (''Dispute '' @ ds_id d @ '' cannot be resolved (status: '' @
       DisputeStatus_to_string (ds_status d) @ '')'')))"

fun dispute_priority :: "DisputeReason \<Rightarrow> DisputePriority" where
  "dispute_priority DisputeReason.Cheating = DisputePriority.Urgent"
| "dispute_priority DisputeReason.RuleViolation = DisputePriority.High"
| "dispute_priority DisputeReason.PlayerMisconduct = DisputePriority.High"
| "dispute_priority _ = DisputePriority.Normal"

definition thread_message :: "uuid \<Rightarrow> uuid \<Rightarrow> AuthorType \<Rightarrow> string \<Rightarrow> bool \<Rightarrow> CreateDisputeMessage" where
  "thread_message i author kind message is_internal = \<lparr>cdm_dispute_id = i, cdm_author_user_id = author,
     cdm_author_type = kind, cdm_message = message, cdm_evidence_ids = [], cdm_is_internal = is_internal\<rparr>"

text \<open>\<open>Uuid::nil()\<close>.\<close>

definition nil_uuid :: uuid where
  "nil_uuid = ''00000000-0000-0000-0000-000000000000''"

text \<open>
  \<open>chars().take(n)\<close> of a text, which is the list of its UTF-8 bytes: a byte between 128 and 191
  continues the character before it.
\<close>

fun take_chars :: "nat \<Rightarrow> string \<Rightarrow> string" where
  "take_chars n [] = []"
| "take_chars n (b # bs) = (if of_char b div 64 = (2 :: nat) then b # take_chars n bs
     else case n of 0 \<Rightarrow> [] | Suc k \<Rightarrow> b # take_chars k bs)"

text \<open>The claim is the original result if one is disputed, the match otherwise.\<close>

definition raise_dispute :: "uuid \<Rightarrow> uuid option \<Rightarrow> DisputeReason \<Rightarrow> string \<Rightarrow> uuid list \<Rightarrow> uuid \<Rightarrow> uuid \<Rightarrow> Dispute service" where
  "raise_dispute match_id claim_id reason description evidence_ids registration_id user_id =
     sbind (get_match match_id) (\<lambda>m.
     sbind (slift (validate_can_dispute m registration_id (claim_id \<noteq> None))) (\<lambda>_.
     sbind (dispute_exists_pending_for_match match_id) (\<lambda>exists_pending.
     if exists_pending then sfail (InvalidState (''Match '' @ match_id @ '' already has a pending dispute''))
     else sbind (case claim_id of None \<Rightarrow> sret None | Some i \<Rightarrow> claim_find_by_id i) (\<lambda>disputed_claim.
     if (case disputed_claim of None \<Rightarrow> False | Some c \<Rightarrow> rc_submitted_by_registration_id c = Some registration_id)
     then sfail (InvalidState ''Cannot dispute your own result claim'')
     else
       let (winner, score1, score2) = (case disputed_claim of
           Some c \<Rightarrow> (Some (rc_claimed_winner_registration_id c), rc_claimed_participant1_score c, rc_claimed_participant2_score c)
         | None \<Rightarrow> (m_winner_registration_id m, m_participant1_score m, m_participant2_score m)) in
       dispute_raise_atomic \<lparr>cds_match_id = match_id, cds_result_claim_id = claim_id,
         cds_disputed_by_registration_id = registration_id, cds_disputed_by_user_id = user_id, cds_reason = reason,
         cds_description = description, cds_evidence_ids = evidence_ids,
         cds_original_winner_registration_id = winner, cds_original_participant1_score = Some score1,
         cds_original_participant2_score = Some score2, cds_priority = dispute_priority reason\<rparr>
         (thread_message nil_uuid user_id AuthorType.System
           (''Dispute raised: '' @ DisputeReason_to_string reason @ '' - '' @ take_chars 100 description) False)))))"

definition already_over :: "Dispute \<Rightarrow> uuid \<Rightarrow> DomainError" where
  "already_over d i = InvalidState (''Dispute '' @ i @ '' is already '' @ DisputeStatus_to_string (ds_status d))"

definition add_message :: "uuid \<Rightarrow> string \<Rightarrow> uuid list \<Rightarrow> uuid \<Rightarrow> AuthorType \<Rightarrow> bool \<Rightarrow> DisputeMessage service" where
  "add_message i message evidence_ids author kind is_internal = sbind (get_dispute i) (\<lambda>d.
     if Dispute_is_terminal d then sfail (already_over d i)
     else message_create ((thread_message i author kind message is_internal)\<lparr>cdm_evidence_ids := evidence_ids\<rparr>))"

definition assign_for_review :: "uuid \<Rightarrow> uuid \<Rightarrow> Dispute service" where
  "assign_for_review i assigned_by = sbind (get_dispute i) (\<lambda>d.
     if \<not> Dispute_can_assign d
     then sfail (InvalidState (''Dispute '' @ i @ '' cannot be assigned (status: '' @ DisputeStatus_to_string (ds_status d) @ '')''))
     else sbind (dispute_update i \<lparr>uds_status = Some DisputeStatus.UnderReview, uds_priority = None,
         uds_resolution = None, uds_resolved_by_user_id = None, uds_assigned_to_user_id = Some assigned_by\<rparr>) (\<lambda>updated.
       sbind (message_create (thread_message i assigned_by AuthorType.System ''Dispute assigned for review'' True)) (\<lambda>_.
       sret updated)))"

section \<open>Resolutions\<close>

definition resolvable :: "uuid \<Rightarrow> Dispute service" where
  "resolvable i = sbind (get_dispute i) (\<lambda>d. sbind (slift (validate_can_resolve d)) (\<lambda>_. sret d))"

definition resolution_of :: "ResolutionType \<Rightarrow> string \<Rightarrow> uuid option \<Rightarrow> int option \<Rightarrow> int option \<Rightarrow> DisputeResolution" where
  "resolution_of kind notes winner score1 score2 = \<lparr>drs_resolution_type = kind, drs_notes = notes,
     drs_new_winner_registration_id = winner, drs_new_participant1_score = score1, drs_new_participant2_score = score2\<rparr>"

definition loser_against :: "TournamentMatch \<Rightarrow> uuid \<Rightarrow> uuid service" where
  "loser_against m winner_id = sneed (InvalidState ''Cannot determine loser'')
     (if m_participant1_registration_id m = Some winner_id then m_participant2_registration_id m
      else m_participant1_registration_id m)"

definition resolution_result :: "ProgressionChanges option \<Rightarrow> Dispute \<Rightarrow> DisputeResolutionResult service" where
  "resolution_result changes d = sret \<lparr>drr_dispute = d, drr_progression_changes = changes\<rparr>"

definition resolve_uphold :: "uuid \<Rightarrow> string \<Rightarrow> uuid \<Rightarrow> DisputeResolutionResult service" where
  "resolve_uphold i notes resolved_by = sbind (resolvable i) (\<lambda>d.
     sbind (get_match (ds_match_id d)) (\<lambda>m.
     let resolution = resolution_of ResolutionType.Upheld notes None None None;
         message = thread_message i resolved_by AuthorType.Admin (''Dispute upheld: '' @ notes) False in
     sbind (case ds_original_winner_registration_id d of
         Some winner_id \<Rightarrow> sbind (loser_against m winner_id) (\<lambda>loser_id.
           dispute_resolve_with_overturn i resolved_by resolution (ds_match_id d) winner_id loser_id
             (or_old (ds_original_participant1_score d) 0) (or_old (ds_original_participant2_score d) 0) message)
       | None \<Rightarrow> dispute_resolve_with_status_change i resolved_by resolution (ds_match_id d)
           TournamentMatchStatus.Completed False message) (resolution_result None)))"

definition resolve_overturn :: "uuid \<Rightarrow> uuid \<Rightarrow> int \<Rightarrow> int \<Rightarrow> string \<Rightarrow> uuid \<Rightarrow> DisputeResolutionResult service" where
  "resolve_overturn i winner_id score1 score2 notes resolved_by = sbind (resolvable i) (\<lambda>d.
     sbind (get_match (ds_match_id d)) (\<lambda>m.
     sbind (loser_against m winner_id) (\<lambda>loser_id.
     sbind (dispute_resolve_with_overturn i resolved_by
       (resolution_of ResolutionType.Overturned notes (Some winner_id) (Some score1) (Some score2))
       (ds_match_id d) winner_id loser_id score1 score2
       (thread_message i resolved_by AuthorType.Admin (''Dispute overturned. New scores: '' @ show_int score1 @ ''-'' @
         show_int score2 @ ''. '' @ notes) False))
       (resolution_result (Some \<lparr>pch_reverted_matches = [], pch_updated_matches = [ds_match_id d], pch_new_winner_path = []\<rparr>)))))"

definition resolve_rematch :: "uuid \<Rightarrow> string \<Rightarrow> uuid \<Rightarrow> DisputeResolutionResult service" where
  "resolve_rematch i notes resolved_by = sbind (resolvable i) (\<lambda>d.
     sbind (dispute_resolve_with_status_change i resolved_by (resolution_of ResolutionType.Rematch notes None None None)
       (ds_match_id d) TournamentMatchStatus.Ready True
       (thread_message i resolved_by AuthorType.Admin (''Rematch ordered: '' @ notes) False)) (resolution_result None))"

definition resolve_adjusted :: "uuid \<Rightarrow> int \<Rightarrow> int \<Rightarrow> string \<Rightarrow> uuid \<Rightarrow> DisputeResolutionResult service" where
  "resolve_adjusted i score1 score2 notes resolved_by = sbind (resolvable i) (\<lambda>d.
     sbind (get_match (ds_match_id d)) (\<lambda>m.
     sbind (slift (derive_result_outcome m score1 score2)) (\<lambda>(winner_id, loser_id).
     sbind (dispute_resolve_with_overturn i resolved_by
       (resolution_of ResolutionType.Adjusted notes (Some winner_id) (Some score1) (Some score2))
       (ds_match_id d) winner_id loser_id score1 score2
       (thread_message i resolved_by AuthorType.Admin (''Scores adjusted to '' @ show_int score1 @ ''-'' @
         show_int score2 @ ''. '' @ notes) False)) (resolution_result None))))"

definition resolve_double_dq :: "uuid \<Rightarrow> string \<Rightarrow> uuid \<Rightarrow> DisputeResolutionResult service" where
  "resolve_double_dq i notes resolved_by = sbind (resolvable i) (\<lambda>d.
     sbind (dispute_resolve_with_status_change i resolved_by (resolution_of ResolutionType.DoubleDq notes None None None)
       (ds_match_id d) TournamentMatchStatus.Cancelled True
       (thread_message i resolved_by AuthorType.Admin (''Both teams disqualified: '' @ notes) False)) (resolution_result None))"

definition cancel_dispute :: "uuid \<Rightarrow> uuid \<Rightarrow> Dispute service" where
  "cancel_dispute i cancelled_by = sbind (get_dispute i) (\<lambda>d.
     if Dispute_is_terminal d then sfail (already_over d i)
     else dispute_cancel_with_match_restore i (ds_match_id d)
       (thread_message i cancelled_by AuthorType.System ''Dispute cancelled'' False))"

section \<open>Queries\<close>

definition get_match_dispute :: "uuid \<Rightarrow> Dispute option service" where
  "get_match_dispute = dispute_find_pending_by_match"

definition get_pending_disputes :: "uuid option \<Rightarrow> DisputePriority option \<Rightarrow> nat \<Rightarrow> nat \<Rightarrow> (Dispute list \<times> nat) service" where
  "get_pending_disputes = dispute_find_pending"

definition list_disputes :: "DisputeStatus list option \<Rightarrow> uuid option \<Rightarrow> uuid option \<Rightarrow> DisputePriority option \<Rightarrow>
    nat \<Rightarrow> nat \<Rightarrow> (Dispute list \<times> nat) service" where
  "list_disputes = dispute_list_filtered"

definition get_dispute_with_thread :: "uuid \<Rightarrow> bool \<Rightarrow> DisputeWithThread service" where
  "get_dispute_with_thread i include_internal = sbind (get_dispute i) (\<lambda>d.
     sbind (message_find_by_dispute i include_internal) (\<lambda>messages.
     sret \<lparr>dwt_dispute = d, dwt_messages = messages\<rparr>))"

end
