(* ===== verification/ResultSpec.thy ===== *)
theory ResultSpec
  imports Results Disputes ProgressionSpec
begin

text \<open>
  What the result and dispute services do: which series scores a claim may state, how many claims wait
  for a match, what a confirmation does to the match, what each resolution of a dispute leaves, in which
  order disputes are queued.
\<close>

section \<open>Runs\<close>

lemma transaction_ok: "m w = (Inr a, w') \<Longrightarrow> transaction m w = (Inr a, w')"
  by (simp add: transaction_def)

lemma get_match_found [simp]:
  "find_row m_id i (w_matches w) = Some m \<Longrightarrow> get_match i w = (Inr m, w)"
  by (simp add: get_match_def)

lemma execute_match_run [simp]:
  "execute_match i f w =
    (Inr (), w_matches_update (modify_row m_id i (\<lambda>m. (f (w_now w) m)\<lparr>m_updated_at := w_now w\<rparr>)) w)"
  by (simp add: execute_match_def)

lemma message_create_run:
  "\<exists>x. message_create c w = (Inr x, w\<lparr>w_next := Suc (w_next w),
     w_dispute_messages := w_dispute_messages w @ [x]\<rparr>)"
  by (simp add: message_create_def new_uuid_def insert_returning_def sbind_def)

lemma claim_resolve_found:
  assumes "find_row rc_id i (w_claims w) = Some c" and "rc_status c = ClaimStatus.Pending"
  shows "claim_resolve i f w = (Inr ((f (w_now w) c)\<lparr>rc_updated_at := w_now w\<rparr>),
    w_claims_update (modify_row rc_id i (\<lambda>c. (f (w_now w) c)\<lparr>rc_updated_at := w_now w\<rparr>)) w)"
  using assms by (simp add: claim_resolve_def update_returning_def)

lemma claim_confirmed_id [simp]: "rc_id (claim_confirmed r u a t c) = rc_id c"
  by (simp add: claim_confirmed_def)

section \<open>Scores\<close>

lemma as_i32_eq: "as_i32 v = (v + 2 ^ 31) mod 2 ^ 32 - 2 ^ 31"
proof -
  have "as_i32 v = signed_take_bit 31 v" unfolding as_i32_def by transfer simp
  also have "\<dots> = (v + 2 ^ 31) mod 2 ^ 32 - 2 ^ 31"
    by (simp add: signed_take_bit_eq_take_bit_shift take_bit_eq_mod)
  finally show ?thesis .
qed

lemma as_i32_small: "0 \<le> v \<Longrightarrow> v < 2 ^ 31 \<Longrightarrow> as_i32 v = v"
  by (simp add: as_i32_eq)

lemma as_i32_wraps:
  assumes "2 ^ 31 \<le> v" and "v < 2 ^ 32"
  shows "as_i32 v = v - 2 ^ 32"
proof -
  have "(v + 2 ^ 31) mod 2 ^ 32 = (v + 2 ^ 31 - 2 ^ 32) mod 2 ^ 32" by (rule minus_mod_self2 [symmetric])
  also have "\<dots> = v + 2 ^ 31 - 2 ^ 32" by (rule mod_pos_pos_trivial) (use assms in auto)
  finally show ?thesis by (simp add: as_i32_eq)
qed

text \<open>
  C32. A claim of a series is accepted exactly when both scores are non-negative, the claimed winner is
  a participant with strictly more games, and the number of games lies between the wins the format
  requires and the games it allows. The sum that wraps at 32 bits in the code makes no difference. That
  the winner has the required number of wins is not checked: a best of five is accepted at 2-1.
\<close>

theorem accepted_series:
  assumes "- (2 ^ 31) \<le> s1" and "s1 < 2 ^ 31" and "- (2 ^ 31) \<le> s2" and "s2 < 2 ^ 31"
  shows "check_series m winner s1 s2 = Inr () \<longleftrightarrow>
    0 \<le> s1 \<and> 0 \<le> s2 \<and>
    (if m_participant1_registration_id m = Some winner then s2 < s1
     else m_participant2_registration_id m = Some winner \<and> s1 < s2) \<and>
    MatchFormat_wins_required (m_match_format m) \<le> s1 + s2 \<and>
    s1 + s2 \<le> 2 * MatchFormat_wins_required (m_match_format m) - 1"
proof -
  let ?w = "MatchFormat_wins_required (m_match_format m)"
  have w: "1 \<le> ?w" "?w \<le> 100" by (cases "m_match_format m"; simp add: MatchFormat_wins_required_def)+
  have "as_i32 (s1 + s2) < ?w \<or> as_i32 (s1 + s2) > ?w * 2 - 1 \<longleftrightarrow> s1 + s2 < ?w \<or> s1 + s2 > 2 * ?w - 1"
    if "0 \<le> s1" "0 \<le> s2"
    using that assms w by (cases "s1 + s2 < 2 ^ 31") (auto simp: as_i32_small as_i32_wraps mult.commute)
  then show ?thesis by (auto simp: check_series_def invalid_def Let_def)
qed


section \<open>Confirmation\<close>

definition confirmed_result :: "ResultClaim \<Rightarrow> uuid \<Rightarrow> datetime \<Rightarrow> TournamentMatch \<Rightarrow> TournamentMatch" where
  "confirmed_result c loser t m = m\<lparr>m_participant1_score := rc_claimed_participant1_score c,
     m_participant2_score := rc_claimed_participant2_score c,
     m_winner_registration_id := Some (rc_claimed_winner_registration_id c),
     m_loser_registration_id := Some loser, m_completed_at := Some t,
     m_status := TournamentMatchStatus.Completed, m_updated_at := t\<rparr>"

lemma confirm_and_apply_run:
  assumes "find_row rc_id i (w_claims w) = Some c" and "rc_status c = ClaimStatus.Pending"
  shows "claim_confirm_and_apply_to_match i r u auto k (rc_claimed_winner_registration_id c) loser
      (rc_claimed_participant1_score c) (rc_claimed_participant2_score c) w =
    (Inr ((claim_confirmed r u auto (w_now w) c)\<lparr>rc_updated_at := w_now w\<rparr>),
     w_matches_update (modify_row m_id k (confirmed_result c loser (w_now w)))
       (w_claims_update (modify_row rc_id i (\<lambda>c. (claim_confirmed r u auto (w_now w) c)\<lparr>rc_updated_at := w_now w\<rparr>)) w))"
  unfolding claim_confirm_and_apply_to_match_def
  by (rule transaction_ok) (simp add: claim_resolve_found [OF assms] confirmed_result_def modify_row_def)

text \<open>
  C35. A pending claim whose deadline has passed decides its match whatever the status of the match is by
  then: a cancelled or forfeited match becomes completed, its winner, loser and scores are replaced by
  those of the claim, and no transition is logged.
\<close>

theorem overdue_claim_completes_any_match:
  assumes "find_row rc_id (rc_id c) (w_claims w) = Some c" and "rc_status c = ClaimStatus.Pending"
    and "find_row m_id (rc_match_id c) (w_matches w) = Some m"
    and "m_participant1_registration_id m = Some p1" and "m_participant2_registration_id m = Some p2"
  shows "\<exists>c' w' loser. auto_confirm_claim c w = (Inr c', w') \<and> rc_status c' = ClaimStatus.Confirmed \<and>
    loser \<in> {p1, p2} \<and> w_logs w' = w_logs w \<and>
    find_row m_id (rc_match_id c) (w_matches w') = Some (confirmed_result c loser (w_now w) m) \<and>
    m_status (confirmed_result c loser (w_now w) m) = TournamentMatchStatus.Completed"
proof -
  let ?w = "rc_claimed_winner_registration_id c"
  let ?loser = "if p1 = ?w then p2 else p1"
  have other: "other_side m r = Some (if p1 = r then p2 else p1)" for r
    using assms(4,5) by (simp add: other_side_def)
  have key: "m_id (confirmed_result c l t x) = m_id x" for l t x by (simp add: confirmed_result_def)
  obtain w' where run: "auto_confirm_claim c w =
      (Inr ((claim_confirmed (if p1 = or_old (rc_submitted_by_registration_id c) ?w then p2 else p1)
        (rc_submitted_by_user_id c) True (w_now w) c)\<lparr>rc_updated_at := w_now w\<rparr>), w')"
    and tables: "w_matches w' = modify_row m_id (m_id m) (confirmed_result c ?loser (w_now w)) (w_matches w)"
      "w_logs w' = w_logs w"
    by (rule that) (simp add: auto_confirm_claim_def assms(3) other Let_def confirm_and_apply_run [OF assms(1,2)]
        del: if_split, simp_all)
  have "find_row m_id (rc_match_id c) (w_matches w') = Some (confirmed_result c ?loser (w_now w) m)"
    using assms(3) find_row_key [OF assms(3)] by (simp add: tables find_modify_row key)
  moreover have "?loser \<in> {p1, p2}" by simp
  ultimately show ?thesis
    using run tables(2) by (intro exI [of _ w'] exI conjI) (assumption | simp add: claim_confirmed_def confirmed_result_def)+
qed


section \<open>At most one claim waits\<close>

definition waits_for :: "uuid \<Rightarrow> ResultClaim \<Rightarrow> bool" where
  "waits_for k c \<longleftrightarrow> rc_match_id c = k \<and> rc_status c = ClaimStatus.Pending"

definition one_pending :: "world \<Rightarrow> bool" where
  "one_pending w \<longleftrightarrow> (\<forall>k. length (filter (waits_for k) (w_claims w)) \<le> 1)"

lemma one_pending_same: "w_claims v = w_claims w \<Longrightarrow> one_pending v \<longleftrightarrow> one_pending w"
  by (simp add: one_pending_def)

lemma one_pending_map:
  assumes "one_pending w" and "w_claims v = map f (w_claims w)" and "\<And>k c. waits_for k (f c) \<Longrightarrow> waits_for k c"
  shows "one_pending v"
proof -
  have "length (filter (waits_for k) (map f cs)) \<le> length (filter (waits_for k) cs)" for k cs
    by (induction cs) (use assms(3) in \<open>auto simp: le_SucI\<close>)
  with assms(1,2) show ?thesis unfolding one_pending_def by (metis le_trans)
qed

lemma transaction_pending [keeps_intros]:
  assumes keeps: "keeps one_pending m"
  shows "keeps one_pending (transaction m)"
proof
  fix w assume w: "one_pending w"
  obtain r t where run: "m w = (r, t)" by fastforce
  have "one_pending t" using keeps w run by (rule keepsD)
  moreover have "one_pending (w\<lparr>w_next := w_next t\<rparr>)" using w by (simp add: one_pending_def)
  ultimately show "one_pending (snd (transaction m w))" by (cases r) (simp_all add: transaction_def run)
qed

lemma smodify_pending:
  "(\<And>w. one_pending w \<Longrightarrow> one_pending (f w)) \<Longrightarrow> keeps one_pending (smodify f)"
  by (simp add: keeps_def)

lemma resolve_pending [keeps_intros]:
  assumes "\<And>t c. rc_status (f t c) \<noteq> ClaimStatus.Pending"
  shows "keeps one_pending (claim_resolve i f)"
proof
  fix w assume w: "one_pending w"
  let ?f = "\<lambda>c. if rc_id c = i then (f (w_now w) c)\<lparr>rc_updated_at := w_now w\<rparr> else c"
  have changed: "one_pending (w_claims_update (map ?f) w)"
    by (rule one_pending_map [OF w, of _ ?f]) (auto simp: waits_for_def assms split: if_splits)
  have "snd (claim_resolve i f w) \<in> {w, w_claims_update (map ?f) w}"
    by (simp add: claim_resolve_def update_returning_def modify_row_def [abs_def] split: option.split)
  with w changed show "one_pending (snd (claim_resolve i f w))" by auto
qed

lemma execute_pending [keeps_intros]: "keeps one_pending (execute_match i f)"
  by (simp add: keeps_def one_pending_def)

lemma confirm_pending [keeps_intros]:
  "keeps one_pending (claim_confirm_and_apply_to_match i r u a k winner loser s1 s2)"
  unfolding claim_confirm_and_apply_to_match_def by (intro keeps_intros) (simp add: claim_confirmed_def)

lemma create_pending [keeps_intros]: "keeps one_pending (claim_create_and_supersede_pending c)"
  unfolding claim_create_and_supersede_pending_def
proof (rule transaction_pending, rule keepsI)
  fix w assume w: "one_pending w"
  let ?f = "\<lambda>x. if rc_match_id x = crc_match_id c \<and> rc_status x = ClaimStatus.Pending
    then x\<lparr>rc_status := ClaimStatus.Superseded, rc_updated_at := w_now w\<rparr> else x"
  let ?v = "w_claims_update (map ?f) w"
  have mapped: "one_pending ?v" by (rule one_pending_map [OF w, of _ ?f]) (auto simp: waits_for_def split: if_splits)
  have none: "filter (waits_for (crc_match_id c)) (map ?f cs) = []" for cs
    by (induction cs) (auto simp: waits_for_def)
  have "snd (sbind (supersede_claims (\<lambda>x. rc_match_id x = crc_match_id c)) (\<lambda>_. claim_create c) w) = snd (claim_create c ?v)"
    by (simp add: supersede_claims_def)
  moreover have "one_pending (snd (claim_create c ?v))"
    using mapped none [of "w_claims w"]
    by (auto simp: claim_create_def new_uuid_def sbind_def insert_returning_def one_pending_def waits_for_def claim_row_def
        split: option.splits)
  ultimately show "one_pending (snd (sbind (supersede_claims (\<lambda>x. rc_match_id x = crc_match_id c)) (\<lambda>_. claim_create c) w))"
    by simp
qed


lemma update_status_pending [keeps_intros]: "keeps one_pending (match_update_status i s)"
  by (simp add: keeps_def match_update_status_def match_set_run one_pending_def split: option.split)

lemma log_transition_pending [keeps_intros]: "keeps one_pending (log_transition i a b t r)"
  by (simp add: keeps_def log_transition_def log_create_def new_uuid_def insert_returning_def sbind_def one_pending_def
      split: prod.split)

lemma get_match_pending [keeps_intros]: "keeps one_pending (get_match i)"
  unfolding get_match_def match_find_by_id_def by (intro keeps_intros)

lemma transition_pending [keeps_intros]: "keeps one_pending (transition i s t r)"
  unfolding transition_def by (intro keeps_intros)

lemma speaks_pending [keeps_intros]: "keeps one_pending (speaks_for_registration a r actor)"
  unfolding speaks_for_registration_def member_is_member_def adhoc_is_member_def by (intro keeps_intros)

lemma first_spoken_pending: "keeps one_pending (first_spoken_for a actor rs)"
proof (induction rs)
  case (Cons r rs)
  then show ?case unfolding first_spoken_for.simps registration_find_by_id_def by (intro keeps_intros)
qed (unfold first_spoken_for.simps, rule keeps_sfail)

lemma actor_pending [keeps_intros]: "keeps one_pending (find_actor_registration a m actor)"
  unfolding find_actor_registration_def by (rule first_spoken_pending)

definition quiet_provider :: "ResultService \<Rightarrow> bool" where
  "quiet_provider sv \<longleftrightarrow> (\<forall>f t s. rs_map_pool_provider sv = Some f \<longrightarrow> keeps one_pending (f t s))"

lemma validate_pending [keeps_intros]:
  assumes "quiet_provider sv"
  shows "keeps one_pending (validate_claim sv m winner s1 s2 games)"
proof -
  have fetch: "keeps one_pending (sbind (sneed e (rs_map_pool_provider sv)) (\<lambda>f. sbind (f t s) g))"
    if "\<And>x. keeps one_pending (g x)" for e t s and g :: "string list \<Rightarrow> unit service"
  proof (cases "rs_map_pool_provider sv")
    case (Some f)
    with assms that show ?thesis by (simp add: quiet_provider_def keeps_sbind)
  qed (simp add: keeps_sfail)
  have maps: "keeps one_pending (validate_map_ids sv m games)"
    unfolding validate_map_ids_def veto_find_by_match_def Let_def
    by (intro keeps_if keeps_sret keeps_sbind [OF keeps_sget] keeps_slift fetch keeps_sfail)
  show ?thesis unfolding validate_claim_def by (intro keeps_intros maps)
qed

lemma submit_pending:
  assumes "quiet_provider sv"
  shows "keeps one_pending (submit_claim sv i winner s1 s2 games es ds notes actor)"
  unfolding submit_claim_def check_demo_links_def demo_link_find_by_ids_def now_def
  by (intro keeps_intros assms)

lemma server_pending:
  assumes "quiet_provider sv"
  shows "keeps one_pending (submit_server_claim sv i winner s1 s2 games deadline)"
  unfolding submit_server_claim_def server_claim_def claim_find_current_by_match_def
  by (intro keeps_intros assms)

lemma confirm_claim_pending: "keeps one_pending (confirm_claim sv i actor)"
  unfolding confirm_claim_def get_claim_def claim_find_by_id_def by (intro keeps_intros)

lemma cancel_claim_pending: "keeps one_pending (cancel_claim i u)"
  unfolding cancel_claim_def get_claim_def claim_find_by_id_def claim_update_status_def
  by (intro keeps_intros) simp

lemma auto_confirm_pending [keeps_intros]: "keeps one_pending (auto_confirm_claim c)"
  unfolding auto_confirm_claim_def Let_def by (intro keeps_intros)

lemma auto_each_pending: "keeps one_pending (auto_confirm_each cs)"
proof (induction cs)
  case (Cons c cs)
  then show ?case unfolding auto_confirm_each.simps by (intro keeps_intros)
qed (unfold auto_confirm_each.simps, rule keeps_sret)

lemma dispute_claim_pending [keeps_intros]: "keeps one_pending (dispute_claim k)"
proof (cases k)
  case (Some i)
  show ?thesis
  proof
    fix w assume w: "one_pending w"
    show "one_pending (snd (dispute_claim k w))"
      by (rule one_pending_map [OF w, of _ "\<lambda>c. if rc_id c = i then if rc_status c = ClaimStatus.Pending
            then c\<lparr>rc_status := ClaimStatus.Disputed, rc_updated_at := w_now w\<rparr> else c else c"])
        (auto simp: dispute_claim_def Some modify_row_def waits_for_def split: if_splits)
  qed
qed (simp add: dispute_claim_def keeps_intros)

lemma message_pending [keeps_intros]: "keeps one_pending (message_create c)"
proof
  fix w assume w: "one_pending w"
  obtain x where "message_create c w = (Inr x, w\<lparr>w_next := Suc (w_next w),
     w_dispute_messages := w_dispute_messages w @ [x]\<rparr>)" using message_create_run by blast
  with w show "one_pending (snd (message_create c w))" by (simp add: one_pending_def)
qed

lemma raise_pending: "keeps one_pending (raise_dispute i claim reason text es r u)"
proof -
  have [keeps_intros]: "keeps one_pending (dispute_create c)" for c
    by (simp add: keeps_def dispute_create_def new_uuid_def insert_returning_def sbind_def one_pending_def)
  show ?thesis
    unfolding raise_dispute_def dispute_exists_pending_for_match_def claim_find_by_id_def dispute_raise_atomic_def Let_def
    by (intro keeps_intros) (auto simp: split_def intro!: keeps_intros)
qed

text \<open>One operation on the claims of a tournament, by whoever performs it.\<close>

inductive claim_step :: "ResultService \<Rightarrow> world \<Rightarrow> world \<Rightarrow> bool" for sv where
  Submit: "claim_step sv w (snd (submit_claim sv i winner s1 s2 games es ds notes actor w))"
| Server: "claim_step sv w (snd (submit_server_claim sv i winner s1 s2 games deadline w))"
| Confirm: "claim_step sv w (snd (confirm_claim sv i actor w))"
| Cancel: "claim_step sv w (snd (cancel_claim i u w))"
| Auto: "claim_step sv w (snd (process_auto_confirmations w))"
| Raise: "claim_step sv w (snd (raise_dispute i claim reason text es r u w))"

inductive claim_run :: "ResultService \<Rightarrow> world \<Rightarrow> world \<Rightarrow> bool" for sv where
  Start: "claim_run sv w w"
| Step: "claim_run sv w v \<Longrightarrow> claim_step sv v u \<Longrightarrow> claim_run sv w u"

lemma claim_step_keeps:
  assumes "claim_step sv w v" and "quiet_provider sv" and "one_pending w"
  shows "one_pending v"
proof -
  have auto: "keeps one_pending process_auto_confirmations"
    unfolding process_auto_confirmations_def claim_find_ready_for_auto_confirm_def
    by (intro keeps_intros auto_each_pending)
  note kept = submit_pending [OF assms(2)] server_pending [OF assms(2)] confirm_claim_pending cancel_claim_pending
    auto raise_pending
  from assms(1,3) show ?thesis by cases (use kept in \<open>auto simp: keeps_def\<close>)
qed

text \<open>
  C12. However claims are submitted by teams or by the game server, confirmed, cancelled, confirmed by their
  deadline or disputed, and in whatever order, no match ever has two pending claims, as long as the
  provider of the legal maps leaves the claims alone.
\<close>

theorem at_most_one_pending_claim:
  assumes "claim_run sv w v" and "quiet_provider sv" and "one_pending w"
  shows "one_pending v"
  using assms by (induction rule: claim_run.induct) (blast intro: claim_step_keeps)+


section \<open>What a resolution leaves\<close>

definition wiped :: "TournamentMatchStatus \<Rightarrow> datetime \<Rightarrow> TournamentMatch \<Rightarrow> TournamentMatch" where
  "wiped status t m = m\<lparr>m_status := status, m_winner_registration_id := None, m_loser_registration_id := None,
     m_participant1_score := 0, m_participant2_score := 0, m_completed_at := None, m_updated_at := t\<rparr>"

definition decided :: "uuid \<Rightarrow> uuid \<Rightarrow> int \<Rightarrow> int \<Rightarrow> datetime \<Rightarrow> TournamentMatch \<Rightarrow> TournamentMatch" where
  "decided winner loser s1 s2 t m = m\<lparr>m_participant1_score := s1, m_participant2_score := s2,
     m_winner_registration_id := Some winner, m_loser_registration_id := Some loser, m_completed_at := Some t,
     m_status := TournamentMatchStatus.Completed, m_updated_at := t\<rparr>"

text \<open>The dispute is resolved this way, and its match is left like this.\<close>

definition settles :: "'a service \<Rightarrow> uuid \<Rightarrow> ResolutionType \<Rightarrow> uuid \<Rightarrow> TournamentMatch \<Rightarrow> world \<Rightarrow> bool" where
  "settles op i kind k m' w \<longleftrightarrow> (\<exists>r w' d'. op w = (Inr r, w') \<and> find_row m_id k (w_matches w') = Some m' \<and>
     find_row ds_id i (w_disputes w') = Some d' \<and> ds_status d' = DisputeStatus.Resolved \<and>
     map_option drs_resolution_type (ds_resolution d') = Some kind)"

lemma dispute_resolve_run:
  assumes "find_row ds_id i (w_disputes w) = Some d"
  shows "dispute_resolve i u res w = (Inr (dispute_resolved u res (w_now w) d),
    w_disputes_update (modify_row ds_id i (dispute_resolved u res (w_now w))) w)"
  using assms by (simp add: dispute_resolve_def update_returning_def)

lemma resolved_row:
  assumes "find_row ds_id i (w_disputes w) = Some d"
  shows "find_row ds_id i (modify_row ds_id i (dispute_resolved u res t) (w_disputes w)) = Some (dispute_resolved u res t d)"
  using assms find_row_key [OF assms] by (simp add: find_modify_row dispute_resolved_def)

lemma matched_row:
  assumes "find_row m_id k (w_matches w) = Some m" and "\<And>x. m_id (f x) = m_id x"
  shows "find_row m_id k (modify_row m_id k f (w_matches w)) = Some (f m)"
  using assms find_row_key [OF assms(1)] by (simp add: find_modify_row)

lemma status_change_settles:
  assumes "find_row ds_id i (w_disputes w) = Some d" and "find_row m_id k (w_matches w) = Some m"
    and "drs_resolution_type res = kind"
  shows "settles (sbind (dispute_resolve_with_status_change i u res k s clear msg) (resolution_result c)) i
    kind k (if clear then wiped s (w_now w) m else m\<lparr>m_status := s, m_updated_at := w_now w\<rparr>) w"
proof -
  let ?v = "w_matches_update (modify_row m_id k (\<lambda>m. if clear then wiped s (w_now w) m
      else m\<lparr>m_status := s, m_updated_at := w_now w\<rparr>))
    (w_disputes_update (modify_row ds_id i (dispute_resolved u res (w_now w))) w)"
  have f: "(\<lambda>m. (if clear then m\<lparr>m_status := s, m_winner_registration_id := None, m_loser_registration_id := None,
         m_participant1_score := 0, m_participant2_score := 0, m_completed_at := None\<rparr>
       else m\<lparr>m_status := s\<rparr>)\<lparr>m_updated_at := w_now w\<rparr>) =
      (\<lambda>m. if clear then wiped s (w_now w) m else m\<lparr>m_status := s, m_updated_at := w_now w\<rparr>)"
    by (rule ext) (simp add: wiped_def)
  obtain x where msg: "message_create (msg\<lparr>cdm_dispute_id := i\<rparr>) ?v = (Inr x, ?v\<lparr>w_next := Suc (w_next ?v),
     w_dispute_messages := w_dispute_messages ?v @ [x]\<rparr>)" using message_create_run by blast
  have "dispute_resolve_with_status_change i u res k s clear msg w = (Inr (dispute_resolved u res (w_now w) d),
      ?v\<lparr>w_next := Suc (w_next ?v), w_dispute_messages := w_dispute_messages ?v @ [x]\<rparr>)"
    unfolding dispute_resolve_with_status_change_def
    by (rule transaction_ok) (use msg in \<open>simp add: dispute_resolve_run [OF assms(1)] f\<close>)
  then show ?thesis
    unfolding settles_def
    by (simp add: resolution_result_def resolved_row [OF assms(1)] matched_row [OF assms(2)] wiped_def dispute_resolved_def assms(3))
qed

lemmas wipe_settles = status_change_settles [where clear = True, simplified]

lemma overturn_settles:
  assumes "find_row ds_id i (w_disputes w) = Some d" and "find_row m_id k (w_matches w) = Some m"
    and "drs_resolution_type res = kind"
  shows "settles (sbind (dispute_resolve_with_overturn i u res k winner loser s1 s2 msg) (resolution_result c)) i
    kind k (decided winner loser s1 s2 (w_now w) m) w"
proof -
  let ?v = "w_matches_update (modify_row m_id k (decided winner loser s1 s2 (w_now w)))
    (w_disputes_update (modify_row ds_id i (dispute_resolved u res (w_now w))) w)"
  obtain x where msg: "message_create (msg\<lparr>cdm_dispute_id := i\<rparr>) ?v = (Inr x, ?v\<lparr>w_next := Suc (w_next ?v),
     w_dispute_messages := w_dispute_messages ?v @ [x]\<rparr>)" using message_create_run by blast
  have "dispute_resolve_with_overturn i u res k winner loser s1 s2 msg w = (Inr (dispute_resolved u res (w_now w) d),
      ?v\<lparr>w_next := Suc (w_next ?v), w_dispute_messages := w_dispute_messages ?v @ [x]\<rparr>)"
    unfolding dispute_resolve_with_overturn_def
    by (rule transaction_ok) (use msg assms(2) in \<open>simp add: dispute_resolve_run [OF assms(1)] match_submit_result_def
        match_set_run decided_def [symmetric] decided_def [abs_def, symmetric]\<close>)
  then show ?thesis
    unfolding settles_def
    by (simp add: resolution_result_def resolved_row [OF assms(1)] matched_row [OF assms(2)] decided_def dispute_resolved_def assms(3))
qed


lemma resolvable_run:
  "find_row ds_id i (w_disputes w) = Some d \<Longrightarrow> Dispute_can_resolve d \<Longrightarrow> resolvable i w = (Inr d, w)"
  by (simp add: resolvable_def get_dispute_def dispute_find_by_id_def validate_can_resolve_def)

lemma settles_after:
  assumes "m w = (Inr a, w)" and "settles (f a) i kind k m' w"
  shows "settles (sbind m f) i kind k m' w"
  using assms(2) by (simp add: settles_def sbind_ok [of m w a w, OF assms(1)])

text \<open>
  C13. Each resolution of an open dispute marks it resolved in its way and leaves the match so: upheld, it
  has the result the dispute recorded as the original one; overturned, the new winner against the other side;
  adjusted, the higher score wins; a rematch wipes the result and makes the match ready, a double
  disqualification wipes it and cancels the match.
\<close>

theorem resolutions_settle_a_dispute:
  assumes "find_row ds_id i (w_disputes w) = Some d" and "Dispute_can_resolve d"
    and "find_row m_id (ds_match_id d) (w_matches w) = Some m"
    and "m_participant1_registration_id m = Some p1" and "m_participant2_registration_id m = Some p2"
  shows "settles (resolve_rematch i notes u) i ResolutionType.Rematch (ds_match_id d)
      (wiped TournamentMatchStatus.Ready (w_now w) m) w \<and>
    settles (resolve_double_dq i notes u) i ResolutionType.DoubleDq (ds_match_id d)
      (wiped TournamentMatchStatus.Cancelled (w_now w) m) w \<and>
    settles (resolve_overturn i winner s1 s2 notes u) i ResolutionType.Overturned (ds_match_id d)
      (decided winner (if p1 = winner then p2 else p1) s1 s2 (w_now w) m) w \<and>
    (s1 \<noteq> s2 \<longrightarrow> settles (resolve_adjusted i s1 s2 notes u) i ResolutionType.Adjusted (ds_match_id d)
      (decided (if s1 > s2 then p1 else p2) (if s1 > s2 then p2 else p1) s1 s2 (w_now w) m) w) \<and>
    (ds_original_winner_registration_id d = Some winner \<longrightarrow>
      settles (resolve_uphold i notes u) i ResolutionType.Upheld (ds_match_id d)
        (decided winner (if p1 = winner then p2 else p1) (or_old (ds_original_participant1_score d) 0)
          (or_old (ds_original_participant2_score d) 0) (w_now w) m) w)"
proof -
  note start = settles_after [where m = "resolvable i" and w = w, OF resolvable_run [OF assms(1,2)]]
  note found = settles_after [where m = "get_match (ds_match_id d)" and w = w, OF get_match_found [OF assms(3)]]
  note loses = settles_after [where m = "loser_against m winner" and w = w]
  note change = wipe_settles [OF assms(1,3)] overturn_settles [OF assms(1,3)]
  have loser: "loser_against m x w = (Inr (if p1 = x then p2 else p1), w)" for x
    using assms(4,5) by (simp add: loser_against_def)
  have higher: "slift (derive_result_outcome m s1 s2) w = (Inr (if s1 > s2 then (p1, p2) else (p2, p1)), w)" if "s1 \<noteq> s2"
    using assms(4,5) that by (simp add: derive_result_outcome_def)
  have "settles (resolve_rematch i notes u) i ResolutionType.Rematch (ds_match_id d)
      (wiped TournamentMatchStatus.Ready (w_now w) m) w"
    unfolding resolve_rematch_def by (rule start, rule change(1)) (simp add: resolution_of_def)
  moreover have "settles (resolve_double_dq i notes u) i ResolutionType.DoubleDq (ds_match_id d)
      (wiped TournamentMatchStatus.Cancelled (w_now w) m) w"
    unfolding resolve_double_dq_def by (rule start, rule change(1)) (simp add: resolution_of_def)
  moreover have "settles (resolve_overturn i winner s1 s2 notes u) i ResolutionType.Overturned (ds_match_id d)
      (decided winner (if p1 = winner then p2 else p1) s1 s2 (w_now w) m) w"
    unfolding resolve_overturn_def
    by (rule start, rule found, rule loses [OF loser], rule change(2)) (simp add: resolution_of_def)
  moreover have "settles (resolve_adjusted i s1 s2 notes u) i ResolutionType.Adjusted (ds_match_id d)
      (decided (if s1 > s2 then p1 else p2) (if s1 > s2 then p2 else p1) s1 s2 (w_now w) m) w" if "s1 \<noteq> s2"
    unfolding resolve_adjusted_def
    by (rule start, rule found, rule settles_after [where m = "slift (derive_result_outcome m s1 s2)" and w = w, OF higher [OF that]],
        cases "s1 > s2"; simp only: prod.case if_True if_False; rule change(2)) (simp_all add: resolution_of_def)
  moreover have "settles (resolve_uphold i notes u) i ResolutionType.Upheld (ds_match_id d)
        (decided winner (if p1 = winner then p2 else p1) (or_old (ds_original_participant1_score d) 0)
          (or_old (ds_original_participant2_score d) 0) (w_now w) m) w"
    if "ds_original_winner_registration_id d = Some winner"
    unfolding resolve_uphold_def Let_def
    by (rule start, rule found, unfold that option.case sbind_assoc, rule loses [OF loser], rule change(2)) (simp add: resolution_of_def)
  ultimately show ?thesis by blast
qed

text \<open>
  A dispute that is resolved or cancelled stays so: every resolution, the cancellation and a
  new message are refused, and nothing changes.
\<close>

theorem settled_disputes_are_final:
  assumes "find_row ds_id i (w_disputes w) = Some d" and "Dispute_is_terminal d"
    and "op \<in> {resolve_uphold i notes u, resolve_rematch i notes u, resolve_double_dq i notes u,
      resolve_overturn i winner s1 s2 notes u, resolve_adjusted i s1 s2 notes u}"
  shows "(\<exists>e. op w = (Inl e, w)) \<and> (\<exists>e. cancel_dispute i u w = (Inl e, w)) \<and>
    (\<exists>e. add_message i text es u kind internal w = (Inl e, w))"
proof -
  have closed: "\<exists>e. resolvable i w = (Inl e, w)"
    using assms(1,2) by (auto simp: resolvable_def get_dispute_def dispute_find_by_id_def validate_can_resolve_def
        Dispute_is_terminal_def Dispute_can_resolve_def)
  then have "\<exists>e. sbind (resolvable i) f w = (Inl e, w)" for f :: "Dispute \<Rightarrow> DisputeResolutionResult service"
    by (auto simp: sbind_def)
  with assms(3) have "\<exists>e. op w = (Inl e, w)"
    by (elim insertE emptyE; simp only: resolve_uphold_def resolve_rematch_def resolve_double_dq_def
        resolve_overturn_def resolve_adjusted_def)
  moreover have "\<exists>e. cancel_dispute i u w = (Inl e, w)" "\<exists>e. add_message i text es u kind internal w = (Inl e, w)"
    using assms(1,2) by (auto simp: cancel_dispute_def add_message_def get_dispute_def dispute_find_by_id_def)
  ultimately show ?thesis by blast
qed


section \<open>Cancelling a dispute\<close>

definition disputed_now :: "string \<Rightarrow> datetime \<Rightarrow> TournamentMatch \<Rightarrow> TournamentMatch" where
  "disputed_now why t m = m\<lparr>m_status := TournamentMatchStatus.Disputed, m_disputed := True,
     m_dispute_reason := Some why, m_updated_at := t\<rparr>"

lemma raise_atomic_run:
  assumes "w_uuids w (w_next w) = i"
  shows "\<exists>v. dispute_raise_atomic c msg w = (Inr (dispute_row i (w_now w) c), v) \<and>
    w_disputes v = w_disputes w @ [dispute_row i (w_now w) c] \<and>
    w_matches v = modify_row m_id (cds_match_id c) (disputed_now (cds_description c) (w_now w)) (w_matches w) \<and>
    w_claims v = w_claims (snd (dispute_claim (cds_result_claim_id c) w))"
proof -
  let ?d = "dispute_row i (w_now w) c"
  let ?w1 = "w_matches_update (modify_row m_id (cds_match_id c) (disputed_now (cds_description c) (w_now w)))
    (w\<lparr>w_next := Suc (w_next w), w_disputes := w_disputes w @ [?d]\<rparr>)"
  obtain w2 where claim: "dispute_claim (cds_result_claim_id c) ?w1 = (Inr (), w2)"
    and w2: "w_disputes w2 = w_disputes ?w1" "w_matches w2 = w_matches ?w1"
      "w_claims w2 = w_claims (snd (dispute_claim (cds_result_claim_id c) w))"
    by (cases "cds_result_claim_id c") (simp_all add: dispute_claim_def)
  obtain x where msg: "message_create (msg\<lparr>cdm_dispute_id := i\<rparr>) w2 = (Inr x, w2\<lparr>w_next := Suc (w_next w2),
     w_dispute_messages := w_dispute_messages w2 @ [x]\<rparr>)" using message_create_run by blast
  have create: "dispute_create c w = (Inr ?d, w\<lparr>w_next := Suc (w_next w), w_disputes := w_disputes w @ [?d]\<rparr>)"
    using assms by (simp add: dispute_create_def new_uuid_def insert_returning_def sbind_def)
  have "dispute_raise_atomic c msg w = (Inr ?d, w2\<lparr>w_next := Suc (w_next w2),
     w_dispute_messages := w_dispute_messages w2 @ [x]\<rparr>)"
    unfolding dispute_raise_atomic_def
    by (rule transaction_ok) (use claim msg in \<open>simp add: create disputed_now_def [symmetric] disputed_now_def [abs_def, symmetric]
        dispute_row_def\<close>)
  with w2 show ?thesis by simp
qed

lemma cancel_restore_run:
  assumes "find_row ds_id i (w_disputes w) = Some d"
  shows "\<exists>d' v. dispute_cancel_with_match_restore i k msg w = (Inr d', v) \<and> w_claims v = w_claims w \<and>
    w_matches v = modify_row m_id k (\<lambda>m. m\<lparr>m_status := TournamentMatchStatus.Completed, m_updated_at := w_now w\<rparr>)
      (w_matches w)"
proof -
  let ?f = "\<lambda>d. d\<lparr>ds_status := DisputeStatus.Cancelled, ds_updated_at := w_now w\<rparr>"
  let ?w1 = "w_matches_update (modify_row m_id k (\<lambda>m. m\<lparr>m_status := TournamentMatchStatus.Completed, m_updated_at := w_now w\<rparr>))
    (w_disputes_update (modify_row ds_id i ?f) w)"
  obtain x where msg: "message_create (msg\<lparr>cdm_dispute_id := i\<rparr>) ?w1 = (Inr x, ?w1\<lparr>w_next := Suc (w_next ?w1),
     w_dispute_messages := w_dispute_messages ?w1 @ [x]\<rparr>)" using message_create_run by blast
  have "dispute_cancel_with_match_restore i k msg w = (Inr (?f d), ?w1\<lparr>w_next := Suc (w_next ?w1),
     w_dispute_messages := w_dispute_messages ?w1 @ [x]\<rparr>)"
    unfolding dispute_cancel_with_match_restore_def
    by (rule transaction_ok) (use msg assms in \<open>simp add: dispute_cancel_def update_returning_def\<close>)
  then show ?thesis by simp
qed

text \<open>
  C31. Disputing a claim while the match is being played, and then cancelling the dispute, leaves the match
  completed without a winner; the claim, disputed, can no longer be confirmed.
\<close>

theorem cancelled_claim_dispute_completes_without_winner:
  assumes "find_row m_id k (w_matches w) = Some m" and "TournamentMatchStatus_can_submit_result (m_status m)"
    and "m_participant1_registration_id m = Some r" and "m_winner_registration_id m = None"
    and "\<not> (\<exists>d \<in> set (w_disputes w). ds_match_id d = k \<and> dispute_open d)"
    and "find_row rc_id j (w_claims w) = Some c" and "rc_status c = ClaimStatus.Pending"
    and "rc_submitted_by_registration_id c \<noteq> Some r" and "w_uuids w (w_next w) \<notin> ds_id ` set (w_disputes w)"
  shows "\<exists>d v d' v' m' c'. raise_dispute k (Some j) reason text es r u w = (Inr d, v) \<and>
    cancel_dispute (ds_id d) admin v = (Inr d', v') \<and> find_row m_id k (w_matches v') = Some m' \<and>
    m_status m' = TournamentMatchStatus.Completed \<and> m_winner_registration_id m' = None \<and>
    find_row rc_id j (w_claims v') = Some c' \<and> rc_status c' = ClaimStatus.Disputed"
proof -
  let ?i = "w_uuids w (w_next w)"
  let ?c = "\<lparr>cds_match_id = k, cds_result_claim_id = Some j, cds_disputed_by_registration_id = r,
    cds_disputed_by_user_id = u, cds_reason = reason, cds_description = text, cds_evidence_ids = es,
    cds_original_winner_registration_id = Some (rc_claimed_winner_registration_id c),
    cds_original_participant1_score = Some (rc_claimed_participant1_score c),
    cds_original_participant2_score = Some (rc_claimed_participant2_score c), cds_priority = dispute_priority reason\<rparr>"
  let ?d = "dispute_row ?i (w_now w) ?c"
  have none: "\<not> list_ex (\<lambda>d. ds_match_id d = k \<and> dispute_open d) (w_disputes w)"
    using assms(5) by (simp add: list_ex_iff)
  have raise: "raise_dispute k (Some j) reason text es r u w = dispute_raise_atomic ?c (thread_message nil_uuid u AuthorType.System
      (''Dispute raised: '' @ DisputeReason_to_string reason @ '' - '' @ take_chars 100 text) False) w"
    using assms(1-3,6,8) none
    by (simp add: raise_dispute_def validate_can_dispute_def dispute_exists_pending_for_match_def
        claim_find_by_id_def Let_def)
  from raise_atomic_run [OF refl, of ?c _ w] obtain v where
    run: "raise_dispute k (Some j) reason text es r u w = (Inr ?d, v)"
    and v: "w_disputes v = w_disputes w @ [?d]" "w_matches v = modify_row m_id k (disputed_now text (w_now w)) (w_matches w)"
      "w_claims v = w_claims (snd (dispute_claim (Some j) w))"
    unfolding raise by auto
  have id: "ds_id ?d = ?i" "ds_match_id ?d = k" "ds_status ?d = DisputeStatus.Pending" by (simp_all add: dispute_row_def)
  have "find_row ds_id ?i (w_disputes w) = None" using assms(9) by (simp add: find_row_None_iff)
  then have found: "find_row ds_id ?i (w_disputes v) = Some ?d"
    by (simp only: v find_row_append option.case) (simp add: find_row_def id)
  have cancel: "cancel_dispute ?i admin v =
      dispute_cancel_with_match_restore ?i k (thread_message ?i admin AuthorType.System ''Dispute cancelled'' False) v"
    using found id by (simp add: cancel_dispute_def get_dispute_def dispute_find_by_id_def Dispute_is_terminal_def)
  from cancel_restore_run [OF found] obtain d' v' where
    run': "cancel_dispute ?i admin v = (Inr d', v')" and v': "w_claims v' = w_claims v"
      "w_matches v' = modify_row m_id k (\<lambda>m. m\<lparr>m_status := TournamentMatchStatus.Completed, m_updated_at := w_now v\<rparr>) (w_matches v)"
    unfolding cancel by blast
  have 1: "find_row m_id k (w_matches v) = Some (disputed_now text (w_now w) m)"
    unfolding v(2) by (rule matched_row [OF assms(1)]) (simp add: disputed_now_def)
  have "find_row m_id k (w_matches v') = Some ((disputed_now text (w_now w) m)\<lparr>m_status := TournamentMatchStatus.Completed,
      m_updated_at := w_now v\<rparr>)"
    unfolding v'(2) by (rule matched_row [OF 1]) simp
  moreover have "find_row rc_id j (w_claims v') =
      Some (c\<lparr>rc_status := ClaimStatus.Disputed, rc_updated_at := w_now w\<rparr>)"
    using assms(6,7) find_row_key [OF assms(6)]
    by (simp add: v'(1) v(3) dispute_claim_def find_modify_row)
  ultimately show ?thesis
    using run run' assms(4) by (simp add: id disputed_now_def)
qed

section \<open>The queue\<close>

text \<open>
  C40. In any order of texts that puts the priorities in alphabetical order, the queue of pending disputes
  shows every dispute of high priority after all the others, those of low priority included.
\<close>

theorem high_priority_disputes_come_last:
  assumes "\<And>a b. w_text_le w a b \<or> w_text_le w b a" and "\<And>a b c. w_text_le w a b \<Longrightarrow> w_text_le w b c \<Longrightarrow> w_text_le w a c"
    and "\<not> w_text_le w ''low'' ''high''" and "\<not> w_text_le w ''normal'' ''high''" and "\<not> w_text_le w ''urgent'' ''high''"
    and "get_pending_disputes t priority limit offset w = (Inr (rows, found), w')"
  shows "sorted_wrt (\<lambda>x y. ds_priority x = DisputePriority.High \<longrightarrow> ds_priority y = DisputePriority.High) rows"
proof -
  let ?le = "lex_by (priority_desc w) (\<lambda>x y. ds_created_at x \<le> ds_created_at y)"
  let ?ds = "filter (\<lambda>d. dispute_open d \<and> of_tournament t w d \<and> wanted priority (ds_priority d)) (w_disputes w)"
  have "sorted_wrt ?le (sort_by ?le ?ds)"
  proof (rule sorted_sort_by)
    show "?le x y \<or> ?le y x" for x y by (rule lex_by_linear) (use assms(1) in \<open>auto simp: priority_desc_def\<close>)
    show "?le x z" if "?le x y" "?le y z" for x y z
      by (rule lex_by_trans [OF _ _ that]) (use assms(2) in \<open>auto simp: priority_desc_def\<close>)
  qed
  then have "sorted_wrt ?le rows"
    using assms(6) by (auto simp: get_pending_disputes_def dispute_find_pending_def paged_def page_def
        intro: sorted_wrt_take sorted_wrt_drop)
  moreover have "ds_priority y = DisputePriority.High" if "?le x y" "ds_priority x = DisputePriority.High" for x y
    using that assms(3-5) by (cases "ds_priority y") (auto simp: lex_by_def priority_desc_def)
  ultimately show ?thesis by (auto elim: sorted_wrt_mono_rel [rotated])
qed


section \<open>Examples\<close>

definition played_match :: "TournamentMatchStatus \<Rightarrow> MatchFormat \<Rightarrow> TournamentMatch" where
  "played_match status f = (cup_match ''m1'' ''wb'' ''WR1M1'')\<lparr>m_participant1_registration_id := Some ''r1'',
     m_participant2_registration_id := Some ''r2'', m_status := status, m_match_format := f\<rparr>"

definition open_claim :: ResultClaim where
  "open_claim = claim_row ''c1'' 0 \<lparr>crc_match_id = ''m1'', crc_submitted_by_registration_id = Some ''r2'',
     crc_submitted_by_user_id = Some ''u2'', crc_source = ''participant'', crc_claimed_winner_registration_id = ''r2'',
     crc_participant1_score = 0, crc_participant2_score = 1, crc_game_results = [], crc_auto_confirm_at = 0,
     crc_evidence_ids = [], crc_demo_link_ids = [], crc_notes = None\<rparr>"

definition open_dispute :: "uuid \<Rightarrow> DisputePriority \<Rightarrow> Dispute" where
  "open_dispute i priority = dispute_row i 0 \<lparr>cds_match_id = ''m1'', cds_result_claim_id = None,
     cds_disputed_by_registration_id = ''r1'', cds_disputed_by_user_id = ''u1'', cds_reason = DisputeReason.Cheating,
     cds_description = ''aimbot'', cds_evidence_ids = [], cds_original_winner_registration_id = Some ''r2'',
     cds_original_participant1_score = Some 0, cds_original_participant2_score = Some 1, cds_priority = priority\<rparr>"

definition board :: "TournamentMatch \<Rightarrow> ResultClaim list \<Rightarrow> Dispute list \<Rightarrow> world" where
  "board m cs ds = empty_world\<lparr>w_matches := [m], w_claims := cs, w_disputes := ds\<rparr>"

lemma board_tables [simp]:
  "w_matches (board m cs ds) = [m]" "w_claims (board m cs ds) = cs" "w_disputes (board m cs ds) = ds"
  "w_now (board m cs ds) = 0" "w_next (board m cs ds) = 0" "w_uuids (board m cs ds) = show_nat"
  by (simp_all add: board_def empty_world_def)

lemma played_match_fields [simp]:
  "m_id (played_match s f) = ''m1''" "m_status (played_match s f) = s" "m_match_format (played_match s f) = f"
  "m_participant1_registration_id (played_match s f) = Some ''r1''"
  "m_participant2_registration_id (played_match s f) = Some ''r2''"
  "m_winner_registration_id (played_match s f) = None"
  by (simp_all add: played_match_def)

lemma open_rows [simp]:
  "rc_id open_claim = ''c1''" "rc_match_id open_claim = ''m1''" "rc_status open_claim = ClaimStatus.Pending"
  "rc_submitted_by_registration_id open_claim = Some ''r2''"
  "ds_id (open_dispute i p) = i" "ds_match_id (open_dispute i p) = ''m1''" "ds_priority (open_dispute i p) = p"
  "ds_status (open_dispute i p) = DisputeStatus.Pending"
  "ds_original_winner_registration_id (open_dispute i p) = Some ''r2''" "ds_created_at (open_dispute i p) = 0"
  by (simp_all add: open_claim_def claim_row_def open_dispute_def dispute_row_def)

text \<open>A best of five claimed at 2-1 is accepted, a best of three claimed at 3-0 as well.\<close>

theorem accepted_series_witness:
  "check_series (played_match TournamentMatchStatus.InProgress MatchFormat.Bo5) ''r1'' 2 1 = Inr () \<and>
   check_series (played_match TournamentMatchStatus.InProgress MatchFormat.Bo3) ''r1'' 3 0 = Inr ()"
  using accepted_series [of 2 1 "played_match TournamentMatchStatus.InProgress MatchFormat.Bo5" "''r1''"]
    accepted_series [of 3 0 "played_match TournamentMatchStatus.InProgress MatchFormat.Bo3" "''r1''"]
  by (simp add: MatchFormat_wins_required_def)

text \<open>A cancelled match.\<close>

theorem overdue_claim_completes_any_match_witness:
  "\<exists>c' w' m'. auto_confirm_claim open_claim (board (played_match TournamentMatchStatus.Cancelled MatchFormat.Bo1) [open_claim] []) =
     (Inr c', w') \<and> find_row m_id ''m1'' (w_matches w') = Some m' \<and> m_status m' = TournamentMatchStatus.Completed"
  using overdue_claim_completes_any_match [of open_claim
      "board (played_match TournamentMatchStatus.Cancelled MatchFormat.Bo1) [open_claim] []"
      "played_match TournamentMatchStatus.Cancelled MatchFormat.Bo1" "''r1''" "''r2''"]
  by (simp add: find_row_def) blast

theorem at_most_one_pending_claim_witness:
  "one_pending (snd (process_auto_confirmations (board (played_match TournamentMatchStatus.InProgress MatchFormat.Bo1) [open_claim] [])))"
proof -
  let ?w = "board (played_match TournamentMatchStatus.InProgress MatchFormat.Bo1) [open_claim] []"
  have "quiet_provider ResultService_new" by (simp add: quiet_provider_def ResultService_new_def)
  moreover have "one_pending ?w" by (simp add: one_pending_def)
  moreover have "claim_run ResultService_new ?w (snd (process_auto_confirmations ?w))"
    by (rule claim_run.Step [OF claim_run.Start claim_step.Auto])
  ultimately show ?thesis using at_most_one_pending_claim by blast
qed

theorem resolutions_settle_a_dispute_witness:
  "settles (resolve_rematch ''d1'' ''lag'' ''a'') ''d1'' ResolutionType.Rematch ''m1''
     (wiped TournamentMatchStatus.Ready 0 (played_match TournamentMatchStatus.Disputed MatchFormat.Bo1))
     (board (played_match TournamentMatchStatus.Disputed MatchFormat.Bo1) [] [open_dispute ''d1'' DisputePriority.Urgent])"
  using resolutions_settle_a_dispute [of "''d1''"
      "board (played_match TournamentMatchStatus.Disputed MatchFormat.Bo1) [] [open_dispute ''d1'' DisputePriority.Urgent]"
      "open_dispute ''d1'' DisputePriority.Urgent" "played_match TournamentMatchStatus.Disputed MatchFormat.Bo1"
      "''r1''" "''r2''" "''lag''" "''a''"]
  by (simp add: find_row_def Dispute_can_resolve_def)

theorem settled_disputes_are_final_witness:
  "\<exists>e. cancel_dispute ''d1'' ''a'' (board (played_match TournamentMatchStatus.Completed MatchFormat.Bo1) []
     [(open_dispute ''d1'' DisputePriority.Urgent)\<lparr>ds_status := DisputeStatus.Resolved\<rparr>]) = (Inl e,
     board (played_match TournamentMatchStatus.Completed MatchFormat.Bo1) []
     [(open_dispute ''d1'' DisputePriority.Urgent)\<lparr>ds_status := DisputeStatus.Resolved\<rparr>])"
  using settled_disputes_are_final [of "''d1''" "board (played_match TournamentMatchStatus.Completed MatchFormat.Bo1) []
      [(open_dispute ''d1'' DisputePriority.Urgent)\<lparr>ds_status := DisputeStatus.Resolved\<rparr>]"
      "(open_dispute ''d1'' DisputePriority.Urgent)\<lparr>ds_status := DisputeStatus.Resolved\<rparr>"
      "resolve_rematch ''d1'' [] ''a''" "[]" "''a''"]
  by (simp add: find_row_def Dispute_is_terminal_def)

theorem cancelled_claim_dispute_completes_without_winner_witness:
  "\<exists>d v d' v' m'. raise_dispute ''m1'' (Some ''c1'') DisputeReason.Cheating ''aimbot'' [] ''r1'' ''u1''
       (board (played_match TournamentMatchStatus.AwaitingResult MatchFormat.Bo1) [open_claim] []) = (Inr d, v) \<and>
     cancel_dispute (ds_id d) ''a'' v = (Inr d', v') \<and> find_row m_id ''m1'' (w_matches v') = Some m' \<and>
     m_status m' = TournamentMatchStatus.Completed \<and> m_winner_registration_id m' = None"
  using cancelled_claim_dispute_completes_without_winner [of "''m1''"
      "board (played_match TournamentMatchStatus.AwaitingResult MatchFormat.Bo1) [open_claim] []"
      "played_match TournamentMatchStatus.AwaitingResult MatchFormat.Bo1" "''r1''" "''c1''" open_claim
      DisputeReason.Cheating "''aimbot''" "[]" "''u1''" "''a''"]
  by (simp add: find_row_def TournamentMatchStatus_can_submit_result_def) blast

text \<open>The order of texts by their bytes.\<close>

fun bytes_le :: "string \<Rightarrow> string \<Rightarrow> bool" where
  "bytes_le [] bs \<longleftrightarrow> True"
| "bytes_le (a # as) [] \<longleftrightarrow> False"
| "bytes_le (a # as) (b # bs) \<longleftrightarrow> (of_char a :: nat) < of_char b \<or> a = b \<and> bytes_le as bs"

lemma bytes_le_linear: "bytes_le as bs \<or> bytes_le bs as"
proof (induction as bs rule: bytes_le.induct)
  case (3 a as b bs)
  then show ?case by (cases "(of_char a :: nat)" "of_char b :: nat" rule: linorder_cases) (auto simp: of_char_eq_iff)
qed auto

lemma bytes_le_trans: "bytes_le as bs \<Longrightarrow> bytes_le bs cs \<Longrightarrow> bytes_le as cs"
proof (induction as bs arbitrary: cs rule: bytes_le.induct)
  case (3 a as b bs)
  then show ?case by (cases cs) (auto dest: less_trans)
qed auto

theorem high_priority_disputes_come_last_witness:
  "\<exists>rows w'. get_pending_disputes None None 10 0 ((board (played_match TournamentMatchStatus.Disputed MatchFormat.Bo1) []
       [open_dispute ''d1'' DisputePriority.High, open_dispute ''d2'' DisputePriority.Low])\<lparr>w_text_le := bytes_le\<rparr>) =
     (Inr (rows, 2), w') \<and> set rows = {open_dispute ''d1'' DisputePriority.High, open_dispute ''d2'' DisputePriority.Low} \<and>
     sorted_wrt (\<lambda>x y. ds_priority x = DisputePriority.High \<longrightarrow> ds_priority y = DisputePriority.High) rows"
proof -
  let ?w = "(board (played_match TournamentMatchStatus.Disputed MatchFormat.Bo1) []
       [open_dispute ''d1'' DisputePriority.High, open_dispute ''d2'' DisputePriority.Low])\<lparr>w_text_le := bytes_le\<rparr>"
  have both: "filter (\<lambda>d. dispute_open d \<and> of_tournament None ?w d \<and> wanted None (ds_priority d)) (w_disputes ?w) = w_disputes ?w"
    by (simp add: dispute_open_def of_tournament_def wanted_def find_row_def)
  obtain rows where run: "get_pending_disputes None None 10 0 ?w = (Inr (rows, 2), ?w)"
    and rows: "set rows = {open_dispute ''d1'' DisputePriority.High, open_dispute ''d2'' DisputePriority.Low}"
    using both by (simp add: get_pending_disputes_def dispute_find_pending_def paged_def page_def)
  have "sorted_wrt (\<lambda>x y. ds_priority x = DisputePriority.High \<longrightarrow> ds_priority y = DisputePriority.High) rows"
    by (rule high_priority_disputes_come_last [OF _ _ _ _ _ run])
      (simp_all add: bytes_le_linear, blast intro: bytes_le_trans)
  with run rows show ?thesis by blast
qed

end
