(* ===== verification/SagaRepo.thy ===== *)
theory SagaRepo
  imports ResultRepo
begin

text \<open>
  The tables of result reviews (\<open>portal-db/src/adapters/result_review.rs\<close>), of saga executions and of
  the log of progressions (\<open>portal-db/src/adapters/saga.rs\<close>; the partial unique index of migration
  0068). A trigger of the table stamps \<open>updated_at\<close> of a saga at every update.
\<close>

section \<open>Reviews\<close>

definition review_insert :: "ResultReview \<Rightarrow> unit service" where
  "review_insert r = smodify (w_reviews_update (\<lambda>rows. rows @ [r]))"

definition review_find_by_id :: "uuid \<Rightarrow> ResultReview option service" where
  "review_find_by_id i = sget (\<lambda>w. find_row rv_id i (w_reviews w))"

definition review_find_by_claim_id :: "uuid \<Rightarrow> ResultReview option service" where
  "review_find_by_claim_id c = sget (\<lambda>w. find (\<lambda>r. rv_result_claim_id r = c) (w_reviews w))"

definition review_find_by_match_id :: "uuid \<Rightarrow> ResultReview option service" where
  "review_find_by_match_id m = sget (\<lambda>w. list_get (sort_by (\<lambda>x y. rv_created_at y \<le> rv_created_at x)
     (filter (\<lambda>r. rv_match_id r = m) (w_reviews w))) 0)"

definition oldest_review :: "ResultReview \<Rightarrow> ResultReview \<Rightarrow> bool" where
  "oldest_review = lex_by (\<lambda>x y. rv_created_at x \<le> rv_created_at y) (\<lambda>x y. uuid_le (rv_id x) (rv_id y))"

definition review_find_pending_admin_reviews :: "nat \<Rightarrow> nat \<Rightarrow> bool \<Rightarrow> ResultReview list service" where
  "review_find_pending_admin_reviews limit offset oldest_first = sget (\<lambda>w. page limit offset
     (sort_by (if oldest_first then oldest_review else (\<lambda>x y. oldest_review y x))
       (filter (\<lambda>r. rv_status r = ResultReviewStatus.PendingAdminReview) (w_reviews w))))"

definition review_count_pending_admin_reviews :: "nat service" where
  "review_count_pending_admin_reviews =
     sget (\<lambda>w. length (filter (\<lambda>r. rv_status r = ResultReviewStatus.PendingAdminReview) (w_reviews w)))"

text \<open>The updates are \<open>execute\<close> statements: a missing row is no error.\<close>

definition review_execute :: "uuid \<Rightarrow> (datetime \<Rightarrow> ResultReview \<Rightarrow> ResultReview) \<Rightarrow> unit service" where
  "review_execute i f = sbind now (\<lambda>t. smodify (w_reviews_update (modify_row rv_id i (\<lambda>r. (f t r)\<lparr>rv_updated_at := t\<rparr>))))"

definition review_update_captain_acknowledgment :: "uuid \<Rightarrow> int \<Rightarrow> uuid \<Rightarrow> unit service" where
  "review_update_captain_acknowledgment i captain_side user_id =
     (if captain_side = 1 then review_execute i (\<lambda>t r. r\<lparr>rv_captain1_acknowledged := True,
        rv_captain1_acknowledged_at := Some t, rv_captain1_acknowledged_by_user_id := Some user_id\<rparr>)
      else if captain_side = 2 then review_execute i (\<lambda>t r. r\<lparr>rv_captain2_acknowledged := True,
        rv_captain2_acknowledged_at := Some t, rv_captain2_acknowledged_by_user_id := Some user_id\<rparr>)
      else sfail (Internal (''Invalid captain side: '' @ show_int captain_side)))"

definition review_update_status :: "uuid \<Rightarrow> ResultReviewStatus \<Rightarrow> unit service" where
  "review_update_status i status = review_execute i (\<lambda>t r. r\<lparr>rv_status := status\<rparr>)"

definition review_resolve :: "uuid \<Rightarrow> ResultReviewStatus \<Rightarrow> uuid \<Rightarrow> string option \<Rightarrow> unit service" where
  "review_resolve i status user_id notes = review_execute i (\<lambda>t r. r\<lparr>rv_status := status,
     rv_reviewed_by_user_id := Some user_id, rv_reviewed_at := Some t, rv_admin_notes := notes\<rparr>)"

section \<open>Saga executions\<close>

text \<open>\<open>STALE_LIVE_SAGA_MINUTES\<close>; times are in seconds.\<close>

definition STALE_LIVE_SAGA_MINUTES :: int where
  "STALE_LIVE_SAGA_MINUTES = 10"

definition saga_live :: "SagaExecution \<Rightarrow> bool" where
  "saga_live x \<longleftrightarrow> sg_status x \<in> {SagaStatus.Pending, SagaStatus.Running}"

text \<open>\<open>uq_saga_executions_live_per_match\<close>: at most one live saga of a type for a match.\<close>

definition same_job :: "CreateSagaExecution \<Rightarrow> SagaExecution \<Rightarrow> bool" where
  "same_job c x \<longleftrightarrow> csg_match_id c \<noteq> None \<and> sg_match_id x = csg_match_id c \<and> sg_saga_type x = csg_saga_type c"

definition saga_row :: "uuid \<Rightarrow> datetime \<Rightarrow> CreateSagaExecution \<Rightarrow> SagaExecution" where
  "saga_row i t c = \<lparr>sg_id = i, sg_saga_type = csg_saga_type c, sg_saga_version = csg_saga_version c,
     sg_tournament_id = csg_tournament_id c, sg_match_id = csg_match_id c, sg_correlation_id = csg_correlation_id c,
     sg_input_data = csg_input_data c, sg_current_step = 0, sg_status = SagaStatus.Running, sg_step_history = [],
     sg_last_error = None, sg_retry_count = 0, sg_max_retries = csg_max_retries c, sg_started_at = Some t,
     sg_completed_at = None, sg_created_at = t, sg_updated_at = t\<rparr>"

text \<open>The insert; \<open>None\<close> stands for the violation of the index.\<close>

definition insert_running :: "CreateSagaExecution \<Rightarrow> SagaExecution option service" where
  "insert_running c = sbind new_uuid (\<lambda>i. sbind now (\<lambda>t. \<lambda>w.
     if list_ex (\<lambda>x. same_job c x \<and> saga_live x) (w_sagas w) then (Inr None, w)
     else (Inr (Some (saga_row i t c)), w_sagas_update (\<lambda>rows. rows @ [saga_row i t c]) w)))"

definition stale_live :: "datetime \<Rightarrow> CreateSagaExecution \<Rightarrow> SagaExecution \<Rightarrow> bool" where
  "stale_live t c x \<longleftrightarrow> same_job c x \<and> saga_live x \<and> sg_created_at x < t - STALE_LIVE_SAGA_MINUTES * 60"

definition retired :: "datetime \<Rightarrow> SagaExecution \<Rightarrow> SagaExecution" where
  "retired t x = x\<lparr>sg_status := SagaStatus.Failed, sg_retry_count := sg_max_retries x, sg_completed_at := Some t,
     sg_last_error := coalesce (sg_last_error x) (Some ''retired: stale live saga superseded by a new completion''),
     sg_updated_at := t\<rparr>"

definition retire_stale_live_saga :: "CreateSagaExecution \<Rightarrow> bool service" where
  "retire_stale_live_saga c = (if csg_match_id c = None then sret False
     else sbind now (\<lambda>t. \<lambda>w. (Inr (list_ex (stale_live t c) (w_sagas w)),
       w_sagas_update (map (\<lambda>x. if stale_live t c x then retired t x else x)) w)))"

definition saga_conflict :: DomainError where
  "saga_conflict = Conflict ''A completion is already in progress for this match''"

definition saga_create :: "CreateSagaExecution \<Rightarrow> SagaExecution service" where
  "saga_create c = sbind (insert_running c) (\<lambda>first. case first of
     Some x \<Rightarrow> sret x
   | None \<Rightarrow> sbind (retire_stale_live_saga c) (\<lambda>any.
       if any then sbind (insert_running c) (\<lambda>second. sneed saga_conflict second) else sfail saga_conflict))"

definition saga_find_by_id :: "uuid \<Rightarrow> SagaExecution option service" where
  "saga_find_by_id i = sget (\<lambda>w. find_row sg_id i (w_sagas w))"

definition saga_update :: "SagaExecution \<Rightarrow> SagaExecution service" where
  "saga_update x = sbind now (\<lambda>t. update_returning w_sagas w_sagas_update sg_id
     (sql_internal ''Failed to update saga: '' RowNotFound) (sg_id x) (\<lambda>row. row\<lparr>
       sg_current_step := sg_current_step x, sg_status := sg_status x, sg_step_history := sg_step_history x,
       sg_last_error := sg_last_error x, sg_retry_count := sg_retry_count x, sg_started_at := sg_started_at x,
       sg_completed_at := sg_completed_at x, sg_updated_at := t\<rparr>))"

definition saga_update_status :: "uuid \<Rightarrow> SagaStatus \<Rightarrow> SagaExecution service" where
  "saga_update_status i status = sbind now (\<lambda>t. update_returning w_sagas w_sagas_update sg_id
     (sql_internal ''Failed to update saga status: '' RowNotFound) i
     (\<lambda>row. row\<lparr>sg_status := status, sg_updated_at := t\<rparr>))"

definition stuck_since :: "datetime \<Rightarrow> SagaExecution \<Rightarrow> bool" where
  "stuck_since since x \<longleftrightarrow>
     sg_status x = SagaStatus.Running \<and> (case sg_started_at x of None \<Rightarrow> False | Some t \<Rightarrow> t < since) \<or>
     sg_status x = SagaStatus.Pending \<and> sg_created_at x < since"

definition saga_find_stuck :: "datetime \<Rightarrow> SagaExecution list service" where
  "saga_find_stuck since = sget (\<lambda>w. filter (stuck_since since) (w_sagas w))"

definition retryable :: "string \<Rightarrow> datetime \<Rightarrow> SagaExecution \<Rightarrow> bool" where
  "retryable saga_type since x \<longleftrightarrow> sg_saga_type x = saga_type \<and> sg_retry_count x < sg_max_retries x \<and>
     (sg_status x = SagaStatus.Failed \<or> stuck_since since x)"

definition saga_find_retryable :: "string \<Rightarrow> datetime \<Rightarrow> nat \<Rightarrow> SagaExecution list service" where
  "saga_find_retryable saga_type since limit = sget (\<lambda>w. take limit (sort_by (\<lambda>x y. sg_updated_at x \<le> sg_updated_at y)
     (filter (retryable saga_type since) (w_sagas w))))"

definition saga_find_by_status :: "SagaStatus \<Rightarrow> SagaExecution list service" where
  "saga_find_by_status status = sget (\<lambda>w. sort_by (\<lambda>x y. sg_created_at x \<le> sg_created_at y)
     (filter (\<lambda>x. sg_status x = status) (w_sagas w)))"

definition saga_find_pending :: "SagaExecution list service" where
  "saga_find_pending = saga_find_by_status SagaStatus.Pending"

definition saga_find_by_match :: "uuid \<Rightarrow> SagaExecution list service" where
  "saga_find_by_match m = sget (\<lambda>w. sort_by (\<lambda>x y. sg_created_at y \<le> sg_created_at x)
     (filter (\<lambda>x. sg_match_id x = Some m) (w_sagas w)))"

definition saga_find_by_tournament :: "uuid \<Rightarrow> SagaExecution list service" where
  "saga_find_by_tournament t = sget (\<lambda>w. sort_by (\<lambda>x y. sg_created_at y \<le> sg_created_at x)
     (filter (\<lambda>x. sg_tournament_id x = Some t) (w_sagas w)))"

section \<open>The log of progressions\<close>

definition progression_log :: "CreateProgressionLog \<Rightarrow> ProgressionLog service" where
  "progression_log c = sbind new_uuid (\<lambda>i. sbind now (\<lambda>t. \<lambda>w.
     if cpl_target_position c \<notin> {None, Some 1, Some 2}
     then (Inl (sql_internal ''Failed to create progression log: '' (CheckViolation ''progression_log_check_position'') w), w)
     else insert_returning w_progressions_update \<lparr>pl_id = i, pl_source_match_id = cpl_source_match_id c,
       pl_target_match_id = cpl_target_match_id c, pl_registration_id = cpl_registration_id c,
       pl_progression_type = cpl_progression_type c, pl_target_position = cpl_target_position c,
       pl_saga_id = cpl_saga_id c, pl_progressed_at = t\<rparr> w))"

definition progressions_where :: "(ProgressionLog \<Rightarrow> bool) \<Rightarrow> ProgressionLog list service" where
  "progressions_where P = sget (\<lambda>w. sort_by (\<lambda>x y. pl_progressed_at x \<le> pl_progressed_at y) (filter P (w_progressions w)))"

definition progression_find_by_source_match :: "uuid \<Rightarrow> ProgressionLog list service" where
  "progression_find_by_source_match m = progressions_where (\<lambda>x. pl_source_match_id x = m)"

definition progression_find_by_target_match :: "uuid \<Rightarrow> ProgressionLog list service" where
  "progression_find_by_target_match m = progressions_where (\<lambda>x. pl_target_match_id x = Some m)"

definition progression_find_by_saga :: "uuid \<Rightarrow> ProgressionLog list service" where
  "progression_find_by_saga i = progressions_where (\<lambda>x. pl_saga_id x = Some i)"

definition progression_delete_by_source_match :: "uuid \<Rightarrow> unit service" where
  "progression_delete_by_source_match m = smodify (w_progressions_update (filter (\<lambda>x. pl_source_match_id x \<noteq> m)))"

end
