(* ===== verification/ResultReviews.thy ===== *)
theory ResultReviews
  imports SagaRepo Forfeit
begin

text \<open>
  Reviews of results whose evidence disagrees (\<open>services/tournament/result_review.rs\<close> of the domain
  crate, with the adapter \<open>portal-api/src/adapters/review_creator.rs\<close> through which the completion
  saga raises them and the validation results of \<open>entities/demo_validation.rs\<close>).
\<close>

section \<open>Validation results\<close>

definition contains :: "string \<Rightarrow> string \<Rightarrow> bool" where
  "contains s pat \<longleftrightarrow> list_ex (\<lambda>i. take (length pat) (drop i s) = pat) [0..<length s + 1]"

definition DemoValidationResult_default :: DemoValidationResult where
  "DemoValidationResult_default = \<lparr>dvr_is_valid = False, dvr_confidence = 0, dvr_extracted_score = None,
     dvr_claimed_score = (0, 0), dvr_map_match = False, dvr_warnings = [], dvr_errors = []\<rparr>"

definition DemoValidationResult_valid :: "int \<times> int \<Rightarrow> int \<times> int \<Rightarrow> DemoValidationResult" where
  "DemoValidationResult_valid extracted_score claimed_score = \<lparr>dvr_is_valid = True, dvr_confidence = 1,
     dvr_extracted_score = Some extracted_score, dvr_claimed_score = claimed_score, dvr_map_match = True,
     dvr_warnings = [], dvr_errors = []\<rparr>"

definition DemoValidationResult_invalid :: "string \<Rightarrow> int \<times> int \<Rightarrow> DemoValidationResult" where
  "DemoValidationResult_invalid error claimed_score = \<lparr>dvr_is_valid = False, dvr_confidence = 0,
     dvr_extracted_score = None, dvr_claimed_score = claimed_score, dvr_map_match = False,
     dvr_warnings = [], dvr_errors = [error]\<rparr>"

definition has_roster_mismatch :: "DemoValidationResult \<Rightarrow> bool" where
  "has_roster_mismatch v \<longleftrightarrow> list_ex (\<lambda>w. let lower = to_lowercase w in
     contains lower ''player'' \<or> contains lower ''roster'' \<or> contains lower ''unrecognized'') (dvr_warnings v)"

definition has_score_mismatch :: "DemoValidationResult \<Rightarrow> bool" where
  "has_score_mismatch v \<longleftrightarrow> list_ex (\<lambda>e. contains e ''Score mismatch'') (dvr_errors v)"

definition has_winner_mismatch :: "DemoValidationResult \<Rightarrow> bool" where
  "has_winner_mismatch v \<longleftrightarrow> list_ex (\<lambda>e. contains e ''Winner mismatch'') (dvr_errors v)"

definition has_map_mismatch :: "DemoValidationResult \<Rightarrow> bool" where
  "has_map_mismatch v \<longleftrightarrow> list_ex (\<lambda>e. contains e ''Map mismatch'') (dvr_errors v)"

text \<open>The confidence is an exact fraction here and a 32-bit float in the code.\<close>

definition add_warning :: "string \<Rightarrow> rat \<Rightarrow> DemoValidationResult \<Rightarrow> DemoValidationResult" where
  "add_warning warning confidence_penalty v = v\<lparr>dvr_warnings := dvr_warnings v @ [warning],
     dvr_confidence := dvr_confidence v * (1 - confidence_penalty)\<rparr>"

definition add_error :: "string \<Rightarrow> DemoValidationResult \<Rightarrow> DemoValidationResult" where
  "add_error error v = v\<lparr>dvr_errors := dvr_errors v @ [error], dvr_is_valid := False, dvr_confidence := 0\<rparr>"

section \<open>The service\<close>

definition get_review :: "uuid \<Rightarrow> ResultReview service" where
  "get_review i = sbind (review_find_by_id i) (sneed (ResultReviewNotFound i))"

definition create_from_validation :: "uuid \<Rightarrow> uuid \<Rightarrow> uuid option \<Rightarrow> DemoValidationResult \<Rightarrow> bool \<Rightarrow> bool \<Rightarrow>
    UnrecognizedPlayer list \<Rightarrow> uuid \<Rightarrow> uuid \<Rightarrow> ResultReview option service" where
  "create_from_validation claim_id match_id link_id validation score_mismatch winner_mismatch players captain1 captain2 =
     (if players = [] \<and> \<not> score_mismatch \<and> \<not> winner_mismatch then sret None
      else sbind new_uuid (\<lambda>i. sbind now (\<lambda>t.
        let review = (if score_mismatch \<or> winner_mismatch
          then ResultReview_for_score_mismatch i t claim_id match_id link_id validation score_mismatch winner_mismatch
            players captain1 captain2
          else ResultReview_for_roster_mismatch i t claim_id match_id link_id validation players captain1 captain2) in
        sbind (review_insert review) (\<lambda>_. sret (Some review)))))"

definition create_for_progression_stall :: "uuid \<Rightarrow> uuid \<Rightarrow> uuid \<Rightarrow> uuid \<Rightarrow> ResultReview option service" where
  "create_for_progression_stall claim_id match_id captain1 captain2 =
     sbind (review_find_by_match_id match_id) (\<lambda>existing.
     if existing \<noteq> None then sret None
     else sbind new_uuid (\<lambda>i. sbind now (\<lambda>t.
       let review = ResultReview_for_progression_stall i t claim_id match_id captain1 captain2 in
       sbind (review_insert review) (\<lambda>_. sret (Some review)))))"

definition acknowledge :: "uuid \<Rightarrow> uuid \<Rightarrow> uuid \<Rightarrow> ResultReview service" where
  "acknowledge review_id registration_id user_id = sbind (get_review review_id) (\<lambda>review.
     if rv_status review \<noteq> ResultReviewStatus.PendingAcknowledgment
     then sfail (InvalidReviewState (ResultReviewStatus_to_string (rv_status review)) ''review is not pending acknowledgment'')
     else sbind (sneed (NotAuthorized (''Registration '' @ registration_id @ '' is not a captain for this review''))
         (ResultReview_get_captain_side review registration_id)) (\<lambda>side.
     if ResultReview_is_captain_acknowledged review side then sfail (ReviewAlreadyAcknowledged side)
     else sbind (review_update_captain_acknowledgment review_id side user_id) (\<lambda>_.
     let other_acknowledged = (if side = 1 then rv_captain2_acknowledged review
           else if side = 2 then rv_captain1_acknowledged review else False) in
     sbind (if other_acknowledged then review_update_status review_id ResultReviewStatus.Acknowledged else sret ())
       (\<lambda>_. get_review review_id))))"

definition resolve_review :: "ResultReviewStatus \<Rightarrow> uuid \<Rightarrow> uuid \<Rightarrow> string option \<Rightarrow> ResultReview service" where
  "resolve_review status review_id admin_user_id admin_notes = sbind (get_review review_id) (\<lambda>review.
     if ResultReviewStatus_is_terminal (rv_status review)
     then sfail (InvalidReviewState (ResultReviewStatus_to_string (rv_status review)) ''review has already been resolved'')
     else sbind (review_resolve review_id status admin_user_id admin_notes) (\<lambda>_. get_review review_id))"

definition approve :: "uuid \<Rightarrow> uuid \<Rightarrow> string option \<Rightarrow> ResultReview service" where
  "approve = resolve_review ResultReviewStatus.Approved"

definition reject :: "uuid \<Rightarrow> uuid \<Rightarrow> string option \<Rightarrow> ResultReview service" where
  "reject = resolve_review ResultReviewStatus.Rejected"

definition list_pending_reviews :: "nat \<Rightarrow> nat \<Rightarrow> bool \<Rightarrow> (ResultReview list \<times> nat) service" where
  "list_pending_reviews limit offset oldest_first =
     sbind (review_find_pending_admin_reviews limit offset oldest_first) (\<lambda>reviews.
     sbind review_count_pending_admin_reviews (\<lambda>total. sret (reviews, total)))"

section \<open>Raising a review from the saga\<close>

record DemoValidationOutcome =
  dvo_link_id :: uuid
  dvo_validation :: DemoValidationResult
  dvo_unrecognized_players :: "UnrecognizedPlayer list"

text \<open>The first outcome gives the link and the validation of the review; the mismatches are collected from all.\<close>

definition create_if_needed :: "uuid \<Rightarrow> uuid \<Rightarrow> DemoValidationOutcome list \<Rightarrow> uuid \<Rightarrow> uuid \<Rightarrow> ResultReview option service" where
  "create_if_needed claim_id match_id outcomes captain1 captain2 = (case outcomes of
     [] \<Rightarrow> sret None
   | first # _ \<Rightarrow> create_from_validation claim_id match_id (Some (dvo_link_id first)) (dvo_validation first)
       (list_ex (\<lambda>x. has_score_mismatch (dvo_validation x)) outcomes)
       (list_ex (\<lambda>x. has_winner_mismatch (dvo_validation x)) outcomes)
       (concat (map dvo_unrecognized_players outcomes)) captain1 captain2)"

end
