(* ===== verification/Completion.thy ===== *)
theory Completion
  imports ResultReviews
begin

text \<open>
  The saga coordinator (\<open>services/tournament/saga.rs\<close>) and the match completion saga
  (\<open>services/tournament/match_completion.rs\<close>): the steps that follow a confirmed result, each recorded on
  the row of the saga. The execution record a step mutates is part of the state, next to the world.
  The validation of demos and the update of player statistics, which rest on parsed demos and on the
  game plugins, are parameters; reviews and the opening of the next stage are the modelled services.
\<close>

section \<open>Executions as state\<close>

type_synonym 'a saga = "(world \<times> SagaExecution, DomainError, 'a) prog"

definition db :: "'a service \<Rightarrow> 'a saga" where
  "db m s = (let (r, w) = m (fst s) in (r, (w, snd s)))"

definition execution :: "SagaExecution saga" where
  "execution = sget snd"

text \<open>The record is mutated first and written afterwards: a failed write leaves it changed.\<close>

definition write_execution :: "(datetime \<Rightarrow> SagaExecution \<Rightarrow> SagaExecution) \<Rightarrow> unit saga" where
  "write_execution f s = (let x = f (w_now (fst s)) (snd s) in sbind (db (saga_update x)) (\<lambda>_. sret ()) (fst s, x))"

text \<open>A saga runs on an execution; both its result and the execution it leaves are used afterwards.\<close>

definition run_saga :: "'a saga \<Rightarrow> SagaExecution \<Rightarrow> ((DomainError + 'a) \<times> SagaExecution) service" where
  "run_saga m x w = (let (r, (w', x')) = m (w, x) in (Inr (r, x'), w'))"

section \<open>The coordinator\<close>

record SagaDefinition =
  sd_saga_type :: string
  sd_version :: int
  sd_max_retries :: int

definition SagaDefinition_new :: "string \<Rightarrow> int \<Rightarrow> SagaDefinition" where
  "SagaDefinition_new saga_type version = \<lparr>sd_saga_type = saga_type, sd_version = version, sd_max_retries = 3\<rparr>"

definition with_max_retries :: "int \<Rightarrow> SagaDefinition \<Rightarrow> SagaDefinition" where
  "with_max_retries n d = d\<lparr>sd_max_retries := n\<rparr>"

record 'o SagaResult =
  sres_execution :: SagaExecution
  sres_output :: "'o option"
  sres_success :: bool

definition SagaResult_success :: "SagaExecution \<Rightarrow> 'o \<Rightarrow> 'o SagaResult" where
  "SagaResult_success x output = \<lparr>sres_execution = x, sres_output = Some output, sres_success = True\<rparr>"

definition SagaResult_failure :: "SagaExecution \<Rightarrow> 'o SagaResult" where
  "SagaResult_failure x = \<lparr>sres_execution = x, sres_output = None, sres_success = False\<rparr>"

definition SagaResult_paused :: "SagaExecution \<Rightarrow> 'o SagaResult" where
  "SagaResult_paused x = \<lparr>sres_execution = x, sres_output = None, sres_success = False\<rparr>"

definition SagaResult_is_paused :: "'o SagaResult \<Rightarrow> bool" where
  "SagaResult_is_paused r \<longleftrightarrow> SagaExecution_is_paused (sres_execution r)"

definition start_saga :: "SagaDefinition \<Rightarrow> SagaContext \<Rightarrow> json \<Rightarrow> SagaExecution service" where
  "start_saga d context input_data = saga_create \<lparr>csg_saga_type = sd_saga_type d, csg_saga_version = sd_version d,
     csg_tournament_id = sgc_tournament_id context, csg_match_id = sgc_match_id context,
     csg_correlation_id = sgc_correlation_id context, csg_input_data = input_data, csg_max_retries = sd_max_retries d\<rparr>"

definition complete_step :: "string \<Rightarrow> json option \<Rightarrow> unit saga" where
  "complete_step step_name output = write_execution (\<lambda>t. SagaExecution_complete_step t step_name output)"

definition fail_step :: "string \<Rightarrow> string \<Rightarrow> unit saga" where
  "fail_step step_name error = write_execution (\<lambda>t. SagaExecution_fail_step t step_name error)"

definition complete_saga :: "unit saga" where
  "complete_saga = write_execution SagaExecution_complete"

definition fail_saga :: "string \<Rightarrow> unit saga" where
  "fail_saga error = write_execution (\<lambda>t. SagaExecution_fail t error)"

definition pause_saga :: "string \<Rightarrow> unit saga" where
  "pause_saga reason = write_execution (\<lambda>t. SagaExecution_pause t reason)"

definition retry_recorded :: "bool \<Rightarrow> datetime \<Rightarrow> SagaExecution \<Rightarrow> SagaExecution" where
  "retry_recorded exhaust t x = (if exhaust
     then (if SagaExecution_is_terminal x then x\<lparr>sg_retry_count := sg_max_retries x\<rparr>
       else x\<lparr>sg_retry_count := sg_max_retries x, sg_status := SagaStatus.Failed,
         sg_completed_at := coalesce (sg_completed_at x) (Some t)\<rparr>)
     else x\<lparr>sg_retry_count := sg_retry_count x + 1\<rparr>)\<lparr>sg_updated_at := t\<rparr>"

definition record_retry :: "bool \<Rightarrow> unit saga" where
  "record_retry exhaust = write_execution (retry_recorded exhaust)"

section \<open>Input and output\<close>

record MatchCompletionInput =
  mci_match_id :: uuid
  mci_winner_registration_id :: uuid
  mci_loser_registration_id :: uuid
  mci_winner_score :: int
  mci_loser_score :: int
  mci_is_forfeit :: bool
  mci_saga_id :: "uuid option"
  mci_result_claim_id :: "uuid option"

record MatchCompletionOutput =
  mco_match_id :: uuid
  mco_winner_next_match_id :: "uuid option"
  mco_loser_next_match_id :: "uuid option"
  mco_standings_updated :: bool
  mco_stage_advanced :: bool
  mco_review_pending :: bool
  mco_review_id :: "uuid option"
  mco_summary :: string

definition json_id :: "uuid option \<Rightarrow> json" where
  "json_id i = (case i of None \<Rightarrow> JNull | Some x \<Rightarrow> JStr x)"

definition input_to_json :: "MatchCompletionInput \<Rightarrow> json" where
  "input_to_json i = JObj [(''match_id'', JStr (mci_match_id i)),
     (''winner_registration_id'', JStr (mci_winner_registration_id i)),
     (''loser_registration_id'', JStr (mci_loser_registration_id i)), (''winner_score'', JNum (mci_winner_score i)),
     (''loser_score'', JNum (mci_loser_score i)), (''is_forfeit'', JBool (mci_is_forfeit i)),
     (''saga_id'', json_id (mci_saga_id i)), (''result_claim_id'', json_id (mci_result_claim_id i))]"

text \<open>Deserialization: an absent or null optional field is none, every other field is required.\<close>

fun as_text :: "json option \<Rightarrow> string option" where
  "as_text (Some (JStr s)) = Some s"
| "as_text _ = None"

fun as_score :: "json option \<Rightarrow> int option" where
  "as_score (Some (JNum n)) = (if - (2 ^ 31) \<le> n \<and> n < 2 ^ 31 then Some n else None)"
| "as_score _ = None"

fun as_flag :: "json option \<Rightarrow> bool option" where
  "as_flag (Some (JBool b)) = Some b"
| "as_flag _ = None"

fun as_optional :: "json option \<Rightarrow> uuid option option" where
  "as_optional None = Some None"
| "as_optional (Some JNull) = Some None"
| "as_optional (Some (JStr s)) = Some (Some s)"
| "as_optional _ = None"

fun input_from_json :: "json \<Rightarrow> MatchCompletionInput option" where
  "input_from_json (JObj fs) =
     Option.bind (as_text (map_of fs ''match_id'')) (\<lambda>m.
     Option.bind (as_text (map_of fs ''winner_registration_id'')) (\<lambda>winner.
     Option.bind (as_text (map_of fs ''loser_registration_id'')) (\<lambda>loser.
     Option.bind (as_score (map_of fs ''winner_score'')) (\<lambda>ws.
     Option.bind (as_score (map_of fs ''loser_score'')) (\<lambda>ls.
     Option.bind (as_flag (map_of fs ''is_forfeit'')) (\<lambda>forfeit.
     Option.bind (as_optional (map_of fs ''saga_id'')) (\<lambda>saga.
     Option.bind (as_optional (map_of fs ''result_claim_id'')) (\<lambda>claim.
       Some \<lparr>mci_match_id = m, mci_winner_registration_id = winner, mci_loser_registration_id = loser,
         mci_winner_score = ws, mci_loser_score = ls, mci_is_forfeit = forfeit, mci_saga_id = saga,
         mci_result_claim_id = claim\<rparr>))))))))"
| "input_from_json _ = None"

section \<open>What the saga is given\<close>

record CompletionDeps =
  demo_validator :: "uuid \<Rightarrow> uuid \<Rightarrow> DemoValidationOutcome list service"
  stats_updater :: "uuid \<Rightarrow> uuid \<Rightarrow> uuid \<Rightarrow> bool \<Rightarrow> unit service"

definition completion_definition :: SagaDefinition where
  "completion_definition = with_max_retries 3 (SagaDefinition_new ''match_completion'' 2)"

definition action :: "string \<Rightarrow> json option" where
  "action what = Some (JObj [(''action'', JStr what)])"

definition saga_match :: "uuid \<Rightarrow> TournamentMatch saga" where
  "saga_match i = sbind (db (match_find_by_id i)) (sneed (TournamentMatchNotFound i))"

definition plays :: "uuid \<Rightarrow> TournamentMatch \<Rightarrow> bool" where
  "plays r m \<longleftrightarrow> m_participant1_registration_id m = Some r \<or> m_participant2_registration_id m = Some r"

section \<open>The steps\<close>

definition refuse_step :: "string \<Rightarrow> string \<Rightarrow> 'a saga" where
  "refuse_step step_name err = sbind (fail_step step_name err) (\<lambda>_. sfail (InvalidState err))"

definition step_validate_match :: "MatchCompletionInput \<Rightarrow> TournamentMatch saga" where
  "step_validate_match input = sbind (saga_match (mci_match_id input)) (\<lambda>m.
     if m_status m \<noteq> TournamentMatchStatus.Completed \<and>
        \<not> TournamentMatchStatus_can_transition_to (m_status m) TournamentMatchStatus.Completed
     then refuse_step ''validate_match'' (''Match in '' @ TournamentMatchStatus_to_string (m_status m) @ '' status cannot be completed'')
     else if \<not> plays (mci_winner_registration_id input) m \<or> \<not> plays (mci_loser_registration_id input) m
     then refuse_step ''validate_match'' ''Winner or loser is not a participant in this match''
     else if mci_winner_registration_id input = mci_loser_registration_id input
     then refuse_step ''validate_match'' ''Winner and loser cannot be the same''
     else sbind (complete_step ''validate_match'' None) (\<lambda>_. sret m))"

definition step_validate_demos :: "CompletionDeps \<Rightarrow> MatchCompletionInput \<Rightarrow> TournamentMatch \<Rightarrow> ResultReview option saga" where
  "step_validate_demos deps input m =
     (if mci_is_forfeit input
      then sbind (complete_step ''validate_demos'' (action ''skipped_forfeit'')) (\<lambda>_. sret None)
      else case mci_result_claim_id input of
        None \<Rightarrow> sbind (complete_step ''validate_demos'' (action ''no_claim_id'')) (\<lambda>_. sret None)
      | Some claim_id \<Rightarrow>
          sbind (db (demo_validator deps (mci_match_id input) claim_id)) (\<lambda>outcomes.
          if outcomes = [] then sbind (complete_step ''validate_demos'' (action ''all_valid'')) (\<lambda>_. sret None)
          else sbind (sneed (InvalidState ''Match participant 1 not set'') (m_participant1_registration_id m)) (\<lambda>captain1.
          sbind (sneed (InvalidState ''Match participant 2 not set'') (m_participant2_registration_id m)) (\<lambda>captain2.
          sbind (db (create_if_needed claim_id (mci_match_id input) outcomes captain1 captain2)) (\<lambda>review.
          sbind (complete_step ''validate_demos'' (case review of
              Some r \<Rightarrow> Some (JObj [(''action'', JStr ''review_created''), (''review_id'', JStr (rv_id r)),
                (''status'', JStr (ResultReviewStatus_to_string (rv_status r)))])
            | None \<Rightarrow> action ''no_review_needed'')) (\<lambda>_. sret review))))))"

definition step_get_bracket :: "TournamentMatch \<Rightarrow> TournamentBracket saga" where
  "step_get_bracket m = sbind (db (bracket_find_by_id (m_bracket_id m))) (\<lambda>found.
     sbind (sneed (TournamentBracketNotFound (m_bracket_id m)) found) (\<lambda>b.
     sbind (complete_step ''get_bracket'' None) (\<lambda>_. sret b)))"

definition step_complete_match :: "MatchCompletionInput \<Rightarrow> unit saga" where
  "step_complete_match input = sbind (saga_match (mci_match_id input)) (\<lambda>m.
     if m_status m = TournamentMatchStatus.Completed
     then complete_step ''complete_match'' (Some (JObj [(''action'', JStr ''already_completed''),
       (''winner_id'', JStr (mci_winner_registration_id input))]))
     else
       let (p1_score, p2_score) = (if m_participant1_registration_id m = Some (mci_winner_registration_id input)
           then (mci_winner_score input, mci_loser_score input) else (mci_loser_score input, mci_winner_score input)) in
       sbind (db (match_submit_result (mci_match_id input) p1_score p2_score (mci_winner_registration_id input)
         (mci_loser_registration_id input))) (\<lambda>_.
       complete_step ''complete_match'' (Some (JObj [(''winner_id'', JStr (mci_winner_registration_id input)),
         (''score'', JStr (show_int p1_score @ ''-'' @ show_int p2_score))]))))"

definition feeds :: "TournamentMatch \<Rightarrow> MatchParticipantSource option \<Rightarrow> bool" where
  "feeds source_match source = (case source of
     Some (WinnerOf pos) \<Rightarrow> pos = m_bracket_position source_match
   | Some (LoserOf pos) \<Rightarrow> pos = m_bracket_position source_match
   | _ \<Rightarrow> False)"

definition target_slot :: "TournamentMatch \<Rightarrow> TournamentMatch \<Rightarrow> ParticipantSlot" where
  "target_slot source_match target =
     (if feeds source_match (m_participant1_source target) then One
      else if feeds source_match (m_participant2_source target) then Two
      else if m_participant1_registration_id target = None then One else Two)"

definition determine_target_slot :: "TournamentMatch \<Rightarrow> uuid \<Rightarrow> ParticipantSlot saga" where
  "determine_target_slot source_match target_match_id =
     sbind (saga_match target_match_id) (\<lambda>target. sret (target_slot source_match target))"

fun slot_debug :: "ParticipantSlot \<Rightarrow> string" where
  "slot_debug One = ''One''"
| "slot_debug Two = ''Two''"

text \<open>The part the two advancing steps share: seat the participant, log it, complete the step.\<close>

definition advance_to :: "string \<Rightarrow> string \<Rightarrow> ProgressionType \<Rightarrow> MatchCompletionInput \<Rightarrow> TournamentMatch \<Rightarrow> uuid \<Rightarrow>
    uuid \<Rightarrow> uuid option saga" where
  "advance_to step_name label kind input m target_id registration_id =
     sbind (db (registration_find_by_id registration_id)) (\<lambda>found.
     sbind (sneed (TournamentRegistrationNotFound registration_id) found) (\<lambda>r.
     sbind (determine_target_slot m target_id) (\<lambda>slot.
     sbind (db (match_assign_participant target_id slot registration_id (r_participant_name r)
       (r_participant_logo_url r) (r_seed r))) (\<lambda>_.
     sbind execution (\<lambda>x.
     sbind (db (progression_log \<lparr>cpl_source_match_id = mci_match_id input, cpl_target_match_id = Some target_id,
       cpl_registration_id = registration_id, cpl_progression_type = kind,
       cpl_target_position = Some (if slot = One then 1 else 2), cpl_saga_id = Some (sg_id x)\<rparr>)) (\<lambda>_.
     sbind (complete_step step_name (Some (JObj [(label, JStr target_id), (''slot'', JStr (slot_debug slot))]))) (\<lambda>_.
     sret (Some target_id))))))))"

definition step_advance_winner :: "TournamentMatch \<Rightarrow> MatchCompletionInput \<Rightarrow> uuid option saga" where
  "step_advance_winner m input = (case m_winner_progresses_to m of
     None \<Rightarrow> sbind (complete_step ''advance_winner'' (action ''no_progression_needed'')) (\<lambda>_. sret None)
   | Some next_match_id \<Rightarrow> advance_to ''advance_winner'' ''next_match_id'' ProgressionType.WinnerAdvance input m
       next_match_id (mci_winner_registration_id input))"

definition step_route_loser :: "TournamentMatch \<Rightarrow> MatchCompletionInput \<Rightarrow> TournamentBracket \<Rightarrow> uuid option saga" where
  "step_route_loser m input bracket = (case m_loser_progresses_to m of
     None \<Rightarrow>
       if is_table (b_bracket_type bracket)
       then sbind (complete_step ''route_loser'' (action ''not_applicable'')) (\<lambda>_. sret None)
       else sbind execution (\<lambda>x.
         sbind (db (progression_log \<lparr>cpl_source_match_id = mci_match_id input, cpl_target_match_id = None,
           cpl_registration_id = mci_loser_registration_id input,
           cpl_progression_type = ProgressionType.LoserEliminate, cpl_target_position = None,
           cpl_saga_id = Some (sg_id x)\<rparr>)) (\<lambda>_.
         sbind (complete_step ''route_loser'' (action ''eliminated'')) (\<lambda>_. sret None)))
   | Some loser_match_id \<Rightarrow> advance_to ''route_loser'' ''target_match_id'' ProgressionType.LoserDrop input m
       loser_match_id (mci_loser_registration_id input))"

fun mark_each_ready :: "uuid list \<Rightarrow> uuid list saga" where
  "mark_each_ready [] = sret []"
| "mark_each_ready (i # is) = sbind (db (match_find_by_id i)) (\<lambda>found.
     sbind (if (case found of None \<Rightarrow> False | Some target \<Rightarrow> m_status target = TournamentMatchStatus.Pending \<and>
         TournamentMatch_has_both_participants target)
       then sbind (db (match_update_status i TournamentMatchStatus.Ready)) (\<lambda>_. sret [i]) else sret []) (\<lambda>marked_ids.
     sbind (mark_each_ready is) (\<lambda>rest. sret (marked_ids @ rest))))"

definition step_mark_ready_matches :: "uuid option \<Rightarrow> uuid option \<Rightarrow> unit saga" where
  "step_mark_ready_matches winner_next loser_next =
     sbind (mark_each_ready (List.map_filter id [winner_next, loser_next])) (\<lambda>newly_ready.
     complete_step ''mark_ready_matches'' (Some (JObj [(''newly_ready'', JArr (map JStr newly_ready))])))"

fun bracket_type_debug :: "BracketType \<Rightarrow> string" where
  "bracket_type_debug BracketType.SingleElim = ''SingleElim''"
| "bracket_type_debug BracketType.Winners = ''Winners''"
| "bracket_type_debug BracketType.Losers = ''Losers''"
| "bracket_type_debug BracketType.GrandFinal = ''GrandFinal''"
| "bracket_type_debug BracketType.RoundRobin = ''RoundRobin''"
| "bracket_type_debug BracketType.Swiss = ''Swiss''"

definition step_update_standings :: "TournamentMatch \<Rightarrow> TournamentBracket \<Rightarrow> bool saga" where
  "step_update_standings m bracket =
     (if \<not> is_table (b_bracket_type bracket)
      then sbind (complete_step ''update_standings'' (action ''not_applicable'')) (\<lambda>_. sret False)
      else sbind (db (standing_recompute_bracket (m_bracket_id m))) (\<lambda>_.
        sbind (complete_step ''update_standings'' (Some (JObj
          [(''bracket_type'', JStr (bracket_type_debug (b_bracket_type bracket))), (''standings_updated'', JBool True)]))) (\<lambda>_.
        sret True)))"

definition step_advance_stage :: "TournamentMatch \<Rightarrow> bool saga" where
  "step_advance_stage m = sbind (db (advance_stage_if_complete (m_bracket_id m))) (\<lambda>opened.
     sbind (complete_step ''advance_stage'' (case opened of
         Some stage_id \<Rightarrow> Some (JObj [(''action'', JStr ''next_stage_seeded''), (''stage_id'', JStr stage_id)])
       | None \<Rightarrow> action ''not_applicable'')) (\<lambda>_. sret (opened \<noteq> None)))"

text \<open>The last step never fails: neither its work nor the write of its record.\<close>

definition step_update_player_stats :: "CompletionDeps \<Rightarrow> MatchCompletionInput \<Rightarrow> unit saga" where
  "step_update_player_stats deps input =
     (if mci_is_forfeit input
      then sbind (sattempt (complete_step ''update_player_stats'' (action ''skipped_forfeit''))) (\<lambda>_. sret ())
      else sbind (sattempt (db (stats_updater deps (mci_match_id input) (mci_winner_registration_id input)
          (mci_loser_registration_id input) (mci_is_forfeit input)))) (\<lambda>outcome.
        sbind (sattempt (complete_step ''update_player_stats'' (case outcome of
            Inr _ \<Rightarrow> action ''stats_updated''
          | Inl e \<Rightarrow> Some (JObj [(''action'', JStr ''failed_non_critical''), (''error'', JStr (DomainError_to_string e))]))))
        (\<lambda>_. sret ())))"

fun join_text :: "string \<Rightarrow> string list \<Rightarrow> string" where
  "join_text sep [] = []"
| "join_text sep [x] = x"
| "join_text sep (x # xs) = x @ sep @ join_text sep xs"

definition build_summary :: "MatchCompletionOutput \<Rightarrow> TournamentBracket \<Rightarrow> string" where
  "build_summary output bracket = join_text '', '' ([''Match completed''] @
     (if mco_winner_next_match_id output \<noteq> None then [''winner advanced to next match''] else [''winner crowned as champion'']) @
     (if mco_loser_next_match_id output \<noteq> None then [''loser dropped to losers bracket'']
      else if b_bracket_type bracket \<in> {BracketType.SingleElim, BracketType.Winners, BracketType.Losers}
      then [''loser eliminated''] else []) @
     (if mco_standings_updated output then [''standings updated''] else []) @
     (if mco_stage_advanced output then [''next stage seeded''] else []))"

section \<open>The saga\<close>

definition run_progression_steps_inner :: "CompletionDeps \<Rightarrow> MatchCompletionInput \<Rightarrow> TournamentMatch \<Rightarrow> MatchCompletionOutput saga" where
  "run_progression_steps_inner deps input m =
     sbind (step_get_bracket m) (\<lambda>bracket.
     sbind (step_complete_match input) (\<lambda>_.
     sbind (step_advance_winner m input) (\<lambda>winner_next.
     sbind (step_route_loser m input bracket) (\<lambda>loser_next.
     sbind (step_mark_ready_matches winner_next loser_next) (\<lambda>_.
     sbind (step_update_standings m bracket) (\<lambda>standings_updated.
     sbind (step_advance_stage m) (\<lambda>stage_advanced.
     sbind (step_update_player_stats deps input) (\<lambda>_.
     let output = \<lparr>mco_match_id = mci_match_id input, mco_winner_next_match_id = winner_next,
       mco_loser_next_match_id = loser_next, mco_standings_updated = standings_updated,
       mco_stage_advanced = stage_advanced, mco_review_pending = False, mco_review_id = None, mco_summary = []\<rparr> in
     sret (output\<lparr>mco_summary := build_summary output bracket\<rparr>)))))))))"

definition run_progression_steps :: "CompletionDeps \<Rightarrow> MatchCompletionInput \<Rightarrow> MatchCompletionOutput saga" where
  "run_progression_steps deps input =
     sbind (saga_match (mci_match_id input)) (\<lambda>m. run_progression_steps_inner deps input m)"

definition run_steps :: "CompletionDeps \<Rightarrow> MatchCompletionInput \<Rightarrow> MatchCompletionOutput saga" where
  "run_steps deps input =
     sbind (step_validate_match input) (\<lambda>m.
     sbind (step_validate_demos deps input m) (\<lambda>review.
     sbind (case review of None \<Rightarrow> sret ()
       | Some r \<Rightarrow>
           if ResultReviewStatus_is_pending (rv_status r) then sfail (SagaPaused (''Awaiting review '' @ rv_id r @ '' resolution''))
           else if rv_status r = ResultReviewStatus.Rejected then sfail (ResultRejectedByReview (rv_id r))
           else sret ()) (\<lambda>_.
     run_progression_steps_inner deps input m)))"

definition new_execution :: "MatchCompletionInput \<Rightarrow> SagaExecution service" where
  "new_execution input = sbind (match_find_by_id (mci_match_id input)) (\<lambda>found.
     sbind (sneed (TournamentMatchNotFound (mci_match_id input)) found) (\<lambda>m.
     start_saga completion_definition (SagaContext_with_match (mci_match_id input) (m_tournament_id m)) (input_to_json input)))"

fun pause_reason :: "DomainError \<Rightarrow> string option" where
  "pause_reason (SagaPaused msg) = Some msg"
| "pause_reason _ = None"

definition execute_completion :: "CompletionDeps \<Rightarrow> MatchCompletionInput \<Rightarrow> MatchCompletionOutput SagaResult service" where
  "execute_completion deps input = sbind (new_execution input) (\<lambda>x.
     sbind (run_saga (run_steps deps input) x) (\<lambda>(result, x1). case result of
       Inr output \<Rightarrow> sbind (run_saga complete_saga x1) (\<lambda>(r, x2). sbind (slift r) (\<lambda>_. sret (SagaResult_success x2 output)))
     | Inl e \<Rightarrow> (case pause_reason e of
           Some msg \<Rightarrow> sbind (run_saga (pause_saga msg) x1) (\<lambda>(r, x2). sbind (slift r) (\<lambda>_. sret (SagaResult_paused x2)))
         | None \<Rightarrow> sbind (run_saga (fail_saga (DomainError_to_string e)) x1) (\<lambda>(r, x2). sbind (slift r) (\<lambda>_. sfail e)))))"

definition finished_completion :: "SagaExecution \<Rightarrow> bool" where
  "finished_completion x \<longleftrightarrow> sg_saga_type x = ''match_completion'' \<and> SagaExecution_is_completed x"

definition continue_after_review :: "CompletionDeps \<Rightarrow> uuid \<Rightarrow> MatchCompletionInput \<Rightarrow> MatchCompletionOutput SagaResult service" where
  "continue_after_review deps match_id input = sbind (review_find_by_match_id match_id) (\<lambda>review.
     sbind (case review of None \<Rightarrow> sret ()
       | Some r \<Rightarrow>
           if ResultReviewStatus_is_pending (rv_status r) then sfail (InvalidState ''Review is still pending'')
           else if rv_status r = ResultReviewStatus.Rejected then sfail (ResultRejectedByReview (rv_id r))
           else sret ()) (\<lambda>_.
     sbind (saga_find_by_match match_id) (\<lambda>prior. case find finished_completion prior of
       Some x \<Rightarrow> sret (SagaResult_success x \<lparr>mco_match_id = match_id, mco_winner_next_match_id = None,
         mco_loser_next_match_id = None, mco_standings_updated = False, mco_stage_advanced = False,
         mco_review_pending = False, mco_review_id = map_option rv_id review,
         mco_summary = ''Match completion already applied; resume skipped''\<rparr>)
     | None \<Rightarrow> sbind (new_execution input) (\<lambda>x.
         sbind (run_saga (run_progression_steps deps input) x) (\<lambda>(result, x1). case result of
           Inr output \<Rightarrow> sbind (run_saga complete_saga x1) (\<lambda>(r, x2). sbind (slift r) (\<lambda>_. sret (SagaResult_success x2 output)))
         | Inl e \<Rightarrow> sbind (run_saga (fail_saga (DomainError_to_string e)) x1) (\<lambda>(r, x2). sbind (slift r) (\<lambda>_. sfail e)))))))"

end
