(* ===== verification/Background.thy ===== *)
theory Background
  imports Completion Results Veto
begin

text \<open>
  The background pass that drives tournaments (\<open>portal-api/src/background/mod.rs\<close>): check-in windows,
  no-shows, overdue claims, completion sagas that failed or got stuck, vetoes nobody moves. A pass
  never fails: what goes wrong is counted and the pass goes on. Broadcasts and logging are left out;
  the phases of other subsystems (schedule proposals, evidence, game servers, PUGs) and the creation of
  a veto session from the game plugins are parameters.
\<close>

section \<open>Configuration and summary\<close>

text \<open>Durations in seconds; the defaults of \<open>from_env\<close>.\<close>

record LifecycleConfig =
  lc_check_in_lead :: int
  lc_check_in_grace :: int
  lc_evidence_stale_max_age :: int
  lc_saga_stuck_after :: int
  lc_batch_limit :: nat
  lc_veto_coin_flip_grace :: int

definition LifecycleConfig_defaults :: LifecycleConfig where
  "LifecycleConfig_defaults = \<lparr>lc_check_in_lead = 15 * 60, lc_check_in_grace = 10 * 60,
     lc_evidence_stale_max_age = 24 * 3600, lc_saga_stuck_after = 10 * 60, lc_batch_limit = 100,
     lc_veto_coin_flip_grace = 15\<rparr>"

record LifecyclePassSummary =
  lps_check_in_windows_opened :: nat
  lps_veto_sessions_created :: nat
  lps_no_shows_forfeited :: nat
  lps_veto_timeouts_processed :: nat
  lps_veto_sessions_started :: nat
  lps_veto_coin_flips_auto :: nat
  lps_double_forfeits :: nat
  lps_check_in_deadlines_repaired :: nat
  lps_claims_auto_confirmed :: nat
  lps_proposals_expired :: nat
  lps_sagas_redriven :: nat
  lps_evidence_expired :: nat
  lps_evidence_stale_cleaned :: nat
  lps_game_servers_marked_offline :: nat
  lps_reservations_allocated :: nat
  lps_reservations_reconciled :: nat
  lps_errors :: nat

definition LifecyclePassSummary_default :: LifecyclePassSummary where
  "LifecyclePassSummary_default = \<lparr>lps_check_in_windows_opened = 0, lps_veto_sessions_created = 0,
     lps_no_shows_forfeited = 0, lps_veto_timeouts_processed = 0, lps_veto_sessions_started = 0,
     lps_veto_coin_flips_auto = 0, lps_double_forfeits = 0, lps_check_in_deadlines_repaired = 0,
     lps_claims_auto_confirmed = 0, lps_proposals_expired = 0, lps_sagas_redriven = 0, lps_evidence_expired = 0,
     lps_evidence_stale_cleaned = 0, lps_game_servers_marked_offline = 0, lps_reservations_allocated = 0,
     lps_reservations_reconciled = 0, lps_errors = 0\<rparr>"

type_synonym phase = "LifecyclePassSummary \<Rightarrow> LifecyclePassSummary service"

definition count_error :: "LifecyclePassSummary \<Rightarrow> LifecyclePassSummary" where
  "count_error s = s\<lparr>lps_errors := lps_errors s + 1\<rparr>"

text \<open>An operation whose success and failure are both counted.\<close>

definition counting :: "'a service \<Rightarrow> ('a \<Rightarrow> LifecyclePassSummary \<Rightarrow> LifecyclePassSummary) \<Rightarrow> phase" where
  "counting m ok s = sbind (sattempt m) (\<lambda>outcome.
     sret (case outcome of Inl _ \<Rightarrow> count_error s | Inr a \<Rightarrow> ok a s))"

fun each_row :: "('a \<Rightarrow> phase) \<Rightarrow> 'a list \<Rightarrow> phase" where
  "each_row f [] s = sret s"
| "each_row f (x # xs) s = sbind (f x s) (each_row f xs)"

text \<open>A scan and what is done with each row of it.\<close>

definition scan :: "'a list service \<Rightarrow> ('a \<Rightarrow> phase) \<Rightarrow> phase" where
  "scan m f s = sbind (sattempt m) (\<lambda>outcome.
     case outcome of Inl _ \<Rightarrow> sret (count_error s) | Inr xs \<Rightarrow> each_row f xs s)"

section \<open>Check-in windows\<close>

definition check_in_base :: "TournamentMatch \<Rightarrow> datetime service" where
  "check_in_base m = sbind now (\<lambda>t. sret (case m_scheduled_at m of None \<Rightarrow> t | Some s \<Rightarrow> max s t))"

definition open_check_in_window :: "(TournamentMatch \<Rightarrow> bool service) \<Rightarrow> LifecycleConfig \<Rightarrow> TournamentMatch \<Rightarrow> phase" where
  "open_check_in_window ensure_veto_session cfg m s = sbind (check_in_base m) (\<lambda>base.
     sbind (sattempt (sbind (match_set_check_in_deadline (m_id m) (base + lc_check_in_grace cfg)) (\<lambda>_.
       transition (m_id m) TournamentMatchStatus.CheckingIn (TransitionTrigger.System ''open_check_in_window'')
         (Some ''Check-in window opened'')))) (\<lambda>opened. case opened of
       Inl _ \<Rightarrow> sret (count_error s)
     | Inr _ \<Rightarrow> counting (ensure_veto_session m)
         (\<lambda>created s. if created then s\<lparr>lps_veto_sessions_created := lps_veto_sessions_created s + 1\<rparr> else s)
         (s\<lparr>lps_check_in_windows_opened := lps_check_in_windows_opened s + 1\<rparr>)))"

definition repair_check_in_deadline :: "LifecycleConfig \<Rightarrow> TournamentMatch \<Rightarrow> phase" where
  "repair_check_in_deadline cfg m s = sbind (check_in_base m) (\<lambda>base.
     counting (match_set_check_in_deadline (m_id m) (base + lc_check_in_grace cfg))
       (\<lambda>_ s. s\<lparr>lps_check_in_deadlines_repaired := lps_check_in_deadlines_repaired s + 1\<rparr>) s)"

definition process_check_in_timeout :: "TournamentMatch \<Rightarrow> phase" where
  "process_check_in_timeout m s =
     (let p1_in = m_participant1_checked_in_at m \<noteq> None; p2_in = m_participant2_checked_in_at m \<noteq> None in
      if p1_in \<and> p2_in then sret s
      else if \<not> p1_in \<and> \<not> p2_in
      then counting (process_double_forfeit (m_id m) (Some ''Neither participant checked in before the deadline'')
          (ForfeitTrigger.System ''check_in_timeout''))
        (\<lambda>_ s. s\<lparr>lps_double_forfeits := lps_double_forfeits s + 1\<rparr>) s
      else case (if p1_in then m_participant2_registration_id m else m_participant1_registration_id m) of
        None \<Rightarrow> sret s
      | Some r \<Rightarrow> counting (process_no_show (m_id m) r)
          (\<lambda>_ s. s\<lparr>lps_no_shows_forfeited := lps_no_shows_forfeited s + 1\<rparr>) s)"

section \<open>Overdue claims\<close>

definition run_completion_saga_for_claim :: "CompletionDeps \<Rightarrow> ResultClaim \<Rightarrow> unit service" where
  "run_completion_saga_for_claim deps claim = sbind (match_find_by_id (rc_match_id claim)) (\<lambda>found.
     sbind (sneed (TournamentMatchNotFound (rc_match_id claim)) found) (\<lambda>m.
     let winner = rc_claimed_winner_registration_id claim;
         winner_first = m_participant1_registration_id m = Some winner in
     sbind (sneed (InvalidState ''Loser participant not found on match'')
       (if winner_first then m_participant2_registration_id m else m_participant1_registration_id m)) (\<lambda>loser.
     sbind (execute_completion deps \<lparr>mci_match_id = rc_match_id claim, mci_winner_registration_id = winner,
       mci_loser_registration_id = loser,
       mci_winner_score = (if winner_first then rc_claimed_participant1_score claim else rc_claimed_participant2_score claim),
       mci_loser_score = (if winner_first then rc_claimed_participant2_score claim else rc_claimed_participant1_score claim),
       mci_is_forfeit = False, mci_saga_id = None, mci_result_claim_id = Some (rc_id claim)\<rparr>) (\<lambda>_. sret ()))))"

definition process_overdue_result_claims :: "CompletionDeps \<Rightarrow> phase" where
  "process_overdue_result_claims deps = scan process_auto_confirmations (\<lambda>claim s.
     counting (run_completion_saga_for_claim deps claim) (\<lambda>_ s. s)
       (s\<lparr>lps_claims_auto_confirmed := lps_claims_auto_confirmed s + 1\<rparr>))"

section \<open>Sagas that failed or got stuck\<close>

definition MATCH_COMPLETION_SAGA :: string where
  "MATCH_COMPLETION_SAGA = ''match_completion''"

definition STANDINGS_STEP :: string where
  "STANDINGS_STEP = ''update_standings''"

definition raise_progression_stall :: "MatchCompletionInput \<Rightarrow> unit service" where
  "raise_progression_stall input = (case mci_result_claim_id input of
     None \<Rightarrow> sret ()
   | Some claim_id \<Rightarrow> sbind (sattempt (create_for_progression_stall claim_id (mci_match_id input)
       (mci_winner_registration_id input) (mci_loser_registration_id input))) (\<lambda>_. sret ()))"

fun says_updated :: "json option \<Rightarrow> bool" where
  "says_updated (Some (JObj fs)) \<longleftrightarrow> map_of fs ''standings_updated'' = Some (JBool True)"
| "says_updated _ \<longleftrightarrow> False"

definition applied_standings :: "SagaExecution \<Rightarrow> bool" where
  "applied_standings x \<longleftrightarrow> list_ex (\<lambda>r. sr_name r = STANDINGS_STEP \<and> sr_status r = StepStatus.Completed \<and>
     says_updated (sr_output r)) (sg_step_history x)"

text \<open>\<open>record_retry\<close> on a row of the scan, with the record it leaves.\<close>

definition retry_row :: "bool \<Rightarrow> SagaExecution \<Rightarrow> ((DomainError + unit) \<times> SagaExecution) service" where
  "retry_row exhaust x = run_saga (record_retry exhaust) x"

definition retire_row :: "SagaExecution \<Rightarrow> phase" where
  "retire_row x s = sbind (retry_row True x) (\<lambda>(r, _). sret (case r of Inl _ \<Rightarrow> count_error s | Inr _ \<Rightarrow> s))"

definition redrive :: "CompletionDeps \<Rightarrow> SagaExecution \<Rightarrow> phase" where
  "redrive deps x s = (case input_from_json (sg_input_data x) of
     None \<Rightarrow> sbind (retry_row True x) (\<lambda>_. sret (count_error s))
   | Some stored \<Rightarrow>
       let input = stored\<lparr>mci_saga_id := None\<rparr> in
       if applied_standings x then sbind (raise_progression_stall input) (\<lambda>_. retire_row x s)
       else sbind (sattempt (execute_completion deps input)) (\<lambda>outcome. case outcome of
           Inr result \<Rightarrow> retire_row x (if SagaResult_is_paused result then s
             else s\<lparr>lps_sagas_redriven := lps_sagas_redriven s + 1\<rparr>)
         | Inl _ \<Rightarrow> sbind (retry_row False x) (\<lambda>(_, x').
             sbind (if sg_max_retries x' \<le> sg_retry_count x' then raise_progression_stall input else sret ()) (\<lambda>_.
             sret (count_error s)))))"

definition redrive_stuck_completion_sagas :: "CompletionDeps \<Rightarrow> LifecycleConfig \<Rightarrow> datetime \<Rightarrow> phase" where
  "redrive_stuck_completion_sagas deps cfg t =
     scan (saga_find_retryable MATCH_COMPLETION_SAGA (t - lc_saga_stuck_after cfg) (lc_batch_limit cfg)) (redrive deps)"

section \<open>Vetoes nobody moves\<close>

definition start_stalled :: "VetoService \<Rightarrow> VetoSession \<Rightarrow> phase" where
  "start_stalled veto session s = sbind (match_find_by_id (vs_match_id session)) (\<lambda>found. case found of
     None \<Rightarrow> sret s
   | Some m \<Rightarrow>
       if m_status m \<noteq> TournamentMatchStatus.PickBan then sret s
       else counting (start_session veto (vs_id session))
         (\<lambda>_ s. s\<lparr>lps_veto_sessions_started := lps_veto_sessions_started s + 1\<rparr>) s)"

definition flip_stalled :: "VetoService \<Rightarrow> LifecycleConfig \<Rightarrow> datetime \<Rightarrow> VetoSession \<Rightarrow> phase" where
  "flip_stalled veto cfg t session s =
     (if t - or_old (vs_started_at session) (vs_updated_at session) < lc_veto_coin_flip_grace cfg then sret s
      else sbind (match_find_by_id (vs_match_id session)) (\<lambda>found. case found of
        None \<Rightarrow> sret s
      | Some m \<Rightarrow>
          if TournamentMatchStatus_is_terminal (m_status m) then sret s
          else (case (m_participant1_registration_id m, m_participant2_registration_id m) of
              (Some p1, Some p2) \<Rightarrow> sbind draw (\<lambda>r.
                counting (record_coin_flip veto (vs_id session) (if even r then p1 else p2) True)
                  (\<lambda>_ s. s\<lparr>lps_veto_coin_flips_auto := lps_veto_coin_flips_auto s + 1\<rparr>) s)
            | _ \<Rightarrow> sret s)))"

definition advance_stalled_veto_sessions :: "VetoService \<Rightarrow> LifecycleConfig \<Rightarrow> datetime \<Rightarrow> phase" where
  "advance_stalled_veto_sessions veto cfg t s =
     sbind (scan (find_sessions_by_status VetoStatus.Pending) (start_stalled veto) s)
       (scan (find_sessions_by_status VetoStatus.CoinFlip) (flip_stalled veto cfg t))"

definition process_veto_timeout :: "VetoService \<Rightarrow> VetoSession \<Rightarrow> phase" where
  "process_veto_timeout veto session s = sbind (match_find_by_id (vs_match_id session)) (\<lambda>found. case found of
     None \<Rightarrow> sret s
   | Some m \<Rightarrow>
       if m_status m = TournamentMatchStatus.CheckingIn then sret s
       else if TournamentMatchStatus_is_terminal (m_status m)
       then sbind (sattempt (cancel_session_for_match (vs_match_id session))) (\<lambda>_. sret s)
       else sbind (sattempt (process_timeout veto (vs_id session))) (\<lambda>outcome. sret (case outcome of
           Inl _ \<Rightarrow> s
         | Inr _ \<Rightarrow> s\<lparr>lps_veto_timeouts_processed := lps_veto_timeouts_processed s + 1\<rparr>)))"

section \<open>The pass\<close>

record LifecycleDeps =
  ld_completion :: CompletionDeps
  ld_veto :: VetoService
  ld_ensure_veto_session :: "TournamentMatch \<Rightarrow> bool service"
  ld_expire_proposals :: phase
  ld_sweep_evidence :: phase
  ld_reservations :: phase
  ld_sweep_pugs :: "unit service"
  ld_stale_servers :: phase

definition run_lifecycle_pass :: "LifecycleDeps \<Rightarrow> LifecycleConfig \<Rightarrow> bool \<Rightarrow> LifecyclePassSummary service" where
  "run_lifecycle_pass deps cfg sweep_evidence = sbind now (\<lambda>t.
     sbind (scan (match_list_scheduled_due (t + lc_check_in_lead cfg) (lc_batch_limit cfg))
       (open_check_in_window (ld_ensure_veto_session deps) cfg) LifecyclePassSummary_default) (\<lambda>s1.
     sbind (scan (match_list_checkin_missing_deadline (lc_batch_limit cfg)) (repair_check_in_deadline cfg) s1) (\<lambda>s2.
     sbind (scan (match_list_checkin_expired t (lc_batch_limit cfg)) process_check_in_timeout s2) (\<lambda>s3.
     sbind (ld_expire_proposals deps s3) (\<lambda>s4.
     sbind (process_overdue_result_claims (ld_completion deps) s4) (\<lambda>s5.
     sbind (redrive_stuck_completion_sagas (ld_completion deps) cfg t s5) (\<lambda>s6.
     sbind (if sweep_evidence then ld_sweep_evidence deps s6 else sret s6) (\<lambda>s7.
     sbind (ld_reservations deps s7) (\<lambda>s8.
     sbind (scan find_timed_out_sessions (process_veto_timeout (ld_veto deps)) s8) (\<lambda>s9.
     sbind (advance_stalled_veto_sessions (ld_veto deps) cfg t s9) (\<lambda>s10.
     sbind (ld_sweep_pugs deps) (\<lambda>_. ld_stale_servers deps s10))))))))))))"

end
