(* ===== verification/CompletionSpec.thy ===== *)
theory CompletionSpec
  imports Background
begin

text \<open>
  What the completion saga does: it never leaves its own row live, a failed run leaves a row that is
  retried again, and the slots it chooses are those of the progression service.
\<close>

section \<open>The rows of sagas\<close>

definition sagas_are :: "SagaExecution list \<Rightarrow> world \<Rightarrow> bool" where
  "sagas_are S w \<longleftrightarrow> w_sagas w = S"

named_theorems saga_frames "operations that leave the saga rows alone"

lemma smodify_sagas: "(\<And>w. w_sagas (f w) = w_sagas w) \<Longrightarrow> keeps (sagas_are S) (smodify f)"
  by (simp add: keeps_def sagas_are_def)

lemma new_uuid_sagas [saga_frames]: "keeps (sagas_are S) new_uuid"
  by (simp add: keeps_def sagas_are_def new_uuid_def)

lemma transaction_sagas [saga_frames]:
  assumes "keeps (sagas_are S) m"
  shows "keeps (sagas_are S) (transaction m)"
proof
  fix w assume w: "sagas_are S w"
  obtain r t where run: "m w = (r, t)" by fastforce
  with assms w have "sagas_are S t" by (blast dest: keepsD)
  with w show "sagas_are S (snd (transaction m w))"
    by (cases r) (simp_all add: transaction_def run sagas_are_def)
qed

lemma match_set_sagas: "keeps (sagas_are S) (match_set i f)"
  by (simp add: keeps_def sagas_are_def match_set_run split: option.split)

lemma match_sagas [saga_frames]:
  "keeps (sagas_are S) (match_update_status i s)" "keeps (sagas_are S) (match_submit_result i a b c d)"
  "keeps (sagas_are S) (match_assign_participant i slot r x y z)"
  unfolding match_update_status_def match_submit_result_def match_assign_participant_def
  by (rule match_set_sagas)+

lemma match_find_sagas [saga_frames]: "keeps (sagas_are S) (match_find_by_id i)"
  unfolding match_find_by_id_def by (rule keeps_sget)

lemma bracket_set_sagas: "keeps (sagas_are S) (bracket_set i f)"
  by (simp add: keeps_def sagas_are_def bracket_set_def update_returning_def split: option.split)

lemma bracket_sagas [saga_frames]:
  "keeps (sagas_are S) (bracket_create c)" "keeps (sagas_are S) (bracket_update i u)"
  "keeps (sagas_are S) (bracket_find_by_id i)" "keeps (sagas_are S) (bracket_list_by_stage s)"
  unfolding bracket_update_def bracket_find_by_id_def bracket_list_by_stage_def
  by (simp add: keeps_def sagas_are_def bracket_create_def new_uuid_def insert_returning_def sbind_def)
    (intro bracket_set_sagas keeps_intros)+

lemma stage_status_sagas [saga_frames]: "keeps (sagas_are S) (stage_update_status i s)"
  by (simp add: keeps_def sagas_are_def stage_update_status_def stage_set_def update_returning_def split: option.split)

lemma match_create_sagas [saga_frames]: "keeps (sagas_are S) (match_insert m)"
  by (simp add: keeps_def sagas_are_def match_insert_def insert_returning_def)

lemma bulk_create_sagas [saga_frames]: "keeps (sagas_are S) (match_bulk_create ms)"
  unfolding match_bulk_create_def
  by (intro keeps_intros transaction_sagas keeps_now keeps_smap new_uuid_sagas match_create_sagas)

lemma place_sagas [saga_frames]: "keeps (sagas_are S) (place pos p n x)"
  unfolding place_def by (intro keeps_intros saga_frames)

lemma links_sagas [saga_frames]: "keeps (sagas_are S) (match_set_progression_links i a b)"
  by (simp add: keeps_def sagas_are_def match_set_progression_links_def)

lemma fill_sagas [saga_frames]:
  "keeps (sagas_are S) (apply_initial_assignments as pos)" "keeps (sagas_are S) (apply_byes bs pos)"
  "keeps (sagas_are S) (set_se_progression_links ms pos)" "keeps (sagas_are S) (set_rounds b n)"
  unfolding apply_initial_assignments_def apply_byes_def set_se_progression_links_def set_rounds_def
  by (intro keeps_sfor keeps_option keeps_intros saga_frames)+

lemma find_ready_sagas [saga_frames]: "keeps (sagas_are S) (find_newly_ready_matches b)"
  by (auto simp: keeps_def sagas_are_def find_newly_ready_matches_def match_list_by_bracket_def
      match_mark_pending_as_ready_bulk_def Let_def)

lemma playoff_sagas [saga_frames]:
  "keeps (sagas_are S) (generate_se_playoff t st ps plan)" "keeps (sagas_are S) (generate_de_playoff t st ps plan)"
  unfolding generate_se_playoff_def generate_de_playoff_def new_bracket_def fill_single_elimination_def
    new_double_elimination_def fill_double_elimination_def Let_def split_def
  by (intro keeps_intros keeps_sfor saga_frames)+

lemma lookup_sagas [saga_frames]:
  "keeps (sagas_are S) (require_match i)" "keeps (sagas_are S) (require_bracket i)"
  "keeps (sagas_are S) (require_registration i)" "keeps (sagas_are S) (registration_find_by_id i)"
  "keeps (sagas_are S) (standing_list_by_bracket i)" "keeps (sagas_are S) (match_list_by_bracket i)"
  "keeps (sagas_are S) (stage_find_by_id i)" "keeps (sagas_are S) (stage_find_next_stage i n)"
  unfolding require_match_def require_bracket_def require_registration_def registration_find_by_id_def
    standing_list_by_bracket_def match_list_by_bracket_def stage_find_by_id_def stage_find_next_stage_def
  by (intro keeps_intros saga_frames)+

lemma advance_stage_sagas [saga_frames]: "keeps (sagas_are S) (advance_stage_if_complete b)"
proof -
  have check: "keeps (sagas_are S) (check_bracket_completion i)" "keeps (sagas_are S) (check_stage_completion i)" for i
    by (simp_all add: keeps_def sagas_are_def)
  have seeded: "keeps (sagas_are S) (advance_to_next_stage t st)" for t st
    unfolding advance_to_next_stage_def plan_or_invalid_def stage_transition_stages_def group_table_def as_participant_def Let_def
    by (intro keeps_intros keeps_smap saga_frames) (auto split: StageFormat.split intro!: keeps_intros saga_frames)
  show ?thesis
    unfolding advance_stage_if_complete_def by (intro keeps_intros saga_frames check seeded)
qed

lemma recompute_sagas [saga_frames]: "keeps (sagas_are S) (standing_recompute_bracket b)"
  unfolding standing_recompute_bracket_def standing_derive_def standing_rank_def Let_def
  by (intro saga_frames keeps_intros) (simp_all add: keeps_def sagas_are_def)

lemma review_sagas [saga_frames]: "keeps (sagas_are S) (create_if_needed c m os a b)"
proof -
  have "keeps (sagas_are S) (review_insert r)" for r
    unfolding review_insert_def by (rule smodify_sagas) simp
  then show ?thesis
    unfolding create_if_needed_def create_from_validation_def Let_def
    by (cases os) (auto intro!: keeps_intros saga_frames keeps_now simp: if_distrib [of "keeps _"])
qed

lemma log_sagas [saga_frames]: "keeps (sagas_are S) (progression_log c)"
  by (simp add: keeps_def sagas_are_def progression_log_def new_uuid_def insert_returning_def sbind_def)


section \<open>Runs of a saga\<close>

text \<open>
  The execution at hand is that of \<open>x0\<close>, its row is in the table, and at most \<open>n\<close> of its retries are used.
\<close>

definition same_saga :: "SagaExecution \<Rightarrow> SagaExecution \<Rightarrow> bool" where
  "same_saga x0 row \<longleftrightarrow> sg_saga_type row = sg_saga_type x0 \<and> sg_max_retries row = sg_max_retries x0 \<and>
     sg_match_id row = sg_match_id x0 \<and> sg_input_data row = sg_input_data x0"

definition at_work :: "SagaExecution \<Rightarrow> int \<Rightarrow> world \<times> SagaExecution \<Rightarrow> bool" where
  "at_work x0 n = (\<lambda>(w, x). sg_id x = sg_id x0 \<and> sg_retry_count x \<le> n \<and>
     (\<exists>row. find_row sg_id (sg_id x0) (w_sagas w) = Some row \<and> same_saga x0 row))"

lemma at_work_mono: "at_work x0 n s \<Longrightarrow> n \<le> n' \<Longrightarrow> at_work x0 n' s"
  by (auto simp: at_work_def)

text \<open>A write of the execution succeeds, and the row is then as the execution says.\<close>

definition written :: "datetime \<Rightarrow> SagaExecution \<Rightarrow> SagaExecution \<Rightarrow> SagaExecution" where
  "written t x row = row\<lparr>sg_current_step := sg_current_step x, sg_status := sg_status x,
     sg_step_history := sg_step_history x, sg_last_error := sg_last_error x, sg_retry_count := sg_retry_count x,
     sg_started_at := sg_started_at x, sg_completed_at := sg_completed_at x, sg_updated_at := t\<rparr>"

lemma written_fields [simp]:
  "sg_id (written t x row) = sg_id row" "sg_saga_type (written t x row) = sg_saga_type row"
  "sg_max_retries (written t x row) = sg_max_retries row" "sg_created_at (written t x row) = sg_created_at row"
  "sg_status (written t x row) = sg_status x" "sg_retry_count (written t x row) = sg_retry_count x"
  "sg_match_id (written t x row) = sg_match_id row" "sg_input_data (written t x row) = sg_input_data row"
  by (simp_all add: written_def)

lemma write_run:
  assumes "find_row sg_id (sg_id (f (w_now w) x)) (w_sagas w) = Some row"
  shows "write_execution f (w, x) = (Inr (), (w_sagas_update (modify_row sg_id (sg_id (f (w_now w) x))
    (written (w_now w) (f (w_now w) x))) w, f (w_now w) x))"
  using assms
  by (simp add: write_execution_def db_def saga_update_def update_returning_def sbind_def Let_def written_def [abs_def])

text \<open>The tables a result is about.\<close>

definition same_board :: "world \<Rightarrow> world \<Rightarrow> bool" where
  "same_board w v \<longleftrightarrow> w_matches v = w_matches w \<and> w_registrations v = w_registrations w \<and>
     w_brackets v = w_brackets w \<and> w_stages v = w_stages w \<and> w_now v = w_now w"

lemma write_at_work:
  assumes "at_work x0 n (w, x)" and "sg_id (f (w_now w) x) = sg_id x" and "sg_retry_count (f (w_now w) x) \<le> n'"
  shows "\<exists>row w'. write_execution f (w, x) = (Inr (), (w', f (w_now w) x)) \<and> at_work x0 n' (w', f (w_now w) x) \<and>
    find_row sg_id (sg_id x0) (w_sagas w') = Some (written (w_now w) (f (w_now w) x) row) \<and> same_saga x0 row \<and>
    same_board w w'"
proof -
  obtain row where row: "find_row sg_id (sg_id x0) (w_sagas w) = Some row" "same_saga x0 row"
    and id: "sg_id x = sg_id x0" using assms(1) by (auto simp: at_work_def)
  let ?y = "f (w_now w) x"
  let ?w = "w_sagas_update (modify_row sg_id (sg_id ?y) (written (w_now w) ?y)) w"
  have "find_row sg_id (sg_id x0) (w_sagas ?w) = Some (written (w_now w) ?y row)"
    using row(1) find_row_key [OF row(1)] assms(2) id by (simp add: find_modify_row)
  moreover have "write_execution f (w, x) = (Inr (), (?w, ?y))"
    by (rule write_run) (use row(1) assms(2) id in simp)
  moreover have "same_board w ?w" by (simp add: same_board_def)
  ultimately show ?thesis using row assms(2,3) id
    by (intro exI [of _ row] exI [of _ ?w]) (auto simp: at_work_def same_saga_def)
qed

lemma execution_keeps [keeps_intros]: "keeps I execution"
  unfolding execution_def by (rule keeps_sget)

definition quiet_deps :: "CompletionDeps \<Rightarrow> bool" where
  "quiet_deps deps \<longleftrightarrow> (\<forall>S m c. keeps (sagas_are S) (demo_validator deps m c)) \<and>
     (\<forall>S m a b f. keeps (sagas_are S) (stats_updater deps m a b f))"

text \<open>
  What every step after the first preserves: a property of the saga rows and of the execution that the
  completion of a step preserves.
\<close>

locale saga_invariant =
  fixes I :: "world \<times> SagaExecution \<Rightarrow> bool"
  assumes same_sagas: "w_sagas v = w_sagas w \<Longrightarrow> I (w, x) \<Longrightarrow> I (v, x)"
    and complete_step_keeps: "keeps I (complete_step name out)"
begin

lemma db_keeps:
  assumes "\<And>S. keeps (sagas_are S) m"
  shows "keeps I (db m)"
proof
  fix s assume s: "I s"
  obtain w x where sx: "s = (w, x)" by fastforce
  obtain r w' where run: "m w = (r, w')" by fastforce
  have "w_sagas w' = w_sagas w"
    using keepsD [OF assms [of "w_sagas w"] _ run] by (simp add: sagas_are_def)
  with s show "I (snd (db m s))" by (simp add: db_def sx run same_sagas)
qed

lemma saga_match_keeps: "keeps I (saga_match i)"
  unfolding saga_match_def by (intro keeps_intros db_keeps saga_frames)

lemma advance_to_keeps: "keeps I (advance_to a b k input m j r)"
  unfolding advance_to_def determine_target_slot_def
  by (intro keeps_intros db_keeps saga_frames complete_step_keeps saga_match_keeps)

lemma mark_each_keeps: "keeps I (mark_each_ready is)"
proof (induction "is")
  case (Cons i "is")
  then show ?case unfolding mark_each_ready.simps by (intro keeps_intros db_keeps saga_frames)
qed (unfold mark_each_ready.simps, rule keeps_sret)

lemma steps_keep:
  assumes "quiet_deps deps"
  shows "keeps I (step_validate_demos deps input m)" and "keeps I (step_get_bracket m)"
    and "keeps I (step_complete_match input)" and "keeps I (step_advance_winner m input)"
    and "keeps I (step_route_loser m input b)" and "keeps I (step_mark_ready_matches k l)"
    and "keeps I (step_update_standings m b)" and "keeps I (step_advance_stage m)"
    and "keeps I (step_update_player_stats deps input)"
proof -
  have deps: "keeps (sagas_are S) (demo_validator deps k c)" "keeps (sagas_are S) (stats_updater deps k a b f)" for S k c a b f
    using assms by (auto simp: quiet_deps_def)
  note rules = keeps_intros db_keeps saga_frames deps complete_step_keeps saga_match_keeps advance_to_keeps mark_each_keeps
  show "keeps I (step_validate_demos deps input m)" unfolding step_validate_demos_def by (intro rules)
  show "keeps I (step_get_bracket m)" unfolding step_get_bracket_def by (intro rules)
  show "keeps I (step_complete_match input)" unfolding step_complete_match_def Let_def split_def by (intro rules)
  show "keeps I (step_advance_winner m input)" unfolding step_advance_winner_def by (intro rules)
  show "keeps I (step_route_loser m input b)" unfolding step_route_loser_def by (intro rules)
  show "keeps I (step_mark_ready_matches k l)" unfolding step_mark_ready_matches_def by (intro rules)
  show "keeps I (step_update_standings m b)" unfolding step_update_standings_def by (intro rules)
  show "keeps I (step_advance_stage m)" unfolding step_advance_stage_def by (intro rules)
  show "keeps I (step_update_player_stats deps input)" unfolding step_update_player_stats_def by (intro rules)
qed

lemma inner_keeps:
  assumes "quiet_deps deps"
  shows "keeps I (run_progression_steps_inner deps input m)"
  unfolding run_progression_steps_inner_def Let_def by (intro keeps_intros steps_keep [OF assms])

end

interpretation working: saga_invariant "at_work x0 0" for x0
proof
  show "at_work x0 0 (v, x)" if "w_sagas v = w_sagas w" "at_work x0 0 (w, x)" for v w x
    using that by (simp add: at_work_def)
  show "keeps (at_work x0 0) (complete_step name out)" for name out
  proof
    fix s assume s: "at_work x0 0 s"
    obtain w x where [simp]: "s = (w, x)" by fastforce
    show "at_work x0 0 (snd (complete_step name out s))"
      using write_at_work [of x0 0 w x "\<lambda>t. SagaExecution_complete_step t name out" 0] s
      by (auto simp: complete_step_def SagaExecution_complete_step_def)
  qed
qed

text \<open>The first step may use one retry, when it refuses; all others reset the count.\<close>

lemma validate_at_work:
  "triple (at_work x0 0) (step_validate_match input) (\<lambda>_. at_work x0 0) (at_work x0 1)"
proof -
  have weaken: "triple (at_work x0 0) p (\<lambda>_. at_work x0 0) (at_work x0 1)" if "keeps (at_work x0 0) p" for p :: "'b saga"
    using that at_work_mono by (intro triple_conseq [OF that [unfolded triple_keeps]]) auto
  have refuse: "triple (at_work x0 0) (refuse_step name err) (\<lambda>_. at_work x0 0) (at_work x0 1)" for name err and a :: 'b
  proof (rule tripleI)
    fix s e t assume s: "at_work x0 0 s" and run: "refuse_step name err s = (Inl e, t)"
    obtain w x where [simp]: "s = (w, x)" by fastforce
    have "sg_retry_count x \<le> 0" using s by (simp add: at_work_def)
    then show "at_work x0 1 t"
      using write_at_work [of x0 0 w x "\<lambda>t. SagaExecution_fail_step t name err" 1] s run
      by (auto simp: refuse_step_def fail_step_def SagaExecution_fail_step_def)
  next
    fix s a t assume s: "at_work x0 0 s" and run: "refuse_step name err s = (Inr a, t)"
    then show "at_work x0 0 t" by (auto simp: refuse_step_def elim: sbind_okE)
  qed
  show ?thesis
    unfolding step_validate_match_def
    by (rule triple_sbind [OF weaken [OF working.saga_match_keeps]])
      (intro triple_if refuse weaken keeps_intros working.complete_step_keeps)
qed

lemma run_steps_at_work:
  assumes "quiet_deps deps"
  shows "triple (at_work x0 0) (run_steps deps input) (\<lambda>_. at_work x0 0) (at_work x0 1)"
proof -
  have weaken: "triple (at_work x0 0) p (\<lambda>_. at_work x0 0) (at_work x0 1)" if "keeps (at_work x0 0) p" for p :: "'b saga"
    using that at_work_mono by (intro triple_conseq [OF that [unfolded triple_keeps]]) auto
  show ?thesis
    unfolding run_steps_def
    by (rule triple_sbind [OF validate_at_work], rule weaken)
      (intro keeps_intros working.steps_keep [OF assms] working.inner_keeps [OF assms])
qed


section \<open>How a completion ends\<close>

text \<open>The match of the input exists and has no live completion; the next id is new.\<close>

definition may_start :: "MatchCompletionInput \<Rightarrow> world \<Rightarrow> bool" where
  "may_start input w \<longleftrightarrow> (\<exists>m. find_row m_id (mci_match_id input) (w_matches w) = Some m) \<and>
     (\<forall>x \<in> set (w_sagas w). sg_match_id x = Some (mci_match_id input) \<and> sg_saga_type x = ''match_completion'' \<longrightarrow>
        \<not> saga_live x) \<and>
     w_uuids w (w_next w) \<notin> sg_id ` set (w_sagas w)"

lemma started:
  assumes "may_start input w"
  obtains x0 w0 where "new_execution input w = (Inr x0, w0)" and "at_work x0 0 (w0, x0)"
    and "sg_id x0 = w_uuids w (w_next w)" and "sg_saga_type x0 = ''match_completion''" and "sg_max_retries x0 = 3"
    and "sg_match_id x0 = Some (mci_match_id input)" and "sg_input_data x0 = input_to_json input"
    and "same_board w w0"
proof -
  obtain m where m: "find_row m_id (mci_match_id input) (w_matches w) = Some m" using assms by (auto simp: may_start_def)
  let ?c = "\<lparr>csg_saga_type = ''match_completion'', csg_saga_version = 2, csg_tournament_id = Some (m_tournament_id m),
    csg_match_id = Some (mci_match_id input), csg_correlation_id = None, csg_input_data = input_to_json input,
    csg_max_retries = 3\<rparr>"
  let ?x = "saga_row (w_uuids w (w_next w)) (w_now w) ?c"
  let ?w = "w\<lparr>w_next := Suc (w_next w), w_sagas := w_sagas w @ [?x]\<rparr>"
  have idle: "\<not> list_ex (\<lambda>x. same_job ?c x \<and> saga_live x) (w_sagas w)"
    using assms by (auto simp: may_start_def list_ex_iff same_job_def)
  have run: "new_execution input w = (Inr ?x, ?w)"
    using idle by (simp add: new_execution_def m start_saga_def completion_definition_def with_max_retries_def
        SagaDefinition_new_def SagaContext_with_match_def saga_create_def insert_running_def new_uuid_def sbind_def)
  have "find_row sg_id (w_uuids w (w_next w)) (w_sagas w) = None"
    using assms by (simp add: may_start_def find_row_None_iff)
  then have "find_row sg_id (sg_id ?x) (w_sagas ?w) = Some ?x"
    by (simp add: find_row_append saga_row_def) (simp add: find_row_def)
  then have "at_work ?x 0 (?w, ?x)" by (simp add: at_work_def same_saga_def) (simp add: saga_row_def)
  with run show ?thesis by (rule that) (simp_all add: saga_row_def same_board_def)
qed

definition ended :: "SagaStatus \<Rightarrow> SagaExecution \<Rightarrow> world \<Rightarrow> SagaExecution \<Rightarrow> bool" where
  "ended s x0 w row \<longleftrightarrow> find_row sg_id (sg_id x0) (w_sagas w) = Some row \<and> same_saga x0 row \<and> sg_status row = s \<and>
     sg_retry_count row \<le> 1"

lemma ends_with:
  assumes "at_work x0 1 (w, x)" and "\<And>t. sg_id (f t x) = sg_id x \<and> sg_retry_count (f t x) = sg_retry_count x \<and> sg_status (f t x) = s"
  shows "\<exists>w' row. run_saga (write_execution f) x w = (Inr (Inr (), f (w_now w) x), w') \<and> ended s x0 w' row \<and>
    same_board w w'"
proof -
  have "sg_retry_count x \<le> 1" using assms(1) by (simp add: at_work_def)
  with write_at_work [OF assms(1), of f 1] assms(2) show ?thesis
    by (auto simp: run_saga_def ended_def same_saga_def)
qed

lemma execute_ends:
  assumes "quiet_deps deps" and "new_execution input w = (Inr x0, w0)" and "at_work x0 0 (w0, x0)"
    and "execute_completion deps input w = (result, w')"
  shows "\<exists>row. ended (case result of Inl e \<Rightarrow> SagaStatus.Failed
    | Inr r \<Rightarrow> if sres_success r then SagaStatus.Completed else SagaStatus.Paused) x0 w' row"
proof -
  obtain res w1 x1 where steps: "run_steps deps input (w0, x0) = (res, (w1, x1))" by (metis surj_pair)
  have work: "at_work x0 1 (w1, x1)"
  proof (cases res)
    case (Inl e)
    show ?thesis by (rule triple_err [OF run_steps_at_work [OF assms(1)] assms(3)]) (use steps Inl in simp)
  next
    case (Inr a)
    have "at_work x0 0 (w1, x1)" by (rule triple_ok [OF run_steps_at_work [OF assms(1)] assms(3)]) (use steps Inr in simp)
    then show ?thesis by (rule at_work_mono) simp
  qed
  have run: "run_saga (run_steps deps input) x0 w0 = (Inr (res, x1), w1)" by (simp add: run_saga_def steps)
  note completed = ends_with [OF work, of SagaExecution_complete SagaStatus.Completed]
  show ?thesis
  proof (cases res)
    case (Inr out)
    obtain w2 row where "run_saga complete_saga x1 w1 = (Inr (Inr (), SagaExecution_complete (w_now w1) x1), w2)"
      "ended SagaStatus.Completed x0 w2 row"
      using completed by (auto simp: complete_saga_def SagaExecution_complete_def)
    then show ?thesis using assms(2,4) run Inr
      by (auto simp: execute_completion_def SagaResult_success_def)
  next
    case (Inl e)
    show ?thesis
    proof (cases "pause_reason e")
      case e: (Some msg)
      obtain w2 row where "run_saga (pause_saga msg) x1 w1 = (Inr (Inr (), SagaExecution_pause (w_now w1) msg x1), w2)"
        "ended SagaStatus.Paused x0 w2 row"
        using ends_with [OF work, of "\<lambda>t. SagaExecution_pause t msg" SagaStatus.Paused]
        by (auto simp: pause_saga_def SagaExecution_pause_def)
      then show ?thesis using assms(2,4) run Inl e
        by (auto simp: execute_completion_def SagaResult_paused_def)
    next
      case None
      obtain w2 row where fail: "run_saga (fail_saga (DomainError_to_string e)) x1 w1 =
          (Inr (Inr (), SagaExecution_fail (w_now w1) (DomainError_to_string e) x1), w2)" "ended SagaStatus.Failed x0 w2 row"
        using ends_with [OF work, of "\<lambda>t. SagaExecution_fail t (DomainError_to_string e)" SagaStatus.Failed]
        by (auto simp: fail_saga_def SagaExecution_fail_def)
      have "execute_completion deps input w = (Inl e, w2)"
        using assms(2) run Inl None fail(1) by (simp add: execute_completion_def)
      with assms(4) fail(2) show ?thesis by auto
    qed
  qed
qed


text \<open>
  C6. Whatever happens to a completion that could start, its own row ends completed if it succeeded, paused
  if a review is awaited, and failed otherwise, never live; and a failed row has at most one of its three
  retries used, so that it is taken up again.
\<close>

theorem completion_settles_its_saga:
  assumes "quiet_deps deps" and "may_start input w" and "execute_completion deps input w = (result, w')"
  shows "\<exists>row. find_row sg_id (w_uuids w (w_next w)) (w_sagas w') = Some row \<and>
    sg_match_id row = Some (mci_match_id input) \<and>
    (case result of
       Inr r \<Rightarrow> sg_status row = (if sres_success r then SagaStatus.Completed else SagaStatus.Paused)
     | Inl e \<Rightarrow> sg_status row = SagaStatus.Failed \<and> retryable ''match_completion'' since row)"
proof -
  obtain x0 w0 where x0: "new_execution input w = (Inr x0, w0)" "at_work x0 0 (w0, x0)"
    "sg_id x0 = w_uuids w (w_next w)" "sg_saga_type x0 = ''match_completion''" "sg_max_retries x0 = 3"
    "sg_match_id x0 = Some (mci_match_id input)"
    using assms(2) by (rule started)
  from execute_ends [OF assms(1) x0(1,2) assms(3)] x0(3-6) show ?thesis
    by (cases result) (auto simp: ended_def same_saga_def retryable_def)
qed



section \<open>The effect of a completion\<close>

text \<open>
  \<open>does x0 m w a w'\<close>: on a board like that of \<open>w\<close> the saga returns \<open>a\<close> and leaves a board like that of \<open>w'\<close>.
\<close>

definition does :: "SagaExecution \<Rightarrow> 'a saga \<Rightarrow> world \<Rightarrow> 'a \<Rightarrow> world \<Rightarrow> bool" where
  "does x0 m w a w' \<longleftrightarrow> (\<forall>v x. at_work x0 0 (v, x) \<and> same_board w v \<longrightarrow>
     (\<exists>v' x'. m (v, x) = (Inr a, (v', x')) \<and> at_work x0 0 (v', x') \<and> same_board w' v'))"

lemma does_bind: "does x0 m w a w1 \<Longrightarrow> does x0 (f a) w1 b w2 \<Longrightarrow> does x0 (sbind m f) w b w2"
proof (unfold does_def, intro allI impI)
  fix v x
  assume m: "\<forall>v x. at_work x0 0 (v, x) \<and> same_board w v \<longrightarrow>
      (\<exists>v' x'. m (v, x) = (Inr a, (v', x')) \<and> at_work x0 0 (v', x') \<and> same_board w1 v')"
    and f: "\<forall>v x. at_work x0 0 (v, x) \<and> same_board w1 v \<longrightarrow>
      (\<exists>v' x'. f a (v, x) = (Inr b, (v', x')) \<and> at_work x0 0 (v', x') \<and> same_board w2 v')"
    and v: "at_work x0 0 (v, x) \<and> same_board w v"
  from m v obtain v1 x1 where "m (v, x) = (Inr a, (v1, x1))" "at_work x0 0 (v1, x1)" "same_board w1 v1" by blast
  moreover from f this(2,3) obtain v2 x2 where "f a (v1, x1) = (Inr b, (v2, x2))" "at_work x0 0 (v2, x2)" "same_board w2 v2"
    by blast
  ultimately show "\<exists>v' x'. sbind m f (v, x) = (Inr b, (v', x')) \<and> at_work x0 0 (v', x') \<and> same_board w2 v'"
    by auto
qed

lemma does_ret: "does x0 (sret a) w a w"
  by (auto simp: does_def)

lemma does_step: "does x0 (complete_step name out) w () w"
proof (unfold does_def, intro allI impI, elim conjE)
  fix v x assume v: "at_work x0 0 (v, x)" and w: "same_board w v"
  from write_at_work [OF v, of "\<lambda>t. SagaExecution_complete_step t name out" 0] obtain v' where
    "complete_step name out (v, x) = (Inr (), (v', SagaExecution_complete_step (w_now v) name out x))"
    "at_work x0 0 (v', SagaExecution_complete_step (w_now v) name out x)" "same_board v v'"
    by (auto simp: complete_step_def SagaExecution_complete_step_def)
  with w show "\<exists>v' x'. complete_step name out (v, x) = (Inr (), (v', x')) \<and> at_work x0 0 (v', x') \<and> same_board w v'"
    by (auto simp: same_board_def)
qed

lemma does_step_then: "does x0 p w b w' \<Longrightarrow> does x0 (sbind (complete_step name out) (\<lambda>_. p)) w b w'"
  by (rule does_bind [OF does_step])

text \<open>A database operation whose result is used, and one whose result is not.\<close>

lemma does_db:
  assumes "\<And>v. same_board w v \<Longrightarrow> \<exists>v'. m v = (Inr a, v') \<and> same_board w' v' \<and> w_sagas v' = w_sagas v"
  shows "does x0 (db m) w a w'"
proof (unfold does_def, intro allI impI, elim conjE)
  fix v x assume v: "at_work x0 0 (v, x)" and w: "same_board w v"
  from assms [OF w] obtain v' where "m v = (Inr a, v')" "same_board w' v'" "w_sagas v' = w_sagas v" by blast
  with v show "\<exists>v' x'. db m (v, x) = (Inr a, (v', x')) \<and> at_work x0 0 (v', x') \<and> same_board w' v'"
    by (simp add: db_def at_work_def)
qed

lemma does_db_then:
  assumes "\<And>v. same_board w v \<Longrightarrow> \<exists>a v'. m v = (Inr a, v') \<and> same_board w1 v' \<and> w_sagas v' = w_sagas v"
    and "does x0 p w1 b w2"
  shows "does x0 (sbind (db m) (\<lambda>_. p)) w b w2"
proof (unfold does_def, intro allI impI, elim conjE)
  fix v x assume v: "at_work x0 0 (v, x)" and w: "same_board w v"
  from assms(1) [OF w] obtain a v' where "m v = (Inr a, v')" "same_board w1 v'" "w_sagas v' = w_sagas v" by blast
  with v have "db m (v, x) = (Inr a, (v', x))" "at_work x0 0 (v', x)" by (simp_all add: db_def at_work_def)
  with assms(2) \<open>same_board w1 v'\<close>
  show "\<exists>v' x'. sbind (db m) (\<lambda>_. p) (v, x) = (Inr b, (v', x')) \<and> at_work x0 0 (v', x') \<and> same_board w2 v'"
    by (auto simp: does_def)
qed

lemma does_execution:
  assumes "\<And>x. does x0 (f x) w b w'"
  shows "does x0 (sbind execution f) w b w'"
  using assms unfolding does_def execution_def by simp

lemma does_match: "find_row m_id i (w_matches w) = Some m \<Longrightarrow> does x0 (saga_match i) w m w"
  by (auto simp: does_def saga_match_def db_def same_board_def sbind_def)

lemma does_find_match: "does x0 (db (match_find_by_id i)) w (find_row m_id i (w_matches w)) w"
  by (rule does_db) (simp add: same_board_def)

lemma log_runs:
  assumes "cpl_target_position c \<in> {None, Some 1, Some 2}"
  shows "same_board w v \<Longrightarrow> \<exists>a v'. progression_log c v = (Inr a, v') \<and> same_board w v' \<and> w_sagas v' = w_sagas v"
  using assms by (auto simp: progression_log_def new_uuid_def insert_returning_def sbind_def same_board_def)

definition seated_at :: "uuid \<Rightarrow> ParticipantSlot \<Rightarrow> uuid \<Rightarrow> TournamentRegistration \<Rightarrow> world \<Rightarrow> world" where
  "seated_at j s i r w = w_matches_update (modify_row m_id j (placed s i r (w_now w))) w"

lemma assign_runs:
  assumes "find_row m_id j (w_matches w) = Some target" and "same_board w v"
  shows "\<exists>a v'. match_assign_participant j s i (r_participant_name r) (r_participant_logo_url r) (r_seed r) v = (Inr a, v') \<and>
    same_board (seated_at j s i r w) v' \<and> w_sagas v' = w_sagas v"
proof -
  have "seat j (slot_pos s) i r v = (Inr (), w_matches_update (modify_row m_id j (placed s i r (w_now v))) v)"
    by (rule seat_run) (use assms in \<open>simp add: same_board_def\<close>)
  moreover have "(if slot_pos s = 1 then One else Two) = s" by (cases s) simp_all
  ultimately show ?thesis using assms(2)
    by (auto simp: seat_def seated_at_def same_board_def elim!: sbind_okE)
qed

lemma does_advance:
  assumes "find_row m_id j (w_matches w) = Some target" and "find_row r_id i (w_registrations w) = Some r"
  shows "does x0 (advance_to a b kind input m j i) w (Some j) (seated_at j (target_slot m target) i r w)"
proof -
  let ?s = "target_slot m target"
  have found: "does x0 (db (registration_find_by_id i)) w (Some r) w"
    by (rule does_db) (use assms(2) in \<open>simp add: registration_find_by_id_def same_board_def\<close>)
  have slot: "does x0 (determine_target_slot m j) w ?s w"
    unfolding determine_target_slot_def by (rule does_bind [OF does_match [OF assms(1)] does_ret])
  have place: "(if ?s = One then 1 else 2 :: int) \<in> {1, 2}" by simp
  show ?thesis
    unfolding advance_to_def
    by (rule does_bind [OF found], unfold sneed_simps sbind_sret, rule does_bind [OF slot],
        rule does_db_then [OF assign_runs [OF assms(1)]], assumption, rule does_execution,
        rule does_db_then [OF log_runs], use place in simp, assumption, rule does_step_then, rule does_ret)
qed


definition readied :: "uuid \<Rightarrow> world \<Rightarrow> world" where
  "readied i w = (case find_row m_id i (w_matches w) of
     None \<Rightarrow> w
   | Some m \<Rightarrow> if waits_full m then w_matches_update (modify_row m_id i
       (\<lambda>m. m\<lparr>m_status := TournamentMatchStatus.Ready, m_updated_at := w_now w\<rparr>)) w else w)"

lemma does_mark_each: "\<exists>ids. does x0 (mark_each_ready is) w ids (fold readied is w)"
proof (induction "is" arbitrary: w)
  case Nil
  show ?case unfolding mark_each_ready.simps fold.simps id_apply by (rule exI, rule does_ret)
next
  case (Cons i "is")
  obtain ids where rest: "does x0 (mark_each_ready is) (readied i w) ids (fold readied is (readied i w))"
    using Cons.IH by blast
  have "\<exists>one. does x0 (if case find_row m_id i (w_matches w) of None \<Rightarrow> False
       | Some target \<Rightarrow> m_status target = TournamentMatchStatus.Pending \<and> TournamentMatch_has_both_participants target
     then sbind (db (match_update_status i TournamentMatchStatus.Ready)) (\<lambda>_. sret [i]) else sret []) w one (readied i w)"
  proof (cases "find_row m_id i (w_matches w)")
    case None
    then show ?thesis by (simp add: readied_def) (rule exI, rule does_ret)
  next
    case (Some m)
    have full: "m_status m = TournamentMatchStatus.Pending \<and> TournamentMatch_has_both_participants m \<longleftrightarrow> waits_full m"
      by (auto simp: waits_full_def TournamentMatch_has_both_participants_def)
    show ?thesis
    proof (cases "waits_full m")
      case True
      have "does x0 (sbind (db (match_update_status i TournamentMatchStatus.Ready)) (\<lambda>_. sret [i])) w [i] (readied i w)"
        by (rule does_db_then [OF _ does_ret])
          (use Some True in \<open>auto simp: match_update_status_def match_set_run same_board_def readied_def\<close>)
      then show ?thesis using Some True full by auto
    next
      case False
      then show ?thesis using Some full by (auto simp: readied_def intro!: exI does_ret)
    qed
  qed
  then obtain one where one: "does x0 (if case find_row m_id i (w_matches w) of None \<Rightarrow> False
       | Some target \<Rightarrow> m_status target = TournamentMatchStatus.Pending \<and> TournamentMatch_has_both_participants target
     then sbind (db (match_update_status i TournamentMatchStatus.Ready)) (\<lambda>_. sret [i]) else sret []) w one (readied i w)" ..
  show ?case unfolding mark_each_ready.simps fold.simps comp_apply
    by (rule exI [of _ "one @ ids"], rule does_bind [OF does_find_match], rule does_bind [OF one],
        rule does_bind [OF rest], rule does_ret)
qed

text \<open>Dependencies that find nothing wrong with the demos and leave the board alone.\<close>

definition clean_deps :: "CompletionDeps \<Rightarrow> bool" where
  "clean_deps deps \<longleftrightarrow> quiet_deps deps \<and> (\<forall>m c w. demo_validator deps m c w = (Inr [], w)) \<and>
     (\<forall>m a b f w. same_board w (snd (stats_updater deps m a b f w)))"

lemma does_attempt: "does x0 m w a w' \<Longrightarrow> does x0 (sattempt m) w (Inr a) w'"
  unfolding does_def by (metis fst_conv sattempt_run snd_conv)

lemma does_stats:
  assumes "clean_deps deps"
  shows "does x0 (step_update_player_stats deps input) w () w"
proof -
  have finished: "does x0 (sbind (sattempt (complete_step name out)) (\<lambda>_. sret ())) w () w" for name out
    by (rule does_bind [OF does_attempt [OF does_step] does_ret])
  let ?m = "stats_updater deps (mci_match_id input) (mci_winner_registration_id input)
          (mci_loser_registration_id input) (mci_is_forfeit input)"
  have tried: "does x0 (sbind (sattempt (db ?m)) f) w () w" if f: "\<And>r. does x0 (f r) w () w" for f
  proof (unfold does_def, intro allI impI)
    fix v x assume v: "at_work x0 0 (v, x) \<and> same_board w v"
    obtain r v1 where run: "?m v = (r, v1)" by fastforce
    have "same_board v (snd (?m v))" using assms by (simp add: clean_deps_def)
    with run v have board: "same_board w v1" by (simp add: same_board_def)
    have "keeps (at_work x0 0) (db ?m)"
      by (rule working.db_keeps) (use assms in \<open>simp add: clean_deps_def quiet_deps_def\<close>)
    then have "at_work x0 0 (snd (db ?m (v, x)))" using v unfolding keeps_def by blast
    then have "at_work x0 0 (v1, x)" by (simp add: db_def run)
    with f board show "\<exists>v' x'. sbind (sattempt (db ?m)) f (v, x) = (Inr (), (v', x')) \<and> at_work x0 0 (v', x') \<and> same_board w v'"
      by (auto simp: does_def db_def run)
  qed
  show ?thesis
  proof (cases "mci_is_forfeit input")
    case True
    show ?thesis unfolding step_update_player_stats_def if_P [OF True] by (rule finished)
  next
    case False
    show ?thesis unfolding step_update_player_stats_def if_not_P [OF False] by (rule tried, rule finished)
  qed
qed


lemma does_demos:
  assumes "clean_deps deps"
  shows "does x0 (step_validate_demos deps input m) w None w"
proof (cases "mci_is_forfeit input")
  case True
  show ?thesis unfolding step_validate_demos_def if_P [OF True] by (rule does_step_then, rule does_ret)
next
  case False
  show ?thesis
  proof (cases "mci_result_claim_id input")
    case None
    show ?thesis unfolding step_validate_demos_def if_not_P [OF False] None option.case by (rule does_step_then, rule does_ret)
  next
    case (Some c)
    have none: "does x0 (db (demo_validator deps (mci_match_id input) c)) w [] w"
      by (rule does_db) (use assms in \<open>simp add: clean_deps_def\<close>)
    show ?thesis
      unfolding step_validate_demos_def if_not_P [OF False] Some option.case
      by (rule does_bind [OF none], unfold if_P [OF refl], rule does_step_then, rule does_ret)
  qed
qed

text \<open>A match of an elimination bracket whose participants both move on.\<close>

definition both_move_on :: "MatchCompletionInput \<Rightarrow> TournamentMatch \<Rightarrow> uuid \<Rightarrow> uuid \<Rightarrow> world \<Rightarrow> bool" where
  "both_move_on input m j k w \<longleftrightarrow> find_row m_id (mci_match_id input) (w_matches w) = Some m \<and>
     m_status m = TournamentMatchStatus.Completed \<and> plays (mci_winner_registration_id input) m \<and>
     plays (mci_loser_registration_id input) m \<and> mci_winner_registration_id input \<noteq> mci_loser_registration_id input \<and>
     m_winner_progresses_to m = Some j \<and> m_loser_progresses_to m = Some k \<and> j \<noteq> k \<and>
     (\<exists>b st. find_row b_id (m_bracket_id m) (w_brackets w) = Some b \<and> \<not> is_table (b_bracket_type b) \<and>
        find_row st_id (b_stage_id b) (w_stages w) = Some st \<and> st_format st \<noteq> StageFormat.GroupStage)"

lemma does_run_steps:
  assumes "clean_deps deps" and "both_move_on input m j k w"
    and "find_row r_id (mci_winner_registration_id input) (w_registrations w) = Some r"
    and "find_row r_id (mci_loser_registration_id input) (w_registrations w) = Some r'"
    and "find_row m_id j (w_matches w) = Some target" and "find_row m_id k (w_matches w) = Some target'"
  defines "w' \<equiv> readied k (readied j (seated_at k (target_slot m target') (mci_loser_registration_id input) r'
    (seated_at j (target_slot m target) (mci_winner_registration_id input) r w)))"
  shows "\<exists>out. does x0 (run_steps deps input) w out w' \<and> mco_winner_next_match_id out = Some j \<and>
    mco_loser_next_match_id out = Some k"
proof -
  let ?winner = "mci_winner_registration_id input" and ?loser = "mci_loser_registration_id input"
  let ?w1 = "seated_at j (target_slot m target) ?winner r w"
  let ?w2 = "seated_at k (target_slot m target') ?loser r' ?w1"
  obtain b st where b: "find_row b_id (m_bracket_id m) (w_brackets w) = Some b" "\<not> is_table (b_bracket_type b)"
    "find_row st_id (b_stage_id b) (w_stages w) = Some st" "st_format st \<noteq> StageFormat.GroupStage"
    and m: "find_row m_id (mci_match_id input) (w_matches w) = Some m" "m_status m = TournamentMatchStatus.Completed"
    "plays ?winner m" "plays ?loser m" "?winner \<noteq> ?loser" "m_winner_progresses_to m = Some j"
    "m_loser_progresses_to m = Some k" "j \<noteq> k"
    using assms(2) by (auto simp: both_move_on_def)
  have validate: "does x0 (step_validate_match input) w m w"
    unfolding step_validate_match_def
    by (rule does_bind [OF does_match [OF m(1)]]) (use m in \<open>simp add: does_step_then does_ret\<close>)
  have bracket: "does x0 (step_get_bracket m) w b w"
    unfolding step_get_bracket_def
    by (rule does_bind [where a = "Some b" and ?w1.0 = w, OF does_db])
      (use b(1) in \<open>auto simp: same_board_def intro: does_step_then does_ret\<close>)
  have complete: "does x0 (step_complete_match input) w () w"
    unfolding step_complete_match_def
    by (rule does_bind [OF does_match [OF m(1)]]) (use m(2) in \<open>simp add: does_step\<close>)
  have winner: "does x0 (step_advance_winner m input) w (Some j) ?w1"
    unfolding step_advance_winner_def m(6) option.case by (rule does_advance [OF assms(5,3)])
  have "find_row m_id k (w_matches ?w1) = Some target'"
    using assms(6) m(8) by (simp add: seated_at_def find_modify_key)
  moreover have "find_row r_id ?loser (w_registrations ?w1) = Some r'" using assms(4) by (simp add: seated_at_def)
  ultimately have loser: "does x0 (step_route_loser m input b) ?w1 (Some k) ?w2"
    unfolding step_route_loser_def m(7) option.case by (rule does_advance)
  obtain ids where ids: "does x0 (mark_each_ready [j, k]) ?w2 ids w'"
    using does_mark_each [of x0 "[j, k]" ?w2] by (auto simp: w'_def)
  have ready: "does x0 (step_mark_ready_matches (Some j) (Some k)) ?w2 () w'"
    unfolding step_mark_ready_matches_def
    by (rule does_bind [where a = ids, OF _ does_step]) (use ids in \<open>simp add: List.map_filter_def\<close>)
  have standings: "does x0 (step_update_standings m b) w' False w'"
    unfolding step_update_standings_def if_P [OF b(2)] by (rule does_step_then, rule does_ret)
  have frame: "w_brackets (readied i v) = w_brackets v" "w_stages (readied i v) = w_stages v" for i v
    by (simp_all add: readied_def split: option.split)
  have stage: "does x0 (step_advance_stage m) w' False w'"
    unfolding step_advance_stage_def
  proof (rule does_bind [where a = None and ?w1.0 = w', OF does_db])
    fix v assume v: "same_board w' v"
    have "w_brackets v = w_brackets w" "w_stages v = w_stages w"
      using v by (simp_all add: same_board_def w'_def frame seated_at_def)
    then show "\<exists>v'. advance_stage_if_complete (m_bracket_id m) v = (Inr None, v') \<and> same_board w' v' \<and> w_sagas v' = w_sagas v"
      using no_group_stage [of "m_bracket_id m" v b st] b v by simp
  qed (simp add: does_step_then does_ret)
  let ?out = "\<lparr>mco_match_id = mci_match_id input, mco_winner_next_match_id = Some j, mco_loser_next_match_id = Some k,
    mco_standings_updated = False, mco_stage_advanced = False, mco_review_pending = False, mco_review_id = None,
    mco_summary = []\<rparr>"
  have "does x0 (run_progression_steps_inner deps input m) w (?out\<lparr>mco_summary := build_summary ?out b\<rparr>) w'"
    unfolding run_progression_steps_inner_def Let_def
    by (rule does_bind [OF bracket], rule does_bind [OF complete], rule does_bind [OF winner], rule does_bind [OF loser],
        rule does_bind [OF ready], rule does_bind [OF standings], rule does_bind [OF stage],
        rule does_bind [OF does_stats [OF assms(1)]], rule does_ret)
  then have "does x0 (run_steps deps input) w (?out\<lparr>mco_summary := build_summary ?out b\<rparr>) w'"
    unfolding run_steps_def
    by (intro does_bind [OF validate] does_bind [OF does_demos [OF assms(1)]]) simp
  then show ?thesis by (intro exI conjI) (assumption, simp_all)
qed


definition ready_row :: "datetime \<Rightarrow> TournamentMatch \<Rightarrow> TournamentMatch" where
  "ready_row t x = (if waits_full x then x\<lparr>m_status := TournamentMatchStatus.Ready, m_updated_at := t\<rparr> else x)"

lemma find_readied:
  "find_row m_id i (w_matches (readied k v)) =
    map_option (\<lambda>x. if i = k then ready_row (w_now v) x else x) (find_row m_id i (w_matches v))"
proof (cases "find_row m_id k (w_matches v)")
  case None
  then show ?thesis by (cases "i = k"; simp add: readied_def option.map_ident)
next
  case (Some m)
  let ?f = "\<lambda>m. m\<lparr>m_status := TournamentMatchStatus.Ready, m_updated_at := w_now v\<rparr>"
  have "find_row m_id i (modify_row m_id k ?f (w_matches v)) =
      map_option (\<lambda>x. if i = k then ?f x else x) (find_row m_id i (w_matches v))"
    by (rule find_modify_key) simp
  with Some show ?thesis
    by (cases "i = k") (simp_all add: readied_def ready_row_def option.map_ident)
qed

lemma find_seated:
  "find_row m_id i (w_matches (seated_at j s r reg v)) =
    map_option (\<lambda>x. if i = j then placed s r reg (w_now v) x else x) (find_row m_id i (w_matches v))"
  unfolding seated_at_def by (simp add: find_modify_key)

lemma ready_row_fields [simp]:
  "occupant q (ready_row t x) = occupant q x"
  "m_status (ready_row t x) = (if m_status x = TournamentMatchStatus.Pending \<and> occupant One x \<noteq> None \<and> occupant Two x \<noteq> None
     then TournamentMatchStatus.Ready else m_status x)"
  by (cases q; simp add: ready_row_def occupant.simps) (simp add: ready_row_def waits_full_def occupant.simps)




section \<open>Stored inputs\<close>

definition scores_fit :: "MatchCompletionInput \<Rightarrow> bool" where
  "scores_fit i \<longleftrightarrow> - (2 ^ 31) \<le> mci_winner_score i \<and> mci_winner_score i < 2 ^ 31 \<and>
     - (2 ^ 31) \<le> mci_loser_score i \<and> mci_loser_score i < 2 ^ 31"

lemma input_reads_back:
  assumes "scores_fit i"
  shows "input_from_json (input_to_json i) = Some i"
proof -
  have "as_optional (Some (json_id x)) = Some x" for x by (cases x) (simp_all add: json_id_def)
  then show ?thesis using assms by (simp add: input_to_json_def scores_fit_def)
qed

lemma as_score_fits: "as_score j = Some n \<Longrightarrow> - (2 ^ 31) \<le> n \<and> n < 2 ^ 31"
  by (induction j rule: as_score.induct) (auto split: if_splits)

lemma read_fits: "input_from_json j = Some i \<Longrightarrow> scores_fit i"
  by (induction j rule: input_from_json.induct) (auto simp: bind_eq_Some_conv scores_fit_def dest: as_score_fits)

definition all_readable :: "world \<Rightarrow> bool" where
  "all_readable w \<longleftrightarrow> (\<forall>row \<in> set (w_sagas w). sg_saga_type row = ''match_completion'' \<longrightarrow>
     input_from_json (sg_input_data row) \<noteq> None)"

lemma all_readable_map:
  assumes "all_readable w" and "w_sagas v = map f (w_sagas w)"
    and "\<And>x. sg_saga_type (f x) = sg_saga_type x \<and> sg_input_data (f x) = sg_input_data x"
  shows "all_readable v"
  using assms by (auto simp: all_readable_def)

lemma write_readable: "keeps (\<lambda>(w, x). all_readable w) (write_execution f)"
proof
  fix s :: "world \<times> SagaExecution" assume s: "case s of (w, x) \<Rightarrow> all_readable w"
  obtain w x where [simp]: "s = (w, x)" by fastforce
  let ?y = "f (w_now w) x"
  show "case snd (write_execution f s) of (w, x) \<Rightarrow> all_readable w"
  proof (cases "find_row sg_id (sg_id ?y) (w_sagas w)")
    case None
    then show ?thesis using s
      by (simp add: write_execution_def db_def saga_update_def update_returning_def sbind_def Let_def)
  next
    case (Some row)
    have "all_readable (w_sagas_update (modify_row sg_id (sg_id ?y) (written (w_now w) ?y)) w)"
      by (rule all_readable_map [of w _ "\<lambda>r. if sg_id r = sg_id ?y then written (w_now w) ?y r else r"])
        (use s in \<open>simp_all add: modify_row_def\<close>)
    then show ?thesis using write_run [where f = f and w = w and x = x, OF Some] by simp
  qed
qed

interpretation readable: saga_invariant "\<lambda>(w, x). all_readable w"
proof
  show "case (v, x) of (w, x) \<Rightarrow> all_readable w" if "w_sagas v = w_sagas w" "case (w, x) of (w, x) \<Rightarrow> all_readable w"
    for v w and x :: SagaExecution
    using that by (simp add: all_readable_def)
  show "keeps (\<lambda>(w, x). all_readable w) (complete_step name out)" for name out
    unfolding complete_step_def by (rule write_readable)
qed

lemma run_saga_readable:
  assumes m: "keeps (\<lambda>(w, x). all_readable w) m"
  shows "keeps all_readable (run_saga m x)"
proof
  fix w assume w: "all_readable w"
  obtain r w' x' where run: "m (w, x) = (r, (w', x'))" by (metis surj_pair)
  from keepsD [OF m _ run] w show "all_readable (snd (run_saga m x w))" by (simp add: run_saga_def run)
qed

lemma steps_readable:
  assumes "quiet_deps deps"
  shows "keeps (\<lambda>(w, x). all_readable w) (run_steps deps input)"
    and "keeps (\<lambda>(w, x). all_readable w) (run_progression_steps deps input)"
proof -
  have "keeps (\<lambda>(w, x). all_readable w) (step_validate_match input)"
    unfolding step_validate_match_def refuse_step_def fail_step_def
    by (intro keeps_intros readable.saga_match_keeps readable.complete_step_keeps write_readable)
  then show "keeps (\<lambda>(w, x). all_readable w) (run_steps deps input)"
    unfolding run_steps_def by (intro keeps_intros readable.steps_keep [OF assms] readable.inner_keeps [OF assms])
  show "keeps (\<lambda>(w, x). all_readable w) (run_progression_steps deps input)"
    unfolding run_progression_steps_def by (intro keeps_intros readable.saga_match_keeps readable.inner_keeps [OF assms])
qed

lemma insert_readable:
  assumes "input_from_json (csg_input_data c) \<noteq> None"
  shows "keeps all_readable (saga_create c)"
proof -
  have one: "keeps all_readable (insert_running c)"
    using assms by (auto simp: keeps_def insert_running_def new_uuid_def sbind_def all_readable_def saga_row_def)
  have retire: "keeps all_readable (retire_stale_live_saga c)"
  proof
    fix w assume w: "all_readable w"
    have "all_readable (w_sagas_update (map (\<lambda>x. if stale_live (w_now w) c x then retired (w_now w) x else x)) w)"
      by (rule all_readable_map [OF w, of _ "\<lambda>x. if stale_live (w_now w) c x then retired (w_now w) x else x"])
        (simp_all add: retired_def)
    with w show "all_readable (snd (retire_stale_live_saga c w))" by (simp add: retire_stale_live_saga_def)
  qed
  show ?thesis unfolding saga_create_def by (intro keeps_intros one retire)
qed

lemma new_execution_readable:
  assumes "scores_fit input"
  shows "keeps all_readable (new_execution input)"
  unfolding new_execution_def start_saga_def match_find_by_id_def
  by (intro keeps_intros insert_readable) (simp add: input_reads_back [OF assms])

lemma finish_readable: "keeps all_readable (run_saga complete_saga x)" "keeps all_readable (run_saga (pause_saga r) x)"
    "keeps all_readable (run_saga (fail_saga r) x)" "keeps all_readable (run_saga (record_retry b) x)"
  unfolding complete_saga_def pause_saga_def fail_saga_def record_retry_def by (intro run_saga_readable write_readable)+

lemma keeps_sum [keeps_intros]:
  "(\<And>e. keeps I (f e)) \<Longrightarrow> (\<And>a. keeps I (g a)) \<Longrightarrow> keeps I (case x of Inl e \<Rightarrow> f e | Inr a \<Rightarrow> g a)"
  by (cases x) simp_all

lemma execute_readable:
  assumes "quiet_deps deps" and "scores_fit input"
  shows "keeps all_readable (execute_completion deps input)"
  unfolding execute_completion_def split_def
  by (intro keeps_intros new_execution_readable [OF assms(2)] run_saga_readable steps_readable [OF assms(1)] finish_readable)


lemma continue_readable:
  assumes "quiet_deps deps" and "scores_fit input"
  shows "keeps all_readable (continue_after_review deps k input)"
  unfolding continue_after_review_def review_find_by_match_id_def saga_find_by_match_def split_def
  by (intro keeps_intros new_execution_readable [OF assms(2)] run_saga_readable steps_readable [OF assms(1)] finish_readable)

lemma stall_readable: "keeps all_readable (raise_progression_stall input)"
proof -
  have "keeps all_readable new_uuid" by (simp add: keeps_def new_uuid_def all_readable_def)
  moreover have "keeps all_readable (review_insert r)" for r
    by (simp add: keeps_def review_insert_def all_readable_def)
  ultimately show ?thesis
    unfolding raise_progression_stall_def create_for_progression_stall_def review_find_by_match_id_def Let_def
    by (intro keeps_intros)
qed

lemma redrive_readable:
  assumes "quiet_deps deps"
  shows "keeps all_readable (redrive deps x s)"
proof (cases "input_from_json (sg_input_data x)")
  case None
  show ?thesis unfolding redrive_def None option.case retry_row_def by (intro keeps_intros finish_readable)
next
  case (Some stored)
  have "scores_fit (stored\<lparr>mci_saga_id := None\<rparr>)" using read_fits [OF Some] by (simp add: scores_fit_def)
  note run = execute_readable [OF assms this]
  show ?thesis
    unfolding redrive_def Some option.case retry_row_def retire_row_def split_def Let_def
    by (intro keeps_intros finish_readable stall_readable run)
qed

lemma each_row_readable:
  assumes "\<And>x s. keeps all_readable (f x s)"
  shows "keeps all_readable (each_row f xs s)"
proof (induction xs arbitrary: s)
  case (Cons x xs)
  show ?case unfolding each_row.simps by (intro keeps_intros assms Cons.IH)
qed (unfold each_row.simps, rule keeps_sret)

text \<open>
  C22. Every completion saga is stored with an input that reads back as what was stored, and no
  completion, no resumption after a review and no pass of the re-drive changes that: the branch of the
  re-drive that retires a saga for an unreadable input is never taken.
\<close>

theorem stored_inputs_stay_readable:
  assumes "quiet_deps deps" and "scores_fit input" and "all_readable w"
  shows "input_from_json (input_to_json input) = Some input \<and>
    all_readable (snd (execute_completion deps input w)) \<and>
    all_readable (snd (continue_after_review deps k input w)) \<and>
    all_readable (snd (redrive_stuck_completion_sagas deps cfg t s w))"
proof -
  have "keeps all_readable (redrive_stuck_completion_sagas deps cfg t s)"
    unfolding redrive_stuck_completion_sagas_def scan_def saga_find_retryable_def
    by (intro keeps_intros each_row_readable redrive_readable assms(1))
  with execute_readable [OF assms(1,2)] continue_readable [OF assms(1,2), of k] assms(3) input_reads_back [OF assms(2)]
  show ?thesis unfolding keeps_def by blast
qed

section \<open>Reviews\<close>

definition awaiting :: "uuid \<Rightarrow> uuid \<Rightarrow> ResultReview \<Rightarrow> bool" where
  "awaiting c1 c2 r \<longleftrightarrow> rv_status r = ResultReviewStatus.PendingAcknowledgment \<and>
     rv_captain1_registration_id r = c1 \<and> rv_captain2_registration_id r = c2"

lemma second_acknowledgment:
  assumes "find_row rv_id i (w_reviews w) = Some r" and "awaiting c1 c2 r" and "c1 \<noteq> c2"
    and "rv_captain1_acknowledged r" and "\<not> rv_captain2_acknowledged r"
  shows "\<exists>r2 w2. acknowledge i c2 v w = (Inr r2, w2) \<and> rv_status r2 = ResultReviewStatus.Acknowledged"
  using assms find_row_key [OF assms(1)]
  by (simp add: acknowledge_def get_review_def review_find_by_id_def awaiting_def ResultReview_get_captain_side_def
      ResultReview_is_captain_acknowledged_def review_update_captain_acknowledgment_def review_update_status_def
      review_execute_def find_modify_row)

text \<open>
  A review of a roster needs both captains: after the first has acknowledged it is still pending, a
  second acknowledgment of the same side is refused, and the other side settles it. Nobody else can.
\<close>

theorem both_captains_acknowledge:
  assumes "find_row rv_id i (w_reviews w) = Some r" and "awaiting c1 c2 r" and "c1 \<noteq> c2"
    and "\<not> rv_captain1_acknowledged r" and "\<not> rv_captain2_acknowledged r"
  shows "\<exists>r1 w1 r2 w2. acknowledge i c1 u w = (Inr r1, w1) \<and> awaiting c1 c2 r1 \<and>
    acknowledge i c1 v w1 = (Inl (ReviewAlreadyAcknowledged 1), w1) \<and>
    acknowledge i c2 v w1 = (Inr r2, w2) \<and> rv_status r2 = ResultReviewStatus.Acknowledged \<and>
    (\<forall>c. c \<noteq> c1 \<and> c \<noteq> c2 \<longrightarrow> (\<exists>e. acknowledge i c v w = (Inl (NotAuthorized e), w)))"
proof -
  let ?t = "w_now w"
  let ?f = "\<lambda>r. r\<lparr>rv_captain1_acknowledged := True, rv_captain1_acknowledged_at := Some ?t,
    rv_captain1_acknowledged_by_user_id := Some u, rv_updated_at := ?t\<rparr>"
  let ?w1 = "w_reviews_update (modify_row rv_id i ?f) w"
  have first: "acknowledge i c1 u w = (Inr (?f r), ?w1)"
    using assms find_row_key [OF assms(1)]
    by (simp add: acknowledge_def get_review_def review_find_by_id_def awaiting_def ResultReview_get_captain_side_def
        ResultReview_is_captain_acknowledged_def review_update_captain_acknowledgment_def review_execute_def find_modify_row)
  have row: "find_row rv_id i (w_reviews ?w1) = Some (?f r)"
    using assms(1) find_row_key [OF assms(1)] by (simp add: find_modify_row)
  have again: "acknowledge i c1 v ?w1 = (Inl (ReviewAlreadyAcknowledged 1), ?w1)"
    using row assms(2)
    by (simp add: acknowledge_def get_review_def review_find_by_id_def awaiting_def ResultReview_get_captain_side_def
        ResultReview_is_captain_acknowledged_def)
  have second: "\<exists>r2 w2. acknowledge i c2 v ?w1 = (Inr r2, w2) \<and> rv_status r2 = ResultReviewStatus.Acknowledged"
    by (rule second_acknowledgment [OF row]) (use assms(2,3,5) in \<open>simp_all add: awaiting_def\<close>)
  have others: "\<forall>c. c \<noteq> c1 \<and> c \<noteq> c2 \<longrightarrow> (\<exists>e. acknowledge i c v w = (Inl (NotAuthorized e), w))"
    using assms(1,2)
    by (simp add: acknowledge_def get_review_def review_find_by_id_def awaiting_def ResultReview_get_captain_side_def)
  have "awaiting c1 c2 (?f r)" using assms(2) by (simp add: awaiting_def)
  with first again second others show ?thesis by blast
qed

section \<open>Examples\<close>

definition plain_deps :: CompletionDeps where
  "plain_deps = \<lparr>demo_validator = (\<lambda>_ _. sret []), stats_updater = (\<lambda>_ _ _ _. sret ())\<rparr>"

definition cup_input :: "uuid \<Rightarrow> MatchCompletionInput" where
  "cup_input winner = \<lparr>mci_match_id = ''m1'', mci_winner_registration_id = winner, mci_loser_registration_id = ''r2'',
     mci_winner_score = 1, mci_loser_score = 0, mci_is_forfeit = False, mci_saga_id = None, mci_result_claim_id = Some ''c1''\<rparr>"

lemma plain_deps_clean [simp]: "clean_deps plain_deps" "quiet_deps plain_deps"
  by (simp_all add: clean_deps_def quiet_deps_def plain_deps_def keeps_sret same_board_def)

lemma cup_input_fields [simp]:
  "mci_match_id (cup_input i) = ''m1''" "mci_winner_registration_id (cup_input i) = i"
  "mci_loser_registration_id (cup_input i) = ''r2''" "mci_saga_id (cup_input i) = None" "scores_fit (cup_input i)"
  "(cup_input i)\<lparr>mci_saga_id := None\<rparr> = cup_input i"
  by (simp_all add: cup_input_def scores_fit_def)

lemma cup_may_start [simp]: "may_start (cup_input i) (cup_example (decided_match l # ms))"
  by (simp add: may_start_def find_row_def) (simp add: cup_example_def Let_def empty_world_def)

text \<open>A completion whose winner did not play in the match is refused by its first step.\<close>

lemma stranger_refused:
  assumes "may_start (cup_input ''zz'') w" and "find_row m_id ''m1'' (w_matches w) = Some (decided_match None)"
  shows "\<exists>e w'. execute_completion plain_deps (cup_input ''zz'') w = (Inl e, w')"
proof -
  obtain x0 w0 where x0: "new_execution (cup_input ''zz'') w = (Inr x0, w0)" "at_work x0 0 (w0, x0)" "same_board w w0"
    using assms(1) by (rule started)
  have found: "find_row m_id ''m1'' (w_matches w0) = Some (decided_match None)"
    using x0(3) assms(2) by (simp add: same_board_def)
  have "\<not> plays ''zz'' (decided_match None)" by (simp add: plays_def decided_match_def)
  moreover obtain w1 x1 where "fail_step ''validate_match'' ''Winner or loser is not a participant in this match'' (w0, x0) =
      (Inr (), (w1, x1))"
    using write_at_work [OF x0(2), of "\<lambda>t. SagaExecution_fail_step t ''validate_match''
        ''Winner or loser is not a participant in this match''" "sg_retry_count x0 + 1"]
    by (auto simp: fail_step_def SagaExecution_fail_step_def)
  ultimately have steps: "run_steps plain_deps (cup_input ''zz'') (w0, x0) =
      (Inl (InvalidState ''Winner or loser is not a participant in this match''), (w1, x1))"
    using found by (simp add: run_steps_def step_validate_match_def saga_match_def db_def sbind_def refuse_step_def)
  have "at_work x0 1 (w1, x1)"
    by (rule triple_err [OF run_steps_at_work [OF plain_deps_clean(2)] x0(2) steps])
  from ends_with [OF this, of "\<lambda>t. SagaExecution_fail t
      (DomainError_to_string (InvalidState ''Winner or loser is not a participant in this match''))" SagaStatus.Failed]
  obtain w2 where "run_saga (fail_saga (DomainError_to_string
      (InvalidState ''Winner or loser is not a participant in this match''))) x1 w1 =
      (Inr (Inr (), SagaExecution_fail (w_now w1)
        (DomainError_to_string (InvalidState ''Winner or loser is not a participant in this match'')) x1), w2)"
    by (auto simp: fail_saga_def SagaExecution_fail_def)
  with x0(1) steps show ?thesis by (simp add: execute_completion_def run_saga_def)
qed

definition stuck_row :: SagaExecution where
  "stuck_row = (saga_row ''x'' 0 \<lparr>csg_saga_type = ''match_completion'', csg_saga_version = 2, csg_tournament_id = Some ''t'',
     csg_match_id = Some ''m1'', csg_correlation_id = None, csg_input_data = input_to_json (cup_input ''zz''),
     csg_max_retries = 3\<rparr>)\<lparr>sg_status := SagaStatus.Failed\<rparr>"

definition stuck_example :: world where
  "stuck_example = (cup_example [decided_match None])\<lparr>w_sagas := [stuck_row]\<rparr>"

lemma stuck_row_fields [simp]:
  "sg_id stuck_row = ''x''" "sg_status stuck_row = SagaStatus.Failed" "\<not> saga_live stuck_row"
  "sg_input_data stuck_row = input_to_json (cup_input ''zz'')" "\<not> applied_standings stuck_row"
  by (simp_all add: stuck_row_def saga_row_def saga_live_def applied_standings_def)

lemma stuck_example_fields [simp]:
  "w_sagas stuck_example = [stuck_row]" "w_uuids stuck_example (w_next stuck_example) = ''0''"
  "find_row m_id ''m1'' (w_matches stuck_example) = Some (decided_match None)"
  by (simp_all add: stuck_example_def find_row_def) (simp add: cup_example_def Let_def empty_world_def, code_simp)

lemma stuck_may_start [simp]: "may_start (cup_input i) stuck_example"
  by (simp add: may_start_def)

lemma stuck_fails: "\<exists>e w'. execute_completion plain_deps (cup_input ''zz'') stuck_example = (Inl e, w')"
  by (rule stranger_refused) simp_all

theorem completion_settles_its_saga_witness:
  "\<exists>row. find_row sg_id ''0'' (w_sagas (snd (execute_completion plain_deps (cup_input ''zz'') stuck_example))) = Some row \<and>
     retryable ''match_completion'' 0 row"
proof -
  obtain e w' where run: "execute_completion plain_deps (cup_input ''zz'') stuck_example = (Inl e, w')"
    using stuck_fails by blast
  from completion_settles_its_saga [OF plain_deps_clean(2) stuck_may_start this, of 0]
  show ?thesis by (auto simp: run)
qed




theorem stored_inputs_stay_readable_witness:
  "all_readable (snd (execute_completion plain_deps (cup_input ''r1'') (cup_example [decided_match None])))"
  using stored_inputs_stay_readable [of plain_deps "cup_input ''r1''" "cup_example [decided_match None]"]
  by (simp add: all_readable_def cup_example_def Let_def empty_world_def)

definition roster_review :: ResultReview where
  "roster_review = ResultReview_for_roster_mismatch ''v1'' 0 ''c1'' ''m1'' None DemoValidationResult_default [] ''r1'' ''r2''"

theorem both_captains_acknowledge_witness:
  "\<exists>r1 w1 r2 w2. acknowledge ''v1'' ''r1'' ''u1'' (empty_world\<lparr>w_reviews := [roster_review]\<rparr>) = (Inr r1, w1) \<and>
     acknowledge ''v1'' ''r2'' ''u2'' w1 = (Inr r2, w2) \<and> rv_status r2 = ResultReviewStatus.Acknowledged"
proof -
  let ?w = "empty_world\<lparr>w_reviews := [roster_review]\<rparr>"
  have row: "find_row rv_id ''v1'' (w_reviews ?w) = Some roster_review" "awaiting ''r1'' ''r2'' roster_review"
    "''r1'' \<noteq> ''r2''" "\<not> rv_captain1_acknowledged roster_review" "\<not> rv_captain2_acknowledged roster_review"
    by (simp_all add: find_row_def awaiting_def roster_review_def ResultReview_for_roster_mismatch_def review_of_def)
  from both_captains_acknowledge [OF row, of "''u1''" "''u2''"] show ?thesis by (elim exE conjE) (intro exI conjI)
qed

end
