(* ===== verification/Spec2Isabelle.thy ===== *)
theory Spec2Isabelle
  imports SingleElim RoundRobin Swiss GroupStage DoubleElim Lifecycle VetoSpec StageRepo Registration Pagination PlatformTypes
    CodecSpec Entries Standings Forfeit ProgressionSpec ResultSpec CompletionSpec
begin

text \<open>
  A verification library for the tournament core of an esports portal: the Rust workspace under
  \<open>src/crates\<close>, whose domain services (\<open>portal-domain/src/services\<close>) work on repositories implemented in
  SQL (\<open>portal-db/src/adapters\<close>) and are driven by HTTP handlers and a background task
  (\<open>portal-api\<close>). Paths below are relative to \<open>src/crates\<close>.

  \<^bold>\<open>The program.\<close> A tournament opens for registration; teams or players enter, check in and are seeded.
  Starting it generates brackets (single and double elimination, round robin, Swiss, groups with playoffs),
  stores them as matches and links the matches. A match is scheduled, its participants check in, veto maps,
  play. A team claims a result; the opponent confirms or disputes it, or a deadline confirms it. The
  completion saga then moves winner and loser on, recomputes the standings and opens the next stage.
  Forfeits, withdrawals, reverted results and resolved disputes change results afterwards. The services
  share nothing but the tables.

  \<^bold>\<open>How it is modelled.\<close> An operation is a program \<open>world \<Rightarrow> (error + result) \<times> world\<close> (\<open>Prelude\<close>,
  \<open>World\<close>): the world has one list of rows per table, a clock, a supply of fresh ids and a random source.
  A method keeps the name of the source where HOL allows it; an SQL operation is prefixed with its table
  (\<open>match_\<close>, \<open>registration_\<close>, \<open>claim_\<close>, \<open>dispute_\<close>, \<open>saga_\<close>, ...), a method of a data type with its
  type (\<open>TournamentMatch_can_start\<close>). A panic, an early return and every error are values.
\<close>

section \<open>The theories\<close>

text \<open>
  Common ground:
  \<^item> \<open>Prelude\<close>: programs with state and errors, list helpers, stable sorting, decimal text.
  \<^item> \<open>Codec\<close>: the locales of stored texts and of status machines. \<open>CoreTypes\<close>
    (\<open>portal-core/src/types/tournament.rs\<close>, \<open>status.rs\<close>), \<open>VetoTypes\<close> (\<open>veto.rs\<close>), \<open>TeamTypes\<close>
    (\<open>league_team.rs\<close>), \<open>PlatformTypes\<close> (the other files of \<open>types\<close>), \<open>InviteTypes\<close> and \<open>ResultTypes\<close>
    (\<open>portal-domain/src/entities\<close>: invitations, forfeits, claims, disputes, reviews, sagas, audit) interpret
    them for every enum; \<open>CodecSpec\<close> collects what follows for the stored texts.
  \<^item> \<open>FormatPlan\<close>: the match formats of a stage and the parser of its settings.
  \<^item> \<open>Entities\<close>, \<open>Records\<close>, \<open>TeamRecords\<close>: rows, commands and their methods
    (\<open>entities/tournament.rs\<close>, \<open>repositories/tournament.rs\<close>). \<open>Errors\<close>: \<open>portal-core/src/errors.rs\<close> and the
    problems of \<open>portal-api/src/error.rs\<close>.
  \<^item> \<open>Tables\<close>: the locale \<open>row_table\<close> of a table with a primary key; \<open>World\<close>: the tables, each an
    interpretation of it. \<open>Pagination\<close>: page requests on 32-bit words.

  The bracket generators (\<open>services/tournament/bracket_generator\<close>), pure functions from participants to the
  matches to create: \<open>BracketGen\<close> (\<open>mod.rs\<close>, with the contract of a generator as a locale),
  \<open>SeedingOrder\<close> and \<open>SingleElim\<close> (\<open>single_elimination.rs\<close>), \<open>DoubleElim\<close>, \<open>RoundRobin\<close>, \<open>Swiss\<close>, \<open>GroupStage\<close>
  (\<open>groups.rs\<close>). Everybody is placed once, byes go to the best seeds, the sources of the matches form
  a tree, every loser of the winners bracket gets a second chance, everybody meets once, groups are balanced.

  The SQL adapters (\<open>portal-db/src/adapters\<close>), statement by statement with the constraints of the migrations:
  \<open>MatchRepo\<close> (\<open>match_.rs\<close>, \<open>match_status_log.rs\<close>), \<open>VetoRepo\<close> (\<open>veto.rs\<close>), \<open>TournamentRepo\<close>, \<open>StageRepo\<close>
  (\<open>stage.rs\<close>, \<open>bracket.rs\<close>), \<open>RegistrationRepo\<close>, \<open>MemberRepo\<close> (\<open>league_team/member.rs\<close>, \<open>pug.rs\<close>),
  \<open>InviteRepo\<close> (\<open>invitation.rs\<close>, \<open>map_pool.rs\<close>, \<open>forfeit.rs\<close>), \<open>StandingsRepo\<close>, \<open>ResultRepo\<close>
  (\<open>result_claim.rs\<close>, \<open>dispute.rs\<close>), \<open>SagaRepo\<close> (\<open>result_review.rs\<close>, \<open>saga.rs\<close>).

  The services (\<open>portal-domain/src/services/tournament\<close>), each followed by what is shown of it:
  \<^item> \<open>Lifecycle\<close> (\<open>match_lifecycle.rs\<close>): the status of a match. Its log is a gapless path of allowed
    transitions; a final status stays; two check-ins start the match.
  \<^item> \<open>Veto\<close> (\<open>veto.rs\<close>), \<open>VetoProofs\<close>, \<open>VetoSpec\<close>: the map veto. A session is the replay of its log (a
    refinement of an abstract veto), the standard formats come to an end, who may act and when.
  \<^item> \<open>Registration\<close> (\<open>registration.rs\<close>, \<open>registration_actor.rs\<close>, \<open>checkin.rs\<close>), \<open>TournamentService\<close>
    (\<open>service.rs\<close>, \<open>settings_merge.rs\<close>), \<open>Seeding\<close> (\<open>seeding.rs\<close>), \<open>Entries\<close>: entries stay within the
    capacity and unique, whatever the three services do.
  \<^item> \<open>Standings\<close> (\<open>standings.rs\<close>): the standings are a function of the matches and byes.
  \<^item> \<open>TournamentStart\<close>, \<open>TournamentLaunch\<close> (\<open>service.rs\<close>, \<open>helpers.rs\<close>): the start in every format.
  \<^item> \<open>Progression\<close> (\<open>progression.rs\<close>), \<open>ProgressionSpec\<close>: results move participants on, a revert undoes it.
  \<^item> \<open>Forfeit\<close> (\<open>forfeit.rs\<close>): forfeits, withdrawals, disqualifications and what they do to a bracket.
  \<^item> \<open>Results\<close> (\<open>result.rs\<close>), \<open>Disputes\<close> (\<open>dispute.rs\<close>), \<open>ResultSpec\<close>: accepted claims, one pending claim
    per match, the outcome of every resolution.
  \<^item> \<open>ResultReviews\<close> (\<open>result_review.rs\<close>), \<open>Completion\<close> (\<open>saga.rs\<close>, \<open>match_completion.rs\<close>),
    \<open>Background\<close> (\<open>portal-api/src/background/mod.rs\<close>), \<open>CompletionSpec\<close>: the saga settles its row, seats
    both participants, agrees with the progression service on the slots; the re-drive of failed sagas.
\<close>

section \<open>Decisions of the model\<close>

text \<open>
  \<^item> An id is its canonical text; parsing ids is not modelled. A time is a number of seconds. A text is the list of
    its UTF-8 bytes; a JSON number is an integer. Floats are exact fractions (ratings, confidences) or any
    linear order (Swiss tie-breaks), since the code only compares, copies or multiplies them.
  \<^item> \<open>i32\<close> is \<open>int\<close>, with the wrap of a release build written out where a sum or conversion can leave
    the range (\<open>Results\<close>, \<open>TournamentStart\<close>); the page requests are \<open>32 word\<close>; counters and sizes are \<open>nat\<close>.
  \<^item> Operations run one after the other; each awaited repository call is atomic, and the clock does not move
    within an operation. A transaction is rolled back on failure; other operations keep the writes
    made before a failure, as in the code.
  \<^item> A statement fails for the reasons the model has: a missing row, a unique key, a check, a text too
    long for a status log. A lost connection, foreign keys and other column widths are left out. Rows are stored as
    domain records, which rests on the round trips of the stored texts. Rows a statement does not order keep
    the order of insertion; the collation of texts is a parameter.
  \<^item> A hash map that is only looked up is an association list. Random choices read the random source.
  \<^item> Loops are structural recursion or \<open>function\<close> with a measure. The decider chain of the veto has fuel
    \<open>length + 2\<close> of the format, one more step than a session has actions left, and \<open>VetoSpec\<close> shows that sessions
    end within it; the while loop of the seeding order and a call out of range give \<open>None\<close>, and the theorems show \<open>Some\<close>.
\<close>

section \<open>Not modelled\<close>

text \<open>
  Parameters: the game plugins (veto formats, map pools), the memberships of a player (a database view),
  archived leagues and seasons, the shuffle, the legal maps of a match, the validation of demos, the update of
  player statistics, the creation of a veto session by the background pass and its phases for scheduling, evidence,
  reservations, pick-up games and server heartbeats.

  Left out: the HTTP layer (handlers, routes, DTOs, web sockets, authentication), the flows of game
  servers and pick-up games, plugins, the demo scanner, storage, cache, command line, tests; of the domain the
  services of leagues, users, players, permissions, bans, awards, demos, evidence, Steam, scheduling,
  availability, lineups, delegates and chat of the veto, and their adapters; logging and metrics everywhere.
  They call the modelled services or are called by nothing of them.
\<close>

end
